(* ===== verification/Prelude.thy ===== *)
theory Prelude
  imports Main "HOL-Library.Word" "HOL-Library.Sublist"
begin

text \<open>
  Shared vocabulary of the development: the machine integers of the Rust code, the outcome of a
  fallible call (a value, an error value, or a panic), the collections of facts the component
  theories fill, and the generic list lemmas they share.
\<close>

section \<open>Machine integers\<close>

type_synonym u8 = "8 word"
type_synonym u16 = "16 word"
type_synonym u32 = "32 word"
type_synonym u64 = "64 word"
type_synonym bytes = "u8 list"

text \<open>
  A cast \<open>n as i32\<close> of a wider signed integer keeps the low 32 bits, read as two's complement.
\<close>

definition as_i32 :: "int \<Rightarrow> int" where
  "as_i32 n = (n + 2 ^ 31) mod 2 ^ 32 - 2 ^ 31"

lemma as_i32_id: "- (2 ^ 31) \<le> n \<Longrightarrow> n < 2 ^ 31 \<Longrightarrow> as_i32 n = n"
  by (simp add: as_i32_def)

lemma as_i32_small [simp]: "0 \<le> n \<Longrightarrow> n < 2147483648 \<Longrightarrow> as_i32 n = n"
  by (simp add: as_i32_def)

lemma unat_word_of_nat: "n < 2 ^ LENGTH('a) \<Longrightarrow> unat (word_of_nat n :: 'a::len word) = n"
  by (simp add: unat_of_nat)

section \<open>Outcomes\<close>

text \<open>
  A Rust call that returns \<open>Result<T>\<close> and may also panic (a read past the end of a buffer, an
  unwrap of an absent value) has three outcomes.
\<close>

datatype ('a, 'e) outcome = Ok (the_ok: 'a) | Err (the_err: 'e) | Panic

fun obind :: "('a, 'e) outcome \<Rightarrow> ('a \<Rightarrow> ('b, 'e) outcome) \<Rightarrow> ('b, 'e) outcome" where
  "obind (Ok x) f = f x"
| "obind (Err e) f = Err e"
| "obind Panic f = Panic"

fun is_ok :: "('a, 'e) outcome \<Rightarrow> bool" where
  "is_ok (Ok _) = True"
| "is_ok _ = False"

text \<open>\<open>unwrap_or_default\<close>: an error becomes the default value; a panic stays one.\<close>

fun unwrap_or :: "'a \<Rightarrow> ('a, 'e) outcome \<Rightarrow> 'a option" where
  "unwrap_or d (Ok x) = Some x"
| "unwrap_or d (Err e) = Some d"
| "unwrap_or d Panic = None"

lemma obind_eq_Ok: "obind r f = Ok y \<longleftrightarrow> (\<exists>x. r = Ok x \<and> f x = Ok y)"
  by (cases r) auto

section \<open>Collections of facts\<close>

named_theorems wire_rt "reading back what was just written, with the rest of the buffer"
named_theorems wire_len "lengths of encoded values"
named_theorems db_simps "how the table operations act on the stored rows"

section \<open>Lists\<close>

lemma find_SomeD: "find P xs = Some x \<Longrightarrow> x \<in> set xs \<and> P x"
  by (auto simp: find_Some_iff)

lemma find_append_last: "list_all (\<lambda>x. \<not> P x) xs \<Longrightarrow> P u \<Longrightarrow> find P (xs @ [u]) = Some u"
  by (induction xs) auto

lemma distinct_map_filterI: "distinct (map f xs) \<Longrightarrow> distinct (map f (filter P xs))"
  by (induction xs) auto

lemma last_drop_suffix: "drop (length xs - k) xs = rev (take k (rev xs))"
  by (simp add: rev_take)

end
