(* ===== verification/Rust_Strings.thy ===== *)
theory Rust_Strings
  imports Prelude
begin

text \<open>
  Rust's \<open>String\<close> as the list of its Unicode scalar values, its UTF-8 bytes, and the functions of
  \<open>std\<close> the code calls on strings and paths. Functions that depend on the Unicode tables
  (\<open>to_lowercase\<close>, \<open>is_alphanumeric\<close>, \<open>is_whitespace\<close>, \<open>is_numeric\<close>) are fields of a record the
  definitions take as an argument: the facts hold whatever the tables say, and \<open>ascii_tables\<close> is
  what every version of the tables says on ASCII text.
\<close>

section \<open>Strings\<close>

type_synonym rchar = nat
type_synonym rstring = "rchar list"

definition str :: "string \<Rightarrow> rstring" where
  "str s = map of_char s"

definition is_scalar :: "rchar \<Rightarrow> bool" where
  "is_scalar c \<longleftrightarrow> c < 0xD800 \<or> (0xE000 \<le> c \<and> c < 0x110000)"

definition valid_str :: "rstring \<Rightarrow> bool" where
  "valid_str s \<longleftrightarrow> (\<forall>c\<in>set s. is_scalar c)"

lemma valid_str_simps [simp]:
  "valid_str []" "valid_str (c # s) \<longleftrightarrow> is_scalar c \<and> valid_str s"
  "valid_str (s @ t) \<longleftrightarrow> valid_str s \<and> valid_str t"
  by (auto simp: valid_str_def)

section \<open>UTF-8\<close>

definition byte_of :: "nat \<Rightarrow> u8" where
  "byte_of n = word_of_nat n"

definition utf8_char :: "rchar \<Rightarrow> bytes" where
  "utf8_char c =
     (if c < 0x80 then [byte_of c]
      else if c < 0x800 then [byte_of (0xC0 + c div 64), byte_of (0x80 + c mod 64)]
      else if c < 0x10000 then
        [byte_of (0xE0 + c div 4096), byte_of (0x80 + c div 64 mod 64),
         byte_of (0x80 + c mod 64)]
      else
        [byte_of (0xF0 + c div 262144), byte_of (0x80 + c div 4096 mod 64),
         byte_of (0x80 + c div 64 mod 64), byte_of (0x80 + c mod 64)])"

definition as_bytes :: "rstring \<Rightarrow> bytes" where
  "as_bytes s = concat (map utf8_char s)"

definition cont :: "u8 \<Rightarrow> bool" where
  "cont b \<longleftrightarrow> 0x80 \<le> unat b \<and> unat b < 0xC0"

text \<open>
  \<open>String::from_utf8\<close> accepts exactly the well-formed UTF-8 byte sequences: shortest form, no
  surrogates, nothing above \<open>0x10FFFF\<close>.
\<close>

fun from_utf8 :: "bytes \<Rightarrow> rstring option" where
  "from_utf8 [] = Some []"
| "from_utf8 (b0 # bs) =
     (let n0 = unat b0 in
      if n0 < 0x80 then map_option (\<lambda>s. n0 # s) (from_utf8 bs)
      else if n0 < 0xE0 then
        (case bs of
           b1 # bs1 \<Rightarrow>
             (let c = (n0 - 0xC0) * 64 + (unat b1 - 0x80) in
              if 0xC0 \<le> n0 \<and> cont b1 \<and> 0x80 \<le> c
              then map_option (\<lambda>s. c # s) (from_utf8 bs1) else None)
         | _ \<Rightarrow> None)
      else if n0 < 0xF0 then
        (case bs of
           b1 # b2 # bs2 \<Rightarrow>
             (let c = (n0 - 0xE0) * 4096 + (unat b1 - 0x80) * 64 + (unat b2 - 0x80) in
              if cont b1 \<and> cont b2 \<and> 0x800 \<le> c \<and> is_scalar c
              then map_option (\<lambda>s. c # s) (from_utf8 bs2) else None)
         | _ \<Rightarrow> None)
      else
        (case bs of
           b1 # b2 # b3 # bs3 \<Rightarrow>
             (let c = (n0 - 0xF0) * 262144 + (unat b1 - 0x80) * 4096
                      + (unat b2 - 0x80) * 64 + (unat b3 - 0x80) in
              if cont b1 \<and> cont b2 \<and> cont b3 \<and> 0x10000 \<le> c \<and> is_scalar c
              then map_option (\<lambda>s. c # s) (from_utf8 bs3) else None)
         | _ \<Rightarrow> None))"

declare from_utf8.simps(2) [simp del]

lemma unat_byte [simp]: "n < 256 \<Longrightarrow> unat (byte_of n) = n"
  by (simp add: byte_of_def unat_of_nat)

lemma split64_3: "c div 4096 * 4096 + c div 64 mod 64 * 64 + c mod 64 = (c :: nat)"
proof -
  have "c div 4096 = c div 64 div 64" by (simp add: div_mult2_eq [symmetric])
  moreover have "c div 64 div 64 * 64 + c div 64 mod 64 = c div 64" by simp
  moreover have "c div 64 * 64 + c mod 64 = c" by simp
  ultimately show ?thesis by linarith
qed

lemma split64_4:
  "c div 262144 * 262144 + c div 4096 mod 64 * 4096 + c div 64 mod 64 * 64 + c mod 64 = (c :: nat)"
proof -
  have "c div 262144 = c div 4096 div 64" by (simp add: div_mult2_eq [symmetric])
  moreover have "c div 4096 div 64 * 64 + c div 4096 mod 64 = c div 4096" by simp
  ultimately show ?thesis using split64_3 [of c] by linarith
qed

lemma from_utf8_char:
  assumes "is_scalar c"
  shows "from_utf8 (utf8_char c @ bs) = map_option (\<lambda>s. c # s) (from_utf8 bs)"
proof -
  have c: "c < 0x110000" using assms by (auto simp: is_scalar_def)
  consider "c < 0x80" | "0x80 \<le> c" "c < 0x800" | "0x800 \<le> c" "c < 0x10000" | "0x10000 \<le> c"
    by linarith
  then show ?thesis
  proof cases
    case 1
    then show ?thesis by (simp add: utf8_char_def from_utf8.simps(2))
  next
    case 2
    then have b: "c div 64 < 32" "0xC0 + c div 64 < 0xE0" by auto
    have "0xC0 + c div 64 \<ge> 0xC2" using 2 by simp
    with 2 b show ?thesis
      by (simp add: utf8_char_def from_utf8.simps(2) cont_def Let_def)
  next
    case 3
    then have b: "c div 4096 < 16" by auto
    have e: "c div 4096 * 4096 + c div 64 mod 64 * 64 + c mod 64 = c" by (rule split64_3)
    from 3 b e assms show ?thesis
      by (simp add: utf8_char_def from_utf8.simps(2) cont_def Let_def)
  next
    case 4
    with c have b: "c div 262144 < 5" by auto
    have e: "c div 262144 * 262144 + c div 4096 mod 64 * 4096 + c div 64 mod 64 * 64 + c mod 64 = c"
      by (rule split64_4)
    from 4 b e assms show ?thesis
      by (simp add: utf8_char_def from_utf8.simps(2) cont_def Let_def)
  qed
qed

lemma from_utf8_as_bytes: "valid_str s \<Longrightarrow> from_utf8 (as_bytes s) = Some s"
  by (induction s) (auto simp: as_bytes_def from_utf8_char)

lemma as_bytes_simps [simp]:
  "as_bytes [] = []" "as_bytes (s @ t) = as_bytes s @ as_bytes t"
  "as_bytes (c # s) = utf8_char c @ as_bytes s"
  by (simp_all add: as_bytes_def)

lemma length_utf8_char: "1 \<le> length (utf8_char c) \<and> length (utf8_char c) \<le> 4"
  by (simp add: utf8_char_def)

lemma length_as_bytes: "length s \<le> length (as_bytes s) \<and> length (as_bytes s) \<le> 4 * length s"
proof (induction s)
  case (Cons c s)
  then show ?case using length_utf8_char [of c] by simp
qed simp

text \<open>What \<open>from_utf8\<close> accepts is the encoding of what it gives.\<close>

lemma byte_of_unat [simp]: "byte_of (unat b) = b"
  by (simp add: byte_of_def)

lemma byte_of_unat_eq: "n = unat b \<Longrightarrow> byte_of n = b"
  by simp

lemma cont_obtain: "cont b \<Longrightarrow> \<exists>x. unat b = 128 + x \<and> x < 64"
  by (intro exI [of _ "unat b - 128"]) (auto simp: cont_def)

lemma div_mod_64: "z < 64 \<Longrightarrow> (a * 64 + z) div 64 = a" "z < 64 \<Longrightarrow> (a * 64 + z) mod 64 = (z :: nat)"
  by simp_all

lemma utf8_two:
  assumes "cont b1" "192 \<le> unat b0" "unat b0 < 224" "c = (unat b0 - 192) * 64 + (unat b1 - 128)" "128 \<le> c"
  shows "utf8_char c = [b0, b1]"
proof -
  from cont_obtain [OF assms(1)] obtain x where x: "unat b1 = 128 + x" "x < 64" by blast
  obtain y where y: "unat b0 = 192 + y" "y < 32" using assms(2,3) by (intro that [of "unat b0 - 192"]) auto
  have c: "c = y * 64 + x" using assms(4) x y by simp
  then have "c div 64 = y" "c mod 64 = x" "c < 2048" using x y by auto
  with assms(5) x y show ?thesis by (simp add: utf8_char_def byte_of_unat_eq)
qed

lemma utf8_three:
  assumes "cont b1" "cont b2" "224 \<le> unat b0" "unat b0 < 240"
    "c = (unat b0 - 224) * 4096 + (unat b1 - 128) * 64 + (unat b2 - 128)" "2048 \<le> c"
  shows "utf8_char c = [b0, b1, b2]"
proof -
  from cont_obtain [OF assms(1)] obtain x where x: "unat b1 = 128 + x" "x < 64" by blast
  from cont_obtain [OF assms(2)] obtain z where z: "unat b2 = 128 + z" "z < 64" by blast
  obtain y where y: "unat b0 = 224 + y" "y < 16" using assms(3,4) by (intro that [of "unat b0 - 224"]) auto
  have c: "c = (y * 64 + x) * 64 + z" using assms(5) x y z by simp
  then have d: "c div 64 = y * 64 + x" "c mod 64 = z" using div_mod_64 [OF z(2)] by (simp_all only: c)
  have "c div 4096 = c div 64 div 64" by (simp add: div_mult2_eq [symmetric])
  with d x have "c div 4096 = y" "c div 64 mod 64 = x" by auto
  moreover have "c < 65536" using c x y z by auto
  ultimately show ?thesis using assms(6) x y z d by (simp add: utf8_char_def byte_of_unat_eq)
qed

lemma utf8_four:
  assumes "cont b1" "cont b2" "cont b3" "240 \<le> unat b0"
    "c = (unat b0 - 240) * 262144 + (unat b1 - 128) * 4096 + (unat b2 - 128) * 64 + (unat b3 - 128)" "65536 \<le> c"
  shows "utf8_char c = [b0, b1, b2, b3]"
proof -
  from cont_obtain [OF assms(1)] obtain x where x: "unat b1 = 128 + x" "x < 64" by blast
  from cont_obtain [OF assms(2)] obtain z where z: "unat b2 = 128 + z" "z < 64" by blast
  from cont_obtain [OF assms(3)] obtain w where w: "unat b3 = 128 + w" "w < 64" by blast
  obtain y where y: "unat b0 = 240 + y" using assms(4) by (intro that [of "unat b0 - 240"]) auto
  have c: "c = ((y * 64 + x) * 64 + z) * 64 + w" using assms(5) x y z w by simp
  then have d: "c div 64 = (y * 64 + x) * 64 + z" "c mod 64 = w"
    using div_mod_64 [OF w(2)] by (simp_all only: c)
  have "c div 4096 = c div 64 div 64" by (simp add: div_mult2_eq [symmetric])
  then have e: "c div 4096 = y * 64 + x" "c div 64 mod 64 = z" using div_mod_64 [OF z(2)] by (simp_all only: d)
  have "c div 262144 = c div 4096 div 64" by (simp add: div_mult2_eq [symmetric])
  with e x have "c div 262144 = y" "c div 4096 mod 64 = x" by auto
  then show ?thesis using assms(6) x y z w d e by (simp add: utf8_char_def byte_of_unat_eq)
qed

lemma as_bytes_from_utf8: "from_utf8 bs = Some s \<Longrightarrow> as_bytes s = bs \<and> valid_str s"
proof (induction bs arbitrary: s rule: from_utf8.induct)
  case 1
  then show ?case by simp
next
  case (2 b0 bs)
  let ?n = "unat b0"
  consider "?n < 128" | "128 \<le> ?n" "?n < 224" | "224 \<le> ?n" "?n < 240" | "240 \<le> ?n" by linarith
  then show ?case
  proof cases
    case 1
    with "2.prems" obtain t where t: "from_utf8 bs = Some t" "s = ?n # t"
      by (auto simp: from_utf8.simps(2) Let_def)
    from "2.IH"(1) [OF refl _ t(1)] 1 have "as_bytes t = bs" "valid_str t" by simp_all
    with 1 t show ?thesis by (auto simp: utf8_char_def is_scalar_def)
  next
    case 2
    with "2.prems" obtain b1 bs1 t where t: "bs = b1 # bs1" "192 \<le> ?n" "cont b1"
        "128 \<le> (?n - 192) * 64 + (unat b1 - 128)"
        "from_utf8 bs1 = Some t" "s = ((?n - 192) * 64 + (unat b1 - 128)) # t"
      by (auto simp: from_utf8.simps(2) Let_def split: list.splits if_splits)
    have "as_bytes t = bs1 \<and> valid_str t" using "2.IH"(2) [OF refl _ _ t(1) refl] t 2 by simp
    moreover have "(?n - 192) * 64 + (unat b1 - 128) < 2048" using 2 t(2,3) by (auto simp: cont_def)
    ultimately show ?thesis using t utf8_two [OF t(3,2) 2(2) refl t(4)] by (simp add: is_scalar_def)
  next
    case 3
    with "2.prems" obtain b1 b2 bs1 t where t: "bs = b1 # b2 # bs1" "cont b1" "cont b2"
        "2048 \<le> (?n - 224) * 4096 + (unat b1 - 128) * 64 + (unat b2 - 128)"
        "is_scalar ((?n - 224) * 4096 + (unat b1 - 128) * 64 + (unat b2 - 128))"
        "from_utf8 bs1 = Some t" "s = ((?n - 224) * 4096 + (unat b1 - 128) * 64 + (unat b2 - 128)) # t"
      by (auto simp: from_utf8.simps(2) Let_def split: list.splits if_splits)
    have "as_bytes t = bs1 \<and> valid_str t" using "2.IH"(3) [OF refl _ _ _ t(1) refl refl] t 3 by simp
    then show ?thesis using t utf8_three [OF t(2,3) 3 refl t(4)] by simp
  next
    case 4
    with "2.prems" obtain b1 b2 b3 bs1 t where t: "bs = b1 # b2 # b3 # bs1" "cont b1" "cont b2" "cont b3"
        "65536 \<le> (?n - 240) * 262144 + (unat b1 - 128) * 4096 + (unat b2 - 128) * 64 + (unat b3 - 128)"
        "is_scalar ((?n - 240) * 262144 + (unat b1 - 128) * 4096 + (unat b2 - 128) * 64 + (unat b3 - 128))"
        "from_utf8 bs1 = Some t"
        "s = ((?n - 240) * 262144 + (unat b1 - 128) * 4096 + (unat b2 - 128) * 64 + (unat b3 - 128)) # t"
      by (auto simp: from_utf8.simps(2) Let_def split: list.splits if_splits)
    have "as_bytes t = bs1 \<and> valid_str t" using "2.IH"(4) [OF refl _ _ _ t(1) refl refl refl] t 4 by simp
    then show ?thesis using t utf8_four [OF t(2-4) 4 refl t(5)] by simp
  qed
qed

section \<open>Character tables\<close>

record unicode =
  lowercase :: "rstring \<Rightarrow> rstring"
  alphanumeric :: "rchar \<Rightarrow> bool"
  whitespace :: "rchar \<Rightarrow> bool"
  numeric :: "rchar \<Rightarrow> bool"

definition ascii_lower :: "rchar \<Rightarrow> rchar" where
  "ascii_lower c = (if 65 \<le> c \<and> c \<le> 90 then c + 32 else c)"

definition ascii_upper :: "rchar \<Rightarrow> rchar" where
  "ascii_upper c = (if 97 \<le> c \<and> c \<le> 122 then c - 32 else c)"

definition ascii_tables :: unicode where
  "ascii_tables =
     \<lparr>lowercase = map ascii_lower,
      alphanumeric = (\<lambda>c. (48 \<le> c \<and> c \<le> 57) \<or> (65 \<le> c \<and> c \<le> 90) \<or> (97 \<le> c \<and> c \<le> 122)),
      whitespace = (\<lambda>c. (9 \<le> c \<and> c \<le> 13) \<or> c = 32),
      numeric = (\<lambda>c. 48 \<le> c \<and> c \<le> 57)\<rparr>"

section \<open>Searching and splitting\<close>

definition contains :: "rstring \<Rightarrow> rstring \<Rightarrow> bool" where
  "contains s needle \<longleftrightarrow> sublist needle s"

definition ends_with :: "rstring \<Rightarrow> rstring \<Rightarrow> bool" where
  "ends_with s x \<longleftrightarrow> suffix x s"

text \<open>\<open>s.find(needle)\<close> followed by slicing before and after the match.\<close>

fun split_once_str :: "rstring \<Rightarrow> rstring \<Rightarrow> (rstring \<times> rstring) option" where
  "split_once_str needle [] = (if needle = [] then Some ([], []) else None)"
| "split_once_str needle (c # s) =
     (if prefix needle (c # s) then Some ([], drop (length needle) (c # s))
      else map_option (\<lambda>(a, b). (c # a, b)) (split_once_str needle s))"

definition trim :: "unicode \<Rightarrow> rstring \<Rightarrow> rstring" where
  "trim u s = rev (dropWhile (whitespace u) (rev (dropWhile (whitespace u) s)))"

definition trim_start_matches :: "(rchar \<Rightarrow> bool) \<Rightarrow> rstring \<Rightarrow> rstring" where
  "trim_start_matches P s = dropWhile P s"

fun split_words :: "(rchar \<Rightarrow> bool) \<Rightarrow> rstring \<Rightarrow> rstring \<Rightarrow> rstring list" where
  "split_words P acc [] = (if acc = [] then [] else [acc])"
| "split_words P acc (c # s) =
     (if P c then (if acc = [] then split_words P [] s else acc # split_words P [] s)
      else split_words P (acc @ [c]) s)"

definition split_whitespace :: "unicode \<Rightarrow> rstring \<Rightarrow> rstring list" where
  "split_whitespace u s = split_words (whitespace u) [] s"

fun join_str :: "rstring \<Rightarrow> rstring list \<Rightarrow> rstring" where
  "join_str sep [] = []"
| "join_str sep [x] = x"
| "join_str sep (x # y # zs) = x @ sep @ join_str sep (y # zs)"

text \<open>\<open>rsplit(P).next()\<close>, and \<open>rsplit_once(c)\<close>.\<close>

definition after_last :: "(rchar \<Rightarrow> bool) \<Rightarrow> rstring \<Rightarrow> rstring" where
  "after_last P s = rev (takeWhile (\<lambda>c. \<not> P c) (rev s))"

definition rsplit_once :: "rchar \<Rightarrow> rstring \<Rightarrow> (rstring \<times> rstring) option" where
  "rsplit_once c s =
     (if c \<in> set s
      then Some (rev (tl (dropWhile (\<lambda>d. d \<noteq> c) (rev s))), after_last (\<lambda>d. d = c) s)
      else None)"

lemma after_last_not: "c \<in> set (after_last P s) \<Longrightarrow> \<not> P c"
  by (auto simp: after_last_def dest: set_takeWhileD)

lemma after_last_suffix: "suffix (after_last P s) s"
  unfolding after_last_def suffix_to_prefix by (simp add: takeWhile_is_prefix)

lemma after_last_id: "\<forall>c\<in>set s. \<not> P c \<Longrightarrow> after_last P s = s"
  unfolding after_last_def by (metis rev_rev_ident set_rev takeWhile_eq_all_conv)

lemma after_last_append: "P c \<Longrightarrow> after_last P (s @ c # t) = after_last P t"
  by (auto simp: after_last_def takeWhile_append) (metis set_rev takeWhile_eq_all_conv)

lemma split_words_props:
  "\<forall>c\<in>set acc. \<not> P c \<Longrightarrow>
   \<forall>w\<in>set (split_words P acc s). w \<noteq> [] \<and> (\<forall>c\<in>set w. \<not> P c)"
proof (induction s arbitrary: acc)
  case Nil
  then show ?case by simp
next
  case (Cons c s)
  show ?case
  proof (cases "P c")
    case True
    with Cons.IH [of "[]"] Cons.prems show ?thesis by simp
  next
    case False
    with Cons.prems have "\<forall>d\<in>set (acc @ [c]). \<not> P d" by simp
    from Cons.IH [OF this] False show ?thesis by simp
  qed
qed

lemma split_once_str_append:
  "split_once_str needle s = Some (a, b) \<Longrightarrow> s = a @ needle @ b"
proof (induction s arbitrary: a)
  case (Cons c s)
  show ?case
  proof (cases "prefix needle (c # s)")
    case True
    with Cons.prems show ?thesis by (auto simp: prefix_def)
  next
    case False
    with Cons.prems obtain a' where "split_once_str needle s = Some (a', b)" "a = c # a'"
      by auto
    with Cons.IH show ?thesis by simp
  qed
qed (auto split: if_splits)

lemma split_once_str_None: "split_once_str needle s = None \<longleftrightarrow> \<not> contains s needle"
proof (induction s)
  case Nil
  then show ?case by (simp add: contains_def)
next
  case (Cons c s)
  then show ?case by (auto simp: contains_def sublist_Cons_right)
qed

section \<open>Decimal numbers\<close>

fun show_nat :: "nat \<Rightarrow> rstring" where
  "show_nat n = (if n < 10 then [48 + n] else show_nat (n div 10) @ [48 + n mod 10])"

declare show_nat.simps [simp del]

definition show_int :: "int \<Rightarrow> rstring" where
  "show_int n = (if n < 0 then 45 # show_nat (nat (- n)) else show_nat (nat n))"

section \<open>Paths\<close>

text \<open>
  \<open>Path::file_name\<close>: the last component, if it is a normal one; \<open>Path::extension\<close>: what follows
  the last dot of the file name, unless the only dot is its first character; \<open>Path::join\<close>.
\<close>

definition path_file_name :: "rstring \<Rightarrow> rstring option" where
  "path_file_name p =
     (case rev (filter (\<lambda>w. w \<noteq> str ''.'') (split_words (\<lambda>c. c = 47) [] p)) of
        [] \<Rightarrow> None
      | w # _ \<Rightarrow> if w = str ''..'' then None else Some w)"

definition path_extension :: "rstring \<Rightarrow> rstring option" where
  "path_extension p =
     (case path_file_name p of
        None \<Rightarrow> None
      | Some f \<Rightarrow>
          (case rsplit_once 46 f of
             None \<Rightarrow> None
           | Some (before, after) \<Rightarrow> if before = [] then None else Some after))"

definition path_join :: "rstring \<Rightarrow> rstring \<Rightarrow> rstring" where
  "path_join base name =
     (if prefix [47] name \<or> base = [] then name
      else if suffix [47] base then base @ name
      else base @ [47] @ name)"

end
