(* ===== verification/Wire.thy ===== *)
theory Wire
  imports Rust_Strings
begin

text \<open>
  The byte buffers of the protocol code (\<open>bytes::BytesMut\<close>, little-endian put and get) and the
  length-prefixed strings of \<open>src/src/protocol/messages.rs\<close>. A reader takes the unread bytes and
  returns its outcome and the bytes left; a \<open>get\<close> past the end of the buffer panics, as
  \<open>bytes::Buf\<close> documents. \<open>length\<close> of the buffer is \<open>Buf::remaining\<close>.
\<close>

section \<open>Readers\<close>

datatype wire_error =
    NoStringLength | NoStringData | InvalidUtf8 | MessageTooShort | UnknownPeerCode u32
  | EncodingNotImplemented | NotEnoughData | ExpectedPeerInit u8 | UnknownConnType rstring
  | InvalidPeerAddress | ChatTooShort | UnexpectedEof

type_synonym 'a reader = "bytes \<Rightarrow> ('a, wire_error) outcome \<times> bytes"

fun rbind :: "'a reader \<Rightarrow> ('a \<Rightarrow> 'b reader) \<Rightarrow> 'b reader" where
  "rbind p f bs =
     (case p bs of
        (Ok x, bs') \<Rightarrow> f x bs'
      | (Err e, bs') \<Rightarrow> (Err e, bs')
      | (Panic, bs') \<Rightarrow> (Panic, bs'))"

definition rret :: "'a \<Rightarrow> 'a reader" where
  "rret x bs = (Ok x, bs)"

definition rfail :: "wire_error \<Rightarrow> 'a reader" where
  "rfail e bs = (Err e, bs)"

definition remaining :: "nat reader" where
  "remaining bs = (Ok (length bs), bs)"

text \<open>\<open>rsimps\<close>: how a reader program runs on a given buffer.\<close>

lemma rret_run [simp]: "rret x bs = (Ok x, bs)" by (simp add: rret_def)
lemma rfail_run [simp]: "rfail e bs = (Err e, bs)" by (simp add: rfail_def)
lemma remaining_run [simp]: "remaining bs = (Ok (length bs), bs)" by (simp add: remaining_def)

lemma rbind_Ok: "p bs = (Ok x, bs') \<Longrightarrow> rbind p f bs = f x bs'" by simp
lemma rbind_Err: "p bs = (Err e, bs') \<Longrightarrow> rbind p f bs = (Err e, bs')" by simp
lemma rbind_Panic: "p bs = (Panic, bs') \<Longrightarrow> rbind p f bs = (Panic, bs')" by simp

lemma rbind_eq_Ok:
  "rbind p f bs = (Ok y, bs2) \<longleftrightarrow> (\<exists>x bs1. p bs = (Ok x, bs1) \<and> f x bs1 = (Ok y, bs2))"
  by (auto split: prod.splits outcome.splits)

section \<open>Fixed-width integers\<close>

definition put_u8 :: "u8 \<Rightarrow> bytes" where
  "put_u8 w = [w]"

definition put_u16_le :: "u16 \<Rightarrow> bytes" where
  "put_u16_le w = [ucast w, ucast (drop_bit 8 w)]"

definition put_u32_le :: "u32 \<Rightarrow> bytes" where
  "put_u32_le w = [ucast w, ucast (drop_bit 8 w), ucast (drop_bit 16 w), ucast (drop_bit 24 w)]"

definition put_u64_le :: "u64 \<Rightarrow> bytes" where
  "put_u64_le w =
     [ucast w, ucast (drop_bit 8 w), ucast (drop_bit 16 w), ucast (drop_bit 24 w),
      ucast (drop_bit 32 w), ucast (drop_bit 40 w), ucast (drop_bit 48 w), ucast (drop_bit 56 w)]"

fun from_le :: "bytes \<Rightarrow> 'a::len word" where
  "from_le [] = 0"
| "from_le (b # bs) = or (ucast b) (push_bit 8 (from_le bs))"

definition get_le :: "nat \<Rightarrow> 'a::len word reader" where
  "get_le n bs = (if length bs < n then (Panic, bs) else (Ok (from_le (take n bs)), drop n bs))"

definition get_u8 :: "u8 reader" where
  "get_u8 = get_le 1"

definition get_u16_le :: "u16 reader" where
  "get_u16_le = get_le 2"

definition get_u32_le :: "u32 reader" where
  "get_u32_le = get_le 4"

definition get_u64_le :: "u64 reader" where
  "get_u64_le = get_le 8"

lemma length_put [simp]:
  "length (put_u8 b) = 1" "length (put_u16_le h) = 2"
  "length (put_u32_le w) = 4" "length (put_u64_le d) = 8"
  by (simp_all add: put_u8_def put_u16_le_def put_u32_le_def put_u64_le_def)

lemma from_le_put_u8: "from_le (put_u8 b) = (b :: u8)"
  by (simp add: put_u8_def)

lemma le_low_high: "or (ucast (ucast w :: u8)) (push_bit 8 (drop_bit 8 w)) = (w :: 'a::len word)"
proof (rule bit_word_eqI)
  fix n
  show "bit (or (ucast (ucast w :: u8)) (push_bit 8 (drop_bit 8 w))) n = bit w n" if "n < LENGTH('a)"
    using that by (cases "n < 8") (auto simp: bit_simps)
qed

lemma from_le_step: "from_le bs = drop_bit 8 w \<Longrightarrow> from_le (ucast w # bs) = (w :: 'a::len word)"
  by (simp add: le_low_high)

lemma drop_bit_len: "LENGTH('a) \<le> n \<Longrightarrow> drop_bit n (w :: 'a::len word) = 0"
  by (rule bit_word_eqI) (auto simp: bit_simps dest: bit_imp_le_length)

lemma from_le_put_u16: "from_le (put_u16_le w) = (w :: u16)"
  unfolding put_u16_le_def by (intro from_le_step) (simp add: drop_bit_len)

lemma from_le_put_u32: "from_le (put_u32_le w) = (w :: u32)"
proof -
  have "from_le [ucast (drop_bit 24 w)] = drop_bit 24 w"
    by (rule from_le_step) (simp add: drop_bit_len)
  then have "from_le [ucast (drop_bit 16 w), ucast (drop_bit 24 w)] = drop_bit 16 w"
    by (intro from_le_step) simp
  then have "from_le [ucast (drop_bit 8 w), ucast (drop_bit 16 w), ucast (drop_bit 24 w)]
      = drop_bit 8 w"
    by (intro from_le_step) simp
  then show ?thesis unfolding put_u32_le_def by (rule from_le_step)
qed

lemma from_le_put_u64: "from_le (put_u64_le w) = (w :: u64)"
proof -
  have step: "from_le bs = drop_bit (n + 8) w \<Longrightarrow> from_le (ucast (drop_bit n w) # bs) = drop_bit n w"
    for bs n
    by (rule from_le_step) (simp add: add.commute)
  have "from_le [] = drop_bit (56 + 8) w" by (simp add: drop_bit_len)
  from step [OF this] have "from_le [ucast (drop_bit 56 w)] = drop_bit (48 + 8) w" by simp
  from step [OF this] have "from_le [ucast (drop_bit 48 w), ucast (drop_bit 56 w)]
      = drop_bit (40 + 8) w" by simp
  from step [OF this] have "from_le [ucast (drop_bit 40 w), ucast (drop_bit 48 w),
      ucast (drop_bit 56 w)] = drop_bit (32 + 8) w" by simp
  from step [OF this] have "from_le [ucast (drop_bit 32 w), ucast (drop_bit 40 w),
      ucast (drop_bit 48 w), ucast (drop_bit 56 w)] = drop_bit (24 + 8) w" by simp
  from step [OF this] have "from_le [ucast (drop_bit 24 w), ucast (drop_bit 32 w),
      ucast (drop_bit 40 w), ucast (drop_bit 48 w), ucast (drop_bit 56 w)]
      = drop_bit (16 + 8) w" by simp
  from step [OF this] have "from_le [ucast (drop_bit 16 w), ucast (drop_bit 24 w),
      ucast (drop_bit 32 w), ucast (drop_bit 40 w), ucast (drop_bit 48 w), ucast (drop_bit 56 w)]
      = drop_bit (8 + 8) w" by simp
  from step [OF this] show ?thesis unfolding put_u64_le_def by (rule from_le_step)
qed

declare from_le_put_u32 [simp]

lemma put_nonempty [simp]: "put_u32_le w \<noteq> []" "put_u64_le d \<noteq> []"
  by (simp_all add: put_u32_le_def put_u64_le_def)

lemma get_u8_put [wire_rt]: "get_u8 (put_u8 b @ bs) = (Ok b, bs)"
  by (simp add: get_u8_def get_le_def put_u8_def)

lemma get_u16_put [wire_rt]: "get_u16_le (put_u16_le w @ bs) = (Ok w, bs)"
  by (simp add: get_u16_le_def get_le_def from_le_put_u16)

lemma get_u32_put [wire_rt]: "get_u32_le (put_u32_le w @ bs) = (Ok w, bs)"
  by (simp add: get_u32_le_def get_le_def from_le_put_u32)

lemma get_u64_put [wire_rt]: "get_u64_le (put_u64_le w @ bs) = (Ok w, bs)"
  by (simp add: get_u64_le_def get_le_def from_le_put_u64)

lemma get_le_short: "length bs < n \<Longrightarrow> get_le n bs = (Panic, bs)"
  by (simp add: get_le_def)

lemma get_u8_Nil [simp]: "get_u8 [] = (Panic, [])"
  by (simp add: get_u8_def get_le_def)

lemma get_u8_Cons [simp]: "get_u8 (b # bs) = (Ok b, bs)"
  by (simp add: get_u8_def get_le_def)

lemma get_u32_short: "length bs < 4 \<Longrightarrow> get_u32_le bs = (Panic, bs)"
  by (simp add: get_u32_le_def get_le_def)

lemma get_u64_short: "length bs < 8 \<Longrightarrow> get_u64_le bs = (Panic, bs)"
  by (simp add: get_u64_le_def get_le_def)

lemma get_u32_ok: "4 \<le> length bs \<Longrightarrow> get_u32_le bs = (Ok (from_le (take 4 bs)), drop 4 bs)"
  by (simp add: get_u32_le_def get_le_def)

lemma get_u64_ok: "8 \<le> length bs \<Longrightarrow> get_u64_le bs = (Ok (from_le (take 8 bs)), drop 8 bs)"
  by (simp add: get_u64_le_def get_le_def)

section \<open>Byte strings and length-prefixed strings\<close>

text \<open>\<open>copy_to_slice\<close> of \<open>n\<close> bytes, after the length was checked.\<close>

definition take_bytes :: "nat \<Rightarrow> bytes reader" where
  "take_bytes n bs = (if length bs < n then (Panic, bs) else (Ok (take n bs), drop n bs))"

definition take_all :: "bytes reader" where
  "take_all bs = (Ok bs, [])"

lemma take_all_run [simp]: "take_all bs = (Ok bs, [])"
  by (simp add: take_all_def)

text \<open>\<open>x.len() as u32\<close>: wraps for lengths of \<open>2^32\<close> and more.\<close>

definition len_u32 :: "nat \<Rightarrow> u32" where
  "len_u32 n = word_of_nat n"

lemma unat_len_u32 [simp]: "n < 4294967296 \<Longrightarrow> unat (len_u32 n) = n"
  by (simp add: len_u32_def unat_of_nat)

definition encode_string :: "rstring \<Rightarrow> bytes" where
  "encode_string s = put_u32_le (len_u32 (length (as_bytes s))) @ as_bytes s"

definition decode_string :: "rstring reader" where
  "decode_string =
     rbind remaining (\<lambda>n.
     if n < 4 then rfail NoStringLength else
     rbind get_u32_le (\<lambda>len.
     rbind remaining (\<lambda>m.
     if m < unat len then rfail NoStringData else
     rbind (take_bytes (unat len)) (\<lambda>raw.
     case from_utf8 raw of Some s \<Rightarrow> rret s | None \<Rightarrow> rfail InvalidUtf8))))"

definition fits_u32 :: "rstring \<Rightarrow> bool" where
  "fits_u32 s \<longleftrightarrow> valid_str s \<and> length (as_bytes s) < 2 ^ 32"

lemma length_encode_string [wire_len]:
  "length (encode_string s) = 4 + length (as_bytes s)"
  by (simp add: encode_string_def)

lemma decode_encode_string [wire_rt]:
  "fits_u32 s \<Longrightarrow> decode_string (encode_string s @ bs) = (Ok s, bs)"
  by (simp add: decode_string_def encode_string_def fits_u32_def wire_rt take_bytes_def
      from_utf8_as_bytes unat_of_nat)

text \<open>Decoding a string never panics, whatever the buffer holds.\<close>

lemma decode_string_no_panic: "fst (decode_string bs) \<noteq> Panic"
  by (auto simp: decode_string_def get_u32_ok take_bytes_def split: option.splits)

lemma decode_string_ok_shrinks:
  "decode_string bs = (Ok s, bs') \<Longrightarrow> \<exists>n. 4 \<le> n \<and> n \<le> length bs \<and> bs' = drop n bs"
  by (auto simp: decode_string_def get_u32_ok take_bytes_def
      split: option.splits if_splits intro!: exI [where x = "unat (from_le (take 4 bs) :: u32) + 4"])

end
