(* ===== verification/Messages.thy ===== *)
theory Messages
  imports Wire
begin

text \<open>
  \<open>src/src/protocol/messages.rs\<close> and \<open>codec.rs\<close>: the server and peer messages of the Soulseek
  protocol, their codes, the encoders of the requests this client sends and the decoders of the
  replies it understands. A decoder works on the whole receive buffer, as the code does: it looks
  at the length prefix, and once a frame is complete it reads the body from the same buffer
  (which may hold later frames).
\<close>

section \<open>Codes\<close>

text \<open>The codes of \<open>ServerCode\<close> the encoder uses.\<close>

definition "SC_Login = (1 :: u32)"
definition "SC_SetWaitPort = (2 :: u32)"
definition "SC_GetPeerAddress = (3 :: u32)"
definition "SC_ConnectToPeer = (18 :: u32)"
definition "SC_MessageUser = (22 :: u32)"
definition "SC_FileSearch = (26 :: u32)"
definition "SC_SetStatus = (28 :: u32)"
definition "SC_ServerPing = (32 :: u32)"
definition "SC_SharedFoldersFiles = (35 :: u32)"
definition "SC_GetUserStats = (36 :: u32)"
definition "SC_UserSearch = (42 :: u32)"
definition "SC_RoomList = (64 :: u32)"

lemmas SC_defs =
  SC_Login_def SC_SetWaitPort_def SC_GetPeerAddress_def SC_ConnectToPeer_def SC_MessageUser_def
  SC_FileSearch_def SC_SetStatus_def SC_ServerPing_def SC_SharedFoldersFiles_def
  SC_GetUserStats_def SC_UserSearch_def SC_RoomList_def

text \<open>\<open>PeerCode\<close>.\<close>

datatype peer_code =
    PC_GetSharedFileList | PC_SharedFileList | PC_FileSearchRequest | PC_FileSearchResult | PC_UserInfoRequest
    | PC_UserInfoReply | PC_FolderContentsRequest | PC_FolderContentsReply | PC_TransferRequest
    | PC_TransferReply | PC_PlaceholdUpload | PC_QueueUpload | PC_PlaceInQueueReply
    | PC_UploadFailed | PC_QueueFailed | PC_PlaceInQueueRequest | PC_UploadQueueNotification

primrec peer_code_value :: "peer_code \<Rightarrow> u32" where
  "peer_code_value PC_GetSharedFileList = 4"
| "peer_code_value PC_SharedFileList = 5"
| "peer_code_value PC_FileSearchRequest = 8"
| "peer_code_value PC_FileSearchResult = 9"
| "peer_code_value PC_UserInfoRequest = 15"
| "peer_code_value PC_UserInfoReply = 16"
| "peer_code_value PC_FolderContentsRequest = 36"
| "peer_code_value PC_FolderContentsReply = 37"
| "peer_code_value PC_TransferRequest = 40"
| "peer_code_value PC_TransferReply = 41"
| "peer_code_value PC_PlaceholdUpload = 42"
| "peer_code_value PC_QueueUpload = 43"
| "peer_code_value PC_PlaceInQueueReply = 44"
| "peer_code_value PC_UploadFailed = 46"
| "peer_code_value PC_QueueFailed = 50"
| "peer_code_value PC_PlaceInQueueRequest = 51"
| "peer_code_value PC_UploadQueueNotification = 52"

section \<open>Messages\<close>

record file_attribute =
  attribute_type :: u32
  attribute_value :: u32

record search_file =
  sf_code :: u8
  sf_filename :: rstring
  sf_size :: u64
  sf_extension :: rstring
  sf_attributes :: "file_attribute list"

definition find_attr :: "u32 \<Rightarrow> file_attribute list \<Rightarrow> u32 option" where
  "find_attr t attrs = map_option attribute_value (find (\<lambda>a. attribute_type a = t) attrs)"

definition bitrate :: "search_file \<Rightarrow> u32 option" where
  "bitrate f = find_attr 0 (sf_attributes f)"

definition duration :: "search_file \<Rightarrow> u32 option" where
  "duration f = find_attr 1 (sf_attributes f)"

definition is_vbr :: "search_file \<Rightarrow> bool option" where
  "is_vbr f = map_option (\<lambda>v. v = 1) (find_attr 2 (sf_attributes f))"

datatype server_message =
    Login rstring rstring u32 rstring u32
    \<comment> \<open>username, password, version, md5\_hash, minor\_version\<close>
  | LoginResponse bool rstring "rstring option" "rstring option"
    \<comment> \<open>success, reason, greeting, ip\<close>
  | SetWaitPort u32 "u32 option" "u32 option"
    \<comment> \<open>port, obfuscation\_type, obfuscated\_port\<close>
  | GetPeerAddress rstring
  | PeerAddress rstring rstring u16
  | ConnectToPeer u32 rstring rstring
  | FileSearch u32 rstring
  | UserSearch rstring u32 rstring
  | SetStatus u32
  | SharedFoldersFiles u32 u32
  | GetUserStats rstring
  | UserStats rstring u32 u64 u32 u32
  | ServerPing
  | ServerPong
  | Relogged
  | MessageUser rstring rstring
  | MessageUserReceived u32 u32 rstring rstring
  | RoomList
  | RoomListResponse "(rstring \<times> u32) list" "(rstring \<times> u32) list"
      "(rstring \<times> u32) list" "(rstring \<times> u32) list"
  | EmbeddedMessage u8 bytes
  | Unknown u32 bytes
  | ConnectToPeerRequest rstring rstring rstring u16 u32 bool
    \<comment> \<open>username, connection\_type, ip, port, token, privileged\<close>

datatype peer_message =
    GetSharedFileList
  | SharedFileList "(rstring \<times> u64) list"
  | FileSearchRequest u32 rstring
  | FileSearchResult rstring u32 "search_file list" bool u32 u64
    \<comment> \<open>username, token, files, has\_slots, avg\_speed, queue\_length\<close>
  | TransferRequest u32 u32 rstring
  | TransferReply u32 bool u64
  | QueueUpload rstring
  | PlaceInQueueReply rstring u32
  | UploadFailed rstring

section \<open>Encoding\<close>

text \<open>Both encoders prepend the length of the body.\<close>

definition frame :: "bytes \<Rightarrow> bytes" where
  "frame buf = put_u32_le (len_u32 (length buf)) @ buf"

fun server_encode_body :: "server_message \<Rightarrow> bytes option" where
  "server_encode_body (Login username password version md5_hash minor_version) =
     Some (put_u32_le SC_Login @ encode_string username @ encode_string password
           @ put_u32_le version @ encode_string md5_hash @ put_u32_le minor_version)"
| "server_encode_body (SetWaitPort port obfuscation_type obfuscated_port) =
     Some (put_u32_le SC_SetWaitPort @ put_u32_le port
           @ (case (obfuscation_type, obfuscated_port) of
                (Some obfs_type, Some obfs_port) \<Rightarrow> put_u32_le obfs_type @ put_u32_le obfs_port
              | _ \<Rightarrow> []))"
| "server_encode_body (GetPeerAddress username) =
     Some (put_u32_le SC_GetPeerAddress @ encode_string username)"
| "server_encode_body (ConnectToPeer token username connection_type) =
     Some (put_u32_le SC_ConnectToPeer @ put_u32_le token @ encode_string username
           @ encode_string connection_type)"
| "server_encode_body (FileSearch token query) =
     Some (put_u32_le SC_FileSearch @ put_u32_le token @ encode_string query)"
| "server_encode_body (UserSearch username token query) =
     Some (put_u32_le SC_UserSearch @ encode_string username @ put_u32_le token
           @ encode_string query)"
| "server_encode_body (SetStatus status) = Some (put_u32_le SC_SetStatus @ put_u32_le status)"
| "server_encode_body (SharedFoldersFiles folders files) =
     Some (put_u32_le SC_SharedFoldersFiles @ put_u32_le folders @ put_u32_le files)"
| "server_encode_body (GetUserStats username) =
     Some (put_u32_le SC_GetUserStats @ encode_string username)"
| "server_encode_body ServerPing = Some (put_u32_le SC_ServerPing)"
| "server_encode_body (MessageUser username message) =
     Some (put_u32_le SC_MessageUser @ encode_string username @ encode_string message)"
| "server_encode_body RoomList = Some (put_u32_le SC_RoomList)"
| "server_encode_body _ = None"

definition server_encode :: "server_message \<Rightarrow> (bytes, wire_error) outcome" where
  "server_encode m =
     (case server_encode_body m of
        Some buf \<Rightarrow> Ok (frame buf)
      | None \<Rightarrow> Err EncodingNotImplemented)"

fun peer_encode_body :: "peer_message \<Rightarrow> bytes option" where
  "peer_encode_body (FileSearchRequest token query) =
     Some (put_u32_le (peer_code_value PC_FileSearchRequest) @ put_u32_le token
           @ encode_string query)"
| "peer_encode_body (TransferRequest direction token filename) =
     Some (put_u32_le (peer_code_value PC_TransferRequest) @ put_u32_le direction
           @ put_u32_le token @ encode_string filename)"
| "peer_encode_body (QueueUpload filename) =
     Some (put_u32_le (peer_code_value PC_QueueUpload) @ encode_string filename)"
| "peer_encode_body _ = None"

definition peer_encode :: "peer_message \<Rightarrow> (bytes, wire_error) outcome" where
  "peer_encode m =
     (case peer_encode_body m of
        Some buf \<Rightarrow> Ok (frame buf)
      | None \<Rightarrow> Err EncodingNotImplemented)"

section \<open>Decoding\<close>

fun read_n :: "nat \<Rightarrow> 'a reader \<Rightarrow> 'a list reader" where
  "read_n 0 p bs = (Ok [], bs)"
| "read_n (Suc n) p bs = rbind p (\<lambda>x. rbind (read_n n p) (\<lambda>xs. rret (x # xs))) bs"

text \<open>The four address bytes come in reverse order.\<close>

definition format_ip :: "u8 \<Rightarrow> u8 \<Rightarrow> u8 \<Rightarrow> u8 \<Rightarrow> rstring" where
  "format_ip b0 b1 b2 b3 =
     join_str (str ''.'') [show_nat (unat b3), show_nat (unat b2), show_nat (unat b1), show_nat (unat b0)]"

definition read_ip :: "rstring reader" where
  "read_ip = rbind get_u8 (\<lambda>b0. rbind get_u8 (\<lambda>b1. rbind get_u8 (\<lambda>b2. rbind get_u8 (\<lambda>b3.
     rret (format_ip b0 b1 b2 b3)))))"

text \<open>\<open>if buf.remaining() >= 4 { Some(decode_string(buf).unwrap_or_default()) } else { None }\<close>\<close>

definition or_default :: "rstring reader \<Rightarrow> rstring reader" where
  "or_default p bs = (case p bs of (Err _, bs') \<Rightarrow> (Ok [], bs') | r \<Rightarrow> r)"

definition optional_string :: "rstring option reader" where
  "optional_string =
     rbind remaining (\<lambda>n. if 4 \<le> n then rbind (or_default decode_string) (\<lambda>s. rret (Some s))
                          else rret None)"

definition decode_login_response :: "server_message reader" where
  "decode_login_response =
     rbind get_u8 (\<lambda>s. rbind decode_string (\<lambda>reason.
     if s \<noteq> 0 then
       rbind optional_string (\<lambda>greeting. rbind optional_string (\<lambda>ip.
       rbind take_all (\<lambda>_. rret (LoginResponse True reason greeting ip))))
     else rret (LoginResponse False reason None None)))"

definition decode_peer_address :: "server_message reader" where
  "decode_peer_address =
     rbind decode_string (\<lambda>username. rbind decode_string (\<lambda>ip. rbind get_u16_le (\<lambda>port.
     rret (PeerAddress username ip port))))"

definition decode_user_stats :: "server_message reader" where
  "decode_user_stats =
     rbind decode_string (\<lambda>username. rbind get_u32_le (\<lambda>avg_speed. rbind get_u64_le (\<lambda>uploads.
     rbind get_u32_le (\<lambda>shared_files. rbind get_u32_le (\<lambda>shared_folders.
     rret (UserStats username avg_speed uploads shared_files shared_folders))))))"

definition decode_message_user :: "server_message reader" where
  "decode_message_user =
     rbind get_u32_le (\<lambda>message_id. rbind get_u32_le (\<lambda>timestamp.
     rbind decode_string (\<lambda>username. rbind decode_string (\<lambda>message.
     rret (MessageUserReceived message_id timestamp username message)))))"

definition decode_connect_to_peer :: "server_message reader" where
  "decode_connect_to_peer =
     rbind decode_string (\<lambda>username. rbind decode_string (\<lambda>connection_type.
     rbind read_ip (\<lambda>ip. rbind get_u32_le (\<lambda>port. rbind get_u32_le (\<lambda>token.
     rbind remaining (\<lambda>n.
     rbind (if 1 \<le> n then rbind get_u8 (\<lambda>b. rret (b \<noteq> 0)) else rret False) (\<lambda>privileged.
     rret (ConnectToPeerRequest username connection_type ip (ucast port) token privileged))))))))"

definition decode_embedded :: "server_message reader" where
  "decode_embedded =
     rbind get_u8 (\<lambda>message_type. rbind take_all (\<lambda>data. rret (EmbeddedMessage message_type data)))"

definition server_decode_body :: "u32 \<Rightarrow> server_message reader" where
  "server_decode_body code =
     (if code = 1 then decode_login_response
      else if code = 3 then decode_peer_address
      else if code = 7 then decode_user_stats
      else if code = 32 then rret ServerPong
      else if code = 41 then rret Relogged
      else if code = 22 then decode_message_user
      else if code = 18 then decode_connect_to_peer
      else if code = 93 then decode_embedded
      else rbind take_all (\<lambda>data. rret (Unknown code data)))"

text \<open>The frame logic both \<open>decode\<close> functions share: peek at the length, wait, skip it, read the code.\<close>

definition decode_framed :: "(u32 \<Rightarrow> 'a reader) \<Rightarrow> 'a option reader" where
  "decode_framed body buf =
     (if length buf < 4 then (Ok None, buf)
      else if length buf < 4 + unat (from_le (take 4 buf) :: u32) then (Ok None, buf)
      else
        rbind remaining (\<lambda>n.
        if n < 4 then rfail MessageTooShort else
        rbind get_u32_le (\<lambda>code. rbind (body code) (\<lambda>m. rret (Some m)))) (drop 4 buf))"

definition server_decode :: "server_message option reader" where
  "server_decode = decode_framed server_decode_body"

definition decode_attribute :: "file_attribute reader" where
  "decode_attribute =
     rbind get_u32_le (\<lambda>t. rbind get_u32_le (\<lambda>v.
     rret \<lparr>attribute_type = t, attribute_value = v\<rparr>))"

definition decode_search_file :: "search_file reader" where
  "decode_search_file =
     rbind get_u8 (\<lambda>code. rbind decode_string (\<lambda>filename. rbind get_u64_le (\<lambda>size.
     rbind decode_string (\<lambda>extension. rbind get_u32_le (\<lambda>attr_count.
     rbind (read_n (unat attr_count) decode_attribute) (\<lambda>attributes.
     rret \<lparr>sf_code = code, sf_filename = filename, sf_size = size, sf_extension = extension,
           sf_attributes = attributes\<rparr>))))))"

definition decode_file_search_result :: "peer_message reader" where
  "decode_file_search_result =
     rbind decode_string (\<lambda>username. rbind get_u32_le (\<lambda>token. rbind get_u32_le (\<lambda>file_count.
     rbind (read_n (unat file_count) decode_search_file) (\<lambda>files.
     rbind get_u8 (\<lambda>slots. rbind get_u32_le (\<lambda>avg_speed. rbind get_u64_le (\<lambda>queue_length.
     rret (FileSearchResult username token files (slots \<noteq> 0) avg_speed queue_length))))))))"

definition decode_transfer_reply :: "peer_message reader" where
  "decode_transfer_reply =
     rbind get_u32_le (\<lambda>token. rbind get_u8 (\<lambda>a.
     rbind (if a \<noteq> 0 then get_u64_le else rret 0) (\<lambda>filesize.
     rret (TransferReply token (a \<noteq> 0) filesize))))"

definition peer_decode_body :: "u32 \<Rightarrow> peer_message reader" where
  "peer_decode_body code =
     (if code = 9 then decode_file_search_result
      else if code = 41 then decode_transfer_reply
      else if code = 44 then
        rbind decode_string (\<lambda>filename. rbind get_u32_le (\<lambda>place.
        rret (PlaceInQueueReply filename place)))
      else if code = 46 then rbind decode_string (\<lambda>filename. rret (UploadFailed filename))
      else rfail (UnknownPeerCode code))"

definition peer_decode :: "peer_message option reader" where
  "peer_decode = decode_framed peer_decode_body"

section \<open>Frames\<close>

lemma from_le_take_put: "from_le (take 4 (put_u32_le w @ bs)) = (w :: u32)"
  by (simp add: from_le_put_u32)

lemma length_frame [wire_len]: "length (frame buf) = 4 + length buf"
  by (simp add: frame_def)

lemma decode_framed_run:
  assumes "length buf < 2 ^ 32 - 4"
  shows "decode_framed body (frame (put_u32_le code @ buf) @ rest) =
           rbind (body code) (\<lambda>m. rret (Some m)) (buf @ rest)"
  using assms by (simp add: decode_framed_def frame_def from_le_take_put wire_rt)

lemma decode_framed_prefix:
  assumes len: "length buf < 2 ^ 32" and "strict_prefix q (frame buf)"
  shows "decode_framed body q = (Ok None, q)"
proof (cases "length q < 4")
  case True
  then show ?thesis by (simp add: decode_framed_def)
next
  case False
  from assms(2) obtain r where r: "frame buf = q @ r" "r \<noteq> []"
    by (auto elim: strict_prefixE')
  then have q4: "take 4 q = take 4 (frame buf)" using False by simp
  have l: "unat (from_le (take 4 q) :: u32) = length buf"
    using len by (simp add: q4 frame_def from_le_put_u32)
  have "length q < 4 + length buf"
    using arg_cong [OF r(1), of length] r(2) by (simp add: wire_len)
  with l False show ?thesis by (simp add: decode_framed_def)
qed

section \<open>What the server reads\<close>

text \<open>
  A reference parser for the requests this client can send, one field after the other, as the
  protocol documents them. It is the specification the encoder is checked against.
\<close>

definition parse_wait_port_tail :: "u32 \<Rightarrow> server_message reader" where
  "parse_wait_port_tail port =
     rbind remaining (\<lambda>n. if n = 0 then rret (SetWaitPort port None None)
       else rbind get_u32_le (\<lambda>t. rbind get_u32_le (\<lambda>p. rret (SetWaitPort port (Some t) (Some p)))))"

definition parse_request_body :: "u32 \<Rightarrow> server_message reader" where
  "parse_request_body code =
     (if code = 1 then
        rbind decode_string (\<lambda>u. rbind decode_string (\<lambda>p. rbind get_u32_le (\<lambda>v.
        rbind decode_string (\<lambda>h. rbind get_u32_le (\<lambda>m. rret (Login u p v h m))))))
      else if code = 2 then rbind get_u32_le parse_wait_port_tail
      else if code = 3 then rbind decode_string (\<lambda>u. rret (GetPeerAddress u))
      else if code = 18 then
        rbind get_u32_le (\<lambda>t. rbind decode_string (\<lambda>u. rbind decode_string (\<lambda>c.
        rret (ConnectToPeer t u c))))
      else if code = 22 then
        rbind decode_string (\<lambda>u. rbind decode_string (\<lambda>m. rret (MessageUser u m)))
      else if code = 26 then rbind get_u32_le (\<lambda>t. rbind decode_string (\<lambda>q. rret (FileSearch t q)))
      else if code = 28 then rbind get_u32_le (\<lambda>s. rret (SetStatus s))
      else if code = 32 then rret ServerPing
      else if code = 35 then
        rbind get_u32_le (\<lambda>d. rbind get_u32_le (\<lambda>f. rret (SharedFoldersFiles d f)))
      else if code = 36 then rbind decode_string (\<lambda>u. rret (GetUserStats u))
      else if code = 42 then
        rbind decode_string (\<lambda>u. rbind get_u32_le (\<lambda>t. rbind decode_string (\<lambda>q.
        rret (UserSearch u t q))))
      else if code = 64 then rret RoomList
      else rfail (UnknownPeerCode code))"

fun request_strings :: "server_message \<Rightarrow> rstring list" where
  "request_strings (Login u p v h m) = [u, p, h]"
| "request_strings (GetPeerAddress u) = [u]"
| "request_strings (ConnectToPeer t u c) = [u, c]"
| "request_strings (FileSearch t q) = [q]"
| "request_strings (UserSearch u t q) = [u, q]"
| "request_strings (GetUserStats u) = [u]"
| "request_strings (MessageUser u m) = [u, m]"
| "request_strings _ = []"

fun is_request :: "server_message \<Rightarrow> bool" where
  "is_request (SetWaitPort port t p) = ((t = None) = (p = None))"
| "is_request m = (server_encode_body m \<noteq> None)"

text \<open>Requests whose strings are valid UTF-8 text of at most a gigabyte each.\<close>

definition wf_request :: "server_message \<Rightarrow> bool" where
  "wf_request m \<longleftrightarrow> is_request m \<and>
     (\<forall>s\<in>set (request_strings m). valid_str s \<and> length (as_bytes s) < 2 ^ 30)"

lemma fits_u32_small: "valid_str s \<Longrightarrow> length (as_bytes s) < 2 ^ 30 \<Longrightarrow> fits_u32 s"
  by (simp add: fits_u32_def)

definition parse_request :: "server_message reader" where
  "parse_request = rbind get_u32_le parse_request_body"

definition parse_frame :: "server_message reader" where
  "parse_frame =
     rbind get_u32_le (\<lambda>n. rbind remaining (\<lambda>m.
     if unat n = m then parse_request else rfail MessageTooShort))"

lemmas wire_rt_end =
  get_u32_put [where bs = "[]", simplified] decode_encode_string [where bs = "[]", simplified]

lemmas parse_simps = parse_request_def parse_request_body_def SC_defs wire_rt wire_rt_end

lemma wf_request_encodes:
  assumes "wf_request m"
  shows "\<exists>buf. server_encode_body m = Some buf \<and> 4 \<le> length buf \<and> length buf < 4294967296
           \<and> parse_request buf = (Ok m, [])"
proof (cases m)
  case (SetWaitPort p t q)
  then show ?thesis using assms
    by (cases t; cases q) (simp_all add: wf_request_def parse_simps parse_wait_port_tail_def)
qed (use assms in \<open>simp_all add: wf_request_def fits_u32_small parse_simps wire_len\<close>)

section \<open>Properties\<close>

text \<open>C36: every request the client can build (with text below a gigabyte per field) is encoded
  without error, and a server that follows the protocol reads back exactly that request from the
  frame, with nothing left over.\<close>

theorem request_roundtrip:
  assumes "wf_request m"
  shows "\<exists>fr. server_encode m = Ok fr \<and> parse_frame fr = (Ok m, [])"
proof -
  from wf_request_encodes [OF assms] obtain buf where
    "server_encode_body m = Some buf" "length buf < 4294967296" "parse_request buf = (Ok m, [])"
    by blast
  then show ?thesis
    by (simp add: server_encode_def parse_frame_def frame_def wire_rt)
qed

theorem request_roundtrip_witness:
  "\<exists>fr. server_encode (FileSearch 7 (str ''ab'')) = Ok fr \<and>
     parse_frame fr = (Ok (FileSearch 7 (str ''ab'')), [])"
proof -
  have "wf_request (FileSearch 7 (str ''ab''))"
    by (simp add: wf_request_def str_def is_scalar_def utf8_char_def)
  then show ?thesis by (rule request_roundtrip)
qed

text \<open>A receive buffer that holds only a part of a frame is left untouched by both decoders,
  which report that more data is needed: no byte of a partial frame is ever consumed.\<close>

lemma partial_frame_kept:
  assumes "length body < 2 ^ 32" and "strict_prefix q (frame body)"
  shows "server_decode q = (Ok None, q) \<and> peer_decode q = (Ok None, q)"
  by (simp add: server_decode_def peer_decode_def decode_framed_prefix [OF assms])

lemma partial_frame_kept_witness:
  "server_decode [8, 0, 0, 0, 26] = (Ok None, [8, 0, 0, 0, 26]) \<and>
   peer_decode [8, 0, 0, 0, 26] = (Ok None, [8, 0, 0, 0, 26])"
proof -
  have "strict_prefix [8, 0, 0, 0, 26] (frame [26, 0, 0, 0, 1, 2, 3, 4])"
    by (simp add: frame_def put_u32_le_def len_u32_def strict_prefix_def)
  then show ?thesis by (intro partial_frame_kept) simp_all
qed

text \<open>
  The search result a peer sends, as the protocol documents it: the specification the decoder of
  code 9 is checked against.
\<close>

definition spec_attribute :: "file_attribute \<Rightarrow> bytes" where
  "spec_attribute a = put_u32_le (attribute_type a) @ put_u32_le (attribute_value a)"

definition spec_search_file :: "search_file \<Rightarrow> bytes" where
  "spec_search_file f =
     put_u8 (sf_code f) @ encode_string (sf_filename f) @ put_u64_le (sf_size f)
     @ encode_string (sf_extension f) @ put_u32_le (len_u32 (length (sf_attributes f)))
     @ concat (map spec_attribute (sf_attributes f))"

definition spec_search_result ::
  "rstring \<Rightarrow> u32 \<Rightarrow> search_file list \<Rightarrow> bool \<Rightarrow> u32 \<Rightarrow> u64 \<Rightarrow> bytes" where
  "spec_search_result username token files has_slots avg_speed queue_length =
     encode_string username @ put_u32_le token @ put_u32_le (len_u32 (length files))
     @ concat (map spec_search_file files)
     @ put_u8 (if has_slots then 1 else 0) @ put_u32_le avg_speed @ put_u64_le queue_length"

definition wf_search_file :: "search_file \<Rightarrow> bool" where
  "wf_search_file f \<longleftrightarrow> fits_u32 (sf_filename f) \<and> fits_u32 (sf_extension f)
     \<and> length (sf_attributes f) < 2 ^ 32"

lemma read_n_concat:
  assumes "\<And>x bs. x \<in> set xs \<Longrightarrow> p (enc x @ bs) = (Ok x, bs)"
  shows "read_n (length xs) p (concat (map enc xs) @ bs) = (Ok xs, bs)"
  using assms by (induction xs) auto

lemma decode_attribute_spec [wire_rt]: "decode_attribute (spec_attribute a @ bs) = (Ok a, bs)"
  by (simp add: decode_attribute_def spec_attribute_def wire_rt)

lemma decode_search_file_spec [wire_rt]:
  "wf_search_file f \<Longrightarrow> decode_search_file (spec_search_file f @ bs) = (Ok f, bs)"
  by (simp add: decode_search_file_def spec_search_file_def wf_search_file_def wire_rt
      read_n_concat)

text \<open>A search result of code 9 that a peer frames as the protocol says is decoded to exactly
  its user name, token, file list (with every attribute) and statistics, and the bytes that follow
  the frame stay in the buffer.\<close>

lemma search_result_decoded:
  assumes "fits_u32 username" and "\<forall>f\<in>set files. wf_search_file f" and "length files < 2 ^ 32"
    and "length (spec_search_result username token files has_slots avg_speed queue_length)
         < 2 ^ 32 - 4"
  shows "peer_decode (frame (put_u32_le 9
           @ spec_search_result username token files has_slots avg_speed queue_length) @ rest)
         = (Ok (Some (FileSearchResult username token files has_slots avg_speed queue_length)), rest)"
  unfolding peer_decode_def decode_framed_run [OF assms(4)]
  using assms(1-3)
  by (simp add: peer_decode_body_def decode_file_search_result_def spec_search_result_def wire_rt
      read_n_concat)

lemma search_result_decoded_witness:
  "peer_decode (frame (put_u32_le 9 @ spec_search_result (str ''u'') 7
      [\<lparr>sf_code = 1, sf_filename = str ''a.mp3'', sf_size = 9, sf_extension = str ''mp3'',
        sf_attributes = [\<lparr>attribute_type = 0, attribute_value = 320\<rparr>]\<rparr>] True 5 6) @ [1, 2])
   = (Ok (Some (FileSearchResult (str ''u'') 7
      [\<lparr>sf_code = 1, sf_filename = str ''a.mp3'', sf_size = 9, sf_extension = str ''mp3'',
        sf_attributes = [\<lparr>attribute_type = 0, attribute_value = 320\<rparr>]\<rparr>] True 5 6)), [1, 2])"
  by (rule search_result_decoded)
    (simp_all add: fits_u32_def wf_search_file_def spec_search_result_def spec_search_file_def
      spec_attribute_def wire_len str_def is_scalar_def utf8_char_def)

text \<open>A complete frame with a code the server decoder does not know makes it return an unknown
  message that holds not only the frame's own body but every byte received after it: all later
  frames in the buffer are lost.\<close>

lemma unknown_swallows_buffer:
  assumes "code \<notin> {1, 3, 7, 18, 22, 32, 41, 93}" and "length body < 2 ^ 32 - 4"
  shows "server_decode (frame (put_u32_le code @ body) @ rest)
         = (Ok (Some (Unknown code (body @ rest))), [])"
  unfolding server_decode_def decode_framed_run [OF assms(2)]
  using assms(1) by (simp add: server_decode_body_def)

lemma unknown_swallows_buffer_witness:
  "server_decode (frame (put_u32_le 64 @ []) @ frame (put_u32_le 32))
   = (Ok (Some (Unknown 64 ([] @ frame (put_u32_le 32)))), [])"
  by (rule unknown_swallows_buffer) simp_all

text \<open>A transfer reply that denies the transfer carries a reason; the decoder of code 41 leaves
  it unread, so the reason's bytes are what the next call takes for a frame length.\<close>

lemma denied_reply_leaves_reason:
  assumes "length (encode_string reason) < 2 ^ 31"
  shows "peer_decode (frame (put_u32_le 41 @ put_u32_le token @ put_u8 0 @ encode_string reason) @ rest)
         = (Ok (Some (TransferReply token False 0)), encode_string reason @ rest)"
proof -
  have "length (put_u32_le token @ put_u8 0 @ encode_string reason) < 2 ^ 32 - 4"
    using assms by simp
  from decode_framed_run [OF this, of peer_decode_body 41 rest] show ?thesis
    by (simp add: peer_decode_def peer_decode_body_def decode_transfer_reply_def wire_rt)
qed

lemma denied_reply_leaves_reason_witness:
  "peer_decode (frame (put_u32_le 41 @ put_u32_le 9 @ put_u8 0 @ encode_string (str ''no'')) @ [])
   = (Ok (Some (TransferReply 9 False 0)), encode_string (str ''no'') @ [])"
  by (rule denied_reply_leaves_reason) (simp add: wire_len str_def utf8_char_def)

text \<open>A complete frame of code 22 whose body is shorter than the message id makes the server
  decoder read past the end of the buffer and panic, instead of reporting an error.\<close>

lemma short_message_panics:
  assumes "length body < 4"
  shows "fst (server_decode (frame (put_u32_le 22 @ body))) = Panic"
proof -
  have "length body < 2 ^ 32 - 4" using assms by simp
  from decode_framed_run [OF this, of server_decode_body 22 "[]"] assms show ?thesis
    by (simp add: server_decode_def server_decode_body_def decode_message_user_def get_u32_short)
qed

lemma short_message_panics_witness:
  "fst (server_decode (frame (put_u32_le 22 @ [0]))) = Panic"
  by (rule short_message_panics) simp

end
