(* ===== verification/Message_Types.thy ===== *)
theory Message_Types
  imports Messages
begin

text \<open>
  What the decoders of \<open>src/src/protocol/messages.rs\<close> promise by their types: a Rust \<open>String\<close> is always a
  sequence of Unicode scalar values, a buffer is only ever advanced. The model's strings are lists of numbers and
  its buffers lists of bytes, so that both are theorems here. \<open>yields P r\<close> types a reader: it leaves an end of
  its buffer, and what it reads has \<open>P\<close>; one typing rule per combinator lets the decoders be checked by their
  shape.
\<close>

definition yields :: "('a \<Rightarrow> bool) \<Rightarrow> 'a reader \<Rightarrow> bool" where
  "yields P r \<longleftrightarrow> (\<forall>bs. suffix (snd (r bs)) bs \<and> (\<forall>x. fst (r bs) = Ok x \<longrightarrow> P x))"

named_theorems typing "typing rules for readers"

lemma yields_mono: "yields P r \<Longrightarrow> (\<And>x. P x \<Longrightarrow> Q x) \<Longrightarrow> yields Q r"
  by (auto simp: yields_def)

lemma yields_rbind [typing]:
  assumes "yields P p" and "\<And>x. P x \<Longrightarrow> yields Q (f x)"
  shows "yields Q (rbind p f)"
  unfolding yields_def
proof
  fix bs
  obtain r bs' where p: "p bs = (r, bs')" by fastforce
  with assms(1) have s: "suffix bs' bs" and ok: "\<And>x. r = Ok x \<Longrightarrow> P x" by (auto simp: yields_def dest: spec [of _ bs])
  show "suffix (snd (rbind p f bs)) bs \<and> (\<forall>x. fst (rbind p f bs) = Ok x \<longrightarrow> Q x)"
  proof (cases r)
    case (Ok x)
    with assms(2) [OF ok [OF Ok]] p s show ?thesis by (auto simp: yields_def intro: suffix_order.trans)
  qed (use p s in auto)
qed

lemma yields_rret [typing]: "P x \<Longrightarrow> yields P (rret x)"
  by (simp add: yields_def)

lemma yields_rfail [typing]: "yields P (rfail e)"
  by (simp add: yields_def)

lemma yields_remaining [typing]: "yields (\<lambda>_. True) remaining"
  by (simp add: yields_def)

lemma yields_if [typing]: "(b \<Longrightarrow> yields P r) \<Longrightarrow> (\<not> b \<Longrightarrow> yields P r') \<Longrightarrow> yields P (if b then r else r')"
  by simp

lemma yields_get_le: "yields (\<lambda>_. True) (get_le n)"
  by (simp add: yields_def get_le_def suffix_drop)

lemma yields_int [typing]:
  "yields (\<lambda>_. True) get_u8" "yields (\<lambda>_. True) get_u16_le" "yields (\<lambda>_. True) get_u32_le" "yields (\<lambda>_. True) get_u64_le"
  by (simp_all add: get_u8_def get_u16_le_def get_u32_le_def get_u64_le_def yields_get_le)

lemma yields_bytes [typing]: "yields (\<lambda>_. True) take_all" "yields (\<lambda>_. True) (take_bytes n)"
  by (simp_all add: yields_def take_bytes_def suffix_drop)

lemma yields_utf8: "yields valid_str (case from_utf8 raw of Some s \<Rightarrow> rret s | None \<Rightarrow> rfail e)"
  by (auto simp: yields_def as_bytes_from_utf8 split: option.splits)

lemma yields_string [typing]: "yields valid_str decode_string"
  unfolding decode_string_def by (rule typing yields_utf8 TrueI)+

lemma yields_or_default [typing]: "yields P p \<Longrightarrow> P [] \<Longrightarrow> yields P (or_default p)"
  unfolding yields_def
proof
  fix bs
  assume p: "\<forall>bs. suffix (snd (p bs)) bs \<and> (\<forall>x. fst (p bs) = Ok x \<longrightarrow> P x)" "P []"
  then have "suffix (snd (p bs)) bs \<and> (\<forall>x. fst (p bs) = Ok x \<longrightarrow> P x)" by blast
  with p(2) show "suffix (snd (or_default p bs)) bs \<and> (\<forall>x. fst (or_default p bs) = Ok x \<longrightarrow> P x)"
    by (auto simp: or_default_def split: prod.splits outcome.splits)
qed

lemma yields_read_n [typing]: "yields P p \<Longrightarrow> yields (list_all P) (read_n n p)"
proof (induction n)
  case 0
  then show ?case by (simp add: yields_def)
next
  case (Suc n)
  have "read_n (Suc n) p = rbind p (\<lambda>x. rbind (read_n n p) (\<lambda>xs. rret (x # xs)))" by (rule ext) simp
  moreover have "yields (list_all P) (rbind p (\<lambda>x. rbind (read_n n p) (\<lambda>xs. rret (x # xs))))"
    by (rule typing Suc.IH Suc.prems | simp)+
  ultimately show ?case by (simp only:)
qed

section \<open>The messages\<close>

fun server_typed :: "server_message \<Rightarrow> bool" where
  "server_typed (LoginResponse ok reason greeting ip) \<longleftrightarrow>
     valid_str reason \<and> pred_option valid_str greeting \<and> pred_option valid_str ip \<and> (\<not> ok \<longrightarrow> greeting = None \<and> ip = None)"
| "server_typed (PeerAddress username ip port) \<longleftrightarrow> valid_str username \<and> valid_str ip"
| "server_typed (UserStats username a b c d) \<longleftrightarrow> valid_str username"
| "server_typed (MessageUserReceived i t username message) \<longleftrightarrow> valid_str username \<and> valid_str message"
| "server_typed (ConnectToPeerRequest username ty ip port token p) \<longleftrightarrow>
     valid_str username \<and> valid_str ty \<and> (\<exists>b0 b1 b2 b3. ip = format_ip b0 b1 b2 b3)"
| "server_typed (EmbeddedMessage c d) \<longleftrightarrow> True"
| "server_typed (Unknown c d) \<longleftrightarrow> c \<notin> {1, 3, 7, 32, 41, 22, 18, 93}"
| "server_typed m \<longleftrightarrow> m = ServerPong \<or> m = Relogged"

definition file_typed :: "search_file \<Rightarrow> bool" where
  "file_typed f \<longleftrightarrow> valid_str (sf_filename f) \<and> valid_str (sf_extension f)"

fun peer_typed :: "peer_message \<Rightarrow> bool" where
  "peer_typed (FileSearchResult username t files slots s q) \<longleftrightarrow> valid_str username \<and> list_all file_typed files"
| "peer_typed (TransferReply t allowed filesize) \<longleftrightarrow> (\<not> allowed \<longrightarrow> filesize = 0)"
| "peer_typed (PlaceInQueueReply filename place) \<longleftrightarrow> valid_str filename"
| "peer_typed (UploadFailed filename) \<longleftrightarrow> valid_str filename"
| "peer_typed _ \<longleftrightarrow> False"

lemma yields_optional [typing]: "yields (pred_option valid_str) optional_string"
  unfolding optional_string_def by (rule typing | simp | auto)+

lemma yields_ip [typing]: "yields (\<lambda>ip. \<exists>b0 b1 b2 b3. ip = format_ip b0 b1 b2 b3) read_ip"
  unfolding read_ip_def by (rule typing | simp | blast)+

lemma yields_flag [typing]: "yields (\<lambda>_. True) (if 1 \<le> n then rbind get_u8 (\<lambda>b. rret (b \<noteq> 0)) else rret False)"
  by (rule yields_if yields_rbind yields_int yields_rret TrueI)+

lemma yields_login: "yields server_typed decode_login_response"
  unfolding decode_login_response_def by (rule typing | simp)+

lemma yields_connect: "yields server_typed decode_connect_to_peer"
  unfolding decode_connect_to_peer_def
  by (rule yields_flag yields_rbind yields_string yields_ip yields_int yields_remaining yields_rret)+ simp

lemma yields_server_bodies:
  "yields server_typed decode_peer_address" "yields server_typed decode_user_stats"
  "yields server_typed decode_message_user" "yields server_typed decode_embedded"
  unfolding decode_peer_address_def decode_user_stats_def decode_message_user_def decode_embedded_def
  by ((rule typing)+, simp)+

lemma yields_server_body: "yields server_typed (server_decode_body code)"
  unfolding server_decode_body_def by (rule yields_if yields_login yields_connect yields_server_bodies yields_rbind yields_bytes yields_rret | simp)+

lemma yields_attribute [typing]: "yields (\<lambda>_. True) decode_attribute"
  unfolding decode_attribute_def by (rule typing | simp)+

lemma yields_file [typing]: "yields file_typed decode_search_file"
  unfolding decode_search_file_def by (rule typing | simp add: file_typed_def)+

lemma yields_file_result: "yields peer_typed decode_file_search_result"
  unfolding decode_file_search_result_def by (rule typing)+ simp

lemma yields_filesize: "yields (\<lambda>f. a = 0 \<longrightarrow> f = 0) (if a \<noteq> 0 then get_u64_le else rret 0)"
  by (auto simp: yields_def get_u64_le_def get_le_def suffix_drop)

lemma yields_reply: "yields peer_typed decode_transfer_reply"
  unfolding decode_transfer_reply_def by (rule yields_filesize yields_rbind yields_int yields_rret)+ simp

lemma yields_peer_body: "yields peer_typed (peer_decode_body code)"
  unfolding peer_decode_body_def
  by (rule yields_if yields_file_result yields_reply yields_rbind yields_string yields_int yields_rret yields_rfail | simp)+

lemma yields_framed:
  assumes "\<And>code. yields P (body code)"
  shows "yields (pred_option P) (decode_framed body)"
proof -
  let ?r = "rbind remaining (\<lambda>n. if n < 4 then rfail MessageTooShort
     else rbind get_u32_le (\<lambda>code. rbind (body code) (\<lambda>m. rret (Some m))))"
  have "yields (pred_option P) ?r" by (rule typing assms | simp)+
  then have r: "suffix (snd (?r (drop 4 bs))) (drop 4 bs)" "fst (?r (drop 4 bs)) = Ok x \<Longrightarrow> pred_option P x" for bs x
    unfolding yields_def by blast+
  have "suffix (snd (decode_framed body bs)) bs \<and> (\<forall>x. fst (decode_framed body bs) = Ok x \<longrightarrow> pred_option P x)" for bs
  proof (cases "length bs < 4 \<or> length bs < 4 + unat (from_le (take 4 bs) :: u32)")
    case True
    then show ?thesis by (auto simp: decode_framed_def)
  next
    case False
    then have "decode_framed body bs = ?r (drop 4 bs)" by (simp only: decode_framed_def) simp
    with r [of bs] show ?thesis by (metis suffix_drop suffix_order.trans)
  qed
  then show ?thesis unfolding yields_def by blast
qed

text \<open>C24: Whatever bytes a server or a peer sends, a message that the decoders accept is well typed - each of its
  strings is a sequence of Unicode scalar values, an address has the form of four numbers with dots, a refused
  login has no greeting, a refused transfer no size, and only codes without a decoder give unknown messages - and
  what is left of the buffer, after a message or an error, is an end of it.\<close>

theorem decoded_messages_typed:
  "(\<forall>m. fst (server_decode bs) = Ok (Some m) \<longrightarrow> server_typed m)
   \<and> (\<forall>m. fst (peer_decode bs) = Ok (Some m) \<longrightarrow> peer_typed m)
   \<and> suffix (snd (server_decode bs)) bs \<and> suffix (snd (peer_decode bs)) bs"
proof -
  have "yields (pred_option server_typed) server_decode" "yields (pred_option peer_typed) peer_decode"
    unfolding server_decode_def peer_decode_def
    by (rule yields_framed yields_server_body yields_peer_body)+
  then show ?thesis unfolding yields_def by fastforce
qed

text \<open>A private message of two users, followed by one more byte.\<close>

definition sample_message :: bytes where
  "sample_message = [24,0,0,0, 22,0,0,0, 1,0,0,0, 2,0,0,0, 2,0,0,0,195,164, 2,0,0,0,104,105, 9]"

lemma sample_decoded: "server_decode sample_message = (Ok (Some (MessageUserReceived 1 2 [228] [104, 105])), [9])"
  by code_simp

theorem decoded_messages_typed_witness: "server_typed (MessageUserReceived 1 2 [228] [104, 105])"
  using decoded_messages_typed [of sample_message] by (simp add: sample_decoded)

end
