(* ===== verification/Obfuscation.thy ===== *)
theory Obfuscation
  imports Wire
begin

text \<open>
  \<open>src/src/protocol/obfuscation.rs\<close>: the rotating-key obfuscation of peer traffic. The random
  initial key is an argument.
\<close>

section \<open>The cipher\<close>

definition rotate_right :: "u32 \<Rightarrow> nat \<Rightarrow> u32" where
  "rotate_right value n = word_rotr n value"

text \<open>\<open>data.chunks(4)\<close>.\<close>

fun chunks4 :: "bytes \<Rightarrow> bytes list" where
  "chunks4 (a # b # c # d # bs) = [a, b, c, d] # chunks4 bs"
| "chunks4 [] = []"
| "chunks4 bs = [bs]"

definition xor_chunk :: "u32 \<Rightarrow> bytes \<Rightarrow> bytes" where
  "xor_chunk key chunk = map2 xor chunk (put_u32_le key)"

text \<open>The loop over the chunks, the key rotated before each.\<close>

fun xor_chunks :: "u32 \<Rightarrow> bytes list \<Rightarrow> bytes" where
  "xor_chunks key [] = []"
| "xor_chunks key (chunk # cs) =
     (let key' = rotate_right key 31 in xor_chunk key' chunk @ xor_chunks key' cs)"

definition obfuscate :: "u32 \<Rightarrow> bytes \<Rightarrow> bytes" where
  "obfuscate initial_key data = put_u32_le initial_key @ xor_chunks initial_key (chunks4 data)"

definition deobfuscate :: "bytes \<Rightarrow> bytes option" where
  "deobfuscate data =
     (if length data < 4 then None
      else Some (xor_chunks (from_le (take 4 data)) (chunks4 (drop 4 data))))"

text \<open>\<open>u32::from_le_bytes([d[0], d[1], d[2], d[3]])\<close>, where the length was checked.\<close>

definition le_prefix :: "bytes \<Rightarrow> u32" where
  "le_prefix data = from_le (take 4 data)"

definition is_likely_obfuscated :: "bytes \<Rightarrow> bool" where
  "is_likely_obfuscated data =
     (if length data < 9 then False
      else if (data ! 0 = 0 \<or> data ! 0 = 1) \<and> 4 \<le> length data
              \<and> 0 < le_prefix data \<and> le_prefix data < 1000
      then False
      else
        (case deobfuscate data of
           Some d \<Rightarrow>
             5 \<le> length d \<and> 0 < le_prefix d \<and> le_prefix d < 10000000
             \<and> (d ! 4 = 0 \<or> d ! 4 = 1)
         | None \<Rightarrow> False))"

section \<open>Facts\<close>

lemma xor_chunk_length: "length (xor_chunk k c) = min (length c) 4"
  by (simp add: xor_chunk_def)

lemma map2_xor_twice:
  "length c \<le> length ks \<Longrightarrow> map2 xor (map2 xor c ks) ks = (c :: bytes)"
proof (induction c arbitrary: ks)
  case (Cons a c)
  then obtain k ks' where "ks = k # ks'" by (cases ks) auto
  with Cons show ?case by (simp add: xor.assoc)
qed simp

lemma xor_chunk_twice: "length c \<le> 4 \<Longrightarrow> xor_chunk k (xor_chunk k c) = c"
  by (simp add: xor_chunk_def map2_xor_twice)

lemma chunks4_append: "length c = 4 \<Longrightarrow> chunks4 (c @ bs) = c # chunks4 bs"
  by (auto simp: numeral_eq_Suc length_Suc_conv)

lemma chunks4_short: "c \<noteq> [] \<Longrightarrow> length c < 4 \<Longrightarrow> chunks4 c = [c]"
  by (cases c rule: chunks4.cases) auto

lemma chunks4_cases:
  obtains "bs = []" | "bs \<noteq> []" "length bs < 4"
    | c bs' where "length c = 4" "bs = c @ bs'" "chunks4 bs = c # chunks4 bs'"
proof -
  consider "bs = []" | "bs \<noteq> []" "length bs < 4" | "4 \<le> length bs"
    by (metis not_le)
  then show thesis
  proof cases
    case 3
    then have "length (take 4 bs) = 4" "bs = take 4 bs @ drop 4 bs" by simp_all
    with chunks4_append [of "take 4 bs" "drop 4 bs"] show thesis
      by (intro that(3) [of "take 4 bs" "drop 4 bs"]) simp_all
  qed (use that in blast)+
qed

lemma concat_chunks4: "concat (chunks4 bs) = bs"
  by (induction bs rule: chunks4.induct) auto

lemma xor_chunks_length: "length (xor_chunks k (chunks4 bs)) = length bs"
  by (induction bs arbitrary: k rule: chunks4.induct) (auto simp: Let_def xor_chunk_length)

lemma xor_chunks_twice: "xor_chunks k (chunks4 (xor_chunks k (chunks4 bs))) = bs"
proof (induction "length bs" arbitrary: bs k rule: less_induct)
  case less
  show ?case
  proof (cases bs rule: chunks4_cases)
    case 2
    have l: "length (xor_chunk (rotate_right k 31) bs) = length bs"
      using 2 by (simp add: xor_chunk_length)
    then have "xor_chunk (rotate_right k 31) bs \<noteq> []" using 2(1) by (metis length_0_conv)
    then have "chunks4 (xor_chunk (rotate_right k 31) bs) = [xor_chunk (rotate_right k 31) bs]"
      using l 2 by (simp add: chunks4_short)
    with 2 show ?thesis by (simp add: chunks4_short Let_def xor_chunk_twice)
  next
    case (3 c bs')
    then have "length bs' < length bs" by simp
    from less [OF this] 3 show ?thesis
      by (simp add: chunks4_append xor_chunk_length Let_def xor_chunk_twice)
  qed simp
qed

section \<open>Properties\<close>

text \<open>C38: for every key and every message, deobfuscating an obfuscated message gives the message
  back, and obfuscation adds exactly the four key bytes.\<close>

theorem obfuscate_roundtrip:
  "deobfuscate (obfuscate key msg) = Some msg \<and> length (obfuscate key msg) = 4 + length msg"
  by (simp add: deobfuscate_def obfuscate_def xor_chunks_twice xor_chunks_length)

text \<open>An obfuscated init message (a little-endian length below ten million, then type 0 or 1) is
  recognised by the heuristic, whatever the key, unless the key itself looks like a small length
  whose low byte is 0 or 1.\<close>

lemma obfuscated_init_detected:
  assumes "5 \<le> length msg" and "0 < le_prefix msg" and "le_prefix msg < 10000000"
    and "msg ! 4 = 0 \<or> msg ! 4 = 1"
    and "\<not> ((ucast key = (0 :: u8) \<or> ucast key = (1 :: u8)) \<and> 0 < key \<and> key < 1000)"
  shows "is_likely_obfuscated (obfuscate key msg)"
proof -
  have "le_prefix (obfuscate key msg) = key"
    by (simp add: le_prefix_def obfuscate_def)
  moreover have "obfuscate key msg ! 0 = ucast key"
    by (simp add: obfuscate_def put_u32_le_def)
  ultimately show ?thesis
    using assms obfuscate_roundtrip [of key msg] by (auto simp: is_likely_obfuscated_def)
qed

lemma obfuscated_init_detected_witness:
  "is_likely_obfuscated (obfuscate 0xdeadbeef [5, 0, 0, 0, 0, 57, 48, 0, 0])"
  by (rule obfuscated_init_detected) (simp_all add: le_prefix_def)

end
