(* ===== verification/Float64.thy ===== *)
theory Float64
  imports Complex_Main "HOL-Library.Log_Nat"
begin

text \<open>
  The \<open>f64\<close> values the scoring code computes with: finite rationals, each operation the exact one
  followed by rounding to 53 significant bits, ties to even, as IEEE 754 prescribes. Overflow and
  subnormal results are not modelled: the magnitudes the code forms (scores, speeds and queue
  lengths converted from integers) stay far from both ends of the range.
\<close>

type_synonym f64 = rat

section \<open>Rounding\<close>

definition round_half_even :: "rat \<Rightarrow> int" where
  "round_half_even y =
     (let f = \<lfloor>y\<rfloor>; d = y - of_int f in
      if d < 1 / 2 then f else if 1 / 2 < d then f + 1 else if even f then f else f + 1)"

text \<open>The exponent \<open>e\<close> of a positive \<open>x\<close>: \<open>2^e \<le> x < 2^(e+1)\<close>.\<close>

definition exponent :: "rat \<Rightarrow> int" where
  "exponent x =
     (let (p, q) = quotient_of x; e0 = bitlen p - bitlen q in
      if 2 powi e0 \<le> x then e0 else e0 - 1)"

definition rnd_pos :: "rat \<Rightarrow> rat" where
  "rnd_pos a = (let u = 2 powi (exponent a - 52) in of_int (round_half_even (a / u)) * u)"

definition rnd :: "rat \<Rightarrow> f64" where
  "rnd x = (if x = 0 then 0 else if 0 < x then rnd_pos x else - rnd_pos (- x))"

lemma round_half_even_int [simp]: "round_half_even (of_int n) = n"
  by (simp add: round_half_even_def)

lemma round_half_even_bounds: "\<lfloor>y\<rfloor> \<le> round_half_even y \<and> round_half_even y \<le> \<lfloor>y\<rfloor> + 1"
  by (simp add: round_half_even_def Let_def)

lemma round_half_even_mono: "y \<le> z \<Longrightarrow> round_half_even y \<le> round_half_even z"
proof -
  assume le: "y \<le> z"
  then have "\<lfloor>y\<rfloor> \<le> \<lfloor>z\<rfloor>" by (rule floor_mono)
  then consider "\<lfloor>y\<rfloor> + 1 \<le> \<lfloor>z\<rfloor>" | "\<lfloor>y\<rfloor> = \<lfloor>z\<rfloor>" by linarith
  then show ?thesis
  proof cases
    case 1
    then show ?thesis using round_half_even_bounds [of y] round_half_even_bounds [of z] by linarith
  next
    case 2
    with le show ?thesis by (auto simp: round_half_even_def Let_def)
  qed
qed

lemma bitlen_pos_bounds:
  assumes "0 < n"
  shows "2 powi (bitlen n - 1) \<le> (of_int n :: rat)" "(of_int n :: rat) < 2 powi (bitlen n)"
proof -
  have b: "2 ^ nat (bitlen n - 1) \<le> n" "n < 2 ^ nat (bitlen n)" "0 < bitlen n"
    using bitlen_bounds [OF assms] bitlen_nonneg [of n] bitlen_eq_zero_iff [of n] assms
    by linarith+
  then have "(2 :: rat) powi (bitlen n - 1) = of_int (2 ^ nat (bitlen n - 1))"
    "(2 :: rat) powi (bitlen n) = of_int (2 ^ nat (bitlen n))"
    by (simp_all add: power_int_def)
  with b show "2 powi (bitlen n - 1) \<le> (of_int n :: rat)" "(of_int n :: rat) < 2 powi (bitlen n)"
    by (simp_all only: of_int_le_iff of_int_less_iff)
qed

lemma powi2_less: "(2 :: rat) powi a < 2 powi b \<Longrightarrow> a < b"
  using power_int_increasing [of b a "2 :: rat"] by (cases "a < b") auto

lemma exponent_bounds:
  assumes "0 < x"
  shows "2 powi exponent x \<le> x" "x < 2 powi (exponent x + 1)"
proof -
  obtain p q where pq: "quotient_of x = (p, q)" by force
  have q: "0 < q" using quotient_of_denom_pos [OF pq] .
  have x: "x = of_int p / of_int q" using quotient_of_div [OF pq] .
  have p: "0 < p" using assms q by (simp add: x zero_less_divide_iff)
  define e0 where "e0 = bitlen p - bitlen q"
  have up: "x < 2 powi (e0 + 1)"
  proof -
    have "of_int p / of_int q < (2 powi (bitlen p)) / (2 powi (bitlen q - 1) :: rat)"
      using bitlen_pos_bounds [OF p] bitlen_pos_bounds [OF q] p q by (intro frac_less) simp_all
    also have "\<dots> = 2 powi (e0 + 1)"
      by (simp add: e0_def flip: power_int_diff) (simp add: algebra_simps)
    finally show ?thesis by (simp add: x)
  qed
  have low: "2 powi (e0 - 1) \<le> x"
  proof -
    have "2 powi (e0 - 1) = (2 powi (bitlen p - 1)) / (2 powi (bitlen q) :: rat)"
      by (simp add: e0_def flip: power_int_diff) (simp add: algebra_simps)
    also have "\<dots> \<le> of_int p / of_int q"
      using bitlen_pos_bounds [OF p] bitlen_pos_bounds [OF q] p q
      by (intro frac_le) simp_all
    finally show ?thesis by (simp add: x)
  qed
  have e: "exponent x = (if 2 powi e0 \<le> x then e0 else e0 - 1)"
    by (simp add: exponent_def pq e0_def)
  show "2 powi exponent x \<le> x" "x < 2 powi (exponent x + 1)"
    using up low by (auto simp: e)
qed

lemma exponent_unique:
  assumes "2 powi e \<le> x" "x < 2 powi (e + 1)"
  shows "exponent x = e"
proof -
  have x: "0 < x" using assms(1) by (meson less_le_trans zero_less_numeral zero_less_power_int)
  have "(2 :: rat) powi e < 2 powi (exponent x + 1)" "(2 :: rat) powi exponent x < 2 powi (e + 1)"
    using exponent_bounds [OF x] assms by linarith+
  then have "e < exponent x + 1" "exponent x < e + 1" by (blast intro: powi2_less)+
  then show ?thesis by simp
qed

lemma exponent_mono: "0 < x \<Longrightarrow> x \<le> y \<Longrightarrow> exponent x \<le> exponent y"
proof -
  assume x: "0 < x" and le: "x \<le> y"
  then have "0 < y" by simp
  from exponent_bounds(1) [OF x] le exponent_bounds(2) [OF this]
  have "(2 :: rat) powi exponent x < 2 powi (exponent y + 1)" by linarith
  then show ?thesis using powi2_less by fastforce
qed

text \<open>A positive number stays in its binade, or reaches the next power of two.\<close>

lemma rnd_pos_binade:
  assumes "0 < a"
  shows "2 powi exponent a \<le> rnd_pos a" "rnd_pos a \<le> 2 powi (exponent a + 1)"
proof -
  define u :: rat where "u = 2 powi (exponent a - 52)"
  have u: "0 < u" by (simp add: u_def)
  have e: "2 powi exponent a = of_int (2 ^ 52) * u" "2 powi (exponent a + 1) = of_int (2 ^ 53) * u"
    by (simp_all add: u_def power_int_diff power_int_add field_simps)
  have "of_int (2 ^ 52) \<le> a / u" "a / u \<le> of_int (2 ^ 53)"
    using exponent_bounds [OF assms] u unfolding e
    by (simp_all add: pos_le_divide_eq pos_divide_le_eq)
  then have "2 ^ 52 \<le> round_half_even (a / u)" "round_half_even (a / u) \<le> 2 ^ 53"
    using round_half_even_mono [of "of_int (2 ^ 52)" "a / u"]
      round_half_even_mono [of "a / u" "of_int (2 ^ 53)"]
    unfolding round_half_even_int by blast+
  then have "(of_int (2 ^ 52) :: rat) \<le> of_int (round_half_even (a / u))"
    "(of_int (round_half_even (a / u)) :: rat) \<le> of_int (2 ^ 53)"
    by (simp_all only: of_int_le_iff)
  then show "2 powi exponent a \<le> rnd_pos a" "rnd_pos a \<le> 2 powi (exponent a + 1)"
    unfolding rnd_pos_def Let_def u_def [symmetric] e
    using u by (simp_all only: mult_le_cancel_right_pos)
qed

lemma rnd_pos_mono:
  assumes "0 < a" "a \<le> b"
  shows "rnd_pos a \<le> rnd_pos b"
proof -
  have b: "0 < b" using assms by simp
  have "exponent a \<le> exponent b" using exponent_mono assms by blast
  then consider "exponent a = exponent b" | "exponent a + 1 \<le> exponent b" by linarith
  then show ?thesis
  proof cases
    case 1
    have "a / 2 powi (exponent b - 52) \<le> b / 2 powi (exponent b - 52)"
      using assms by (simp add: divide_right_mono)
    from round_half_even_mono [OF this] 1 show ?thesis
      by (simp add: rnd_pos_def Let_def)
  next
    case 2
    then have "(2 :: rat) powi (exponent a + 1) \<le> 2 powi exponent b"
      by (intro power_int_increasing) simp_all
    with rnd_pos_binade [OF assms(1)] rnd_pos_binade [OF b] show ?thesis by linarith
  qed
qed

lemma rnd_mono: "x \<le> y \<Longrightarrow> rnd x \<le> rnd y"
proof -
  assume le: "x \<le> y"
  have pos: "0 < rnd_pos a" if "0 < a" for a
    using rnd_pos_binade(1) [OF that] by (meson less_le_trans zero_less_numeral zero_less_power_int)
  consider "0 < x" | "x = 0" | "x < 0" by linarith
  then show ?thesis
  proof cases
    case 1
    with le show ?thesis by (simp add: rnd_def rnd_pos_mono)
  next
    case 2
    with le pos [of y] show ?thesis by (auto simp: rnd_def)
  next
    case 3
    with le pos [of y] pos [of "- x"] rnd_pos_mono [of "- y" "- x"] show ?thesis
      by (auto simp: rnd_def)
  qed
qed

text \<open>Integers of at most 53 bits are exact.\<close>

lemma rnd_pos_int:
  assumes "0 < n" "n \<le> 2 ^ 53"
  shows "rnd_pos (of_int n) = of_int n"
proof -
  define u :: rat where "u = 2 powi (exponent (of_int n) - 52)"
  have u: "u \<noteq> 0" by (simp add: u_def)
  have "\<exists>k. of_int n / u = of_int k"
  proof (cases "n = 2 ^ 53")
    case True
    then have "exponent (of_int n) = 53" by (intro exponent_unique) simp_all
    then have "of_int n / u = of_int (2 ^ 52)" using True by (simp add: u_def)
    then show ?thesis by blast
  next
    case False
    have "(2 :: rat) powi exponent (of_int n) \<le> of_int n" using assms by (simp add: exponent_bounds)
    also have "(of_int n :: rat) < of_int (2 ^ 53)"
      using assms False by (simp only: of_int_less_iff)
    also have "of_int (2 ^ 53) = (2 :: rat) powi 53" by simp
    finally have "exponent (of_int n) < 53" by (rule powi2_less)
    then have "of_int n / u = of_int (n * 2 ^ nat (52 - exponent (of_int n)))"
      by (simp add: u_def power_int_def field_simps power_int_diff)
    then show ?thesis by blast
  qed
  then obtain k where "of_int n / u = of_int k" by blast
  then have "rnd_pos (of_int n) = of_int k * u" by (simp add: rnd_pos_def Let_def flip: u_def)
  with \<open>of_int n / u = of_int k\<close> u show ?thesis by (simp add: field_simps)
qed

lemma rnd_int: "\<bar>n\<bar> \<le> 2 ^ 53 \<Longrightarrow> rnd (of_int n) = of_int n"
  using rnd_pos_int [of n] rnd_pos_int [of "- n"] by (auto simp: rnd_def abs_if split: if_splits)

section \<open>What the scoring code relies on\<close>

locale rounding =
  fixes r :: "rat \<Rightarrow> rat"
  assumes mono: "x \<le> y \<Longrightarrow> r x \<le> r y"
    and exact_int: "\<bar>n\<bar> \<le> 2 ^ 53 \<Longrightarrow> r (of_int n) = of_int n"
begin

lemma lower: "of_int n \<le> x \<Longrightarrow> \<bar>n\<bar> \<le> 2 ^ 53 \<Longrightarrow> of_int n \<le> r x"
  using mono [of "of_int n" x] by (simp add: exact_int)

lemma upper: "x \<le> of_int n \<Longrightarrow> \<bar>n\<bar> \<le> 2 ^ 53 \<Longrightarrow> r x \<le> of_int n"
  using mono [of x "of_int n"] by (simp add: exact_int)

lemma lower_num: "numeral k \<le> x \<Longrightarrow> (numeral k :: int) \<le> 2 ^ 53 \<Longrightarrow> numeral k \<le> r x"
  using lower [of "numeral k" x] by simp

lemma upper_num: "x \<le> numeral k \<Longrightarrow> (numeral k :: int) \<le> 2 ^ 53 \<Longrightarrow> r x \<le> numeral k"
  using upper [of x "numeral k"] by simp

lemma nonneg: "0 \<le> x \<Longrightarrow> 0 \<le> r x"
  using lower [of 0 x] by simp

lemma le_one: "x \<le> 1 \<Longrightarrow> r x \<le> 1"
  using upper [of x 1] by simp

end

interpretation f64: rounding rnd
  by unfold_locales (auto intro: rnd_mono rnd_int)

section \<open>Operations\<close>

definition fadd :: "f64 \<Rightarrow> f64 \<Rightarrow> f64" where "fadd a b = rnd (a + b)"
definition fsub :: "f64 \<Rightarrow> f64 \<Rightarrow> f64" where "fsub a b = rnd (a - b)"
definition fmul :: "f64 \<Rightarrow> f64 \<Rightarrow> f64" where "fmul a b = rnd (a * b)"
definition fdiv :: "f64 \<Rightarrow> f64 \<Rightarrow> f64" where "fdiv a b = rnd (a / b)"
definition f64_of_nat :: "nat \<Rightarrow> f64" where "f64_of_nat n = rnd (of_nat n)"

lemma rnd_0 [simp]: "rnd 0 = 0" by (simp add: rnd_def)
lemma rnd_1 [simp]: "rnd 1 = 1" using rnd_int [of 1] by simp

lemma rnd_num [simp]: "(numeral k :: int) \<le> 2 ^ 53 \<Longrightarrow> rnd (numeral k) = numeral k"
  using rnd_int [of "numeral k"] by simp

lemma rnd_neg_num [simp]: "(numeral k :: int) \<le> 2 ^ 53 \<Longrightarrow> rnd (- numeral k) = - numeral k"
  using rnd_int [of "- numeral k"] by simp

lemma f64_of_nat_nonneg: "0 \<le> f64_of_nat n"
  by (simp add: f64_of_nat_def f64.nonneg)

lemma fdiv_nonneg: "0 \<le> a \<Longrightarrow> 0 \<le> b \<Longrightarrow> 0 \<le> fdiv a b"
  unfolding fdiv_def by (intro f64.nonneg) simp

lemma fmul_nonneg: "0 \<le> a \<Longrightarrow> 0 \<le> b \<Longrightarrow> 0 \<le> fmul a b"
  unfolding fmul_def by (intro f64.nonneg) simp

lemma f64_of_nat_exact: "n \<le> 2 ^ 53 \<Longrightarrow> f64_of_nat n = of_nat n"
  using rnd_int [of "int n"] by (simp add: f64_of_nat_def)

lemma f64_of_nat_less: "m < n \<Longrightarrow> n \<le> 2 ^ 53 \<Longrightarrow> f64_of_nat m < f64_of_nat n"
  by (simp add: f64_of_nat_exact)

lemma f64_of_nat_mono: "m \<le> n \<Longrightarrow> f64_of_nat m \<le> f64_of_nat n"
  by (simp add: f64_of_nat_def f64.mono)

end
