(* ===== verification/File_Selection.thy ===== *)
theory File_Selection
  imports Messages Float64 "HOL-Library.Multiset"
begin

text \<open>
  \<open>src/src/protocol/file_selection.rs\<close>: query parsing, title matching, the scoring of a file and
  the choice among all the files the peers offered. \<open>u\<close> is the Unicode tables.
\<close>

section \<open>Data\<close>

record search_result =
  sr_username :: rstring
  sr_files :: "search_file list"
  sr_has_slots :: bool
  sr_avg_speed :: u32
  sr_queue_length :: u64
  sr_peer_ip :: rstring
  sr_peer_port :: u32

record scored_file =
  sc_username :: rstring
  sc_filename :: rstring
  sc_size :: u64
  sc_bitrate :: "u32 option"
  sc_score :: f64
  sc_slot_free :: bool
  sc_avg_speed :: u32
  sc_queue_length :: u64
  sc_peer_ip :: rstring
  sc_peer_port :: u32

definition REMIX_INDICATORS :: "rstring list" where
  "REMIX_INDICATORS = map str
     [''remix'', ''mix)'', ''edit'', ''version)'', ''instrumental'', ''acapella'', ''a cappella'',
      ''radio edit'', ''live'', ''demo'', ''vip'', ''bootleg'', ''cover'', ''acoustic'']"

definition EXTENDED_INDICATOR :: rstring where "EXTENDED_INDICATOR = str ''extended''"
definition REMIX_PENALTY :: f64 where "REMIX_PENALTY = 30"
definition EXTENDED_BONUS :: f64 where "EXTENDED_BONUS = 10"

section \<open>Scoring\<close>

fun remix_loop :: "rstring \<Rightarrow> rstring \<Rightarrow> rstring list \<Rightarrow> f64" where
  "remix_loop filename_lower query_lower [] = 0"
| "remix_loop filename_lower query_lower (ind # rest) =
     (if contains filename_lower ind \<and> \<not> contains query_lower ind then REMIX_PENALTY
      else remix_loop filename_lower query_lower rest)"

definition calculate_remix_penalty :: "unicode \<Rightarrow> rstring \<Rightarrow> rstring \<Rightarrow> f64" where
  "calculate_remix_penalty u filename query =
     remix_loop (lowercase u filename) (lowercase u query) REMIX_INDICATORS"

definition calculate_extended_bonus :: "unicode \<Rightarrow> rstring \<Rightarrow> rstring \<Rightarrow> f64" where
  "calculate_extended_bonus u filename query =
     (if contains (lowercase u filename) EXTENDED_INDICATOR
         \<and> \<not> contains (lowercase u query) EXTENDED_INDICATOR
      then EXTENDED_BONUS else 0)"

definition parse_query :: "unicode \<Rightarrow> rstring \<Rightarrow> rstring option \<times> rstring option" where
  "parse_query u query =
     (case split_once_str (str '' - '') query of
        Some (a, t) \<Rightarrow> (Some (lowercase u (trim u a)), Some (lowercase u (trim u t)))
      | None \<Rightarrow> (None, Some (lowercase u (trim u query))))"

definition normalize_for_matching :: "unicode \<Rightarrow> rstring \<Rightarrow> rstring" where
  "normalize_for_matching u s =
     join_str (str '' '')
       (split_whitespace u (filter (\<lambda>c. alphanumeric u c \<or> whitespace u c) (lowercase u s)))"

text \<open>47 is the slash, 92 the backslash, 46 the dot.\<close>

definition extract_track_name :: "unicode \<Rightarrow> rstring \<Rightarrow> rstring" where
  "extract_track_name u filename =
     (let basename = after_last (\<lambda>c. c = 47 \<or> c = 92) filename;
          without_ext = (case rsplit_once 46 basename of Some (name, _) \<Rightarrow> name | None \<Rightarrow> basename);
          track_name = trim u (trim_start_matches (\<lambda>c. c \<in> set (str '' -._''))
                                (trim_start_matches (numeric u) without_ext))
      in normalize_for_matching u track_name)"

definition score_title_match :: "unicode \<Rightarrow> rstring \<Rightarrow> rstring \<Rightarrow> f64" where
  "score_title_match u filename expected_title =
     (let track_name = extract_track_name u filename;
          expected = normalize_for_matching u expected_title in
      if track_name = [] \<or> expected = [] then 0
      else if track_name = expected then 1
      else if contains track_name expected then rnd (9 / 10)
      else if contains expected track_name then rnd (7 / 10)
      else
        (let track_words = remdups (split_whitespace u track_name);
             expected_words = remdups (split_whitespace u expected);
             intersection = length (filter (\<lambda>w. w \<in> set expected_words) track_words) in
         if 0 < intersection then
           (let union_count = length (remdups (track_words @ expected_words))
            in fmul (fdiv (f64_of_nat intersection) (f64_of_nat union_count)) (rnd (6 / 10)))
         else 0))"

text \<open>The format preference: the points added for the file's extension, if any are.\<close>

definition mp3_points :: "u32 option \<Rightarrow> f64 option" where
  "mp3_points br =
     (case br of
        Some b \<Rightarrow> if 320 \<le> b then Some 20 else if 256 \<le> b then Some 15
                  else if 192 \<le> b then Some 8 else if 128 \<le> b then Some 2 else None
      | None \<Rightarrow> Some 5)"

definition ogg_points :: "u32 option \<Rightarrow> f64 option" where
  "ogg_points br =
     (case br of
        Some b \<Rightarrow> if 320 \<le> b then Some 18 else if 256 \<le> b then Some 14
                  else if 192 \<le> b then Some 8 else if 128 \<le> b then Some 3 else None
      | None \<Rightarrow> Some 10)"

definition format_points :: "rstring \<Rightarrow> u32 option \<Rightarrow> f64 option" where
  "format_points lower br =
     (if ends_with lower (str ''.flac'') then Some 30
      else if ends_with lower (str ''.wav'') then Some 25
      else if ends_with lower (str ''.mp3'') then mp3_points br
      else if ends_with lower (str ''.m4a'') \<or> ends_with lower (str ''.aac'') then Some 12
      else if ends_with lower (str ''.aiff'') \<or> ends_with lower (str ''.aif'') then Some 25
      else if ends_with lower (str ''.ogg'') then ogg_points br
      else None)"

definition score_file ::
  "unicode \<Rightarrow> rstring \<Rightarrow> u64 \<Rightarrow> u32 option \<Rightarrow> rstring \<Rightarrow> rstring \<Rightarrow> f64" where
  "score_file u filename file_size br expected_title full_query =
     (let score = fadd 0 (fmul (score_title_match u filename expected_title) 100);
          score = (case format_points (lowercase u filename) br of
                     Some p \<Rightarrow> fadd score p | None \<Rightarrow> score);
          score = fsub score (calculate_remix_penalty u filename full_query)
      in fadd score (calculate_extended_bonus u filename full_query))"

definition is_audio_file :: "unicode \<Rightarrow> rstring \<Rightarrow> bool" where
  "is_audio_file u filename =
     (let lower = lowercase u filename in
      ends_with lower (str ''.mp3'') \<or> ends_with lower (str ''.flac'')
      \<or> ends_with lower (str ''.wav'') \<or> ends_with lower (str ''.ogg'')
      \<or> ends_with lower (str ''.m4a'') \<or> ends_with lower (str ''.aac'')
      \<or> ends_with lower (str ''.aiff'') \<or> ends_with lower (str ''.aif''))"

definition matches_format :: "unicode \<Rightarrow> rstring \<Rightarrow> rstring option \<Rightarrow> bool" where
  "matches_format u filename fmt =
     (case fmt of
        None \<Rightarrow> True
      | Some f \<Rightarrow>
          (let lower = lowercase u filename in
           if f = str ''mp3'' then ends_with lower (str ''.mp3'')
           else if f = str ''flac'' then ends_with lower (str ''.flac'')
           else if f = str ''m4a'' then ends_with lower (str ''.m4a'')
           else if f = str ''wav'' then ends_with lower (str ''.wav'')
           else if f = str ''aiff'' then ends_with lower (str ''.aiff'') \<or> ends_with lower (str ''.aif'')
           else if f = str ''ogg'' then ends_with lower (str ''.ogg'')
           else True))"

section \<open>Choosing files\<close>

definition speed_bonus :: "u32 \<Rightarrow> f64" where
  "speed_bonus avg_speed =
     (let speed_kbps = fdiv (f64_of_nat (unat avg_speed)) 1024
      in fmul (min (fdiv speed_kbps 1024) 1) 25)"

definition queue_penalty :: "u64 \<Rightarrow> f64" where
  "queue_penalty queue_length = min (fdiv (f64_of_nat (unat queue_length)) 10) 5"

definition total_score :: "unicode \<Rightarrow> rstring \<Rightarrow> rstring \<Rightarrow> search_result \<Rightarrow> search_file \<Rightarrow> f64" where
  "total_score u title query r f =
     fsub (fadd (score_file u (sf_filename f) (sf_size f) (bitrate f) title query)
             (speed_bonus (sr_avg_speed r)))
          (queue_penalty (sr_queue_length r))"

definition scored :: "f64 \<Rightarrow> search_result \<Rightarrow> search_file \<Rightarrow> scored_file" where
  "scored s r f =
     \<lparr>sc_username = sr_username r, sc_filename = sf_filename f, sc_size = sf_size f,
      sc_bitrate = bitrate f, sc_score = s, sc_slot_free = sr_has_slots r,
      sc_avg_speed = sr_avg_speed r, sc_queue_length = sr_queue_length r,
      sc_peer_ip = sr_peer_ip r, sc_peer_port = sr_peer_port r\<rparr>"

text \<open>The body of the double loop: the candidate a file gives, if any.\<close>

definition candidate ::
  "unicode \<Rightarrow> rstring \<Rightarrow> rstring \<Rightarrow> rstring option \<Rightarrow> search_result \<Rightarrow> search_file \<Rightarrow> scored_file list" where
  "candidate u title query fmt r f =
     (if \<not> is_audio_file u (sf_filename f) \<or> \<not> matches_format u (sf_filename f) fmt then []
      else
        (let score = total_score u title query r f
         in if 50 < score then [scored score r f] else []))"

definition all_candidates ::
  "unicode \<Rightarrow> rstring \<Rightarrow> rstring \<Rightarrow> rstring option \<Rightarrow> search_result list \<Rightarrow> scored_file list" where
  "all_candidates u title query fmt results =
     concat (map (\<lambda>r. if \<not> sr_has_slots r then []
                      else concat (map (candidate u title query fmt r) (sr_files r))) results)"

text \<open>A stable sort, highest score first; no score is a NaN.\<close>

definition find_best_files ::
  "unicode \<Rightarrow> search_result list \<Rightarrow> rstring \<Rightarrow> rstring option \<Rightarrow> scored_file list" where
  "find_best_files u results query fmt =
     (let title = (case snd (parse_query u query) of Some t \<Rightarrow> t | None \<Rightarrow> []) in
      if title = [] then []
      else sort_key (\<lambda>c. - sc_score c) (all_candidates u title query fmt results))"

definition fallback_ok :: "unicode \<Rightarrow> rstring option \<Rightarrow> search_file \<Rightarrow> bool" where
  "fallback_ok u fmt f \<longleftrightarrow>
     is_audio_file u (sf_filename f) \<and> matches_format u (sf_filename f) fmt
     \<and> (let size_mb = fdiv (f64_of_nat (unat (sf_size f))) 1048576 in 1 \<le> size_mb \<and> size_mb \<le> 50)"

definition fallback_files ::
  "unicode \<Rightarrow> search_result list \<Rightarrow> rstring option \<Rightarrow> scored_file list" where
  "fallback_files u results fmt =
     concat (map (\<lambda>r. if \<not> sr_has_slots r \<and> (\<exists>r'\<in>set results. sr_has_slots r') then []
                      else map (scored 0 r) (filter (fallback_ok u fmt) (sr_files r))) results)"

definition find_best_file ::
  "unicode \<Rightarrow> search_result list \<Rightarrow> rstring \<Rightarrow> rstring option \<Rightarrow> scored_file option" where
  "find_best_file u results query fmt =
     (case find_best_files u results query fmt of
        best # _ \<Rightarrow> Some best
      | [] \<Rightarrow> (case fallback_files u results fmt of c # _ \<Rightarrow> Some c | [] \<Rightarrow> None))"

section \<open>Bounds\<close>

lemma remix_loop_values:
  "remix_loop fl ql inds =
     (if \<exists>i\<in>set inds. contains fl i \<and> \<not> contains ql i then REMIX_PENALTY else 0)"
  by (induction inds) auto

lemma format_points_bounds: "format_points l br = Some p \<Longrightarrow> 0 \<le> p \<and> p \<le> 30"
  by (auto simp: format_points_def mp3_points_def ogg_points_def split: if_splits option.splits)

lemma overlap_le:
  "length (filter (\<lambda>w. w \<in> set ys) (remdups xs)) \<le> length (remdups (xs @ ys))"
proof -
  have "length (filter (\<lambda>w. w \<in> set ys) (remdups xs)) = card (set xs \<inter> set ys)"
    by (metis distinct_card distinct_filter distinct_remdups inf_set_def mem_Collect_eq
        set_filter set_remdups Collect_conj_eq Collect_mem_eq)
  also have "\<dots> \<le> card (set xs \<union> set ys)" by (intro card_mono) auto
  also have "\<dots> = length (remdups (xs @ ys))" by (simp add: length_remdups_card_conv)
  finally show ?thesis .
qed

lemma overlap_score:
  assumes "0 < i" "i \<le> n"
  shows "0 \<le> fmul (fdiv (f64_of_nat i) (f64_of_nat n)) (rnd (6 / 10))
       \<and> fmul (fdiv (f64_of_nat i) (f64_of_nat n)) (rnd (6 / 10)) \<le> 1"
proof -
  have i: "0 \<le> f64_of_nat i" "f64_of_nat i \<le> f64_of_nat n"
    using assms by (auto simp: f64_of_nat_def intro: f64.nonneg f64.mono)
  have "1 \<le> f64_of_nat n" using assms f64.lower [of 1 "of_nat n"] by (simp add: f64_of_nat_def)
  with i have "0 \<le> f64_of_nat i / f64_of_nat n" "f64_of_nat i / f64_of_nat n \<le> 1" by auto
  then have q: "0 \<le> fdiv (f64_of_nat i) (f64_of_nat n)" "fdiv (f64_of_nat i) (f64_of_nat n) \<le> 1"
    unfolding fdiv_def by (auto intro: f64.nonneg f64.le_one)
  have s: "0 \<le> rnd (6 / 10)" "rnd (6 / 10) \<le> 1" by (auto intro: f64.nonneg f64.le_one)
  from q s have "0 \<le> fdiv (f64_of_nat i) (f64_of_nat n) * rnd (6 / 10)"
    "fdiv (f64_of_nat i) (f64_of_nat n) * rnd (6 / 10) \<le> 1"
    by (auto intro: mult_le_one)
  then show ?thesis unfolding fmul_def by (auto intro: f64.nonneg f64.le_one)
qed

lemma if_rangeI:
  "(b \<Longrightarrow> 0 \<le> x \<and> x \<le> (1::rat)) \<Longrightarrow> (\<not> b \<Longrightarrow> 0 \<le> y \<and> y \<le> 1)
   \<Longrightarrow> 0 \<le> (if b then x else y) \<and> (if b then x else y) \<le> 1"
  by simp

lemma score_title_match_range:
  "0 \<le> score_title_match u f t \<and> score_title_match u f t \<le> 1"
proof -
  have c: "0 \<le> rnd (9 / 10)" "rnd (9 / 10) \<le> 1" "0 \<le> rnd (7 / 10)" "rnd (7 / 10) \<le> 1"
    by (auto intro: f64.nonneg f64.le_one)
  have ov: "length (filter (\<lambda>w. w \<in> set ew) tw) \<le> length (remdups (tw @ ew))"
    if "distinct tw" for ew tw :: "rstring list"
    using overlap_le [of ew tw] that by (simp add: distinct_remdups_id)
  show ?thesis
    unfolding score_title_match_def Let_def
    by (intro if_rangeI overlap_score ov distinct_remdups) (simp_all only: c simp_thms order.refl zero_le_one)
qed

lemma calculate_remix_penalty_values:
  "calculate_remix_penalty u f q = 0 \<or> calculate_remix_penalty u f q = 30"
  by (simp add: calculate_remix_penalty_def remix_loop_values REMIX_PENALTY_def)

lemma calculate_extended_bonus_values:
  "calculate_extended_bonus u f q = 0 \<or> calculate_extended_bonus u f q = 10"
  by (simp add: calculate_extended_bonus_def EXTENDED_BONUS_def)

lemma title_points: "0 \<le> fadd 0 (fmul (score_title_match u f t) 100)
     \<and> fadd 0 (fmul (score_title_match u f t) 100) \<le> 100"
  using score_title_match_range [of u f t]
  by (auto simp: fadd_def fmul_def intro!: f64.nonneg f64.upper_num)

lemma with_format_points:
  assumes "0 \<le> s" "s \<le> 100"
  shows "0 \<le> (case format_points l br of Some p \<Rightarrow> fadd s p | None \<Rightarrow> s)
       \<and> (case format_points l br of Some p \<Rightarrow> fadd s p | None \<Rightarrow> s) \<le> 130"
  using assms format_points_bounds [of l br]
  by (auto simp: fadd_def split: option.splits intro!: f64.nonneg f64.upper_num)

lemma speed_bonus_range: "0 \<le> speed_bonus v \<and> speed_bonus v \<le> 25"
  unfolding speed_bonus_def Let_def
  by (auto simp: min_def fmul_def intro!: f64.nonneg f64.upper_num fdiv_nonneg f64_of_nat_nonneg)

lemma queue_penalty_range: "0 \<le> queue_penalty n \<and> queue_penalty n \<le> 5"
  unfolding queue_penalty_def
  by (auto simp: min_def intro!: fdiv_nonneg f64_of_nat_nonneg)

text \<open>The score of a file always lies between -30 and 140 (title at most 100, format at most 30,
  extended bonus 10, remix penalty 30), in floating-point arithmetic and for every query, file name
  and bitrate.\<close>

lemma score_file_bounds:
  "- 30 \<le> score_file u filename sz br title query \<and> score_file u filename sz br title query \<le> 140"
proof -
  define s where "s = (case format_points (lowercase u filename) br of
      Some p \<Rightarrow> fadd (fadd 0 (fmul (score_title_match u filename title) 100)) p
    | None \<Rightarrow> fadd 0 (fmul (score_title_match u filename title) 100))"
  have s: "0 \<le> s" "s \<le> 130" using with_format_points title_points by (auto simp: s_def)
  define p where "p = calculate_remix_penalty u filename query"
  define b where "b = calculate_extended_bonus u filename query"
  have p: "p = 0 \<or> p = 30" and b: "b = 0 \<or> b = 10"
    by (simp_all add: p_def b_def calculate_remix_penalty_values calculate_extended_bonus_values)
  have "- 30 \<le> fsub s p" "fsub s p \<le> 130"
    using s p f64.lower [of "- 30" "s - p"] by (auto simp: fsub_def intro!: f64.upper_num)
  then have "- 30 \<le> fadd (fsub s p) b" "fadd (fsub s p) b \<le> 140"
    using b f64.lower [of "- 30" "fsub s p + b"] by (auto simp: fadd_def intro!: f64.upper_num)
  then show ?thesis by (simp add: score_file_def Let_def s_def p_def b_def)
qed

section \<open>The choice\<close>

text \<open>C10: the files offered for download are exactly the audio files of peers with a free slot that
  match the format filter and score above 50, each with its score; they are in order of decreasing
  score. But when the title read from the query is empty, as for an empty query, no file is offered, whatever
  the files score.\<close>

theorem find_best_files_correct:
  assumes "title = the (snd (parse_query u query))"
  shows "sorted_wrt (\<lambda>a b. sc_score b \<le> sc_score a) (find_best_files u results query fmt)
    \<and> set (find_best_files u results query fmt) =
        {scored (total_score u title query r f) r f | r f.
           title \<noteq> [] \<and> r \<in> set results \<and> sr_has_slots r \<and> f \<in> set (sr_files r)
           \<and> is_audio_file u (sf_filename f) \<and> matches_format u (sf_filename f) fmt
           \<and> 50 < total_score u title query r f}"
proof -
  have some: "snd (parse_query u query) = Some title"
    using assms(1) by (auto simp: parse_query_def split: option.splits)
  have eq: "find_best_files u results query fmt =
      (if title = [] then [] else sort_key (\<lambda>c. - sc_score c) (all_candidates u title query fmt results))"
    by (simp add: find_best_files_def some)
  have "sorted_wrt (\<lambda>a b. - sc_score a \<le> - sc_score b) (find_best_files u results query fmt)"
    unfolding eq using sorted_sort_key [of "\<lambda>c. - sc_score c"]
    by (auto simp: sorted_map)
  moreover have "set (find_best_files u results query fmt) =
      (if title = [] then {} else set (all_candidates u title query fmt results))"
    by (simp add: eq)
  ultimately show ?thesis
    by (auto simp: all_candidates_def candidate_def Let_def split: if_splits)
qed

definition sample_file :: search_file where
  "sample_file = \<lparr>sf_code = 1, sf_filename = str ''a/blue moon.flac'', sf_size = 20000000, sf_extension = str ''flac'',
     sf_attributes = []\<rparr>"

definition sample_result :: search_result where
  "sample_result = \<lparr>sr_username = str ''peer'', sr_files = [sample_file], sr_has_slots = True,
     sr_avg_speed = 2097152, sr_queue_length = 0, sr_peer_ip = str ''10.0.0.1'', sr_peer_port = 2234\<rparr>"

lemma sample_query: "the (snd (parse_query ascii_tables (str ''x - other''))) = str ''other''"
  by code_simp

theorem find_best_files_correct_witness:
  "sorted_wrt (\<lambda>a b. sc_score b \<le> sc_score a)
     (find_best_files ascii_tables [sample_result] (str ''x - other'') None)"
  using find_best_files_correct [of "str ''other''" ascii_tables "str ''x - other''" "[sample_result]" None]
    sample_query by (simp add: str_def)

text \<open>A lossless file on a fast peer with an empty queue is offered whatever its title is: with no
  word of the title in its name it still scores 55, above the threshold of 50. The comment on the
  threshold says that a score above 50 means a title match above one half.\<close>

lemma unrelated_flac_passes:
  assumes "score_title_match u (sf_filename f) title = 0"
    and "calculate_remix_penalty u (sf_filename f) query = 0"
    and "calculate_extended_bonus u (sf_filename f) query = 0"
    and "ends_with (lowercase u (sf_filename f)) (str ''.flac'')"
    and "1048576 \<le> sr_avg_speed r" and "sr_queue_length r = 0"
  shows "total_score u title query r f = 55"
proof -
  have "1048576 \<le> unat (sr_avg_speed r)" using assms(5) by (simp add: word_le_nat_alt)
  from of_nat_mono [OF this, where 'a = rat]
  have "(1048576::rat) \<le> of_nat (unat (sr_avg_speed r))" by simp
  then have n: "1048576 \<le> f64_of_nat (unat (sr_avg_speed r))"
    using f64.lower_num by (simp add: f64_of_nat_def)
  then have "1024 \<le> fdiv (f64_of_nat (unat (sr_avg_speed r))) 1024"
    unfolding fdiv_def by (intro f64.lower_num) simp_all
  then have "1 \<le> fdiv (fdiv (f64_of_nat (unat (sr_avg_speed r))) 1024) 1024"
    using f64.lower_num [of num.One] unfolding fdiv_def by simp
  then have "speed_bonus (sr_avg_speed r) = 25"
    by (simp add: speed_bonus_def Let_def fmul_def min_absorb2)
  moreover have "queue_penalty (sr_queue_length r) = 0"
    by (simp add: queue_penalty_def assms(6) fdiv_def f64_of_nat_def)
  ultimately show ?thesis
    using assms(1-4)
    by (simp add: total_score_def score_file_def format_points_def fadd_def fsub_def fmul_def)
qed

lemma unrelated_flac_passes_witness:
  "total_score ascii_tables (str ''other'') (str ''x - other'') sample_result sample_file = 55"
proof (rule unrelated_flac_passes)
  show "score_title_match ascii_tables (sf_filename sample_file) (str ''other'') = 0" by code_simp
  show "calculate_remix_penalty ascii_tables (sf_filename sample_file) (str ''x - other'') = 0"
    by code_simp
  show "calculate_extended_bonus ascii_tables (sf_filename sample_file) (str ''x - other'') = 0"
    by code_simp
  show "ends_with (lowercase ascii_tables (sf_filename sample_file)) (str ''.flac'')" by code_simp
qed (simp_all add: sample_result_def)

lemma find_best_files_sorted:
  "sorted_wrt (\<lambda>a b. sc_score b \<le> sc_score a) (find_best_files u results query fmt)"
  using sorted_sort_key [of "\<lambda>c::scored_file. - sc_score c"]
  by (simp add: find_best_files_def Let_def sorted_map)

lemma in_fallback_files:
  "c \<in> set (fallback_files u results fmt) \<Longrightarrow>
   \<exists>r\<in>set results. \<exists>f\<in>set (sr_files r). c = scored 0 r f \<and> fallback_ok u fmt f
     \<and> (sr_has_slots r \<or> (\<forall>r'\<in>set results. \<not> sr_has_slots r'))"
  by (auto simp: fallback_files_def split: if_splits)

lemma in_find_best_files:
  "c \<in> set (find_best_files u results query fmt) \<Longrightarrow>
   \<exists>r\<in>set results. \<exists>f\<in>set (sr_files r). c = scored (sc_score c) r f \<and> sr_has_slots r
     \<and> is_audio_file u (sf_filename f) \<and> matches_format u (sf_filename f) fmt \<and> 50 < sc_score c"
  by (fastforce simp: find_best_files_def all_candidates_def candidate_def scored_def Let_def
      split: if_splits)

text \<open>The single best file is one a peer really offered, an audio file of the requested format; it
  is on a peer with a free slot whenever any peer has one; it has the greatest score of all the
  candidates when there is one, and otherwise (the fallback) it is between 1 and 50 MiB.\<close>

lemma find_best_file_choice:
  assumes "find_best_file u results query fmt = Some c"
  shows "\<exists>r\<in>set results. \<exists>f\<in>set (sr_files r). c = scored (sc_score c) r f
     \<and> is_audio_file u (sf_filename f) \<and> matches_format u (sf_filename f) fmt
     \<and> (sr_has_slots r \<or> (\<forall>r'\<in>set results. \<not> sr_has_slots r'))
     \<and> (if find_best_files u results query fmt = [] then fallback_ok u fmt f
        else \<forall>c'\<in>set (find_best_files u results query fmt). sc_score c' \<le> sc_score c)"
proof (cases "find_best_files u results query fmt")
  case Nil
  with assms have "c \<in> set (fallback_files u results fmt)"
    by (auto simp: find_best_file_def split: list.splits)
  from in_fallback_files [OF this] obtain r f where
    rf: "r \<in> set results" "f \<in> set (sr_files r)" and c: "c = scored 0 r f"
    and ok: "fallback_ok u fmt f" "sr_has_slots r \<or> (\<forall>r'\<in>set results. \<not> sr_has_slots r')"
    by blast
  have "c = scored (sc_score c) r f" by (simp add: c scored_def)
  with ok Nil show ?thesis
    by (intro bexI [of _ r] bexI [of _ f] rf) (simp add: fallback_ok_def)
next
  case (Cons b bs)
  with assms have "c = b" by (simp add: find_best_file_def)
  with Cons have "c \<in> set (find_best_files u results query fmt)" by simp
  from in_find_best_files [OF this] show ?thesis
    using find_best_files_sorted [of u results query fmt] Cons \<open>c = b\<close> by auto
qed

lemma find_best_file_choice_witness:
  "find_best_file ascii_tables [sample_result] [] None = Some (scored 0 sample_result sample_file)
   \<and> is_audio_file ascii_tables (sf_filename sample_file)"
proof -
  have e: "find_best_files ascii_tables [sample_result] [] None = []" by code_simp
  have "is_audio_file ascii_tables (sf_filename sample_file)" by code_simp
  moreover have "1 \<le> fdiv (f64_of_nat 20000000) 1048576" "fdiv (f64_of_nat 20000000) 1048576 \<le> 50"
    using f64.lower_num [of num.One] by (auto simp: fdiv_def f64_of_nat_def intro: f64.upper_num)
  ultimately have "fallback_ok ascii_tables None sample_file"
    by (simp add: fallback_ok_def matches_format_def sample_file_def)
  moreover have "sr_files sample_result = [sample_file]" "sr_has_slots sample_result"
    by (simp_all add: sample_result_def)
  ultimately have "fallback_files ascii_tables [sample_result] None = [scored 0 sample_result sample_file]"
    by (simp add: fallback_files_def)
  then have f: "find_best_file ascii_tables [sample_result] [] None = Some (scored 0 sample_result sample_file)"
    by (simp add: find_best_file_def e)
  from find_best_file_choice [OF f] f show ?thesis
    by (auto simp: \<open>sr_files sample_result = [sample_file]\<close>)
qed

end
