(* ===== verification/Sharing.thy ===== *)
theory Sharing
  imports Messages
begin

text \<open>
  \<open>src/src/services/sharing.rs\<close>: the index of the shared files (a word index and a path index over
  the file list), its full rebuild, its incremental update, the search, and the two encodings of the
  file list. The file system and the tag reader are a record of functions the scan consults;
  \<open>zlib\<close> is the compressor. Paths are UTF-8.
\<close>

section \<open>Data\<close>

record shared_file =
  virtual_path :: rstring
  real_path :: rstring
  fsize :: u64
  fbitrate :: "u32 option"
  duration_secs :: "u32 option"
  sample_rate :: "u32 option"
  bit_depth :: "u32 option"

record share_index =
  ix_files :: "shared_file list"
  word_index :: "rstring \<Rightarrow> nat list option"
  path_index :: "rstring \<Rightarrow> nat option"
  compressed_file_list :: bytes
  folder_count :: u32
  file_count :: u32

record sharing_service =
  sh_index :: share_index
  storage_path :: rstring
  sh_enabled :: bool

definition share_index_new :: share_index where
  "share_index_new = \<lparr>ix_files = [], word_index = Map.empty, path_index = Map.empty,
     compressed_file_list = [], folder_count = 0, file_count = 0\<rparr>"

definition sharing_new :: "rstring \<Rightarrow> bool \<Rightarrow> sharing_service" where
  "sharing_new path en = \<lparr>sh_index = share_index_new, storage_path = path, sh_enabled = en\<rparr>"

definition SHARE_ROOT :: rstring where "SHARE_ROOT = str ''@@rinse''"

definition AUDIO_EXTENSIONS :: "rstring list" where
  "AUDIO_EXTENSIONS = map str
     [''flac'', ''mp3'', ''ogg'', ''opus'', ''wav'', ''aac'', ''m4a'', ''wma'', ''aiff'', ''alac'']"

text \<open>What the operating system and the tag reader answer about a path.\<close>

record audio_properties =
  ap_bitrate :: "u32 option"
  ap_duration_secs :: u64
  ap_sample_rate :: "u32 option"
  ap_bit_depth :: "u8 option"

record file_system =
  path_exists :: "rstring \<Rightarrow> bool"
  read_dir :: "rstring \<Rightarrow> rstring option list option"
  is_file :: "rstring \<Rightarrow> bool"
  metadata_len :: "rstring \<Rightarrow> u64 option"
  probe :: "rstring \<Rightarrow> audio_properties option"

datatype share_error = NotAudio rstring | MetadataFailed | InvalidFilename | ReadDirFailed

section \<open>Scanning\<close>

definition read_audio_properties ::
  "file_system \<Rightarrow> rstring \<Rightarrow> u32 option \<times> u32 option \<times> u32 option \<times> u32 option" where
  "read_audio_properties fs path =
     (case probe fs path of
        Some p \<Rightarrow> (ap_bitrate p, Some (ucast (ap_duration_secs p)), ap_sample_rate p,
                   map_option ucast (ap_bit_depth p))
      | None \<Rightarrow> (None, None, None, None))"

definition scan_single_file ::
  "unicode \<Rightarrow> file_system \<Rightarrow> rstring \<Rightarrow> (shared_file, share_error) outcome" where
  "scan_single_file u fs path =
     (let extension = lowercase u (case path_extension path of Some e \<Rightarrow> e | None \<Rightarrow> []) in
      if extension \<notin> set AUDIO_EXTENSIONS then Err (NotAudio extension)
      else
        (case metadata_len fs path of
           None \<Rightarrow> Err MetadataFailed
         | Some len \<Rightarrow>
             (case path_file_name path of
                None \<Rightarrow> Err InvalidFilename
              | Some filename \<Rightarrow>
                  (let (br, dur, rate, depth) = read_audio_properties fs path in
                   Ok \<lparr>virtual_path = SHARE_ROOT @ [92] @ filename, real_path = path,
                       fsize = len, fbitrate = br, duration_secs = dur, sample_rate = rate,
                       bit_depth = depth\<rparr>))))"

fun scan_entries :: "unicode \<Rightarrow> file_system \<Rightarrow> rstring option list \<Rightarrow> shared_file list" where
  "scan_entries u fs [] = []"
| "scan_entries u fs (None # es) = scan_entries u fs es"
| "scan_entries u fs (Some path # es) =
     (if \<not> is_file fs path then scan_entries u fs es
      else
        (case scan_single_file u fs path of
           Ok f \<Rightarrow> f # scan_entries u fs es
         | _ \<Rightarrow> scan_entries u fs es))"

definition scan_directory ::
  "unicode \<Rightarrow> file_system \<Rightarrow> rstring \<Rightarrow> (shared_file list, share_error) outcome" where
  "scan_directory u fs path =
     (if \<not> path_exists fs path then Ok []
      else
        (case read_dir fs path of
           None \<Rightarrow> Err ReadDirFailed
         | Some entries \<Rightarrow> Ok (scan_entries u fs entries)))"

definition extract_words :: "unicode \<Rightarrow> rstring \<Rightarrow> rstring list" where
  "extract_words u filename =
     (let name = (case rsplit_once 46 filename of Some (b, _) \<Rightarrow> b | None \<Rightarrow> filename);
          cleaned = map (\<lambda>c. if alphanumeric u c then ascii_lower c else 32) name
      in filter (\<lambda>w. 2 \<le> length (as_bytes w)) (split_whitespace u cleaned))"

section \<open>Encodings of the file list\<close>

fun put_attrs :: "(u32 \<times> u32 option) list \<Rightarrow> bytes" where
  "put_attrs [] = []"
| "put_attrs ((t, None) # as) = put_attrs as"
| "put_attrs ((t, Some v) # as) = put_u32_le t @ put_u32_le v @ put_attrs as"

definition count_attrs :: "(u32 \<times> u32 option) list \<Rightarrow> u32" where
  "count_attrs as = len_u32 (length (filter (\<lambda>a. snd a \<noteq> None) as))"

definition list_attrs :: "shared_file \<Rightarrow> (u32 \<times> u32 option) list" where
  "list_attrs f =
     (if bit_depth f \<noteq> None
      then [(1, duration_secs f), (4, sample_rate f), (5, bit_depth f)]
      else [(0, fbitrate f), (1, duration_secs f), (2, map_option (\<lambda>_. 0) (fbitrate f))])"

definition file_list_entry :: "shared_file \<Rightarrow> bytes" where
  "file_list_entry f =
     (let filename = (case path_file_name (real_path f) of Some n \<Rightarrow> n | None \<Rightarrow> virtual_path f) in
      put_u8 1 @ encode_string filename @ put_u64_le (fsize f) @ put_u32_le 0
      @ put_u32_le (count_attrs (list_attrs f)) @ put_attrs (list_attrs f))"

definition file_list_body :: "shared_file list \<Rightarrow> bytes" where
  "file_list_body files =
     (if files = [] then put_u32_le 0
      else put_u32_le 1 @ encode_string SHARE_ROOT @ put_u32_le (len_u32 (length files))
           @ concat (map file_list_entry files))
     @ put_u32_le 0"

definition build_compressed_file_list :: "(bytes \<Rightarrow> bytes) \<Rightarrow> shared_file list \<Rightarrow> bytes" where
  "build_compressed_file_list zlib files = zlib (file_list_body files)"

definition search_attrs :: "shared_file \<Rightarrow> (u32 \<times> u32 option) list" where
  "search_attrs f = [(0, fbitrate f), (1, duration_secs f), (4, sample_rate f), (5, bit_depth f)]"

definition search_entry :: "shared_file \<Rightarrow> bytes" where
  "search_entry f =
     put_u8 1 @ encode_string (virtual_path f) @ put_u64_le (fsize f)
     @ encode_string (case path_extension (real_path f) of Some e \<Rightarrow> e | None \<Rightarrow> [])
     @ put_u32_le (count_attrs (search_attrs f)) @ put_attrs (search_attrs f)"

definition search_response_body ::
  "rstring \<Rightarrow> u32 \<Rightarrow> shared_file list \<Rightarrow> bool \<Rightarrow> u32 \<Rightarrow> u32 \<Rightarrow> bytes" where
  "search_response_body username token files free_slots avg_speed queue_length =
     encode_string username @ put_u32_le token @ put_u32_le (len_u32 (length files))
     @ concat (map search_entry files)
     @ put_u8 (if free_slots then 1 else 0) @ put_u32_le avg_speed @ put_u32_le queue_length"

definition encode_search_response ::
  "(bytes \<Rightarrow> bytes) \<Rightarrow> rstring \<Rightarrow> u32 \<Rightarrow> shared_file list \<Rightarrow> bool \<Rightarrow> u32 \<Rightarrow> u32 \<Rightarrow> bytes" where
  "encode_search_response zlib username token files free_slots avg_speed queue_length =
     zlib (search_response_body username token files free_slots avg_speed queue_length)"

section \<open>The index\<close>

definition file_words :: "unicode \<Rightarrow> shared_file \<Rightarrow> rstring list" where
  "file_words u f =
     extract_words u (case path_file_name (real_path f) of Some n \<Rightarrow> n | None \<Rightarrow> [])"

definition push_word ::
  "rstring \<Rightarrow> nat \<Rightarrow> (rstring \<Rightarrow> nat list option) \<Rightarrow> (rstring \<Rightarrow> nat list option)" where
  "push_word w idx wi = wi(w \<mapsto> (case wi w of None \<Rightarrow> [] | Some is \<Rightarrow> is) @ [idx])"

fun index_files ::
  "unicode \<Rightarrow> nat \<Rightarrow> shared_file list \<Rightarrow> (rstring \<Rightarrow> nat list option) \<times> (rstring \<Rightarrow> nat option)
   \<Rightarrow> (rstring \<Rightarrow> nat list option) \<times> (rstring \<Rightarrow> nat option)" where
  "index_files u idx [] (wi, pi) = (wi, pi)"
| "index_files u idx (f # fs) (wi, pi) =
     index_files u (Suc idx) fs
       (fold (\<lambda>w. push_word w idx) (file_words u f) wi, pi(virtual_path f \<mapsto> idx))"

definition scan ::
  "unicode \<Rightarrow> (bytes \<Rightarrow> bytes) \<Rightarrow> file_system \<Rightarrow> sharing_service
   \<Rightarrow> (u32 \<times> u32, share_error) outcome \<times> sharing_service" where
  "scan u zlib fs svc =
     (if \<not> sh_enabled svc then (Ok (0, 0), svc)
      else
        (case scan_directory u fs (storage_path svc) of
           Err e \<Rightarrow> (Err e, svc)
         | Panic \<Rightarrow> (Panic, svc)
         | Ok files \<Rightarrow>
             (let n = len_u32 (length files);
                  folders = (if 0 < n then 1 else 0);
                  (wi, pi) = index_files u 0 files (Map.empty, Map.empty)
              in (Ok (folders, n),
                  svc\<lparr>sh_index := (sh_index svc)\<lparr>ix_files := files, word_index := wi,
                     path_index := pi, compressed_file_list := build_compressed_file_list zlib files,
                     folder_count := folders, file_count := n\<rparr>\<rparr>))))"

definition add_to_index ::
  "unicode \<Rightarrow> (bytes \<Rightarrow> bytes) \<Rightarrow> shared_file \<Rightarrow> share_index \<Rightarrow> share_index" where
  "add_to_index u zlib f ix =
     (if path_index ix (virtual_path f) \<noteq> None then ix
      else
        (let idx = length (ix_files ix);
             files = ix_files ix @ [f];
             n = len_u32 (length files)
         in ix\<lparr>word_index := fold (\<lambda>w. push_word w idx) (file_words u f) (word_index ix),
               path_index := (path_index ix)(virtual_path f \<mapsto> idx),
               ix_files := files, file_count := n,
               folder_count := (if folder_count ix = 0 \<and> 0 < n then 1 else folder_count ix),
               compressed_file_list := build_compressed_file_list zlib files\<rparr>))"

definition add_file ::
  "unicode \<Rightarrow> (bytes \<Rightarrow> bytes) \<Rightarrow> file_system \<Rightarrow> rstring \<Rightarrow> sharing_service
   \<Rightarrow> (unit, share_error) outcome \<times> sharing_service" where
  "add_file u zlib fs path svc =
     (if \<not> sh_enabled svc then (Ok (), svc)
      else
        (case scan_single_file u fs path of
           Err e \<Rightarrow> (Err e, svc)
         | Panic \<Rightarrow> (Panic, svc)
         | Ok f \<Rightarrow> (Ok (), svc\<lparr>sh_index := add_to_index u zlib f (sh_index svc)\<rparr>)))"

section \<open>Queries\<close>

text \<open>45 is the minus sign.\<close>

definition exclude_words :: "rstring list \<Rightarrow> rstring list" where
  "exclude_words ws = map tl (filter (\<lambda>w. prefix [45] w \<and> tl w \<noteq> []) ws)"

definition include_words :: "rstring list \<Rightarrow> rstring list" where
  "include_words ws = filter (\<lambda>w. \<not> prefix [45] w) ws"

fun intersect_sets :: "nat list \<Rightarrow> nat list list \<Rightarrow> nat list" where
  "intersect_sets matching [] = matching"
| "intersect_sets matching (other # rest) =
     (let m = filter (\<lambda>i. i \<in> set other) matching in
      if m = [] then [] else intersect_sets m rest)"

definition excluded :: "share_index \<Rightarrow> rstring list \<Rightarrow> nat set" where
  "excluded ix ws =
     (\<Union>w\<in>set ws. case word_index ix w of Some is \<Rightarrow> set is | None \<Rightarrow> {})"

definition fetch :: "share_index \<Rightarrow> nat \<Rightarrow> shared_file list" where
  "fetch ix i = (if i < length (ix_files ix) then [ix_files ix ! i] else [])"

definition search :: "unicode \<Rightarrow> share_index \<Rightarrow> rstring \<Rightarrow> nat \<Rightarrow> shared_file list" where
  "search u ix query max_results =
     (if ix_files ix = [] then []
      else
        (let words = split_whitespace u (lowercase u query);
             incl = include_words words;
             excl = exclude_words words;
             word_sets = List.map_filter (word_index ix) incl
         in if words = [] \<or> incl = [] \<or> length word_sets \<noteq> length incl then []
            else
              (case sort_key length word_sets of
                 [] \<Rightarrow> []
               | first # others \<Rightarrow>
                   (let m = intersect_sets first others;
                        m = (if excl = [] then m else filter (\<lambda>i. i \<notin> excluded ix excl) m)
                    in concat (map (fetch ix) (take max_results m))))))"

definition get_file :: "share_index \<Rightarrow> rstring \<Rightarrow> shared_file option" where
  "get_file ix path =
     (case path_index ix path of
        Some i \<Rightarrow> if i < length (ix_files ix) then Some (ix_files ix ! i) else None
      | None \<Rightarrow> None)"

definition counts :: "share_index \<Rightarrow> u32 \<times> u32" where
  "counts ix = (folder_count ix, file_count ix)"

section \<open>The word index as a set of postings\<close>

definition hits :: "nat list option \<Rightarrow> nat set" where
  "hits p = (case p of None \<Rightarrow> {} | Some is \<Rightarrow> set is)"

lemma hits_simps [simp]: "hits None = {}" "hits (Some is) = set is"
  by (simp_all add: hits_def)

locale postings =
  fixes look :: "'ix \<Rightarrow> 'w \<Rightarrow> nat list option"
    and push :: "'w \<Rightarrow> nat \<Rightarrow> 'ix \<Rightarrow> 'ix"
  assumes look_push_same:
      "look (push w i ix) w = Some ((case look ix w of None \<Rightarrow> [] | Some is \<Rightarrow> is) @ [i])"
    and look_push_other: "w' \<noteq> w \<Longrightarrow> look (push w i ix) w' = look ix w'"
begin

lemma hits_push: "hits (look (push w i ix) w') = hits (look ix w') \<union> (if w' = w then {i} else {})"
  by (cases "w' = w"; cases "look ix w") (auto simp: look_push_same look_push_other)

lemma hits_fold:
  "hits (look (fold (\<lambda>w. push w i) ws ix) w') = hits (look ix w') \<union> (if w' \<in> set ws then {i} else {})"
  by (induction ws arbitrary: ix) (auto simp: hits_push)

lemma look_fold:
  "look (fold (\<lambda>w. push w i) ws ix) w' =
     (if w' \<in> set ws
      then Some ((case look ix w' of None \<Rightarrow> [] | Some is \<Rightarrow> is) @ replicate (count_list ws w') i)
      else look ix w')"
proof (induction ws arbitrary: ix)
  case (Cons w ws)
  show ?case
    using Cons.IH [of "push w i ix"]
    by (cases "w' = w"; cases "w' \<in> set ws")
      (auto simp: look_push_same look_push_other count_notin)
qed simp

end

interpretation word_ix: postings "\<lambda>wi. wi" push_word
  by unfold_locales (simp_all add: push_word_def)

lemma index_files_words:
  "hits (fst (index_files u idx fs (wi, pi)) w) =
     hits (wi w) \<union> {idx + j | j. j < length fs \<and> w \<in> set (file_words u (fs ! j))}"
proof (induction fs arbitrary: idx wi pi)
  case (Cons f fs)
  have "{idx + j | j. j < length (f # fs) \<and> w \<in> set (file_words u ((f # fs) ! j))} =
      (if w \<in> set (file_words u f) then {idx} else {})
      \<union> {Suc idx + j | j. j < length fs \<and> w \<in> set (file_words u (fs ! j))}" (is "?l = ?r")
  proof (intro set_eqI iffI)
    fix x assume "x \<in> ?l"
    then obtain j where "x = idx + j" "j < length (f # fs)" "w \<in> set (file_words u ((f # fs) ! j))"
      by blast
    then show "x \<in> ?r" by (cases j) auto
  next
    fix x assume "x \<in> ?r"
    then consider "x = idx" "w \<in> set (file_words u f)"
      | j where "x = Suc idx + j" "j < length fs" "w \<in> set (file_words u (fs ! j))"
      by (auto split: if_splits)
    then show "x \<in> ?l"
    proof cases
      case 1
      then show ?thesis by (auto intro!: exI [of _ 0])
    next
      case (2 j)
      then show ?thesis by (auto intro!: exI [of _ "Suc j"])
    qed
  qed
  then show ?case by (simp add: Cons.IH word_ix.hits_fold Un_assoc)
qed simp

lemma index_files_None:
  "snd (index_files u idx fs (wi, pi)) p = None \<longleftrightarrow> pi p = None \<and> p \<notin> virtual_path ` set fs"
  by (induction fs arbitrary: idx wi pi) auto

lemma index_files_Some:
  "snd (index_files u idx fs (wi, pi)) p = Some i \<Longrightarrow>
   pi p = Some i \<or> (idx \<le> i \<and> i < idx + length fs \<and> virtual_path (fs ! (i - idx)) = p)"
proof (induction fs arbitrary: idx wi pi)
  case (Cons f fs)
  then have "(pi(virtual_path f \<mapsto> idx)) p = Some i \<or>
      (Suc idx \<le> i \<and> i < Suc idx + length fs \<and> virtual_path (fs ! (i - Suc idx)) = p)"
    unfolding index_files.simps by blast
  then show ?case by (cases "p = virtual_path f") (auto simp: nth_Cons')
qed simp

definition share_ok :: "unicode \<Rightarrow> (bytes \<Rightarrow> bytes) \<Rightarrow> share_index \<Rightarrow> bool" where
  "share_ok u zlib ix \<longleftrightarrow>
     (\<forall>w. hits (word_index ix w) =
        {i. i < length (ix_files ix) \<and> w \<in> set (file_words u (ix_files ix ! i))})
     \<and> (\<forall>p i. path_index ix p = Some i \<longrightarrow>
          i < length (ix_files ix) \<and> virtual_path (ix_files ix ! i) = p)
     \<and> (\<forall>f\<in>set (ix_files ix). path_index ix (virtual_path f) \<noteq> None)
     \<and> file_count ix = len_u32 (length (ix_files ix))
     \<and> (ix = share_index_new \<or>
          compressed_file_list ix = build_compressed_file_list zlib (ix_files ix))"

lemma share_ok_new: "share_ok u zlib share_index_new"
  by (simp add: share_ok_def share_index_new_def len_u32_def)

lemma share_ok_indexed:
  assumes "index_files u 0 files (Map.empty, Map.empty) = (wi, pi)"
  shows "share_ok u zlib (ix\<lparr>ix_files := files, word_index := wi, path_index := pi,
     compressed_file_list := build_compressed_file_list zlib files, folder_count := n,
     file_count := len_u32 (length files)\<rparr>)"
proof -
  have "hits (wi w) = {i. i < length files \<and> w \<in> set (file_words u (files ! i))}" for w
    using index_files_words [of u 0 files Map.empty Map.empty w] assms by simp
  moreover have "(pi p = Some i \<longrightarrow> i < length files \<and> virtual_path (files ! i) = p)
      \<and> (pi p = None \<longleftrightarrow> p \<notin> virtual_path ` set files)" for p i
    using index_files_Some [of u 0 files Map.empty Map.empty p i]
      index_files_None [of u 0 files Map.empty Map.empty p] assms by auto
  ultimately show ?thesis by (auto simp: share_ok_def)
qed

lemma share_ok_add:
  assumes ok: "share_ok u zlib ix"
  shows "share_ok u zlib (add_to_index u zlib f ix)"
proof (cases "path_index ix (virtual_path f)")
  case None
  have "hits (fold (\<lambda>w. push_word w (length (ix_files ix))) (file_words u f) (word_index ix) w) =
      {i. i < length (ix_files ix @ [f]) \<and> w \<in> set (file_words u ((ix_files ix @ [f]) ! i))}" for w
    using ok by (auto simp: word_ix.hits_fold share_ok_def nth_append less_Suc_eq)
  with None ok show ?thesis
    by (auto simp: share_ok_def add_to_index_def Let_def nth_append less_Suc_eq)
qed (use ok in \<open>simp add: add_to_index_def\<close>)

text \<open>The life of the service: rebuilds and updates in any order, each with the file system as it is then.\<close>

datatype share_op = Scan file_system | Add_File file_system rstring

fun share_run :: "unicode \<Rightarrow> (bytes \<Rightarrow> bytes) \<Rightarrow> share_op list \<Rightarrow> sharing_service \<Rightarrow> sharing_service" where
  "share_run u zlib [] svc = svc"
| "share_run u zlib (Scan fs # ops) svc = share_run u zlib ops (snd (scan u zlib fs svc))"
| "share_run u zlib (Add_File fs path # ops) svc =
     share_run u zlib ops (snd (add_file u zlib fs path svc))"

lemma share_ok_scan:
  "share_ok u zlib (sh_index svc) \<Longrightarrow> share_ok u zlib (sh_index (snd (scan u zlib fs svc)))"
  by (auto simp: scan_def Let_def share_ok_indexed split: outcome.splits prod.splits)

lemma share_ok_add_file:
  "share_ok u zlib (sh_index svc) \<Longrightarrow> share_ok u zlib (sh_index (snd (add_file u zlib fs path svc)))"
  by (auto simp: add_file_def share_ok_add split: outcome.splits)

lemma share_ok_run:
  "share_ok u zlib (sh_index svc) \<Longrightarrow> share_ok u zlib (sh_index (share_run u zlib ops svc))"
  by (induction u zlib ops svc rule: share_run.induct) (auto simp: share_ok_scan share_ok_add_file)



section \<open>Search\<close>

definition search_matches :: "unicode \<Rightarrow> rstring \<Rightarrow> shared_file \<Rightarrow> bool" where
  "search_matches u query f \<longleftrightarrow>
     (let words = split_whitespace u (lowercase u query) in
      include_words words \<noteq> [] \<and> set (include_words words) \<subseteq> set (file_words u f)
      \<and> set (exclude_words words) \<inter> set (file_words u f) = {})"

lemma intersect_sets_filter:
  "intersect_sets m os = filter (\<lambda>i. \<forall>os'\<in>set os. i \<in> set os') m"
proof (induction os arbitrary: m)
  case (Cons os' os)
  have "filter (\<lambda>i. \<forall>p\<in>set (os' # os). i \<in> set p) m =
      filter (\<lambda>i. \<forall>p\<in>set os. i \<in> set p) (filter (\<lambda>i. i \<in> set os') m)"
    by (simp add: conj_commute)
  then show ?case by (simp add: Let_def Cons.IH del: filter_filter)
qed simp

lemma map_filter_full:
  "length (List.map_filter f xs) = length xs \<Longrightarrow>
   (\<forall>x\<in>set xs. f x \<noteq> None) \<and> List.map_filter f xs = map (\<lambda>x. the (f x)) xs"
proof (induction xs)
  case (Cons x xs)
  have "length (List.map_filter f xs) \<le> length xs"
    by (simp add: List.map_filter_def length_filter_le)
  with Cons show ?case by (auto simp: List.map_filter_simps split: option.splits)
qed (simp add: List.map_filter_simps)

lemma map_filter_short:
  "length (List.map_filter f xs) \<noteq> length xs \<Longrightarrow> \<exists>x\<in>set xs. f x = None"
  by (induction xs) (auto simp: List.map_filter_simps split: option.splits)

lemma search_empty_matches:
  "include_words (split_whitespace u (lowercase u query)) = [] \<Longrightarrow> \<not> search_matches u query f"
  by (simp add: search_matches_def)

text \<open>What the intersection of the posting lists of the include words holds.\<close>

lemma intersection_hits:
  assumes ok: "share_ok u zlib ix" and incl: "incl \<noteq> []"
    and full: "length (List.map_filter (word_index ix) incl) = length incl"
    and sorted: "sort_key length (List.map_filter (word_index ix) incl) = first # others"
  shows "set (intersect_sets first others) =
     {i. i < length (ix_files ix) \<and> set incl \<subseteq> set (file_words u (ix_files ix ! i))}"
proof -
  note mf = map_filter_full [OF full]
  have hit: "set (the (word_index ix w)) =
      {i. i < length (ix_files ix) \<and> w \<in> set (file_words u (ix_files ix ! i))}"
    if "w \<in> set incl" for w
  proof -
    from mf that obtain ps where "word_index ix w = Some ps" by blast
    with ok show ?thesis by (auto simp: share_ok_def hits_def dest: spec [of _ w])
  qed
  have "set (first # others) = (\<lambda>w. the (word_index ix w)) ` set incl"
    using mf by (metis image_set set_sort sorted)
  moreover have "set (intersect_sets first others) = {i. \<forall>p\<in>set (first # others). i \<in> set p}"
    by (auto simp: intersect_sets_filter)
  ultimately have "set (intersect_sets first others) =
      {i. \<forall>w\<in>set incl. i \<in> set (the (word_index ix w))}"
    by (simp only: ball_simps)
  also have "\<dots> = {i. i < length (ix_files ix) \<and> set incl \<subseteq> set (file_words u (ix_files ix ! i))}"
    using incl hit by (cases incl) auto
  finally show ?thesis .
qed

lemma fetch_in:
  "\<forall>i\<in>set m. i < length (ix_files ix) \<Longrightarrow> concat (map (fetch ix) m) = map ((!) (ix_files ix)) m"
  by (induction m) (auto simp: fetch_def)

lemma search_as_list:
  assumes ok: "share_ok u zlib ix"
  shows "\<exists>m. search u ix query n = map ((!) (ix_files ix)) (take n m)
     \<and> set m = {i. i < length (ix_files ix) \<and> search_matches u query (ix_files ix ! i)}"
proof -
  define words where "words = split_whitespace u (lowercase u query)"
  define incl where "incl = include_words words"
  define excl where "excl = exclude_words words"
  define sets where "sets = List.map_filter (word_index ix) incl"
  have matches: "search_matches u query f \<longleftrightarrow>
      incl \<noteq> [] \<and> set incl \<subseteq> set (file_words u f) \<and> set excl \<inter> set (file_words u f) = {}" for f
    by (simp add: search_matches_def Let_def incl_def excl_def words_def)
  have word: "w \<in> set (file_words u (ix_files ix ! i)) \<longleftrightarrow> i \<in> hits (word_index ix w)"
    if "i < length (ix_files ix)" for w i using ok that by (auto simp: share_ok_def)
  have run: "search u ix query n =
     (if ix_files ix = [] \<or> words = [] \<or> incl = [] \<or> length sets \<noteq> length incl then []
      else case sort_key length sets of [] \<Rightarrow> []
        | first # others \<Rightarrow>
           concat (map (fetch ix) (take n
             (if excl = [] then intersect_sets first others
              else filter (\<lambda>i. i \<notin> excluded ix excl) (intersect_sets first others)))))"
    unfolding search_def words_def incl_def excl_def sets_def Let_def
    by (cases "ix_files ix = []") (simp_all only: simp_thms if_True if_False)
  consider (none) "ix_files ix = [] \<or> words = [] \<or> incl = [] \<or> length sets \<noteq> length incl"
    | (some) "incl \<noteq> []" "length sets = length incl" "words \<noteq> []" "ix_files ix \<noteq> []"
    by blast
  then show ?thesis
  proof cases
    case none
    have "incl = [] \<or> (\<exists>w\<in>set incl. word_index ix w = None)" if "ix_files ix \<noteq> []"
      using that none map_filter_short [of "word_index ix" incl]
      by (auto simp: sets_def incl_def include_words_def)
    then have "{i. i < length (ix_files ix) \<and> search_matches u query (ix_files ix ! i)} = {}"
      using word by (force simp: matches)
    with none show ?thesis by (intro exI [of _ "[]"]) (auto simp: run)
  next
    case some
    have "sort_key length sets \<noteq> []" using some by (metis length_0_conv length_sort)
    then obtain first others where so: "sort_key length sets = first # others"
      by (meson neq_Nil_conv)
    define m where "m = (if excl = [] then intersect_sets first others
        else filter (\<lambda>i. i \<notin> excluded ix excl) (intersect_sets first others))"
    have "set (intersect_sets first others) =
        {i. i < length (ix_files ix) \<and> set incl \<subseteq> set (file_words u (ix_files ix ! i))}"
      using intersection_hits [OF ok some(1)] some(2) so by (simp add: sets_def)
    moreover have "i \<in> excluded ix excl \<longleftrightarrow> set excl \<inter> set (file_words u (ix_files ix ! i)) \<noteq> {}"
      if "i < length (ix_files ix)" for i
      using word [OF that] by (auto simp: excluded_def hits_def)
    ultimately have "set m = {i. i < length (ix_files ix) \<and> search_matches u query (ix_files ix ! i)}"
      using some(1) by (auto simp: m_def matches)
    moreover from this have "search u ix query n = map ((!) (ix_files ix)) (take n m)"
      using some so by (simp add: run flip: m_def) (auto intro!: fetch_in dest: in_set_takeD)
    ultimately show ?thesis by blast
  qed
qed

text \<open>C6: a search returns at most the requested number of files, each of them a shared file whose
  name has every include word and no exclude word of the query; and when it returns fewer than the
  limit it has returned every such file. (The specification looks at each file's own words; the
  code intersects posting lists, rarest first.)\<close>

theorem search_correct:
  assumes "share_ok u zlib ix"
  shows "length (search u ix query n) \<le> n
    \<and> set (search u ix query n) \<subseteq> {f \<in> set (ix_files ix). search_matches u query f}
    \<and> (length (search u ix query n) < n \<longrightarrow>
         set (search u ix query n) = {f \<in> set (ix_files ix). search_matches u query f})"
proof -
  from search_as_list [OF assms] obtain m where
    s: "search u ix query n = map ((!) (ix_files ix)) (take n m)"
    and m: "set m = {i. i < length (ix_files ix) \<and> search_matches u query (ix_files ix ! i)}"
    by blast
  have all: "((!) (ix_files ix)) ` set m = {f \<in> set (ix_files ix). search_matches u query f}"
    by (auto simp: m in_set_conv_nth)
  have "set (search u ix query n) \<subseteq> ((!) (ix_files ix)) ` set m"
    by (auto simp: s dest: in_set_takeD)
  moreover have "set (search u ix query n) = ((!) (ix_files ix)) ` set m"
    if "length (search u ix query n) < n"
    using that by (simp add: s)
  ultimately show ?thesis by (simp add: s all)
qed

definition sample_fs :: file_system where
  "sample_fs = \<lparr>path_exists = (\<lambda>_. True), read_dir = (\<lambda>_. Some []), is_file = (\<lambda>_. True),
     metadata_len = (\<lambda>_. Some 1000), probe = (\<lambda>_. None)\<rparr>"

definition sample_index :: share_index where
  "sample_index = sh_index (share_run ascii_tables (\<lambda>b. b)
     [Add_File sample_fs (str ''/s/Blue Moon.flac''), Add_File sample_fs (str ''/s/Blue Bird.mp3'')]
     (sharing_new (str ''/s'') True))"

lemma sample_index_ok: "share_ok ascii_tables (\<lambda>b. b) sample_index"
  unfolding sample_index_def by (rule share_ok_run) (simp add: sharing_new_def share_ok_new)

theorem search_correct_witness:
  "map virtual_path (search ascii_tables sample_index (str ''BLUE -bird'') 5)
     = [str ''@@rinse'' @ [92] @ str ''Blue Moon.flac'']
   \<and> set (search ascii_tables sample_index (str ''BLUE -bird'') 5)
     = {f \<in> set (ix_files sample_index). search_matches ascii_tables (str ''BLUE -bird'') f}"
proof -
  have m: "map virtual_path (search ascii_tables sample_index (str ''BLUE -bird'') 5)
     = [str ''@@rinse'' @ [92] @ str ''Blue Moon.flac'']"
    by code_simp
  from arg_cong [OF m, of length]
  have "length (search ascii_tables sample_index (str ''BLUE -bird'') 5) < 5" by simp
  with search_correct [OF sample_index_ok, of "str ''BLUE -bird''" 5] m show ?thesis by blast
qed

text \<open>Adding a file to the index makes its virtual path resolve to it unless the path was already
  shared, in which case, as for every other path, the answer stays what it was; and a path only
  ever resolves to a file with that path.\<close>

lemma get_file_add:
  assumes "share_ok u zlib ix"
  shows "get_file (add_to_index u zlib f ix) p =
      (if p = virtual_path f \<and> get_file ix p = None then Some f else get_file ix p)
    \<and> (\<forall>g. get_file ix p = Some g \<longrightarrow> virtual_path g = p \<and> g \<in> set (ix_files ix))"
proof -
  have p: "i < length (ix_files ix) \<and> virtual_path (ix_files ix ! i) = q"
    if "path_index ix q = Some i" for q i using assms that by (auto simp: share_ok_def)
  then have "get_file ix q = None \<longleftrightarrow> path_index ix q = None" for q
    by (auto simp: get_file_def split: option.splits)
  then show ?thesis
    by (auto simp: get_file_def add_to_index_def Let_def nth_append dest: p split: option.splits)
qed

definition sample_shared :: shared_file where
  "sample_shared = \<lparr>virtual_path = str ''@@rinse'' @ [92] @ str ''love love.mp3'',
     real_path = str ''/s/love love.mp3'', fsize = 9, fbitrate = None, duration_secs = None,
     sample_rate = None, bit_depth = None\<rparr>"

lemma get_file_add_witness:
  "get_file (add_to_index ascii_tables (\<lambda>b. b) sample_shared sample_index) (virtual_path sample_shared)
   = Some sample_shared"
proof -
  have "get_file sample_index (virtual_path sample_shared) = None" by code_simp
  with get_file_add [OF sample_index_ok, of sample_shared "virtual_path sample_shared"]
  show ?thesis by simp
qed

text \<open>A word that occurs several times in a file's name enters the file in its posting list once
  per occurrence, and a search for the word returns the file as often (up to the limit), so
  duplicates use up the result limit.\<close>

lemma repeated_word_repeats_result:
  assumes "split_whitespace u (lowercase u query) = [w]" and "\<not> prefix [45] w"
  shows "search u (add_to_index u zlib f share_index_new) query n =
         replicate (min n (count_list (file_words u f) w)) f"
proof -
  let ?ix = "add_to_index u zlib f share_index_new"
  have files: "ix_files ?ix = [f]"
    by (simp add: add_to_index_def share_index_new_def Let_def)
  have wi: "word_index ?ix w =
      (if w \<in> set (file_words u f) then Some (replicate (count_list (file_words u f) w) 0) else None)"
    using word_ix.look_fold [of 0 "file_words u f" Map.empty w]
    by (simp add: add_to_index_def share_index_new_def Let_def)
  have "fetch ?ix 0 = [f]" by (simp add: fetch_def files)
  moreover have "concat (replicate k [f]) = replicate k f" for k
    by (induction k) auto
  ultimately show ?thesis
    using assms wi
    by (auto simp: search_def files include_words_def exclude_words_def List.map_filter_simps
        take_replicate count_notin)
qed

lemma repeated_word_repeats_result_witness:
  "search ascii_tables (add_to_index ascii_tables (\<lambda>b. b) sample_shared share_index_new)
     (str ''Love'') 10 = [sample_shared, sample_shared]"
proof -
  have "split_whitespace ascii_tables (lowercase ascii_tables (str ''Love'')) = [str ''love'']"
    "\<not> prefix [45] (str ''love'')"
    by code_simp+
  note repeated_word_repeats_result [OF this, of "\<lambda>b. b" sample_shared 10]
  moreover have "count_list (file_words ascii_tables sample_shared) (str ''love'') = 2" by code_simp
  ultimately show ?thesis by (simp add: numeral_2_eq_2)
qed

text \<open>The query is lower-cased with the Unicode tables but the index only lower-cases ASCII
  letters, so a file whose name is a single non-ASCII capital letter is not found by its own name.\<close>

lemma non_ascii_capital_not_found:
  assumes "path_file_name (real_path f) = Some (c # str ''.mp3'')"
    and "128 \<le> c" and "alphanumeric u c" and "lowercase u [c] = [d]" and "d \<noteq> c"
    and "\<not> whitespace u c" and "\<not> whitespace u d"
  shows "search u (add_to_index u zlib f share_index_new) [c] n = []"
proof -
  have "rsplit_once 46 (c # str ''.mp3'') = Some ([c], str ''mp3'')"
    using assms(2) by (simp add: rsplit_once_def after_last_def str_def)
  moreover have "ascii_lower c = c" using assms(2) by (simp add: ascii_lower_def)
  ultimately have "file_words u f = filter (\<lambda>w. 2 \<le> length (as_bytes w)) [[c]]"
    using assms(1,3,6) by (simp add: file_words_def extract_words_def split_whitespace_def)
  with \<open>d \<noteq> c\<close> have "[d] \<notin> set (file_words u f)" by auto
  then have "word_index (add_to_index u zlib f share_index_new) [d] = None"
    using word_ix.look_fold [of 0 "file_words u f" Map.empty "[d]"]
    by (simp add: add_to_index_def share_index_new_def Let_def)
  moreover have "split_whitespace u (lowercase u [c]) = [[d]]"
    using assms(4,7) by (simp add: split_whitespace_def)
  ultimately show ?thesis
    by (auto simp: search_def include_words_def List.map_filter_simps)
qed

definition latin_tables :: unicode where
  "latin_tables = ascii_tables
     \<lparr>lowercase := map (\<lambda>c. if c = 201 then 233 else ascii_lower c),
      alphanumeric := (\<lambda>c. alphanumeric ascii_tables c \<or> c = 201 \<or> c = 233)\<rparr>"

lemma non_ascii_capital_not_found_witness:
  "search latin_tables (add_to_index latin_tables (\<lambda>b. b)
     (sample_shared\<lparr>real_path := str ''/s/'' @ 201 # str ''.mp3''\<rparr>) share_index_new) [201] 10 = []"
  by (rule non_ascii_capital_not_found [where d = 233]) code_simp+

end
