(* ===== verification/Peer_Protocol.thy ===== *)
theory Peer_Protocol
  imports Sharing
begin

text \<open>
  \<open>src/src/protocol/peer.rs\<close>: the operations on a peer's TCP connection. A connection is the bytes
  the peer will still send, whether it then closes the connection or falls silent, the bytes
  written to it so far, and whether a write still succeeds. A read past the last byte fails with
  the end of the stream if the peer closed it; if the peer is silent, a read under a timeout times
  out and any other read never returns (\<open>Stalled\<close>). Subtractions on \<open>u32\<close> wrap, as in a release
  build. \<open>inflate\<close> is the zlib decompressor.
\<close>

section \<open>Connections\<close>

record conn =
  c_in :: bytes
  c_closes :: bool
  c_out :: bytes
  c_write_ok :: bool

datatype peer_error =
    Wire wire_error | TimedOut | Stalled | WriteFailed | ExpectedFile rstring
  | NoSearchResponse | UnexpectedCode u32 | ConnectFailed | FileFailed | LoginFailed rstring

type_synonym 'a sop = "conn \<Rightarrow> ('a, peer_error) outcome \<times> conn"

fun sbind :: "'a sop \<Rightarrow> ('a \<Rightarrow> 'b sop) \<Rightarrow> 'b sop" where
  "sbind p f c =
     (case p c of
        (Ok x, c') \<Rightarrow> f x c'
      | (Err e, c') \<Rightarrow> (Err e, c')
      | (Panic, c') \<Rightarrow> (Panic, c'))"

definition sret :: "'a \<Rightarrow> 'a sop" where "sret x c = (Ok x, c)"
definition sfail :: "peer_error \<Rightarrow> 'a sop" where "sfail e c = (Err e, c)"

definition swrite :: "bytes \<Rightarrow> unit sop" where
  "swrite bs c = (if c_write_ok c then (Ok (), c\<lparr>c_out := c_out c @ bs\<rparr>) else (Err WriteFailed, c))"

text \<open>\<open>read_exact\<close> of \<open>n\<close> bytes, with or without a timeout around it.\<close>

definition sread_gen :: "peer_error \<Rightarrow> nat \<Rightarrow> bytes sop" where
  "sread_gen silent n c =
     (if n \<le> length (c_in c) then (Ok (take n (c_in c)), c\<lparr>c_in := drop n (c_in c)\<rparr>)
      else (Err (if c_closes c then Wire UnexpectedEof else silent), c\<lparr>c_in := []\<rparr>))"

definition sread :: "nat \<Rightarrow> bytes sop" where "sread = sread_gen Stalled"

definition sread_u8 :: "u8 sop" where "sread_u8 = sbind (sread 1) (\<lambda>b. sret (from_le b))"
definition sread_u32 :: "u32 sop" where "sread_u32 = sbind (sread 4) (\<lambda>b. sret (from_le b))"
definition sread_u64 :: "u64 sop" where "sread_u64 = sbind (sread 8) (\<lambda>b. sret (from_le b))"

definition sread_u32_timed :: "u32 sop" where
  "sread_u32_timed = sbind (sread_gen TimedOut 4) (\<lambda>b. sret (from_le b))"

definition sread_u64_timed :: "u64 sop" where
  "sread_u64_timed = sbind (sread_gen TimedOut 8) (\<lambda>b. sret (from_le b))"

text \<open>Parsing a received body with a buffer reader.\<close>

definition on_data :: "'a reader \<Rightarrow> bytes \<Rightarrow> 'a sop" where
  "on_data r data c =
     (case fst (r data) of Ok x \<Rightarrow> (Ok x, c) | Err e \<Rightarrow> (Err (Wire e), c) | Panic \<Rightarrow> (Panic, c))"

section \<open>Framing and handshakes\<close>

definition send_message :: "u32 \<Rightarrow> bytes \<Rightarrow> unit sop" where
  "send_message code data =
     sbind (swrite (put_u32_le (len_u32 (4 + length data)))) (\<lambda>_.
     sbind (swrite (put_u32_le code)) (\<lambda>_. swrite data))"

definition read_message :: "(u32 \<times> bytes) sop" where
  "read_message =
     sbind sread_u32 (\<lambda>msg_len.
     if msg_len < 4 then sret (0, []) else
     sbind sread_u32 (\<lambda>code.
     sbind (if msg_len = 4 then sret [] else sread (unat msg_len - 4)) (\<lambda>data.
     sret (code, data))))"

definition send_peer_init :: "rstring \<Rightarrow> rstring \<Rightarrow> u32 \<Rightarrow> unit sop" where
  "send_peer_init username conn_type tok =
     sbind (swrite (put_u32_le (len_u32
       (1 + 4 + length (as_bytes username) + 4 + length (as_bytes conn_type) + 4)))) (\<lambda>_.
     sbind (swrite (put_u8 1)) (\<lambda>_.
     sbind (swrite (encode_string username)) (\<lambda>_.
     sbind (swrite (encode_string conn_type)) (\<lambda>_.
     swrite (put_u32_le 0)))))"

definition send_pierce_firewall :: "u32 \<Rightarrow> unit sop" where
  "send_pierce_firewall tok =
     sbind (swrite (put_u32_le 5)) (\<lambda>_. sbind (swrite (put_u8 0)) (\<lambda>_. swrite (put_u32_le tok)))"

definition send_cant_connect_to_peer :: "u32 \<Rightarrow> rstring \<Rightarrow> unit sop" where
  "send_cant_connect_to_peer tok username =
     (let data = put_u32_le tok @ encode_string username in
      sbind (swrite (put_u32_le (len_u32 (4 + length data)))) (\<lambda>_.
      sbind (swrite (put_u32_le 1001)) (\<lambda>_. swrite data)))"

definition decode_peer_init :: "(rstring \<times> rstring \<times> u32) reader" where
  "decode_peer_init =
     rbind decode_string (\<lambda>username. rbind decode_string (\<lambda>conn_type.
     rbind get_u32_le (\<lambda>tok. rret (username, conn_type, tok))))"

definition read_peer_init :: "(rstring \<times> rstring \<times> u32) sop" where
  "read_peer_init =
     sbind sread_u32 (\<lambda>msg_len. sbind sread_u8 (\<lambda>msg_type.
     if msg_type \<noteq> 1 then sfail (Wire (ExpectedPeerInit msg_type)) else
     sbind (sread (unat (msg_len - 1))) (\<lambda>data. on_data decode_peer_init data)))"

datatype incoming =
    File_Conn (transfer_token: u32)
  | Peer_Conn rstring u32

definition handle_incoming_connection :: "rstring \<Rightarrow> incoming sop" where
  "handle_incoming_connection our_username =
     sbind sread_u32 (\<lambda>first_u32.
     if first_u32 = 5 then
       sbind sread_u8 (\<lambda>_. sbind sread_u32 (\<lambda>_.
       sbind (send_peer_init our_username (str ''F'') 0) (\<lambda>_.
       sbind sread_u32 (\<lambda>tok. sret (File_Conn tok)))))
     else if 5 < first_u32 \<and> first_u32 < 200 then
       sbind sread_u8 (\<lambda>msg_type.
       if msg_type = 1 then
         sbind (sread (unat (first_u32 - 1))) (\<lambda>data.
         sbind (on_data decode_peer_init data) (\<lambda>(peer_username, conn_type, init_token).
         if conn_type = str ''F'' then
           sbind sread_u32 (\<lambda>tok. sret (File_Conn tok))
         else if conn_type = str ''P'' then
           sbind (send_peer_init our_username (str ''P'') init_token) (\<lambda>_.
           sret (Peer_Conn peer_username init_token))
         else sfail (Wire (UnknownConnType conn_type))))
       else sfail (Wire (ExpectedPeerInit msg_type)))
     else sret (File_Conn first_u32))"

definition handle_incoming_f_connection :: "rstring \<Rightarrow> u32 sop" where
  "handle_incoming_f_connection our_username =
     sbind (handle_incoming_connection our_username) (\<lambda>i.
     case i of File_Conn tok \<Rightarrow> sret tok | Peer_Conn username _ \<Rightarrow> sfail (ExpectedFile username))"

text \<open>After the TCP connection is made; \<open>type \<noteq> 1\<close> leaves the rest of the message unread.\<close>

definition connect_for_indirect_transfer :: "u32 \<Rightarrow> u32 sop" where
  "connect_for_indirect_transfer indirect_token =
     sbind (send_pierce_firewall indirect_token) (\<lambda>_.
     sbind sread_u32_timed (\<lambda>first_u32.
     if 5 < first_u32 \<and> first_u32 < 200 then
       sbind sread_u8 (\<lambda>msg_type.
       sbind (if msg_type = 1 then sread (unat (first_u32 - 1)) else sret []) (\<lambda>_.
       sread_u32))
     else sret first_u32))"

section \<open>Search responses\<close>

record parsed_search_response =
  pr_username :: rstring
  pr_token :: u32
  pr_files :: "(rstring \<times> u64 \<times> u32 option) list"
  pr_slot_free :: bool
  pr_avg_speed :: u32
  pr_queue_length :: u32

primrec parse_attrs :: "nat \<Rightarrow> u32 option \<Rightarrow> u32 option reader" where
  "parse_attrs 0 br = rret br"
| "parse_attrs (Suc n) br =
     rbind remaining (\<lambda>r.
     if r < 8 then rret br else
     rbind get_u32_le (\<lambda>attr_type. rbind get_u32_le (\<lambda>attr_value.
     parse_attrs n (if attr_type = 0 then Some attr_value else br))))"

primrec parse_files :: "nat \<Rightarrow> (rstring \<times> u64 \<times> u32 option) list reader" where
  "parse_files 0 = rret []"
| "parse_files (Suc n) =
     rbind remaining (\<lambda>r.
     if r < 1 then rret [] else
     rbind get_u8 (\<lambda>_. rbind decode_string (\<lambda>filename.
     rbind remaining (\<lambda>r.
     if r < 8 then rret [] else
     rbind get_u64_le (\<lambda>len. rbind decode_string (\<lambda>_.
     rbind remaining (\<lambda>r.
     if r < 4 then rret [] else
     rbind get_u32_le (\<lambda>attr_count. rbind (parse_attrs (unat attr_count) None) (\<lambda>br.
     rbind (parse_files n) (\<lambda>rest. rret ((filename, len, br) # rest)))))))))))"

definition parse_stats :: "(bool \<times> u32 \<times> u32) reader" where
  "parse_stats =
     rbind remaining (\<lambda>r. rbind (if 1 \<le> r then rbind get_u8 (\<lambda>b. rret (b \<noteq> 0)) else rret True) (\<lambda>slot_free.
     rbind remaining (\<lambda>r. rbind (if 4 \<le> r then get_u32_le else rret 0) (\<lambda>avg_speed.
     rbind remaining (\<lambda>r. rbind (if 4 \<le> r then get_u32_le else rret 0) (\<lambda>queue_length.
     rret (slot_free, avg_speed, queue_length)))))))"

definition parse_file_search_response :: "parsed_search_response reader" where
  "parse_file_search_response =
     rbind remaining (\<lambda>r.
     if r < 8 then rfail NotEnoughData else
     rbind decode_string (\<lambda>username. rbind get_u32_le (\<lambda>tok. rbind get_u32_le (\<lambda>file_count.
     rbind (parse_files (min (unat file_count) 100)) (\<lambda>files.
     rbind parse_stats (\<lambda>(slot_free, avg_speed, queue_length).
     rret \<lparr>pr_username = username, pr_token = tok, pr_files = files, pr_slot_free = slot_free,
           pr_avg_speed = avg_speed, pr_queue_length = queue_length\<rparr>))))))"

definition inflated :: "(bytes \<Rightarrow> bytes option) \<Rightarrow> bytes \<Rightarrow> bytes" where
  "inflated inflate data = (case inflate data of Some d \<Rightarrow> d | None \<Rightarrow> data)"

fun receive_results :: "(bytes \<Rightarrow> bytes option) \<Rightarrow> nat \<Rightarrow> parsed_search_response sop" where
  "receive_results inflate 0 = sfail NoSearchResponse"
| "receive_results inflate (Suc n) =
     sbind sread_u32_timed (\<lambda>msg_len.
     if msg_len = 0 \<or> 10000000 < msg_len then receive_results inflate n else
     sbind sread_u32 (\<lambda>code. sbind (sread (unat (msg_len - 4))) (\<lambda>data.
     if code = 9 then on_data parse_file_search_response (inflated inflate data)
     else receive_results inflate n)))"

definition receive_search_results_from_peer ::
  "(bytes \<Rightarrow> bytes option) \<Rightarrow> parsed_search_response sop" where
  "receive_search_results_from_peer inflate = receive_results inflate 10"

text \<open>The retry loop of \<open>connect_to_peer_for_results\<close>: here a timeout uses up an attempt.\<close>

fun retry_results :: "(bytes \<Rightarrow> bytes option) \<Rightarrow> nat \<Rightarrow> parsed_search_response sop" where
  "retry_results inflate 0 c = sfail NoSearchResponse c"
| "retry_results inflate (Suc n) c =
     (case sread_u32_timed c of
        (Err TimedOut, c') \<Rightarrow> if n = 0 then (Err TimedOut, c') else retry_results inflate n c'
      | (Err e, c') \<Rightarrow> (Err e, c')
      | (Panic, c') \<Rightarrow> (Panic, c')
      | (Ok msg_len, c') \<Rightarrow>
          if msg_len = 0 \<or> 10000000 < msg_len then retry_results inflate n c' else
          sbind sread_u32 (\<lambda>code. sbind (sread (unat (msg_len - 4))) (\<lambda>data.
          if code = 9 then on_data parse_file_search_response (inflated inflate data)
          else retry_results inflate n)) c')"

definition connect_to_peer_for_results ::
  "(bytes \<Rightarrow> bytes option) \<Rightarrow> u32 \<Rightarrow> parsed_search_response sop" where
  "connect_to_peer_for_results inflate peer_token =
     sbind (send_pierce_firewall peer_token) (\<lambda>_.
     sbind sread_u32_timed (\<lambda>msg_len.
     if 100 < msg_len \<and> msg_len < 10000000 then
       sbind sread_u32 (\<lambda>code. sbind (sread (unat (msg_len - 4))) (\<lambda>data.
       if code = 9 then on_data parse_file_search_response (inflated inflate data)
       else retry_results inflate 10))
     else if msg_len = 5 then
       sbind sread_u8 (\<lambda>_. sbind sread_u32 (\<lambda>_. retry_results inflate 10))
     else if 5 < msg_len \<and> msg_len < 200 then
       sbind sread_u8 (\<lambda>_. sbind (sread (unat (msg_len - 1))) (\<lambda>_. retry_results inflate 10))
     else retry_results inflate 10))"

section \<open>Negotiating a transfer\<close>

datatype negotiation =
    Allowed u64 u32
  | Queued u32 "u32 option" rstring
  | Denied rstring

definition queue_upload :: "rstring \<Rightarrow> unit sop" where
  "queue_upload filename =
     (let request = encode_string filename in
      sbind (swrite (put_u32_le (len_u32 (4 + length request)))) (\<lambda>_.
      sbind (swrite (put_u32_le 43)) (\<lambda>_. swrite request)))"

definition decode_two_strings :: "(rstring \<times> rstring) reader" where
  "decode_two_strings = rbind decode_string (\<lambda>a. rbind decode_string (\<lambda>b. rret (a, b)))"

definition decode_string_u32 :: "(rstring \<times> u32) reader" where
  "decode_string_u32 = rbind decode_string (\<lambda>a. rbind get_u32_le (\<lambda>n. rret (a, n)))"

text \<open>The transfer request of code 40; the size is read only if the direction is upload (1).\<close>

definition decode_transfer_request :: "(u32 \<times> u32 \<times> rstring \<times> u64) reader" where
  "decode_transfer_request =
     rbind get_u32_le (\<lambda>direction. rbind get_u32_le (\<lambda>tok. rbind decode_string (\<lambda>filename.
     rbind (if direction = 1 then get_u64_le else rret 0) (\<lambda>filesize.
     rret (direction, tok, filename, filesize)))))"

text \<open>\<open>budget\<close> is the number of messages that arrive before the deadline.\<close>

fun wait_for_transfer_request :: "nat \<Rightarrow> rstring \<Rightarrow> negotiation sop" where
  "wait_for_transfer_request 0 expected_filename = sfail TimedOut"
| "wait_for_transfer_request (Suc budget) expected_filename =
     sbind sread_u32_timed (\<lambda>msg_len. sbind sread_u32 (\<lambda>code.
     sbind (sread (unat (msg_len - 4))) (\<lambda>data.
     if code = 40 then
       sbind (on_data decode_transfer_request data) (\<lambda>(direction, tok, filename, filesize).
       if direction \<noteq> 1 then wait_for_transfer_request budget expected_filename
       else
         sbind (swrite (put_u32_le 9)) (\<lambda>_. sbind (swrite (put_u32_le 41)) (\<lambda>_.
         sbind (swrite (put_u32_le tok @ put_u8 1)) (\<lambda>_. sret (Allowed filesize tok)))))
     else if code = 44 then
       sbind (on_data decode_string_u32 data) (\<lambda>_. wait_for_transfer_request budget expected_filename)
     else if code = 50 then
       sbind (on_data decode_two_strings data) (\<lambda>(_, reason). sret (Denied reason))
     else if code = 46 then
       sbind (on_data decode_string data) (\<lambda>_. sret (Denied (str ''Upload failed'')))
     else wait_for_transfer_request budget expected_filename)))"

definition position_reason :: "u32 \<Rightarrow> rstring" where
  "position_reason place = str ''Position '' @ show_nat (unat place)"

definition negotiate_download :: "unicode \<Rightarrow> u32 \<Rightarrow> rstring \<Rightarrow> negotiation sop" where
  "negotiate_download u tok filename =
     (let request = put_u32_le 0 @ put_u32_le tok @ encode_string filename in
     sbind (swrite (put_u32_le (len_u32 (4 + length request)))) (\<lambda>_.
     sbind (swrite (put_u32_le 40)) (\<lambda>_. sbind (swrite request) (\<lambda>_.
     sbind sread_u32_timed (\<lambda>msg_len. sbind sread_u32 (\<lambda>code.
     if code \<noteq> 41 then
       sbind (sread (unat (msg_len - 4))) (\<lambda>data.
       if code = 44 then
         sbind (on_data decode_string_u32 data) (\<lambda>(_, place).
         sret (Queued tok (Some place) (position_reason place)))
       else if code = 50 then
         sbind (on_data decode_two_strings data) (\<lambda>(_, reason). sret (Denied reason))
       else sfail (UnexpectedCode code))
     else
       sbind sread_u32 (\<lambda>_. sbind sread_u8 (\<lambda>allowed.
       if allowed = 1 then sbind sread_u64 (\<lambda>filesize. sret (Allowed filesize tok))
       else
         sbind (sread (unat (msg_len - 4 - 4 - 1))) (\<lambda>reason_data.
         sbind (on_data decode_string reason_data) (\<lambda>reason.
         if contains (lowercase u reason) (str ''queued'') \<or> contains (lowercase u reason) (str ''queue'')
         then sret (Queued tok None reason)
         else sret (Denied reason)))))))))))"

section \<open>Moving the file\<close>

text \<open>What one \<open>read\<close> on the file connection gives: some bytes, the end of the stream (\<open>Ok(0)\<close>), an
  error, or nothing for 30 seconds. A peer that stays silent is the last.\<close>

datatype read_event = Data bytes | Closed | Read_Error | Read_Timeout

text \<open>The result: the bytes counted, the file's contents, and the totals reported to the progress
  callback, in order.\<close>

fun receive_loop :: "u64 \<Rightarrow> u64 \<Rightarrow> bytes \<Rightarrow> u64 list \<Rightarrow> read_event list \<Rightarrow> u64 \<times> bytes \<times> u64 list" where
  "receive_loop filesize total_bytes file prog [] = (total_bytes, file, prog)"
| "receive_loop filesize total_bytes file prog (Data bs # evs) =
     (if bs = [] then (total_bytes, file, prog)
      else
        (let file = file @ bs;
             total_bytes = total_bytes + word_of_nat (length bs);
             prog = (if total_bytes mod 262144 < 65536 then prog @ [total_bytes] else prog)
         in if filesize \<le> total_bytes then (total_bytes, file, prog @ [total_bytes])
            else receive_loop filesize total_bytes file prog evs))"
| "receive_loop filesize total_bytes file prog (_ # evs) = (total_bytes, file, prog)"

text \<open>\<open>disk\<close> is \<open>None\<close> when the file cannot be created, else the room for it: a write that does not fit is
  an error.\<close>

definition receive_file_data ::
  "nat option \<Rightarrow> u64 \<Rightarrow> read_event list \<Rightarrow> (u64 \<times> bytes \<times> u64 list) sop" where
  "receive_file_data disk filesize evs =
     sbind (swrite (put_u64_le 0)) (\<lambda>_.
     case disk of
       None \<Rightarrow> sfail FileFailed
     | Some room \<Rightarrow>
         (let (total_bytes, file, prog) = receive_loop filesize 0 [] [] evs in
          if room < length file then sfail FileFailed else sret (total_bytes, file, prog)))"

text \<open>What one round of the sending loop meets: a read of the file that gives at most 64 KiB of what
  is left, or fails; then the write to the peer, which succeeds or not.\<close>

datatype send_event = Chunk nat | Chunk_Write_Failed nat | File_Read_Failed

definition chunk_len :: "nat \<Rightarrow> bytes \<Rightarrow> nat" where
  "chunk_len k rest = min (min (max k 1) 65536) (length rest)"

fun send_loop :: "u64 \<Rightarrow> bytes \<Rightarrow> u64 \<Rightarrow> bytes \<Rightarrow> send_event list \<Rightarrow> u64 \<times> bytes" where
  "send_loop file_size rest total_bytes out [] = (total_bytes, out)"
| "send_loop file_size rest total_bytes out (Chunk k # evs) =
     (if rest = [] then (total_bytes, out)
      else
        (let n = chunk_len k rest;
             out = out @ take n rest;
             total_bytes = total_bytes + word_of_nat n
         in if file_size \<le> total_bytes then (total_bytes, out)
            else send_loop file_size (drop n rest) total_bytes out evs))"
| "send_loop file_size rest total_bytes out (_ # evs) = (total_bytes, out)"

definition send_file_data ::
  "bytes option \<Rightarrow> u64 \<Rightarrow> send_event list \<Rightarrow> (u64 \<times> bytes) sop" where
  "send_file_data content file_size evs =
     sbind sread_u64_timed (\<lambda>offset.
     case content of
       None \<Rightarrow> sfail FileFailed
     | Some bs \<Rightarrow>
         (let (total_bytes, out) = send_loop file_size (drop (unat offset) bs) offset [] evs in
          sret (total_bytes - offset, out)))"

section \<open>Running a connection\<close>

text \<open>What each operation does on a given connection; these carry the proofs below.\<close>

lemma sop_run [simp]:
  "sret x c = (Ok x, c)" "sfail e c = (Err e, c)"
  by (simp_all add: sret_def sfail_def)

lemma swrite_run [simp]:
  "swrite bs \<lparr>c_in = i, c_closes = cl, c_out = out, c_write_ok = True\<rparr> =
     (Ok (), \<lparr>c_in = i, c_closes = cl, c_out = out @ bs, c_write_ok = True\<rparr>)"
  by (simp add: swrite_def)

lemma sread_gen_run:
  "length bs = n \<Longrightarrow> sread_gen e n \<lparr>c_in = bs @ i, c_closes = cl, c_out = out, c_write_ok = wo\<rparr> =
     (Ok bs, \<lparr>c_in = i, c_closes = cl, c_out = out, c_write_ok = wo\<rparr>)"
  by (simp add: sread_gen_def)

lemma sread_run:
  "length bs = n \<Longrightarrow> sread n \<lparr>c_in = bs @ i, c_closes = cl, c_out = out, c_write_ok = wo\<rparr> =
     (Ok bs, \<lparr>c_in = i, c_closes = cl, c_out = out, c_write_ok = wo\<rparr>)"
  by (simp add: sread_def sread_gen_run)

lemma sread_all:
  "length bs = n \<Longrightarrow> sread n \<lparr>c_in = bs, c_closes = cl, c_out = out, c_write_ok = wo\<rparr> =
     (Ok bs, \<lparr>c_in = [], c_closes = cl, c_out = out, c_write_ok = wo\<rparr>)"
  using sread_run [of bs n "[]"] by simp

lemma sread_short:
  "length i < n \<Longrightarrow> sread_gen e n \<lparr>c_in = i, c_closes = cl, c_out = out, c_write_ok = wo\<rparr> =
     (Err (if cl then Wire UnexpectedEof else e),
      \<lparr>c_in = [], c_closes = cl, c_out = out, c_write_ok = wo\<rparr>)"
  by (simp add: sread_gen_def)

lemma sread_ints [wire_rt]:
  "sread_u8 \<lparr>c_in = put_u8 b @ i, c_closes = cl, c_out = out, c_write_ok = wo\<rparr> =
     (Ok b, \<lparr>c_in = i, c_closes = cl, c_out = out, c_write_ok = wo\<rparr>)"
  "sread_u32 \<lparr>c_in = put_u32_le w @ i, c_closes = cl, c_out = out, c_write_ok = wo\<rparr> =
     (Ok w, \<lparr>c_in = i, c_closes = cl, c_out = out, c_write_ok = wo\<rparr>)"
  "sread_u32_timed \<lparr>c_in = put_u32_le w @ i, c_closes = cl, c_out = out, c_write_ok = wo\<rparr> =
     (Ok w, \<lparr>c_in = i, c_closes = cl, c_out = out, c_write_ok = wo\<rparr>)"
  "sread_u64_timed \<lparr>c_in = put_u64_le d @ i, c_closes = cl, c_out = out, c_write_ok = wo\<rparr> =
     (Ok d, \<lparr>c_in = i, c_closes = cl, c_out = out, c_write_ok = wo\<rparr>)"
  by (simp_all add: sread_u8_def sread_u32_def sread_u32_timed_def sread_u64_timed_def sread_def
      sread_gen_run from_le_put_u8 from_le_put_u64)

lemma sread_u8_Cons [simp]:
  "sread_u8 \<lparr>c_in = b # i, c_closes = cl, c_out = out, c_write_ok = wo\<rparr> =
     (Ok b, \<lparr>c_in = i, c_closes = cl, c_out = out, c_write_ok = wo\<rparr>)"
  using sread_ints(1) [of b i] by (simp add: put_u8_def)

section \<open>The handshake\<close>

text \<open>The bytes of the two init messages.\<close>

definition peer_init_body :: "rstring \<Rightarrow> rstring \<Rightarrow> bytes" where
  "peer_init_body username conn_type = encode_string username @ encode_string conn_type @ put_u32_le 0"

definition peer_init_bytes :: "rstring \<Rightarrow> rstring \<Rightarrow> bytes" where
  "peer_init_bytes username conn_type =
     put_u32_le (len_u32 (1 + length (peer_init_body username conn_type)))
     @ put_u8 1 @ peer_init_body username conn_type"

definition pierce_bytes :: "u32 \<Rightarrow> bytes" where
  "pierce_bytes tok = put_u32_le 5 @ put_u8 0 @ put_u32_le tok"

lemma length_peer_init_body [wire_len]:
  "length (peer_init_body username conn_type) =
     12 + length (as_bytes username) + length (as_bytes conn_type)"
  by (simp add: peer_init_body_def wire_len)

lemma send_peer_init_run [simp]:
  "send_peer_init username conn_type tok
     \<lparr>c_in = i, c_closes = cl, c_out = out, c_write_ok = True\<rparr> =
   (Ok (), \<lparr>c_in = i, c_closes = cl, c_out = out @ peer_init_bytes username conn_type,
           c_write_ok = True\<rparr>)"
  by (simp add: send_peer_init_def peer_init_bytes_def peer_init_body_def wire_len
      encode_string_def add.commute add.left_commute)

lemma send_pierce_firewall_run [simp]:
  "send_pierce_firewall tok \<lparr>c_in = i, c_closes = cl, c_out = out, c_write_ok = True\<rparr> =
   (Ok (), \<lparr>c_in = i, c_closes = cl, c_out = out @ pierce_bytes tok, c_write_ok = True\<rparr>)"
  by (simp add: send_pierce_firewall_def pierce_bytes_def)

lemma decode_peer_init_body:
  "fits_u32 username \<Longrightarrow> fits_u32 conn_type \<Longrightarrow>
   decode_peer_init (peer_init_body username conn_type) = (Ok (username, conn_type, 0), [])"
  using get_u32_put [of 0 "[]"]
  by (simp add: decode_peer_init_def peer_init_body_def wire_rt)

lemma len_u32_range:
  assumes "5 < n" "n < 200"
  shows "len_u32 n \<noteq> 5" "5 < len_u32 n" "len_u32 n < 200" "unat (len_u32 n - 1) = n - 1"
proof -
  have u: "unat (len_u32 n) = n" using assms by simp
  then show "5 < len_u32 n" "len_u32 n < 200"
    using assms by (simp_all add: word_less_nat_alt)
  then show "len_u32 n \<noteq> 5" by auto
  have "1 \<le> len_u32 n" using u assms by (simp add: word_le_nat_alt)
  with u show "unat (len_u32 n - 1) = n - 1" by (simp add: unat_sub)
qed

lemma incoming_peer_init:
  assumes u: "fits_u32 username" "length (as_bytes username) < 186"
    and t: "conn_type = str ''F'' \<or> conn_type = str ''P''"
  shows "handle_incoming_connection ours
      \<lparr>c_in = peer_init_bytes username conn_type @ i, c_closes = cl, c_out = out, c_write_ok = True\<rparr> =
    (if conn_type = str ''F''
     then sbind sread_u32 (\<lambda>tok. sret (File_Conn tok))
       \<lparr>c_in = i, c_closes = cl, c_out = out, c_write_ok = True\<rparr>
     else (Ok (Peer_Conn username 0), \<lparr>c_in = i, c_closes = cl,
       c_out = out @ peer_init_bytes ours (str ''P''), c_write_ok = True\<rparr>))"
proof -
  have ct: "fits_u32 conn_type" "length (as_bytes conn_type) = 1" "str ''P'' \<noteq> str ''F''"
    using t by (auto simp: fits_u32_def str_def is_scalar_def utf8_char_def)
  define body where "body = peer_init_body username conn_type"
  have n: "5 < 1 + length body" "1 + length body < 200"
    using u(2) ct(2) by (simp_all add: body_def wire_len)
  have bytes: "peer_init_bytes username conn_type @ i =
      put_u32_le (len_u32 (1 + length body)) @ put_u8 1 @ body @ i"
    by (simp add: peer_init_bytes_def body_def)
  note r = len_u32_range [OF n]
  have d: "decode_peer_init body = (Ok (username, conn_type, 0), [])"
    by (simp add: body_def decode_peer_init_body [OF u(1) ct(1)])
  show ?thesis
    unfolding bytes handle_incoming_connection_def
    using t ct(3) r
    by (auto simp: wire_rt sread_run on_data_def d)
qed

text \<open>The handshake: what \<open>send_peer_init\<close> writes is recognised by \<open>handle_incoming_connection\<close>
  as a connection of its type from that user (a peer connection is answered with our own init
  message, a file connection is not answered and gives the transfer token that follows), and a
  pierce-firewall message followed by a token is a file connection, answered with our init message.
  This holds for user names of fewer than 186 bytes.\<close>

lemma handshake_accepted:
  assumes "fits_u32 username" and "length (as_bytes username) < 186"
    and "sender = \<lparr>c_in = [], c_closes = cl', c_out = [], c_write_ok = True\<rparr>"
  shows "handle_incoming_connection ours
      \<lparr>c_in = c_out (snd (send_peer_init username (str ''P'') t sender)) @ i, c_closes = cl,
       c_out = [], c_write_ok = True\<rparr> =
      (Ok (Peer_Conn username 0),
       \<lparr>c_in = i, c_closes = cl, c_out = peer_init_bytes ours (str ''P''), c_write_ok = True\<rparr>)
    \<and> handle_incoming_connection ours
      \<lparr>c_in = c_out (snd (send_peer_init username (str ''F'') t sender)) @ put_u32_le tok @ i,
       c_closes = cl, c_out = [], c_write_ok = True\<rparr> =
      (Ok (File_Conn tok), \<lparr>c_in = i, c_closes = cl, c_out = [], c_write_ok = True\<rparr>)
    \<and> handle_incoming_connection ours
      \<lparr>c_in = c_out (snd (send_pierce_firewall t sender)) @ put_u32_le tok @ i, c_closes = cl,
       c_out = [], c_write_ok = True\<rparr> =
      (Ok (File_Conn tok),
       \<lparr>c_in = i, c_closes = cl, c_out = peer_init_bytes ours (str ''F''), c_write_ok = True\<rparr>)"
proof -
  have "str ''P'' \<noteq> str ''F''" by (simp add: str_def)
  moreover have "handle_incoming_connection ours
      \<lparr>c_in = pierce_bytes t @ put_u32_le tok @ i, c_closes = cl, c_out = [], c_write_ok = True\<rparr> =
      (Ok (File_Conn tok),
       \<lparr>c_in = i, c_closes = cl, c_out = peer_init_bytes ours (str ''F''), c_write_ok = True\<rparr>)"
    by (simp add: handle_incoming_connection_def pierce_bytes_def wire_rt)
  ultimately show ?thesis
    using incoming_peer_init [OF assms(1,2), of "str ''P''" ours i cl "[]"]
      incoming_peer_init [OF assms(1,2), of "str ''F''" ours "put_u32_le tok @ i" cl "[]"]
    by (simp add: assms(3) wire_rt)
qed

lemma handshake_accepted_witness:
  "handle_incoming_connection (str ''me'')
      \<lparr>c_in = c_out (snd (send_peer_init (str ''peer'') (str ''P'') 7
          \<lparr>c_in = [], c_closes = True, c_out = [], c_write_ok = True\<rparr>)) @ [9], c_closes = False,
       c_out = [], c_write_ok = True\<rparr> =
      (Ok (Peer_Conn (str ''peer'') 0),
       \<lparr>c_in = [9], c_closes = False, c_out = peer_init_bytes (str ''me'') (str ''P''),
        c_write_ok = True\<rparr>)"
  using handshake_accepted [of "str ''peer''" "\<lparr>c_in = [], c_closes = True, c_out = [], c_write_ok = True\<rparr>"
      True "str ''me''" 7 "[9]" False 1]
  by (simp only: simp_thms) (simp add: fits_u32_def str_def is_scalar_def utf8_char_def)

text \<open>A raw transfer token from 6 to 199 that arrives without a handshake is taken for the length
  of an init message: the accepting side waits for a handshake that never comes instead of
  returning the file connection. Every other token (5 apart) is accepted as it is.\<close>

lemma small_token_misread:
  assumes "tok \<noteq> 5"
  shows "fst (handle_incoming_connection ours
      \<lparr>c_in = put_u32_le tok, c_closes = False, c_out = [], c_write_ok = True\<rparr>) =
    (if 5 < tok \<and> tok < 200 then Err Stalled else Ok (File_Conn tok))"
proof -
  have r: "sread_u32 \<lparr>c_in = put_u32_le tok, c_closes = False, c_out = [], c_write_ok = True\<rparr> =
      (Ok tok, \<lparr>c_in = [], c_closes = False, c_out = [], c_write_ok = True\<rparr>)"
    using sread_ints(2) [of tok "[]"] by simp
  show ?thesis
    using assms by (simp add: handle_incoming_connection_def r sread_u8_def sread_def sread_short)
qed

lemma small_token_misread_witness:
  "fst (handle_incoming_connection (str ''me'')
      \<lparr>c_in = put_u32_le 42, c_closes = False, c_out = [], c_write_ok = True\<rparr>) = Err Stalled"
  using small_token_misread [of 42 "str ''me''"] by simp

section \<open>Search responses between peers\<close>

definition sendable :: "shared_file \<Rightarrow> bool" where
  "sendable f \<longleftrightarrow> fits_u32 (virtual_path f)
     \<and> fits_u32 (case path_extension (real_path f) of Some e \<Rightarrow> e | None \<Rightarrow> [])"

definition listed :: "shared_file \<Rightarrow> rstring \<times> u64 \<times> u32 option" where
  "listed f = (virtual_path f, fsize f, fbitrate f)"

lemma sendable_sample: "sendable sample_shared"
proof -
  have "fits_u32 (virtual_path sample_shared)"
    by (simp add: fits_u32_def sample_shared_def str_def is_scalar_def utf8_char_def)
  moreover have "path_extension (real_path sample_shared) = Some (str ''mp3'')" by code_simp
  ultimately show ?thesis
    by (simp add: sendable_def fits_u32_def str_def is_scalar_def utf8_char_def)
qed

lemma parse_attrs_put:
  "parse_attrs (length (filter (\<lambda>a. snd a \<noteq> None) as)) br (put_attrs as @ bs) =
     (Ok (fold (\<lambda>a br. if fst a = 0 \<and> snd a \<noteq> None then snd a else br) as br), bs)"
  by (induction as arbitrary: br rule: put_attrs.induct) (auto simp: wire_rt)

lemma parse_search_attrs:
  "parse_attrs (unat (count_attrs (search_attrs f))) None (put_attrs (search_attrs f) @ bs) =
     (Ok (fbitrate f), bs)"
proof -
  have "length (filter (\<lambda>a. snd a \<noteq> None) (search_attrs f)) \<le> length (search_attrs f)"
    by (rule length_filter_le)
  then have "unat (count_attrs (search_attrs f)) =
      length (filter (\<lambda>a. snd a \<noteq> None) (search_attrs f))"
    by (simp add: count_attrs_def search_attrs_def)
  moreover have "fold (\<lambda>a br. if fst a = 0 \<and> snd a \<noteq> None then snd a else br) (search_attrs f) None
      = fbitrate f"
    by (auto simp: search_attrs_def)
  ultimately show ?thesis by (simp only: parse_attrs_put)
qed

lemma parse_files_Suc_entry:
  assumes "sendable f"
  shows "parse_files (Suc n) (search_entry f @ bs) =
     rbind (parse_files n) (\<lambda>rest. rret (listed f # rest)) bs"
  using assms
  by (simp add: search_entry_def sendable_def wire_rt parse_search_attrs listed_def)

lemma parse_files_entries:
  assumes "n \<le> length fs" and "\<forall>f\<in>set fs. sendable f"
  shows "parse_files n (concat (map search_entry fs) @ bs) =
     (Ok (map listed (take n fs)), concat (map search_entry (drop n fs)) @ bs)"
  using assms
proof (induction n arbitrary: fs)
  case (Suc n)
  then obtain f fs' where fs: "fs = f # fs'" by (cases fs) auto
  with Suc have "sendable f" by simp
  note step = parse_files_Suc_entry [OF this, of n "concat (map search_entry fs') @ bs"]
  from Suc fs have "parse_files n (concat (map search_entry fs') @ bs) =
     (Ok (map listed (take n fs')), concat (map search_entry (drop n fs')) @ bs)" by simp
  with step show ?case by (simp add: fs del: parse_files.simps)
qed simp

lemma parse_response_header:
  assumes "fits_u32 username" and "length files < 2 ^ 32" and "\<forall>f\<in>set files. sendable f"
  shows "parse_file_search_response
      (search_response_body username tok files free_slots avg_speed queue_length) =
    rbind parse_stats (\<lambda>(sf, sp, ql). rret
      \<lparr>pr_username = username, pr_token = tok, pr_files = map listed (take 100 files),
       pr_slot_free = sf, pr_avg_speed = sp, pr_queue_length = ql\<rparr>)
      (concat (map search_entry (drop 100 files)) @ put_u8 (if free_slots then 1 else 0)
       @ put_u32_le avg_speed @ put_u32_le queue_length)"
proof -
  define stats where "stats = put_u8 (if free_slots then 1 else 0) @ put_u32_le avg_speed
    @ put_u32_le queue_length"
  have "parse_files (min (length files) 100) (concat (map search_entry files) @ stats) =
      (Ok (map listed (take 100 files)), concat (map search_entry (drop 100 files)) @ stats)"
    using parse_files_entries [OF _ assms(3), of "min (length files) 100" stats]
    by (simp add: min_def)
  then show ?thesis
    using assms(1,2)
    by (simp add: parse_file_search_response_def search_response_body_def wire_rt wire_len
        flip: stats_def)
qed

text \<open>C37: a search response we send for up to 100 shared files is read back by the other side's
  parser with the user name, the token, every file's path, size and bitrate in order, and the slot,
  speed and queue statistics. (The response is the decompressed one.)\<close>

theorem search_response_roundtrip:
  assumes "fits_u32 username" and "length files \<le> 100" and "\<forall>f\<in>set files. sendable f"
  shows "fst (parse_file_search_response
      (search_response_body username tok files free_slots avg_speed queue_length)) =
    Ok \<lparr>pr_username = username, pr_token = tok, pr_files = map listed files,
        pr_slot_free = free_slots, pr_avg_speed = avg_speed, pr_queue_length = queue_length\<rparr>"
proof -
  have "get_u32_le (put_u32_le queue_length) = (Ok queue_length, [])"
    using get_u32_put [of queue_length "[]"] by simp
  then have "parse_stats (put_u8 (if free_slots then 1 else 0) @ put_u32_le avg_speed
      @ put_u32_le queue_length) = (Ok (free_slots, avg_speed, queue_length), [])"
    by (simp add: parse_stats_def wire_rt)
  moreover have "drop 100 files = []" "take 100 files = files" "length files < 2 ^ 32"
    using assms(2) by simp_all
  ultimately show ?thesis
    using parse_response_header [OF assms(1) _ assms(3)] by simp
qed

theorem search_response_roundtrip_witness:
  "fst (parse_file_search_response (search_response_body (str ''u'') 5 [sample_shared] True 6 7)) =
    Ok \<lparr>pr_username = str ''u'', pr_token = 5, pr_files = map listed [sample_shared],
        pr_slot_free = True, pr_avg_speed = 6, pr_queue_length = 7\<rparr>"
proof (rule search_response_roundtrip)
  show "fits_u32 (str ''u'')" by (simp add: fits_u32_def str_def is_scalar_def utf8_char_def)
  show "\<forall>f\<in>set [sample_shared]. sendable f" by (simp add: sendable_sample)
qed simp

text \<open>The parser stops after 100 files without skipping the others, and reads the peer's
  statistics from the 101st file's entry: a peer that lists more than 100 files always counts as
  having a free slot, and its speed is the length of that file's path.\<close>

lemma many_files_garble_statistics:
  assumes "fits_u32 username" and "100 < length files" and "length files < 2 ^ 32"
    and "\<forall>f\<in>set files. sendable f"
  shows "\<exists>ql. fst (parse_file_search_response
      (search_response_body username tok files free_slots avg_speed queue_length)) =
    Ok \<lparr>pr_username = username, pr_token = tok, pr_files = map listed (take 100 files),
        pr_slot_free = True,
        pr_avg_speed = len_u32 (length (as_bytes (virtual_path (files ! 100)))),
        pr_queue_length = ql\<rparr>"
proof -
  have "drop 100 files = files ! 100 # drop 101 files"
    using assms(2) Cons_nth_drop_Suc [of 100 files] by simp
  then obtain tail where t: "concat (map search_entry (drop 100 files))
        @ put_u8 (if free_slots then 1 else 0) @ put_u32_le avg_speed @ put_u32_le queue_length
      = put_u8 1 @ put_u32_le (len_u32 (length (as_bytes (virtual_path (files ! 100))))) @ tail"
    by (auto simp: search_entry_def encode_string_def)
  show ?thesis
    unfolding parse_response_header [OF assms(1,3,4)] t
    by (auto simp: parse_stats_def wire_rt get_u32_ok)
qed

lemma many_files_garble_statistics_witness:
  "\<exists>ql. fst (parse_file_search_response
      (search_response_body (str ''u'') 5 (replicate 101 sample_shared) False 6 7)) =
    Ok \<lparr>pr_username = str ''u'', pr_token = 5,
        pr_files = map listed (take 100 (replicate 101 sample_shared)), pr_slot_free = True,
        pr_avg_speed = len_u32 (length (as_bytes (virtual_path (replicate 101 sample_shared ! 100)))),
        pr_queue_length = ql\<rparr>"
proof (rule many_files_garble_statistics)
  show "fits_u32 (str ''u'')" by (simp add: fits_u32_def str_def is_scalar_def utf8_char_def)
  show "\<forall>f\<in>set (replicate 101 sample_shared). sendable f" by (simp add: sendable_sample)
qed simp_all

lemma retry_silent:
  "fst (retry_results inflate (Suc n) \<lparr>c_in = [], c_closes = False, c_out = out, c_write_ok = wo\<rparr>) =
     Err TimedOut"
  by (induction n) (simp_all add: sread_u32_timed_def sread_short)

text \<open>After piercing the firewall, a search response whose frame is 6 to 100 bytes long is taken
  for an init message and thrown away: with nothing else from the peer, the caller gets a timeout
  although the response arrived in full. The same response in a frame of 101 bytes or more (and
  under 10 MB) is parsed.\<close>

lemma short_response_lost:
  assumes "2 \<le> length z" and "length z < 2 ^ 32 - 4" and "length z + 4 < 10000000"
  shows "fst (connect_to_peer_for_results inflate tok
      \<lparr>c_in = frame (put_u32_le 9 @ z), c_closes = False, c_out = [], c_write_ok = True\<rparr>) =
    (if length z \<le> 96 then Err TimedOut
     else fst (on_data parse_file_search_response (inflated inflate z)
       \<lparr>c_in = [], c_closes = False, c_out = pierce_bytes tok, c_write_ok = True\<rparr>))"
proof -
  let ?n = "4 + length z"
  have fr: "frame (put_u32_le 9 @ z) = put_u32_le (len_u32 ?n) @ put_u32_le 9 @ z"
    by (simp add: frame_def)
  have u: "unat (len_u32 ?n) = ?n" using assms(2) by simp
  have "4 \<le> len_u32 ?n" using u by (simp add: word_le_nat_alt)
  then have u4: "unat (len_u32 ?n - 4) = length z" using u by (simp add: unat_sub)
  show ?thesis
  proof (cases "length z \<le> 96")
    case True
    with assms(1) have n: "5 < ?n" "?n < 200" by auto
    note r = len_u32_range [OF n]
    have "\<not> 100 < len_u32 ?n" using u True by (simp add: word_less_nat_alt)
    moreover obtain t where t: "put_u32_le 9 = 9 # t" "length t = 3"
      by (simp add: put_u32_le_def)
    moreover have "sread (unat (len_u32 ?n - 1))
        \<lparr>c_in = t @ z, c_closes = False, c_out = pierce_bytes tok, c_write_ok = True\<rparr> =
      (Ok (t @ z),
       \<lparr>c_in = [], c_closes = False, c_out = pierce_bytes tok, c_write_ok = True\<rparr>)"
      by (rule sread_all) (simp add: r(4) t(2))
    ultimately show ?thesis
      using True r retry_silent [of inflate 9 "pierce_bytes tok" True]
      unfolding fr by (simp add: connect_to_peer_for_results_def wire_rt del: retry_results.simps)
  next
    case False
    then have "100 < len_u32 ?n" "len_u32 ?n < 10000000"
      using u assms(3) by (simp_all add: word_less_nat_alt)
    then show ?thesis
      using False u4
      by (simp add: connect_to_peer_for_results_def fr wire_rt sread_all)
  qed
qed

lemma short_response_lost_witness:
  "fst (connect_to_peer_for_results (\<lambda>b. None) 3
      \<lparr>c_in = frame (put_u32_le 9 @ [1, 2, 3]), c_closes = False, c_out = [], c_write_ok = True\<rparr>) =
    Err TimedOut"
  using short_response_lost [of "[1, 2, 3]" "\<lambda>b. None" 3] by simp

section \<open>Transfer requests\<close>

lemma sread_body:
  assumes "length data < 2 ^ 32 - 4"
  shows "sread (unat (len_u32 (4 + length data) - 4))
      \<lparr>c_in = data @ i, c_closes = cl, c_out = out, c_write_ok = wo\<rparr> =
    (Ok data, \<lparr>c_in = i, c_closes = cl, c_out = out, c_write_ok = wo\<rparr>)"
proof (rule sread_run)
  have u: "unat (len_u32 (4 + length data)) = 4 + length data" using assms by simp
  then have "4 \<le> len_u32 (4 + length data)" by (simp add: word_le_nat_alt)
  then show "length data = unat (len_u32 (4 + length data) - 4)" using u by (simp add: unat_sub)
qed

text \<open>A peer's offer to upload is accepted whatever file it names: the file the download asked for
  is never compared with the file of the transfer request. Messages of other kinds that arrive
  before it are skipped.\<close>

lemma offer_of_any_file_accepted:
  assumes "fits_u32 offered" and "length (encode_string offered) < 2 ^ 31"
    and "length other < 2 ^ 32 - 4" and "code \<notin> {40, 44, 46, 50}"
  shows "wait_for_transfer_request (Suc (Suc n)) wanted
      \<lparr>c_in = frame (put_u32_le code @ other)
          @ frame (put_u32_le 40 @ put_u32_le 1 @ put_u32_le tok @ encode_string offered @ put_u64_le len) @ i,
       c_closes = cl, c_out = [], c_write_ok = True\<rparr> =
    (Ok (Allowed len tok),
     \<lparr>c_in = i, c_closes = cl, c_out = frame (put_u32_le 41 @ put_u32_le tok @ put_u8 1),
      c_write_ok = True\<rparr>)"
proof -
  let ?req = "put_u32_le 1 @ put_u32_le tok @ encode_string offered @ put_u64_le len"
  have fr: "frame (put_u32_le c @ d) @ r = put_u32_le (len_u32 (4 + length d)) @ put_u32_le c @ d @ r"
    for c d r by (simp add: frame_def)
  have "length ?req < 2 ^ 32 - 4" using assms(2) by simp
  note req = sread_body [OF this]
  have "decode_transfer_request ?req = (Ok (1, tok, offered, len), [])"
    using assms(1) get_u64_put [of len "[]"]
    by (simp add: decode_transfer_request_def wire_rt)
  moreover have "len_u32 9 = 9" by (simp add: len_u32_def)
  moreover have "wait_for_transfer_request (Suc m) wanted
      \<lparr>c_in = frame (put_u32_le 40 @ ?req) @ i, c_closes = cl, c_out = [], c_write_ok = True\<rparr> =
    (Ok (Allowed len tok),
     \<lparr>c_in = i, c_closes = cl, c_out = frame (put_u32_le 41 @ put_u32_le tok @ put_u8 1),
      c_write_ok = True\<rparr>)" for m
    using req [of i cl "[]" True] calculation
    unfolding fr by (simp add: wire_rt on_data_def del: append_assoc) (simp add: frame_def)
  ultimately show ?thesis
    using sread_body [OF assms(3)] assms(4)
    unfolding fr [of code other] wait_for_transfer_request.simps(2) [of "Suc n"]
    by (simp add: wire_rt del: wait_for_transfer_request.simps)
qed

lemma offer_of_any_file_accepted_witness:
  "wait_for_transfer_request 2 (str ''wanted.mp3'')
      \<lparr>c_in = frame (put_u32_le 64 @ [])
          @ frame (put_u32_le 40 @ put_u32_le 1 @ put_u32_le 8 @ encode_string (str ''other.exe'') @ put_u64_le 5) @ [],
       c_closes = False, c_out = [], c_write_ok = True\<rparr> =
    (Ok (Allowed 5 8),
     \<lparr>c_in = [], c_closes = False, c_out = frame (put_u32_le 41 @ put_u32_le 8 @ put_u8 1),
      c_write_ok = True\<rparr>)"
proof -
  have "fits_u32 (str ''other.exe'')" "length (encode_string (str ''other.exe'')) < 2 ^ 31"
    by (simp_all add: fits_u32_def wire_len str_def is_scalar_def utf8_char_def)
  from offer_of_any_file_accepted [OF this, of "[]" 64 0 "str ''wanted.mp3''" 8 5 "[]" False]
  show ?thesis by (simp add: numeral_2_eq_2 [symmetric] del: wait_for_transfer_request.simps)
qed

section \<open>Moving a file\<close>

text \<open>While the file is not complete, the receiving loop only accumulates.\<close>

lemma receive_prefix:
  assumes "[] \<notin> set chunks" and "t0 + length (concat chunks) < unat filesize"
  shows "\<exists>pr. receive_loop filesize (word_of_nat t0) f0 p0 (map Data chunks @ evs) =
     receive_loop filesize (word_of_nat (t0 + length (concat chunks))) (f0 @ concat chunks) pr evs"
  using assms
proof (induction chunks arbitrary: t0 f0 p0)
  case (Cons bs chunks)
  let ?t = "t0 + length bs"
  have bs: "bs \<noteq> []" using Cons.prems(1) by auto
  have "?t < unat filesize" using Cons.prems(2) by simp
  moreover from this have "unat (word_of_nat ?t :: u64) = ?t"
    using unsigned_less [of filesize, where 'a = nat] by (intro unat_word_of_nat) simp
  ultimately have lt: "\<not> filesize \<le> word_of_nat t0 + word_of_nat (length bs)"
    by (simp add: word_le_nat_alt)
  from Cons.prems have "[] \<notin> set chunks" "?t + length (concat chunks) < unat filesize" by auto
  note IH = Cons.IH [OF this, of "f0 @ bs"]
  from IH [of p0] IH [of "p0 @ [word_of_nat t0 + word_of_nat (length bs)]"] lt bs show ?case
    by (simp add: Let_def add.assoc)
qed auto

lemma receive_complete:
  assumes "[] \<notin> set chunks" and "length (concat chunks) = unat filesize" and "filesize \<noteq> 0"
  shows "\<exists>pr. receive_loop filesize 0 [] [] (map Data chunks @ evs) = (filesize, concat chunks, pr)"
proof -
  have "chunks \<noteq> []" using assms(2,3) by (auto simp: unat_eq_zero)
  then obtain init lst where ch: "chunks = init @ [lst]" by (metis rev_exhaust)
  with assms have l: "lst \<noteq> []" "[] \<notin> set init" and
    n: "length (concat init) + length lst = unat filesize" by auto
  then have "0 + length (concat init) < unat filesize" by (cases lst) auto
  from receive_prefix [OF l(2) this, of "[]" "[]" "Data lst # evs"] obtain pr where
    "receive_loop filesize 0 [] [] (map Data chunks @ evs) =
      receive_loop filesize (word_of_nat (length (concat init))) (concat init) pr (Data lst # evs)"
    by (auto simp: ch)
  moreover have "word_of_nat (length (concat init)) + word_of_nat (length lst) = filesize"
    using arg_cong [OF n, of "word_of_nat :: nat \<Rightarrow> u64"] by simp
  ultimately show ?thesis using l by (simp add: Let_def ch)
qed

text \<open>Enough successful rounds send the rest of the file.\<close>

lemma send_rounds:
  assumes "sent + length rest < 2 ^ 64" and "file_size = word_of_nat (sent + length rest)"
    and "length rest \<le> length ks"
  shows "send_loop file_size rest (word_of_nat sent) out (map Chunk ks) = (file_size, out @ rest)"
  using assms
proof (induction ks arbitrary: sent rest out)
  case (Cons k ks)
  show ?case
  proof (cases "rest = []")
    case False
    define n where "n = chunk_len k rest"
    have n: "0 < n" "n \<le> length rest" using False by (auto simp: n_def chunk_len_def)
    have "unat (word_of_nat (sent + n) :: u64) = sent + n"
      using Cons.prems(1) n by (intro unat_word_of_nat) simp
    moreover have "unat file_size = sent + length rest"
      unfolding Cons.prems(2) using Cons.prems(1) by (intro unat_word_of_nat) simp
    ultimately have u: "unat (word_of_nat (sent + n) :: u64) = sent + n"
      "unat file_size = sent + length rest" .
    have w: "word_of_nat sent + word_of_nat n = (word_of_nat (sent + n) :: u64)" by simp
    show ?thesis
    proof (cases "n = length rest")
      case True
      then show ?thesis using False Cons.prems(2)
        by (simp add: n_def [symmetric] Let_def)
    next
      case less: False
      then have "\<not> file_size \<le> word_of_nat (sent + n)" using u n by (simp add: word_le_nat_alt)
      moreover have "send_loop file_size (drop n rest) (word_of_nat (sent + n)) (out @ take n rest)
          (map Chunk ks) = (file_size, (out @ take n rest) @ drop n rest)"
        using Cons.prems n by (intro Cons.IH) auto
      ultimately show ?thesis
        using False by (simp add: n_def [symmetric] Let_def w del: of_nat_add)
    qed
  qed (use Cons.prems in simp)
qed simp

text \<open>The read that completes the file: everything before it is less than the file.\<close>

lemma reads_split:
  assumes "prefix content (concat chunks)" and "chunks \<noteq> []"
  shows "\<exists>earlier bs rest. chunks = earlier @ bs # rest \<and> length content \<le> length (concat earlier @ bs)
    \<and> (earlier = [] \<or> length (concat earlier) < length content)"
proof -
  let ?reached = "\<lambda>k. length content \<le> length (concat (take (Suc k) chunks))"
  have "?reached (length chunks)" using prefix_length_le [OF assms(1)] by simp
  then obtain k where k: "?reached k" "\<And>m. m < k \<Longrightarrow> \<not> ?reached m" by (rule exists_least_iff [THEN iffD1, THEN exE, OF exI]) auto
  show ?thesis
  proof (cases "k < length chunks")
    case True
    then have "chunks = take k chunks @ chunks ! k # drop (Suc k) chunks" by (simp add: id_take_nth_drop)
    moreover have "length content \<le> length (concat (take k chunks) @ chunks ! k)"
      using k(1) True by (simp add: take_Suc_conv_app_nth)
    moreover have "take k chunks = [] \<or> length (concat (take k chunks)) < length content"
      using k(2) [of "k - 1"] by (cases k) auto
    ultimately show ?thesis by blast
  next
    case False
    then have "\<not> ?reached (length chunks - 1)" using k(2) [of "length chunks - 1"] assms(2) by (cases chunks) auto
    then show ?thesis using prefix_length_le [OF assms(1)] assms(2) by (cases chunks) auto
  qed
qed

lemma receive_reads:
  assumes "[] \<notin> set (earlier @ [bs])" and "length content \<le> length (concat earlier @ bs)"
    and "earlier = [] \<or> length (concat earlier) < length content" and "length (concat earlier @ bs) < 2 ^ 64"
  shows "\<exists>pr. receive_loop (word_of_nat (length content)) 0 [] [] (map Data earlier @ Data bs # evs)
    = (word_of_nat (length (concat earlier @ bs)), concat earlier @ bs, pr)"
proof -
  let ?n = "word_of_nat (length content) :: u64"
  have w: "unat (word_of_nat n :: u64) = n" if "n < 2 ^ 64" for n
    using that by (intro unat_word_of_nat) simp
  have u: "unat ?n = length content" "unat (word_of_nat (length (concat earlier @ bs)) :: u64) = length (concat earlier @ bs)"
    using assms(2) by (intro w le_less_trans [OF _ assms(4)]; simp)+
  have le: "?n \<le> word_of_nat (length (concat earlier)) + word_of_nat (length bs)"
    using u assms(2) by (simp add: word_le_nat_alt flip: of_nat_add)
  have "\<exists>pr. receive_loop ?n 0 [] [] (map Data earlier @ Data bs # evs)
      = receive_loop ?n (word_of_nat (length (concat earlier))) (concat earlier) pr (Data bs # evs)"
  proof (cases "earlier = []")
    case False
    with assms(3) u(1) have "0 + length (concat earlier) < unat ?n" by simp
    from receive_prefix [OF _ this, of "[]" "[]" "Data bs # evs"] assms(1) show ?thesis by simp
  qed auto
  with le assms(1) show ?thesis by (auto simp: Let_def)
qed

text \<open>C8: a transfer end to end. The uploader, asked for offset 0 (which is what the downloader always writes),
  sends exactly the file and counts its size, however its reads are cut, also for an empty file. The downloader of
  a stream that starts with the file, cut into any non-empty reads, writes the reads up to the first that completes
  the file, and counts them: the file, and after it only what that one read brought with it. So it writes exactly
  the file when nothing else is on the stream - except that of a stream that goes on after an empty file it
  writes the first read. (For less than two to the 64 bytes for which the disk has room.)\<close>

theorem transfer_faithful:
  assumes "filesize = word_of_nat (length content)" and "length content \<le> length ks"
    and "prefix content (concat chunks)" and "[] \<notin> set chunks" and "chunks \<noteq> []"
    and "length (concat chunks) < 2 ^ 64" and "length (concat chunks) \<le> room"
  shows "c_out (snd (receive_file_data disk filesize evs
        \<lparr>c_in = [], c_closes = cl, c_out = [], c_write_ok = True\<rparr>)) = put_u64_le 0
    \<and> fst (send_file_data (Some content) filesize (map Chunk ks)
        \<lparr>c_in = put_u64_le 0 @ i, c_closes = cl, c_out = [], c_write_ok = True\<rparr>) = Ok (filesize, content)
    \<and> (\<exists>earlier bs rest surplus prog. chunks = earlier @ bs # rest
        \<and> (earlier = [] \<or> length (concat earlier) < length content)
        \<and> concat earlier @ bs = content @ surplus \<and> (concat chunks = content \<longrightarrow> surplus = [])
        \<and> fst (receive_file_data (Some room) filesize (map Data chunks @ evs)
            \<lparr>c_in = [], c_closes = cl, c_out = [], c_write_ok = True\<rparr>)
          = Ok (word_of_nat (length (content @ surplus)), content @ surplus, prog))"
proof -
  obtain earlier bs rest where ch: "chunks = earlier @ bs # rest" "length content \<le> length (concat earlier @ bs)"
    "earlier = [] \<or> length (concat earlier) < length content"
    using reads_split [OF assms(3,5)] by blast
  with assms(3) have "prefix content (concat earlier @ bs)"
    using prefix_length_prefix [of content "concat chunks" "concat earlier @ bs"] by simp
  then obtain surplus where got: "concat earlier @ bs = content @ surplus" by (auto elim: prefixE)
  from ch(1) got have all: "concat chunks = content @ surplus @ concat rest"
    by (metis append.assoc concat.simps(2) concat_append)
  obtain pr where "receive_loop filesize 0 [] [] (map Data earlier @ Data bs # map Data rest @ evs)
      = (word_of_nat (length (concat earlier @ bs)), concat earlier @ bs, pr)"
    using receive_reads [of earlier bs content] ch assms(1,4,6) by auto
  moreover have "length (content @ surplus) \<le> room" using all assms(7) by simp
  ultimately have "fst (receive_file_data (Some room) filesize (map Data chunks @ evs)
      \<lparr>c_in = [], c_closes = cl, c_out = [], c_write_ok = True\<rparr>)
    = Ok (word_of_nat (length (content @ surplus)), content @ surplus, pr)"
    unfolding got ch(1) by (simp add: receive_file_data_def)
  moreover have "concat chunks = content \<longrightarrow> surplus = []" using all by simp
  moreover have "send_loop filesize content 0 [] (map Chunk ks) = (filesize, content)"
    using send_rounds [of 0 content filesize ks "[]"] assms(1,2,6) all by simp
  moreover have "c_out (snd (receive_file_data disk filesize evs
        \<lparr>c_in = [], c_closes = cl, c_out = [], c_write_ok = True\<rparr>)) = put_u64_le 0"
    by (simp add: receive_file_data_def split: option.splits prod.splits)
  ultimately show ?thesis
    using ch(1,3) got by (simp add: send_file_data_def wire_rt) blast
qed

theorem transfer_faithful_witness:
  "fst (send_file_data (Some [1, 2, 3]) 3 (map Chunk [2, 1, 9])
     \<lparr>c_in = put_u64_le 0 @ [], c_closes = True, c_out = [], c_write_ok = True\<rparr>) = Ok (3, [1, 2, 3])
   \<and> (\<exists>prog. fst (receive_file_data (Some 9) 3 (map Data [[1], [2, 3]] @ [])
     \<lparr>c_in = [], c_closes = True, c_out = [], c_write_ok = True\<rparr>) = Ok (3, [1, 2, 3], prog))"
  using transfer_faithful [of 3 "[1, 2, 3]" "[2, 1, 9]" "[[1], [2, 3]]" 9 "Some 3" "[]" True "[]"] by auto

text \<open>A download that stops early is not an error: when the peer closes the connection, the read
  fails, or nothing arrives for 30 seconds before the announced size, the function returns
  successfully with the bytes received so far and leaves the truncated file.\<close>

lemma truncated_download_is_ok:
  assumes "[] \<notin> set chunks" and "length (concat chunks) < unat filesize"
    and "ev \<in> {Closed, Read_Error, Read_Timeout}" and "length (concat chunks) \<le> room"
  shows "\<exists>prog. fst (receive_file_data (Some room) filesize (map Data chunks @ ev # evs)
        \<lparr>c_in = [], c_closes = cl, c_out = [], c_write_ok = True\<rparr>) =
     Ok (word_of_nat (length (concat chunks)), concat chunks, prog)"
proof -
  from assms(2) have "0 + length (concat chunks) < unat filesize" by simp
  from receive_prefix [OF assms(1) this, of "[]" "[]" "ev # evs"] assms(3,4) show ?thesis
    by (auto simp: receive_file_data_def)
qed

lemma truncated_download_is_ok_witness:
  "\<exists>prog. fst (receive_file_data (Some 2) 100 (map Data [[1, 2]] @ Closed # [])
        \<lparr>c_in = [], c_closes = True, c_out = [], c_write_ok = True\<rparr>) =
     Ok (word_of_nat (length (concat [[1, 2 :: u8]])), concat [[1, 2]], prog)"
  by (rule truncated_download_is_ok) simp_all

end
