(* ===== verification/Router.thy ===== *)
theory Router
  imports Peer_Protocol
begin

text \<open>
  \<open>src/src/protocol/router.rs\<close>: the one connection to the server, shared by all tasks. The reader task
  is a function on the bytes received so far; what it hands to other tasks (connection requests,
  answers to address requests, chat messages) is kept in lists of the router's state. A panic ends the
  task. Waiters are numbered by the caller.
\<close>

section \<open>Messages of the server\<close>

record connect_to_peer_msg =
  cm_username :: rstring
  cm_conn_type :: rstring
  cm_ip :: rstring
  cm_port :: u32
  cm_token :: u32

record peer_address_response =
  pa_username :: rstring
  pa_ip :: rstring
  pa_port :: u32

record chat_message =
  ch_message_id :: "u32 option"
  ch_timestamp :: u32
  ch_username :: rstring
  ch_message :: rstring
  ch_incoming :: bool
  ch_is_new :: bool

text \<open>\<open>format!("{}.{}.{}.{}", b[3], b[2], b[1], b[0])\<close>\<close>

definition show_ip :: "u8 \<Rightarrow> u8 \<Rightarrow> u8 \<Rightarrow> u8 \<Rightarrow> rstring" where
  "show_ip b0 b1 b2 b3 =
     join_str (str ''.'') (map (\<lambda>b. show_nat (unat b)) [b3, b2, b1, b0])"

definition get_ip :: "rstring reader" where
  "get_ip = rbind get_u8 (\<lambda>b0. rbind get_u8 (\<lambda>b1. rbind get_u8 (\<lambda>b2. rbind get_u8 (\<lambda>b3.
     rret (show_ip b0 b1 b2 b3)))))"

definition parse_connect_to_peer :: "connect_to_peer_msg reader" where
  "parse_connect_to_peer =
     rbind decode_string (\<lambda>username. rbind decode_string (\<lambda>conn_type. rbind get_ip (\<lambda>ip.
     rbind get_u32_le (\<lambda>port. rbind get_u32_le (\<lambda>tok.
     rret \<lparr>cm_username = username, cm_conn_type = conn_type, cm_ip = ip, cm_port = port, cm_token = tok\<rparr>)))))"

definition parse_peer_address :: "peer_address_response reader" where
  "parse_peer_address =
     rbind decode_string (\<lambda>username. rbind remaining (\<lambda>n.
     if n < 8 then rfail InvalidPeerAddress
     else rbind get_ip (\<lambda>ip. rbind get_u32_le (\<lambda>port.
       rret \<lparr>pa_username = username, pa_ip = ip, pa_port = port\<rparr>))))"

definition parse_chat_message :: "chat_message reader" where
  "parse_chat_message =
     rbind remaining (\<lambda>n.
     if n < 8 then rfail ChatTooShort
     else
       rbind get_u32_le (\<lambda>message_id. rbind get_u32_le (\<lambda>timestamp.
       rbind decode_string (\<lambda>username. rbind decode_string (\<lambda>message.
       rbind remaining (\<lambda>r. rbind (if 1 \<le> r then rbind get_u8 (\<lambda>b. rret (b \<noteq> 0)) else rret True) (\<lambda>is_new.
       rret \<lparr>ch_message_id = Some message_id, ch_timestamp = timestamp, ch_username = username,
             ch_message = message, ch_incoming = True, ch_is_new = is_new\<rparr>)))))))"

section \<open>State\<close>

record router =
  rt_out :: bytes
  rt_write_ok :: bool
  peer_address_subs :: "rstring \<Rightarrow> nat list option"
  rt_answers :: "(nat \<times> peer_address_response) list"
  rt_p_requests :: "connect_to_peer_msg list"
  rt_f_requests :: "(rstring \<times> connect_to_peer_msg) list"
  chat_history :: "chat_message list"
  rt_broadcasts :: "chat_message list"

definition router_new :: router where
  "router_new = \<lparr>rt_out = [], rt_write_ok = True, peer_address_subs = (\<lambda>_. None), rt_answers = [],
     rt_p_requests = [], rt_f_requests = [], chat_history = [], rt_broadcasts = []\<rparr>"

definition server_frame :: "u32 \<Rightarrow> bytes \<Rightarrow> bytes" where
  "server_frame code data = put_u32_le (len_u32 (4 + length data)) @ put_u32_le code @ data"

text \<open>The writer: a failed write is an error for the caller; the reader task ignores it.\<close>

definition send_to_server :: "u32 \<Rightarrow> bytes \<Rightarrow> router \<Rightarrow> bool \<times> router" where
  "send_to_server code data r =
     (if rt_write_ok r then (True, r\<lparr>rt_out := rt_out r @ server_frame code data\<rparr>) else (False, r))"

text \<open>The history keeps the last 500 messages.\<close>

definition push_history :: "chat_message \<Rightarrow> chat_message list \<Rightarrow> chat_message list" where
  "push_history m h = (let h = h @ [m] in if 500 < length h then drop (length h - 500) h else h)"

definition store_chat :: "chat_message \<Rightarrow> router \<Rightarrow> router" where
  "store_chat m r = r\<lparr>chat_history := push_history m (chat_history r), rt_broadcasts := rt_broadcasts r @ [m]\<rparr>"

definition request_peer_address :: "unicode \<Rightarrow> rstring \<Rightarrow> nat \<Rightarrow> router \<Rightarrow> bool \<times> router" where
  "request_peer_address u username waiter r =
     (let key = lowercase u username;
          waiters = (case peer_address_subs r key of Some ws \<Rightarrow> ws | None \<Rightarrow> [])
      in send_to_server 3 (encode_string username)
           (r\<lparr>peer_address_subs := (peer_address_subs r)(key \<mapsto> waiters @ [waiter])\<rparr>))"

definition report_cant_connect :: "u32 \<Rightarrow> rstring \<Rightarrow> router \<Rightarrow> bool \<times> router" where
  "report_cant_connect tok username r = send_to_server 1001 (put_u32_le tok @ encode_string username) r"

definition send_private_message :: "u32 \<Rightarrow> rstring \<Rightarrow> rstring \<Rightarrow> router \<Rightarrow> bool \<times> router" where
  "send_private_message now username message r =
     (case send_to_server 22 (encode_string username @ encode_string message) r of
        (False, r) \<Rightarrow> (False, r)
      | (True, r) \<Rightarrow>
          (True, store_chat \<lparr>ch_message_id = None, ch_timestamp = now, ch_username = username,
                   ch_message = message, ch_incoming = False, ch_is_new = True\<rparr> r))"

section \<open>The reader task\<close>

definition loopback :: "rstring option \<Rightarrow> rstring \<Rightarrow> rstring" where
  "loopback external_ip ip =
     (case external_ip of Some ext \<Rightarrow> if ip = ext then str ''127.0.0.1'' else ip | None \<Rightarrow> ip)"

definition on_connect_to_peer :: "rstring option \<Rightarrow> bytes \<Rightarrow> router \<Rightarrow> router option" where
  "on_connect_to_peer external_ip data r =
     (case fst (parse_connect_to_peer data) of
        Ok msg \<Rightarrow>
          Some (if cm_conn_type msg = str ''P'' then r\<lparr>rt_p_requests := rt_p_requests r @ [msg]\<rparr>
                else if cm_conn_type msg = str ''F'' then
                  r\<lparr>rt_f_requests := rt_f_requests r @ [(loopback external_ip (cm_ip msg), msg)]\<rparr>
                else r)
      | Err e \<Rightarrow> Some r
      | Panic \<Rightarrow> None)"

definition on_peer_address :: "unicode \<Rightarrow> bytes \<Rightarrow> router \<Rightarrow> router option" where
  "on_peer_address u data r =
     (case fst (parse_peer_address data) of
        Ok response \<Rightarrow>
          (let key = lowercase u (pa_username response) in
           Some (case peer_address_subs r key of
                   None \<Rightarrow> r
                 | Some waiters \<Rightarrow>
                     r\<lparr>peer_address_subs := (peer_address_subs r)(key := None),
                       rt_answers := rt_answers r @ map (\<lambda>w. (w, response)) waiters\<rparr>))
      | Err e \<Rightarrow> Some r
      | Panic \<Rightarrow> None)"

definition on_chat_message :: "bytes \<Rightarrow> router \<Rightarrow> router option" where
  "on_chat_message data r =
     (case fst (parse_chat_message data) of
        Ok msg \<Rightarrow>
          (let r = (case ch_message_id msg of
                      Some i \<Rightarrow> snd (send_to_server 23 (put_u32_le i) r)
                    | None \<Rightarrow> r)
           in Some (store_chat msg r))
      | Err e \<Rightarrow> Some r
      | Panic \<Rightarrow> None)"

definition dispatch_server :: "unicode \<Rightarrow> rstring option \<Rightarrow> u32 \<Rightarrow> bytes \<Rightarrow> router \<Rightarrow> router option" where
  "dispatch_server u external_ip code data r =
     (if code = 18 then on_connect_to_peer external_ip data r
      else if code = 3 then on_peer_address u data r
      else if code = 22 then on_chat_message data r
      else Some r)"

text \<open>The reader on the bytes received so far: the bytes it has not used yet, or nothing after a panic.\<close>

function router_read :: "unicode \<Rightarrow> rstring option \<Rightarrow> bytes \<Rightarrow> router \<Rightarrow> bytes option \<times> router" where
  "router_read u ext bs r =
     (if length bs < 4 then (Some bs, r)
      else
        (let msg_len = unat (from_le (take 4 bs) :: u32); rest = drop 4 bs in
         if msg_len < 4 then router_read u ext rest r
         else if length rest < msg_len then (Some bs, r)
         else
           (case dispatch_server u ext (from_le (take 4 rest)) (take (msg_len - 4) (drop 4 rest)) r of
              None \<Rightarrow> (None, r)
            | Some r' \<Rightarrow> router_read u ext (drop msg_len rest) r')))"
  by pat_completeness auto
termination by (relation "measure (\<lambda>(u, ext, bs, r). length bs)") auto

declare router_read.simps [simp del]

section \<open>Running the reader\<close>

text \<open>One round of the reader, by what it finds in the buffer.\<close>

lemma router_read_short [simp]: "length bs < 4 \<Longrightarrow> router_read u ext bs r = (Some bs, r)"
  by (simp add: router_read.simps)

lemma from_le_put_append [simp]: "from_le (take 4 (put_u32_le w @ bs)) = (w :: u32)"
  using get_u32_put [of w bs] by (simp add: get_u32_ok)

lemma router_read_frame:
  assumes "length data < 4294967292"
  shows "router_read u ext (server_frame code data @ bs) r =
    (case dispatch_server u ext code data r of
       None \<Rightarrow> (None, r) | Some r' \<Rightarrow> router_read u ext bs r')"
proof -
  have n: "unat (len_u32 (4 + length data)) = 4 + length data"
    using assms by simp
  have f: "server_frame code data @ bs = put_u32_le (len_u32 (4 + length data)) @ put_u32_le code @ data @ bs"
    by (simp add: server_frame_def)
  show ?thesis
    unfolding f
    by (subst router_read.simps) (simp add: Let_def n cong: option.case_cong del: unat_len_u32)
qed

text \<open>What the reader has not used can be read later, with more bytes after it: how the stream is cut
  into reads makes no difference.\<close>

lemma router_read_append:
  "router_read u ext (as @ bs) r =
     (case router_read u ext as r of
        (None, r') \<Rightarrow> (None, r')
      | (Some rest, r') \<Rightarrow> router_read u ext (rest @ bs) r')"
proof (induction u ext as r rule: router_read.induct)
  case (1 u ext as r)
  consider (short) "length as < 4"
    | (bad) "\<not> length as < 4" "unat (from_le (take 4 as) :: u32) < 4"
    | (part) "\<not> length as < 4" "\<not> unat (from_le (take 4 as) :: u32) < 4"
        "length (drop 4 as) < unat (from_le (take 4 as) :: u32)"
    | (full) "\<not> length as < 4" "\<not> unat (from_le (take 4 as) :: u32) < 4"
        "\<not> length (drop 4 as) < unat (from_le (take 4 as) :: u32)"
    by blast
  then show ?case
  proof cases
    case short then show ?thesis by simp
  next
    case bad
    then have "router_read u ext (drop 4 as @ bs) r =
        (case router_read u ext (drop 4 as) r of
          (None, r') \<Rightarrow> (None, r') | (Some rest, r') \<Rightarrow> router_read u ext (rest @ bs) r')"
      by (intro "1.IH"(1)) (simp_all add: Let_def)
    moreover have "router_read u ext as r = router_read u ext (drop 4 as) r"
      using bad by (subst router_read.simps) (simp add: Let_def)
    moreover have "router_read u ext (as @ bs) r = router_read u ext (drop 4 as @ bs) r"
      using bad by (subst router_read.simps) (simp add: Let_def)
    ultimately show ?thesis by simp
  next
    case part
    then have "router_read u ext as r = (Some as, r)"
      by (subst router_read.simps) (simp add: Let_def)
    then show ?thesis by simp
  next
    case full
    define n where "n = unat (from_le (take 4 as) :: u32)"
    define code where "code = (from_le (take 4 (drop 4 as)) :: u32)"
    define data where "data = take (n - 4) (drop 8 as)"
    have n: "4 \<le> n" "n \<le> length as - 4" "4 \<le> length as"
      using full by (auto simp: n_def)
    have a: "router_read u ext as r = (case dispatch_server u ext code data r of
        None \<Rightarrow> (None, r) | Some r' \<Rightarrow> router_read u ext (drop n (drop 4 as)) r')"
      using full by (subst router_read.simps) (simp add: Let_def n_def code_def data_def cong: option.case_cong)
    have b: "router_read u ext (as @ bs) r = (case dispatch_server u ext code data r of
        None \<Rightarrow> (None, r) | Some r' \<Rightarrow> router_read u ext (drop n (drop 4 as) @ bs) r')"
      using full n
      by (subst router_read.simps) (auto simp: Let_def n_def code_def data_def cong: option.case_cong)
    show ?thesis
    proof (cases "dispatch_server u ext code data r")
      case None then show ?thesis by (simp add: a b)
    next
      case (Some r')
      have "router_read u ext (drop n (drop 4 as) @ bs) r' =
        (case router_read u ext (drop n (drop 4 as)) r' of
          (None, r') \<Rightarrow> (None, r') | (Some rest, r') \<Rightarrow> router_read u ext (rest @ bs) r')"
        using full Some unfolding n_def
        by (intro "1.IH"(2)) (simp_all add: Let_def n_def code_def data_def)
      with Some show ?thesis by (simp add: a b)
    qed
  qed
qed

text \<open>The messages of the server one after the other: \<open>None\<close> as soon as one of them panics.\<close>

fun dispatch_all ::
  "unicode \<Rightarrow> rstring option \<Rightarrow> (u32 \<times> bytes) list \<Rightarrow> router \<Rightarrow> bool \<times> router" where
  "dispatch_all u ext [] r = (True, r)"
| "dispatch_all u ext ((code, data) # ms) r =
     (case dispatch_server u ext code data r of
        None \<Rightarrow> (False, r)
      | Some r' \<Rightarrow> dispatch_all u ext ms r')"

definition sent_frames :: "(u32 \<times> bytes) list \<Rightarrow> bytes" where
  "sent_frames ms = concat (map (\<lambda>(code, data). server_frame code data) ms)"

lemma router_read_sent:
  "list_all (\<lambda>(code, data). length data < 4294967292) ms \<Longrightarrow>
   router_read u ext (sent_frames ms @ bs) r =
     (case dispatch_all u ext ms r of
        (False, r') \<Rightarrow> (None, r')
      | (True, r') \<Rightarrow> router_read u ext bs r')"
  by (induction ms arbitrary: r)
    (auto simp: sent_frames_def router_read_frame split: option.splits)

lemma router_read_partial:
  assumes "part @ missing = server_frame code data" and "missing \<noteq> []"
    and "length data < 4294967292"
  shows "router_read u ext part r = (Some part, r)"
proof (cases "length part < 4")
  case False
  have "take 4 part = put_u32_le (len_u32 (4 + length data))"
    using arg_cong [OF assms(1), of "take 4"] False by (simp add: server_frame_def)
  then have n: "unat (from_le (take 4 part) :: u32) = 4 + length data"
    using assms(3) by simp
  have "length part + length missing = 8 + length data"
    using arg_cong [OF assms(1), of length] by (simp add: server_frame_def)
  moreover have "0 < length missing" using assms(2) by simp
  ultimately have "length part - 4 < 4 + length data" by arith
  then show ?thesis
    using False n by (subst router_read.simps) (simp add: Let_def)
qed simp

text \<open>C14: the reader handles exactly the messages the server sent, each once and in order, however the
  stream is cut: bytes read in two parts give the same result as read at once, a message of which only
  a part has arrived waits for the rest, and a message that panics ends the task with what the messages
  before it did.\<close>

theorem router_frames_in_order:
  assumes "list_all (\<lambda>(code, data). length data < 4294967292) ms"
    and "part @ missing = server_frame code data" and "missing \<noteq> []" and "length data < 4294967292"
  shows "router_read u ext (sent_frames ms @ part) r =
      (case dispatch_all u ext ms r of (True, r') \<Rightarrow> (Some part, r') | (False, r') \<Rightarrow> (None, r'))
    \<and> router_read u ext (as @ bs) r =
      (case router_read u ext as r of
        (None, r') \<Rightarrow> (None, r') | (Some left, r') \<Rightarrow> router_read u ext (left @ bs) r')"
  using router_read_append [of u ext as bs r]
  by (simp add: router_read_sent [OF assms(1)] router_read_partial [OF assms(2-4)] split: prod.splits
      bool.splits)

theorem router_frames_in_order_witness:
  "router_read ascii_tables None (sent_frames [(3, []), (64, [1])] @ [5, 0]) router_new =
     (case dispatch_all ascii_tables None [(3, []), (64, [1])] router_new of
        (True, r') \<Rightarrow> (Some [5, 0], r') | (False, r') \<Rightarrow> (None, r'))"
  using router_frames_in_order [of "[(3, []), (64, [1])]" "[5, 0]" "[0, 0, 7, 0, 0, 0, 9]" 7 "[9]"
      ascii_tables None router_new "[]" "[]"]
  by (simp add: server_frame_def put_u32_le_def len_u32_def)

section \<open>What can stop the reader\<close>

lemma get_u8_panic [simp]: "fst (get_u8 bs) = Panic \<longleftrightarrow> bs = []"
  by (cases bs) auto

lemma get_ip_ok: "4 \<le> length bs \<Longrightarrow>
   get_ip bs = (Ok (show_ip (bs ! 0) (bs ! 1) (bs ! 2) (bs ! 3)), drop 4 bs)"
  by (cases bs; cases "tl bs"; cases "tl (tl bs)"; cases "tl (tl (tl bs))") (auto simp: get_ip_def)

lemma get_ip_short: "length bs < 4 \<Longrightarrow> fst (get_ip bs) = Panic"
  by (cases bs; cases "tl bs"; cases "tl (tl bs)"; cases "tl (tl (tl bs))") (auto simp: get_ip_def)

lemma parse_peer_address_no_panic: "fst (parse_peer_address bs) \<noteq> Panic"
proof (cases "decode_string bs")
  case (Pair d bs')
  then have "d \<noteq> Panic" using decode_string_no_panic [of bs] by auto
  with Pair show ?thesis
    by (cases d) (auto simp: parse_peer_address_def get_ip_ok get_u32_ok)
qed

lemma parse_chat_message_no_panic: "fst (parse_chat_message bs) \<noteq> Panic"
proof (cases "length bs < 8")
  case False
  then have ok: "4 \<le> length bs" "4 \<le> length (drop 4 bs)" by auto
  show ?thesis
  proof (cases "decode_string (drop 8 bs)")
    case d1: (Pair d1 bs1)
    then have n1: "d1 \<noteq> Panic" using decode_string_no_panic [of "drop 8 bs"] by auto
    show ?thesis
    proof (cases "decode_string bs1")
      case (Pair d2 bs2)
      then have "d2 \<noteq> Panic" using decode_string_no_panic [of bs1] by auto
      with Pair d1 n1 ok False show ?thesis
        by (cases d1; cases d2; cases bs2) (auto simp: parse_chat_message_def get_u32_ok)
    qed
  qed
qed (simp add: parse_chat_message_def)

lemma parse_connect_panic:
  "fst (parse_connect_to_peer bs) = Panic \<longleftrightarrow>
    (\<exists>username bs1 conn_type bs2. decode_string bs = (Ok username, bs1)
       \<and> decode_string bs1 = (Ok conn_type, bs2) \<and> length bs2 < 12)"
proof (cases "decode_string bs")
  case d1: (Pair d1 bs1)
  then have n1: "d1 \<noteq> Panic" using decode_string_no_panic [of bs] by auto
  show ?thesis
  proof (cases "decode_string bs1")
    case d2: (Pair d2 bs2)
    then have n2: "d2 \<noteq> Panic" using decode_string_no_panic [of bs1] by auto
    consider "length bs2 < 4" | "4 \<le> length bs2" "length bs2 < 8" | "8 \<le> length bs2" "length bs2 < 12"
      | "12 \<le> length bs2" by linarith
    then have "fst (rbind get_ip (\<lambda>ip. rbind get_u32_le (\<lambda>port. rbind get_u32_le (\<lambda>tok.
        rret (f ip port tok)))) bs2) = Panic \<longleftrightarrow> length bs2 < 12" for f :: "rstring \<Rightarrow> u32 \<Rightarrow> u32 \<Rightarrow> connect_to_peer_msg"
    proof cases
      case 1
      then show ?thesis using get_ip_short [of bs2] by (cases "get_ip bs2") simp
    qed (simp_all add: get_ip_ok get_u32_ok get_u32_short)
    then show ?thesis
      using d1 d2 n1 n2 by (cases d1; cases d2) (simp_all add: parse_connect_to_peer_def)
  qed
qed

lemma dispatch_server_stops:
  "dispatch_server u ext code data r = None \<longleftrightarrow>
     code = 18 \<and> fst (parse_connect_to_peer data) = Panic"
  using parse_peer_address_no_panic [of data] parse_chat_message_no_panic [of data]
  by (auto simp: dispatch_server_def on_connect_to_peer_def on_peer_address_def on_chat_message_def Let_def
      split: outcome.splits)

text \<open>The reader task survives every message of the server except one kind: a request to connect
  (code 18) whose two strings are well formed and are followed by fewer than the twelve bytes of
  address, port and token. That one panics, and nothing the server sends afterwards is read.\<close>

lemma reader_stops_iff:
  "(dispatch_server u ext code data r = None \<longleftrightarrow>
      code = 18 \<and> (\<exists>username bs1 conn_type bs2. decode_string data = (Ok username, bs1)
         \<and> decode_string bs1 = (Ok conn_type, bs2) \<and> length bs2 < 12))
   \<and> (length data < 4294967292 \<longrightarrow> dispatch_server u ext code data r = None \<longrightarrow>
      router_read u ext (server_frame code data @ later) r = (None, r))"
proof -
  have "dispatch_server u ext code data r = None \<Longrightarrow> length data < 4294967292 \<Longrightarrow>
      router_read u ext (server_frame code data @ later) r = (None, r)"
    by (simp add: router_read_frame)
  with dispatch_server_stops [of u ext code data r] show ?thesis
    by (simp only: parse_connect_panic) blast
qed

lemma reader_stops_iff_witness:
  "router_read ascii_tables None (server_frame 18 (encode_string (str ''bob'') @ encode_string (str ''P''))
     @ server_frame 3 []) router_new = (None, router_new)"
proof -
  have "decode_string (encode_string (str ''bob'') @ encode_string (str ''P'')) =
      (Ok (str ''bob''), encode_string (str ''P''))"
    "decode_string (encode_string (str ''P'')) = (Ok (str ''P''), [])"
    using decode_encode_string [of "str ''P''" "[]"]
    by (simp_all add: wire_rt fits_u32_def str_def is_scalar_def utf8_char_def)
  then show ?thesis
    using reader_stops_iff [of ascii_tables None 18
        "encode_string (str ''bob'') @ encode_string (str ''P'')" router_new "server_frame 3 []"]
    by (simp add: wire_len str_def utf8_char_def)
qed

section \<open>Address requests\<close>

definition address_waiters :: "router \<Rightarrow> rstring \<Rightarrow> nat list" where
  "address_waiters r key = (case peer_address_subs r key of Some ws \<Rightarrow> ws | None \<Rightarrow> [])"

text \<open>The body of the server's answer.\<close>

definition address_body :: "rstring \<Rightarrow> u8 \<times> u8 \<times> u8 \<times> u8 \<Rightarrow> u32 \<Rightarrow> bytes" where
  "address_body username ip port =
     (case ip of (a, b, c, d) \<Rightarrow> encode_string username @ [d, c, b, a] @ put_u32_le port)"

lemma parse_address_body:
  "fits_u32 username \<Longrightarrow> fst (parse_peer_address (address_body username (a, b, c, d) port @ extra)) =
     Ok \<lparr>pa_username = username,
         pa_ip = join_str (str ''.'') (map (\<lambda>b. show_nat (unat b)) [a, b, c, d]), pa_port = port\<rparr>"
  by (simp add: parse_peer_address_def address_body_def wire_rt get_ip_ok show_ip_def)

text \<open>A request for a peer's address writes one message to the server, and the server's answer
  reaches every waiter for that name, in the order they asked, whatever the case of the letters in the
  request and the answer; each is answered once (the entry is gone afterwards), and the waiters for
  other names are left alone.\<close>

lemma address_request_answered:
  assumes "fits_u32 asked" and "fits_u32 name" and "lowercase u name = lowercase u asked"
    and "length (as_bytes name) < 4294967000" and "rt_write_ok r"
    and "r1 = snd (request_peer_address u asked w r)"
    and "r2 = snd (router_read u ext (server_frame 3 (address_body name (a, b, c, d) port)) r1)"
  shows "rt_out r2 = rt_out r @ server_frame 3 (encode_string asked)
    \<and> rt_answers r2 = rt_answers r
        @ map (\<lambda>w. (w, \<lparr>pa_username = name,
             pa_ip = join_str (str ''.'') (map (\<lambda>b. show_nat (unat b)) [a, b, c, d]), pa_port = port\<rparr>))
          (address_waiters r (lowercase u asked) @ [w])
    \<and> peer_address_subs r2 = (peer_address_subs r)(lowercase u asked := None)"
proof -
  have "length (address_body name (a, b, c, d) port) < 4294967292"
    using assms(4) by (simp add: address_body_def wire_len)
  then show ?thesis
    using router_read_frame [of "address_body name (a, b, c, d) port" u ext 3 "[]" r1]
      parse_address_body [OF assms(2), of a b c d port "[]"] assms(3,5)
    by (simp add: assms(6,7) request_peer_address_def send_to_server_def dispatch_server_def
        on_peer_address_def Let_def address_waiters_def)
qed

lemma address_request_answered_witness:
  "rt_answers (snd (router_read ascii_tables None
       (server_frame 3 (address_body (str ''BOB'') (10, 0, 0, 1) 2234))
       (snd (request_peer_address ascii_tables (str ''Bob'') 7 router_new)))) =
     [(7, \<lparr>pa_username = str ''BOB'', pa_ip = str ''10.0.0.1'', pa_port = 2234\<rparr>)]"
  using address_request_answered [of "str ''Bob''" "str ''BOB''" ascii_tables router_new
      "snd (request_peer_address ascii_tables (str ''Bob'') 7 router_new)" 7 _ None 10 0 0 1 2234, OF _ _ _ _ _ refl refl]
  by (simp add: fits_u32_def str_def is_scalar_def utf8_char_def ascii_tables_def ascii_lower_def
      router_new_def address_waiters_def show_nat.simps [of 0] show_nat.simps [of "Suc 0"] show_nat.simps [of 10])

section \<open>The chat history\<close>

text \<open>Everything that happens to the router: bytes from the server, and the calls of other tasks.\<close>

inductive router_step :: "unicode \<Rightarrow> rstring option \<Rightarrow> router \<Rightarrow> router \<Rightarrow> bool"
  for u :: unicode and ext :: "rstring option" where
  Server_Bytes: "router_step u ext r (snd (router_read u ext bs r))"
| Ask_Address: "router_step u ext r (snd (request_peer_address u name w r))"
| Cant_Connect: "router_step u ext r (snd (report_cant_connect tok name r))"
| Private_Message: "router_step u ext r (snd (send_private_message time name message r))"
| Raw_Message: "router_step u ext r (snd (send_to_server code data r))"
| Connection_Breaks: "router_step u ext r (r\<lparr>rt_write_ok := False\<rparr>)"

inductive router_reachable :: "unicode \<Rightarrow> rstring option \<Rightarrow> router \<Rightarrow> bool"
  for u :: unicode and ext :: "rstring option" where
  Fresh: "router_reachable u ext router_new"
| Later: "router_reachable u ext r \<Longrightarrow> router_step u ext r r' \<Longrightarrow> router_reachable u ext r'"

text \<open>An invariant of the router is kept by what a message of the server and a call do.\<close>

locale router_invariant =
  fixes I :: "router \<Rightarrow> bool"
  assumes fresh: "I router_new"
    and stored: "I r \<Longrightarrow> I (store_chat m r)"
    and written: "I r \<Longrightarrow> I (r\<lparr>rt_out := out\<rparr>)"
    and subscribed: "I r \<Longrightarrow> ws \<noteq> [] \<Longrightarrow> I (r\<lparr>peer_address_subs := (peer_address_subs r)(key \<mapsto> ws)\<rparr>)"
    and answered: "I r \<Longrightarrow> I (r\<lparr>peer_address_subs := (peer_address_subs r)(key := None), rt_answers := as\<rparr>)"
    and handed_p: "I r \<Longrightarrow> I (r\<lparr>rt_p_requests := ps\<rparr>)"
    and handed_f: "I r \<Longrightarrow> I (r\<lparr>rt_f_requests := fs\<rparr>)"
    and broken: "I r \<Longrightarrow> I (r\<lparr>rt_write_ok := False\<rparr>)"
begin

lemma sends: "I r \<Longrightarrow> I (snd (send_to_server code data r))"
  by (simp add: send_to_server_def written)

lemma dispatches: "I r \<Longrightarrow> dispatch_server u ext code data r = Some r' \<Longrightarrow> I r'"
  by (auto simp: dispatch_server_def on_connect_to_peer_def on_peer_address_def on_chat_message_def
      Let_def answered handed_p handed_f stored sends split: outcome.splits if_splits option.splits)

lemma reads: "I r \<Longrightarrow> I (snd (router_read u ext bs r))"
proof (induction u ext bs r rule: router_read.induct)
  case (1 u ext bs r)
  then show ?case
    by (subst router_read.simps) (auto simp: Let_def dispatches split: option.splits)
qed

lemma asks: "I r \<Longrightarrow> I (snd (request_peer_address u name w r))"
  by (simp add: request_peer_address_def Let_def sends subscribed)

lemma messages: "I r \<Longrightarrow> I (snd (send_private_message time name message r))"
  using sends [of r 22 "encode_string name @ encode_string message"]
  by (auto simp: send_private_message_def stored split: prod.splits bool.splits)

lemma reachable: "router_reachable u ext r \<Longrightarrow> I r"
proof (induction rule: router_reachable.induct)
  case (Later r r')
  from Later(2) show ?case
    by cases (simp_all add: Later reads asks messages sends broken report_cant_connect_def)
qed (rule fresh)

end

lemma push_history_last:
  "h = drop (length ms - 500) ms \<Longrightarrow> push_history m h = drop (length (ms @ [m]) - 500) (ms @ [m])"
proof (cases "500 \<le> length ms")
  case True
  then have "Suc (length ms - 500) = length ms - 499" by arith
  with True show "h = drop (length ms - 500) ms \<Longrightarrow>
      push_history m h = drop (length (ms @ [m]) - 500) (ms @ [m])"
    by (simp add: push_history_def Let_def)
qed (simp add: push_history_def Let_def)

interpretation history: router_invariant
  "\<lambda>r. chat_history r = drop (length (rt_broadcasts r) - 500) (rt_broadcasts r)"
proof unfold_locales
  fix r :: router and m
  assume "chat_history r = drop (length (rt_broadcasts r) - 500) (rt_broadcasts r)"
  from push_history_last [OF this, of m]
  show "chat_history (store_chat m r) =
      drop (length (rt_broadcasts (store_chat m r)) - 500) (rt_broadcasts (store_chat m r))"
    by (simp add: store_chat_def)
qed (simp_all add: router_new_def)

interpretation asked: router_invariant "\<lambda>r. []  \<notin> ran (peer_address_subs r)"
  by unfold_locales (auto simp: router_new_def store_chat_def ran_def split: if_splits)

text \<open>In every state of the router the chat history holds exactly the last 500 of the messages that
  were received or sent (all of them if there were fewer), in order - each of them was also given to
  the subscribers - and no name is registered without a waiter.\<close>

lemma chat_history_latest:
  assumes "router_reachable u ext r"
  shows "chat_history r = drop (length (rt_broadcasts r) - 500) (rt_broadcasts r)
    \<and> length (chat_history r) \<le> 500 \<and> [] \<notin> ran (peer_address_subs r)"
  using history.reachable [OF assms] asked.reachable [OF assms] by simp

lemma chat_history_latest_witness:
  "length (chat_history (snd (send_private_message 9 (str ''bob'') (str ''hi'') router_new))) \<le> 500"
proof -
  have "router_reachable ascii_tables None
      (snd (send_private_message 9 (str ''bob'') (str ''hi'') router_new))"
    by (rule router_reachable.Later [OF router_reachable.Fresh]) (rule router_step.Private_Message)
  from chat_history_latest [OF this] show ?thesis by simp
qed

end
