(* ===== verification/Upload.thy ===== *)
theory Upload
  imports Peer_Protocol Float64
begin

text \<open>
  \<open>src/src/services/upload.rs\<close>: the queue of uploads the peers asked for, the slots, the bandwidth
  throttle, the speed window, and the protocol of one upload. Instants are nanoseconds since the
  start; a spawned upload task is an element of \<open>up_running\<close> until it reports its result.
\<close>

section \<open>Data\<close>

record upload_config =
  max_upload_slots :: nat
  max_upload_speed_kbps :: u64
  sharing_enabled :: bool

definition upload_config_default :: upload_config where
  "upload_config_default =
     \<lparr>max_upload_slots = 3, max_upload_speed_kbps = 0, sharing_enabled = True\<rparr>"

record upload_entry =
  ue_id :: u64
  ue_username :: rstring
  ue_virtual_path :: rstring
  ue_real_path :: rstring
  ue_file_size :: u64
  ue_queued_at :: nat

record token_bucket =
  rate_bytes_per_sec :: u64
  tokens :: f64
  last_refill :: nat

record upload_stats =
  active_uploads :: u32
  queued_uploads :: nat
  total_uploaded :: u64
  avg_speed_bytes :: u64
  stats_config :: upload_config

datatype upload_error =
    Upload_IO peer_error | Reply_Too_Short | Denied_By_Peer rstring | File_Missing | No_Address
  | Connect_Failed

datatype upload_event =
    UploadStarted rstring rstring u64
  | UploadCompleted rstring rstring u64
  | UploadFailed rstring rstring upload_error

record upload_service =
  up_config :: upload_config
  up_queue :: "upload_entry list"
  active_count :: u32
  next_id :: u64
  has_client :: bool
  throttle :: token_bucket
  total_bytes_uploaded :: u64
  checking_queue :: bool
  samples :: "(nat \<times> u64) list"
  up_events :: "upload_event list"
  up_running :: "upload_entry list"

section \<open>The throttle\<close>

definition bucket_new :: "nat \<Rightarrow> u64 \<Rightarrow> token_bucket" where
  "bucket_new now rate_kbps =
     \<lparr>rate_bytes_per_sec = rate_kbps * 1024, tokens = f64_of_nat (unat (rate_kbps * 1024)),
      last_refill = now\<rparr>"

definition set_rate :: "u64 \<Rightarrow> token_bucket \<Rightarrow> token_bucket" where
  "set_rate rate_kbps b = b\<lparr>rate_bytes_per_sec := rate_kbps * 1024\<rparr>"

text \<open>\<open>Duration::as_secs_f64\<close>.\<close>

definition secs_f64 :: "nat \<Rightarrow> f64" where
  "secs_f64 ns = fadd (f64_of_nat (ns div 1000000000)) (fdiv (f64_of_nat (ns mod 1000000000)) 1000000000)"

text \<open>One round of the loop in \<open>consume\<close>, at the time \<open>now\<close>; the rate was loaded before the loop.\<close>

definition consume_round :: "u64 \<Rightarrow> u64 \<Rightarrow> nat \<Rightarrow> token_bucket \<Rightarrow> bool \<times> token_bucket" where
  "consume_round rate bytes now b =
     (let elapsed = secs_f64 (now - last_refill b);
          r = f64_of_nat (unat rate);
          t = fadd (tokens b) (fmul elapsed r);
          t = (if r < t then r else t);
          need = f64_of_nat (unat bytes)
      in if need \<le> t then (True, b\<lparr>tokens := fsub t need, last_refill := now\<rparr>)
         else (False, b\<lparr>tokens := t, last_refill := now\<rparr>))"

text \<open>The loop, over the times of its rounds; \<open>None\<close> while it has not returned.\<close>

fun consume_loop :: "u64 \<Rightarrow> u64 \<Rightarrow> nat list \<Rightarrow> token_bucket \<Rightarrow> token_bucket option" where
  "consume_loop rate bytes [] b = None"
| "consume_loop rate bytes (now # later) b =
     (let (fin, b') = consume_round rate bytes now b in
      if fin then Some b' else consume_loop rate bytes later b')"

definition consume :: "u64 \<Rightarrow> nat list \<Rightarrow> token_bucket \<Rightarrow> token_bucket option" where
  "consume bytes rounds b =
     (if rate_bytes_per_sec b = 0 then Some b
      else consume_loop (rate_bytes_per_sec b) bytes rounds b)"

section \<open>The speed window\<close>

definition record_sample :: "nat \<Rightarrow> u64 \<Rightarrow> (nat \<times> u64) list \<Rightarrow> (nat \<times> u64) list" where
  "record_sample now bytes ss =
     dropWhile (\<lambda>(ts, _). 30000000000 < now - ts) (ss @ [(now, bytes)])"

text \<open>\<open>x as u64\<close> of a non-negative float truncates and saturates.\<close>

definition f64_to_u64 :: "f64 \<Rightarrow> u64" where
  "f64_to_u64 x = word_of_nat (min (nat \<lfloor>x\<rfloor>) (2 ^ 64 - 1))"

definition avg_speed :: "nat \<Rightarrow> (nat \<times> u64) list \<Rightarrow> u64" where
  "avg_speed now ss =
     (case ss of
        [] \<Rightarrow> 0
      | (first, _) # _ \<Rightarrow>
          (let elapsed = secs_f64 (now - first) in
           if 0 < elapsed
           then f64_to_u64 (fdiv (f64_of_nat (unat (sum_list (map snd ss)))) elapsed) else 0))"

section \<open>The queue\<close>

definition upload_new :: "nat \<Rightarrow> upload_config \<Rightarrow> upload_service" where
  "upload_new now cfg =
     \<lparr>up_config = cfg, up_queue = [], active_count = 0, next_id = 1, has_client = False,
      throttle = bucket_new now (max_upload_speed_kbps cfg), total_bytes_uploaded = 0,
      checking_queue = False, samples = [], up_events = [], up_running = []\<rparr>"

definition set_slsk_client :: "upload_service \<Rightarrow> upload_service" where
  "set_slsk_client s = s\<lparr>has_client := True\<rparr>"

datatype queue_error = SharingDisabled | NotShared rstring | FileGone

definition handle_queue_upload ::
  "share_index \<Rightarrow> (rstring \<Rightarrow> bool) \<Rightarrow> nat \<Rightarrow> rstring \<Rightarrow> rstring \<Rightarrow> upload_service
   \<Rightarrow> (u32, queue_error) outcome \<times> upload_service" where
  "handle_queue_upload ix on_disk now username path s =
     (if \<not> sharing_enabled (up_config s) then (Err SharingDisabled, s)
      else
        (case get_file ix path of
           None \<Rightarrow> (Err (NotShared path), s)
         | Some f \<Rightarrow>
             if \<not> on_disk (real_path f) then (Err FileGone, s)
             else
               (let entry = \<lparr>ue_id = next_id s, ue_username = username, ue_virtual_path = path,
                             ue_real_path = real_path f, ue_file_size = fsize f,
                             ue_queued_at = now\<rparr>
                in (Ok (len_u32 (length (up_queue s)) + 1),
                    s\<lparr>next_id := next_id s + 1, up_queue := up_queue s @ [entry]\<rparr>))))"

fun position_from :: "u32 \<Rightarrow> rstring \<Rightarrow> rstring \<Rightarrow> upload_entry list \<Rightarrow> u32 option" where
  "position_from i username path [] = None"
| "position_from i username path (e # es) =
     (if ue_username e = username \<and> ue_virtual_path e = path then Some (i + 1)
      else position_from (i + 1) username path es)"

definition upload_queue_position :: "rstring \<Rightarrow> rstring \<Rightarrow> upload_service \<Rightarrow> u32 option" where
  "upload_queue_position username path s = position_from 0 username path (up_queue s)"

definition start_upload :: "upload_entry \<Rightarrow> upload_service \<Rightarrow> upload_service" where
  "start_upload e s =
     s\<lparr>active_count := active_count s + 1,
       up_events := up_events s @ [UploadStarted (ue_username e) (ue_virtual_path e) (ue_file_size e)],
       up_running := up_running s @ [e]\<rparr>"

definition check_upload_queue :: "upload_service \<Rightarrow> upload_service" where
  "check_upload_queue s =
     (if checking_queue s then s
      else
        (let cfg = up_config s; active = unat (active_count s) in
         if \<not> sharing_enabled cfg then s
         else if max_upload_slots cfg \<le> active then s
         else
           (let slots = max_upload_slots cfg - active;
                to_start = take slots (up_queue s);
                s = s\<lparr>up_queue := drop slots (up_queue s)\<rparr>
            in if \<not> has_client s then s else fold start_upload to_start s)))"

text \<open>The end of the spawned task: what it does with the result of the upload.\<close>

definition finish_upload ::
  "nat \<Rightarrow> upload_entry \<Rightarrow> (u64, upload_error) outcome \<Rightarrow> upload_service \<Rightarrow> upload_service" where
  "finish_upload now e result s =
     (let s = s\<lparr>up_running := remove1 e (up_running s)\<rparr>;
          s = (case result of
                 Ok n \<Rightarrow> s\<lparr>total_bytes_uploaded := total_bytes_uploaded s + n,
                           samples := record_sample now n (samples s),
                           up_events := up_events s @ [UploadCompleted (ue_username e) (ue_virtual_path e) n]\<rparr>
               | Err x \<Rightarrow> s\<lparr>up_events := up_events s @ [UploadFailed (ue_username e) (ue_virtual_path e) x]\<rparr>
               | Panic \<Rightarrow> s)
      in if result = Panic then s else s\<lparr>active_count := active_count s - 1\<rparr>)"

definition update_config :: "upload_config \<Rightarrow> upload_service \<Rightarrow> upload_service" where
  "update_config cfg s =
     s\<lparr>throttle := set_rate (max_upload_speed_kbps cfg) (throttle s), up_config := cfg\<rparr>"

definition upload_statistics :: "nat \<Rightarrow> upload_service \<Rightarrow> upload_stats" where
  "upload_statistics now s =
     \<lparr>active_uploads = active_count s, queued_uploads = length (up_queue s),
      total_uploaded = total_bytes_uploaded s, avg_speed_bytes = avg_speed now (samples s),
      stats_config = up_config s\<rparr>"

definition record_bytes_uploaded :: "nat \<Rightarrow> u64 \<Rightarrow> upload_service \<Rightarrow> upload_service" where
  "record_bytes_uploaded now n s =
     s\<lparr>total_bytes_uploaded := total_bytes_uploaded s + n, samples := record_sample now n (samples s)\<rparr>"

definition has_free_slots :: "upload_service \<Rightarrow> bool" where
  "has_free_slots s \<longleftrightarrow> unat (active_count s) < max_upload_slots (up_config s)"

section \<open>One upload\<close>

text \<open>The optional answer to our init message, under a timeout of five seconds; it never fails.
  \<open>answered\<close> says whether the peer sends anything in that time.\<close>

definition read_optional_init :: "bool \<Rightarrow> unit sop" where
  "read_optional_init answered c =
     (Ok (), if \<not> answered then c else snd (sbind (sread_gen TimedOut 4) (\<lambda>b.
        let first = (from_le b :: u32) in
        if 5 < first \<and> first < 200
        then sbind (sread_gen TimedOut 1) (\<lambda>_. sbind (sread_gen TimedOut (unat (first - 1))) (\<lambda>_. sret ()))
        else sret ()) c))"

definition read_message_timed :: "(u32 \<times> bytes) sop" where
  "read_message_timed c =
     (case read_message c of (Err Stalled, c') \<Rightarrow> (Err TimedOut, c') | r \<Rightarrow> r)"

definition denial_reason :: "bytes \<Rightarrow> rstring" where
  "denial_reason buf =
     (if 4 \<le> length buf
      then (case fst (decode_string buf) of Ok r \<Rightarrow> r | _ \<Rightarrow> str ''Unknown'')
      else str ''Transfer denied'')"

text \<open>\<open>budget\<close> is the number of messages that arrive within the minute.\<close>

fun await_reply :: "nat \<Rightarrow> u32 \<Rightarrow> conn \<Rightarrow> (unit, upload_error) outcome \<times> conn" where
  "await_reply 0 tok c = (Err (Upload_IO TimedOut), c)"
| "await_reply (Suc budget) tok c =
     (case read_message_timed c of
        (Err e, c') \<Rightarrow> (Err (Upload_IO e), c')
      | (Panic, c') \<Rightarrow> (Panic, c')
      | (Ok (code, data), c') \<Rightarrow>
          if code = 41 then
            (if length data < 5 then (Err Reply_Too_Short, c')
             else if from_le (take 4 data) \<noteq> tok then await_reply budget tok c'
             else if data ! 4 \<noteq> 1 then (Err (Denied_By_Peer (denial_reason (drop 5 data))), c')
             else (Ok (), c'))
          else await_reply budget tok c')"

definition upload_request :: "upload_entry \<Rightarrow> u32 \<Rightarrow> bytes" where
  "upload_request e tok =
     put_u32_le 1 @ put_u32_le tok @ encode_string (ue_virtual_path e) @ put_u64_le (ue_file_size e)"

definition offer_upload ::
  "nat \<Rightarrow> rstring \<Rightarrow> u32 \<Rightarrow> bool \<Rightarrow> upload_entry \<Rightarrow> conn \<Rightarrow> (unit, upload_error) outcome \<times> conn" where
  "offer_upload budget ours tok answered e c =
     (case sbind (send_peer_init ours (str ''P'') 0) (\<lambda>_. sbind (read_optional_init answered) (\<lambda>_.
             send_message 40 (upload_request e tok))) c of
        (Err x, c') \<Rightarrow> (Err (Upload_IO x), c')
      | (Panic, c') \<Rightarrow> (Panic, c')
      | (Ok _, c') \<Rightarrow> await_reply budget tok c')"

definition send_upload ::
  "rstring \<Rightarrow> u32 \<Rightarrow> bool \<Rightarrow> upload_entry \<Rightarrow> bytes option \<Rightarrow> send_event list \<Rightarrow> (u64 \<times> bytes) sop" where
  "send_upload ours tok answered e content evs =
     sbind (send_peer_init ours (str ''F'') 0) (\<lambda>_. sbind (read_optional_init answered) (\<lambda>_.
     sbind (swrite (put_u32_le tok)) (\<lambda>_. send_file_data content (ue_file_size e) evs)))"

text \<open>The whole upload: the file's presence, the peer's address as the server gives it, and the two TCP
  connections are what the environment answers.\<close>

definition usable_address :: "rstring \<times> u32 \<Rightarrow> bool" where
  "usable_address a \<longleftrightarrow> snd a \<noteq> 0 \<and> fst a \<noteq> [] \<and> fst a \<noteq> str ''0.0.0.0''"

definition connect_ip :: "rstring option \<Rightarrow> rstring \<Rightarrow> rstring" where
  "connect_ip external ip =
     (case external of Some x \<Rightarrow> if ip = x then str ''127.0.0.1'' else ip | None \<Rightarrow> ip)"

definition execute_upload ::
  "nat \<Rightarrow> rstring \<Rightarrow> rstring option \<Rightarrow> u32 \<Rightarrow> bool \<Rightarrow> (rstring \<times> u32) option
   \<Rightarrow> (rstring \<Rightarrow> u32 \<Rightarrow> conn option \<times> conn option) \<Rightarrow> bool \<times> bool \<Rightarrow> bytes option \<Rightarrow> send_event list \<Rightarrow> upload_entry
   \<Rightarrow> (u64 \<times> bytes, upload_error) outcome" where
  "execute_upload budget ours external tok on_disk address dial answered content evs e =
     (if \<not> on_disk then Err File_Missing
      else
        (case address of
           None \<Rightarrow> Err No_Address
         | Some (ip, port) \<Rightarrow>
             if \<not> usable_address (ip, port) then Err No_Address
             else
               (case dial (connect_ip external ip) port of
                  (None, _) \<Rightarrow> Err Connect_Failed
                | (Some p, f) \<Rightarrow>
                    (case fst (offer_upload budget ours tok (fst answered) e p) of
                       Err x \<Rightarrow> Err x
                     | Panic \<Rightarrow> Panic
                     | Ok _ \<Rightarrow>
                         (case f of
                            None \<Rightarrow> Err Connect_Failed
                          | Some fc \<Rightarrow>
                              (case fst (send_upload ours tok (snd answered) e content evs fc) of
                                 Ok r \<Rightarrow> Ok r | Err x \<Rightarrow> Err (Upload_IO x) | Panic \<Rightarrow> Panic))))))"

section \<open>The throttle\<close>

lemma rnd_lower_nat: "of_nat n \<le> x \<Longrightarrow> n \<le> 2 ^ 53 \<Longrightarrow> of_nat n \<le> rnd x"
  using f64.lower [of "int n" x] by simp

lemma consume_round_capped:
  assumes "unat rate \<le> 2 ^ 53" and "unat rate < unat bytes" and "unat bytes \<le> 2 ^ 53"
  shows "\<not> fst (consume_round rate bytes now b)"
proof -
  have "f64_of_nat (unat rate) < f64_of_nat (unat bytes)"
    using assms by (intro f64_of_nat_less)
  then show ?thesis by (auto simp: consume_round_def Let_def)
qed

lemma consume_loop_stuck:
  assumes "unat rate \<le> 2 ^ 53" and "unat rate < unat bytes" and "unat bytes \<le> 2 ^ 53"
  shows "consume_loop rate bytes rounds b = None"
proof (induction rounds arbitrary: b)
  case (Cons now later)
  show ?case
    using consume_round_capped [OF assms, of now b] Cons.IH
    by (cases "consume_round rate bytes now b") simp
qed simp

lemma secs_f64_one: "1000000000 \<le> ns \<Longrightarrow> 1 \<le> secs_f64 ns"
proof -
  assume "1000000000 \<le> ns"
  then have "1 \<le> ns div 1000000000" by (simp add: div_le_mono [of 1000000000 ns 1000000000, simplified])
  then have "(1::rat) \<le> of_nat (ns div 1000000000)" by (metis of_nat_1 of_nat_le_iff)
  then have "1 \<le> f64_of_nat (ns div 1000000000)"
    using f64.lower [of 1] by (simp add: f64_of_nat_def)
  moreover have "0 \<le> fdiv (f64_of_nat (ns mod 1000000000)) 1000000000"
    unfolding fdiv_def f64_of_nat_def by (intro f64.nonneg divide_nonneg_nonneg) simp_all
  ultimately show ?thesis unfolding secs_f64_def fadd_def using f64.lower [of 1] by simp
qed

text \<open>C39: the throttle: with a limit below the size of the piece to send, \<open>consume\<close> never returns,
  however long it waits, because the bucket is capped at one second's worth of tokens (a 64 KiB
  piece under a limit of 63 KB/s or less hangs its upload for ever); otherwise the first round that
  comes a second or more after the last refill lets the piece through.\<close>

theorem throttle_limits:
  assumes "rate_bytes_per_sec b \<noteq> 0" and "unat (rate_bytes_per_sec b) \<le> 2 ^ 53"
    and "unat bytes \<le> 2 ^ 53" and "0 \<le> tokens b"
  shows "if rate_bytes_per_sec b < bytes then consume bytes rounds b = None
    else (last_refill b + 1000000000 \<le> now \<longrightarrow> consume bytes (now # rounds) b \<noteq> None)"
proof (cases "rate_bytes_per_sec b < bytes")
  case True
  then show ?thesis
    using assms by (simp add: consume_def consume_loop_stuck word_less_nat_alt)
next
  case False
  define n where "n = unat (rate_bytes_per_sec b)"
  define r where "r = f64_of_nat n"
  have n: "n \<le> 2 ^ 53" using assms(2) by (simp add: n_def)
  then have r: "r = of_nat n" by (simp add: r_def f64_of_nat_exact)
  have r0: "0 \<le> r" by (simp add: r_def f64_of_nat_nonneg)
  have need: "f64_of_nat (unat bytes) \<le> r"
    using False unfolding r_def by (intro f64_of_nat_mono) (simp add: n_def word_less_nat_alt)
  have "r \<le> fadd (tokens b) (fmul (secs_f64 (now - last_refill b)) r)"
    if "last_refill b + 1000000000 \<le> now"
  proof -
    have "1 \<le> secs_f64 (now - last_refill b)" using that by (intro secs_f64_one) simp
    from mult_right_mono [OF this r0] have "r \<le> secs_f64 (now - last_refill b) * r" by simp
    then have "r \<le> fmul (secs_f64 (now - last_refill b)) r"
      unfolding fmul_def r by (intro rnd_lower_nat n)
    with assms(4) have "r \<le> tokens b + fmul (secs_f64 (now - last_refill b)) r" by simp
    then show ?thesis
      unfolding fadd_def r by (intro rnd_lower_nat n)
  qed
  then show ?thesis
    using False assms(1) need
    by (auto simp: consume_def consume_round_def Let_def simp flip: n_def r_def)
qed

theorem throttle_limits_witness:
  "consume 65536 [5, 10, 4000000000] (bucket_new 0 63) = None"
proof -
  have "rate_bytes_per_sec (bucket_new 0 63) = 64512" "0 \<le> tokens (bucket_new 0 63)"
    by (simp_all add: bucket_new_def f64_of_nat_def f64.nonneg)
  with throttle_limits [of "bucket_new 0 63" 65536 "[5, 10, 4000000000]" 0] show ?thesis by simp
qed

section \<open>Slots\<close>

lemma fold_start_upload [simp]:
  "up_running (fold start_upload es s) = up_running s @ es"
  "up_queue (fold start_upload es s) = up_queue s"
  "up_config (fold start_upload es s) = up_config s"
  "checking_queue (fold start_upload es s) = checking_queue s"
  "has_client (fold start_upload es s) = has_client s"
  "active_count (fold start_upload es s) = active_count s + word_of_nat (length es)"
  by (induction es arbitrary: s) (simp_all add: start_upload_def)

text \<open>What happens to the service over time: requests, runs of the checker, the ends of upload tasks,
  changes of the configuration, and the client becoming available.\<close>

inductive upload_step :: "upload_service \<Rightarrow> upload_service \<Rightarrow> bool" where
  step_request: "upload_step s (snd (handle_queue_upload ix on_disk now username path s))"
| step_check: "upload_step s (check_upload_queue s)"
| step_finish: "e \<in> set (up_running s) \<Longrightarrow> upload_step s (finish_upload now e result s)"
| step_config: "max_upload_slots cfg < 2 ^ 32 \<Longrightarrow> upload_step s (update_config cfg s)"
| step_client: "upload_step s (set_slsk_client s)"

inductive upload_reachable :: "upload_service \<Rightarrow> bool" where
  reach_start: "max_upload_slots cfg < 2 ^ 32 \<Longrightarrow> upload_reachable (upload_new now cfg)"
| reach_step: "upload_reachable s \<Longrightarrow> upload_step s s' \<Longrightarrow> upload_reachable s'"

inductive_cases upload_stepE: "upload_step s s'"

definition upload_ok :: "upload_service \<Rightarrow> bool" where
  "upload_ok s \<longleftrightarrow> \<not> checking_queue s \<and> max_upload_slots (up_config s) < 2 ^ 32
     \<and> length (up_running s) \<le> unat (active_count s)"

lemma handle_queue_upload_frame:
  "checking_queue (snd (handle_queue_upload ix d now un p s)) = checking_queue s"
  "up_config (snd (handle_queue_upload ix d now un p s)) = up_config s"
  "up_running (snd (handle_queue_upload ix d now un p s)) = up_running s"
  "active_count (snd (handle_queue_upload ix d now un p s)) = active_count s"
  by (simp_all add: handle_queue_upload_def Let_def split: option.splits)

lemma check_upload_queue_run:
  assumes "\<not> checking_queue s" and "sharing_enabled (up_config s)"
    and "unat (active_count s) < max_upload_slots (up_config s)"
  defines "slots \<equiv> max_upload_slots (up_config s) - unat (active_count s)"
  shows "check_upload_queue s =
     (if has_client s
      then fold start_upload (take slots (up_queue s)) (s\<lparr>up_queue := drop slots (up_queue s)\<rparr>)
      else s\<lparr>up_queue := drop slots (up_queue s)\<rparr>)"
  using assms by (simp add: check_upload_queue_def Let_def slots_def)

lemma check_active:
  assumes "upload_ok s"
  shows "unat (active_count (check_upload_queue s)) \<le>
           max (unat (active_count s)) (max_upload_slots (up_config s))
    \<and> unat (active_count (check_upload_queue s)) + length (up_running s) =
        unat (active_count s) + length (up_running (check_upload_queue s))
    \<and> checking_queue (check_upload_queue s) = checking_queue s
    \<and> up_config (check_upload_queue s) = up_config s"
proof (cases "sharing_enabled (up_config s) \<and> unat (active_count s) < max_upload_slots (up_config s)")
  case True
  define k where "k = length (take (max_upload_slots (up_config s) - unat (active_count s)) (up_queue s))"
  have k: "unat (active_count s) + k \<le> max_upload_slots (up_config s)"
    using True by (auto simp: k_def)
  then have "unat (active_count s + word_of_nat k) = unat (active_count s) + k"
    using assms by (simp add: upload_ok_def unat_word_ariths unat_of_nat)
  with k True assms check_upload_queue_run [of s] show ?thesis
    by (auto simp: upload_ok_def k_def)
qed (use assms in \<open>auto simp: check_upload_queue_def upload_ok_def Let_def\<close>)

lemma upload_ok_finish:
  assumes "upload_ok s" and "e \<in> set (up_running s)"
  shows "upload_ok (finish_upload now e result s)"
proof -
  have l: "length (remove1 e (up_running s)) = length (up_running s) - 1" "0 < length (up_running s)"
    using assms(2) by (auto simp: length_remove1)
  with assms(1) have "0 < unat (active_count s)" unfolding upload_ok_def by linarith
  then have "unat (active_count s - 1) = unat (active_count s) - 1"
    by (simp add: unat_sub word_le_nat_alt)
  with l assms(1) show ?thesis
    by (cases result) (auto simp: finish_upload_def upload_ok_def Let_def)
qed

lemma upload_ok_step: "upload_step s s' \<Longrightarrow> upload_ok s \<Longrightarrow> upload_ok s'"
proof (induction rule: upload_step.induct)
  case (step_check s)
  with check_active [of s] show ?case by (simp add: upload_ok_def)
qed (auto simp: upload_ok_finish, auto simp: upload_ok_def handle_queue_upload_frame
      update_config_def set_slsk_client_def)

lemma upload_ok_reachable: "upload_reachable s \<Longrightarrow> upload_ok s"
  by (induction rule: upload_reachable.induct) (auto simp: upload_ok_step, simp add: upload_ok_def upload_new_def)

text \<open>C9: in every state the service can reach, a step that starts an upload leaves at most
  \<open>max_upload_slots\<close> uploads running, whatever requests, completions, failures, panics of upload
  tasks and changes of the configuration came before.\<close>

theorem upload_slots_respected:
  assumes "upload_reachable s" and "upload_step s s'"
    and "length (up_running s) < length (up_running s')"
  shows "length (up_running s') \<le> max_upload_slots (up_config s')"
proof -
  have ok: "upload_ok s" by (rule upload_ok_reachable [OF assms(1)])
  have "s' = check_upload_queue s"
    using assms(2,3)
    by (auto elim!: upload_stepE simp: handle_queue_upload_frame finish_upload_def Let_def
        update_config_def set_slsk_client_def length_remove1 split: outcome.splits if_splits)
  moreover have "unat (active_count s) < unat (active_count (check_upload_queue s))"
    using check_active [OF ok] assms(3) calculation by auto
  ultimately show ?thesis
    using check_active [OF ok] ok by (auto simp: upload_ok_def)
qed

definition sample_entry :: upload_entry where
  "sample_entry = \<lparr>ue_id = 1, ue_username = str ''peer'', ue_virtual_path = virtual_path sample_shared,
     ue_real_path = real_path sample_shared, ue_file_size = 9, ue_queued_at = 0\<rparr>"

definition sample_uploads :: upload_service where
  "sample_uploads = snd (handle_queue_upload
     (add_to_index ascii_tables (\<lambda>b. b) sample_shared share_index_new) (\<lambda>_. True) 0 (str ''peer'')
     (virtual_path sample_shared) (set_slsk_client (upload_new 0 upload_config_default)))"

lemma sample_uploads_run:
  "up_queue sample_uploads = [sample_entry]" "has_client sample_uploads"
  "\<not> checking_queue sample_uploads" "up_running sample_uploads = []"
  "up_config sample_uploads = upload_config_default" "active_count sample_uploads = 0"
  by (simp_all add: sample_uploads_def handle_queue_upload_def set_slsk_client_def upload_new_def
      upload_config_default_def get_file_def add_to_index_def share_index_new_def sample_entry_def
      sample_shared_def Let_def)

lemma sample_uploads_reachable: "upload_reachable sample_uploads"
proof -
  have "upload_reachable (upload_new 0 upload_config_default)"
    by (rule reach_start) (simp add: upload_config_default_def)
  from reach_step [OF this step_client]
  have "upload_reachable (set_slsk_client (upload_new 0 upload_config_default))" .
  from reach_step [OF this step_request] show ?thesis unfolding sample_uploads_def .
qed

theorem upload_slots_respected_witness:
  "length (up_running (check_upload_queue sample_uploads)) = 1
   \<and> length (up_running (check_upload_queue sample_uploads)) \<le> 3"
proof -
  have r: "up_running (check_upload_queue sample_uploads) = [sample_entry]"
    by (simp add: check_upload_queue_run sample_uploads_run upload_config_default_def start_upload_def)
  then have "length (up_running sample_uploads) < length (up_running (check_upload_queue sample_uploads))"
    by (simp add: sample_uploads_run)
  from upload_slots_respected [OF sample_uploads_reachable step_check this] r show ?thesis by simp
qed

text \<open>A run of the checker takes the oldest requests, as many as there are free slots, in the order
  they were queued, and starts exactly those; but when the client is not set yet it takes them all
  the same, starts none of them and forgets them.\<close>

lemma checker_fifo_or_lost:
  assumes "upload_reachable s" and "sharing_enabled (up_config s)"
    and "unat (active_count s) < max_upload_slots (up_config s)"
  shows "let k = max_upload_slots (up_config s) - unat (active_count s); s' = check_upload_queue s in
    up_queue s' = drop k (up_queue s)
    \<and> up_running s' = up_running s @ (if has_client s then take k (up_queue s) else [])
    \<and> active_count s' =
        active_count s + (if has_client s then word_of_nat (min (length (up_queue s)) k) else 0)"
  using upload_ok_reachable [OF assms(1)] assms(2,3)
  by (simp add: check_upload_queue_run upload_ok_def Let_def)

lemma checker_fifo_or_lost_witness:
  "up_queue (check_upload_queue sample_uploads) = []"
  using checker_fifo_or_lost [OF sample_uploads_reachable]
  by (simp add: sample_uploads_run upload_config_default_def Let_def)

text \<open>What the position of an entry is: the index of the first one for that user and path, plus 1.\<close>

lemma position_from_found:
  "position_from i un p es = Some q \<Longrightarrow>
   \<exists>j < length es. q = i + word_of_nat j + 1 \<and> ue_username (es ! j) = un \<and> ue_virtual_path (es ! j) = p
     \<and> (\<forall>l < j. \<not> (ue_username (es ! l) = un \<and> ue_virtual_path (es ! l) = p))"
proof (induction es arbitrary: i)
  case (Cons e es)
  show ?case
  proof (cases "ue_username e = un \<and> ue_virtual_path e = p")
    case True
    with Cons.prems show ?thesis by (intro exI [of _ 0]) simp
  next
    case False
    with Cons.prems have "position_from (i + 1) un p es = Some q" by (auto split: if_splits)
    from Cons.IH [OF this] obtain j where j: "j < length es" "q = i + 1 + word_of_nat j + 1"
      "ue_username (es ! j) = un" "ue_virtual_path (es ! j) = p"
      "\<forall>l < j. \<not> (ue_username (es ! l) = un \<and> ue_virtual_path (es ! l) = p)"
      by blast
    with False show ?thesis
      by (intro exI [of _ "Suc j"]) (auto simp: less_Suc_eq_0_disj)
  qed
qed simp

lemma position_from_None:
  "position_from i un p es = None \<longleftrightarrow>
   (\<forall>e\<in>set es. \<not> (ue_username e = un \<and> ue_virtual_path e = p))"
  by (induction es arbitrary: i) auto

text \<open>A request that is accepted is appended to the queue with the shared file's real path and
  size, and the position the peer is told is the length of the queue; a later position query finds
  that user's first request for the file, at that position or before it. A refused request changes
  nothing.\<close>

lemma queued_position:
  assumes "handle_queue_upload ix on_disk now un p s = (r, s')" and "length (up_queue s) < 2 ^ 32 - 1"
  shows "case r of
      Ok q \<Rightarrow> (\<exists>f. get_file ix p = Some f \<and> on_disk (real_path f)
          \<and> up_queue s' = up_queue s @ [\<lparr>ue_id = next_id s, ue_username = un, ue_virtual_path = p,
                ue_real_path = real_path f, ue_file_size = fsize f, ue_queued_at = now\<rparr>])
        \<and> unat q = length (up_queue s')
        \<and> (\<exists>q'. upload_queue_position un p s' = Some q' \<and> q' \<le> q)
    | _ \<Rightarrow> s' = s"
proof (cases r)
  case (Ok q)
  with assms(1) obtain f where f: "get_file ix p = Some f" "on_disk (real_path f)"
    and q: "q = len_u32 (length (up_queue s)) + 1"
    and s': "up_queue s' = up_queue s @ [\<lparr>ue_id = next_id s, ue_username = un, ue_virtual_path = p,
        ue_real_path = real_path f, ue_file_size = fsize f, ue_queued_at = now\<rparr>]"
    by (auto simp: handle_queue_upload_def Let_def split: option.splits if_splits)
  have "q = word_of_nat (length (up_queue s'))" by (simp add: q s' len_u32_def)
  then have uq: "unat q = length (up_queue s')"
    using assms(2) s' by (simp only:) (intro unat_word_of_nat, simp)
  have "position_from 0 un p (up_queue s') \<noteq> None"
    unfolding position_from_None by (simp add: s')
  then obtain q' where q': "upload_queue_position un p s' = Some q'"
    by (auto simp: upload_queue_position_def)
  with position_from_found [of 0 un p "up_queue s'" q'] obtain j where
    j: "j < length (up_queue s')" "q' = word_of_nat (Suc j)"
    by (auto simp: upload_queue_position_def add.commute)
  have "unat q' = Suc j"
    using j assms(2) s' by (simp only: j(2)) (intro unat_word_of_nat, simp)
  then have "q' \<le> q" using j(1) uq by (simp add: word_le_nat_alt)
  with f s' uq q' Ok show ?thesis by auto
qed (use assms in \<open>auto simp: handle_queue_upload_def Let_def split: option.splits if_splits\<close>)

lemma queued_position_witness:
  "\<exists>s'. handle_queue_upload (add_to_index ascii_tables (\<lambda>b. b) sample_shared share_index_new)
      (\<lambda>_. True) 0 (str ''peer'') (virtual_path sample_shared) sample_uploads = (Ok 2, s')
    \<and> unat (2 :: u32) = length (up_queue s')"
proof -
  obtain s' where s': "handle_queue_upload (add_to_index ascii_tables (\<lambda>b. b) sample_shared share_index_new)
      (\<lambda>_. True) 0 (str ''peer'') (virtual_path sample_shared) sample_uploads = (Ok 2, s')"
    by (simp add: handle_queue_upload_def sample_uploads_run upload_config_default_def get_file_def
        add_to_index_def share_index_new_def len_u32_def Let_def)
  from queued_position [OF s'] s' show ?thesis by (simp add: sample_uploads_run)
qed

text \<open>After a sample is recorded, the speed window holds it and only samples of the last 30 seconds,
  provided the samples were taken in order.\<close>

lemma speed_window:
  assumes "sorted (map fst ss)" and "\<forall>x\<in>set ss. fst x \<le> now"
  shows "(now, n) \<in> set (record_sample now n ss)
    \<and> (\<forall>x\<in>set (record_sample now n ss). now - fst x \<le> 30000000000)
    \<and> sorted (map fst (record_sample now n ss))"
proof -
  let ?P = "\<lambda>(ts, _ :: u64). 30000000000 < now - ts"
  let ?w = "dropWhile ?P (ss @ [(now, n)])"
  have s: "sorted (map fst (ss @ [(now, n)]))" using assms by (auto simp: sorted_append)
  then have w: "sorted (map fst ?w)"
    unfolding dropWhile_eq_drop drop_map [symmetric] by (rule sorted_wrt_drop)
  have e: "?w = dropWhile ?P ss @ [(now, n)]" by (rule dropWhile_append3) simp
  then have ne: "?w \<noteq> []" and mem: "(now, n) \<in> set ?w" by simp_all
  have "\<not> ?P (hd ?w)" by (rule hd_dropWhile [OF ne])
  moreover have "fst (hd ?w) \<le> fst x" if "x \<in> set ?w" for x
    using that w ne by (cases ?w) auto
  ultimately have "\<forall>x\<in>set ?w. now - fst x \<le> 30000000000"
    by (fastforce simp: case_prod_beta)
  with w mem show ?thesis unfolding record_sample_def by blast
qed

lemma speed_window_witness:
  "(40000000000, 7) \<in> set (record_sample 40000000000 7 [(1, 5), (20000000000, 6)])
   \<and> (\<forall>x\<in>set (record_sample 40000000000 7 [(1, 5), (20000000000, 6)]).
        40000000000 - fst x \<le> 30000000000)"
  using speed_window [of "[(1, 5), (20000000000, 6)]" 40000000000 7] by simp

section \<open>An upload and the side that accepts it\<close>

lemma read_optional_init_silent [simp]: "read_optional_init False c = (Ok (), c)"
  by (simp add: read_optional_init_def)

text \<open>An upload's file connection is one that our own acceptor takes: what the uploader writes before
  the data is recognised as a file connection with exactly the uploader's transfer token and is
  not answered, and, asked for offset 0, the uploader then sends the whole file. (User names of
  fewer than 186 bytes; the acceptor is silent until the token arrives.)\<close>

lemma upload_accepted:
  assumes "fits_u32 ours" and "length (as_bytes ours) < 186"
    and "length content < 2 ^ 64" and "ue_file_size e = word_of_nat (length content)"
    and "length content \<le> length ks"
    and "send_upload ours tok False e (Some content) (map Chunk ks)
        \<lparr>c_in = put_u64_le 0, c_closes = cl, c_out = [], c_write_ok = True\<rparr> = (r, c)"
  shows "r = Ok (ue_file_size e, content)
    \<and> handle_incoming_connection theirs
        \<lparr>c_in = c_out c @ i, c_closes = cl', c_out = [], c_write_ok = True\<rparr> =
      (Ok (File_Conn tok), \<lparr>c_in = i, c_closes = cl', c_out = [], c_write_ok = True\<rparr>)"
proof -
  have "send_loop (ue_file_size e) content 0 [] (map Chunk ks) = (ue_file_size e, content)"
    using send_rounds [of 0 content "ue_file_size e" ks "[]"] assms(3-5) by simp
  moreover have "sread_u64_timed \<lparr>c_in = put_u64_le 0, c_closes = cl, c_out = out, c_write_ok = True\<rparr> =
      (Ok 0, \<lparr>c_in = [], c_closes = cl, c_out = out, c_write_ok = True\<rparr>)" for out
    using sread_ints(4) [of 0 "[]"] by simp
  ultimately have "r = Ok (ue_file_size e, content)"
    and "c_out c = peer_init_bytes ours (str ''F'') @ put_u32_le tok"
    using assms(6) by (auto simp: send_upload_def send_file_data_def)
  then show ?thesis
    using incoming_peer_init [OF assms(1,2), of "str ''F''" theirs "put_u32_le tok @ i" cl' "[]"]
    by (simp add: wire_rt)
qed

lemma upload_accepted_witness:
  "\<exists>c. send_upload (str ''me'') 77 False sample_entry (Some [1, 2, 3, 4, 5, 6, 7, 8, 9])
        (map Chunk (replicate 9 4))
        \<lparr>c_in = put_u64_le 0, c_closes = False, c_out = [], c_write_ok = True\<rparr> =
      (Ok (9, [1, 2, 3, 4, 5, 6, 7, 8, 9]), c)"
proof -
  obtain r c where rc: "send_upload (str ''me'') 77 False sample_entry (Some [1, 2, 3, 4, 5, 6, 7, 8, 9])
        (map Chunk (replicate 9 4))
        \<lparr>c_in = put_u64_le 0, c_closes = False, c_out = [], c_write_ok = True\<rparr> = (r, c)"
    by fastforce
  have "fits_u32 (str ''me'')" "length (as_bytes (str ''me'')) < 186"
    by (simp_all add: fits_u32_def str_def is_scalar_def utf8_char_def)
  from upload_accepted [OF this _ _ _ rc] rc show ?thesis by (simp add: sample_entry_def)
qed

end
