(* ===== verification/Client.thy ===== *)
theory Client
  imports File_Selection Router Upload
begin

text \<open>
  \<open>src/src/protocol/client.rs\<close>: the client on top of the router: the login, the acceptor of peer
  connections and the dispatch of the messages peers send, the searches, and the start of a download.
  The state the tasks share is the record \<open>client\<close>; one handler of one connection is a function on the
  client and the connection. What other machines and the operating system answer (addresses,
  connections, arrivals in time) are arguments.
\<close>

section \<open>Login\<close>

definition decode_login :: "(bool \<times> rstring \<times> rstring option) reader" where
  "decode_login =
     rbind get_u8 (\<lambda>success. rbind decode_string (\<lambda>greeting_or_reason.
     if success = 0 then rret (False, greeting_or_reason, None)
     else rbind remaining (\<lambda>n.
       rbind (if 4 \<le> n then rbind get_ip (\<lambda>ip. rret (Some ip)) else rret None) (\<lambda>ip.
       rret (True, greeting_or_reason, ip)))))"

text \<open>\<open>md5_hex\<close> is the hexadecimal digest.\<close>

definition login :: "(bytes \<Rightarrow> rstring) \<Rightarrow> rstring \<Rightarrow> rstring \<Rightarrow> rstring option sop" where
  "login md5_hex username password =
     sbind (send_message 1 (encode_string username @ encode_string password @ put_u32_le 160
              @ encode_string (md5_hex (as_bytes (username @ password))) @ put_u32_le 1)) (\<lambda>_.
     sbind read_message (\<lambda>(code, response).
     if code = 1 then
       sbind (on_data decode_login response) (\<lambda>(success, greeting_or_reason, external_ip).
       if success then sret external_ip else sfail (LoginFailed greeting_or_reason))
     else sret None))"

definition set_wait_port :: "u32 \<Rightarrow> u32 option \<Rightarrow> unit sop" where
  "set_wait_port port obfuscated_port =
     send_message 2 (put_u32_le port
       @ (case obfuscated_port of Some p \<Rightarrow> put_u32_le 1 @ put_u32_le p | None \<Rightarrow> []))"

definition set_shared_counts :: "u32 \<Rightarrow> u32 \<Rightarrow> unit sop" where
  "set_shared_counts folders files = send_message 35 (put_u32_le folders @ put_u32_le files)"

definition PEER_LISTEN_PORT :: u32 where "PEER_LISTEN_PORT = 2234"
definition PEER_OBFUSCATED_PORT :: u32 where "PEER_OBFUSCATED_PORT = 2235"

text \<open>What \<open>connect\<close> says to the server before the router takes over.\<close>

definition greet_server :: "(bytes \<Rightarrow> rstring) \<Rightarrow> rstring \<Rightarrow> rstring \<Rightarrow> rstring option sop" where
  "greet_server md5_hex username password =
     sbind (login md5_hex username password) (\<lambda>external_ip.
     sbind (set_shared_counts 0 0) (\<lambda>_.
     sbind (set_wait_port PEER_LISTEN_PORT (Some PEER_OBFUSCATED_PORT)) (\<lambda>_. sret external_ip)))"

section \<open>State\<close>

datatype download_status =
    DS_Pending | DS_Queued | DS_InProgress | DS_Completed | DS_Failed rstring

record download_progress =
  dp_filename :: rstring
  dp_total_bytes :: u64
  dp_downloaded_bytes :: u64
  dp_status :: download_status

record transfer_complete =
  tx_item_id :: int
  tx_queue_id :: int
  tx_list_id :: "int option"
  tx_transfer_token :: u32
  tx_result :: "(u64, rstring) outcome"

record pending_download =
  pd_username :: rstring
  pd_filename :: rstring
  pd_filesize :: u64
  pd_transfer_token :: u32
  pd_output_path :: rstring
  pd_item_id :: "int option"
  pd_queue_id :: "int option"
  pd_list_id :: "int option"
  pd_reports :: bool

datatype download_init =
    Transfer_Spawned int u32
  | Download_Queued u32 "u32 option" rstring
  | Download_Failed rstring

text \<open>A waiter for a file connection is numbered; \<open>delivered\<close> records what it received.\<close>

record client =
  cl_username :: rstring
  cl_external_ip :: "rstring option"
  peer_streams :: "rstring \<Rightarrow> conn option"
  search_results :: "u32 \<Rightarrow> search_result list option"
  active_search_tokens :: "u32 set"
  result_notify :: "u32 list"
  cl_downloads :: "rstring \<Rightarrow> download_progress option"
  pending_downloads :: "u32 \<Rightarrow> pending_download option"
  file_conn_waiters :: "u32 \<Rightarrow> nat option"
  delivered :: "(nat \<times> conn) list"
  cl_sharing :: "sharing_service option"
  cl_upload :: "upload_service option"

definition client_new :: "rstring \<Rightarrow> rstring option \<Rightarrow> client" where
  "client_new username external_ip =
     \<lparr>cl_username = username, cl_external_ip = external_ip, peer_streams = (\<lambda>_. None),
      search_results = (\<lambda>_. None), active_search_tokens = {}, result_notify = [],
      cl_downloads = (\<lambda>_. None), pending_downloads = (\<lambda>_. None), file_conn_waiters = (\<lambda>_. None),
      delivered = [], cl_sharing = None, cl_upload = None\<rparr>"

definition set_sharing_service :: "sharing_service \<Rightarrow> client \<Rightarrow> client" where
  "set_sharing_service s cl = cl\<lparr>cl_sharing := Some s\<rparr>"

definition set_upload_service :: "upload_service \<Rightarrow> client \<Rightarrow> client" where
  "set_upload_service s cl = cl\<lparr>cl_upload := Some s\<rparr>"

section \<open>Reading a peer's message\<close>

text \<open>An init message that arrives first is skipped: its type is one byte, a peer message's code four.
  The subtraction cannot wrap, because the length is above 4.\<close>

definition read_peer_message_with_init_handling :: "(u32 \<times> bytes) sop" where
  "read_peer_message_with_init_handling =
     sbind (sread 5) (\<lambda>peek.
     let msg_len = from_le (take 4 peek) :: u32; first_code_byte = peek ! 4 in
     if (first_code_byte = 0 \<or> first_code_byte = 1) \<and> 4 < msg_len \<and> msg_len < 200 then
       sbind (sread (unat (msg_len + 4 - 5))) (\<lambda>_. read_message)
     else
       sbind (sread 3) (\<lambda>code_rest.
       sbind (sread (if 4 \<le> msg_len then unat (msg_len - 4) else 0)) (\<lambda>data.
       sret (from_le (first_code_byte # code_rest), data))))"

definition convert_file :: "rstring \<times> u64 \<times> u32 option \<Rightarrow> search_file" where
  "convert_file f =
     (case f of (filename, len, br) \<Rightarrow>
       \<lparr>sf_code = 1, sf_filename = filename, sf_size = len,
        sf_extension = (case path_extension filename of Some e \<Rightarrow> e | None \<Rightarrow> []),
        sf_attributes = (case br of
            Some b \<Rightarrow> [\<lparr>attribute_type = 0, attribute_value = b\<rparr>] | None \<Rightarrow> [])\<rparr>)"

definition convert_response ::
  "rstring \<Rightarrow> rstring \<Rightarrow> u32 \<Rightarrow> parsed_search_response \<Rightarrow> search_result" where
  "convert_response username ip port response =
     \<lparr>sr_username = username, sr_files = map convert_file (pr_files response),
      sr_has_slots = pr_slot_free response, sr_avg_speed = pr_avg_speed response,
      sr_queue_length = ucast (pr_queue_length response), sr_peer_ip = ip, sr_peer_port = port\<rparr>"

section \<open>What peers ask\<close>

record client_env =
  ce_unicode :: unicode
  ce_zlib :: "bytes \<Rightarrow> bytes"
  ce_inflate :: "bytes \<Rightarrow> bytes option"
  ce_on_disk :: "rstring \<Rightarrow> bool"
  ce_now :: nat

text \<open>An answer whose sending fails is only logged.\<close>

definition answer :: "u32 \<Rightarrow> bytes \<Rightarrow> conn \<Rightarrow> conn" where
  "answer code data c = snd (send_message code data c)"

text \<open>Code 9. The address is everything before the colon; the port of an incoming connection is not the
  peer's listening port and is stored as 0. \<open>None\<close> is a panic of the parser.\<close>

definition store_result :: "u32 \<Rightarrow> search_result \<Rightarrow> client \<Rightarrow> client" where
  "store_result tok r cl =
     (if tok \<in> active_search_tokens cl then
        cl\<lparr>search_results := (search_results cl)(tok \<mapsto>
             (case search_results cl tok of Some rs \<Rightarrow> rs | None \<Rightarrow> []) @ [r]),
           result_notify := result_notify cl @ [tok]\<rparr>
      else cl)"

definition on_search_result ::
  "client_env \<Rightarrow> rstring \<Rightarrow> rstring \<Rightarrow> bytes \<Rightarrow> client \<Rightarrow> client option" where
  "on_search_result env peer_username peer_addr data cl =
     (case fst (parse_file_search_response (inflated (ce_inflate env) data)) of
        Ok response \<Rightarrow>
          Some (store_result (pr_token response)
            (convert_response peer_username (takeWhile (\<lambda>c. c \<noteq> 58) peer_addr) 0 response) cl)
      | Err _ \<Rightarrow> Some cl
      | Panic \<Rightarrow> None)"

text \<open>Code 4.\<close>

definition on_get_shared_list :: "client \<Rightarrow> conn \<Rightarrow> conn" where
  "on_get_shared_list cl c =
     (case cl_sharing cl of
        Some service \<Rightarrow> answer 5 (compressed_file_list (sh_index service)) c
      | None \<Rightarrow> answer 5 (put_u32_le 0) c)"

text \<open>Code 8. The slots are reported as free and the speed and queue as 0, whatever they are.\<close>

definition on_file_search :: "client_env \<Rightarrow> bytes \<Rightarrow> client \<Rightarrow> conn \<Rightarrow> conn" where
  "on_file_search env data cl c =
     (if length data < 8 then c
      else
        (case rbind get_u32_le (\<lambda>tok. rbind decode_string (\<lambda>query. rret (tok, query))) data of
           (Ok (tok, query), _) \<Rightarrow>
             (case cl_sharing cl of
                None \<Rightarrow> c
              | Some service \<Rightarrow>
                  (let matches = search (ce_unicode env) (sh_index service) query 50 in
                   if matches = [] then c
                   else answer 9 (encode_search_response (ce_zlib env) (cl_username cl) tok matches True 0 0) c))
         | _ \<Rightarrow> c))"

definition reason_text :: "queue_error \<Rightarrow> rstring" where
  "reason_text e =
     (case e of
        SharingDisabled \<Rightarrow> str ''Sharing disabled''
      | NotShared path \<Rightarrow> str ''File not shared: '' @ path
      | FileGone \<Rightarrow> str ''File not shared'')"

text \<open>The upload service looks files up in the share index it was built with, which is the client's.\<close>

definition shared_index :: "client \<Rightarrow> share_index" where
  "shared_index cl = (case cl_sharing cl of Some s \<Rightarrow> sh_index s | None \<Rightarrow> share_index_new)"

definition ask_upload ::
  "client_env \<Rightarrow> rstring \<Rightarrow> rstring \<Rightarrow> upload_service \<Rightarrow> client \<Rightarrow> (u32, queue_error) outcome \<times> client" where
  "ask_upload env peer_username filename service cl =
     (case handle_queue_upload (shared_index cl) (ce_on_disk env) (ce_now env) peer_username filename service of
        (result, service') \<Rightarrow> (result, cl\<lparr>cl_upload := Some service'\<rparr>))"

text \<open>Code 43.\<close>

definition on_queue_upload ::
  "client_env \<Rightarrow> rstring \<Rightarrow> bytes \<Rightarrow> client \<Rightarrow> conn \<Rightarrow> client \<times> conn" where
  "on_queue_upload env peer_username data cl c =
     (case fst (decode_string data) of
        Ok filename \<Rightarrow>
          (case cl_upload cl of
             None \<Rightarrow> (cl, answer 50 (encode_string filename @ encode_string (str ''Sharing disabled'')) c)
           | Some service \<Rightarrow>
               (case ask_upload env peer_username filename service cl of
                  (Ok position, cl') \<Rightarrow> (cl', answer 44 (encode_string filename @ put_u32_le position) c)
                | (Err e, cl') \<Rightarrow>
                    (cl', answer 50 (encode_string filename @ encode_string (reason_text e)) c)
                | (Panic, cl') \<Rightarrow> (cl', c)))
      | _ \<Rightarrow> (cl, c))"

text \<open>Code 51.\<close>

definition on_place_request :: "rstring \<Rightarrow> bytes \<Rightarrow> client \<Rightarrow> conn \<Rightarrow> conn" where
  "on_place_request peer_username data cl c =
     (case fst (decode_string data) of
        Ok filename \<Rightarrow>
          (let position = (case cl_upload cl of
                 Some service \<Rightarrow>
                   (case upload_queue_position peer_username filename service of Some p \<Rightarrow> p | None \<Rightarrow> 0)
               | None \<Rightarrow> 0)
           in answer 44 (encode_string filename @ put_u32_le position) c)
      | _ \<Rightarrow> c)"

text \<open>Code 40: only the old way to ask for a download (direction 0) is answered.\<close>

definition on_transfer_request ::
  "client_env \<Rightarrow> rstring \<Rightarrow> bytes \<Rightarrow> client \<Rightarrow> conn \<Rightarrow> client \<times> conn" where
  "on_transfer_request env peer_username data cl c =
     (if length data < 8 then (cl, c)
      else
        (case rbind get_u32_le (\<lambda>direction. rbind get_u32_le (\<lambda>tok. rbind decode_string (\<lambda>filename.
               rret (direction, tok, filename)))) data of
           (Ok (direction, tok, filename), _) \<Rightarrow>
             if direction = 0 then
               (case cl_upload cl of
                  None \<Rightarrow> (cl, c)
                | Some service \<Rightarrow>
                    (case ask_upload env peer_username filename service cl of
                       (Ok _, cl') \<Rightarrow>
                         (cl', answer 41 (put_u32_le tok @ put_u8 0 @ encode_string (str ''Queued'')) c)
                     | (Err e, cl') \<Rightarrow>
                         (cl', answer 41 (put_u32_le tok @ put_u8 0 @ encode_string (reason_text e)) c)
                     | (Panic, cl') \<Rightarrow> (cl', c)))
             else (cl, c)
         | _ \<Rightarrow> (cl, c)))"

text \<open>Code 15.\<close>

definition on_user_info :: "client_env \<Rightarrow> client \<Rightarrow> conn \<Rightarrow> conn" where
  "on_user_info env cl c =
     (let (file_count, folder_count) =
            (case cl_sharing cl of
               Some service \<Rightarrow> (snd (counts (sh_index service)), fst (counts (sh_index service)))
             | None \<Rightarrow> (0, 0));
          description = str ''Rinse - Soulseek client'' @ [10] @ str ''Sharing ''
            @ show_nat (unat file_count) @ str '' files in '' @ show_nat (unat folder_count)
            @ str '' folders'';
          queue_size = (case cl_upload cl of
              Some service \<Rightarrow> len_u32 (queued_uploads (upload_statistics (ce_now env) service))
            | None \<Rightarrow> 0);
          slots_free = (case cl_upload cl of Some service \<Rightarrow> has_free_slots service | None \<Rightarrow> True)
      in answer 16 (encode_string description @ put_u8 0 @ put_u32_le 0 @ put_u32_le queue_size
           @ put_u8 (if slots_free then 1 else 0) @ put_u32_le 1) c)"

text \<open>One peer connection: the first message is read (within ten seconds) and answered; the connection
  is dropped afterwards. \<open>None\<close> is a panic, which ends only this connection's task.\<close>

definition handle_peer_message_dispatch ::
  "client_env \<Rightarrow> rstring \<Rightarrow> rstring \<Rightarrow> client \<Rightarrow> conn \<Rightarrow> (client \<times> conn) option" where
  "handle_peer_message_dispatch env peer_username peer_addr cl c =
     (case read_peer_message_with_init_handling c of
        (Ok (code, data), c') \<Rightarrow>
          if code = 9 then map_option (\<lambda>cl'. (cl', c')) (on_search_result env peer_username peer_addr data cl)
          else if code = 4 then Some (cl, on_get_shared_list cl c')
          else if code = 8 then Some (cl, on_file_search env data cl c')
          else if code = 43 then Some (on_queue_upload env peer_username data cl c')
          else if code = 51 then Some (cl, on_place_request peer_username data cl c')
          else if code = 40 then Some (on_transfer_request env peer_username data cl c')
          else if code = 15 then Some (cl, on_user_info env cl c')
          else Some (cl, c')
      | (Err _, c') \<Rightarrow> Some (cl, c')
      | (Panic, c') \<Rightarrow> None)"

section \<open>File connections and transfers\<close>

definition set_status :: "rstring \<Rightarrow> download_status \<Rightarrow> client \<Rightarrow> client" where
  "set_status filename status cl =
     (case cl_downloads cl filename of
        Some p \<Rightarrow> cl\<lparr>cl_downloads := (cl_downloads cl)(filename \<mapsto> p\<lparr>dp_status := status\<rparr>)\<rparr>
      | None \<Rightarrow> cl)"

text \<open>A registered waiter takes the place of one with the same token, whose wait is cancelled.\<close>

definition register_waiter :: "u32 \<Rightarrow> nat \<Rightarrow> client \<Rightarrow> nat option \<times> client" where
  "register_waiter tok w cl =
     (file_conn_waiters cl tok, cl\<lparr>file_conn_waiters := (file_conn_waiters cl)(tok \<mapsto> w)\<rparr>)"

text \<open>The end of a wait by cancellation or timeout.\<close>

definition waiter_gives_up :: "u32 \<Rightarrow> client \<Rightarrow> client" where
  "waiter_gives_up tok cl = cl\<lparr>file_conn_waiters := (file_conn_waiters cl)(tok := None)\<rparr>"

text \<open>The dispatcher.\<close>

definition route_file_conn :: "u32 \<Rightarrow> conn \<Rightarrow> client \<Rightarrow> client" where
  "route_file_conn tok c cl =
     (case file_conn_waiters cl tok of
        Some w \<Rightarrow> cl\<lparr>file_conn_waiters := (file_conn_waiters cl)(tok := None),
                    delivered := delivered cl @ [(w, c)]\<rparr>
      | None \<Rightarrow> cl)"

record running_transfer =
  rn_filename :: rstring
  rn_filesize :: u64
  rn_token :: u32
  rn_conn :: conn
  rn_report :: "(int \<times> int \<times> int option) option"

datatype download_error =
    DE_No_Address | DE_Unavailable u32 | DE_Connect | DE_Cancelled | DE_Waited nat | DE_Peer peer_error

text \<open>The task that receives a file: what it records and reports when it ends. \<open>text\<close> shows errors.\<close>

definition finish_transfer ::
  "(download_error \<Rightarrow> rstring) \<Rightarrow> nat option \<Rightarrow> read_event list \<Rightarrow> running_transfer \<Rightarrow> client
   \<Rightarrow> transfer_complete option \<times> client" where
  "finish_transfer show_error disk evs t cl =
     (let result = (case fst (receive_file_data disk (rn_filesize t) evs (rn_conn t)) of
            Ok (n, file, prog) \<Rightarrow> Ok n | Err e \<Rightarrow> Err (show_error (DE_Peer e)) | Panic \<Rightarrow> Panic);
          cl = (case cl_downloads cl (rn_filename t) of
              None \<Rightarrow> cl
            | Some p \<Rightarrow>
                (case result of
                   Ok n \<Rightarrow> cl\<lparr>cl_downloads := (cl_downloads cl)(rn_filename t \<mapsto>
                        p\<lparr>dp_downloaded_bytes := n, dp_status := DS_Completed\<rparr>)\<rparr>
                 | Err e \<Rightarrow> cl\<lparr>cl_downloads := (cl_downloads cl)(rn_filename t \<mapsto>
                        p\<lparr>dp_status := DS_Failed e\<rparr>)\<rparr>
                 | Panic \<Rightarrow> cl))
      in (case rn_report t of
            Some (i, q, l) \<Rightarrow>
              (Some \<lparr>tx_item_id = i, tx_queue_id = q, tx_list_id = l, tx_transfer_token = rn_token t,
                     tx_result = result\<rparr>, cl)
          | None \<Rightarrow> (None, cl)))"

text \<open>The acceptor: a file connection resumes a download the peer had queued, or goes to the dispatcher;
  a peer connection is answered. \<open>None\<close> is a panic of the connection's task.\<close>

definition resume_download :: "pending_download \<Rightarrow> conn \<Rightarrow> running_transfer" where
  "resume_download pd c =
     \<lparr>rn_filename = pd_filename pd, rn_filesize = pd_filesize pd, rn_token = pd_transfer_token pd,
      rn_conn = c,
      rn_report = (case (pd_reports pd, pd_item_id pd, pd_queue_id pd) of
          (True, Some i, Some q) \<Rightarrow> Some (i, q, pd_list_id pd) | _ \<Rightarrow> None)\<rparr>"

definition accept_connection ::
  "client_env \<Rightarrow> rstring \<Rightarrow> client \<Rightarrow> conn \<Rightarrow> (client \<times> conn \<times> running_transfer option) option" where
  "accept_connection env peer_addr cl c =
     (case handle_incoming_connection (cl_username cl) c of
        (Ok (File_Conn tok), c') \<Rightarrow>
          (case pending_downloads cl tok of
             Some pd \<Rightarrow>
               Some (set_status (pd_filename pd) DS_InProgress
                       (cl\<lparr>pending_downloads := (pending_downloads cl)(tok := None)\<rparr>),
                     c', Some (resume_download pd c'))
           | None \<Rightarrow> Some (route_file_conn tok c' cl, c', None))
      | (Ok (Peer_Conn username _), c') \<Rightarrow>
          map_option (\<lambda>(cl', c''). (cl', c'', None)) (handle_peer_message_dispatch env username peer_addr cl c')
      | (Err _, c') \<Rightarrow> Some (cl, c', None)
      | (Panic, c') \<Rightarrow> None)"

text \<open>A connection the server asks for: at most 50 at a time; if it fails the server is told.\<close>

definition on_connect_request ::
  "client_env \<Rightarrow> nat \<Rightarrow> (rstring \<Rightarrow> u32 \<Rightarrow> conn option) \<Rightarrow> connect_to_peer_msg \<Rightarrow> client \<times> router
   \<Rightarrow> (client \<times> router) option" where
  "on_connect_request env handlers dial msg s =
     (case s of (cl, rt) \<Rightarrow>
       if active_search_tokens cl = {} \<and> cl_sharing cl = None then Some (cl, rt)
       else if 50 \<le> handlers then Some (cl, rt)
       else
         (let ip = loopback (cl_external_ip cl) (cm_ip msg);
              refused = Some (cl, snd (report_cant_connect (cm_token msg) (cm_username msg) rt))
          in case dial ip (cm_port msg) of
               None \<Rightarrow> refused
             | Some c \<Rightarrow>
                 (case send_pierce_firewall (cm_token msg) c of
                    (Ok _, c') \<Rightarrow>
                      map_option (\<lambda>(cl', _). (cl', rt))
                        (handle_peer_message_dispatch env (cm_username msg)
                           (ip @ [58] @ show_nat (unat (cm_port msg))) cl c')
                  | _ \<Rightarrow> refused)))"

section \<open>Searches\<close>

text \<open>A search registers its token, asks the server, waits in rounds, takes what arrived, waits a little
  longer and unregisters. Each of these is a step; other tasks run in between. Times are nanoseconds
  since the search began; a round reads the clock several times.\<close>

definition register_search :: "u32 \<Rightarrow> client \<Rightarrow> client" where
  "register_search tok cl =
     cl\<lparr>active_search_tokens := insert tok (active_search_tokens cl),
       search_results := (search_results cl)(tok \<mapsto> [])\<rparr>"

definition ask_server :: "u32 \<Rightarrow> rstring \<Rightarrow> router \<Rightarrow> bool \<times> router" where
  "ask_server tok query rt = send_to_server 26 (put_u32_le tok @ encode_string query) rt"

definition results_with_files :: "u32 \<Rightarrow> client \<Rightarrow> nat" where
  "results_with_files tok cl =
     (case search_results cl tok of
        Some rs \<Rightarrow> length (filter (\<lambda>r. sr_files r \<noteq> []) rs) | None \<Rightarrow> 0)"

record round_times =
  rd_head :: nat
  rd_abort :: nat
  rd_min :: nat
  rd_quiet :: nat
  rd_note :: nat

text \<open>Whether the round ends the wait; \<open>n\<close> is the number of results that have files.\<close>

definition leaves_wait :: "nat \<Rightarrow> nat \<Rightarrow> nat \<Rightarrow> round_times \<Rightarrow> bool" where
  "leaves_wait timeout last_result n t \<longleftrightarrow>
     timeout \<le> rd_head t
     \<or> 7000000000 < rd_abort t \<and> n = 0
     \<or> 3000000000 < rd_min t
         \<and> (10 \<le> n \<or> 5 \<le> n \<and> 2000000000 < rd_quiet t - last_result)"

definition take_results :: "u32 \<Rightarrow> client \<Rightarrow> search_result list \<times> client" where
  "take_results tok cl =
     (case search_results cl tok of Some rs \<Rightarrow> rs | None \<Rightarrow> [],
      cl\<lparr>search_results := (search_results cl)(tok := None)\<rparr>)"

definition unregister_search :: "u32 \<Rightarrow> client \<Rightarrow> client" where
  "unregister_search tok cl = cl\<lparr>active_search_tokens := active_search_tokens cl - {tok}\<rparr>"

definition no_results_text :: "rstring \<Rightarrow> rstring" where
  "no_results_text query =
     str ''No results found for search '' @ [39] @ query @ [39] @ str '' - no peers responded''"

definition search_answer :: "rstring \<Rightarrow> search_result list \<Rightarrow> (search_result list, rstring) outcome" where
  "search_answer query results = (if results = [] then Err (no_results_text query) else Ok results)"

section \<open>Starting a download\<close>

text \<open>What the network answers: the address of the peer at each of the up to three requests, the
  connection attempts, the messages that arrive within the minute, and the file connection that
  arrives for the token within thirty seconds.\<close>

record download_answers =
  da_address :: "nat \<Rightarrow> (rstring \<times> u32) option"
  da_dial :: "rstring \<Rightarrow> u32 \<Rightarrow> conn option"
  da_messages :: nat
  da_routed :: "u32 \<Rightarrow> (conn, download_error) outcome"
  da_dial_f :: "rstring \<Rightarrow> u32 \<Rightarrow> conn option"
  da_text :: "download_error \<Rightarrow> rstring"

definition dial_peer :: "download_answers \<Rightarrow> client \<Rightarrow> rstring \<Rightarrow> u32 \<Rightarrow> (conn, download_error) outcome" where
  "dial_peer a cl ip port =
     (case da_dial a (loopback (cl_external_ip cl) ip) port of
        None \<Rightarrow> Err DE_Connect
      | Some c \<Rightarrow>
          (case send_peer_init (cl_username cl) (str ''P'') 0 c of
             (Ok _, c') \<Rightarrow> Ok c' | (Err e, _) \<Rightarrow> Err (DE_Peer e) | (Panic, _) \<Rightarrow> Panic))"

definition connect_to_peer_for_download ::
  "download_answers \<Rightarrow> client \<Rightarrow> rstring \<Rightarrow> u32 \<Rightarrow> (conn, download_error) outcome" where
  "connect_to_peer_for_download a cl peer_ip peer_port =
     (if 0 < peer_port \<and> peer_ip \<noteq> [] \<and> peer_ip \<noteq> str ''0.0.0.0'' then dial_peer a cl peer_ip peer_port
      else
        (case da_address a 1 of
           None \<Rightarrow> Err DE_No_Address
         | Some (ip, port) \<Rightarrow>
             if port = 0 \<or> ip = [] then Err (DE_Unavailable port) else dial_peer a cl ip port))"

definition no_address_text :: rstring where
  "no_address_text = str ''No stored P connection and cannot get peer address''"

text \<open>The connection to negotiate on, or the reason there is none. A stored connection is used up.\<close>

definition open_p_connection ::
  "download_answers \<Rightarrow> rstring \<Rightarrow> rstring \<Rightarrow> u32 \<Rightarrow> client \<Rightarrow> (conn, rstring) outcome \<times> client" where
  "open_p_connection a username peer_ip peer_port cl =
     (case peer_streams cl username of
        Some c \<Rightarrow> (Ok c, cl\<lparr>peer_streams := (peer_streams cl)(username := None)\<rparr>)
      | None \<Rightarrow>
          (case (if peer_ip \<noteq> [] \<and> 0 < peer_port then Some (peer_ip, peer_port)
                 else (case da_address a 0 of
                         Some (ip, port) \<Rightarrow> if 0 < port then Some (ip, port) else None
                       | None \<Rightarrow> None)) of
             None \<Rightarrow> (Err no_address_text, cl)
           | Some (ip, port) \<Rightarrow>
               (case connect_to_peer_for_download a cl ip port of
                  Ok c \<Rightarrow> (Ok c, cl)
                | Err e \<Rightarrow> (Err (str ''Failed to connect to peer: '' @ da_text a e), cl)
                | Panic \<Rightarrow> (Panic, cl))))"

text \<open>The connection we open when the peer's does not come: an answer to our init message is read if one
  comes within five seconds.\<close>

definition proactive_f_connection :: "rstring \<Rightarrow> u32 \<Rightarrow> unit sop" where
  "proactive_f_connection ours tok =
     (let data = encode_string ours @ encode_string (str ''F'') @ put_u32_le 0 in
      sbind (swrite (put_u32_le (1 + len_u32 (length data)))) (\<lambda>_.
      sbind (swrite (put_u8 1)) (\<lambda>_. sbind (swrite data) (\<lambda>_.
      sbind (\<lambda>c. case sread_u32_timed c of
               (Ok n, c') \<Rightarrow> if 5 < n \<and> n < 200 then
                   sbind sread_u8 (\<lambda>b. if b = 1 then sbind (sread (unat (n - 1))) (\<lambda>_. sret ()) else sret ()) c'
                 else (Ok (), c')
             | (_, c') \<Rightarrow> (Ok (), c')) (\<lambda>_.
      swrite (put_u32_le tok))))))"

text \<open>Here \<open>Panic\<close> also stands for a read that never returns.\<close>

definition open_f_connection ::
  "download_answers \<Rightarrow> client \<Rightarrow> rstring \<Rightarrow> u32 \<Rightarrow> u32 \<Rightarrow> (conn, download_error) outcome" where
  "open_f_connection a cl peer_ip peer_port tok =
     (case da_routed a tok of
        Ok c \<Rightarrow> Ok c
      | Panic \<Rightarrow> Panic
      | Err e \<Rightarrow>
          (let (ip, port) =
                 (if peer_ip \<noteq> [] \<and> 0 < peer_port then (peer_ip, peer_port)
                  else (case da_address a 2 of
                          Some (ip, port) \<Rightarrow> if 0 < port then (ip, port) else ([], 0)
                        | None \<Rightarrow> ([], 0)));
               ip = loopback (cl_external_ip cl) ip
           in if ip \<noteq> [] \<and> 0 < port then
                (case da_dial_f a ip port of
                   None \<Rightarrow> Err DE_Connect
                 | Some c \<Rightarrow>
                     (case proactive_f_connection (cl_username cl) tok c of
                        (Ok _, c') \<Rightarrow> Ok c'
                      | (Err e', _) \<Rightarrow> if e' = Stalled then Panic else Err (DE_Peer e')
                      | (Panic, _) \<Rightarrow> Panic))
              else Err e))"

text \<open>The answer to the queue, the completion sent at once, the transfer that was started.\<close>

record init_outcome =
  io_init :: download_init
  io_completion :: "transfer_complete option"
  io_transfer :: "running_transfer option"

definition download_fails ::
  "rstring \<Rightarrow> rstring \<Rightarrow> transfer_complete option \<Rightarrow> client \<Rightarrow> init_outcome option \<times> client" where
  "download_fails filename reason completion cl =
     (Some \<lparr>io_init = Download_Failed reason, io_completion = completion, io_transfer = None\<rparr>,
      set_status filename (DS_Failed reason) cl)"

definition start_progress :: "rstring \<Rightarrow> u64 \<Rightarrow> client \<Rightarrow> client" where
  "start_progress filename filesize cl =
     cl\<lparr>cl_downloads := (cl_downloads cl)(filename \<mapsto>
        \<lparr>dp_filename = filename, dp_total_bytes = filesize, dp_downloaded_bytes = 0,
         dp_status = DS_Pending\<rparr>)\<rparr>"

definition set_total :: "rstring \<Rightarrow> u64 \<Rightarrow> client \<Rightarrow> client" where
  "set_total filename n cl =
     (case cl_downloads cl filename of
        Some p \<Rightarrow> cl\<lparr>cl_downloads := (cl_downloads cl)(filename \<mapsto> p\<lparr>dp_total_bytes := n\<rparr>)\<rparr>
      | None \<Rightarrow> cl)"

text \<open>After the negotiation. \<open>None\<close> means that the call does not return: a panic, or a read without a
  timeout on a connection that has fallen silent.\<close>

definition allowed_download ::
  "download_answers \<Rightarrow> rstring \<Rightarrow> rstring \<Rightarrow> u32 \<Rightarrow> int \<times> int \<times> int option \<Rightarrow> u64 \<Rightarrow> u32 \<Rightarrow> client
   \<Rightarrow> init_outcome option \<times> client" where
  "allowed_download a filename peer_ip peer_port ids actual_size tok cl =
     (let cl = set_total filename actual_size (set_status filename DS_InProgress cl);
          cl = waiter_gives_up tok (snd (register_waiter tok 0 cl))
      in case open_f_connection a cl peer_ip peer_port tok of
           Ok c \<Rightarrow>
             (Some \<lparr>io_init = Transfer_Spawned (fst ids) tok, io_completion = None,
                 io_transfer = Some \<lparr>rn_filename = filename, rn_filesize = actual_size, rn_token = tok,
                   rn_conn = c, rn_report = Some ids\<rparr>\<rparr>, cl)
         | Err e \<Rightarrow>
             (let reason = str ''Failed to establish F connection: '' @ da_text a e in
              download_fails filename reason
                (Some \<lparr>tx_item_id = fst ids, tx_queue_id = fst (snd ids), tx_list_id = snd (snd ids),
                   tx_transfer_token = tok, tx_result = Err reason\<rparr>) cl)
         | Panic \<Rightarrow> (None, cl))"

definition queued_download ::
  "rstring \<Rightarrow> rstring \<Rightarrow> u64 \<Rightarrow> rstring \<Rightarrow> int \<times> int \<times> int option \<Rightarrow> u32 \<Rightarrow> u32 option \<Rightarrow> rstring \<Rightarrow> client
   \<Rightarrow> init_outcome option \<times> client" where
  "queued_download username filename filesize output_path ids tok position reason cl =
     (let cl = set_status filename DS_Queued cl in
      (Some \<lparr>io_init = Download_Queued tok position reason, io_completion = None, io_transfer = None\<rparr>,
       cl\<lparr>pending_downloads := (pending_downloads cl)(tok \<mapsto>
         \<lparr>pd_username = username, pd_filename = filename, pd_filesize = filesize, pd_transfer_token = tok,
          pd_output_path = output_path, pd_item_id = Some (fst ids), pd_queue_id = Some (fst (snd ids)),
          pd_list_id = snd (snd ids), pd_reports = True\<rparr>)\<rparr>))"

definition denied_download ::
  "rstring \<Rightarrow> int \<times> int \<times> int option \<Rightarrow> rstring \<Rightarrow> client \<Rightarrow> init_outcome option \<times> client" where
  "denied_download filename ids reason cl =
     download_fails filename reason
       (Some \<lparr>tx_item_id = fst ids, tx_queue_id = fst (snd ids), tx_list_id = snd (snd ids),
          tx_transfer_token = 0, tx_result = Err reason\<rparr>) cl"

definition negotiated_download ::
  "download_answers \<Rightarrow> rstring \<Rightarrow> rstring \<Rightarrow> u64 \<Rightarrow> rstring \<Rightarrow> u32 \<Rightarrow> rstring \<Rightarrow> int \<times> int \<times> int option
   \<Rightarrow> (negotiation, peer_error) outcome \<Rightarrow> client \<Rightarrow> init_outcome option \<times> client" where
  "negotiated_download a username filename filesize peer_ip peer_port output_path ids result cl =
     (case result of
        Ok (Allowed actual_size tok) \<Rightarrow> allowed_download a filename peer_ip peer_port ids actual_size tok cl
      | Ok (Queued tok position reason) \<Rightarrow>
          queued_download username filename filesize output_path ids tok position reason cl
      | Ok (Denied reason) \<Rightarrow> denied_download filename ids reason cl
      | Err e \<Rightarrow>
          (if e = Stalled then (None, cl)
           else download_fails filename (str ''Negotiation failed: '' @ da_text a (DE_Peer e)) None cl)
      | Panic \<Rightarrow> (None, cl))"

definition initiate_download ::
  "download_answers \<Rightarrow> rstring \<Rightarrow> rstring \<Rightarrow> u64 \<Rightarrow> rstring \<Rightarrow> u32 \<Rightarrow> rstring \<Rightarrow> int \<times> int \<times> int option
   \<Rightarrow> client \<Rightarrow> init_outcome option \<times> client" where
  "initiate_download a username filename filesize peer_ip peer_port output_path ids cl =
     (case open_p_connection a username peer_ip peer_port (start_progress filename filesize cl) of
        (Panic, cl) \<Rightarrow> (None, cl)
      | (Err reason, cl) \<Rightarrow> download_fails filename reason None cl
      | (Ok c, cl) \<Rightarrow>
          (case queue_upload filename c of
             (Err e, _) \<Rightarrow>
               download_fails filename (str ''Failed to send QueueUpload: '' @ da_text a (DE_Peer e)) None cl
           | (Panic, _) \<Rightarrow> (None, cl)
           | (Ok _, c) \<Rightarrow>
               negotiated_download a username filename filesize peer_ip peer_port output_path ids
                 (fst (wait_for_transfer_request (da_messages a) filename c)) cl))"

end
