(* ===== verification/Client_Properties.thy ===== *)
theory Client_Properties
  imports Client
begin

text \<open>
  The properties of the client: its requests are the messages of the protocol, how a login and a
  download end, what a peer that runs the same program gets, where a file connection goes, and which
  results a search returns.
\<close>

section \<open>Requests\<close>

lemma server_frame_is_frame: "server_frame code data = Messages.frame (put_u32_le code @ data)"
  by (simp add: server_frame_def Messages.frame_def)

lemma send_message_run [simp]:
  "send_message code data \<lparr>c_in = i, c_closes = cl, c_out = out, c_write_ok = True\<rparr> =
     (Ok (), \<lparr>c_in = i, c_closes = cl, c_out = out @ server_frame code data, c_write_ok = True\<rparr>)"
  by (simp add: send_message_def server_frame_def)

lemma sread_keeps_out: "c_out (snd (sread_gen e n c)) = c_out c"
  by (simp add: sread_gen_def)

lemma read_message_keeps_out: "c_out (snd (read_message c)) = c_out c"
  by (auto simp: read_message_def sread_u32_def sread_def sread_gen_def Let_def split: prod.splits outcome.splits)

lemma on_data_keeps: "snd (on_data r d c) = c"
  by (simp add: on_data_def split: outcome.splits)

lemma login_out:
  "c_out (snd (login md5_hex username password
      \<lparr>c_in = i, c_closes = cl, c_out = out, c_write_ok = True\<rparr>)) =
   out @ server_frame 1 (encode_string username @ encode_string password @ put_u32_le 160
     @ encode_string (md5_hex (as_bytes (username @ password))) @ put_u32_le 1)"
proof -
  let ?c = "\<lparr>c_in = i, c_closes = cl, c_out = out @ server_frame 1 (encode_string username
     @ encode_string password @ put_u32_le 160
     @ encode_string (md5_hex (as_bytes (username @ password))) @ put_u32_le 1), c_write_ok = True\<rparr>"
  obtain m c' where m: "read_message ?c = (m, c')" by fastforce
  then have o: "c_out c' = c_out ?c" using read_message_keeps_out [of ?c] by simp
  show ?thesis
  proof (cases m)
    case (Ok p)
    obtain code response where p: "p = (code, response)" by fastforce
    obtain d c'' where d: "on_data decode_login response c' = (d, c'')" by fastforce
    then have "c'' = c'" using on_data_keeps [of decode_login response c'] by simp
    then show ?thesis
      using m o d by (cases d) (auto simp: login_def Ok p)
  qed (use m o in \<open>simp_all add: login_def\<close>)
qed

text \<open>Every request the client writes by hand is exactly the message the encoder of the message types
  produces for it: the login, the waiting port, the shared counts, the search, the address request and
  the private message.\<close>

lemma requests_match_messages:
  assumes "c = \<lparr>c_in = i, c_closes = cl, c_out = [], c_write_ok = True\<rparr>"
    and "rt_write_ok r" and "rt_out r = []"
  shows "server_encode (Login username password 160 (md5_hex (as_bytes (username @ password))) 1) =
      Ok (c_out (snd (login md5_hex username password c)))
    \<and> server_encode (SetWaitPort port (Some 1) (Some obfuscated)) =
      Ok (c_out (snd (set_wait_port port (Some obfuscated) c)))
    \<and> server_encode (SetWaitPort port None None) = Ok (c_out (snd (set_wait_port port None c)))
    \<and> server_encode (SharedFoldersFiles folders files) =
      Ok (c_out (snd (set_shared_counts folders files c)))
    \<and> server_encode (FileSearch tok query) = Ok (rt_out (snd (ask_server tok query r)))
    \<and> server_encode (GetPeerAddress username) = Ok (rt_out (snd (request_peer_address u username w r)))
    \<and> server_encode (MessageUser username message) =
      Ok (rt_out (snd (send_private_message time username message r)))"
  using assms(2,3)
  by (simp add: assms(1) login_out set_wait_port_def set_shared_counts_def ask_server_def
      request_peer_address_def send_private_message_def send_to_server_def store_chat_def Let_def
      server_encode_def SC_defs server_frame_is_frame)

lemma requests_match_messages_witness:
  "server_encode (FileSearch 7 (str ''song'')) = Ok (rt_out (snd (ask_server 7 (str ''song'') router_new)))"
  using requests_match_messages [of "\<lparr>c_in = [], c_closes = True, c_out = [], c_write_ok = True\<rparr>" "[]" True
      router_new "[]" "[]" "\<lambda>_. []" 1 1 0 0 7 "str ''song''" ascii_tables 0 "[]" 0]
  by (simp add: router_new_def)

section \<open>Login\<close>

lemma read_message_frame:
  assumes "length data < 4294967292"
  shows "read_message \<lparr>c_in = server_frame code data @ i, c_closes = cl, c_out = out, c_write_ok = wo\<rparr> =
     (Ok (code, data), \<lparr>c_in = i, c_closes = cl, c_out = out, c_write_ok = wo\<rparr>)"
proof -
  have u: "unat (len_u32 (4 + length data)) = 4 + length data" using assms by simp
  have "\<not> len_u32 (4 + length data) < 4"
    using u by (simp add: word_less_nat_alt del: unat_len_u32)
  moreover have "len_u32 (4 + length data) = 4 \<longleftrightarrow> data = []"
    using u by (auto simp: word_unat_eq_iff simp del: unat_len_u32)
  ultimately show ?thesis
    using u by (simp add: read_message_def server_frame_def wire_rt sread_run Let_def del: unat_len_u32)
qed

text \<open>How a login ends: the server's acceptance gives our external address as it was sent (or none, in
  an acceptance without one); its refusal is an error with the server's reason. But any other message
  that happens to come first is taken for an acceptance.\<close>

lemma login_outcome:
  assumes "fits_u32 greeting" and "length (as_bytes greeting) + length extra < 4294967000"
    and "success \<noteq> 0" and "code \<noteq> 1" and "length data < 4294967292"
    and "start = (\<lambda>bs. \<lparr>c_in = bs @ i, c_closes = cl, c_out = [], c_write_ok = True\<rparr>)"
  shows "fst (login md5_hex username password
        (start (server_frame 1 ([success] @ encode_string greeting @ [d, c, b, a] @ extra)))) =
      Ok (Some (join_str (str ''.'') (map (\<lambda>b. show_nat (unat b)) [a, b, c, d])))
    \<and> fst (login md5_hex username password
        (start (server_frame 1 ([success] @ encode_string greeting)))) = Ok None
    \<and> fst (login md5_hex username password
        (start (server_frame 1 ([0] @ encode_string greeting @ extra)))) = Err (LoginFailed greeting)
    \<and> fst (login md5_hex username password (start (server_frame code data))) = Ok None"
proof -
  note run = login_def read_message_frame on_data_def decode_login_def decode_encode_string [OF assms(1)]
  have e: "decode_string (encode_string greeting) = (Ok greeting, [])"
    using decode_encode_string [OF assms(1), of "[]"] by simp
  have "fst (login md5_hex username password
        (start (server_frame 1 ([success] @ encode_string greeting @ [d, c, b, a] @ extra)))) =
      Ok (Some (join_str (str ''.'') (map (\<lambda>b. show_nat (unat b)) [a, b, c, d])))"
    using assms(2,3) by (simp add: assms(6) run wire_len get_ip_ok show_ip_def)
  moreover have "fst (login md5_hex username password
        (start (server_frame 1 ([success] @ encode_string greeting)))) = Ok None"
    using assms(2,3) by (simp add: assms(6) run wire_len e)
  moreover have "fst (login md5_hex username password
        (start (server_frame 1 ([0] @ encode_string greeting @ extra)))) = Err (LoginFailed greeting)"
    using assms(2) by (simp add: assms(6) run wire_len)
  moreover have "fst (login md5_hex username password (start (server_frame code data))) = Ok None"
    using assms(4,5) by (simp add: assms(6) run)
  ultimately show ?thesis by blast
qed

lemma login_outcome_witness:
  "fst (login (\<lambda>_. []) (str ''me'') (str ''pw'')
      \<lparr>c_in = server_frame 1 ([0] @ encode_string (str ''INVALIDPASS'') @ []) @ [], c_closes = True,
       c_out = [], c_write_ok = True\<rparr>) = Err (LoginFailed (str ''INVALIDPASS''))"
proof -
  have fits: "fits_u32 (str ''INVALIDPASS'')"
    "length (as_bytes (str ''INVALIDPASS'')) + length ([] :: bytes) < 4294967000"
    by (simp_all add: fits_u32_def str_def is_scalar_def utf8_char_def)
  from login_outcome [OF fits, of 1 2 "[]" _ "[]" True "\<lambda>_. []" "str ''me''" "str ''pw''" 0 0 0 0,
      OF _ _ _ refl]
  show ?thesis by simp
qed

section \<open>How a download starts\<close>

lemma sbind_fst_Ok:
  "fst (sbind p f c) = Ok x \<longleftrightarrow> (\<exists>y c'. p c = (Ok y, c') \<and> fst (f y c') = Ok x)"
  by (auto split: prod.splits outcome.splits)

lemma wait_never_queued: "fst (wait_for_transfer_request n f c) \<noteq> Ok (Queued tok position reason)"
proof (induction n arbitrary: c)
  case (Suc n)
  then show ?case
    by (auto simp: sbind_fst_Ok simp del: sbind.simps split: if_splits prod.splits)
qed simp

text \<open>The bytes of a peer hold, among whole messages, the offer of a file: a length, the code 40, and a body of that
  length with the direction 1, the token, a name and the size.\<close>

inductive offered :: "bytes \<Rightarrow> u32 \<Rightarrow> u64 \<Rightarrow> bool" where
  this_message: "length h = 4 \<Longrightarrow> length k = 4 \<Longrightarrow> from_le k = (40 :: u32) \<Longrightarrow> length data = unat ((from_le h :: u32) - 4)
    \<Longrightarrow> fst (decode_transfer_request data) = Ok (1, tok, name, n) \<Longrightarrow> offered (h @ k @ data @ post) tok n"
| later_message: "length h = 4 \<Longrightarrow> length k = 4 \<Longrightarrow> length data = unat ((from_le h :: u32) - 4)
    \<Longrightarrow> offered post tok n \<Longrightarrow> offered (h @ k @ data @ post) tok n"

lemma sread_gen_Ok:
  "sread_gen e n c = (Ok bs, c') \<longleftrightarrow> length bs = n \<and> c_in c = bs @ c_in c' \<and> c' = c\<lparr>c_in := c_in c'\<rparr>"
  by (auto simp: sread_gen_def append_eq_conv_conj split: if_splits)

lemma sread_words_Ok:
  "sread_u32_timed c = (Ok w, c') \<Longrightarrow> \<exists>h. length h = 4 \<and> from_le h = w \<and> c_in c = h @ c_in c'"
  "sread_u32 c = (Ok w, c') \<Longrightarrow> \<exists>h. length h = 4 \<and> from_le h = w \<and> c_in c = h @ c_in c'"
  by (auto simp: sread_u32_timed_def sread_u32_def sread_def sread_gen_Ok split: prod.splits outcome.splits)

lemma on_data_Ok: "on_data r data c = (Ok x, c') \<longleftrightarrow> fst (r data) = Ok x \<and> c' = c"
  by (auto simp: on_data_def split: outcome.splits)

lemma allowed_offered:
  "fst (wait_for_transfer_request b f c) = Ok (Allowed n tok) \<Longrightarrow> offered (c_in c) tok n"
proof (induction b arbitrary: c)
  case (Suc b)
  from Suc.prems obtain msg_len c1 code c2 data c3 where r: "sread_u32_timed c = (Ok msg_len, c1)"
      "sread_u32 c1 = (Ok code, c2)" "sread (unat (msg_len - 4)) c2 = (Ok data, c3)"
    and rest: "offered (c_in c3) tok n \<or> code = 40 \<and> (\<exists>name. fst (decode_transfer_request data) = Ok (1, tok, name, n))"
    by (auto simp: sbind_fst_Ok on_data_Ok dest!: Suc.IH simp del: sbind.simps split: if_splits prod.splits)
  from r obtain h k where "length h = 4" "from_le h = msg_len" "length k = 4" "from_le k = code"
    "c_in c = h @ k @ data @ c_in c3" "length data = unat (msg_len - 4)"
    by (auto simp: sread_def sread_gen_Ok dest!: sread_words_Ok)
  with rest show ?case by (auto intro: this_message later_message)
qed simp

lemma set_status_fields [simp]:
  "pending_downloads (set_status f st cl) = pending_downloads cl"
  "peer_streams (set_status f st cl) = peer_streams cl"
  "search_results (set_status f st cl) = search_results cl"
  "active_search_tokens (set_status f st cl) = active_search_tokens cl"
  "file_conn_waiters (set_status f st cl) = file_conn_waiters cl"
  by (simp_all add: set_status_def split: option.splits)

text \<open>How the start of a download may end: with a transfer of a size under a token that will report its end and a
  progress entry that says so, or with a failure whose reason is in the entry and in the completion, if there is one.\<close>

definition download_started ::
  "rstring \<Rightarrow> int \<times> int \<times> int option \<Rightarrow> u32 \<Rightarrow> u64 \<Rightarrow> init_outcome \<Rightarrow> client \<Rightarrow> bool" where
  "download_started filename ids tok n res cl \<longleftrightarrow>
     (\<exists>c p. res = \<lparr>io_init = Transfer_Spawned (fst ids) tok, io_completion = None,
          io_transfer = Some \<lparr>rn_filename = filename, rn_filesize = n, rn_token = tok, rn_conn = c,
            rn_report = Some ids\<rparr>\<rparr>
        \<and> cl_downloads cl filename = Some p \<and> dp_status p = DS_InProgress \<and> dp_total_bytes p = n)"

definition download_failed :: "rstring \<Rightarrow> int \<times> int \<times> int option \<Rightarrow> init_outcome \<Rightarrow> client \<Rightarrow> bool" where
  "download_failed filename ids res cl \<longleftrightarrow>
     (\<exists>reason completion p. res = \<lparr>io_init = Download_Failed reason, io_completion = completion, io_transfer = None\<rparr>
        \<and> (completion = None \<or> (\<exists>tok. completion = Some \<lparr>tx_item_id = fst ids, tx_queue_id = fst (snd ids),
             tx_list_id = snd (snd ids), tx_transfer_token = tok, tx_result = Err reason\<rparr>))
        \<and> cl_downloads cl filename = Some p \<and> dp_status p = DS_Failed reason)"

text \<open>The peer offered a file of this size under this token on the connection opened to it.\<close>

definition peer_offered ::
  "download_answers \<Rightarrow> rstring \<Rightarrow> rstring \<Rightarrow> u32 \<Rightarrow> client \<Rightarrow> u32 \<Rightarrow> u64 \<Rightarrow> bool" where
  "peer_offered a username peer_ip peer_port cl tok n \<longleftrightarrow>
     (\<exists>c cl'. open_p_connection a username peer_ip peer_port cl = (Ok c, cl') \<and> offered (c_in c) tok n)"

definition same_elsewhere :: "rstring \<Rightarrow> client \<Rightarrow> client \<Rightarrow> bool" where
  "same_elsewhere filename cl cl' \<longleftrightarrow>
     pending_downloads cl' = pending_downloads cl
     \<and> (\<forall>g. g \<noteq> filename \<longrightarrow> cl_downloads cl' g = cl_downloads cl g)
     \<and> search_results cl' = search_results cl \<and> active_search_tokens cl' = active_search_tokens cl
     \<and> (\<exists>p. cl_downloads cl' filename = Some p)"

lemma set_status_same: "cl_downloads cl filename = Some p \<Longrightarrow> same_elsewhere filename cl (set_status filename st cl)"
  by (simp add: same_elsewhere_def set_status_def)

lemma download_fails_outcome:
  assumes "download_fails filename reason completion cl = (Some res, cl')"
    and "cl_downloads cl filename = Some p"
    and "completion = None \<or> (\<exists>tok. completion = Some \<lparr>tx_item_id = fst ids, tx_queue_id = fst (snd ids),
             tx_list_id = snd (snd ids), tx_transfer_token = tok, tx_result = Err reason\<rparr>)"
  shows "download_failed filename ids res cl' \<and> same_elsewhere filename cl cl'"
proof
  from assms(1) have r: "res = \<lparr>io_init = Download_Failed reason, io_completion = completion, io_transfer = None\<rparr>"
    and c: "cl' = set_status filename (DS_Failed reason) cl"
    by (simp_all add: download_fails_def)
  from c assms(2) have "cl_downloads cl' filename = Some (p\<lparr>dp_status := DS_Failed reason\<rparr>)"
    by (simp add: set_status_def)
  with assms(3) show "download_failed filename ids res cl'"
    unfolding download_failed_def r by (intro exI conjI) auto
  show "same_elsewhere filename cl cl'" unfolding c by (rule set_status_same [OF assms(2)])
qed

lemma allowed_download_outcome:
  assumes "allowed_download a filename peer_ip peer_port ids n tok cl = (Some res, cl')"
    and "cl_downloads cl filename = Some p"
  shows "(download_started filename ids tok n res cl' \<or> download_failed filename ids res cl')
    \<and> same_elsewhere filename cl cl'"
proof -
  define cl1 where "cl1 = waiter_gives_up tok (snd (register_waiter tok 0
     (set_total filename n (set_status filename DS_InProgress cl))))"
  have d: "cl_downloads cl1 filename = Some (p\<lparr>dp_status := DS_InProgress, dp_total_bytes := n\<rparr>)"
    and s: "same_elsewhere filename cl cl1"
    using assms(2)
    by (simp_all add: cl1_def waiter_gives_up_def register_waiter_def set_total_def set_status_def
        same_elsewhere_def)
  show ?thesis
  proof (cases "open_f_connection a cl1 peer_ip peer_port tok")
    case (Ok c)
    with assms(1) have "res = \<lparr>io_init = Transfer_Spawned (fst ids) tok, io_completion = None,
          io_transfer = Some \<lparr>rn_filename = filename, rn_filesize = n, rn_token = tok, rn_conn = c,
            rn_report = Some ids\<rparr>\<rparr>" "cl' = cl1"
      by (simp_all add: allowed_download_def Let_def cl1_def [symmetric])
    with d s show ?thesis by (auto simp: download_started_def)
  next
    case (Err e)
    define reason where "reason = str ''Failed to establish F connection: '' @ da_text a e"
    from assms(1) Err have "download_fails filename reason
       (Some \<lparr>tx_item_id = fst ids, tx_queue_id = fst (snd ids), tx_list_id = snd (snd ids),
          tx_transfer_token = tok, tx_result = Err reason\<rparr>) cl1 = (Some res, cl')"
      by (simp add: allowed_download_def Let_def cl1_def [symmetric] reason_def)
    from download_fails_outcome [OF this d, of ids] s show ?thesis
      by (auto simp: same_elsewhere_def)
  next
    case Panic
    with assms(1) show ?thesis by (simp add: allowed_download_def Let_def cl1_def [symmetric])
  qed
qed

lemma negotiated_download_outcome:
  assumes "negotiated_download a username filename filesize peer_ip peer_port path ids result cl = (Some res, cl')"
    and "cl_downloads cl filename = Some p" and "\<And>t q r. result \<noteq> Ok (Queued t q r)"
  shows "((\<exists>n tok. result = Ok (Allowed n tok) \<and> download_started filename ids tok n res cl')
      \<or> download_failed filename ids res cl') \<and> same_elsewhere filename cl cl'"
proof (cases result)
  case (Ok n)
  show ?thesis
  proof (cases n)
    case (Allowed m tok)
    with Ok assms(1) have "allowed_download a filename peer_ip peer_port ids m tok cl = (Some res, cl')"
      by (simp add: negotiated_download_def)
    from allowed_download_outcome [OF this assms(2)] Ok Allowed show ?thesis by auto
  next
    case (Denied reason)
    with Ok assms(1) have "denied_download filename ids reason cl = (Some res, cl')"
      by (simp add: negotiated_download_def)
    from download_fails_outcome [OF this [unfolded denied_download_def] assms(2), of ids] show ?thesis
      by blast
  qed (use Ok assms(3) in auto)
next
  case (Err e)
  with assms(1) have "download_fails filename (str ''Negotiation failed: '' @ da_text a (DE_Peer e)) None cl
      = (Some res, cl')"
    by (simp add: negotiated_download_def split: if_splits)
  from download_fails_outcome [OF this assms(2), of ids] show ?thesis by blast
qed (use assms(1) in \<open>simp add: negotiated_download_def\<close>)

lemma open_p_connection_keeps:
  "open_p_connection a username peer_ip peer_port cl = (r, cl') \<Longrightarrow>
   cl_downloads cl' = cl_downloads cl \<and> pending_downloads cl' = pending_downloads cl
   \<and> search_results cl' = search_results cl \<and> active_search_tokens cl' = active_search_tokens cl
   \<and> file_conn_waiters cl' = file_conn_waiters cl
   \<and> (peer_streams cl = (\<lambda>_. None) \<longrightarrow> peer_streams cl' = (\<lambda>_. None))"
  by (auto simp: open_p_connection_def split: option.splits outcome.splits if_splits prod.splits)

lemma initiate_download_outcome:
  assumes "initiate_download a username filename filesize peer_ip peer_port path ids cl = (Some res, cl')"
  shows "((\<exists>tok n. peer_offered a username peer_ip peer_port (start_progress filename filesize cl) tok n
        \<and> download_started filename ids tok n res cl') \<or> download_failed filename ids res cl')
    \<and> pending_downloads cl' = pending_downloads cl
    \<and> (\<forall>g. g \<noteq> filename \<longrightarrow> cl_downloads cl' g = cl_downloads cl g)"
proof -
  obtain r cl1 where o: "open_p_connection a username peer_ip peer_port (start_progress filename filesize cl) = (r, cl1)"
    by fastforce
  note k = open_p_connection_keeps [OF o]
  have p: "\<exists>p. cl_downloads cl1 filename = Some p"
    and e: "pending_downloads cl1 = pending_downloads cl"
      "\<And>g. g \<noteq> filename \<Longrightarrow> cl_downloads cl1 g = cl_downloads cl g"
    using k by (simp_all add: start_progress_def)
  from p obtain p where p: "cl_downloads cl1 filename = Some p" by blast
  have "((\<exists>tok n. peer_offered a username peer_ip peer_port (start_progress filename filesize cl) tok n
        \<and> download_started filename ids tok n res cl') \<or> download_failed filename ids res cl')
    \<and> same_elsewhere filename cl1 cl'"
  proof (cases r)
    case (Ok c)
    show ?thesis
    proof (cases "queue_upload filename c")
      case (Pair w c')
      show ?thesis
      proof (cases w)
        case Ok2: (Ok x)
        have "negotiated_download a username filename filesize peer_ip peer_port path ids
            (fst (wait_for_transfer_request (da_messages a) filename c')) cl1 = (Some res, cl')"
          using assms o Ok Pair Ok2 by (simp add: initiate_download_def)
        from negotiated_download_outcome [OF this p wait_never_queued]
        have "((\<exists>n tok. fst (wait_for_transfer_request (da_messages a) filename c') = Ok (Allowed n tok)
              \<and> download_started filename ids tok n res cl') \<or> download_failed filename ids res cl')
            \<and> same_elsewhere filename cl1 cl'" .
        moreover have "c_in c' = c_in c"
          using Pair by (auto simp: queue_upload_def swrite_def Let_def split: if_splits)
        ultimately show ?thesis using o Ok by (auto simp: peer_offered_def dest!: allowed_offered) blast
      next
        case (Err x)
        have "download_fails filename (str ''Failed to send QueueUpload: '' @ da_text a (DE_Peer x)) None cl1
            = (Some res, cl')"
          using assms o Ok Pair Err by (simp add: initiate_download_def)
        from download_fails_outcome [OF this p, of ids] show ?thesis by blast
      qed (use assms o Ok Pair in \<open>simp add: initiate_download_def\<close>)
    qed
  next
    case (Err reason)
    have "download_fails filename reason None cl1 = (Some res, cl')"
      using assms o Err by (simp add: initiate_download_def)
    from download_fails_outcome [OF this p, of ids] show ?thesis by blast
  qed (use assms o in \<open>simp add: initiate_download_def\<close>)
  with e show ?thesis by (auto simp: same_elsewhere_def)
qed

text \<open>C12: starting a download, if the call returns, ends in one of two ways, whatever the network answers:
  a transfer runs that will report its end, of the size and under the token that the peer offered in a message on
  the connection to it, and the progress entry is in progress with that size; or the download failed, with the
  reason in the result, in the progress entry, and in the completion when one is sent as well. It is never reported
  as queued and never registered as pending, and no other download's entry changes.\<close>

theorem download_outcome:
  assumes "initiate_download a username filename filesize peer_ip peer_port path ids cl = (Some res, cl')"
  shows "((\<exists>tok n. peer_offered a username peer_ip peer_port (start_progress filename filesize cl) tok n
        \<and> download_started filename ids tok n res cl') \<or> download_failed filename ids res cl')
    \<and> pending_downloads cl' = pending_downloads cl
    \<and> (\<forall>g. g \<noteq> filename \<longrightarrow> cl_downloads cl' g = cl_downloads cl g)"
  by (rule initiate_download_outcome [OF assms])

text \<open>A network that answers nothing.\<close>

definition no_network :: download_answers where
  "no_network = \<lparr>da_address = (\<lambda>_. None), da_dial = (\<lambda>_ _. None), da_messages = 0,
     da_routed = (\<lambda>_. Err (DE_Waited 30)), da_dial_f = (\<lambda>_ _. None), da_text = (\<lambda>_. [])\<rparr>"

theorem download_outcome_witness:
  "\<exists>res cl'. initiate_download no_network (str ''bob'') (str ''a.mp3'') 9 [] 0 (str ''/m/a.mp3'') (1, 2, None)
      (client_new (str ''me'') None) = (Some res, cl')
    \<and> ((\<exists>tok n. download_started (str ''a.mp3'') (1, 2, None) tok n res cl')
      \<or> download_failed (str ''a.mp3'') (1, 2, None) res cl')"
proof -
  have "\<exists>res cl'. initiate_download no_network (str ''bob'') (str ''a.mp3'') 9 [] 0 (str ''/m/a.mp3'') (1, 2, None)
      (client_new (str ''me'') None) = (Some res, cl')"
    by (simp add: initiate_download_def open_p_connection_def no_network_def client_new_def start_progress_def
        download_fails_def)
  with download_outcome show ?thesis by blast
qed

section \<open>Two instances of the program\<close>

lemma queue_upload_run [simp]:
  "queue_upload filename \<lparr>c_in = i, c_closes = cl, c_out = out, c_write_ok = True\<rparr> =
     (Ok (), \<lparr>c_in = i, c_closes = cl, c_out = out @ server_frame 43 (encode_string filename),
             c_write_ok = True\<rparr>)"
  by (simp add: queue_upload_def server_frame_def Let_def)

text \<open>A message as the dispatch reads it, unless its code looks like the type of an init message.\<close>

lemma read_peer_frame:
  assumes "length data < 4294967292" and "ucast code \<noteq> (0 :: u8)" and "ucast code \<noteq> (1 :: u8)"
  shows "read_peer_message_with_init_handling
      \<lparr>c_in = server_frame code data @ i, c_closes = cl, c_out = out, c_write_ok = wo\<rparr> =
     (Ok (code, data), \<lparr>c_in = i, c_closes = cl, c_out = out, c_write_ok = wo\<rparr>)"
proof -
  define n where "n = len_u32 (4 + length data)"
  have u: "unat n = 4 + length data" using assms(1) by (simp add: n_def)
  then have n4: "4 \<le> n" and m: "unat (n - 4) = length data"
    by (simp_all add: word_le_nat_alt unat_sub)
  obtain r3 where r3: "put_u32_le code = ucast code # r3" "length r3 = 3"
    by (simp add: put_u32_le_def)
  define peek where "peek = put_u32_le n @ [ucast code]"
  have f: "server_frame code data @ i = peek @ r3 @ data @ i"
    by (simp add: server_frame_def peek_def n_def r3)
  have l: "length peek = 5" and t: "take 4 peek = put_u32_le n" and x: "peek ! 4 = ucast code"
    by (simp_all add: peek_def nth_append)
  have c: "from_le (ucast code # r3) = code" using r3(1) from_le_put_u32 [of code] by simp
  show ?thesis
    unfolding f read_peer_message_with_init_handling_def
    using assms(2,3) n4
    by (simp add: sread_run l t x Let_def r3(2) m c del: from_le.simps)
qed

lemma accept_peer_frame:
  assumes "fits_u32 peer" and "length (as_bytes peer) < 186" and "length data < 4294967292"
    and "ucast code \<noteq> (0 :: u8)" and "ucast code \<noteq> (1 :: u8)"
  shows "accept_connection env addr cl
      \<lparr>c_in = peer_init_bytes peer (str ''P'') @ server_frame code data, c_closes = closes, c_out = [],
       c_write_ok = True\<rparr> =
    map_option (\<lambda>(cl', c''). (cl', c'', None))
     (let c = \<lparr>c_in = [], c_closes = closes, c_out = peer_init_bytes (cl_username cl) (str ''P''), c_write_ok = True\<rparr> in
      if code = 9 then map_option (\<lambda>cl'. (cl', c)) (on_search_result env peer addr data cl)
      else if code = 4 then Some (cl, on_get_shared_list cl c)
      else if code = 8 then Some (cl, on_file_search env data cl c)
      else if code = 43 then Some (on_queue_upload env peer data cl c)
      else if code = 51 then Some (cl, on_place_request peer data cl c)
      else if code = 40 then Some (on_transfer_request env peer data cl c)
      else if code = 15 then Some (cl, on_user_info env cl c)
      else Some (cl, c))"
proof -
  have "str ''P'' \<noteq> str ''F''" by (simp add: str_def)
  then show ?thesis
    using incoming_peer_init [OF assms(1,2), of "str ''P''" "cl_username cl" "server_frame code data" closes "[]"]
      read_peer_frame [OF assms(3-5), of "[]" closes "peer_init_bytes (cl_username cl) (str ''P'')" True]
    by (simp add: accept_connection_def handle_peer_message_dispatch_def Let_def)
qed

text \<open>The downloader skips the acceptor's init message: read as a message, its code is odd.\<close>

lemma from_le_odd: "bit (from_le (1 # bs) :: u32) 0"
  by (simp add: bit_simps)

lemma wait_skips_init:
  assumes "length (as_bytes peer) < 186"
  shows "wait_for_transfer_request (Suc n) filename
      \<lparr>c_in = peer_init_bytes peer (str ''P'') @ i, c_closes = cl, c_out = out, c_write_ok = wo\<rparr> =
    wait_for_transfer_request n filename \<lparr>c_in = i, c_closes = cl, c_out = out, c_write_ok = wo\<rparr>"
proof -
  define body where "body = peer_init_body peer (str ''P'')"
  have l: "length body = 13 + length (as_bytes peer)"
    by (simp add: body_def wire_len str_def utf8_char_def)
  define n1 where "n1 = len_u32 (1 + length body)"
  have u: "unat n1 = 1 + length body" using assms l by (simp add: n1_def)
  then have "4 \<le> n1" using l by (simp add: word_le_nat_alt)
  then have m: "unat (n1 - 4) = length (drop 3 body)" using u l by (simp add: unat_sub)
  define code where "code = (from_le (1 # take 3 body) :: u32)"
  have odd: "bit code 0" unfolding code_def by (rule from_le_odd)
  have "code \<noteq> 40" "code \<noteq> 44" "code \<noteq> 50" "code \<noteq> 46" using odd by auto
  moreover have "peer_init_bytes peer (str ''P'') @ i = put_u32_le n1 @ (1 # take 3 body) @ drop 3 body @ i"
    by (simp add: peer_init_bytes_def body_def [symmetric] n1_def put_u8_def)
  moreover have "sread_u32 \<lparr>c_in = (1 # take 3 body) @ drop 3 body @ i, c_closes = cl, c_out = out, c_write_ok = wo\<rparr>
      = (Ok code, \<lparr>c_in = drop 3 body @ i, c_closes = cl, c_out = out, c_write_ok = wo\<rparr>)"
    using l sread_run [of "1 # take 3 body" 4 "drop 3 body @ i" cl out wo]
    by (simp add: sread_u32_def code_def del: from_le.simps append_take_drop_id)
  ultimately show ?thesis
    using m by (simp add: wire_rt sread_run del: append_Cons length_drop)
qed

lemma wait_reads_frame:
  assumes "length data < 4294967292"
  shows "wait_for_transfer_request (Suc n) filename
      \<lparr>c_in = server_frame code data @ i, c_closes = cl, c_out = out, c_write_ok = wo\<rparr> =
    (let c = \<lparr>c_in = i, c_closes = cl, c_out = out, c_write_ok = wo\<rparr> in
     if code = 40 then
       sbind (on_data decode_transfer_request data) (\<lambda>(direction, tok, name, filesize).
       if direction \<noteq> 1 then wait_for_transfer_request n filename
       else
         sbind (swrite (put_u32_le 9)) (\<lambda>_. sbind (swrite (put_u32_le 41)) (\<lambda>_.
         sbind (swrite (put_u32_le tok @ put_u8 1)) (\<lambda>_. sret (Allowed filesize tok))))) c
     else if code = 44 then
       sbind (on_data decode_string_u32 data) (\<lambda>_. wait_for_transfer_request n filename) c
     else if code = 50 then
       sbind (on_data decode_two_strings data) (\<lambda>(_, reason). sret (Denied reason)) c
     else if code = 46 then
       sbind (on_data decode_string data) (\<lambda>_. sret (Denied (str ''Upload failed''))) c
     else wait_for_transfer_request n filename c)"
proof -
  define n1 where "n1 = len_u32 (4 + length data)"
  have "unat n1 = 4 + length data" using assms by (simp add: n1_def)
  then have m: "unat (n1 - 4) = length data" by (simp add: unat_sub word_le_nat_alt)
  have f: "server_frame code data @ i = put_u32_le n1 @ put_u32_le code @ data @ i"
    by (simp add: server_frame_def n1_def)
  show ?thesis
    unfolding f using m by (simp add: wire_rt sread_run Let_def cong: if_cong del: sbind.simps) (simp add: wire_rt sread_run Let_def)
qed

definition open_conn :: "bytes \<Rightarrow> bool \<Rightarrow> conn" where
  "open_conn bs closes = \<lparr>c_in = bs, c_closes = closes, c_out = [], c_write_ok = True\<rparr>"

text \<open>What the downloader writes before it waits.\<close>

definition download_request :: "rstring \<Rightarrow> rstring \<Rightarrow> bytes" where
  "download_request ours filename =
     c_out (snd (sbind (send_peer_init ours (str ''P'') 0) (\<lambda>_. queue_upload filename) (open_conn [] False)))"

lemma download_request_bytes:
  "download_request ours filename =
     peer_init_bytes ours (str ''P'') @ server_frame 43 (encode_string filename)"
  by (simp add: download_request_def open_conn_def)

lemma length_reason_text:
  "length (as_bytes (reason_text e)) \<le> 17 + (case e of NotShared path \<Rightarrow> length (as_bytes path) | _ \<Rightarrow> 0)"
  by (cases e) (simp_all add: reason_text_def str_def utf8_char_def)

lemma handle_queue_upload_error:
  "handle_queue_upload ix on_disk time username path s = (Err e, s') \<Longrightarrow>
   e = SharingDisabled \<or> e = NotShared path \<or> e = FileGone"
  by (auto simp: handle_queue_upload_def Let_def split: if_splits option.splits)

lemma handle_queue_upload_no_panic:
  "handle_queue_upload ix on_disk time username path s \<noteq> (Panic, s')"
  by (auto simp: handle_queue_upload_def Let_def split: if_splits option.splits)

lemma fits_reason:
  assumes "valid_str path" and "length (as_bytes path) < 2 ^ 30"
    and "e = SharingDisabled \<or> e = NotShared path \<or> e = FileGone"
  shows "fits_u32 (reason_text e)"
proof -
  have "valid_str (reason_text e)"
    using assms(1,3) by (auto simp: reason_text_def str_def is_scalar_def)
  then show ?thesis
    using length_reason_text [of e] assms(2,3) by (auto simp: fits_u32_def)
qed

text \<open>What the downloader makes of the two answers: the place in the queue is read over, and then the stream ends; a
  refusal is the result.\<close>

lemma place_reply_ends:
  assumes "length (as_bytes username) < 186" and "valid_str filename" and "length (as_bytes filename) < 2 ^ 30"
  shows "fst (wait_for_transfer_request (n + 3) filename (open_conn (peer_init_bytes username (str ''P'')
      @ server_frame 44 (encode_string filename @ put_u32_le position)) True)) = Err (Wire UnexpectedEof)"
proof -
  have e3: "n + 3 = Suc (Suc (Suc n))" by simp
  have data: "length (encode_string filename @ put_u32_le position) < 4294967292"
    using assms(3) by (simp add: wire_len)
  have "decode_string_u32 (encode_string filename @ put_u32_le position) = (Ok (filename, position), [])"
    using get_u32_put [of position "[]"]
    by (simp add: decode_string_u32_def decode_encode_string [OF fits_u32_small [OF assms(2,3)]])
  moreover have "fst (wait_for_transfer_request (Suc n) filename
      \<lparr>c_in = [], c_closes = True, c_out = [], c_write_ok = True\<rparr>) = Err (Wire UnexpectedEof)"
    by (simp add: sread_u32_timed_def sread_gen_def)
  ultimately show ?thesis
    using wait_reads_frame [OF data, of "Suc n" filename 44 "[]" True "[]" True]
    by (simp add: e3 open_conn_def wait_skips_init [OF assms(1)] on_data_def Let_def
        del: wait_for_transfer_request.simps)
qed

lemma refusal_read:
  assumes "length (as_bytes username) < 186" and "valid_str filename" and "length (as_bytes filename) < 2 ^ 30"
    and "fits_u32 reason" and "length (encode_string reason) < 2 ^ 31"
  shows "fst (wait_for_transfer_request (n + 3) filename (open_conn (peer_init_bytes username (str ''P'')
      @ server_frame 50 (encode_string filename @ encode_string reason)) True)) = Ok (Denied reason)"
proof -
  have e3: "n + 3 = Suc (Suc (Suc n))" by simp
  have data: "length (encode_string filename @ encode_string reason) < 4294967292"
    using assms(3,5) by (simp add: wire_len)
  have "decode_two_strings (encode_string filename @ encode_string reason) = (Ok (filename, reason), [])"
    using decode_encode_string [OF assms(4), of "[]"]
    by (simp add: decode_two_strings_def decode_encode_string [OF fits_u32_small [OF assms(2,3)]])
  then show ?thesis
    using wait_reads_frame [OF data, of "Suc n" filename 50 "[]" True "[]" True]
    by (simp add: e3 open_conn_def wait_skips_init [OF assms(1)] on_data_def Let_def
        del: wait_for_transfer_request.simps)
qed

text \<open>C13: a download from a peer that runs this same program. When the peer's upload service refuses the
  request, the downloader is told so with the reason the service gave. But when the service accepts it
  - the entry is in its queue - the peer answers with the place in the queue and drops the connection,
  and the downloader, which waits on that connection for the transfer, fails with the end of the stream:
  an accepted download is over before it began.\<close>

theorem accepted_request_fails_downloader:
  assumes "fits_u32 ours" and "length (as_bytes ours) < 186" and "length (as_bytes (cl_username peer)) < 186"
    and "valid_str filename" and "length (as_bytes filename) < 2 ^ 30" and "cl_upload peer = Some s"
    and "handle_queue_upload (shared_index peer) (ce_on_disk env) (ce_now env) ours filename s = (res, s')"
    and "accept_connection env addr peer (open_conn (download_request ours filename) False) = Some (peer', c', t)"
  shows "cl_upload peer' = Some s'
    \<and> fst (wait_for_transfer_request (n + 3) filename (open_conn (c_out c') True)) =
      (case res of Err e \<Rightarrow> Ok (Denied (reason_text e)) | _ \<Rightarrow> Err (Wire UnexpectedEof))"
proof -
  have dec: "decode_string (encode_string filename) = (Ok filename, [])"
    using decode_encode_string [OF fits_u32_small [OF assms(4,5)], of "[]"] by simp
  let ?c = "\<lparr>c_in = [], c_closes = False, c_out = peer_init_bytes (cl_username peer) (str ''P''), c_write_ok = True\<rparr>"
  have "length (encode_string filename) < 4294967292" using assms(5) by (simp add: wire_len)
  from accept_peer_frame [OF assms(1,2) this, of 43 env addr peer False] assms(8)
  have q: "on_queue_upload env ours (encode_string filename) peer ?c = (peer', c')"
    by (auto simp: download_request_bytes open_conn_def Let_def split: prod.splits)
  show ?thesis
  proof (cases res)
    case (Ok position)
    from q have "peer' = peer\<lparr>cl_upload := Some s'\<rparr>" "c_out c' = peer_init_bytes (cl_username peer) (str ''P'')
        @ server_frame 44 (encode_string filename @ put_u32_le position)"
      by (auto simp: on_queue_upload_def dec assms(6,7) ask_upload_def Ok answer_def)
    then show ?thesis by (simp only: place_reply_ends [OF assms(3,4,5)] Ok) simp
  next
    case (Err e)
    note e = handle_queue_upload_error [OF assms(7) [unfolded Err]]
    have r: "fits_u32 (reason_text e)" using fits_reason [OF assms(4,5)] e by blast
    have l: "length (encode_string (reason_text e)) < 2 ^ 31"
      using e length_reason_text [of e] assms(5) by (auto simp: wire_len)
    from q have "peer' = peer\<lparr>cl_upload := Some s'\<rparr>" "c_out c' = peer_init_bytes (cl_username peer) (str ''P'')
        @ server_frame 50 (encode_string filename @ encode_string (reason_text e))"
      by (auto simp: on_queue_upload_def dec assms(6,7) ask_upload_def Err answer_def)
    then show ?thesis by (simp only: refusal_read [OF assms(3,4,5) r l] Err) simp
  next
    case Panic
    with assms(7) handle_queue_upload_no_panic show ?thesis by metis
  qed
qed

theorem accepted_request_fails_downloader_witness:
  "fst (wait_for_transfer_request (0 + 3) (str ''a'') (open_conn (c_out (snd (the (map_option
       (\<lambda>(x, c, t). (x, c)) (accept_connection
         \<lparr>ce_unicode = ascii_tables, ce_zlib = (\<lambda>b. b), ce_inflate = (\<lambda>_. None), ce_on_disk = (\<lambda>_. True), ce_now = 0\<rparr>
         (str ''1.2.3.4:5'') (set_upload_service (upload_new 0 upload_config_default) (client_new (str ''up'') None))
         (open_conn (download_request (str ''me'') (str ''a'')) False)))))) True)) =
     Ok (Denied (str ''File not shared: a''))"
proof -
  let ?env = "\<lparr>ce_unicode = ascii_tables, ce_zlib = (\<lambda>b. b), ce_inflate = (\<lambda>_. None), ce_on_disk = (\<lambda>_. True), ce_now = 0\<rparr>"
  let ?up = "set_upload_service (upload_new 0 upload_config_default) (client_new (str ''up'') None)"
  let ?req = "open_conn (download_request (str ''me'') (str ''a'')) False"
  have fits: "fits_u32 (str ''me'')" "length (as_bytes (str ''me'')) < 186" "length (as_bytes (cl_username ?up)) < 186"
    "valid_str (str ''a'')" "length (as_bytes (str ''a'')) < 2 ^ 30"
    by (simp_all add: fits_u32_def str_def is_scalar_def utf8_char_def set_upload_service_def client_new_def)
  have up: "cl_upload ?up = Some (upload_new 0 upload_config_default)"
    by (simp add: set_upload_service_def)
  have res: "handle_queue_upload (shared_index ?up) (ce_on_disk ?env) (ce_now ?env) (str ''me'') (str ''a'')
      (upload_new 0 upload_config_default) = (Err (NotShared (str ''a'')), upload_new 0 upload_config_default)"
    by (simp add: handle_queue_upload_def upload_new_def upload_config_default_def get_file_def
        shared_index_def set_upload_service_def client_new_def share_index_new_def)
  have "\<exists>x c t. accept_connection ?env (str ''1.2.3.4:5'') ?up ?req = Some (x, c, t)"
    using accept_peer_frame [OF fits(1,2), of "encode_string (str ''a'')" 43 ?env "str ''1.2.3.4:5''" ?up False]
    by (simp add: download_request_bytes open_conn_def wire_len str_def utf8_char_def Let_def split: prod.splits)
  then obtain x c t where acc: "accept_connection ?env (str ''1.2.3.4:5'') ?up ?req = Some (x, c, t)" by blast
  have "fst (wait_for_transfer_request (0 + 3) (str ''a'') (open_conn (c_out c) True)) =
      Ok (Denied (reason_text (NotShared (str ''a''))))"
    using accepted_request_fails_downloader [OF fits up res acc, of 0] by simp
  moreover have "reason_text (NotShared (str ''a'')) = str ''File not shared: a''"
    by (simp add: reason_text_def str_def)
  ultimately show ?thesis by (simp add: acc)
qed

lemma await_reply_keeps_out: "c_out (snd (await_reply n tok c)) = c_out c"
proof (induction n arbitrary: c)
  case (Suc n)
  have "c_out (snd (read_message_timed c)) = c_out c"
    using read_message_keeps_out [of c]
    by (auto simp: read_message_timed_def split: prod.splits outcome.splits peer_error.splits)
  then show ?case
    by (auto simp: Suc.IH split: prod.splits outcome.splits)
qed simp

lemma offer_upload_out:
  "c_out (snd (offer_upload n peer tok False e (open_conn [] False))) =
     peer_init_bytes peer (str ''P'') @ server_frame 40 (upload_request e tok)"
  by (simp add: offer_upload_def open_conn_def read_optional_init_def await_reply_keeps_out)

lemma read_optional_init_run:
  assumes "length (as_bytes peer) < 186"
  shows "read_optional_init True
      \<lparr>c_in = peer_init_bytes peer (str ''P''), c_closes = cl, c_out = out, c_write_ok = wo\<rparr> =
     (Ok (), \<lparr>c_in = [], c_closes = cl, c_out = out, c_write_ok = wo\<rparr>)"
proof -
  define body where "body = peer_init_body peer (str ''P'')"
  have l: "length body = 13 + length (as_bytes peer)"
    by (simp add: body_def wire_len str_def utf8_char_def)
  have "5 < 1 + length body" "1 + length body < 200" using assms l by simp_all
  note r = len_u32_range [OF this]
  show ?thesis
    using r sread_gen_run [of body "length body" TimedOut "[]"]
    by (simp add: read_optional_init_def peer_init_bytes_def body_def [symmetric] put_u8_def
        sread_gen_run sread_gen_run [of "[1]", simplified] Let_def)
qed

lemma on_transfer_request_offer:
  "on_transfer_request env peer (upload_request e tok) cl c = (cl, c)"
  by (auto simp: on_transfer_request_def upload_request_def wire_rt split: prod.splits outcome.splits)

text \<open>The offer such a peer makes later is lost too. The uploader connects again and sends its transfer
  request; the acceptor of this program reads it, changes nothing, answers nothing beyond the handshake
  and drops the connection, so the uploader's wait for the reply ends with the end of the stream.\<close>

lemma upload_offer_ignored:
  assumes "fits_u32 peer" and "length (as_bytes peer) < 186" and "length (as_bytes (cl_username cl)) < 186"
    and "length (as_bytes (ue_virtual_path e)) < 2 ^ 30"
    and "first = snd (offer_upload (Suc n) peer tok False e (open_conn [] False))"
    and "accept_connection env addr cl (open_conn (c_out first) False) = Some (cl', c', t)"
  shows "cl' = cl \<and> t = None
    \<and> fst (offer_upload (Suc n) peer tok True e (open_conn (c_out c') True)) = Err (Upload_IO (Wire UnexpectedEof))"
proof -
  let ?c = "\<lparr>c_in = [], c_closes = False, c_out = peer_init_bytes (cl_username cl) (str ''P''), c_write_ok = True\<rparr>"
  have "length (upload_request e tok) < 4294967292" using assms(4) by (simp add: upload_request_def wire_len)
  moreover have "c_out first = peer_init_bytes peer (str ''P'') @ server_frame 40 (upload_request e tok)"
    by (simp add: assms(5) offer_upload_out)
  ultimately have r: "cl' = cl" "t = None" "c' = ?c"
    using accept_peer_frame [OF assms(1,2), of "upload_request e tok" 40 env addr cl False] assms(6)
    by (auto simp: open_conn_def on_transfer_request_offer Let_def)
  have "fst (offer_upload (Suc n) peer tok True e (open_conn (c_out c') True)) = Err (Upload_IO (Wire UnexpectedEof))"
    by (simp add: r(3) offer_upload_def open_conn_def read_optional_init_run [OF assms(3)]
        read_message_timed_def read_message_def sread_u32_def sread_def sread_gen_def)
  with r show ?thesis by simp
qed

lemma upload_offer_ignored_witness:
  "\<exists>cl' c' t. accept_connection
       \<lparr>ce_unicode = ascii_tables, ce_zlib = (\<lambda>b. b), ce_inflate = (\<lambda>_. None), ce_on_disk = (\<lambda>_. True), ce_now = 0\<rparr>
       (str ''1.2.3.4:5'') (client_new (str ''me'') None)
       (open_conn (c_out (snd (offer_upload (Suc 0) (str ''up'') 7 False
          \<lparr>ue_id = 1, ue_username = str ''me'', ue_virtual_path = str ''a'', ue_real_path = str ''/a'',
           ue_file_size = 3, ue_queued_at = 0\<rparr> (open_conn [] False)))) False) = Some (cl', c', t)
     \<and> cl' = client_new (str ''me'') None \<and> t = None"
proof -
  let ?env = "\<lparr>ce_unicode = ascii_tables, ce_zlib = (\<lambda>b. b), ce_inflate = (\<lambda>_. None), ce_on_disk = (\<lambda>_. True), ce_now = 0\<rparr>"
  let ?e = "\<lparr>ue_id = 1, ue_username = str ''me'', ue_virtual_path = str ''a'', ue_real_path = str ''/a'',
           ue_file_size = 3, ue_queued_at = 0\<rparr>"
  let ?me = "client_new (str ''me'') None"
  let ?first = "snd (offer_upload (Suc 0) (str ''up'') 7 False ?e (open_conn [] False))"
  have fits: "fits_u32 (str ''up'')" "length (as_bytes (str ''up'')) < 186" "length (as_bytes (cl_username ?me)) < 186"
    "length (as_bytes (ue_virtual_path ?e)) < 2 ^ 30"
    by (simp_all add: fits_u32_def str_def is_scalar_def utf8_char_def client_new_def)
  have "length (upload_request ?e 7) < 4294967292"
    by (simp add: upload_request_def wire_len str_def utf8_char_def)
  from accept_peer_frame [OF fits(1,2) this, of 40 ?env "str ''1.2.3.4:5''" ?me False]
  have "\<exists>cl' c' t. accept_connection ?env (str ''1.2.3.4:5'') ?me (open_conn (c_out ?first) False) = Some (cl', c', t)"
    by (simp add: offer_upload_out) (simp add: open_conn_def on_transfer_request_offer Let_def)
  then obtain cl' c' t where
    acc: "accept_connection ?env (str ''1.2.3.4:5'') ?me (open_conn (c_out ?first) False) = Some (cl', c', t)" by blast
  from upload_offer_ignored [OF fits refl acc] acc show ?thesis by blast
qed

section \<open>File connections\<close>

text \<open>A file connection goes to the download that waits for its token and to no other, once; a
  connection whose token nobody waits for is dropped. But tokens are chosen by the peers: when two
  downloads wait for the same token, the second registration cancels the first wait, the first one's
  clean-up removes the second one's registration, and a connection with that token reaches neither.\<close>

lemma file_connection_routing:
  assumes "file_conn_waiters cl tok = None" and "other \<noteq> tok"
  shows "route_file_conn tok c (snd (register_waiter tok w cl)) =
      cl\<lparr>file_conn_waiters := (file_conn_waiters cl)(tok := None), delivered := delivered cl @ [(w, c)]\<rparr>
    \<and> route_file_conn tok c' (route_file_conn tok c (snd (register_waiter tok w cl))) =
      route_file_conn tok c (snd (register_waiter tok w cl))
    \<and> file_conn_waiters (route_file_conn tok c cl') other = file_conn_waiters cl' other
    \<and> register_waiter tok w2 (snd (register_waiter tok w cl)) =
      (Some w, cl\<lparr>file_conn_waiters := (file_conn_waiters cl)(tok \<mapsto> w2)\<rparr>)
    \<and> delivered (route_file_conn tok c (waiter_gives_up tok
        (snd (register_waiter tok w2 (snd (register_waiter tok w cl)))))) = delivered cl"
  using assms
  by (simp add: route_file_conn_def register_waiter_def waiter_gives_up_def fun_upd_idem
      split: option.splits)

lemma file_connection_routing_witness:
  "delivered (route_file_conn 7 (open_conn [] True) (snd (register_waiter 7 1 (client_new [] None)))) =
     [(1, open_conn [] True)]"
  using file_connection_routing [of "client_new [] None" 7 8 "open_conn [] True" 1 "open_conn [] True"
      "client_new [] None" 2]
  by (simp add: client_new_def)

section \<open>Downloads the peer has queued\<close>

definition nothing_stored :: "client \<Rightarrow> bool" where
  "nothing_stored cl \<longleftrightarrow> pending_downloads cl = (\<lambda>_. None) \<and> peer_streams cl = (\<lambda>_. None)"

text \<open>Every operation of the client.\<close>

inductive client_step :: "client \<Rightarrow> client \<Rightarrow> bool" where
  Accepts: "accept_connection env addr cl c = Some (cl', c', t) \<Longrightarrow> client_step cl cl'"
| Connects: "on_connect_request env handlers dial msg (cl, rt) = Some (cl', rt') \<Longrightarrow> client_step cl cl'"
| Downloads: "initiate_download a username filename filesize peer_ip peer_port path ids cl = (res, cl')
    \<Longrightarrow> client_step cl cl'"
| Transfer_Ends: "finish_transfer show_error disk evs t cl = (completion, cl') \<Longrightarrow> client_step cl cl'"
| Waits: "client_step cl (snd (register_waiter tok w cl))"
| Gives_Up: "client_step cl (waiter_gives_up tok cl)"
| Routes: "client_step cl (route_file_conn tok c cl)"
| Registers: "client_step cl (register_search tok cl)"
| Takes: "client_step cl (snd (take_results tok cl))"
| Unregisters: "client_step cl (unregister_search tok cl)"
| Shares: "client_step cl (set_sharing_service s cl)"
| Uploads: "client_step cl (set_upload_service s' cl)"

inductive client_reachable :: "client \<Rightarrow> bool" where
  Connected: "client_reachable (client_new username external_ip)"
| Goes_On: "client_reachable cl \<Longrightarrow> client_step cl cl' \<Longrightarrow> client_reachable cl'"

inductive_cases client_stepE: "client_step cl cl'"

lemma nothing_stored_route [simp]: "nothing_stored (route_file_conn tok c cl) = nothing_stored cl"
  by (simp add: nothing_stored_def route_file_conn_def split: option.splits)

lemma nothing_stored_status [simp]: "nothing_stored (set_status f st cl) = nothing_stored cl"
  by (simp add: nothing_stored_def)

lemma nothing_stored_ask_upload:
  "ask_upload env peer filename s cl = (r, cl') \<Longrightarrow> nothing_stored cl' = nothing_stored cl"
  by (auto simp: ask_upload_def nothing_stored_def split: prod.splits)

lemma nothing_stored_dispatch:
  "handle_peer_message_dispatch env peer addr cl c = Some (cl', c') \<Longrightarrow> nothing_stored cl' = nothing_stored cl"
  by (auto simp: handle_peer_message_dispatch_def on_search_result_def store_result_def on_queue_upload_def
      on_transfer_request_def split: prod.splits outcome.splits if_splits option.splits
      dest!: nothing_stored_ask_upload) (auto simp: nothing_stored_def)

lemma nothing_stored_accept:
  assumes "accept_connection env addr cl c = Some (cl', c', t)" and "nothing_stored cl"
  shows "nothing_stored cl' \<and> t = None"
  using assms
  by (auto simp: accept_connection_def split: prod.splits outcome.splits incoming.splits option.splits
      dest: nothing_stored_dispatch) (auto simp: nothing_stored_def)

lemma nothing_stored_connect:
  "on_connect_request env handlers dial msg (cl, rt) = Some (cl', rt') \<Longrightarrow> nothing_stored cl' = nothing_stored cl"
  by (auto simp: on_connect_request_def Let_def split: prod.splits outcome.splits if_splits option.splits
      dest: nothing_stored_dispatch)

lemma nothing_stored_negotiated:
  assumes "negotiated_download a username filename filesize peer_ip peer_port path ids result cl = (res, cl')"
    and "\<And>t q r. result \<noteq> Ok (Queued t q r)"
  shows "nothing_stored cl' = nothing_stored cl"
proof -
  have "nothing_stored (waiter_gives_up tok (snd (register_waiter tok 0
      (set_total filename n (set_status filename DS_InProgress cl))))) = nothing_stored cl" for tok n
    by (simp add: nothing_stored_def waiter_gives_up_def register_waiter_def set_total_def split: option.splits)
  then show ?thesis
    using assms
    by (auto simp: negotiated_download_def allowed_download_def denied_download_def download_fails_def Let_def
        split: outcome.splits negotiation.splits if_splits)
qed

lemma nothing_stored_download:
  assumes "initiate_download a username filename filesize peer_ip peer_port path ids cl = (res, cl')"
    and "nothing_stored cl"
  shows "nothing_stored cl'"
proof -
  obtain r cl1 where o: "open_p_connection a username peer_ip peer_port (start_progress filename filesize cl) = (r, cl1)"
    by fastforce
  have n1: "nothing_stored cl1"
    using open_p_connection_keeps [OF o] assms(2) by (simp add: nothing_stored_def start_progress_def)
  show ?thesis
  proof (cases "\<exists>c w c'. r = Ok c \<and> queue_upload filename c = (Ok w, c')")
    case True
    then obtain c w c' where "r = Ok c" "queue_upload filename c = (Ok w, c')" by blast
    with assms(1) o have "negotiated_download a username filename filesize peer_ip peer_port path ids
        (fst (wait_for_transfer_request (da_messages a) filename c')) cl1 = (res, cl')"
      by (simp add: initiate_download_def)
    from nothing_stored_negotiated [OF this wait_never_queued] n1 show ?thesis by simp
  next
    case False
    with assms(1) o n1 show ?thesis
      by (auto simp: initiate_download_def download_fails_def split: outcome.splits prod.splits)
  qed
qed

lemma nothing_stored_reachable: "client_reachable cl \<Longrightarrow> nothing_stored cl"
proof (induction rule: client_reachable.induct)
  case (Goes_On cl cl')
  from Goes_On(2) show ?case
  proof cases
    case (Accepts env addr c c' t)
    from nothing_stored_accept [OF this Goes_On(3)] show ?thesis by simp
  next
    case (Connects env handlers dial msg rt rt')
    from nothing_stored_connect [OF this] Goes_On(3) show ?thesis by simp
  next
    case Downloads
    from nothing_stored_download [OF this Goes_On(3)] show ?thesis .
  next
    case Transfer_Ends
    with Goes_On(3) show ?thesis
      by (auto simp: finish_transfer_def Let_def nothing_stored_def split: option.splits outcome.splits)
  qed (use Goes_On(3) in \<open>simp_all add: nothing_stored_def register_waiter_def waiter_gives_up_def
      route_file_conn_def register_search_def take_results_def unregister_search_def set_sharing_service_def
      set_upload_service_def split: option.splits\<close>)
qed (simp add: nothing_stored_def client_new_def)

text \<open>The table of pending downloads - those a peer has queued, to be resumed when it connects - and
  the cache of peer connections are empty in every state of the client, because no operation fills them.
  So a file connection that arrives never resumes a download, and every download makes a connection of
  its own: a peer that queues the request for more than a minute cannot deliver the file.\<close>

lemma queued_downloads_never_resume:
  assumes "client_reachable cl"
  shows "pending_downloads cl = (\<lambda>_. None) \<and> peer_streams cl = (\<lambda>_. None)
    \<and> (case accept_connection env addr cl c of Some (cl', c', t) \<Rightarrow> t = None | None \<Rightarrow> True)"
  using nothing_stored_reachable [OF assms] nothing_stored_accept [of env addr cl c]
  by (auto simp: nothing_stored_def split: option.splits)

lemma queued_downloads_never_resume_witness:
  "pending_downloads (register_search 7 (client_new (str ''me'') None)) = (\<lambda>_. None)"
  using queued_downloads_never_resume [OF client_reachable.Goes_On, OF client_reachable.Connected
      client_step.Registers, of 7 "str ''me''" None] by blast

end
