(* ===== verification/Legacy_Connection.thy ===== *)
theory Legacy_Connection
  imports Client_Properties
begin

text \<open>
  The message-level connections of \<open>src/src/protocol/connection.rs\<close>, with the codecs of \<open>codec.rs\<close> that frame
  them: to the server, to a peer, and for a file. They are older than the router and the client, which speak the
  protocol over plain streams; the program opens none of them. What the framed stream yields is given: messages,
  errors and the end (\<open>None\<close>), in order. A panic of the decoder ends the caller.
\<close>

section \<open>Framed streams\<close>

record 'm framed =
  fr_next :: "('m, wire_error) outcome option list"
  fr_out :: bytes
  fr_write_ok :: bool

datatype link_error =
    Link_Send
  | Link_Read wire_error
  | Link_Login rstring
  | Link_Unexpected
  | Link_Closed
  | Link_Denied

type_synonym ('m, 'a) lop = "'m framed \<Rightarrow> ('a, link_error) outcome \<times> 'm framed"

fun lbind :: "('m, 'a) lop \<Rightarrow> ('a \<Rightarrow> ('m, 'b) lop) \<Rightarrow> ('m, 'b) lop" where
  "lbind p f s =
     (case p s of (Ok x, s') \<Rightarrow> f x s' | (Err e, s') \<Rightarrow> (Err e, s') | (Panic, s') \<Rightarrow> (Panic, s'))"

definition lret :: "'a \<Rightarrow> ('m, 'a) lop" where "lret x s = (Ok x, s)"
definition lfail :: "link_error \<Rightarrow> ('m, 'a) lop" where "lfail e s = (Err e, s)"

text \<open>The codecs: the encoder appends to the write buffer.\<close>

definition server_codec_encode :: "server_message \<Rightarrow> bytes \<Rightarrow> (unit, wire_error) outcome \<times> bytes" where
  "server_codec_encode item dst =
     (case server_encode item of
        Ok bs \<Rightarrow> (Ok (), dst @ bs) | Err e \<Rightarrow> (Err e, dst) | Panic \<Rightarrow> (Panic, dst))"

definition peer_codec_encode :: "peer_message \<Rightarrow> bytes \<Rightarrow> (unit, wire_error) outcome \<times> bytes" where
  "peer_codec_encode item dst =
     (case peer_encode item of
        Ok bs \<Rightarrow> (Ok (), dst @ bs) | Err e \<Rightarrow> (Err e, dst) | Panic \<Rightarrow> (Panic, dst))"

definition server_codec_decode :: "server_message option reader" where
  "server_codec_decode = server_decode"

definition peer_codec_decode :: "peer_message option reader" where
  "peer_codec_decode = peer_decode"

definition lsend ::
  "('m \<Rightarrow> bytes \<Rightarrow> (unit, wire_error) outcome \<times> bytes) \<Rightarrow> 'm \<Rightarrow> ('m, unit) lop" where
  "lsend encode m s =
     (case encode m (fr_out s) of
        (Ok _, out) \<Rightarrow> if fr_write_ok s then (Ok (), s\<lparr>fr_out := out\<rparr>) else (Err Link_Send, s)
      | (Err _, _) \<Rightarrow> (Err Link_Send, s)
      | (Panic, _) \<Rightarrow> (Panic, s))"

definition lreceive :: "('m, 'm option) lop" where
  "lreceive s =
     (case fr_next s of
        [] \<Rightarrow> (Ok None, s)
      | None # rest \<Rightarrow> (Ok None, s\<lparr>fr_next := rest\<rparr>)
      | Some (Ok m) # rest \<Rightarrow> (Ok (Some m), s\<lparr>fr_next := rest\<rparr>)
      | Some (Err e) # rest \<Rightarrow> (Err (Link_Read e), s\<lparr>fr_next := rest\<rparr>)
      | Some Panic # rest \<Rightarrow> (Panic, s\<lparr>fr_next := rest\<rparr>))"

section \<open>The server\<close>

type_synonym 'a server_op = "(server_message, 'a) lop"

definition server_send :: "server_message \<Rightarrow> unit server_op" where
  "server_send = lsend server_codec_encode"

definition server_receive :: "server_message option server_op" where
  "server_receive = lreceive"

definition legacy_login :: "(bytes \<Rightarrow> rstring) \<Rightarrow> rstring \<Rightarrow> rstring \<Rightarrow> unit server_op" where
  "legacy_login md5_hex username password =
     lbind (server_send (Login username password 160 (md5_hex (as_bytes (username @ password))) 1)) (\<lambda>_.
     lbind server_receive (\<lambda>r.
     case r of
       Some (LoginResponse success reason _ _) \<Rightarrow> if success then lret () else lfail (Link_Login reason)
     | Some _ \<Rightarrow> lfail Link_Unexpected
     | None \<Rightarrow> lfail Link_Closed))"

definition legacy_set_wait_port :: "u32 \<Rightarrow> u32 option \<Rightarrow> unit server_op" where
  "legacy_set_wait_port port obfuscated_port =
     (case obfuscated_port of
        Some obfs_port \<Rightarrow> server_send (SetWaitPort port (Some 1) (Some obfs_port))
      | None \<Rightarrow> server_send (SetWaitPort port None None))"

definition legacy_get_peer_address :: "rstring \<Rightarrow> (rstring \<times> u16) server_op" where
  "legacy_get_peer_address username =
     lbind (server_send (GetPeerAddress username)) (\<lambda>_.
     lbind server_receive (\<lambda>r.
     case r of
       Some (PeerAddress _ ip port) \<Rightarrow> lret (ip, port)
     | Some _ \<Rightarrow> lfail Link_Unexpected
     | None \<Rightarrow> lfail Link_Closed))"

definition legacy_set_shared_counts :: "u32 \<Rightarrow> u32 \<Rightarrow> unit server_op" where
  "legacy_set_shared_counts folders files = server_send (SharedFoldersFiles folders files)"

definition legacy_file_search :: "u32 \<Rightarrow> rstring \<Rightarrow> unit server_op" where
  "legacy_file_search tok query = server_send (FileSearch tok query)"

section \<open>A peer\<close>

type_synonym 'a peer_op = "(peer_message, 'a) lop"

definition peer_send :: "peer_message \<Rightarrow> unit peer_op" where
  "peer_send = lsend peer_codec_encode"

definition peer_receive :: "peer_message option peer_op" where
  "peer_receive = lreceive"

definition legacy_request_transfer :: "u32 \<Rightarrow> rstring \<Rightarrow> u64 peer_op" where
  "legacy_request_transfer tok filename =
     lbind (peer_send (TransferRequest 0 tok filename)) (\<lambda>_.
     lbind peer_receive (\<lambda>r.
     case r of
       Some (TransferReply _ allowed filesize) \<Rightarrow> if allowed then lret filesize else lfail Link_Denied
     | Some _ \<Rightarrow> lfail Link_Unexpected
     | None \<Rightarrow> lfail Link_Closed))"

definition legacy_queue_upload :: "rstring \<Rightarrow> u32 peer_op" where
  "legacy_queue_upload filename =
     lbind (peer_send (QueueUpload filename)) (\<lambda>_.
     lbind peer_receive (\<lambda>r.
     case r of
       Some (PlaceInQueueReply _ place) \<Rightarrow> lret place
     | Some _ \<Rightarrow> lfail Link_Unexpected
     | None \<Rightarrow> lfail Link_Closed))"

section \<open>A file\<close>

definition legacy_init :: "u32 \<Rightarrow> unit sop" where
  "legacy_init tok = swrite (put_u32_le tok)"

text \<open>The reads have no timeout: when nothing more arrives the call does not return (\<open>Stalled\<close>). It ends only when
  the peer closes the connection; nothing compares the length with a size.\<close>

fun legacy_receive :: "u64 \<Rightarrow> bytes \<Rightarrow> read_event list \<Rightarrow> (u64 \<times> bytes, peer_error) outcome" where
  "legacy_receive total_bytes file [] = Err Stalled"
| "legacy_receive total_bytes file (Data bs # evs) =
     (if bs = [] then Ok (total_bytes, file)
      else legacy_receive (total_bytes + word_of_nat (length bs)) (file @ bs) evs)"
| "legacy_receive total_bytes file (Closed # evs) = Ok (total_bytes, file)"
| "legacy_receive total_bytes file (Read_Error # evs) = Err (Wire UnexpectedEof)"
| "legacy_receive total_bytes file (Read_Timeout # evs) = legacy_receive total_bytes file evs"

definition legacy_download_file :: "nat option \<Rightarrow> read_event list \<Rightarrow> (u64 \<times> bytes) sop" where
  "legacy_download_file disk evs =
     sbind (swrite (put_u64_le 0)) (\<lambda>_ c.
     case disk of
       None \<Rightarrow> (Err FileFailed, c)
     | Some room \<Rightarrow>
         (case legacy_receive 0 [] evs of
            Ok (total_bytes, file) \<Rightarrow> if room < length file then (Err FileFailed, c) else (Ok (total_bytes, file), c)
          | Err e \<Rightarrow> (Err e, c)
          | Panic \<Rightarrow> (Panic, c)))"

section \<open>Properties\<close>

text \<open>What a sequence of writes puts on a stream, and a message on a framed one.\<close>

lemma send_message_bytes:
  "c_write_ok c \<Longrightarrow> send_message code data c = (Ok (), c\<lparr>c_out := c_out c @ frame (put_u32_le code @ data)\<rparr>)"
  by (simp add: send_message_def swrite_def frame_def add.commute)

lemma server_send_bytes:
  assumes "fr_write_ok s" and "server_encode_body m = Some buf"
  shows "server_send m s = (Ok (), s\<lparr>fr_out := fr_out s @ frame buf\<rparr>)"
  using assms by (simp add: server_send_def lsend_def server_codec_encode_def server_encode_def)

text \<open>Bytes that both streams get.\<close>

definition same_bytes :: "conn \<Rightarrow> conn \<Rightarrow> 'm framed \<Rightarrow> 'm framed \<Rightarrow> bool" where
  "same_bytes c c' s s' \<longleftrightarrow> (\<exists>bs. c_out c' = c_out c @ bs \<and> fr_out s' = fr_out s @ bs)"

lemma login_writes:
  assumes "c_write_ok c"
  shows "c_out (snd (login md5_hex username password c)) =
     c_out c @ frame (put_u32_le 1 @ encode_string username @ encode_string password @ put_u32_le 160
       @ encode_string (md5_hex (as_bytes (username @ password))) @ put_u32_le 1)"
proof -
  have k: "c_out (snd (sbind read_message (\<lambda>(code, response).
       if code = 1 then
         sbind (on_data decode_login response) (\<lambda>(success, greeting_or_reason, external_ip).
         if success then sret external_ip else sfail (LoginFailed greeting_or_reason))
       else sret None) x)) = c_out x" for x
    using read_message_keeps_out [of x]
    by (auto simp: on_data_def sret_def sfail_def split: prod.splits outcome.splits)
  show ?thesis
    using assms k by (simp add: login_def send_message_bytes del: sbind.simps)
      (subst sbind.simps, simp add: send_message_bytes k del: sbind.simps)
qed

lemma legacy_login_writes:
  assumes "fr_write_ok s"
  shows "fr_out (snd (legacy_login md5_hex username password s)) =
     fr_out s @ frame (put_u32_le 1 @ encode_string username @ encode_string password @ put_u32_le 160
       @ encode_string (md5_hex (as_bytes (username @ password))) @ put_u32_le 1)"
  using assms
  by (auto simp: legacy_login_def server_send_bytes SC_defs server_receive_def lreceive_def lret_def lfail_def
      split: list.splits option.splits outcome.splits server_message.splits)

text \<open>C29: The old connection and the client say the same to the server: the login, the counts of shared files and the
  ports to listen on are the same bytes, whatever the server answers; and both ask a peer for a file with the same
  bytes. (While writing works.)\<close>

theorem same_requests:
  assumes "c_write_ok c" and "fr_write_ok s" and "fr_write_ok p"
  shows "same_bytes c (snd (login md5_hex username password c)) s (snd (legacy_login md5_hex username password s))
    \<and> same_bytes c (snd (set_shared_counts folders files c)) s (snd (legacy_set_shared_counts folders files s))
    \<and> same_bytes c (snd (set_wait_port port obfuscated_port c)) s (snd (legacy_set_wait_port port obfuscated_port s))
    \<and> same_bytes c (snd (queue_upload filename c)) p (snd (legacy_queue_upload filename p))"
proof -
  have "same_bytes c (snd (queue_upload filename c)) p (snd (legacy_queue_upload filename p))"
    using assms
    by (auto simp: same_bytes_def queue_upload_def swrite_def legacy_queue_upload_def peer_send_def lsend_def frame_def
        peer_codec_encode_def peer_encode_def peer_receive_def lreceive_def lret_def lfail_def Let_def
        split: list.splits option.splits outcome.splits peer_message.splits)
  moreover have "same_bytes c (snd (set_wait_port port obfuscated_port c)) s
      (snd (legacy_set_wait_port port obfuscated_port s))"
    using assms
    by (auto simp: same_bytes_def set_wait_port_def send_message_bytes legacy_set_wait_port_def server_send_bytes SC_defs
        split: option.splits)
  ultimately show ?thesis
    using assms
    by (simp add: same_bytes_def login_writes legacy_login_writes set_shared_counts_def send_message_bytes
        legacy_set_shared_counts_def server_send_bytes SC_defs)
qed

text \<open>They differ in what they take for an answer: the old connection refuses a first message that is not a login
  response, the client takes it for a success.\<close>

lemma legacy_login_strict:
  assumes "fr_write_ok s" and "fr_next s = Some (Ok m) # rest" and "\<forall>b r g i. m \<noteq> LoginResponse b r g i"
  shows "fst (legacy_login md5_hex username password s) = Err Link_Unexpected"
  using assms
  by (auto simp: legacy_login_def server_send_bytes SC_defs server_receive_def lreceive_def lfail_def
      split: server_message.splits)

text \<open>A file is complete for the old connection whenever the peer closes it.\<close>

lemma legacy_receive_data:
  "list_all (\<lambda>bs. bs \<noteq> []) chunks \<Longrightarrow> legacy_receive n got (map Data chunks @ Closed # evs)
    = Ok (n + word_of_nat (length (concat chunks)), got @ concat chunks)"
  by (induction chunks arbitrary: n got) simp_all

theorem same_requests_witness:
  "same_bytes \<lparr>c_in = [], c_closes = True, c_out = [], c_write_ok = True\<rparr>
     (snd (login (\<lambda>_. str ''0'') (str ''u'') (str ''p'') \<lparr>c_in = [], c_closes = True, c_out = [], c_write_ok = True\<rparr>))
     (\<lparr>fr_next = [], fr_out = [], fr_write_ok = True\<rparr> :: server_message framed)
     (snd (legacy_login (\<lambda>_. str ''0'') (str ''u'') (str ''p'') \<lparr>fr_next = [], fr_out = [], fr_write_ok = True\<rparr>))"
  using same_requests [of "\<lparr>c_in = [], c_closes = True, c_out = [], c_write_ok = True\<rparr>"
      "\<lparr>fr_next = [], fr_out = [], fr_write_ok = True\<rparr>" "\<lparr>fr_next = [], fr_out = [], fr_write_ok = True\<rparr>"]
  by simp

end
