(* ===== verification/Search_Sessions.thy ===== *)
theory Search_Sessions
  imports Client_Properties
begin

text \<open>
  Concurrent searches (\<open>search\<close> in \<open>src/src/protocol/client.rs\<close>): each search is a session in one of the
  phases of that function; the tasks that receive responses, the other searches and every task that
  leaves the search tables alone run in between. \<open>w_arrived\<close> records, for each token, the results that
  were stored since its search began, \<open>w_due\<close> how many there were when its wait ended, and \<open>w_lost\<close> the
  tokens whose request could not be sent.
\<close>

section \<open>Sessions\<close>

datatype search_phase =
    Waiting_Results nat nat
  | Left_Wait
  | In_Grace "search_result list"
  | Closing "search_result list"
  | Unregistered "search_result list"
  | Returned "search_result list"

record search_world =
  w_client :: client
  w_router :: router
  w_phase :: "u32 \<Rightarrow> search_phase option"
  w_arrived :: "u32 \<Rightarrow> search_result list"
  w_due :: "u32 \<Rightarrow> nat"
  w_lost :: "u32 set"

definition world_new :: "rstring \<Rightarrow> rstring option \<Rightarrow> search_world" where
  "world_new username external_ip =
     \<lparr>w_client = client_new username external_ip, w_router = router_new, w_phase = (\<lambda>_. None),
      w_arrived = (\<lambda>_. []), w_due = (\<lambda>_. 0), w_lost = {}\<rparr>"

definition enter :: "u32 \<Rightarrow> search_phase \<Rightarrow> client \<Rightarrow> search_world \<Rightarrow> search_world" where
  "enter tok p cl w = w\<lparr>w_client := cl, w_phase := (w_phase w)(tok \<mapsto> p)\<rparr>"

text \<open>A token is a random number of 32 bits, drawn without a look at those in use; here a search draws one that no
  other search ever had.\<close>

inductive search_step :: "search_world \<Rightarrow> search_world \<Rightarrow> bool" where
  Begin:
    "tok \<notin> active_search_tokens (w_client w) \<Longrightarrow> w_phase w tok = None \<Longrightarrow>
     ask_server tok query (w_router w) = (True, rt) \<Longrightarrow>
     search_step w (enter tok (Waiting_Results timeout start) (register_search tok (w_client w))
       (w\<lparr>w_router := rt, w_arrived := (w_arrived w)(tok := [])\<rparr>))"
| Begin_Fails:
    "tok \<notin> active_search_tokens (w_client w) \<Longrightarrow> w_phase w tok = None \<Longrightarrow>
     ask_server tok query (w_router w) = (False, rt) \<Longrightarrow>
     search_step w (w\<lparr>w_client := register_search tok (w_client w), w_router := rt,
       w_arrived := (w_arrived w)(tok := []), w_lost := insert tok (w_lost w)\<rparr>)"
| Response:
    "fst (parse_file_search_response (inflated (ce_inflate env) data)) = Ok response \<Longrightarrow>
     on_search_result env peer addr data (w_client w) = Some cl \<Longrightarrow>
     r = convert_response peer (takeWhile (\<lambda>c. c \<noteq> 58) addr) 0 response \<Longrightarrow> tok = pr_token response \<Longrightarrow>
     search_step w (w\<lparr>w_client := cl,
       w_arrived := (if tok \<in> active_search_tokens (w_client w)
          then (w_arrived w)(tok := w_arrived w tok @ [r]) else w_arrived w)\<rparr>)"
| Other_Task:
    "search_results cl = search_results (w_client w) \<Longrightarrow>
     active_search_tokens cl = active_search_tokens (w_client w) \<Longrightarrow>
     search_step w (w\<lparr>w_client := cl, w_router := rt\<rparr>)"
| Round:
    "w_phase w tok = Some (Waiting_Results timeout last_result) \<Longrightarrow>
     \<not> leaves_wait timeout last_result (results_with_files tok (w_client w)) t \<Longrightarrow>
     search_step w (enter tok (Waiting_Results timeout (if notified = Some tok then rd_note t else last_result))
       (w_client w) w)"
| Leave:
    "w_phase w tok = Some (Waiting_Results timeout last_result) \<Longrightarrow>
     leaves_wait timeout last_result (results_with_files tok (w_client w)) t \<Longrightarrow>
     search_step w (enter tok Left_Wait (w_client w) w)"
| Collect:
    "w_phase w tok = Some Left_Wait \<Longrightarrow> take_results tok (w_client w) = (rs, cl) \<Longrightarrow>
     search_step w (enter tok (In_Grace rs) cl (w\<lparr>w_due := (w_due w)(tok := length (w_arrived w tok))\<rparr>))"
| Grace_Result:
    "w_phase w tok = Some (In_Grace rs) \<Longrightarrow> take_results tok (w_client w) = (new_results, cl) \<Longrightarrow>
     search_step w (enter tok (In_Grace (rs @ new_results)) cl w)"
| Grace_Over:
    "w_phase w tok = Some (In_Grace rs) \<Longrightarrow> search_step w (enter tok (Closing rs) (w_client w) w)"
| Unregister:
    "w_phase w tok = Some (Closing rs) \<Longrightarrow>
     search_step w (enter tok (Unregistered rs) (unregister_search tok (w_client w)) w)"
| Clean_Up:
    "w_phase w tok = Some (Unregistered rs) \<Longrightarrow>
     search_step w (enter tok (Returned rs) (snd (take_results tok (w_client w))) w)"

inductive search_reachable :: "search_world \<Rightarrow> bool" where
  Fresh_World: "search_reachable (world_new username external_ip)"
| Next_World: "search_reachable w \<Longrightarrow> search_step w w' \<Longrightarrow> search_reachable w'"

section \<open>What holds of a session\<close>

definition bucket :: "search_world \<Rightarrow> u32 \<Rightarrow> search_result list" where
  "bucket w tok = (case search_results (w_client w) tok of Some rs \<Rightarrow> rs | None \<Rightarrow> [])"

definition registered :: "search_world \<Rightarrow> u32 \<Rightarrow> bool" where
  "registered w tok \<longleftrightarrow> tok \<in> active_search_tokens (w_client w)"

fun phase_ok :: "bool \<Rightarrow> search_result list option \<Rightarrow> search_result list \<Rightarrow> nat \<Rightarrow> bool
    \<Rightarrow> search_phase option \<Rightarrow> bool" where
  "phase_ok reg results arrived due lost None \<longleftrightarrow>
     (reg \<longleftrightarrow> lost) \<and> (results = None \<or> lost)"
| "phase_ok reg results arrived due lost (Some (Waiting_Results timeout last_result)) \<longleftrightarrow>
     reg \<and> \<not> lost \<and> results = Some arrived"
| "phase_ok reg results arrived due lost (Some Left_Wait) \<longleftrightarrow> reg \<and> \<not> lost \<and> results = Some arrived"
| "phase_ok reg results arrived due lost (Some (In_Grace rs)) \<longleftrightarrow>
     reg \<and> \<not> lost \<and> arrived = rs @ (case results of Some b \<Rightarrow> b | None \<Rightarrow> []) \<and> due \<le> length rs"
| "phase_ok reg results arrived due lost (Some (Closing rs)) \<longleftrightarrow>
     reg \<and> \<not> lost \<and> arrived = rs @ (case results of Some b \<Rightarrow> b | None \<Rightarrow> []) \<and> due \<le> length rs"
| "phase_ok reg results arrived due lost (Some (Unregistered rs)) \<longleftrightarrow>
     \<not> reg \<and> \<not> lost \<and> prefix rs arrived \<and> due \<le> length rs"
| "phase_ok reg results arrived due lost (Some (Returned rs)) \<longleftrightarrow>
     \<not> reg \<and> \<not> lost \<and> results = None \<and> prefix rs arrived \<and> due \<le> length rs"

definition session_ok :: "search_world \<Rightarrow> u32 \<Rightarrow> bool" where
  "session_ok w tok \<longleftrightarrow>
     phase_ok (tok \<in> active_search_tokens (w_client w)) (search_results (w_client w) tok)
       (w_arrived w tok) (w_due w tok) (tok \<in> w_lost w) (w_phase w tok)"

lemmas session_simps =
  session_ok_def enter_def register_search_def take_results_def unregister_search_def

lemma on_search_result_stores:
  assumes "fst (parse_file_search_response (inflated (ce_inflate env) data)) = Ok response"
    and "on_search_result env peer addr data cl = Some cl'"
  shows "cl' = store_result (pr_token response)
    (convert_response peer (takeWhile (\<lambda>c. c \<noteq> 58) addr) 0 response) cl"
  using assms by (simp add: on_search_result_def)

text \<open>A response is added to the bucket of its own token, if that is registered.\<close>

lemma phase_ok_response:
  "phase_ok True results arrived due lost p \<Longrightarrow>
   phase_ok True (Some ((case results of Some rs \<Rightarrow> rs | None \<Rightarrow> []) @ [r])) (arrived @ [r]) due lost p"
  by (cases "(True, results, arrived, due, lost, p)" rule: phase_ok.cases) (auto split: option.splits)

lemma search_step_ok:
  assumes "search_step w w'" and "session_ok w tok"
  shows "session_ok w' tok"
  using assms
proof (induction rule: search_step.induct)
  case (Response env data response peer addr w cl r t)
  have c: "cl = store_result t r (w_client w)"
    using on_search_result_stores [OF Response(1,2)] Response(3,4) by simp
  show ?case
  proof (cases "t = tok \<and> tok \<in> active_search_tokens (w_client w)")
    case True
    then have "phase_ok True (search_results (w_client w) tok) (w_arrived w tok) (w_due w tok)
        (tok \<in> w_lost w) (w_phase w tok)"
      using Response.prems by (simp add: session_ok_def)
    from phase_ok_response [OF this, of r] show ?thesis
      using True by (simp add: c store_result_def session_ok_def)
  next
    case False
    then show ?thesis
      using Response.prems by (auto simp: c store_result_def session_ok_def)
  qed
qed (auto simp: session_simps split: option.splits if_splits)

lemma session_reachable: "search_reachable w \<Longrightarrow> session_ok w tok"
proof (induction rule: search_reachable.induct)
  case (Next_World w w')
  from search_step_ok [OF Next_World(2,3)] show ?case .
qed (simp add: session_ok_def world_new_def client_new_def)

text \<open>C11: however many searches run at the same time and however their steps and the responses are
  interleaved, a search that has returned got only results that arrived for its own token, each once
  and in the order of arrival, from the first on; every result that had arrived when its wait ended is
  among them, so such a search does not fail with the no-results error; and it has left nothing behind:
  its token is not registered and its bucket is gone. (No two searches draw the same token: the program draws
  32 random bits and does not check, so that this holds only with high probability.)\<close>

theorem search_returns_its_results:
  assumes "search_reachable w" and "w_phase w tok = Some (Returned rs)"
  shows "(\<exists>later. w_arrived w tok = rs @ later) \<and> w_due w tok \<le> length rs
    \<and> (w_due w tok = 0 \<or> search_answer query rs = Ok rs)
    \<and> tok \<notin> active_search_tokens (w_client w) \<and> search_results (w_client w) tok = None"
  using session_reachable [OF assms(1), of tok] assms(2)
  by (auto simp: session_ok_def search_answer_def prefix_def)

definition sample_response_bytes :: bytes where
  "sample_response_bytes = search_response_body (str ''bob'') 7 [] True 5 0"

lemma sample_response_parsed:
  "fst (parse_file_search_response sample_response_bytes) =
     Ok \<lparr>pr_username = str ''bob'', pr_token = 7, pr_files = [], pr_slot_free = True, pr_avg_speed = 5,
        pr_queue_length = 0\<rparr>"
  using decode_encode_string [of "str ''bob''"] get_u32_put [of 0 "[]"]
  by (simp add: sample_response_bytes_def search_response_body_def parse_file_search_response_def
      parse_stats_def wire_rt wire_len fits_u32_def str_def is_scalar_def utf8_char_def len_u32_def
      put_u8_def)

definition sample_client_env :: client_env where
  "sample_client_env = \<lparr>ce_unicode = ascii_tables, ce_zlib = (\<lambda>b. b), ce_inflate = (\<lambda>_. None),
     ce_on_disk = (\<lambda>_. True), ce_now = 0\<rparr>"

definition bob_result :: search_result where
  "bob_result = \<lparr>sr_username = str ''bob'', sr_files = [], sr_has_slots = True, sr_avg_speed = 5,
     sr_queue_length = 0, sr_peer_ip = str ''1.2.3.4'', sr_peer_port = 0\<rparr>"

definition one_round :: "nat \<Rightarrow> round_times" where
  "one_round n = \<lparr>rd_head = n, rd_abort = n, rd_min = n, rd_quiet = n, rd_note = n\<rparr>"

lemma sample_session:
  "\<exists>w. search_reachable w \<and> w_phase w 7 = Some (Returned [bob_result]) \<and> w_due w 7 = 1"
proof -
  note next_w = Next_World
  let ?w0 = "world_new (str ''me'') None"
  let ?w1 = "enter 7 (Waiting_Results 10 0) (register_search 7 (w_client ?w0))
    (?w0\<lparr>w_router := snd (ask_server 7 (str ''song'') router_new), w_arrived := (w_arrived ?w0)(7 := [])\<rparr>)"
  have "search_reachable ?w1"
    by (rule next_w [OF Fresh_World], rule search_step.Begin [where query = "str ''song''"])
      (simp_all add: world_new_def client_new_def ask_server_def send_to_server_def router_new_def)
  let ?cl = "store_result 7 bob_result (w_client ?w1)"
  have st: "on_search_result sample_client_env (str ''bob'') (str ''1.2.3.4:5'') sample_response_bytes (w_client ?w1) = Some ?cl"
    by (simp add: on_search_result_def inflated_def sample_client_env_def sample_response_parsed convert_response_def
        bob_result_def) (simp add: str_def)
  let ?w2 = "?w1\<lparr>w_client := ?cl, w_arrived := (w_arrived ?w1)(7 := w_arrived ?w1 7 @ [bob_result])\<rparr>"
  have "search_step ?w1 ?w2"
    using search_step.Response [OF _ st refl refl, of "\<lparr>pr_username = str ''bob'', pr_token = 7, pr_files = [],
        pr_slot_free = True, pr_avg_speed = 5, pr_queue_length = 0\<rparr>"]
    by (simp add: inflated_def sample_client_env_def sample_response_parsed convert_response_def enter_def
        register_search_def) (simp add: bob_result_def str_def)
  with \<open>search_reachable ?w1\<close> have w2: "search_reachable ?w2" by (rule next_w)
  have p2: "w_phase ?w2 7 = Some (Waiting_Results 10 0)" by (simp add: enter_def)
  let ?w3 = "enter 7 Left_Wait (w_client ?w2) ?w2"
  have w3: "search_reachable ?w3"
    by (rule next_w [OF w2 search_step.Leave [OF p2, of "one_round 10"]]) (simp add: leaves_wait_def one_round_def)
  have p3: "w_phase ?w3 7 = Some Left_Wait" by (simp add: enter_def)
  let ?t = "take_results 7 (w_client ?w3)"
  let ?w4 = "enter 7 (In_Grace (fst ?t)) (snd ?t) (?w3\<lparr>w_due := (w_due ?w3)(7 := length (w_arrived ?w3 7))\<rparr>)"
  have w4: "search_reachable ?w4"
    by (rule next_w [OF w3 search_step.Collect [OF p3]]) simp
  have p4: "w_phase ?w4 7 = Some (In_Grace (fst ?t))" by (simp add: enter_def)
  let ?w5 = "enter 7 (Closing (fst ?t)) (w_client ?w4) ?w4"
  have w5: "search_reachable ?w5" by (rule next_w [OF w4 search_step.Grace_Over [OF p4]])
  have p5: "w_phase ?w5 7 = Some (Closing (fst ?t))" by (simp add: enter_def)
  let ?w6 = "enter 7 (Unregistered (fst ?t)) (unregister_search 7 (w_client ?w5)) ?w5"
  have w6: "search_reachable ?w6" by (rule next_w [OF w5 search_step.Unregister [OF p5]])
  have p6: "w_phase ?w6 7 = Some (Unregistered (fst ?t))" by (simp add: enter_def)
  let ?w7 = "enter 7 (Returned (fst ?t)) (snd (take_results 7 (w_client ?w6))) ?w6"
  have w7: "search_reachable ?w7" by (rule next_w [OF w6 search_step.Clean_Up [OF p6]])
  have "w_phase ?w7 7 = Some (Returned [bob_result])" "w_due ?w7 7 = 1"
    by (simp_all add: enter_def take_results_def store_result_def register_search_def)
  with w7 show ?thesis by blast
qed

theorem search_returns_its_results_witness:
  "\<exists>w :: search_world. w_due w 7 = 1 \<and> (\<exists>later. w_arrived w 7 = [bob_result] @ later)
     \<and> search_answer (str ''song'') [bob_result] = Ok [bob_result]"
proof -
  obtain w where w: "search_reachable w" "w_phase w 7 = Some (Returned [bob_result])" "w_due w 7 = 1"
    using sample_session by blast
  from search_returns_its_results [OF w(1,2), of "str ''song''"] w(3) show ?thesis
    by - (rule exI [of _ w], auto)
qed

definition in_progress :: "search_phase option \<Rightarrow> bool" where
  "in_progress p \<longleftrightarrow>
     (case p of
        None \<Rightarrow> False | Some (Unregistered _) \<Rightarrow> False | Some (Returned _) \<Rightarrow> False | Some _ \<Rightarrow> True)"

lemma lost_forever: "search_step w w' \<Longrightarrow> w_lost w \<subseteq> w_lost w'"
  by (induction rule: search_step.induct) (auto simp: enter_def)

lemma session_registered:
  "session_ok w tok \<Longrightarrow>
   tok \<in> active_search_tokens (w_client w) \<longleftrightarrow> in_progress (w_phase w tok) \<or> tok \<in> w_lost w"
  unfolding session_ok_def in_progress_def
  by (cases "w_phase w tok"; cases "the (w_phase w tok)") auto

lemma registered_tokens:
  "search_reachable w \<Longrightarrow>
   active_search_tokens (w_client w) = {tok. in_progress (w_phase w tok)} \<union> w_lost w"
  using session_registered [OF session_reachable] by blast

text \<open>The search tables hold nothing but the searches in progress - and the searches that failed at
  their first step: when the request cannot be sent to the server, the function returns the error
  without unregistering its token, and in every later state the token is still registered. The responses
  for it are then collected for ever, and the client never again considers itself without searches.\<close>

lemma lost_search_stays_registered:
  assumes "search_reachable w" and "ask_server tok query (w_router w) = (False, rt)"
    and "tok \<notin> active_search_tokens (w_client w)" and "w_phase w tok = None"
    and "search_step\<^sup>*\<^sup>* (w\<lparr>w_client := register_search tok (w_client w), w_router := rt,
       w_arrived := (w_arrived w)(tok := []), w_lost := insert tok (w_lost w)\<rparr>) w'"
  shows "active_search_tokens (w_client w) = {tok. in_progress (w_phase w tok)} \<union> w_lost w
    \<and> tok \<in> active_search_tokens (w_client w')
    \<and> active_search_tokens (w_client w') = {tok. in_progress (w_phase w' tok)} \<union> w_lost w'"
proof -
  let ?w1 = "w\<lparr>w_client := register_search tok (w_client w), w_router := rt,
       w_arrived := (w_arrived w)(tok := []), w_lost := insert tok (w_lost w)\<rparr>"
  have "search_reachable ?w1"
    by (rule Next_World [OF assms(1)]) (rule search_step.Begin_Fails [OF assms(3,4,2)])
  have "search_reachable w' \<and> tok \<in> w_lost w'"
    using assms(5)
  proof (induction rule: rtranclp_induct)
    case (step y z)
    then show ?case using Next_World lost_forever by blast
  qed (use \<open>search_reachable ?w1\<close> in simp)
  with registered_tokens [OF assms(1)] registered_tokens [of w'] show ?thesis by simp
qed

lemma lost_search_stays_registered_witness:
  "7 \<in> active_search_tokens (w_client (world_new [] None)\<lparr>active_search_tokens := {7}, search_results :=
     (search_results (w_client (world_new [] None)))(7 \<mapsto> [])\<rparr>)"
proof -
  define w where "w = (world_new [] None)\<lparr>w_client := w_client (world_new [] None), w_router := router_new\<lparr>rt_write_ok := False\<rparr>\<rparr>"
  have "search_reachable w"
    unfolding w_def by (rule Next_World [OF Fresh_World]) (rule search_step.Other_Task; simp)
  moreover have "ask_server 7 [] (w_router w) = (False, w_router w)"
    by (simp add: w_def ask_server_def send_to_server_def)
  moreover have "7 \<notin> active_search_tokens (w_client w)" "w_phase w 7 = None"
    by (simp_all add: w_def world_new_def client_new_def)
  ultimately have "7 \<in> active_search_tokens (register_search 7 (w_client w))"
    using lost_search_stays_registered [OF _ _ _ _ rtranclp.rtrancl_refl, of w 7 "[]" "w_router w"] by simp
  then show ?thesis by (simp add: w_def world_new_def client_new_def register_search_def)
qed

end
