(* ===== verification/Direct_Download.thy ===== *)
theory Direct_Download
  imports Client
begin

text \<open>
  The downloads that wait for their file themselves, beside the one the queue starts: \<open>wait_for_file_connection\<close>
  and \<open>download_file\<close> of \<open>src/src/protocol/peer.rs\<close>, which look for the file connection on the server
  connection too, and \<open>download_file\<close> and \<open>search_and_download\<close> of \<open>src/src/protocol/client.rs\<close>. They are part
  of the library's interface; the program itself calls none of them.
\<close>

section \<open>Answering a connection request\<close>

text \<open>The connection that is then handed to the dispatch of peer messages; \<open>dialled\<close> is the TCP connection, if it
  is made within five seconds.\<close>

definition connect_to_peer_for_dispatch :: "conn option \<Rightarrow> u32 \<Rightarrow> (conn, peer_error) outcome" where
  "connect_to_peer_for_dispatch dialled tok =
     (case dialled of
        None \<Rightarrow> Err ConnectFailed
      | Some c \<Rightarrow>
          (case send_pierce_firewall tok c of
             (Ok _, c') \<Rightarrow> Ok c' | (Err e, _) \<Rightarrow> Err e | (Panic, _) \<Rightarrow> Panic))"

section \<open>Waiting for a file connection\<close>

text \<open>One turn of the loop: a file connection from the listener, with its token, or the end of that channel; or
  what one read of the server connection gave. The list holds the turns before the deadline.\<close>

datatype f_turn =
    Incoming_F u32 conn
  | Listener_Gone
  | From_Server "(u32 \<times> bytes, peer_error) outcome"

datatype f_error = F_Error peer_error | F_Timeout

text \<open>A connection the server asks us to make, within the time left. \<open>None\<close>: the loop goes on.\<close>

definition indirect_conn ::
  "(rstring \<Rightarrow> u32 \<Rightarrow> conn option) \<Rightarrow> rstring \<Rightarrow> connect_to_peer_msg \<Rightarrow> (u32 \<times> conn, f_error) outcome option" where
  "indirect_conn dial peer_username m =
     (if cm_conn_type m = str ''F'' \<and> cm_username m = peer_username then
        (case dial (cm_ip m) (cm_port m) of
           None \<Rightarrow> None
         | Some c \<Rightarrow>
             (case connect_for_indirect_transfer (cm_token m) c of
                (Ok tok, c') \<Rightarrow> Some (Ok (tok, c'))
              | (Err e, _) \<Rightarrow> if e = Stalled then Some (Err F_Timeout) else None
              | (Panic, _) \<Rightarrow> Some Panic))
      else None)"

definition server_turn ::
  "(rstring \<Rightarrow> u32 \<Rightarrow> conn option) \<Rightarrow> rstring \<Rightarrow> (u32 \<times> bytes, peer_error) outcome
   \<Rightarrow> (u32 \<times> conn, f_error) outcome option" where
  "server_turn dial peer_username msg_result =
     (case msg_result of
        Ok (code, data) \<Rightarrow>
          if code = 18 then
            (case fst (parse_connect_to_peer data) of
               Ok m \<Rightarrow> indirect_conn dial peer_username m
             | Err e \<Rightarrow> Some (Err (F_Error (Wire e)))
             | Panic \<Rightarrow> Some Panic)
          else None
      | Err e \<Rightarrow> None
      | Panic \<Rightarrow> Some Panic)"

fun wait_for_file_connection ::
  "(rstring \<Rightarrow> u32 \<Rightarrow> conn option) \<Rightarrow> rstring \<Rightarrow> u32 \<Rightarrow> f_turn list \<Rightarrow> (u32 \<times> conn, f_error) outcome" where
  "wait_for_file_connection dial peer_username transfer_tok [] = Err F_Timeout"
| "wait_for_file_connection dial peer_username transfer_tok (Incoming_F tok c # turns) =
     (if tok = transfer_tok then Ok (tok, c)
      else wait_for_file_connection dial peer_username transfer_tok turns)"
| "wait_for_file_connection dial peer_username transfer_tok (Listener_Gone # turns) =
     wait_for_file_connection dial peer_username transfer_tok turns"
| "wait_for_file_connection dial peer_username transfer_tok (From_Server msg_result # turns) =
     (case server_turn dial peer_username msg_result of
        Some result \<Rightarrow> result
      | None \<Rightarrow> wait_for_file_connection dial peer_username transfer_tok turns)"

text \<open>The bytes counted, the file and the totals reported, or the error.\<close>

definition peer_download_file ::
  "(rstring \<Rightarrow> u32 \<Rightarrow> conn option) \<Rightarrow> rstring \<Rightarrow> u32 \<Rightarrow> f_turn list \<Rightarrow> nat option \<Rightarrow> u64 \<Rightarrow> read_event list
   \<Rightarrow> (u64 \<times> bytes \<times> u64 list, f_error) outcome" where
  "peer_download_file dial peer_username transfer_tok turns disk filesize evs =
     (case wait_for_file_connection dial peer_username transfer_tok turns of
        Ok (_, c) \<Rightarrow>
          (case fst (receive_file_data disk filesize evs c) of
             Ok r \<Rightarrow> Ok r | Err e \<Rightarrow> Err (F_Error e) | Panic \<Rightarrow> Panic)
      | Err e \<Rightarrow> Err e
      | Panic \<Rightarrow> Panic)"

section \<open>The client's download that waits\<close>

datatype download_result =
    DR_Completed u64
  | DR_Transfer_Started u64
  | DR_Queued u32 "u32 option" rstring
  | DR_Failed rstring

definition direct_fails :: "rstring \<Rightarrow> rstring \<Rightarrow> client \<Rightarrow> download_result option \<times> client" where
  "direct_fails filename reason cl = (Some (DR_Failed reason), set_status filename (DS_Failed reason) cl)"

definition set_downloaded :: "rstring \<Rightarrow> u64 \<Rightarrow> client \<Rightarrow> client" where
  "set_downloaded filename n cl =
     (case cl_downloads cl filename of
        Some p \<Rightarrow> cl\<lparr>cl_downloads := (cl_downloads cl)(filename \<mapsto> p\<lparr>dp_downloaded_bytes := n\<rparr>)\<rparr>
      | None \<Rightarrow> cl)"

definition direct_transfer ::
  "download_answers \<Rightarrow> nat option \<Rightarrow> read_event list \<Rightarrow> rstring \<Rightarrow> u64 \<Rightarrow> u32 \<Rightarrow> client
   \<Rightarrow> download_result option \<times> client" where
  "direct_transfer a disk evs filename actual_size tok cl =
     (let cl = set_total filename actual_size (set_status filename DS_InProgress cl);
          cl = waiter_gives_up tok (snd (register_waiter tok 0 cl))
      in case da_routed a tok of
           Ok c \<Rightarrow>
             (case fst (receive_file_data disk actual_size evs c) of
                Ok (n, file, prog) \<Rightarrow>
                  (Some (DR_Completed n), set_downloaded filename n (set_status filename DS_Completed cl))
              | Err e \<Rightarrow> direct_fails filename (str ''File transfer failed: '' @ da_text a (DE_Peer e)) cl
              | Panic \<Rightarrow> (None, cl))
         | Err e \<Rightarrow> direct_fails filename (str ''Failed to get F connection: '' @ da_text a e) cl
         | Panic \<Rightarrow> (None, cl))"

text \<open>A download that is put in the peer's queue is remembered without anyone to report to.\<close>

definition direct_queued ::
  "rstring \<Rightarrow> rstring \<Rightarrow> u64 \<Rightarrow> rstring \<Rightarrow> u32 \<Rightarrow> u32 option \<Rightarrow> rstring \<Rightarrow> client
   \<Rightarrow> download_result option \<times> client" where
  "direct_queued username filename filesize output_path tok position reason cl =
     (let cl = set_status filename DS_Queued cl in
      (Some (DR_Queued tok position reason),
       cl\<lparr>pending_downloads := (pending_downloads cl)(tok \<mapsto>
         \<lparr>pd_username = username, pd_filename = filename, pd_filesize = filesize, pd_transfer_token = tok,
          pd_output_path = output_path, pd_item_id = None, pd_queue_id = None, pd_list_id = None,
          pd_reports = False\<rparr>)\<rparr>))"

definition direct_negotiated ::
  "download_answers \<Rightarrow> nat option \<Rightarrow> read_event list \<Rightarrow> rstring \<Rightarrow> rstring \<Rightarrow> u64 \<Rightarrow> rstring
   \<Rightarrow> (negotiation, peer_error) outcome \<Rightarrow> client \<Rightarrow> download_result option \<times> client" where
  "direct_negotiated a disk evs username filename filesize output_path result cl =
     (case result of
        Ok (Allowed actual_size tok) \<Rightarrow> direct_transfer a disk evs filename actual_size tok cl
      | Ok (Queued tok position reason) \<Rightarrow>
          direct_queued username filename filesize output_path tok position reason cl
      | Ok (Denied reason) \<Rightarrow> direct_fails filename reason cl
      | Err e \<Rightarrow>
          (if e = Stalled then (None, cl)
           else direct_fails filename (str ''Negotiation failed: '' @ da_text a (DE_Peer e)) cl)
      | Panic \<Rightarrow> (None, cl))"

text \<open>\<open>None\<close> means that the call does not return, as in \<open>initiate_download\<close>.\<close>

definition download_file ::
  "download_answers \<Rightarrow> nat option \<Rightarrow> read_event list \<Rightarrow> rstring \<Rightarrow> rstring \<Rightarrow> u64 \<Rightarrow> rstring \<Rightarrow> u32 \<Rightarrow> rstring
   \<Rightarrow> client \<Rightarrow> download_result option \<times> client" where
  "download_file a disk evs username filename filesize peer_ip peer_port output_path cl =
     (case open_p_connection a username peer_ip peer_port (start_progress filename filesize cl) of
        (Panic, cl) \<Rightarrow> (None, cl)
      | (Err reason, cl) \<Rightarrow> direct_fails filename reason cl
      | (Ok c, cl) \<Rightarrow>
          (case queue_upload filename c of
             (Err e, _) \<Rightarrow>
               direct_fails filename (str ''Failed to send QueueUpload: '' @ da_text a (DE_Peer e)) cl
           | (Panic, _) \<Rightarrow> (None, cl)
           | (Ok _, c) \<Rightarrow>
               direct_negotiated a disk evs username filename filesize output_path
                 (fst (wait_for_transfer_request (da_messages a) filename c)) cl))"

definition get_download_progress :: "rstring \<Rightarrow> client \<Rightarrow> download_progress option" where
  "get_download_progress filename cl = cl_downloads cl filename"

definition get_best_file :: "unicode \<Rightarrow> search_result list \<Rightarrow> rstring \<Rightarrow> rstring option \<Rightarrow> scored_file option" where
  "get_best_file u results query fmt = find_best_file u results query fmt"

definition get_best_files :: "unicode \<Rightarrow> search_result list \<Rightarrow> rstring \<Rightarrow> rstring option \<Rightarrow> scored_file list" where
  "get_best_files u results query fmt = find_best_files u results query fmt"

text \<open>\<open>found\<close> is what the search of ten seconds answered. \<open>None\<close> inside the result: the download does not return.\<close>

definition search_and_download ::
  "unicode \<Rightarrow> download_answers \<Rightarrow> nat option \<Rightarrow> read_event list \<Rightarrow> (search_result list, rstring) outcome
   \<Rightarrow> rstring \<Rightarrow> rstring \<Rightarrow> client \<Rightarrow> (scored_file \<times> download_result option, rstring) outcome \<times> client" where
  "search_and_download u a disk evs found query output_path cl =
     (case found of
        Err t \<Rightarrow> (Err t, cl)
      | Panic \<Rightarrow> (Panic, cl)
      | Ok results \<Rightarrow>
          if results = [] then (Err (str ''No results found for query: '' @ query), cl)
          else
            (case get_best_file u results query None of
               None \<Rightarrow> (Err (str ''No suitable files found matching query''), cl)
             | Some f \<Rightarrow>
                 (case download_file a disk evs (sc_username f) (sc_filename f) (sc_size f) (sc_peer_ip f)
                         (sc_peer_port f) output_path cl of
                    (r, cl') \<Rightarrow> (Ok (f, r), cl'))))"

section \<open>Properties\<close>

text \<open>The handler of connection requests, in terms of the connection it makes.\<close>

lemma on_connect_request_dispatch:
  "on_connect_request env handlers dial msg (cl, rt) =
     (if active_search_tokens cl = {} \<and> cl_sharing cl = None \<or> 50 \<le> handlers then Some (cl, rt)
      else
        (let ip = loopback (cl_external_ip cl) (cm_ip msg) in
         case connect_to_peer_for_dispatch (dial ip (cm_port msg)) (cm_token msg) of
           Ok c \<Rightarrow> map_option (\<lambda>(cl', _). (cl', rt))
             (handle_peer_message_dispatch env (cm_username msg) (ip @ [58] @ show_nat (unat (cm_port msg))) cl c)
         | _ \<Rightarrow> Some (cl, snd (report_cant_connect (cm_token msg) (cm_username msg) rt))))"
  by (auto simp: on_connect_request_def connect_to_peer_for_dispatch_def Let_def split: option.splits outcome.splits
      prod.splits)

text \<open>What a turn decides: the wait ends with the first turn that decides something.\<close>

fun decision ::
  "(rstring \<Rightarrow> u32 \<Rightarrow> conn option) \<Rightarrow> rstring \<Rightarrow> u32 \<Rightarrow> f_turn \<Rightarrow> (u32 \<times> conn, f_error) outcome option" where
  "decision dial peer tok (Incoming_F t c) = (if t = tok then Some (Ok (t, c)) else None)"
| "decision dial peer tok Listener_Gone = None"
| "decision dial peer tok (From_Server r) = server_turn dial peer r"

lemma wait_first_decision:
  "wait_for_file_connection dial peer tok turns =
     (case List.map_filter (decision dial peer tok) turns of [] \<Rightarrow> Err F_Timeout | d # _ \<Rightarrow> d)"
  by (induction turns rule: wait_for_file_connection.induct [of _ dial peer tok])
    (auto simp: List.map_filter_simps split: option.splits)

text \<open>The token of a connection that we make is not compared: the peer may name any transfer.\<close>

lemma indirect_token_unchecked:
  assumes "fst (parse_connect_to_peer data) = Ok m" and "cm_conn_type m = str ''F''" and "cm_username m = peer"
    and "dial (cm_ip m) (cm_port m) = Some c" and "connect_for_indirect_transfer (cm_token m) c = (Ok other, c')"
  shows "wait_for_file_connection dial peer tok (From_Server (Ok (18, data)) # turns) = Ok (other, c')"
  using assms by (simp add: server_turn_def indirect_conn_def)

text \<open>What the queue's download becomes when it is carried out at once and nobody is told: the transfer runs to its end
  as the queue's task runs it, and of a failure the direct download says that it was in the transfer, in its result
  and in the entry, where the queue's task writes the bare error.\<close>

definition unreported :: "u32 \<Rightarrow> client \<Rightarrow> client" where
  "unreported tok cl =
     cl\<lparr>pending_downloads := (pending_downloads cl)(tok := map_option (\<lambda>pd. pd\<lparr>pd_item_id := None, pd_queue_id := None,
        pd_list_id := None, pd_reports := False\<rparr>) (pending_downloads cl tok))\<rparr>"

definition carried_out ::
  "download_answers \<Rightarrow> nat option \<Rightarrow> read_event list \<Rightarrow> init_outcome option \<times> client \<Rightarrow> download_result option \<times> client"
where
  "carried_out a disk evs r =
     (case r of
        (None, cl) \<Rightarrow> (None, cl)
      | (Some o', cl) \<Rightarrow>
          (case (io_transfer o', io_init o') of
             (Some t, _) \<Rightarrow>
               (case finish_transfer (da_text a) disk evs t cl of
                  (Some done', cl) \<Rightarrow>
                    (case tx_result done' of
                       Ok n \<Rightarrow> (Some (DR_Completed n), cl)
                     | Err e \<Rightarrow> direct_fails (rn_filename t) (str ''File transfer failed: '' @ e) cl
                     | Panic \<Rightarrow> (None, cl))
                | (None, cl) \<Rightarrow> (None, cl))
           | (None, Download_Queued tok position reason) \<Rightarrow> (Some (DR_Queued tok position reason), unreported tok cl)
           | (None, Download_Failed reason) \<Rightarrow> (Some (DR_Failed reason), cl)
           | (None, Transfer_Spawned i tok) \<Rightarrow> (None, cl)))"

lemma set_downloaded_status:
  "set_downloaded filename n (set_status filename st cl) =
     (case cl_downloads cl filename of
        Some p \<Rightarrow> cl\<lparr>cl_downloads := (cl_downloads cl)(filename \<mapsto> p\<lparr>dp_downloaded_bytes := n, dp_status := st\<rparr>)\<rparr>
      | None \<Rightarrow> cl)"
proof (cases "cl_downloads cl filename")
  case (Some p)
  then show ?thesis by (cases p) (simp add: set_downloaded_def set_status_def)
qed (simp add: set_downloaded_def set_status_def)

lemma set_status_twice [simp]: "set_status f x (set_status f y cl) = set_status f x cl"
  by (simp add: set_status_def split: option.split)

lemma carried_out_none [simp]: "carried_out a disk evs (None, cl) = (None, cl)"
  by (simp add: carried_out_def)

lemma finish_transfer_recorded:
  assumes "rn_report t = Some ids"
  shows "finish_transfer show_error disk evs t cl =
    (let result = (case fst (receive_file_data disk (rn_filesize t) evs (rn_conn t)) of
            Ok (n, file, prog) \<Rightarrow> Ok n | Err e \<Rightarrow> Err (show_error (DE_Peer e)) | Panic \<Rightarrow> Panic)
     in (Some \<lparr>tx_item_id = fst ids, tx_queue_id = fst (snd ids), tx_list_id = snd (snd ids),
               tx_transfer_token = rn_token t, tx_result = result\<rparr>,
         case result of
           Ok n \<Rightarrow> set_downloaded (rn_filename t) n (set_status (rn_filename t) DS_Completed cl)
         | Err e \<Rightarrow> set_status (rn_filename t) (DS_Failed e) cl
         | Panic \<Rightarrow> cl))"
proof (cases "fst (receive_file_data disk (rn_filesize t) evs (rn_conn t))")
  case (Ok x)
  with assms show ?thesis
    by (cases ids; cases x) (simp add: finish_transfer_def set_downloaded_status split: option.splits)
qed (use assms in \<open>cases ids; simp add: finish_transfer_def set_status_def split: option.splits\<close>)+

lemma fails_carried_out:
  "carried_out a disk evs (download_fails filename reason completion cl) = direct_fails filename reason cl"
  by (simp add: carried_out_def download_fails_def direct_fails_def)

lemma queued_carried_out:
  "carried_out a disk evs (queued_download username filename filesize path ids tok position reason cl)
    = direct_queued username filename filesize path tok position reason cl"
  by (simp add: carried_out_def queued_download_def direct_queued_def unreported_def Let_def)

lemma allowed_carried_out:
  assumes "da_routed a tok = Ok c"
  shows "carried_out a disk evs (allowed_download a filename ip port ids n tok cl)
    = direct_transfer a disk evs filename n tok cl"
  using assms
  by (cases "fst (receive_file_data disk n evs c)")
    (auto simp: carried_out_def allowed_download_def open_f_connection_def direct_transfer_def
      finish_transfer_recorded direct_fails_def Let_def)

lemma negotiated_carried_out:
  assumes "\<forall>n tok. result = Ok (Allowed n tok) \<longrightarrow> is_ok (da_routed a tok)"
  shows "carried_out a disk evs (negotiated_download a username filename filesize ip port path ids result cl)
    = direct_negotiated a disk evs username filename filesize path result cl"
proof (cases result)
  case (Ok x)
  show ?thesis
  proof (cases x)
    case (Allowed n tok)
    with assms Ok obtain c where "da_routed a tok = Ok c" by (cases "da_routed a tok") auto
    with Ok Allowed show ?thesis
      by (simp add: negotiated_download_def direct_negotiated_def allowed_carried_out)
  qed (simp_all add: negotiated_download_def direct_negotiated_def queued_carried_out denied_download_def
      fails_carried_out Ok)
qed (auto simp: negotiated_download_def direct_negotiated_def fails_carried_out)

text \<open>C28: The download that waits does what the queue's download does, carried out at once: it ends the same way, with
  the same words, and leaves the client in the same state, with two exceptions: a download in a peer's queue is
  remembered without the item it is for, and when the transfer itself fails, its error is in the result and in the
  progress entry with 'File transfer failed: ' in front, where the queue's download has the error alone. (For
  transfers whose file connection comes by itself; where it does not, only the queue's download goes on to open
  one.)\<close>

theorem direct_download_agrees:
  assumes "\<forall>tok. is_ok (da_routed a tok)"
  shows "download_file a disk evs username filename filesize peer_ip peer_port output_path cl
    = carried_out a disk evs
        (initiate_download a username filename filesize peer_ip peer_port output_path ids cl)"
proof -
  obtain r cl1 where p: "open_p_connection a username peer_ip peer_port (start_progress filename filesize cl) = (r, cl1)"
    by (cases "open_p_connection a username peer_ip peer_port (start_progress filename filesize cl)")
  show ?thesis
  proof (cases r)
    case (Ok c)
    obtain s c1 where "queue_upload filename c = (s, c1)" by (cases "queue_upload filename c")
    with p Ok assms show ?thesis
      by (cases s) (simp_all add: download_file_def initiate_download_def fails_carried_out negotiated_carried_out)
  qed (simp_all add: download_file_def initiate_download_def p fails_carried_out)
qed

definition sample_network :: download_answers where
  "sample_network = \<lparr>da_address = (\<lambda>_. None),
     da_dial = (\<lambda>_ _. Some \<lparr>c_in = [25,0,0,0, 40,0,0,0, 1,0,0,0, 7,0,0,0, 1,0,0,0,97, 3,0,0,0,0,0,0,0], c_closes = False,
       c_out = [], c_write_ok = True\<rparr>), da_messages = 1,
     da_routed = (\<lambda>_. Ok \<lparr>c_in = [], c_closes = False, c_out = [], c_write_ok = True\<rparr>),
     da_dial_f = (\<lambda>_ _. None), da_text = (\<lambda>_. [])\<rparr>"

lemma sample_download:
  "fst (download_file sample_network (Some 9) [Data [1,2,3]] (str ''bob'') (str ''a'') 3 (str ''1.2.3.4'') 5 (str ''/m/a'')
     (client_new (str ''me'') None)) = Some (DR_Completed 3)"
  by code_simp

theorem direct_download_agrees_witness:
  "fst (carried_out sample_network (Some 9) [Data [1,2,3]] (initiate_download sample_network (str ''bob'') (str ''a'') 3
     (str ''1.2.3.4'') 5 (str ''/m/a'') (1, 2, None) (client_new (str ''me'') None))) = Some (DR_Completed 3)"
proof -
  have "\<forall>tok. is_ok (da_routed sample_network tok)" by (simp add: sample_network_def)
  from direct_download_agrees [OF this, of "Some 9" "[Data [1,2,3]]" "str ''bob''" "str ''a''" 3 "str ''1.2.3.4''" 5
      "str ''/m/a''" "client_new (str ''me'') None" "(1, 2, None)"] sample_download
  show ?thesis by simp
qed

end
