(* ===== verification/Database.thy ===== *)
theory Database
  imports Rust_Strings Float64
begin

text \<open>
  \<open>src/src/db/mod.rs\<close> with the tables of \<open>src/migrations\<close>: downloaded items, lists, the items of a
  list, the search queue and the search history. A table is the list of its rows in rowid order; ids
  come from an AUTOINCREMENT counter. Times are seconds, as \<open>CURRENT_TIMESTAMP\<close> gives. A statement
  fails only on a constraint (\<open>UNIQUE\<close>, or a foreign key while \<open>db_fk\<close> is on, as it is by default in
  sqlx); the error is the context message the code attaches. Rows with equal sort keys come in rowid
  order, which SQL leaves open.
\<close>

section \<open>Rows\<close>

record item =
  it_id :: int
  it_filename :: rstring
  it_original_query :: rstring
  it_file_path :: rstring
  it_file_size :: int
  it_bitrate :: "int option"
  it_duration :: "int option"
  it_extension :: rstring
  it_source_username :: rstring
  it_status :: string
  it_progress :: f64
  it_error_message :: "rstring option"
  it_created_at :: nat
  it_completed_at :: "nat option"
  it_original_artist :: "rstring option"
  it_original_track :: "rstring option"
  it_sample_rate :: "int option"
  it_bit_depth :: "int option"

record list_row =
  ls_id :: int
  ls_name :: rstring
  ls_user_id :: int
  ls_status :: string
  ls_total_items :: int
  ls_completed_items :: int
  ls_failed_items :: int
  ls_created_at :: nat
  ls_completed_at :: "nat option"

record list_item =
  li_id :: int
  li_list_id :: int
  li_item_id :: int
  li_position :: int
  li_created_at :: nat

record queued_search =
  q_id :: int
  q_user_id :: int
  q_query :: rstring
  q_format :: "rstring option"
  q_list_id :: "int option"
  q_list_position :: "int option"
  q_status :: string
  q_item_id :: "int option"
  q_error_message :: "rstring option"
  q_created_at :: nat
  q_started_at :: "nat option"
  q_completed_at :: "nat option"
  q_retry_count :: int
  q_client_id :: "rstring option"
  q_original_artist :: "rstring option"
  q_original_track :: "rstring option"

record history_row =
  h_id :: int
  h_user_id :: int
  h_query :: rstring
  h_original_artist :: "rstring option"
  h_original_track :: "rstring option"
  h_format :: "rstring option"
  h_status :: string
  h_item_id :: "int option"
  h_error_message :: "rstring option"
  h_completed_at :: nat

record database =
  db_users :: "(int \<times> rstring) list"
  db_items :: "item list"
  db_lists :: "list_row list"
  db_list_items :: "list_item list"
  db_queue :: "queued_search list"
  db_history :: "history_row list"
  seq_items :: int
  seq_lists :: int
  seq_list_items :: int
  seq_queue :: int
  seq_history :: int
  clock :: nat
  db_fk :: bool

definition empty_db :: "(int \<times> rstring) list \<Rightarrow> nat \<Rightarrow> database" where
  "empty_db users now =
     \<lparr>db_users = users, db_items = [], db_lists = [], db_list_items = [], db_queue = [],
      db_history = [], seq_items = 0, seq_lists = 0, seq_list_items = 0, seq_queue = 0,
      seq_history = 0, clock = now, db_fk = True\<rparr>"

section \<open>Statements\<close>

text \<open>\<open>UPDATE ... WHERE id = ?\<close>, \<open>DELETE ... WHERE\<close>, \<open>SELECT ... WHERE id = ?\<close> and \<open>COUNT\<close>.\<close>

definition update_row :: "('r \<Rightarrow> int) \<Rightarrow> int \<Rightarrow> ('r \<Rightarrow> 'r) \<Rightarrow> 'r list \<Rightarrow> 'r list" where
  "update_row key i f rows = map (\<lambda>r. if key r = i then f r else r) rows"

definition update_where :: "('r \<Rightarrow> bool) \<Rightarrow> ('r \<Rightarrow> 'r) \<Rightarrow> 'r list \<Rightarrow> 'r list" where
  "update_where P f rows = map (\<lambda>r. if P r then f r else r) rows"

definition delete_where :: "('r \<Rightarrow> bool) \<Rightarrow> 'r list \<Rightarrow> 'r list" where
  "delete_where P rows = filter (\<lambda>r. \<not> P r) rows"

definition find_row :: "('r \<Rightarrow> int) \<Rightarrow> int \<Rightarrow> 'r list \<Rightarrow> 'r option" where
  "find_row key i rows = find (\<lambda>r. key r = i) rows"

definition count_where :: "('r \<Rightarrow> bool) \<Rightarrow> 'r list \<Rightarrow> int" where
  "count_where P rows = int (length (filter P rows))"

definition newest_first :: "('r \<Rightarrow> nat) \<Rightarrow> 'r list \<Rightarrow> 'r list" where
  "newest_first stamp rows = sort_key (\<lambda>r. - int (stamp r)) rows"

definition has_user :: "database \<Rightarrow> int \<Rightarrow> bool" where
  "has_user db u \<longleftrightarrow> u \<in> fst ` set (db_users db)"

definition has_item :: "database \<Rightarrow> int \<Rightarrow> bool" where
  "has_item db i \<longleftrightarrow> i \<in> it_id ` set (db_items db)"

definition has_list :: "database \<Rightarrow> int \<Rightarrow> bool" where
  "has_list db l \<longleftrightarrow> l \<in> ls_id ` set (db_lists db)"

definition opt_ref :: "(int \<Rightarrow> bool) \<Rightarrow> int option \<Rightarrow> bool" where
  "opt_ref P r \<longleftrightarrow> (case r of None \<Rightarrow> True | Some i \<Rightarrow> P i)"

section \<open>Items\<close>

definition create_item ::
  "rstring \<Rightarrow> rstring \<Rightarrow> rstring option \<Rightarrow> rstring option \<Rightarrow> rstring \<Rightarrow> int \<Rightarrow> int option \<Rightarrow> int option
   \<Rightarrow> rstring \<Rightarrow> rstring \<Rightarrow> database \<Rightarrow> (item, rstring) outcome \<times> database" where
  "create_item filename original_query artist track file_path file_size br dur extension source db =
     (if file_path \<in> it_file_path ` set (db_items db) then (Err (str ''Failed to create item''), db)
      else
        (let i = seq_items db + 1;
             it = \<lparr>it_id = i, it_filename = filename, it_original_query = original_query,
                   it_file_path = file_path, it_file_size = file_size, it_bitrate = br,
                   it_duration = dur, it_extension = extension, it_source_username = source,
                   it_status = ''pending'', it_progress = 0, it_error_message = None,
                   it_created_at = clock db, it_completed_at = None, it_original_artist = artist,
                   it_original_track = track, it_sample_rate = None, it_bit_depth = None\<rparr>
         in (Ok it, db\<lparr>db_items := db_items db @ [it], seq_items := i\<rparr>)))"

definition get_item :: "int \<Rightarrow> database \<Rightarrow> item option" where
  "get_item i db = find_row it_id i (db_items db)"

definition get_all_items :: "database \<Rightarrow> item list" where
  "get_all_items db = newest_first it_created_at (filter (\<lambda>i. it_status i \<noteq> ''deleted'') (db_items db))"

definition find_completed_item_by_query :: "rstring \<Rightarrow> database \<Rightarrow> item option" where
  "find_completed_item_by_query query db =
     find (\<lambda>i. it_original_query i = query \<and> it_status i = ''completed'') (db_items db)"

definition get_completed_items :: "database \<Rightarrow> item list" where
  "get_completed_items db =
     newest_first it_created_at (filter (\<lambda>i. it_status i = ''completed'') (db_items db))"

definition find_item_by_path :: "rstring \<Rightarrow> database \<Rightarrow> item option" where
  "find_item_by_path path db = find (\<lambda>i. it_file_path i = path) (db_items db)"

definition set_item :: "int \<Rightarrow> (item \<Rightarrow> item) \<Rightarrow> database \<Rightarrow> database" where
  "set_item i f db = db\<lparr>db_items := update_row it_id i f (db_items db)\<rparr>"

definition update_item_status ::
  "int \<Rightarrow> string \<Rightarrow> f64 \<Rightarrow> rstring option \<Rightarrow> database \<Rightarrow> database" where
  "update_item_status i status progress err db =
     set_item i (\<lambda>r. r\<lparr>it_status := status, it_progress := progress, it_error_message := err,
       it_completed_at := (if status = ''completed'' then Some (clock db) else it_completed_at r)\<rparr>) db"

definition update_item_file_info ::
  "int \<Rightarrow> rstring \<Rightarrow> rstring \<Rightarrow> rstring \<Rightarrow> int \<Rightarrow> int option \<Rightarrow> database
   \<Rightarrow> (unit, rstring) outcome \<times> database" where
  "update_item_file_info i filename file_path source file_size br db =
     (let extension = (case path_extension filename of Some e \<Rightarrow> e | None \<Rightarrow> []) in
      if has_item db i \<and> (\<exists>r\<in>set (db_items db). it_id r \<noteq> i \<and> it_file_path r = file_path)
      then (Err (str ''Failed to update item file info''), db)
      else (Ok (), set_item i (\<lambda>r. r\<lparr>it_filename := filename, it_file_path := file_path,
              it_source_username := source, it_file_size := file_size, it_bitrate := br,
              it_extension := extension\<rparr>) db))"

definition update_item_audio_properties ::
  "int \<Rightarrow> int option \<Rightarrow> int option \<Rightarrow> database \<Rightarrow> database" where
  "update_item_audio_properties i rate depth db =
     set_item i (\<lambda>r. r\<lparr>it_sample_rate := rate, it_bit_depth := depth\<rparr>) db"

text \<open>Deleting items; with foreign keys on, the references from the queue and the history become NULL.\<close>

definition drop_items :: "(int \<Rightarrow> bool) \<Rightarrow> database \<Rightarrow> database" where
  "drop_items P db =
     (let db = db\<lparr>db_items := delete_where (\<lambda>r. P (it_id r)) (db_items db)\<rparr> in
      if \<not> db_fk db then db
      else
        (let gone = (\<lambda>r. case r of Some i \<Rightarrow> P i | None \<Rightarrow> False) in
         db\<lparr>db_list_items := delete_where (\<lambda>r. P (li_item_id r)) (db_list_items db),
            db_queue := update_where (\<lambda>q. gone (q_item_id q)) (\<lambda>q. q\<lparr>q_item_id := None\<rparr>) (db_queue db),
            db_history := update_where (\<lambda>h. gone (h_item_id h)) (\<lambda>h. h\<lparr>h_item_id := None\<rparr>) (db_history db)\<rparr>))"

definition delete_item :: "int \<Rightarrow> database \<Rightarrow> database" where
  "delete_item i db =
     drop_items (\<lambda>j. j = i)
       (db\<lparr>db_list_items := delete_where (\<lambda>r. li_item_id r = i) (db_list_items db)\<rparr>)"

definition delete_items :: "int list \<Rightarrow> database \<Rightarrow> database" where
  "delete_items ids db =
     (if ids = [] then db
      else drop_items (\<lambda>j. j \<in> set ids)
             (db\<lparr>db_list_items := delete_where (\<lambda>r. li_item_id r \<in> set ids) (db_list_items db)\<rparr>))"

section \<open>Lists\<close>

definition create_list :: "rstring \<Rightarrow> int \<Rightarrow> int \<Rightarrow> database \<Rightarrow> (list_row, rstring) outcome \<times> database" where
  "create_list name user total_items db =
     (if db_fk db \<and> \<not> has_user db user then (Err (str ''Failed to create list''), db)
      else
        (let i = seq_lists db + 1;
             l = \<lparr>ls_id = i, ls_name = name, ls_user_id = user, ls_status = ''pending'',
                  ls_total_items = total_items, ls_completed_items = 0, ls_failed_items = 0,
                  ls_created_at = clock db, ls_completed_at = None\<rparr>
         in (Ok l, db\<lparr>db_lists := db_lists db @ [l], seq_lists := i\<rparr>)))"

definition get_list :: "int \<Rightarrow> database \<Rightarrow> list_row option" where
  "get_list i db = find_row ls_id i (db_lists db)"

definition get_user_lists :: "int \<Rightarrow> database \<Rightarrow> list_row list" where
  "get_user_lists user db = newest_first ls_created_at (filter (\<lambda>l. ls_user_id l = user) (db_lists db))"

definition add_item_to_list ::
  "int \<Rightarrow> int \<Rightarrow> int \<Rightarrow> database \<Rightarrow> (unit, rstring) outcome \<times> database" where
  "add_item_to_list l i position db =
     (if (db_fk db \<and> \<not> (has_list db l \<and> has_item db i))
         \<or> (\<exists>r\<in>set (db_list_items db). li_list_id r = l \<and> li_item_id r = i)
      then (Err (str ''Failed to add item to list''), db)
      else
        (let k = seq_list_items db + 1 in
         (Ok (), db\<lparr>db_list_items := db_list_items db @
            [\<lparr>li_id = k, li_list_id = l, li_item_id = i, li_position = position, li_created_at = clock db\<rparr>],
            seq_list_items := k\<rparr>)))"

definition set_list :: "int \<Rightarrow> (list_row \<Rightarrow> list_row) \<Rightarrow> database \<Rightarrow> database" where
  "set_list i f db = db\<lparr>db_lists := update_row ls_id i f (db_lists db)\<rparr>"

definition remove_item_from_list :: "int \<Rightarrow> int \<Rightarrow> database \<Rightarrow> database" where
  "remove_item_from_list l i db =
     (let hit = (\<lambda>r. li_list_id r = l \<and> li_item_id r = i);
          db' = db\<lparr>db_list_items := delete_where hit (db_list_items db)\<rparr>
      in if 0 < count_where hit (db_list_items db)
         then set_list l (\<lambda>r. if 0 < ls_total_items r then r\<lparr>ls_total_items := ls_total_items r - 1\<rparr> else r) db'
         else db')"

definition remove_items_from_list :: "int \<Rightarrow> int list \<Rightarrow> database \<Rightarrow> database" where
  "remove_items_from_list l ids db =
     (if ids = [] then db
      else
        (let hit = (\<lambda>r. li_list_id r = l \<and> li_item_id r \<in> set ids);
             db' = db\<lparr>db_list_items := delete_where hit (db_list_items db)\<rparr>;
             n = count_where hit (db_list_items db)
         in if 0 < n then set_list l (\<lambda>r. r\<lparr>ls_total_items := max 0 (ls_total_items r - n)\<rparr>) db'
            else db'))"

text \<open>The join of \<open>list_items\<close> with \<open>items\<close> for one list.\<close>

definition joined :: "int \<Rightarrow> database \<Rightarrow> (list_item \<times> item) list" where
  "joined l db =
     concat (map (\<lambda>r. if li_list_id r = l
                      then map (Pair r) (filter (\<lambda>i. it_id i = li_item_id r) (db_items db)) else [])
              (db_list_items db))"

definition get_list_items :: "int \<Rightarrow> database \<Rightarrow> item list" where
  "get_list_items l db = map snd (sort_key (\<lambda>p. li_position (fst p)) (joined l db))"

definition live_items :: "int \<Rightarrow> database \<Rightarrow> item list" where
  "live_items l db = filter (\<lambda>i. it_status i \<noteq> ''deleted'') (map snd (joined l db))"

text \<open>\<open>SUM\<close> over no rows is NULL, which sqlx reads as the \<open>i64\<close> 0, as \<open>sqlite3_column_int64\<close> gives it.\<close>

definition count_list_items_by_status :: "int \<Rightarrow> database \<Rightarrow> (int \<times> int \<times> int, rstring) outcome" where
  "count_list_items_by_status l db =
     (let rows = live_items l db in
      Ok (as_i32 (count_where (\<lambda>i. it_status i = ''completed'') rows),
          as_i32 (count_where (\<lambda>i. it_status i = ''failed'') rows),
          as_i32 (int (length rows))))"

definition update_list_status :: "int \<Rightarrow> string \<Rightarrow> int \<Rightarrow> int \<Rightarrow> database \<Rightarrow> database" where
  "update_list_status i status completed failed db =
     set_list i (\<lambda>r. r\<lparr>ls_status := status, ls_completed_items := completed, ls_failed_items := failed,
       ls_completed_at := (if status = ''completed'' then Some (clock db) else ls_completed_at r)\<rparr>) db"

definition rename_list :: "int \<Rightarrow> rstring \<Rightarrow> database \<Rightarrow> database" where
  "rename_list i name db = set_list i (\<lambda>r. r\<lparr>ls_name := name\<rparr>) db"

text \<open>Deleting lists; with foreign keys on, their list items and queued searches go with them.\<close>

definition drop_lists :: "(int \<Rightarrow> bool) \<Rightarrow> database \<Rightarrow> database" where
  "drop_lists P db =
     (let db = db\<lparr>db_lists := delete_where (\<lambda>r. P (ls_id r)) (db_lists db)\<rparr> in
      if \<not> db_fk db then db
      else db\<lparr>db_list_items := delete_where (\<lambda>r. P (li_list_id r)) (db_list_items db),
              db_queue := delete_where (\<lambda>q. case q_list_id q of Some l \<Rightarrow> P l | None \<Rightarrow> False) (db_queue db)\<rparr>)"

definition delete_list :: "int \<Rightarrow> database \<Rightarrow> database" where
  "delete_list i db = drop_lists (\<lambda>j. j = i) db"

definition delete_list_with_items :: "int \<Rightarrow> database \<Rightarrow> int list \<times> database" where
  "delete_list_with_items i db =
     (map li_item_id (filter (\<lambda>r. li_list_id r = i) (db_list_items db)), drop_lists (\<lambda>j. j = i) db)"

definition delete_lists :: "int list \<Rightarrow> database \<Rightarrow> database" where
  "delete_lists ids db = (if ids = [] then db else drop_lists (\<lambda>j. j \<in> set ids) db)"

section \<open>Users\<close>

text \<open>What inserting and deleting a user do to these tables, which refer to the users by id: the whole row is in
  \<open>Accounts\<close>. A new id is none of a row that is there; with foreign keys on, the lists, searches and history of a
  user who is deleted go with the row.\<close>

definition add_user_row :: "int \<Rightarrow> rstring \<Rightarrow> database \<Rightarrow> database" where
  "add_user_row i name db = (if has_user db i then db else db\<lparr>db_users := db_users db @ [(i, name)]\<rparr>)"

definition drop_user :: "int \<Rightarrow> database \<Rightarrow> database" where
  "drop_user i db =
     (let lists = map ls_id (filter (\<lambda>r. ls_user_id r = i) (db_lists db));
          users = filter (\<lambda>u. fst u \<noteq> i) (db_users db) in
      if \<not> db_fk db then db\<lparr>db_users := users\<rparr>
      else (let db = drop_lists (\<lambda>l. l \<in> set lists) db in
            db\<lparr>db_users := users, db_queue := delete_where (\<lambda>q. q_user_id q = i) (db_queue db),
               db_history := delete_where (\<lambda>h. h_user_id h = i) (db_history db)\<rparr>))"

section \<open>The search queue\<close>

definition waiting :: "queued_search \<Rightarrow> bool" where
  "waiting q \<longleftrightarrow> q_status q = ''pending'' \<or> q_status q = ''retry''"

definition set_search :: "int \<Rightarrow> (queued_search \<Rightarrow> queued_search) \<Rightarrow> database \<Rightarrow> database" where
  "set_search i f db = db\<lparr>db_queue := update_row q_id i f (db_queue db)\<rparr>"

definition get_queued_search :: "int \<Rightarrow> database \<Rightarrow> queued_search option" where
  "get_queued_search i db = find_row q_id i (db_queue db)"

definition db_enqueue_search ::
  "int \<Rightarrow> rstring \<Rightarrow> rstring option \<Rightarrow> rstring option \<Rightarrow> rstring option \<Rightarrow> int option \<Rightarrow> int option
   \<Rightarrow> rstring option \<Rightarrow> database \<Rightarrow> (queued_search, rstring) outcome \<times> database" where
  "db_enqueue_search user query artist track fmt list_id position client db =
     (if db_fk db \<and> \<not> (has_user db user \<and> opt_ref (has_list db) list_id)
      then (Err (str ''Failed to enqueue search''), db)
      else
        (let i = seq_queue db + 1;
             q = \<lparr>q_id = i, q_user_id = user, q_query = query, q_format = fmt, q_list_id = list_id,
                  q_list_position = position, q_status = ''pending'', q_item_id = None,
                  q_error_message = None, q_created_at = clock db, q_started_at = None,
                  q_completed_at = None, q_retry_count = 0, q_client_id = client,
                  q_original_artist = artist, q_original_track = track\<rparr>
         in (Ok q, db\<lparr>db_queue := db_queue db @ [q], seq_queue := i\<rparr>)))"

type_synonym track = "rstring \<times> rstring option \<times> rstring option \<times> rstring option"

fun enqueue_tracks ::
  "int \<Rightarrow> nat \<Rightarrow> track list \<Rightarrow> rstring option \<Rightarrow> int \<Rightarrow> database
   \<Rightarrow> (queued_search list, rstring) outcome \<times> database" where
  "enqueue_tracks user pos [] fmt l db = (Ok [], db)"
| "enqueue_tracks user pos ((query, artist, track, client) # ts) fmt l db =
     (case db_enqueue_search user query artist track fmt (Some l) (Some (as_i32 (int pos))) client db of
        (Ok q, db') \<Rightarrow>
          (case enqueue_tracks user (Suc pos) ts fmt l db' of
             (Ok qs, db'') \<Rightarrow> (Ok (q # qs), db'')
           | (Err e, db'') \<Rightarrow> (Err e, db'')
           | (Panic, db'') \<Rightarrow> (Panic, db''))
      | (Err e, db') \<Rightarrow> (Err e, db')
      | (Panic, db') \<Rightarrow> (Panic, db'))"

definition enqueue_searches_for_list ::
  "int \<Rightarrow> track list \<Rightarrow> rstring option \<Rightarrow> int \<Rightarrow> database
   \<Rightarrow> (queued_search list, rstring) outcome \<times> database" where
  "enqueue_searches_for_list user tracks fmt l db = enqueue_tracks user 0 tracks fmt l db"

definition get_next_pending_search :: "database \<Rightarrow> queued_search option" where
  "get_next_pending_search db =
     (case sort_key q_created_at (filter waiting (db_queue db)) of [] \<Rightarrow> None | q # _ \<Rightarrow> Some q)"

text \<open>The claim runs in one transaction; the returned row has the new status and the old start time.\<close>

definition claim_next_pending_search :: "database \<Rightarrow> queued_search option \<times> database" where
  "claim_next_pending_search db =
     (case get_next_pending_search db of
        None \<Rightarrow> (None, db)
      | Some q \<Rightarrow>
          (let hit = (\<lambda>r. q_id r = q_id q \<and> waiting r);
               db' = db\<lparr>db_queue := update_where hit
                  (\<lambda>r. r\<lparr>q_status := ''processing'', q_started_at := Some (clock db)\<rparr>) (db_queue db)\<rparr>
           in if count_where hit (db_queue db) = 0 then (None, db')
              else (Some (q\<lparr>q_status := ''processing''\<rparr>), db')))"

definition mark_search_processing :: "int \<Rightarrow> database \<Rightarrow> bool \<times> database" where
  "mark_search_processing i db =
     (let hit = (\<lambda>r. q_id r = i \<and> waiting r) in
      (0 < count_where hit (db_queue db),
       db\<lparr>db_queue := update_where hit
         (\<lambda>r. r\<lparr>q_status := ''processing'', q_started_at := Some (clock db)\<rparr>) (db_queue db)\<rparr>))"

definition mark_search_completed :: "int \<Rightarrow> int \<Rightarrow> database \<Rightarrow> (unit, rstring) outcome \<times> database" where
  "mark_search_completed i item_id db =
     (if db_fk db \<and> get_queued_search i db \<noteq> None \<and> \<not> has_item db item_id
      then (Err (str ''Failed to mark search as completed''), db)
      else (Ok (), set_search i (\<lambda>q. q\<lparr>q_status := ''completed'', q_item_id := Some item_id,
              q_completed_at := Some (clock db)\<rparr>) db))"

definition delete_completed_search :: "int \<Rightarrow> database \<Rightarrow> database" where
  "delete_completed_search i db =
     db\<lparr>db_queue := delete_where (\<lambda>q. q_id q = i \<and> q_status q = ''completed'') (db_queue db)\<rparr>"

definition mark_search_failed :: "int \<Rightarrow> rstring \<Rightarrow> database \<Rightarrow> database" where
  "mark_search_failed i err db =
     set_search i (\<lambda>q. q\<lparr>q_status := ''failed'', q_error_message := Some err,
       q_completed_at := Some (clock db)\<rparr>) db"

definition mark_search_for_retry :: "int \<Rightarrow> rstring \<Rightarrow> database \<Rightarrow> database" where
  "mark_search_for_retry i err db =
     set_search i (\<lambda>q. q\<lparr>q_status := ''retry'', q_error_message := Some err,
       q_retry_count := q_retry_count q + 1, q_created_at := clock db, q_started_at := None,
       q_completed_at := None\<rparr>) db"

definition delete_search :: "int \<Rightarrow> database \<Rightarrow> database" where
  "delete_search i db = db\<lparr>db_queue := delete_where (\<lambda>q. q_id q = i) (db_queue db)\<rparr>"

definition db_queue_status :: "database \<Rightarrow> int \<times> int" where
  "db_queue_status db =
     (count_where (\<lambda>q. q_status q = ''pending'') (db_queue db),
      count_where (\<lambda>q. q_status q = ''processing'') (db_queue db))"

definition db_user_queue_status :: "int \<Rightarrow> database \<Rightarrow> int \<times> int" where
  "db_user_queue_status user db =
     (count_where (\<lambda>q. q_user_id q = user \<and> q_status q = ''pending'') (db_queue db),
      count_where (\<lambda>q. q_user_id q = user \<and> q_status q = ''processing'') (db_queue db))"

definition get_active_downloads_count :: "database \<Rightarrow> int" where
  "get_active_downloads_count db = count_where (\<lambda>i. it_status i = ''downloading'') (db_items db)"

text \<open>A comparison with the NULL of an absent row is not true, so it counts nothing.\<close>

definition get_queue_position :: "int \<Rightarrow> database \<Rightarrow> int" where
  "get_queue_position i db =
     (case get_queued_search i db of
        None \<Rightarrow> 0
      | Some e \<Rightarrow> count_where (\<lambda>q. q_status q = ''pending'' \<and> q_created_at q < q_created_at e) (db_queue db))"

definition get_user_queue_items :: "int \<Rightarrow> database \<Rightarrow> queued_search list" where
  "get_user_queue_items user db = newest_first q_created_at (filter (\<lambda>q. q_user_id q = user) (db_queue db))"

definition db_user_pending_queue :: "int \<Rightarrow> database \<Rightarrow> queued_search list" where
  "db_user_pending_queue user db =
     sort_key q_created_at
       (filter (\<lambda>q. q_user_id q = user \<and> (q_status q = ''pending'' \<or> q_status q = ''processing'')) (db_queue db))"

text \<open>NULL positions sort first.\<close>

definition get_list_queue_items :: "int \<Rightarrow> database \<Rightarrow> queued_search list" where
  "get_list_queue_items l db =
     (let rows = filter (\<lambda>q. q_list_id q = Some l) (db_queue db) in
      filter (\<lambda>q. q_list_position q = None) rows
      @ sort_key (\<lambda>q. the (q_list_position q)) (filter (\<lambda>q. q_list_position q \<noteq> None) rows))"

definition cancel_pending_search :: "int \<Rightarrow> database \<Rightarrow> bool \<times> database" where
  "cancel_pending_search i db =
     (let hit = (\<lambda>q. q_id q = i \<and> q_status q = ''pending'') in
      (0 < count_where hit (db_queue db), db\<lparr>db_queue := delete_where hit (db_queue db)\<rparr>))"

definition cancel_list_pending_searches :: "int \<Rightarrow> database \<Rightarrow> int \<times> database" where
  "cancel_list_pending_searches l db =
     (let hit = (\<lambda>q. q_list_id q = Some l \<and> q_status q = ''pending'') in
      (count_where hit (db_queue db), db\<lparr>db_queue := delete_where hit (db_queue db)\<rparr>))"

definition recover_processing_searches :: "database \<Rightarrow> int \<times> database" where
  "recover_processing_searches db =
     (let hit = (\<lambda>q. q_status q = ''processing'') in
      (count_where hit (db_queue db),
       db\<lparr>db_queue := update_where hit (\<lambda>q. q\<lparr>q_status := ''pending'', q_started_at := None\<rparr>) (db_queue db)\<rparr>))"

definition mark_interrupted_downloads :: "database \<Rightarrow> int \<times> database" where
  "mark_interrupted_downloads db =
     (let hit = (\<lambda>i. it_status i = ''downloading'' \<or> it_status i = ''queued'') in
      (count_where hit (db_items db),
       db\<lparr>db_items := update_where hit (\<lambda>i. i\<lparr>it_status := ''failed'',
         it_error_message := Some (str ''Download interrupted by server restart'')\<rparr>) (db_items db)\<rparr>))"

definition count_pending_searches_for_list :: "int \<Rightarrow> database \<Rightarrow> int" where
  "count_pending_searches_for_list l db =
     count_where (\<lambda>q. q_list_id q = Some l \<and> (waiting q \<or> q_status q = ''processing'')) (db_queue db)"

definition get_lists_by_status :: "string \<Rightarrow> database \<Rightarrow> list_row list" where
  "get_lists_by_status status db = filter (\<lambda>l. ls_status l = status) (db_lists db)"

section \<open>The search history\<close>

definition insert_search_history ::
  "int \<Rightarrow> rstring \<Rightarrow> rstring option \<Rightarrow> rstring option \<Rightarrow> rstring option \<Rightarrow> string \<Rightarrow> int option
   \<Rightarrow> rstring option \<Rightarrow> database \<Rightarrow> (int, rstring) outcome \<times> database" where
  "insert_search_history user query artist track fmt status item_id err db =
     (if db_fk db \<and> \<not> (has_user db user \<and> opt_ref (has_item db) item_id)
      then (Err (str ''Failed to insert search history''), db)
      else
        (let i = seq_history db + 1 in
         (Ok i, db\<lparr>db_history := db_history db @
            [\<lparr>h_id = i, h_user_id = user, h_query = query, h_original_artist = artist,
              h_original_track = track, h_format = fmt, h_status = status, h_item_id = item_id,
              h_error_message = err, h_completed_at = clock db\<rparr>],
            seq_history := i\<rparr>)))"

text \<open>The inner join with the users drops rows of users that are gone.\<close>

definition get_search_history :: "nat \<Rightarrow> nat \<Rightarrow> database \<Rightarrow> (history_row \<times> rstring) list" where
  "get_search_history limit offset db =
     take limit (drop offset (newest_first (\<lambda>p. h_completed_at (fst p))
       (concat (map (\<lambda>h. map (\<lambda>u. (h, snd u)) (filter (\<lambda>u. fst u = h_user_id h) (db_users db)))
         (db_history db)))))"

definition get_search_history_count :: "database \<Rightarrow> int" where
  "get_search_history_count db = int (length (db_history db))"

section \<open>Statements on rows\<close>

lemma update_row_keys [simp]:
  "\<forall>r. g (f r) = g r \<Longrightarrow> map g (update_row key i f rows) = map g rows"
  by (induction rows) (auto simp: update_row_def)

lemma update_where_keys [simp]:
  "\<forall>r. g (f r) = g r \<Longrightarrow> map g (update_where P f rows) = map g rows"
  by (induction rows) (auto simp: update_where_def)

lemma find_update_row [db_simps]:
  "\<forall>r. key (f r) = key r \<Longrightarrow>
   find_row key i (update_row key j f rows) =
     (if i = j then map_option f (find_row key i rows) else find_row key i rows)"
  by (induction rows) (auto simp: update_row_def find_row_def)

lemma find_delete_where [db_simps]:
  "find_row key i (delete_where (\<lambda>r. key r = j) rows) = (if i = j then None else find_row key i rows)"
  by (induction rows) (auto simp: delete_where_def find_row_def)

lemma find_row_Some: "find_row key i rows = Some r \<Longrightarrow> r \<in> set rows \<and> key r = i"
  by (auto simp: find_row_def dest: find_SomeD)

lemma find_row_None [db_simps]: "find_row key i rows = None \<longleftrightarrow> i \<notin> key ` set rows"
  by (auto simp: find_row_def find_None_iff)

lemma find_row_append [db_simps]:
  "find_row key i (rows @ [r]) =
     (case find_row key i rows of Some x \<Rightarrow> Some x | None \<Rightarrow> if key r = i then Some r else None)"
  by (induction rows) (auto simp: find_row_def)

lemma find_row_distinct:
  "distinct (map key rows) \<Longrightarrow> r \<in> set rows \<Longrightarrow> find_row key (key r) rows = Some r"
  by (induction rows) (auto simp: find_row_def)

lemma set_delete_where [simp]: "set (delete_where P rows) = {r \<in> set rows. \<not> P r}"
  by (auto simp: delete_where_def)

lemma set_update_where: "set (update_where P f rows) = (\<lambda>r. if P r then f r else r) ` set rows"
  by (simp add: update_where_def)

lemma set_update_row: "set (update_row key i f rows) = (\<lambda>r. if key r = i then f r else r) ` set rows"
  by (simp add: update_row_def)

lemma count_where_pos: "0 < count_where P rows \<longleftrightarrow> (\<exists>r\<in>set rows. P r)"
  by (auto simp: count_where_def filter_empty_conv)

lemma count_where_zero: "count_where P rows = 0 \<longleftrightarrow> (\<forall>r\<in>set rows. \<not> P r)"
  by (auto simp: count_where_def filter_empty_conv)

lemma count_where_nonneg [simp]: "0 \<le> count_where P rows"
  by (simp add: count_where_def)

lemma count_where_append [simp]: "count_where P (xs @ ys) = count_where P xs + count_where P ys"
  by (simp add: count_where_def)

lemma count_where_simps [simp]:
  "count_where P [] = 0" "count_where P (x # xs) = (if P x then 1 else 0) + count_where P xs"
  by (simp_all add: count_where_def)

lemma set_newest_first [simp]: "set (newest_first stamp rows) = set rows"
  by (simp add: newest_first_def)

section \<open>A table with an integer key\<close>

text \<open>What the queue service relies on for \<open>UPDATE ... WHERE id = ?\<close>, whatever the table.\<close>

locale keyed_table =
  fixes key :: "'r \<Rightarrow> int" and rows :: "'db \<Rightarrow> 'r list" and put :: "int \<Rightarrow> ('r \<Rightarrow> 'r) \<Rightarrow> 'db \<Rightarrow> 'db"
  assumes rows_put: "rows (put i f db) = update_row key i f (rows db)"
begin

lemma get_put:
  "\<forall>r. key (f r) = key r \<Longrightarrow>
   find_row key i (rows (put j f db)) =
     (if i = j then map_option f (find_row key i (rows db)) else find_row key i (rows db))"
  by (simp add: rows_put find_update_row)

lemma keys_put: "\<forall>r. key (f r) = key r \<Longrightarrow> map key (rows (put j f db)) = map key (rows db)"
  by (simp add: rows_put)

lemma others_put:
  "key r \<noteq> j \<Longrightarrow> r \<in> set (rows db) \<Longrightarrow> r \<in> set (rows (put j f db))"
  by (auto simp: rows_put set_update_row intro!: image_eqI [of _ _ r])

lemma put_cases:
  "r \<in> set (rows (put j f db)) \<Longrightarrow>
   (r \<in> set (rows db) \<and> key r \<noteq> j) \<or> (\<exists>r'\<in>set (rows db). key r' = j \<and> r = f r')"
  by (auto simp: rows_put set_update_row)

end

interpretation items: keyed_table it_id db_items set_item
  by unfold_locales (simp add: set_item_def)

interpretation user_lists: keyed_table ls_id db_lists set_list
  by unfold_locales (simp add: set_list_def)

interpretation searches: keyed_table q_id db_queue set_search
  by unfold_locales (simp add: set_search_def)

section \<open>The constraints of the schema\<close>

definition table_ok :: "('r \<Rightarrow> int) \<Rightarrow> int \<Rightarrow> 'r list \<Rightarrow> bool" where
  "table_ok key n rows \<longleftrightarrow> distinct (map key rows) \<and> (\<forall>r\<in>set rows. 0 < key r \<and> key r \<le> n) \<and> 0 \<le> n"

lemma table_ok_keys:
  "table_ok key n rows \<longleftrightarrow>
   distinct (map key rows) \<and> (\<forall>k\<in>set (map key rows). 0 < k \<and> k \<le> n) \<and> 0 \<le> n"
  by (simp add: table_ok_def)

lemma table_ok_append:
  assumes "table_ok key n rows" and "key r = n + 1"
  shows "table_ok key (n + 1) (rows @ [r])"
proof -
  have "\<forall>k\<in>set (map key rows). k < n + 1" using assms(1) by (simp add: table_ok_keys)
  then have "n + 1 \<notin> set (map key rows)" by blast
  with assms show ?thesis by (auto simp: table_ok_keys)
qed

lemma table_ok_delete: "table_ok key n rows \<Longrightarrow> table_ok key n (delete_where P rows)"
  by (auto simp: table_ok_def delete_where_def distinct_map_filterI)

lemma table_ok_same_keys: "map key rows' = map key rows \<Longrightarrow> table_ok key n rows' = table_ok key n rows"
  by (simp only: table_ok_keys)

lemma table_ok_update_row [simp]:
  "\<forall>r. key (f r) = key r \<Longrightarrow> table_ok key n (update_row key' i f rows) = table_ok key n rows"
  by (rule table_ok_same_keys) simp

lemma table_ok_update_where [simp]:
  "\<forall>r. key (f r) = key r \<Longrightarrow> table_ok key n (update_where P f rows) = table_ok key n rows"
  by (rule table_ok_same_keys) simp

definition tables_ok :: "database \<Rightarrow> bool" where
  "tables_ok db \<longleftrightarrow> table_ok it_id (seq_items db) (db_items db) \<and> table_ok ls_id (seq_lists db) (db_lists db)
     \<and> table_ok li_id (seq_list_items db) (db_list_items db) \<and> table_ok q_id (seq_queue db) (db_queue db)
     \<and> table_ok h_id (seq_history db) (db_history db)
     \<and> distinct (map it_file_path (db_items db))
     \<and> distinct (map (\<lambda>r. (li_list_id r, li_item_id r)) (db_list_items db))"

definition refs_ok :: "database \<Rightarrow> bool" where
  "refs_ok db \<longleftrightarrow>
     (\<forall>r\<in>set (db_list_items db). has_list db (li_list_id r) \<and> has_item db (li_item_id r))
     \<and> (\<forall>q\<in>set (db_queue db). has_user db (q_user_id q) \<and> opt_ref (has_list db) (q_list_id q)
          \<and> opt_ref (has_item db) (q_item_id q))
     \<and> (\<forall>h\<in>set (db_history db). has_user db (h_user_id h) \<and> opt_ref (has_item db) (h_item_id h))
     \<and> (\<forall>u\<in>set (map ls_user_id (db_lists db)). has_user db u)"

text \<open>Every statement that changes the database; \<open>Tick\<close> is the passing of time.\<close>

inductive db_step :: "database \<Rightarrow> database \<Rightarrow> bool" where
  tick: "db_step db (db\<lparr>clock := clock db + n\<rparr>)"
| create_item: "db_step db (snd (create_item fn oq ar tr path sz br dur ext src db))"
| item_status: "db_step db (update_item_status i status progress err db)"
| item_file: "db_step db (snd (update_item_file_info i fn path src sz br db))"
| item_audio: "db_step db (update_item_audio_properties i rate depth db)"
| item_delete: "db_step db (delete_item i db)"
| items_delete: "db_step db (delete_items ids db)"
| create_list: "db_step db (snd (create_list name user n db))"
| list_add: "db_step db (snd (add_item_to_list l i pos db))"
| list_remove: "db_step db (remove_item_from_list l i db)"
| list_remove_many: "db_step db (remove_items_from_list l ids db)"
| list_status: "db_step db (update_list_status l status c f db)"
| list_rename: "db_step db (rename_list l name db)"
| list_delete: "db_step db (snd (delete_list_with_items l db))"
| lists_delete: "db_step db (delete_lists ids db)"
| enqueue: "db_step db (snd (db_enqueue_search user query ar tr fmt l pos client db))"
| claim: "db_step db (snd (claim_next_pending_search db))"
| mark_processing: "db_step db (snd (mark_search_processing i db))"
| mark_completed: "db_step db (snd (mark_search_completed i item db))"
| delete_completed: "db_step db (delete_completed_search i db)"
| mark_failed: "db_step db (mark_search_failed i err db)"
| mark_retry: "db_step db (mark_search_for_retry i err db)"
| search_delete: "db_step db (delete_search i db)"
| cancel: "db_step db (snd (cancel_pending_search i db))"
| cancel_list: "db_step db (snd (cancel_list_pending_searches l db))"
| recover: "db_step db (snd (recover_processing_searches db))"
| interrupted: "db_step db (snd (mark_interrupted_downloads db))"
| history: "db_step db (snd (insert_search_history user query ar tr fmt status i err db))"
| user_add: "db_step db (add_user_row i name db)"
| user_drop: "db_step db (drop_user i db)"

lemma distinct_map_append1: "distinct (map f (xs @ [x])) \<longleftrightarrow> distinct (map f xs) \<and> f x \<notin> f ` set xs"
  by simp

lemma distinct_map_delete: "distinct (map f rows) \<Longrightarrow> distinct (map f (delete_where P rows))"
  by (simp add: delete_where_def distinct_map_filterI)

lemma map_set_item [simp]: "\<forall>r. g (f r) = g r \<Longrightarrow> map g (db_items (set_item i f db)) = map g (db_items db)"
  by (simp add: set_item_def)

lemma table_fields [simp]:
  "db_lists (set_item i f db) = db_lists db" "db_list_items (set_item i f db) = db_list_items db"
  "db_queue (set_item i f db) = db_queue db" "db_history (set_item i f db) = db_history db"
  "db_users (set_item i f db) = db_users db" "db_fk (set_item i f db) = db_fk db"
  "clock (set_item i f db) = clock db"
  "db_items (set_list i g db) = db_items db" "db_list_items (set_list i g db) = db_list_items db"
  "db_queue (set_list i g db) = db_queue db" "db_history (set_list i g db) = db_history db"
  "db_users (set_list i g db) = db_users db" "db_fk (set_list i g db) = db_fk db"
  "clock (set_list i g db) = clock db"
  "db_items (set_search i h db) = db_items db" "db_list_items (set_search i h db) = db_list_items db"
  "db_lists (set_search i h db) = db_lists db" "db_history (set_search i h db) = db_history db"
  "db_users (set_search i h db) = db_users db" "db_fk (set_search i h db) = db_fk db"
  "clock (set_search i h db) = clock db"
  by (simp_all add: set_item_def set_list_def set_search_def)

lemma tables_ok_simps [simp]:
  "\<forall>r. it_id (f r) = it_id r \<and> it_file_path (f r) = it_file_path r \<Longrightarrow>
     tables_ok (set_item i f db) = tables_ok db"
  "\<forall>r. ls_id (g r) = ls_id r \<Longrightarrow> tables_ok (set_list i g db) = tables_ok db"
  "\<forall>r. q_id (h r) = q_id r \<Longrightarrow> tables_ok (set_search i h db) = tables_ok db"
  "tables_ok (db\<lparr>clock := t\<rparr>) = tables_ok db"
  by (simp_all add: tables_ok_def set_item_def set_list_def set_search_def)

lemma tables_ok_drop_items:
  "tables_ok db \<Longrightarrow> tables_ok (drop_items P db)"
  by (auto simp: drop_items_def tables_ok_def Let_def table_ok_delete distinct_map_delete)

lemma tables_ok_drop_lists:
  "tables_ok db \<Longrightarrow> tables_ok (drop_lists P db)"
  by (auto simp: drop_lists_def tables_ok_def Let_def table_ok_delete distinct_map_delete)

lemma tables_ok_delete_rows:
  "tables_ok db \<Longrightarrow> tables_ok (db\<lparr>db_list_items := delete_where P (db_list_items db)\<rparr>)"
  "tables_ok db \<Longrightarrow> tables_ok (db\<lparr>db_queue := delete_where Q (db_queue db)\<rparr>)"
  by (auto simp: tables_ok_def table_ok_delete distinct_map_delete)

lemma tables_ok_update_queue:
  "\<forall>r. q_id (h r) = q_id r \<Longrightarrow> tables_ok (db\<lparr>db_queue := update_where P h (db_queue db)\<rparr>) = tables_ok db"
  by (simp add: tables_ok_def)

lemma file_info_path_distinct:
  assumes "distinct (map it_id items)" and "distinct (map it_file_path items)"
    and "\<not> (i \<in> it_id ` set items \<and> (\<exists>r\<in>set items. it_id r \<noteq> i \<and> it_file_path r = path))"
    and "\<forall>r. it_file_path (f r) = path"
  shows "distinct (map it_file_path (update_row it_id i f items))"
  using assms(1-3)
proof (induction items)
  case (Cons r items)
  have tail: "it_file_path ` set (update_row it_id i f items) \<subseteq>
      it_file_path ` set items \<union> (if i \<in> it_id ` set items then {path} else {})"
    using assms(4) by (auto simp: set_update_row)
  show ?case
  proof (cases "it_id r = i")
    case True
    with Cons.prems(1) have n: "\<forall>x\<in>set items. it_id x \<noteq> i" by (force simp: image_iff)
    then have "update_row it_id i f items = items" by (simp add: update_row_def map_idI)
    moreover have "path \<notin> it_file_path ` set items" using Cons.prems(3) True n by auto
    ultimately show ?thesis using Cons.prems(2) True assms(4) by (simp add: update_row_def)
  next
    case False
    have "distinct (map it_file_path (update_row it_id i f items))"
      using Cons by auto
    moreover have "it_file_path r \<notin> it_file_path ` set (update_row it_id i f items)"
      using tail Cons.prems(2,3) False by (auto split: if_splits)
    moreover have "update_row it_id i f (r # items) = r # update_row it_id i f items"
      using False by (simp add: update_row_def)
    ultimately show ?thesis by simp
  qed
qed (simp add: update_row_def)

lemma tables_ok_users:
  "tables_ok db \<Longrightarrow> tables_ok (add_user_row i name db)" "tables_ok db \<Longrightarrow> tables_ok (drop_user i db)"
proof -
  show "tables_ok db \<Longrightarrow> tables_ok (add_user_row i name db)" by (simp add: add_user_row_def tables_ok_def)
  assume t: "tables_ok db"
  show "tables_ok (drop_user i db)"
  proof (cases "db_fk db")
    case True
    then show ?thesis
      using tables_ok_drop_lists [OF t] by (simp add: drop_user_def Let_def) (simp add: tables_ok_def table_ok_delete)
  next
    case False
    with t show ?thesis by (simp add: drop_user_def tables_ok_def)
  qed
qed

lemma tables_ok_step: "db_step db db' \<Longrightarrow> tables_ok db \<Longrightarrow> tables_ok db'"
proof (induction rule: db_step.induct)
  case (create_item db fn oq ar tr path sz br dur ext src)
  then show ?case
    by (auto simp: create_item_def tables_ok_def Let_def intro!: table_ok_append)
next
  case (item_file db i fn path src sz br)
  then have "distinct (map it_id (db_items db))" by (simp add: tables_ok_def table_ok_def)
  with item_file show ?case
    by (auto simp: update_item_file_info_def tables_ok_def Let_def set_item_def has_item_def
        intro!: file_info_path_distinct)
next
  case (create_list db name user n)
  then show ?case
    by (auto simp: create_list_def tables_ok_def Let_def intro!: table_ok_append)
next
  case (list_add db l i pos)
  then show ?case
    by (auto simp: add_item_to_list_def tables_ok_def Let_def intro!: table_ok_append)
next
  case (enqueue db user query ar tr fmt l pos client)
  then show ?case
    by (auto simp: db_enqueue_search_def tables_ok_def Let_def intro!: table_ok_append)
next
  case (history db user query ar tr fmt status i err)
  then show ?case
    by (auto simp: insert_search_history_def tables_ok_def Let_def intro!: table_ok_append)
qed (auto simp: update_item_status_def update_item_audio_properties_def delete_item_def delete_items_def
      remove_item_from_list_def remove_items_from_list_def update_list_status_def rename_list_def
      delete_list_with_items_def delete_lists_def claim_next_pending_search_def mark_search_processing_def
      mark_search_completed_def delete_completed_search_def mark_search_failed_def
      mark_search_for_retry_def delete_search_def cancel_pending_search_def
      cancel_list_pending_searches_def recover_processing_searches_def Let_def
      tables_ok_drop_items tables_ok_drop_lists tables_ok_delete_rows tables_ok_update_queue tables_ok_users
      split: option.splits,
      auto simp: mark_interrupted_downloads_def tables_ok_def Let_def)

text \<open>Foreign keys.\<close>

lemma has_by_keys: "has_item db i \<longleftrightarrow> i \<in> set (map it_id (db_items db))"
  "has_list db l \<longleftrightarrow> l \<in> set (map ls_id (db_lists db))"
  by (simp_all add: has_item_def has_list_def)

lemma has_simps [simp]:
  "\<forall>r. it_id (f r) = it_id r \<Longrightarrow> has_item (set_item i f db) = has_item db"
  "has_list (set_item i f db) = has_list db" "has_user (set_item i f db) = has_user db"
  "\<forall>r. ls_id (g r) = ls_id r \<Longrightarrow> has_list (set_list i g db) = has_list db"
  "has_item (set_list i g db) = has_item db" "has_user (set_list i g db) = has_user db"
  "has_item (set_search i h db) = has_item db" "has_list (set_search i h db) = has_list db"
  "has_user (set_search i h db) = has_user db"
  by (auto simp: fun_eq_iff has_by_keys has_user_def set_item_def set_list_def set_search_def)

lemma has_upd [simp]:
  "has_item (db\<lparr>db_list_items := li\<rparr>) = has_item db" "has_list (db\<lparr>db_list_items := li\<rparr>) = has_list db"
  "has_user (db\<lparr>db_list_items := li\<rparr>) = has_user db"
  "has_item (db\<lparr>db_queue := qs\<rparr>) = has_item db" "has_list (db\<lparr>db_queue := qs\<rparr>) = has_list db"
  "has_user (db\<lparr>db_queue := qs\<rparr>) = has_user db"
  "has_item (db\<lparr>db_history := hs\<rparr>) = has_item db" "has_list (db\<lparr>db_history := hs\<rparr>) = has_list db"
  "has_user (db\<lparr>db_history := hs\<rparr>) = has_user db"
  "has_item (db\<lparr>seq_list_items := k\<rparr>) = has_item db" "has_list (db\<lparr>seq_list_items := k\<rparr>) = has_list db"
  "has_user (db\<lparr>seq_list_items := k\<rparr>) = has_user db"
  "has_item (db\<lparr>seq_queue := k\<rparr>) = has_item db" "has_list (db\<lparr>seq_queue := k\<rparr>) = has_list db"
  "has_user (db\<lparr>seq_queue := k\<rparr>) = has_user db"
  "has_item (db\<lparr>seq_history := k\<rparr>) = has_item db" "has_list (db\<lparr>seq_history := k\<rparr>) = has_list db"
  "has_user (db\<lparr>seq_history := k\<rparr>) = has_user db"
  "has_item (db\<lparr>clock := t\<rparr>) = has_item db" "has_list (db\<lparr>clock := t\<rparr>) = has_list db"
  "has_user (db\<lparr>clock := t\<rparr>) = has_user db"
  by (auto simp: fun_eq_iff has_item_def has_list_def has_user_def)

lemma refs_ok_set_item [simp]:
  "\<forall>r. it_id (f r) = it_id r \<Longrightarrow> refs_ok (set_item i f db) = refs_ok db"
  by (simp add: refs_ok_def)

lemma map_set_list [simp]: "\<forall>r. k (g r) = k r \<Longrightarrow> map k (db_lists (set_list i g db)) = map k (db_lists db)"
  by (simp add: set_list_def)

lemma refs_ok_set_list [simp]:
  "\<forall>r. ls_id (g r) = ls_id r \<and> ls_user_id (g r) = ls_user_id r \<Longrightarrow> refs_ok (set_list i g db) = refs_ok db"
  by (simp add: refs_ok_def del: set_map)

lemma refs_ok_set_search:
  "refs_ok db \<Longrightarrow> \<forall>r. q_user_id (h r) = q_user_id r \<and> q_list_id (h r) = q_list_id r
     \<and> (opt_ref (has_item db) (q_item_id r) \<longrightarrow> opt_ref (has_item db) (q_item_id (h r))) \<Longrightarrow>
   refs_ok (set_search i h db)"
  by (auto simp: refs_ok_def set_search_def set_update_row)

lemma refs_ok_queue_update:
  "refs_ok db \<Longrightarrow> \<forall>r. q_user_id (h r) = q_user_id r \<and> q_list_id (h r) = q_list_id r
     \<and> q_item_id (h r) = q_item_id r \<Longrightarrow>
   refs_ok (db\<lparr>db_queue := update_where P h (db_queue db)\<rparr>)"
  by (auto simp: refs_ok_def set_update_where)

lemma refs_ok_delete_rows:
  "refs_ok db \<Longrightarrow> refs_ok (db\<lparr>db_list_items := delete_where P (db_list_items db)\<rparr>)"
  "refs_ok db \<Longrightarrow> refs_ok (db\<lparr>db_queue := delete_where Q (db_queue db)\<rparr>)"
  by (auto simp: refs_ok_def)

lemma opt_ref_simps [simp]: "opt_ref P None" "opt_ref P (Some i) \<longleftrightarrow> P i"
  by (simp_all add: opt_ref_def)

lemma drop_items_fields:
  fixes P :: "int \<Rightarrow> bool"
  assumes "db_fk db"
  defines "gone \<equiv> \<lambda>r. case r of Some i \<Rightarrow> P i | None \<Rightarrow> False"
  shows "has_item (drop_items P db) j \<longleftrightarrow> has_item db j \<and> \<not> P j"
    "has_list (drop_items P db) = has_list db" "has_user (drop_items P db) = has_user db"
    "db_lists (drop_items P db) = db_lists db"
    "db_list_items (drop_items P db) = delete_where (\<lambda>r. P (li_item_id r)) (db_list_items db)"
    "db_queue (drop_items P db) =
       update_where (\<lambda>q. gone (q_item_id q)) (\<lambda>q. q\<lparr>q_item_id := None\<rparr>) (db_queue db)"
    "db_history (drop_items P db) =
       update_where (\<lambda>h. gone (h_item_id h)) (\<lambda>h. h\<lparr>h_item_id := None\<rparr>) (db_history db)"
  using assms(1)
  by (auto simp: drop_items_def has_item_def has_list_def has_user_def Let_def fun_eq_iff gone_def)

lemma refs_ok_drop_items:
  assumes "refs_ok db" and "db_fk db"
  shows "refs_ok (drop_items P db)"
proof -
  have o: "opt_ref (has_item db) r \<Longrightarrow> \<not> (case r of Some i \<Rightarrow> P i | None \<Rightarrow> False)
      \<Longrightarrow> opt_ref (has_item (drop_items P db)) r" for r
    by (cases r) (simp_all add: drop_items_fields(1) [OF assms(2)])
  have "\<forall>q\<in>set (db_queue (drop_items P db)). has_user db (q_user_id q)
      \<and> opt_ref (has_list db) (q_list_id q) \<and> opt_ref (has_item (drop_items P db)) (q_item_id q)"
    using assms o by (auto simp: refs_ok_def drop_items_fields(6) set_update_where)
  moreover have "\<forall>h\<in>set (db_history (drop_items P db)). has_user db (h_user_id h)
      \<and> opt_ref (has_item (drop_items P db)) (h_item_id h)"
    using assms o by (auto simp: refs_ok_def drop_items_fields(7) set_update_where)
  ultimately show ?thesis
    using assms by (auto simp: refs_ok_def drop_items_fields(1-5))
qed

lemma drop_lists_fields:
  assumes "db_fk db"
  shows "has_list (drop_lists P db) j \<longleftrightarrow> has_list db j \<and> \<not> P j"
    "has_item (drop_lists P db) = has_item db" "has_user (drop_lists P db) = has_user db"
    "db_lists (drop_lists P db) = delete_where (\<lambda>r. P (ls_id r)) (db_lists db)"
    "db_list_items (drop_lists P db) = delete_where (\<lambda>r. P (li_list_id r)) (db_list_items db)"
    "db_queue (drop_lists P db) =
       delete_where (\<lambda>q. case q_list_id q of Some l \<Rightarrow> P l | None \<Rightarrow> False) (db_queue db)"
    "db_history (drop_lists P db) = db_history db"
  using assms
  by (auto simp: drop_lists_def has_item_def has_list_def has_user_def Let_def fun_eq_iff)

lemma refs_ok_drop_lists:
  assumes "refs_ok db" and "db_fk db"
  shows "refs_ok (drop_lists P db)"
proof -
  have "opt_ref (has_list db) r \<Longrightarrow> \<not> (case r of Some i \<Rightarrow> P i | None \<Rightarrow> False)
      \<Longrightarrow> opt_ref (has_list (drop_lists P db)) r" for r
    by (cases r) (simp_all add: drop_lists_fields(1) [OF assms(2)])
  then show ?thesis
    using assms by (auto simp: refs_ok_def drop_lists_fields)
qed

lemma opt_ref_mono: "opt_ref P r \<Longrightarrow> (\<And>x. P x \<Longrightarrow> Q x) \<Longrightarrow> opt_ref Q r"
  by (cases r) auto

lemma refs_ok_add_item:
  assumes "refs_ok db"
  shows "refs_ok (db\<lparr>db_items := db_items db @ [it], seq_items := k\<rparr>)" (is "refs_ok ?db")
proof -
  have h: "has_item db j \<Longrightarrow> has_item ?db j" for j by (simp add: has_item_def)
  have e: "has_list ?db = has_list db" "has_user ?db = has_user db"
    by (auto simp: has_list_def has_user_def fun_eq_iff)
  show ?thesis
    using assms by (auto simp: refs_ok_def e h intro: opt_ref_mono [OF _ h])
qed

lemma refs_ok_add_list:
  assumes "refs_ok db" and "has_user db (ls_user_id l)"
  shows "refs_ok (db\<lparr>db_lists := db_lists db @ [l], seq_lists := k\<rparr>)" (is "refs_ok ?db")
proof -
  have h: "has_list db j \<Longrightarrow> has_list ?db j" for j by (simp add: has_list_def)
  have e: "has_item ?db = has_item db" "has_user ?db = has_user db"
    by (auto simp: has_item_def has_user_def fun_eq_iff)
  show ?thesis
    using assms by (auto simp: refs_ok_def e h intro: opt_ref_mono [OF _ h])
qed

lemma refs_ok_add_rows:
  "refs_ok db \<Longrightarrow> has_list db (li_list_id r) \<Longrightarrow> has_item db (li_item_id r) \<Longrightarrow>
     refs_ok (db\<lparr>db_list_items := db_list_items db @ [r], seq_list_items := k\<rparr>)"
  "refs_ok db \<Longrightarrow> has_user db (q_user_id q) \<Longrightarrow> opt_ref (has_list db) (q_list_id q) \<Longrightarrow>
     opt_ref (has_item db) (q_item_id q) \<Longrightarrow>
     refs_ok (db\<lparr>db_queue := db_queue db @ [q], seq_queue := k\<rparr>)"
  "refs_ok db \<Longrightarrow> has_user db (h_user_id h) \<Longrightarrow> opt_ref (has_item db) (h_item_id h) \<Longrightarrow>
     refs_ok (db\<lparr>db_history := db_history db @ [h], seq_history := k\<rparr>)"
  "refs_ok (db\<lparr>clock := t\<rparr>) = refs_ok db"
  by (auto simp: refs_ok_def)

lemma refs_ok_items_update:
  assumes "\<forall>r. it_id (f r) = it_id r"
  shows "refs_ok (db\<lparr>db_items := update_where P f (db_items db)\<rparr>) = refs_ok db" (is "refs_ok ?db = _")
proof -
  have "has_item ?db = has_item db" "has_list ?db = has_list db" "has_user ?db = has_user db"
    using assms by (auto simp: fun_eq_iff has_by_keys has_user_def)
  then show ?thesis by (simp add: refs_ok_def)
qed

lemma set_search_absent: "i \<notin> q_id ` set (db_queue db) \<Longrightarrow> set_search i h db = db"
  by (auto simp: set_search_def update_row_def intro!: database.equality map_idI)

lemma db_fk_drop [simp]: "db_fk (drop_items P db) = db_fk db" "db_fk (drop_lists P db) = db_fk db"
  by (simp_all add: drop_items_def drop_lists_def Let_def)

lemma refs_ok_add_user:
  assumes "refs_ok db"
  shows "refs_ok (add_user_row i name db)"
proof (cases "has_user db i")
  case False
  have h: "has_user db u \<Longrightarrow> has_user (db\<lparr>db_users := db_users db @ [(i, name)]\<rparr>) u" for u
    by (auto simp: has_user_def)
  have "has_item (db\<lparr>db_users := us\<rparr>) = has_item db" "has_list (db\<lparr>db_users := us\<rparr>) = has_list db" for us
    by (auto simp: has_item_def has_list_def fun_eq_iff)
  with assms h False show ?thesis by (simp add: add_user_row_def refs_ok_def)
qed (use assms in \<open>simp add: add_user_row_def\<close>)

lemma refs_ok_drop_user:
  assumes "refs_ok db" and "db_fk db"
  shows "refs_ok (drop_user i db)"
proof -
  let ?d = "drop_lists (\<lambda>l. l \<in> set (map ls_id (filter (\<lambda>r. ls_user_id r = i) (db_lists db)))) db"
  have d: "refs_ok ?d" by (rule refs_ok_drop_lists [OF assms])
  have l: "\<forall>r\<in>set (db_lists ?d). ls_user_id r \<noteq> i" by (auto simp: drop_lists_fields(4) [OF assms(2)])
  have e: "drop_user i db = ?d\<lparr>db_users := filter (\<lambda>u. fst u \<noteq> i) (db_users ?d),
      db_queue := delete_where (\<lambda>q. q_user_id q = i) (db_queue ?d),
      db_history := delete_where (\<lambda>h. h_user_id h = i) (db_history ?d)\<rparr>" (is "_ = ?e")
    using assms(2) by (simp add: drop_user_def drop_lists_def Let_def del: set_map set_filter)
  define d' where "d' = ?d"
  have u: "has_user (d'\<lparr>db_users := filter (\<lambda>u. fst u \<noteq> i) (db_users d')\<rparr>) u
      \<longleftrightarrow> has_user d' u \<and> u \<noteq> i" for u by (auto simp: has_user_def)
  have x: "has_item (d'\<lparr>db_users := us\<rparr>) = has_item d'"
    "has_list (d'\<lparr>db_users := us\<rparr>) = has_list d'" for us
    by (auto simp: has_item_def has_list_def fun_eq_iff)
  show ?thesis using d l unfolding e d'_def [symmetric] by (auto simp: refs_ok_def u x)
qed

lemma db_fk_users [simp]: "db_fk (add_user_row i name db) = db_fk db" "db_fk (drop_user i db) = db_fk db"
  by (simp_all add: add_user_row_def drop_user_def Let_def)

lemma refs_ok_step:
  assumes "db_step db db'" and "refs_ok db" and "db_fk db"
  shows "refs_ok db'"
  using assms
proof cases
  case (mark_completed i item)
  show ?thesis
  proof (cases "i \<in> q_id ` set (db_queue db)")
    case True
    with mark_completed assms(2,3) show ?thesis
      by (auto simp: mark_search_completed_def get_queued_search_def find_row_None
          intro!: refs_ok_set_search)
  next
    case False
    with mark_completed assms(2) show ?thesis
      by (simp add: mark_search_completed_def set_search_absent)
  qed
next
  case (item_delete i)
  with assms(2,3) show ?thesis
    by (simp add: delete_item_def refs_ok_drop_items refs_ok_delete_rows)
next
  case (items_delete ids)
  with assms(2,3) show ?thesis
    by (simp add: delete_items_def refs_ok_drop_items refs_ok_delete_rows)
next
  case (mark_retry i err)
  with assms(2) show ?thesis by (simp add: mark_search_for_retry_def refs_ok_set_search)
next
  case (mark_failed i err)
  with assms(2) show ?thesis by (simp add: mark_search_failed_def refs_ok_set_search)
next
  case (item_status i status progress err)
  with assms(2) show ?thesis by (simp add: update_item_status_def)
next
  case (item_audio i rate depth)
  with assms(2) show ?thesis by (simp add: update_item_audio_properties_def)
next
  case (item_file i fn path src sz br)
  with assms(2) show ?thesis by (simp add: update_item_file_info_def Let_def)
next
  case (list_status l status c f)
  with assms(2) show ?thesis by (simp add: update_list_status_def)
next
  case (list_rename l name)
  with assms(2) show ?thesis by (simp add: rename_list_def)
next
  case interrupted
  with assms(2) show ?thesis by (simp add: mark_interrupted_downloads_def Let_def refs_ok_items_update)
qed (use assms(2,3) in \<open>simp_all add: create_item_def create_list_def add_item_to_list_def
      db_enqueue_search_def insert_search_history_def remove_item_from_list_def remove_items_from_list_def
      delete_list_with_items_def delete_lists_def claim_next_pending_search_def
      mark_search_processing_def delete_completed_search_def delete_search_def
      cancel_pending_search_def cancel_list_pending_searches_def recover_processing_searches_def Let_def
      refs_ok_add_item refs_ok_add_list refs_ok_add_rows refs_ok_drop_lists refs_ok_delete_rows
      refs_ok_queue_update refs_ok_add_user refs_ok_drop_user split: option.splits\<close>)

lemma fk_step: "db_step db db' \<Longrightarrow> db_fk db' = db_fk db"
  by (cases rule: db_step.cases, assumption)
    (simp_all add: create_item_def create_list_def add_item_to_list_def update_item_status_def
      update_item_file_info_def update_item_audio_properties_def delete_item_def delete_items_def
      db_enqueue_search_def insert_search_history_def remove_item_from_list_def remove_items_from_list_def
      update_list_status_def rename_list_def
      delete_list_with_items_def delete_lists_def claim_next_pending_search_def
      mark_search_processing_def mark_search_completed_def mark_search_failed_def
      mark_search_for_retry_def delete_completed_search_def delete_search_def
      cancel_pending_search_def cancel_list_pending_searches_def recover_processing_searches_def
      mark_interrupted_downloads_def Let_def split: option.splits)

inductive db_reachable :: "database \<Rightarrow> bool" where
  db_start: "db_reachable (empty_db users now)"
| db_next: "db_reachable db \<Longrightarrow> db_step db db' \<Longrightarrow> db_reachable db'"

lemma db_reachable_ok: "db_reachable db \<Longrightarrow> tables_ok db \<and> refs_ok db \<and> db_fk db"
proof (induction rule: db_reachable.induct)
  case (db_start users now)
  show ?case by (simp add: empty_db_def tables_ok_def table_ok_def refs_ok_def)
next
  case (db_next db db')
  then show ?case using tables_ok_step refs_ok_step fk_step by blast
qed

text \<open>C2: The constraints of the schema hold in every database that any sequence of the statements on these tables
  leaves, inserting and deleting users included: in each of the five tables no two rows share an id and no id exceeds
  the counter the ids are taken from, no two items share a file path, no item is twice in a list, and every list,
  list entry, queued search and history row refers to a user, list and item that exist. (Foreign keys are enforced,
  as sqlx does by default; the columns of the users beyond id and name are not among these tables.)\<close>

theorem schema_constraints_kept:
  assumes "db_reachable db"
  shows "table_ok it_id (seq_items db) (db_items db) \<and> table_ok ls_id (seq_lists db) (db_lists db)
    \<and> table_ok li_id (seq_list_items db) (db_list_items db) \<and> table_ok q_id (seq_queue db) (db_queue db)
    \<and> table_ok h_id (seq_history db) (db_history db)
    \<and> distinct (map it_file_path (db_items db))
    \<and> distinct (map (\<lambda>r. (li_list_id r, li_item_id r)) (db_list_items db))
    \<and> (\<forall>l\<in>set (db_lists db). has_user db (ls_user_id l))
    \<and> (\<forall>r\<in>set (db_list_items db). has_list db (li_list_id r) \<and> has_item db (li_item_id r))
    \<and> (\<forall>q\<in>set (db_queue db). has_user db (q_user_id q) \<and> opt_ref (has_list db) (q_list_id q)
         \<and> opt_ref (has_item db) (q_item_id q))
    \<and> (\<forall>h\<in>set (db_history db). has_user db (h_user_id h) \<and> opt_ref (has_item db) (h_item_id h))"
  using db_reachable_ok [OF assms] by (simp add: tables_ok_def refs_ok_def)

theorem schema_constraints_kept_witness:
  "distinct (map it_file_path (db_items (snd (create_item (str ''a.mp3'') (str ''a'') None None
      (str ''s/a.mp3'') 5 None None (str ''mp3'') (str ''peer'') (empty_db [(1, str ''u'')] 7)))))"
  using schema_constraints_kept [OF db_next [OF db_start create_item]] by blast

section \<open>The queue\<close>

lemma sort_key_hd_least:
  assumes "sort_key f xs = x # ys"
  shows "x \<in> set xs \<and> (\<forall>y\<in>set xs. f x \<le> f y)"
proof -
  have "sorted (map f (x # ys))" using sorted_sort_key [of f xs] unfolding assms .
  moreover have "set xs = set (x # ys)" using set_sort [of f xs] unfolding assms by (rule sym)
  ultimately show ?thesis by auto
qed

lemma next_pending:
  assumes "get_next_pending_search db = Some q"
  shows "q \<in> set (db_queue db)" "waiting q"
    "\<forall>r\<in>set (db_queue db). waiting r \<longrightarrow> q_created_at q \<le> q_created_at r"
proof -
  obtain qs where "sort_key q_created_at (filter waiting (db_queue db)) = q # qs"
    using assms by (auto simp: get_next_pending_search_def split: list.splits)
  from sort_key_hd_least [OF this]
  show "q \<in> set (db_queue db)" "waiting q"
    "\<forall>r\<in>set (db_queue db). waiting r \<longrightarrow> q_created_at q \<le> q_created_at r"
    by auto
qed

lemma next_pending_None:
  assumes "get_next_pending_search db = None"
  shows "\<forall>r\<in>set (db_queue db). \<not> waiting r"
proof -
  have "sort_key q_created_at (filter waiting (db_queue db)) = []"
    using assms by (simp add: get_next_pending_search_def split: list.splits)
  from arg_cong [OF this, of set] show ?thesis by (simp add: filter_empty_conv)
qed

lemma claim_Some:
  assumes "claim_next_pending_search db = (Some q, db')"
  obtains r where "r \<in> set (db_queue db)" "waiting r" "q = r\<lparr>q_status := ''processing''\<rparr>"
    "\<forall>x\<in>set (db_queue db). waiting x \<longrightarrow> q_created_at r \<le> q_created_at x"
    "db' = db\<lparr>db_queue := update_where (\<lambda>x. q_id x = q_id r \<and> waiting x)
       (\<lambda>x. x\<lparr>q_status := ''processing'', q_started_at := Some (clock db)\<rparr>) (db_queue db)\<rparr>"
proof -
  obtain r where r: "get_next_pending_search db = Some r"
    using assms by (auto simp: claim_next_pending_search_def split: option.splits)
  show ?thesis
    using assms next_pending [OF r] that [of r]
    by (auto simp: claim_next_pending_search_def r Let_def split: if_splits)
qed

lemma claim_None:
  assumes "claim_next_pending_search db = (None, db')"
  shows "db' = db \<and> (\<forall>r\<in>set (db_queue db). \<not> waiting r)"
proof (cases "get_next_pending_search db")
  case None
  with next_pending_None [OF None] assms show ?thesis by (simp add: claim_next_pending_search_def)
next
  case (Some r)
  then have "count_where (\<lambda>x. q_id x = q_id r \<and> waiting x) (db_queue db) \<noteq> 0"
    using next_pending [OF Some] by (auto simp: count_where_zero)
  with Some assms show ?thesis by (simp add: claim_next_pending_search_def Let_def)
qed

text \<open>A worker that claims a search gets one that was pending or waiting for its retry and that no
  waiting search precedes in creation time; exactly its row becomes 'processing', every other row
  is untouched, so the next claim cannot return it; a claim gives nothing only when nothing waits.\<close>

lemma claim_takes_oldest:
  assumes "db_reachable db" and "claim_next_pending_search db = (c, db')"
  shows "case c of
      None \<Rightarrow> db' = db \<and> (\<forall>r\<in>set (db_queue db). \<not> waiting r)
    | Some q \<Rightarrow> (\<exists>r\<in>set (db_queue db). waiting r \<and> q = r\<lparr>q_status := ''processing''\<rparr>
        \<and> (\<forall>x\<in>set (db_queue db). waiting x \<longrightarrow> q_created_at r \<le> q_created_at x)
        \<and> db_queue db' = update_row q_id (q_id r)
            (\<lambda>x. x\<lparr>q_status := ''processing'', q_started_at := Some (clock db)\<rparr>) (db_queue db))"
proof (cases c)
  case None
  with assms(2) claim_None show ?thesis by simp
next
  case (Some q)
  with assms(2) obtain r where r: "r \<in> set (db_queue db)" "waiting r" "q = r\<lparr>q_status := ''processing''\<rparr>"
    "\<forall>x\<in>set (db_queue db). waiting x \<longrightarrow> q_created_at r \<le> q_created_at x"
    "db' = db\<lparr>db_queue := update_where (\<lambda>x. q_id x = q_id r \<and> waiting x)
       (\<lambda>x. x\<lparr>q_status := ''processing'', q_started_at := Some (clock db)\<rparr>) (db_queue db)\<rparr>"
    using claim_Some by blast
  have "distinct (map q_id (db_queue db))"
    using db_reachable_ok [OF assms(1)] by (simp add: tables_ok_def table_ok_def)
  then have "q_id x = q_id r \<and> waiting x \<longleftrightarrow> q_id x = q_id r" if "x \<in> set (db_queue db)" for x
    using that r(1,2) by (auto simp: distinct_map dest: inj_onD)
  then have "db_queue db' = update_row q_id (q_id r)
      (\<lambda>x. x\<lparr>q_status := ''processing'', q_started_at := Some (clock db)\<rparr>) (db_queue db)"
    by (auto simp: r(5) update_where_def update_row_def)
  with Some r show ?thesis by auto
qed

definition sample_db :: database where
  "sample_db = snd (db_enqueue_search 1 (str ''abba'') None None None None None None
     (empty_db [(1, str ''u'')] 7))"

lemma sample_db_reachable: "db_reachable sample_db"
  unfolding sample_db_def by (rule db_next [OF db_start enqueue])

lemma claim_takes_oldest_witness:
  "\<exists>q db'. claim_next_pending_search sample_db = (Some q, db') \<and> q_status q = ''processing''"
proof -
  have "\<exists>q db'. claim_next_pending_search sample_db = (Some q, db')"
    by (simp add: sample_db_def db_enqueue_search_def empty_db_def has_user_def
        claim_next_pending_search_def get_next_pending_search_def waiting_def Let_def)
  then obtain q db' where c: "claim_next_pending_search sample_db = (Some q, db')" by blast
  from claim_takes_oldest [OF sample_db_reachable c] c show ?thesis by auto
qed

text \<open>After the recovery at startup no search is 'processing' and no item is 'downloading' or 'queued';
  a search that was being processed waits again and can be claimed. But a search whose transfer was
  under way (status 'completed' until the transfer monitor removes it) is left as it is: its item is
  marked failed, and no later claim returns it.\<close>

lemma recovery_outcome:
  assumes "db_reachable db"
    and "rec = snd (mark_interrupted_downloads (snd (recover_processing_searches db)))"
  shows "(\<forall>q\<in>set (db_queue rec). q_status q \<noteq> ''processing'')
    \<and> (\<forall>i\<in>set (db_items rec). it_status i \<noteq> ''downloading'' \<and> it_status i \<noteq> ''queued'')
    \<and> (\<forall>q\<in>set (db_queue db). q_status q = ''processing'' \<longrightarrow>
         q\<lparr>q_status := ''pending'', q_started_at := None\<rparr> \<in> set (filter waiting (db_queue rec)))
    \<and> (\<forall>q\<in>set (db_queue db). q_status q = ''completed'' \<longrightarrow> q \<in> set (db_queue rec)
         \<and> (\<forall>c db'. claim_next_pending_search rec = (Some c, db') \<longrightarrow> q_id c \<noteq> q_id q))"
proof -
  have qs: "db_queue rec = update_where (\<lambda>q. q_status q = ''processing'')
      (\<lambda>q. q\<lparr>q_status := ''pending'', q_started_at := None\<rparr>) (db_queue db)"
    by (simp add: assms(2) mark_interrupted_downloads_def recover_processing_searches_def Let_def)
  have items: "db_items rec = update_where (\<lambda>i. it_status i = ''downloading'' \<or> it_status i = ''queued'')
      (\<lambda>i. i\<lparr>it_status := ''failed'',
         it_error_message := Some (str ''Download interrupted by server restart'')\<rparr>) (db_items db)"
    by (simp add: assms(2) mark_interrupted_downloads_def recover_processing_searches_def Let_def)
  have "distinct (map q_id (db_queue db))"
    using db_reachable_ok [OF assms(1)] by (simp add: tables_ok_def table_ok_def)
  then have dist: "distinct (map q_id (db_queue rec))" by (simp add: qs)
  have keep: "q \<in> set (db_queue rec)" if "q \<in> set (db_queue db)" "q_status q = ''completed''" for q
    using that by (force simp: qs set_update_where)
  have "q_id c \<noteq> q_id q"
    if "q \<in> set (db_queue db)" "q_status q = ''completed''"
      "claim_next_pending_search rec = (Some c, db')" for q c db'
  proof -
    from that(3) obtain r where r: "r \<in> set (db_queue rec)" "waiting r" "c = r\<lparr>q_status := ''processing''\<rparr>"
      by (rule claim_Some)
    show ?thesis
    proof
      assume "q_id c = q_id q"
      then have "q_id r = q_id q" by (simp add: r(3))
      moreover have "inj_on q_id (set (db_queue rec))" using dist by (simp add: distinct_map)
      ultimately have "r = q" using r(1) keep [OF that(1,2)] by (rule_tac inj_onD)
      with r(2) that(2) show False by (simp add: waiting_def)
    qed
  qed
  moreover have "\<forall>q\<in>set (db_queue rec). q_status q \<noteq> ''processing''"
    by (auto simp: qs set_update_where)
  moreover have "\<forall>i\<in>set (db_items rec). it_status i \<noteq> ''downloading'' \<and> it_status i \<noteq> ''queued''"
    by (auto simp: items set_update_where)
  moreover have "\<forall>q\<in>set (db_queue db). q_status q = ''processing'' \<longrightarrow>
      q\<lparr>q_status := ''pending'', q_started_at := None\<rparr> \<in> set (filter waiting (db_queue rec))"
    by (auto simp: qs set_update_where waiting_def)
  ultimately show ?thesis using keep by blast
qed

lemma recovery_outcome_witness:
  "''processing'' \<notin> q_status ` set (db_queue (snd (mark_interrupted_downloads (snd (recover_processing_searches
      (snd (claim_next_pending_search sample_db)))))))"
proof
  assume "''processing'' \<in> q_status ` set (db_queue (snd (mark_interrupted_downloads (snd (recover_processing_searches
      (snd (claim_next_pending_search sample_db)))))))"
  with recovery_outcome [OF db_next [OF sample_db_reachable claim] refl, THEN conjunct1] show False by force
qed

end
