(* ===== verification/Queue.thy ===== *)
theory Queue
  imports Database Client
begin

text \<open>
  \<open>src/src/services/queue.rs\<close> and the duplicate search of \<open>fuzzy.rs\<close>: the search queue, its worker and
  the transfer monitor. An operation takes the state of the service and returns its result and the
  new state; the events it broadcasts are appended to \<open>events\<close>. The answers of the network (the
  search results, how a download starts, how a transfer ends) are arguments; the fuzzy score, the
  character tables, zlib, the file system and the tag reader are fields of \<open>queue_env\<close>. Between two
  steps of a search other tasks run: the steps are definitions of their own and \<open>queue_step\<close>
  interleaves them.
\<close>

section \<open>State\<close>

datatype ws_event =
    SearchStarted int rstring "rstring option"
  | SearchProgress int nat nat "rstring option"
  | SearchCompleted int nat "rstring option" "rstring option" "rstring option"
  | DownloadStarted int rstring u64 "rstring option"
  | DownloadProgress int u64 u64 f64 f64 "rstring option"
  | DownloadCompleted int rstring u64 "rstring option"
  | DownloadFailed int rstring "rstring option"
  | DownloadQueued int "u32 option" rstring "rstring option"
  | ItemUpdated int rstring string f64
  | DuplicateFound int rstring rstring "rstring option"
  | SearchQueued int rstring int "rstring option"
  | SearchProcessing int rstring "rstring option"
  | SearchFailed int rstring rstring "rstring option"
  | ListCreated int rstring int
  | ListProgress int int int int string
  | MetadataLookupStarted int

record transfer_completion =
  tc_item_id :: int
  tc_queue_id :: int
  tc_list_id :: "int option"
  tc_list_position :: "int option"
  tc_result :: "(u64, rstring) outcome"
  tc_client_id :: "rstring option"

record metadata_job =
  mj_item_id :: int
  mj_file_path :: rstring
  mj_query :: rstring
  mj_artist :: "rstring option"
  mj_track :: "rstring option"

record queue_service =
  qs_db :: database
  pending_candidates :: "int \<Rightarrow> scored_file list option"
  events :: "ws_event list"
  shares :: sharing_service
  metadata_jobs :: "metadata_job list"

record queue_env =
  chars :: unicode
  zlib :: "bytes \<Rightarrow> bytes"
  fs :: file_system
  uppercase :: "rstring \<Rightarrow> rstring"
  fuzzy_match :: "rstring \<Rightarrow> rstring \<Rightarrow> int option"
  storage_dir :: rstring
  max_concurrent_searches :: nat

record queue_status =
  qr_pending :: int
  qr_processing :: int
  qr_active_downloads :: int
  qr_user_pending :: int
  qr_user_processing :: int

definition queue_new :: "database \<Rightarrow> sharing_service \<Rightarrow> queue_service" where
  "queue_new db sharing = \<lparr>qs_db = db, pending_candidates = (\<lambda>_. None), events = [], shares = sharing,
     metadata_jobs = []\<rparr>"

definition extract_basename :: "rstring \<Rightarrow> rstring" where
  "extract_basename soulseek_path = after_last (\<lambda>c. c = 92 \<or> c = 47) soulseek_path"

section \<open>Operations on the state\<close>

type_synonym 'a qop = "queue_service \<Rightarrow> ('a, rstring) outcome \<times> queue_service"

fun qbind :: "'a qop \<Rightarrow> ('a \<Rightarrow> 'b qop) \<Rightarrow> 'b qop" where
  "qbind p f s =
     (case p s of
        (Ok x, s') \<Rightarrow> f x s'
      | (Err e, s') \<Rightarrow> (Err e, s')
      | (Panic, s') \<Rightarrow> (Panic, s'))"

definition qret :: "'a \<Rightarrow> 'a qop" where "qret x s = (Ok x, s)"
definition qfail :: "rstring \<Rightarrow> 'a qop" where "qfail e s = (Err e, s)"
definition qseq :: "unit qop \<Rightarrow> 'b qop \<Rightarrow> 'b qop" where "qseq p q = qbind p (\<lambda>_. q)"

text \<open>A query of the database, an update that cannot fail, one that can, and \<open>if let Err(e) = ...\<close>,
  which logs the error and goes on.\<close>

definition qget :: "(database \<Rightarrow> 'a) \<Rightarrow> 'a qop" where "qget f s = (Ok (f (qs_db s)), s)"

definition qupd :: "(database \<Rightarrow> database) \<Rightarrow> unit qop" where
  "qupd f s = (Ok (), s\<lparr>qs_db := f (qs_db s)\<rparr>)"

definition qtry :: "(database \<Rightarrow> ('a, rstring) outcome \<times> database) \<Rightarrow> 'a qop" where
  "qtry f s = (case f (qs_db s) of (r, db) \<Rightarrow> (r, s\<lparr>qs_db := db\<rparr>))"

definition qlog :: "'a qop \<Rightarrow> unit qop" where
  "qlog p s = (case p s of (Panic, s') \<Rightarrow> (Panic, s') | (_, s') \<Rightarrow> (Ok (), s'))"

definition broadcast :: "ws_event \<Rightarrow> unit qop" where
  "broadcast e s = (Ok (), s\<lparr>events := events s @ [e]\<rparr>)"

definition set_candidates :: "int \<Rightarrow> scored_file list option \<Rightarrow> unit qop" where
  "set_candidates i c s = (Ok (), s\<lparr>pending_candidates := (pending_candidates s)(i := c)\<rparr>)"

definition qwhen :: "bool \<Rightarrow> unit qop \<Rightarrow> unit qop" where
  "qwhen b p = (if b then p else qret ())"

section \<open>Adding searches and lists, status, cancelling\<close>

definition enqueue_search ::
  "int \<Rightarrow> rstring \<Rightarrow> rstring option \<Rightarrow> rstring option \<Rightarrow> rstring option \<Rightarrow> rstring option
   \<Rightarrow> (queued_search \<times> int) qop" where
  "enqueue_search user query artist track fmt client =
     qbind (qtry (db_enqueue_search user query artist track fmt None None client)) (\<lambda>queued.
     qbind (qget (get_queue_position (q_id queued))) (\<lambda>position.
     qseq (broadcast (SearchQueued (q_id queued) query (as_i32 position) client))
       (qret (queued, position))))"

text \<open>\<open>now_name\<close> is the name made of the current time.\<close>

definition enqueue_list ::
  "rstring \<Rightarrow> int \<Rightarrow> rstring option \<Rightarrow> track list \<Rightarrow> rstring option \<Rightarrow> (list_row \<times> queued_search list) qop" where
  "enqueue_list now_name user name tracks fmt =
     (let list_name = (case name of Some n \<Rightarrow> n | None \<Rightarrow> now_name);
          n = as_i32 (int (length tracks)) in
      qbind (qtry (create_list list_name user n)) (\<lambda>l.
      qbind (qtry (enqueue_searches_for_list user tracks fmt (ls_id l))) (\<lambda>queued.
      qseq (broadcast (ListCreated (ls_id l) list_name n)) (qret (l, queued)))))"

definition get_queue_status :: "queue_service \<Rightarrow> queue_status" where
  "get_queue_status s =
     (let (pending, processing) = db_queue_status (qs_db s) in
      \<lparr>qr_pending = pending, qr_processing = processing,
       qr_active_downloads = get_active_downloads_count (qs_db s), qr_user_pending = 0, qr_user_processing = 0\<rparr>)"

definition get_user_queue_status :: "int \<Rightarrow> queue_service \<Rightarrow> queue_status" where
  "get_user_queue_status user s =
     (let (pending, processing) = db_queue_status (qs_db s);
          (user_pending, user_processing) = db_user_queue_status user (qs_db s) in
      \<lparr>qr_pending = pending, qr_processing = processing,
       qr_active_downloads = get_active_downloads_count (qs_db s),
       qr_user_pending = user_pending, qr_user_processing = user_processing\<rparr>)"

definition get_user_pending_queue :: "int \<Rightarrow> queue_service \<Rightarrow> queued_search list" where
  "get_user_pending_queue user s = db_user_pending_queue user (qs_db s)"

definition cancel_search :: "int \<Rightarrow> bool qop" where
  "cancel_search i s = (case cancel_pending_search i (qs_db s) of (b, db) \<Rightarrow> (Ok b, s\<lparr>qs_db := db\<rparr>))"

definition cancel_list :: "int \<Rightarrow> int qop" where
  "cancel_list l s = (case cancel_list_pending_searches l (qs_db s) of (n, db) \<Rightarrow> (Ok n, s\<lparr>qs_db := db\<rparr>))"

section \<open>The progress of a list\<close>

definition list_status :: "int \<Rightarrow> int \<Rightarrow> int \<Rightarrow> int \<Rightarrow> string" where
  "list_status completed failed unresolved_items pending_searches =
     (if unresolved_items = 0 \<and> pending_searches = 0 then
        if completed = 0 \<and> failed = 0 then ''pending''
        else if failed = 0 then ''completed''
        else if completed = 0 then ''failed''
        else ''partial''
      else ''downloading'')"

definition update_list_progress :: "int \<Rightarrow> unit qop" where
  "update_list_progress l s =
     (case get_list l (qs_db s) of
        None \<Rightarrow> (Ok (), s)
      | Some row \<Rightarrow>
          (case count_list_items_by_status l (qs_db s) of
             Panic \<Rightarrow> (Panic, s)
           | Err e \<Rightarrow> (Ok (), s)
           | Ok (completed, failed, total_in_list) \<Rightarrow>
               (let pending = count_pending_searches_for_list l (qs_db s);
                    status = list_status completed failed (total_in_list - completed - failed) pending
                in qseq (qupd (update_list_status l status completed failed))
                     (broadcast (ListProgress l completed failed (max (ls_total_items row) total_in_list) status)) s)))"

fun update_lists :: "int list \<Rightarrow> unit qop" where
  "update_lists [] = qret ()"
| "update_lists (l # ls) = qseq (update_list_progress l) (update_lists ls)"

definition recalculate_downloading_lists :: "unit qop" where
  "recalculate_downloading_lists =
     qbind (qget (get_lists_by_status ''downloading'')) (\<lambda>rows. update_lists (map ls_id rows))"

definition recover_on_startup :: "(int \<times> int) qop" where
  "recover_on_startup s =
     (let (searches_reset, db) = recover_processing_searches (qs_db s);
          (downloads_failed, db) = mark_interrupted_downloads db
      in (Ok (searches_reset, downloads_failed), s\<lparr>qs_db := db\<rparr>))"

section \<open>Duplicates\<close>

text \<open>\<open>max_by_key\<close> returns the last of the maximal elements.\<close>

fun max_by_score :: "(item \<times> int) list \<Rightarrow> (item \<times> int) option" where
  "max_by_score [] = None"
| "max_by_score (p # ps) =
     (case max_by_score ps of
        None \<Rightarrow> Some p
      | Some q \<Rightarrow> if snd q < snd p then Some p else Some q)"

definition find_duplicate ::
  "(rstring \<Rightarrow> rstring \<Rightarrow> int option) \<Rightarrow> int \<Rightarrow> rstring \<Rightarrow> item list \<Rightarrow> item option" where
  "find_duplicate score threshold query items =
     map_option fst (max_by_score (filter (\<lambda>p. threshold \<le> snd p)
       (List.map_filter (\<lambda>i. map_option (Pair i) (score (it_filename i) query)) items)))"

section \<open>Executing a search\<close>

text \<open>What the first part of a search ends with: an item that is returned as it is, or a file to download.\<close>

datatype choice = Existing item | Chosen scored_file

definition SEARCH_DUPLICATE_THRESHOLD :: int where "SEARCH_DUPLICATE_THRESHOLD = 70"

definition check_duplicate :: "queue_env \<Rightarrow> queued_search \<Rightarrow> item option qop" where
  "check_duplicate env q =
     qseq (broadcast (SearchStarted 0 (q_query q) (q_client_id q)))
     (qbind (qget get_all_items) (\<lambda>existing_items.
      case find_duplicate (fuzzy_match env) SEARCH_DUPLICATE_THRESHOLD (q_query q)
             (filter (\<lambda>i. it_status i = ''completed'') existing_items) of
        Some existing \<Rightarrow>
          qseq (broadcast (DuplicateFound (it_id existing) (it_filename existing) (q_query q) (q_client_id q)))
            (qret (Some existing))
      | None \<Rightarrow> qret None))"

definition pop_candidate :: "int \<Rightarrow> scored_file option qop" where
  "pop_candidate i s =
     (case pending_candidates s i of
        Some (c # cs) \<Rightarrow> (Ok (Some c), s\<lparr>pending_candidates := (pending_candidates s)(i \<mapsto> cs)\<rparr>)
      | _ \<Rightarrow> (Ok None, s))"

definition no_files_error :: "queue_env \<Rightarrow> rstring option \<Rightarrow> rstring" where
  "no_files_error env fmt =
     (case fmt of
        Some f \<Rightarrow> str ''No '' @ uppercase env f @ str '' files found matching query''
      | None \<Rightarrow> str ''No suitable files found matching query'')"

text \<open>A fresh search; \<open>results\<close> is what the client's \<open>search\<close> returns.\<close>

definition fresh_search ::
  "queue_env \<Rightarrow> queued_search \<Rightarrow> (search_result list, rstring) outcome \<Rightarrow> scored_file qop" where
  "fresh_search env q results =
     qbind (\<lambda>s. (results, s)) (\<lambda>results.
     let total_files = sum_list (map (\<lambda>r. length (sr_files r)) results) in
     qseq (broadcast (SearchProgress 0 total_files (length results) (q_client_id q)))
     (if results = [] then
        qseq (broadcast (SearchCompleted 0 0 None None (q_client_id q)))
          (qfail (str ''No results found for query: '' @ q_query q))
      else
        (case find_best_files (chars env) results (q_query q) (q_format q) of
           [] \<Rightarrow> qfail (no_files_error env (q_format q))
         | selected # rest \<Rightarrow>
             qseq (broadcast (SearchCompleted 0 total_files (Some (extract_basename (sc_filename selected)))
                     (Some (sc_username selected)) (q_client_id q)))
             (qseq (qwhen (take 5 rest \<noteq> []) (set_candidates (q_id q) (Some (take 5 rest))))
               (qret selected)))))"

definition select_file ::
  "queue_env \<Rightarrow> queued_search \<Rightarrow> (search_result list, rstring) outcome \<Rightarrow> choice qop" where
  "select_file env q results =
     qbind (check_duplicate env q) (\<lambda>dup.
     case dup of
       Some existing \<Rightarrow> qret (Existing existing)
     | None \<Rightarrow>
         qbind (pop_candidate (q_id q)) (\<lambda>cached.
         case cached of
           Some c \<Rightarrow> qret (Chosen c)
         | None \<Rightarrow> qbind (fresh_search env q results) (\<lambda>c. qret (Chosen c))))"

definition target_path :: "queue_env \<Rightarrow> scored_file \<Rightarrow> rstring" where
  "target_path env c = path_join (storage_dir env) (extract_basename (sc_filename c))"

text \<open>The row for the file: a completed one with the same path is returned as it is, any other one is
  deleted and replaced.\<close>

definition replace_existing :: "queue_env \<Rightarrow> queued_search \<Rightarrow> scored_file \<Rightarrow> item option qop" where
  "replace_existing env q c =
     qbind (qget (find_item_by_path (target_path env c))) (\<lambda>found.
     case found of
       None \<Rightarrow> qret None
     | Some existing \<Rightarrow>
         if it_status existing \<noteq> ''completed'' then
           qseq (case q_list_id q of
                   Some l \<Rightarrow> qupd (remove_item_from_list l (it_id existing))
                 | None \<Rightarrow> qret ())
           (qseq (qupd (delete_item (it_id existing))) (qret None))
         else qret (Some existing))"

definition create_download :: "queue_env \<Rightarrow> queued_search \<Rightarrow> scored_file \<Rightarrow> item qop" where
  "create_download env q c =
     (let local_filename = extract_basename (sc_filename c);
          extension = (case path_extension local_filename of Some e \<Rightarrow> e | None \<Rightarrow> []) in
      qbind (qtry (create_item local_filename (q_query q) (q_original_artist q) (q_original_track q)
               (target_path env c) (sint (sc_size c)) (map_option sint (sc_bitrate c)) None extension
               (sc_username c))) (\<lambda>item.
      qseq (qupd (update_item_status (it_id item) ''downloading'' 0 None))
      (qseq (case (q_list_id q, q_list_position q) of
               (Some l, Some pos) \<Rightarrow> qlog (qtry (add_item_to_list l (it_id item) pos))
             | _ \<Rightarrow> qret ())
      (qseq (broadcast (DownloadStarted (it_id item) local_filename (sc_size c) (q_client_id q)))
      (qseq (broadcast (ItemUpdated (it_id item) local_filename ''downloading'' 0))
        (qret item))))))"

definition prepare_item :: "queue_env \<Rightarrow> queued_search \<Rightarrow> scored_file \<Rightarrow> (item + item) qop" where
  "prepare_item env q c =
     qbind (replace_existing env q c) (\<lambda>existing.
     case existing of
       Some i \<Rightarrow> qret (Inl i)
     | None \<Rightarrow> qbind (create_download env q c) (\<lambda>i. qret (Inr i)))"

text \<open>What becomes of the item when the client has tried to start the download.\<close>

definition apply_init :: "queued_search \<Rightarrow> item \<Rightarrow> download_init \<Rightarrow> item qop" where
  "apply_init q item init =
     (case init of
        Transfer_Spawned _ _ \<Rightarrow> qret (item\<lparr>it_status := ''downloading''\<rparr>)
      | Download_Queued tok position reason \<Rightarrow>
          qseq (qupd (update_item_status (it_id item) ''queued'' 0 None))
          (qseq (broadcast (DownloadQueued (it_id item) position reason (q_client_id q)))
          (qseq (broadcast (ItemUpdated (it_id item) (it_filename item) ''queued'' 0))
            (qret (item\<lparr>it_status := ''queued''\<rparr>))))
      | Download_Failed reason \<Rightarrow>
          qseq (qupd (update_item_status (it_id item) ''failed'' 0 (Some reason)))
          (qseq (broadcast (DownloadFailed (it_id item) reason (q_client_id q)))
            (qfail (str ''Download failed: '' @ reason))))"

definition execute_search_and_download ::
  "queue_env \<Rightarrow> queued_search \<Rightarrow> (search_result list, rstring) outcome \<Rightarrow> (item \<Rightarrow> download_init) \<Rightarrow> item qop" where
  "execute_search_and_download env q results init =
     qbind (select_file env q results) (\<lambda>ch.
     case ch of
       Existing i \<Rightarrow> qret i
     | Chosen c \<Rightarrow>
         qbind (prepare_item env q c) (\<lambda>r.
         case r of
           Inl i \<Rightarrow> qret i
         | Inr i \<Rightarrow> apply_init q i (init i)))"

text \<open>The progress reported for a download while it runs.\<close>

definition progress_event :: "int \<Rightarrow> rstring option \<Rightarrow> u64 \<Rightarrow> u64 \<Rightarrow> f64 \<Rightarrow> ws_event" where
  "progress_event item_id client bytes_downloaded total_bytes speed_kbps =
     DownloadProgress item_id bytes_downloaded total_bytes
       (if 0 < total_bytes
        then fmul (fdiv (f64_of_nat (unat bytes_downloaded)) (f64_of_nat (unat total_bytes))) 100 else 0)
       speed_kbps client"

section \<open>Processing a claimed search\<close>

definition begin_search :: "queued_search \<Rightarrow> bool qop" where
  "begin_search queued s =
     (case get_queued_search (q_id queued) (qs_db s) of
        Some q \<Rightarrow>
          if q_status q = ''processing'' then
            qseq (broadcast (SearchProcessing (q_id queued) (q_query queued) (q_client_id queued))) (qret True) s
          else (Ok False, s)
      | None \<Rightarrow> (Ok False, s))"

definition add_history ::
  "queued_search \<Rightarrow> string \<Rightarrow> int option \<Rightarrow> rstring option \<Rightarrow> unit qop" where
  "add_history q status item_id err =
     qlog (qtry (insert_search_history (q_user_id q) (q_query q) (q_original_artist q)
             (q_original_track q) (q_format q) status item_id err))"

definition search_done :: "queued_search \<Rightarrow> item \<Rightarrow> unit qop" where
  "search_done q item =
     (if it_status item = ''completed'' then
        qseq (qlog (qtry (mark_search_completed (q_id q) (it_id item))))
        (qseq (case (q_list_id q, q_list_position q) of
                 (Some l, Some pos) \<Rightarrow>
                   qseq (qlog (qtry (add_item_to_list l (it_id item) pos))) (update_list_progress l)
               | _ \<Rightarrow> qret ())
        (qseq (qupd (delete_completed_search (q_id q)))
          (add_history q ''completed'' (Some (it_id item)) None)))
      else if it_status item = ''downloading'' \<or> it_status item = ''queued'' then
        qlog (qtry (mark_search_completed (q_id q) (it_id item)))
      else qret ())"

definition placeholder_filename :: "queued_search \<Rightarrow> rstring" where
  "placeholder_filename q =
     (case (q_original_artist q, q_original_track q) of
        (Some artist, Some trck) \<Rightarrow> artist @ str '' - '' @ trck
      | _ \<Rightarrow> q_query q)"

definition placeholder_path :: "int \<Rightarrow> rstring" where
  "placeholder_path i = str ''__failed_placeholder_'' @ show_int i"

text \<open>A failed item stands in the list for a search that never got a file.\<close>

definition create_placeholder :: "queued_search \<Rightarrow> int \<Rightarrow> rstring \<Rightarrow> unit qop" where
  "create_placeholder q l error_msg =
     qlog (qbind (qtry (create_item (placeholder_filename q) (q_query q) (q_original_artist q)
                    (q_original_track q) (placeholder_path (q_id q)) 0 None None [] [])) (\<lambda>item.
       qseq (qupd (update_item_status (it_id item) ''failed'' 0 (Some error_msg)))
         (qlog (qtry (add_item_to_list l (it_id item)
            (case q_list_position q of Some pos \<Rightarrow> pos | None \<Rightarrow> 0))))))"

definition is_no_results :: "rstring \<Rightarrow> bool" where
  "is_no_results error_msg \<longleftrightarrow> contains error_msg (str ''No results found for search'')"

definition search_error :: "queued_search \<Rightarrow> rstring \<Rightarrow> unit qop" where
  "search_error q error_msg =
     (if q_retry_count q = 0 \<and> \<not> is_no_results error_msg then
        qseq (qupd (mark_search_for_retry (q_id q) error_msg))
        (qseq (case q_list_id q of Some l \<Rightarrow> update_list_progress l | None \<Rightarrow> qret ())
          (broadcast (SearchFailed (q_id q) (q_query q) (error_msg @ str '' (will retry)'') (q_client_id q))))
      else
        qseq (qupd (delete_search (q_id q)))
        (qseq (add_history q ''failed'' None (Some error_msg))
        (qseq (case q_list_id q of
                 Some l \<Rightarrow> qseq (create_placeholder q l error_msg) (update_list_progress l)
               | None \<Rightarrow> qret ())
          (broadcast (SearchFailed (q_id q) (q_query q) error_msg (q_client_id q))))))"

definition finish_search :: "queued_search \<Rightarrow> (item, rstring) outcome \<Rightarrow> unit qop" where
  "finish_search q result s =
     (case result of
        Ok item \<Rightarrow> search_done q item s
      | Err e \<Rightarrow> search_error q e s
      | Panic \<Rightarrow> (Panic, s))"

text \<open>The whole task, when no other task runs in between.\<close>

definition process_queued_search ::
  "queue_env \<Rightarrow> queued_search \<Rightarrow> (search_result list, rstring) outcome \<Rightarrow> (item \<Rightarrow> download_init) \<Rightarrow> unit qop" where
  "process_queued_search env q results init =
     qbind (begin_search q) (\<lambda>go.
     if \<not> go then qret ()
     else (\<lambda>s. case execute_search_and_download env q results init s of (r, s') \<Rightarrow> finish_search q r s'))"

section \<open>The transfer monitor\<close>

definition audio_props :: "queue_env \<Rightarrow> rstring \<Rightarrow> (int option \<times> int option) option" where
  "audio_props env path =
     map_option (\<lambda>p. (map_option sint (ap_sample_rate p), map_option uint (ap_bit_depth p)))
       (probe (fs env) path)"

definition record_audio :: "queue_env \<Rightarrow> int \<Rightarrow> unit qop" where
  "record_audio env item_id =
     qbind (qget (get_item item_id)) (\<lambda>found.
     case found of
       None \<Rightarrow> qret ()
     | Some item \<Rightarrow>
         if it_file_path item = [] then qret ()
         else
           (case audio_props env (it_file_path item) of
              None \<Rightarrow> qret ()
            | Some (rate, depth) \<Rightarrow> qupd (update_item_audio_properties item_id rate depth)))"

definition share_download :: "queue_env \<Rightarrow> int \<Rightarrow> unit qop" where
  "share_download env item_id s =
     (case get_item item_id (qs_db s) of
        None \<Rightarrow> (Ok (), s)
      | Some item \<Rightarrow>
          if it_file_path item = [] then (Ok (), s)
          else
            (case add_file (chars env) (zlib env) (fs env) (it_file_path item) (shares s) of
               (Panic, sh) \<Rightarrow> (Panic, s\<lparr>shares := sh\<rparr>)
             | (_, sh) \<Rightarrow> (Ok (), s\<lparr>shares := sh\<rparr>)))"

definition announce_download :: "int \<Rightarrow> u64 \<Rightarrow> rstring option \<Rightarrow> unit qop" where
  "announce_download item_id transferred client s =
     (case get_item item_id (qs_db s) of
        None \<Rightarrow> (Ok (), s)
      | Some item \<Rightarrow>
          (Ok (), s\<lparr>events := events s @
               [DownloadCompleted item_id (it_filename item) transferred client,
                ItemUpdated item_id (it_filename item) ''completed'' 1],
             metadata_jobs := metadata_jobs s @
               [\<lparr>mj_item_id = item_id, mj_file_path = it_file_path item, mj_query = it_original_query item,
                 mj_artist = it_original_artist item, mj_track = it_original_track item\<rparr>]\<rparr>))"

definition list_progress :: "int option \<Rightarrow> unit qop" where
  "list_progress l = (case l of Some l \<Rightarrow> update_list_progress l | None \<Rightarrow> qret ())"

definition transfer_succeeded ::
  "queue_env \<Rightarrow> transfer_completion \<Rightarrow> queued_search option \<Rightarrow> u64 \<Rightarrow> unit qop" where
  "transfer_succeeded env c queued transferred =
     qseq (qupd (update_item_status (tc_item_id c) ''completed'' 1 None))
     (qseq (record_audio env (tc_item_id c))
     (qseq (share_download env (tc_item_id c))
     (qseq (announce_download (tc_item_id c) transferred (tc_client_id c))
     (qseq (qupd (delete_search (tc_queue_id c)))
     (qseq (set_candidates (tc_queue_id c) None)
     (qseq (case queued of
              Some q \<Rightarrow> add_history q ''completed'' (Some (tc_item_id c)) None
            | None \<Rightarrow> qret ())
       (list_progress (tc_list_id c))))))))"

definition announce_failure :: "int \<Rightarrow> unit qop" where
  "announce_failure item_id s =
     (case get_item item_id (qs_db s) of
        None \<Rightarrow> (Ok (), s)
      | Some item \<Rightarrow> broadcast (ItemUpdated item_id (it_filename item) ''failed'' 0) s)"

definition has_more_candidates :: "int \<Rightarrow> queue_service \<Rightarrow> bool" where
  "has_more_candidates i s = (case pending_candidates s i of Some cs \<Rightarrow> cs \<noteq> [] | None \<Rightarrow> False)"

definition retry_or_give_up :: "transfer_completion \<Rightarrow> queued_search option \<Rightarrow> rstring \<Rightarrow> unit qop" where
  "retry_or_give_up c queued error_msg s =
     (let retry_count = (case queued of Some q \<Rightarrow> q_retry_count q | None \<Rightarrow> 1);
          failed = (\<lambda>note. broadcast (DownloadFailed (tc_item_id c) (error_msg @ note) (tc_client_id c))) in
      if retry_count = 0 then
        qseq (qupd (mark_search_for_retry (tc_queue_id c) error_msg)) (failed (str '' (will retry)'')) s
      else if has_more_candidates (tc_queue_id c) s then
        qseq (qupd (mark_search_for_retry (tc_queue_id c) error_msg))
          (failed (str '' (trying next candidate)'')) s
      else
        qseq (set_candidates (tc_queue_id c) None)
        (qseq (qupd (delete_search (tc_queue_id c)))
        (qseq (case queued of
                 Some q \<Rightarrow> add_history q ''failed'' (Some (tc_item_id c)) (Some error_msg)
               | None \<Rightarrow> qret ())
          (failed []))) s)"

definition transfer_failed ::
  "transfer_completion \<Rightarrow> queued_search option \<Rightarrow> rstring \<Rightarrow> unit qop" where
  "transfer_failed c queued error_msg =
     qseq (qupd (update_item_status (tc_item_id c) ''failed'' 0 (Some error_msg)))
     (qseq (list_progress (tc_list_id c))
     (qseq (announce_failure (tc_item_id c))
       (retry_or_give_up c queued error_msg)))"

definition handle_transfer_completion :: "queue_env \<Rightarrow> transfer_completion \<Rightarrow> unit qop" where
  "handle_transfer_completion env c s =
     (let queued = get_queued_search (tc_queue_id c) (qs_db s) in
      case tc_result c of
        Ok n \<Rightarrow> transfer_succeeded env c queued n s
      | Err e \<Rightarrow> transfer_failed c queued e s
      | Panic \<Rightarrow> (Panic, s))"

section \<open>Facts about the operations\<close>

lemma qseq_simps [simp]:
  "qseq p r s = (case p s of (Ok _, s') \<Rightarrow> r s' | (Err e, s') \<Rightarrow> (Err e, s') | (Panic, s') \<Rightarrow> (Panic, s'))"
  by (simp add: qseq_def)

lemmas qop_simps = qret_def qfail_def qget_def qupd_def qtry_def qlog_def broadcast_def set_candidates_def qwhen_def

text \<open>An operation that keeps a property of the state.\<close>

definition keeps :: "(queue_service \<Rightarrow> bool) \<Rightarrow> 'a qop \<Rightarrow> bool" where
  "keeps I p \<longleftrightarrow> (\<forall>s. I s \<longrightarrow> I (snd (p s)))"

named_theorems keep "operations of the queue service that keep an invariant"

lemma keepsD: "keeps I p \<Longrightarrow> I s \<Longrightarrow> I (snd (p s))"
  by (simp add: keeps_def)

lemma keeps_qbind [keep]: "keeps I p \<Longrightarrow> (\<And>x. keeps I (f x)) \<Longrightarrow> keeps I (qbind p f)"
  unfolding keeps_def by (auto split: prod.splits outcome.splits; metis snd_conv)

lemma keeps_qseq [keep]: "keeps I p \<Longrightarrow> keeps I q \<Longrightarrow> keeps I (qseq p q)"
  unfolding qseq_def by (rule keeps_qbind)

lemma keeps_read [keep]: "keeps I (qret x)" "keeps I (qfail e)" "keeps I (qget f)" "keeps I (\<lambda>s. (r, s))"
  by (auto simp: keeps_def qop_simps)

lemma keeps_qwhen [keep]: "(b \<Longrightarrow> keeps I p) \<Longrightarrow> keeps I (qwhen b p)"
  by (simp add: qwhen_def keeps_read)

lemma keeps_qlog [keep]: "keeps I p \<Longrightarrow> keeps I (qlog p)"
  unfolding keeps_def qlog_def by (auto split: prod.splits outcome.splits; metis snd_conv)

lemma keeps_if [keep]: "keeps I p \<Longrightarrow> keeps I q \<Longrightarrow> keeps I (if b then p else q)"
  by simp

lemma keeps_cases [keep]:
  "keeps I d \<Longrightarrow> (\<And>x. keeps I (f x)) \<Longrightarrow> keeps I (case o' of None \<Rightarrow> d | Some x \<Rightarrow> f x)"
  "(\<And>x. keeps I (f x)) \<Longrightarrow> (\<And>y. keeps I (g y)) \<Longrightarrow> keeps I (case r of Inl x \<Rightarrow> f x | Inr y \<Rightarrow> g y)"
  "keeps I d \<Longrightarrow> (\<And>x xs. keeps I (h x xs)) \<Longrightarrow> keeps I (case l of [] \<Rightarrow> d | x # xs \<Rightarrow> h x xs)"
  "(\<And>x y. keeps I (k x y)) \<Longrightarrow> keeps I (case p of (x, y) \<Rightarrow> k x y)"
  by (auto split: option.splits sum.splits list.splits prod.splits)

text \<open>
  The contract between the service and what it changes: a property of the state that survives every
  statement of the database, the appending of events and jobs, the changes to the cached candidates,
  and the adding of a file to the share index survives every operation of the service.
\<close>

locale service_invariant =
  fixes env :: queue_env and I :: "queue_service \<Rightarrow> bool"
  assumes I_db: "I s \<Longrightarrow> db_step (qs_db s) db \<Longrightarrow> I (s\<lparr>qs_db := db\<rparr>)"
    and I_events: "I s \<Longrightarrow> I (s\<lparr>events := events s @ es\<rparr>)"
    and I_jobs: "I s \<Longrightarrow> I (s\<lparr>metadata_jobs := js\<rparr>)"
    and I_drop: "I s \<Longrightarrow> I (s\<lparr>pending_candidates := (pending_candidates s)(i := None)\<rparr>)"
    and I_pop: "I s \<Longrightarrow> pending_candidates s i = Some (c # cs)
      \<Longrightarrow> I (s\<lparr>pending_candidates := (pending_candidates s)(i \<mapsto> cs)\<rparr>)"
    and I_cache: "I s \<Longrightarrow> length cs \<le> 5 \<Longrightarrow> I (s\<lparr>pending_candidates := (pending_candidates s)(i \<mapsto> cs)\<rparr>)"
    and I_share: "I s \<Longrightarrow> I (s\<lparr>shares := snd (add_file (chars env) (zlib env) (fs env) path (shares s))\<rparr>)"
begin

lemma keeps_basic [keep]:
  "keeps I (broadcast ev)" "keeps I (set_candidates i None)" "keeps I (pop_candidate i)"
  "keeps I (set_candidates i (Some (take 5 cs)))"
  by (auto simp: keeps_def qop_simps pop_candidate_def I_events I_drop I_pop I_cache
      split: option.splits list.splits)

lemma keeps_qupd: "(\<And>db. db_step db (f db)) \<Longrightarrow> keeps I (qupd f)"
  by (simp add: keeps_def qupd_def I_db)

lemma keeps_qtry: "(\<And>db. db_step db (snd (f db))) \<Longrightarrow> keeps I (qtry f)"
  unfolding keeps_def qtry_def by (auto split: prod.splits; metis I_db snd_conv)

lemmas keeps_statements [keep] =
  keeps_qupd [OF db_step.item_status] keeps_qupd [OF db_step.item_audio]
  keeps_qupd [OF db_step.item_delete] keeps_qupd [OF db_step.list_remove]
  keeps_qupd [OF db_step.list_status] keeps_qupd [OF db_step.delete_completed]
  keeps_qupd [OF db_step.mark_retry] keeps_qupd [OF db_step.search_delete]
  keeps_qupd [OF db_step.items_delete] keeps_qupd [OF db_step.lists_delete]
  keeps_qupd [OF db_step.tick]
  keeps_qtry [OF db_step.create_item] keeps_qtry [OF db_step.list_add]
  keeps_qtry [OF db_step.mark_completed] keeps_qtry [OF db_step.history]
  keeps_qtry [OF db_step.create_list] keeps_qtry [OF db_step.enqueue]

lemma keeps_progress [keep]: "keeps I (update_list_progress l)" "keeps I (list_progress l')"
proof -
  have "keeps I (qseq (qupd (update_list_status l st c f)) (broadcast ev))" for l st c f ev
    by (intro keep)
  then show "keeps I (update_list_progress l)" for l
    unfolding keeps_def update_list_progress_def Let_def
    by (auto simp del: qseq_simps split: option.splits outcome.splits)
  then show "keeps I (list_progress l')"
    unfolding list_progress_def by (intro keep)
qed

lemma keeps_history [keep]: "keeps I (add_history q st i e)"
  unfolding add_history_def by (intro keep)

lemma keeps_search_parts [keep]:
  "keeps I (check_duplicate env' q)" "keeps I (fresh_search env' q results)"
  "keeps I (prepare_item env' q c)" "keeps I (apply_init q i init)"
  unfolding check_duplicate_def fresh_search_def prepare_item_def replace_existing_def
    create_download_def apply_init_def Let_def
  by (intro keep | cases init; simp del: qseq_simps; intro keep)+

lemma keeps_begin [keep]: "keeps I (begin_search q)"
  by (auto simp: keeps_def begin_search_def qop_simps I_events split: option.splits)

lemma keeps_finish [keep]: "keeps I (finish_search q r)"
proof -
  have "keeps I (search_done q i)" for i
    unfolding search_done_def by (intro keep)
  moreover have "keeps I (search_error q e)" for e
    unfolding search_error_def create_placeholder_def by (intro keep)
  ultimately show ?thesis
    by (auto simp: keeps_def finish_search_def split: outcome.splits)
qed

lemma keeps_announce [keep]:
  "keeps I (share_download env i)" "keeps I (announce_download i n cl)" "keeps I (announce_failure i)"
proof -
  show "keeps I (share_download env i)"
    unfolding keeps_def share_download_def
    by (auto split: option.splits prod.splits outcome.splits; metis I_share snd_conv)
  have "I (s\<lparr>events := events s @ es, metadata_jobs := js\<rparr>)" if "I s" for s es js
    using I_jobs [OF I_events [OF that, of es], of js] by simp
  then show "keeps I (announce_download i n cl)"
    by (auto simp: keeps_def announce_download_def split: option.splits)
  show "keeps I (announce_failure i)"
    by (auto simp: keeps_def announce_failure_def broadcast_def I_events split: option.splits)
qed

lemma keeps_completion [keep]: "keeps I (handle_transfer_completion env c)"
proof -
  have "keeps I (record_audio env i)" for i
    unfolding record_audio_def by (intro keep)
  then have "keeps I (transfer_succeeded env c q n)" for q n
    unfolding transfer_succeeded_def by (intro keep)
  moreover have "keeps I (retry_or_give_up c q e)" for q e
  proof -
    have "keeps I (qseq (qupd (mark_search_for_retry i e)) (broadcast ev))" for i ev
      by (intro keep)
    moreover have "keeps I (qseq (set_candidates i None) (qseq (qupd (delete_search i))
        (qseq (case q of Some q \<Rightarrow> add_history q ''failed'' j (Some e) | None \<Rightarrow> qret ()) (broadcast ev))))" for i ev j
      by (intro keep)
    ultimately show ?thesis
      unfolding keeps_def retry_or_give_up_def Let_def by (simp del: qseq_simps)
  qed
  then have "keeps I (transfer_failed c q e)" for q e
    unfolding transfer_failed_def by (intro keep)
  ultimately show ?thesis
    unfolding keeps_def handle_transfer_completion_def Let_def by (auto split: outcome.splits)
qed

lemma enqueue_tracks_keeps:
  "I s \<Longrightarrow> I (s\<lparr>qs_db := snd (enqueue_tracks user pos ts fmt l (qs_db s))\<rparr>)"
proof (induction ts arbitrary: pos s)
  case Nil
  then show ?case by simp
next
  case (Cons t ts)
  obtain query artist trck client where t: "t = (query, artist, trck, client)" by (cases t)
  let ?e = "db_enqueue_search user query artist trck fmt (Some l) (Some (as_i32 (int pos))) client (qs_db s)"
  have "I (s\<lparr>qs_db := snd ?e\<rparr>)" by (rule I_db [OF Cons.prems enqueue])
  with Cons.IH [OF this, of "Suc pos"] show ?case
    by (auto simp: t split: outcome.splits prod.splits)
qed

lemma keeps_requests [keep]:
  "keeps I (enqueue_search user query artist trck fmt client)" "keeps I (enqueue_list now user name ts fmt)"
  "keeps I (cancel_search i)" "keeps I (cancel_list l)" "keeps I recover_on_startup"
proof -
  show "keeps I (enqueue_search user query artist trck fmt client)"
    unfolding enqueue_search_def by (intro keep)
  have "keeps I (qtry (enqueue_searches_for_list user ts fmt l))" for l
    by (auto simp: keeps_def qtry_def enqueue_searches_for_list_def split: prod.splits)
      (metis enqueue_tracks_keeps snd_conv)
  then show "keeps I (enqueue_list now user name ts fmt)"
    unfolding enqueue_list_def Let_def by (intro keep)
  show "keeps I (cancel_search i)"
    by (auto simp: keeps_def cancel_search_def split: prod.splits) (metis I_db db_step.cancel snd_conv)
  show "keeps I (cancel_list l)"
    by (auto simp: keeps_def cancel_list_def split: prod.splits) (metis I_db db_step.cancel_list snd_conv)
  have "I (s\<lparr>qs_db := snd (mark_interrupted_downloads (snd (recover_processing_searches (qs_db s))))\<rparr>)"
    if "I s" for s
    using I_db [OF I_db [OF that db_step.recover], of "snd (mark_interrupted_downloads (snd (recover_processing_searches (qs_db s))))"]
    by (simp add: db_step.interrupted)
  then show "keeps I recover_on_startup"
    by (auto simp: keeps_def recover_on_startup_def split: prod.splits) (metis snd_conv)
qed

end

interpretation reach: service_invariant env "\<lambda>s. db_reachable (qs_db s)" for env
  by unfold_locales (auto intro: db_next)

definition few_candidates :: "queue_service \<Rightarrow> bool" where
  "few_candidates s \<longleftrightarrow> (\<forall>i cs. pending_candidates s i = Some cs \<longrightarrow> length cs \<le> 5)"

interpretation few: service_invariant env few_candidates for env
  by unfold_locales (fastforce simp: few_candidates_def)+

text \<open>The share index stays consistent while downloads are added to it.\<close>

interpretation shared: service_invariant env "\<lambda>s. share_ok (chars env) (zlib env) (sh_index (shares s))" for env
  by unfold_locales (auto intro: share_ok_add_file)

end
