(* ===== verification/Queue_System.thy ===== *)
theory Queue_System
  imports Queue
begin

text \<open>
  The tasks of \<open>src/src/services/queue.rs\<close> run together: the worker loop with its semaphore, one task
  per claimed search, the transfers the client has under way, the transfer monitor, and the requests
  of the users. A search task is cut at its two waits on the network (the search itself and the
  start of the download) and between the client's answer and its use; the parts in between are
  single steps, whose database statements other tasks could interleave as well.
\<close>

section \<open>The parts of a search task\<close>

datatype task =
    Claimed queued_search
  | Searching queued_search
  | Initiating queued_search item
  | Answered queued_search item download_init

fun task_search :: "task \<Rightarrow> queued_search" where
  "task_search (Claimed q) = q"
| "task_search (Searching q) = q"
| "task_search (Initiating q i) = q"
| "task_search (Answered q i r) = q"

text \<open>A part gives the next state of the task, or nothing when the task has ended.\<close>

definition end_task :: "queued_search \<Rightarrow> (item, rstring) outcome \<Rightarrow> queue_service \<Rightarrow> task option \<times> queue_service" where
  "end_task q r s = (None, snd (finish_search q r s))"

definition prepare_part ::
  "queue_env \<Rightarrow> queued_search \<Rightarrow> scored_file \<Rightarrow> queue_service \<Rightarrow> task option \<times> queue_service" where
  "prepare_part env q c s =
     (case prepare_item env q c s of
        (Ok (Inl i), s') \<Rightarrow> end_task q (Ok i) s'
      | (Ok (Inr i), s') \<Rightarrow> (Some (Initiating q i), s')
      | (Err e, s') \<Rightarrow> end_task q (Err e) s'
      | (Panic, s') \<Rightarrow> (None, s'))"

definition begin_part :: "queue_env \<Rightarrow> queued_search \<Rightarrow> queue_service \<Rightarrow> task option \<times> queue_service" where
  "begin_part env q s =
     (case begin_search q s of
        (Ok True, s1) \<Rightarrow>
          (case check_duplicate env q s1 of
             (Ok (Some i), s2) \<Rightarrow> end_task q (Ok i) s2
           | (Ok None, s2) \<Rightarrow>
               (case pop_candidate (q_id q) s2 of
                  (Ok (Some c), s3) \<Rightarrow> prepare_part env q c s3
                | (_, s3) \<Rightarrow> (Some (Searching q), s3))
           | (_, s2) \<Rightarrow> (None, s2))
      | (_, s1) \<Rightarrow> (None, s1))"

definition search_part ::
  "queue_env \<Rightarrow> queued_search \<Rightarrow> (search_result list, rstring) outcome \<Rightarrow> queue_service
   \<Rightarrow> task option \<times> queue_service" where
  "search_part env q results s =
     (case fresh_search env q results s of
        (Ok c, s') \<Rightarrow> prepare_part env q c s'
      | (Err e, s') \<Rightarrow> end_task q (Err e) s'
      | (Panic, s') \<Rightarrow> (None, s'))"

definition answer_part ::
  "queued_search \<Rightarrow> item \<Rightarrow> download_init \<Rightarrow> queue_service \<Rightarrow> task option \<times> queue_service" where
  "answer_part q i init s = (case apply_init q i init s of (r, s') \<Rightarrow> end_task q r s')"

text \<open>The parts one after the other, with nothing in between.\<close>

definition run_task ::
  "queue_env \<Rightarrow> queued_search \<Rightarrow> (search_result list, rstring) outcome \<Rightarrow> (item \<Rightarrow> download_init)
   \<Rightarrow> queue_service \<Rightarrow> queue_service" where
  "run_task env q results init s =
     (let (t, s) = begin_part env q s;
          (t, s) = (case t of Some (Searching q) \<Rightarrow> search_part env q results s | _ \<Rightarrow> (t, s));
          (t, s) = (case t of Some (Initiating q i) \<Rightarrow> answer_part q i (init i) s | _ \<Rightarrow> (t, s))
      in s)"

section \<open>The system\<close>

record system =
  svc :: queue_service
  tasks :: "task list"
  transfers :: "(int \<times> int \<times> int option \<times> rstring option) list"
  monitor_runs :: bool

definition put_task :: "task list \<Rightarrow> task option \<Rightarrow> task list \<Rightarrow> task list" where
  "put_task before t after = before @ (case t of None \<Rightarrow> [] | Some t \<Rightarrow> [t]) @ after"

definition transfer_of :: "queued_search \<Rightarrow> item \<Rightarrow> int \<times> int \<times> int option \<times> rstring option" where
  "transfer_of q i = (it_id i, q_id q, q_list_id q, q_client_id q)"

text \<open>Whether the client has a completion to send for this answer: always when a transfer was spawned,
  possibly when the download was queued, refused, or left without a file connection.\<close>

definition may_complete :: "download_init \<Rightarrow> bool \<Rightarrow> bool" where
  "may_complete init later = (case init of Transfer_Spawned _ _ \<Rightarrow> True | _ \<Rightarrow> later)"

inductive queue_step :: "queue_env \<Rightarrow> system \<Rightarrow> system \<Rightarrow> bool" for env where
  claim_task:
    "length (tasks y) < max_concurrent_searches env
     \<Longrightarrow> claim_next_pending_search (qs_db (svc y)) = (Some q, db)
     \<Longrightarrow> queue_step env y (y\<lparr>svc := (svc y)\<lparr>qs_db := db\<rparr>, tasks := tasks y @ [Claimed q]\<rparr>)"
| begin_task:
    "tasks y = before @ Claimed q # after \<Longrightarrow> begin_part env q (svc y) = (t, s)
     \<Longrightarrow> queue_step env y (y\<lparr>svc := s, tasks := put_task before t after\<rparr>)"
| search_task:
    "tasks y = before @ Searching q # after \<Longrightarrow> search_part env q results (svc y) = (t, s)
     \<Longrightarrow> results \<noteq> Panic
     \<Longrightarrow> queue_step env y (y\<lparr>svc := s, tasks := put_task before t after\<rparr>)"
| client_answers:
    "tasks y = before @ Initiating q i # after
     \<Longrightarrow> queue_step env y (y\<lparr>tasks := before @ Answered q i init # after,
           transfers := transfers y @ (if may_complete init later then [transfer_of q i] else [])\<rparr>)"
| answer_task:
    "tasks y = before @ Answered q i init # after \<Longrightarrow> answer_part q i init (svc y) = (t, s)
     \<Longrightarrow> queue_step env y (y\<lparr>svc := s, tasks := put_task before t after\<rparr>)"
| transfer_ends:
    "monitor_runs y \<Longrightarrow> transfers y = before @ (item_id, queue_id, list_id, client) # after
     \<Longrightarrow> c = \<lparr>tc_item_id = item_id, tc_queue_id = queue_id, tc_list_id = list_id, tc_list_position = pos,
               tc_result = r, tc_client_id = client\<rparr>
     \<Longrightarrow> r \<noteq> Panic \<Longrightarrow> handle_transfer_completion env c (svc y) = (res, s)
     \<Longrightarrow> queue_step env y (y\<lparr>svc := s, transfers := before @ after, monitor_runs := res \<noteq> Panic\<rparr>)"
| user_search:
    "queue_step env y (y\<lparr>svc := snd (enqueue_search user query artist trck fmt client (svc y))\<rparr>)"
| user_list:
    "queue_step env y (y\<lparr>svc := snd (enqueue_list now user name trcks fmt (svc y))\<rparr>)"
| user_cancels: "queue_step env y (y\<lparr>svc := snd (cancel_search qid (svc y))\<rparr>)"
| user_cancels_list: "queue_step env y (y\<lparr>svc := snd (cancel_list l (svc y))\<rparr>)"
| user_deletes_items: "queue_step env y (y\<lparr>svc := snd (qupd (delete_items ids) (svc y))\<rparr>)"
| user_deletes_lists: "queue_step env y (y\<lparr>svc := snd (qupd (delete_lists ids) (svc y))\<rparr>)"
| time_passes: "queue_step env y (y\<lparr>svc := snd (qupd (\<lambda>db. db\<lparr>clock := clock db + n\<rparr>) (svc y))\<rparr>)"

inductive_cases queue_stepE: "queue_step env y y'"

definition system_start :: "queue_service \<Rightarrow> system" where
  "system_start s = \<lparr>svc = s, tasks = [], transfers = [], monitor_runs = True\<rparr>"

inductive queue_reachable :: "queue_env \<Rightarrow> system \<Rightarrow> bool" for env where
  queue_start: "db_reachable db \<Longrightarrow> queue_reachable env (system_start (queue_new db
     (share_run (chars env) (zlib env) ops (sharing_new path en))))"
| queue_next: "queue_reachable env y \<Longrightarrow> queue_step env y y' \<Longrightarrow> queue_reachable env y'"

section \<open>The parts make up the whole\<close>

lemma end_task_simps [simp]: "fst (end_task q r s) = None" "snd (end_task q r s) = snd (finish_search q r s)"
  by (simp_all add: end_task_def)

lemma prepare_part_run:
  "(let (t, s) = prepare_part env q c s;
        (t, s) = (case t of Some (Initiating q i) \<Rightarrow> answer_part q i (init i) s | _ \<Rightarrow> (t, s)) in s)
   = (case (qbind (prepare_item env q c) (\<lambda>r. case r of Inl i \<Rightarrow> qret i | Inr i \<Rightarrow> apply_init q i (init i)) s)
      of (r, s') \<Rightarrow> snd (finish_search q r s'))"
  by (auto simp: prepare_part_def answer_part_def end_task_def finish_search_def qret_def Let_def
      split: prod.splits outcome.splits sum.splits)

lemma prepare_part_not_searching: "fst (prepare_part env q c s) \<noteq> Some (Searching q')"
  by (auto simp: prepare_part_def end_task_def split: prod.splits outcome.splits sum.splits)

lemma parts_succeed:
  "\<exists>go s'. begin_search q s = (Ok go, s')" "\<exists>d s'. check_duplicate env q s = (Ok d, s')"
  "\<exists>p s'. pop_candidate i s = (Ok p, s')"
  by (auto simp: begin_search_def check_duplicate_def pop_candidate_def broadcast_def qret_def qget_def
      split: option.splits list.splits)

text \<open>A search task whose parts run one after the other, with no other task in between, does
  what \<open>process_queued_search\<close> does: the parts cut the code and leave nothing out.\<close>

lemma run_task_is_process: "run_task env q results init s = snd (process_queued_search env q results init s)"
proof -
  obtain go s1 where b: "begin_search q s = (Ok go, s1)" using parts_succeed(1) by blast
  show ?thesis
  proof (cases go)
    case False
    with b show ?thesis
      by (simp add: run_task_def process_queued_search_def begin_part_def qret_def)
  next
    case True
    obtain d s2 where d: "check_duplicate env q s1 = (Ok d, s2)" using parts_succeed(2) by blast
    show ?thesis
    proof (cases d)
      case (Some i)
      with b d True show ?thesis
        by (simp add: run_task_def process_queued_search_def begin_part_def qret_def end_task_def
            execute_search_and_download_def select_file_def)
    next
      case None
      obtain p s3 where p: "pop_candidate (q_id q) s2 = (Ok p, s3)" using parts_succeed(3) by blast
      show ?thesis
      proof (cases p)
        case (Some c)
        have "run_task env q results init s = (let (t, s) = prepare_part env q c s3;
            (t, s) = (case t of Some (Initiating q i) \<Rightarrow> answer_part q i (init i) s | _ \<Rightarrow> (t, s)) in s)"
          using prepare_part_not_searching [of env q c s3]
          by (cases "prepare_part env q c s3")
            (auto simp: run_task_def begin_part_def b True d None p Some Let_def split: option.splits task.splits)
        also have "\<dots> = snd (process_queued_search env q results init s)"
          unfolding prepare_part_run
          by (simp add: process_queued_search_def b True d None p Some execute_search_and_download_def
              select_file_def qret_def split: prod.splits)
        finally show ?thesis .
      next
        case none: None
        obtain r s4 where f: "fresh_search env q results s3 = (r, s4)" by (cases "fresh_search env q results s3")
        show ?thesis
        proof (cases r)
          case (Ok c)
          have "run_task env q results init s = (let (t, s) = prepare_part env q c s4;
              (t, s) = (case t of Some (Initiating q i) \<Rightarrow> answer_part q i (init i) s | _ \<Rightarrow> (t, s)) in s)"
            by (simp add: run_task_def begin_part_def b True d None p none Let_def search_part_def f Ok)
          also have "\<dots> = snd (process_queued_search env q results init s)"
            unfolding prepare_part_run
            by (simp add: process_queued_search_def b True d None p none f Ok execute_search_and_download_def
                select_file_def qret_def split: prod.splits)
          finally show ?thesis .
        qed (simp_all add: run_task_def begin_part_def b True d None p none Let_def search_part_def f
            process_queued_search_def execute_search_and_download_def select_file_def finish_search_def end_task_def)
      qed
    qed
  qed
qed

section \<open>What every reachable state satisfies\<close>

text \<open>An invariant of the service's operations is an invariant of the system.\<close>

locale system_invariant = service_invariant +
  assumes I_start: "db_reachable db \<Longrightarrow> I (queue_new db (share_run (chars env) (zlib env) ops (sharing_new path en)))"
begin

lemma prepare_part_keeps:
  assumes "I s" shows "I (snd (prepare_part env' q c s))"
  using keepsD [OF keeps_search_parts(3) [of env' q c], OF assms] keepsD [OF keeps_finish]
  by (auto simp: prepare_part_def end_task_def split: prod.splits outcome.splits sum.splits)

lemma search_part_keeps:
  assumes "I s" shows "I (snd (search_part env' q results s))"
  using keepsD [OF keeps_search_parts(2) [of env' q results], OF assms] prepare_part_keeps keepsD [OF keeps_finish]
  by (auto simp: search_part_def end_task_def split: prod.splits outcome.splits)

lemma answer_part_keeps:
  assumes "I s" shows "I (snd (answer_part q i init s))"
  using keepsD [OF keeps_search_parts(4) [of q i init], OF assms] keepsD [OF keeps_finish]
  by (auto simp: answer_part_def end_task_def split: prod.splits)

lemma begin_part_keeps:
  assumes "I s" shows "I (snd (begin_part env' q s))"
proof -
  have pop: "keeps I (pop_candidate (q_id q))" by (intro keep)
  show ?thesis
    using keepsD [OF keeps_begin [of q], OF assms] keepsD [OF keeps_search_parts(1) [of env' q]]
      keepsD [OF pop] prepare_part_keeps keepsD [OF keeps_finish]
    by (auto simp: begin_part_def end_task_def split: prod.splits outcome.splits option.splits bool.splits)
      (metis snd_conv)+
qed

lemma step_keeps:
  assumes "queue_step env y y'" and "I (svc y)"
  shows "I (svc y')"
proof -
  have upd: "keeps I (qupd (delete_items ids))" "keeps I (qupd (delete_lists ids))"
    "keeps I (qupd (\<lambda>db. db\<lparr>clock := clock db + n\<rparr>))" for ids n
    by (intro keep)+
  note s = assms(2)
  show ?thesis
    using assms(1)
  proof (cases rule: queue_step.cases)
    case (claim_task q db)
    then show ?thesis using I_db [OF s db_step.claim] by simp
  next
    case (begin_task before q after t s)
    then show ?thesis using begin_part_keeps [OF assms(2), of env q] by simp
  next
    case (search_task before q after results t s)
    then show ?thesis using search_part_keeps [OF assms(2), of env q results] by simp
  next
    case (client_answers before q i after init later)
    then show ?thesis using s by simp
  next
    case (answer_task before q i init after t s)
    then show ?thesis using answer_part_keeps [OF assms(2), of q i init] by simp
  next
    case (transfer_ends before item_id queue_id list_id client after c pos r res s)
    then show ?thesis using keepsD [OF keeps_completion [of c], OF assms(2)] by simp
  next
    case (user_search user query artist trck fmt client)
    then show ?thesis using keepsD [OF keeps_requests(1), OF s] by simp
  next
    case (user_list now user name trcks fmt)
    then show ?thesis using keepsD [OF keeps_requests(2), OF s] by simp
  next
    case (user_cancels qid)
    then show ?thesis using keepsD [OF keeps_requests(3), OF s] by simp
  next
    case (user_cancels_list l)
    then show ?thesis using keepsD [OF keeps_requests(4), OF s] by simp
  next
    case (user_deletes_items ids)
    then show ?thesis using keepsD [OF upd(1), OF s] by simp
  next
    case (user_deletes_lists ids)
    then show ?thesis using keepsD [OF upd(2), OF s] by simp
  next
    case (time_passes n)
    then show ?thesis using keepsD [OF upd(3), OF s] by simp
  qed
qed

lemma reachable_keeps: "queue_reachable env y \<Longrightarrow> I (svc y)"
  by (induction rule: queue_reachable.induct) (auto simp: system_start_def I_start step_keeps)

end

interpretation sys_reach: system_invariant env "\<lambda>s. db_reachable (qs_db s)" for env
  by unfold_locales (simp add: queue_new_def)

interpretation sys_few: system_invariant env few_candidates for env
  by unfold_locales (simp add: queue_new_def few_candidates_def)

interpretation sys_shared: system_invariant env "\<lambda>s. share_ok (chars env) (zlib env) (sh_index (shares s))" for env
  by unfold_locales (auto simp: queue_new_def sharing_new_def share_ok_new intro!: share_ok_run)

end
