(* ===== verification/Queue_Properties.thy ===== *)
theory Queue_Properties
  imports Queue_System
begin

text \<open>What the queue service of \<open>src/src/services/queue.rs\<close> guarantees, and where it does not.\<close>

section \<open>What does not touch the search queue\<close>

lemma queue_same [simp]:
  "db_queue (snd (create_item fn oq ar tr path sz br dur ext src db)) = db_queue db"
  "db_queue (snd (add_item_to_list l i pos db)) = db_queue db"
  "db_queue (snd (insert_search_history user query ar tr fmt st io err db)) = db_queue db"
  "db_queue (update_item_status i st pr err db) = db_queue db"
  "db_queue (update_item_audio_properties i rate depth db) = db_queue db"
  "db_queue (update_list_status l st' c f db) = db_queue db"
  by (simp_all add: create_item_def add_item_to_list_def insert_search_history_def update_item_status_def
      update_item_audio_properties_def update_list_status_def Let_def)

lemma keeps_queue_upd: "(\<And>db. db_queue (f db) = db_queue db) \<Longrightarrow> keeps (\<lambda>s. P (db_queue (qs_db s))) (qupd f)"
  by (simp add: keeps_def qupd_def)

lemma keeps_queue_try: "(\<And>db. db_queue (snd (f db)) = db_queue db) \<Longrightarrow> keeps (\<lambda>s. P (db_queue (qs_db s))) (qtry f)"
  by (auto simp: keeps_def qtry_def split: prod.splits) (metis snd_conv)

lemma keeps_queue [keep]:
  "keeps (\<lambda>s. P (db_queue (qs_db s))) (broadcast ev)"
  "keeps (\<lambda>s. P (db_queue (qs_db s))) (qupd (update_item_status i st pr err))"
  "keeps (\<lambda>s. P (db_queue (qs_db s))) (qtry (add_item_to_list l i pos))"
  "keeps (\<lambda>s. P (db_queue (qs_db s))) (qtry (create_item fn oq ar tr path sz br dur ext src))"
  "keeps (\<lambda>s. P (db_queue (qs_db s))) (qtry (insert_search_history user query ar tr fmt st io err))"
proof -
  show "keeps (\<lambda>s. P (db_queue (qs_db s))) (broadcast ev)" by (simp add: keeps_def broadcast_def)
  show "keeps (\<lambda>s. P (db_queue (qs_db s))) (qupd (update_item_status i st pr err))"
    by (rule keeps_queue_upd) simp
  show "keeps (\<lambda>s. P (db_queue (qs_db s))) (qtry (add_item_to_list l i pos))"
    "keeps (\<lambda>s. P (db_queue (qs_db s))) (qtry (create_item fn oq ar tr path sz br dur ext src))"
    "keeps (\<lambda>s. P (db_queue (qs_db s))) (qtry (insert_search_history user query ar tr fmt st io err))"
    by (rule keeps_queue_try; simp)+
qed

lemma keeps_queue_progress [keep]: "keeps (\<lambda>s. P (db_queue (qs_db s))) (update_list_progress l)"
proof -
  have "keeps (\<lambda>s. P (db_queue (qs_db s))) (qseq (qupd (update_list_status l st c f)) (broadcast ev))" for l st c f ev
    by (intro keep keeps_queue_upd) simp
  then show ?thesis
    unfolding keeps_def update_list_progress_def Let_def
    by (auto simp del: qseq_simps split: option.splits outcome.splits)
qed

lemma keeps_queue_history [keep]: "keeps (\<lambda>s. P (db_queue (qs_db s))) (add_history q st i e)"
  unfolding add_history_def by (intro keep)

lemma keeps_queue_option [keep]:
  "(\<And>x. keeps I (f x)) \<Longrightarrow> keeps I (case o' of None \<Rightarrow> qret () | Some x \<Rightarrow> f x)"
  by (intro keep)

section \<open>A search that ends is not left in progress\<close>

lemma get_queued_delete [simp]: "get_queued_search i (delete_search i db) = None"
  by (simp add: get_queued_search_def delete_search_def db_simps)

lemma qseq_upd: "qseq (qupd f) p s = p (s\<lparr>qs_db := f (qs_db s)\<rparr>)"
  by (simp add: qupd_def)

definition in_progress :: "int \<Rightarrow> queued_search list \<Rightarrow> bool" where
  "in_progress i rows \<longleftrightarrow> (\<exists>r. find_row q_id i rows = Some r \<and> q_status r = ''processing'')"

lemma in_progress_marked:
  "\<not> in_progress i (db_queue (mark_search_for_retry i e db))"
  "\<not> in_progress i (db_queue (delete_search i db))"
  by (auto simp: in_progress_def mark_search_for_retry_def set_search_def delete_search_def db_simps
      find_update_row)

lemma search_error_released: "\<not> in_progress (q_id q) (db_queue (qs_db (snd (search_error q e s))))"
proof -
  let ?P = "\<lambda>rows. \<not> in_progress (q_id q) rows"
  have "keeps (\<lambda>s. ?P (db_queue (qs_db s))) (qseq (case q_list_id q of Some l \<Rightarrow> update_list_progress l | None \<Rightarrow> qret ())
      (broadcast ev))" for ev
    by (intro keep)
  moreover have "keeps (\<lambda>s. ?P (db_queue (qs_db s))) (qseq (add_history q ''failed'' None (Some e))
        (qseq (case q_list_id q of
                 Some l \<Rightarrow> qseq (create_placeholder q l e) (update_list_progress l)
               | None \<Rightarrow> qret ()) (broadcast ev)))" for ev
    unfolding create_placeholder_def by (intro keep)
  ultimately show ?thesis
    unfolding search_error_def using in_progress_marked
    by (simp only: qseq_upd if_distrib keepsD split: if_split)
      (simp add: keeps_def in_progress_marked del: qseq_simps)
qed

lemma in_progress_Cons [simp]:
  "\<not> in_progress i []"
  "in_progress i (r # rows) \<longleftrightarrow> (if q_id r = i then q_status r = ''processing'' else in_progress i rows)"
  by (simp_all add: in_progress_def find_row_def)

lemma in_progress_present: "in_progress i rows \<Longrightarrow> i \<in> q_id ` set rows"
  by (induction rows) (auto split: if_splits)

lemma in_progress_delete_completed:
  "distinct (map q_id rows) \<Longrightarrow>
   in_progress i (delete_where (\<lambda>q. q_id q = i \<and> q_status q = ''completed'') rows) = in_progress i rows"
  by (induction rows) (auto simp: delete_where_def dest!: in_progress_present)

lemma in_progress_mark:
  assumes "db_fk db"
  shows "in_progress i (db_queue (snd (mark_search_completed i item db))) \<longleftrightarrow>
    in_progress i (db_queue db) \<and> \<not> has_item db item"
  using assms
  by (auto simp: mark_search_completed_def in_progress_def get_queued_search_def set_search_def find_update_row)

lemma search_done_released:
  assumes "db_reachable (qs_db s)" and "it_status item \<in> {''completed'', ''downloading'', ''queued''}"
  shows "in_progress (q_id q) (db_queue (qs_db (snd (search_done q item s)))) \<longleftrightarrow>
    in_progress (q_id q) (db_queue (qs_db s)) \<and> \<not> has_item (qs_db s) (it_id item)"
proof -
  let ?m = "snd (mark_search_completed (q_id q) (it_id item) (qs_db s))"
  define b where "b = in_progress (q_id q) (db_queue ?m)"
  let ?P = "\<lambda>rows. distinct (map q_id rows) \<and> in_progress (q_id q) rows = b"
  let ?rest = "qseq (case (q_list_id q, q_list_position q) of
                 (Some l, Some pos) \<Rightarrow>
                   qseq (qlog (qtry (add_item_to_list l (it_id item) pos))) (update_list_progress l)
               | _ \<Rightarrow> qret ())
        (qseq (qupd (delete_completed_search (q_id q)))
          (add_history q ''completed'' (Some (it_id item)) None))"
  have mark: "snd (qlog (qtry (mark_search_completed (q_id q) (it_id item))) s) = s\<lparr>qs_db := ?m\<rparr>"
    "fst (qlog (qtry (mark_search_completed (q_id q) (it_id item))) s) = Ok ()"
    by (auto simp: qlog_def qtry_def mark_search_completed_def)
  have del: "keeps (\<lambda>s. ?P (db_queue (qs_db s))) (qupd (delete_completed_search (q_id q)))"
    by (auto simp: keeps_def qupd_def delete_completed_search_def in_progress_delete_completed distinct_map_delete)
  have "keeps (\<lambda>s. ?P (db_queue (qs_db s))) ?rest"
    by (intro keep del)
  moreover have "distinct (map q_id (db_queue ?m))"
    using db_reachable_ok [OF db_next [OF assms(1) mark_completed]] by (simp add: tables_ok_def table_ok_def)
  ultimately have rest: "in_progress (q_id q) (db_queue (qs_db (snd (?rest (s\<lparr>qs_db := ?m\<rparr>))))) = b"
    by (simp add: keeps_def b_def del: qseq_simps)
  have "qlog (qtry (mark_search_completed (q_id q) (it_id item))) s = (Ok (), s\<lparr>qs_db := ?m\<rparr>)"
    using mark by (metis prod.collapse)
  then have "in_progress (q_id q) (db_queue (qs_db (snd (search_done q item s)))) = b"
    using assms(2) rest by (auto simp: search_done_def b_def)
  with in_progress_mark [of "qs_db s" "q_id q" "it_id item"] db_reachable_ok [OF assms(1)] show ?thesis
    by (simp add: b_def)
qed

text \<open>When a search task ends, its row is no longer 'processing' - it is deleted, waits for its retry,
  or is marked completed - with one exception: if the item the task found or created has meanwhile been
  deleted, the foreign key makes the update fail, the error is only logged, and the row stays
  'processing' with no task behind it.\<close>

lemma search_released:
  assumes "db_reachable (qs_db s)" and "r \<noteq> Panic"
    and "\<And>item. r = Ok item \<Longrightarrow> it_status item \<in> {''completed'', ''downloading'', ''queued''}"
  shows "in_progress (q_id q) (db_queue (qs_db (snd (finish_search q r s)))) \<longleftrightarrow>
    in_progress (q_id q) (db_queue (qs_db s)) \<and> (\<exists>item. r = Ok item \<and> \<not> has_item (qs_db s) (it_id item))"
  using assms search_done_released [OF assms(1)] search_error_released
  by (cases r) (simp_all add: finish_search_def)

definition claimed_db :: database where "claimed_db = snd (claim_next_pending_search sample_db)"

definition sample_service :: queue_service where
  "sample_service = queue_new claimed_db (sharing_new (str ''storage'') False)"

definition sample_search :: queued_search where
  "sample_search = \<lparr>q_id = 1, q_user_id = 1, q_query = str ''abba'', q_format = None, q_list_id = None,
     q_list_position = None, q_status = ''processing'', q_item_id = None, q_error_message = None,
     q_created_at = 7, q_started_at = None, q_completed_at = None, q_retry_count = 0, q_client_id = None,
     q_original_artist = None, q_original_track = None\<rparr>"

definition sample_candidate :: scored_file where
  "sample_candidate = \<lparr>sc_username = str ''other'', sc_filename = str ''m'' @ [92] @ str ''a.mp3'', sc_size = 5,
     sc_bitrate = None, sc_score = 100, sc_slot_free = True, sc_avg_speed = 0, sc_queue_length = 0,
     sc_peer_ip = [], sc_peer_port = 0\<rparr>"

definition sample_env :: queue_env where
  "sample_env = \<lparr>chars = ascii_tables, zlib = (\<lambda>b. b), fs = sample_fs, uppercase = map ascii_upper,
     fuzzy_match = (\<lambda>a b. None), storage_dir = str ''storage'', max_concurrent_searches = 8\<rparr>"

lemma claimed_db_reachable: "db_reachable claimed_db"
  unfolding claimed_db_def by (rule db_next [OF sample_db_reachable claim])

lemma search_released_witness:
  "\<not> in_progress 1 (db_queue (qs_db (snd (finish_search sample_search (Err (str ''no route'')) sample_service))))"
  using search_released [of sample_service "Err (str ''no route'')" sample_search] claimed_db_reachable
  by (simp add: sample_service_def queue_new_def sample_search_def)

section \<open>The progress of a list\<close>

lemma count_done:
  "count_where (\<lambda>i. it_status i = ''completed'') rows + count_where (\<lambda>i. it_status i = ''failed'') rows
     \<le> int (length rows)"
  by (induction rows) auto

lemma count_all_done:
  "int (length rows) = count_where (\<lambda>i. it_status i = ''completed'') rows + count_where (\<lambda>i. it_status i = ''failed'') rows
    \<longleftrightarrow> (\<forall>i\<in>set rows. it_status i = ''completed'' \<or> it_status i = ''failed'')"
proof (induction rows)
  case (Cons r rows)
  then show ?case using count_done [of rows] by auto
qed simp

text \<open>What the status of a list is meant to say.\<close>

definition list_finished :: "int \<Rightarrow> database \<Rightarrow> bool" where
  "list_finished l db \<longleftrightarrow>
     (\<forall>i\<in>set (live_items l db). it_status i = ''completed'' \<or> it_status i = ''failed'')
     \<and> (\<forall>q\<in>set (db_queue db). q_list_id q = Some l \<longrightarrow> \<not> waiting q \<and> q_status q \<noteq> ''processing'')"

definition expected_status :: "int \<Rightarrow> database \<Rightarrow> string" where
  "expected_status l db =
     (if \<not> list_finished l db then ''downloading''
      else if live_items l db = [] then ''pending''
      else if \<forall>i\<in>set (live_items l db). it_status i = ''completed'' then ''completed''
      else if \<forall>i\<in>set (live_items l db). it_status i = ''failed'' then ''failed''
      else ''partial'')"

definition items_with :: "string \<Rightarrow> int \<Rightarrow> database \<Rightarrow> int" where
  "items_with st l db = count_where (\<lambda>i. it_status i = st) (live_items l db)"

lemma list_status_expected:
  "list_status (items_with ''completed'' l db) (items_with ''failed'' l db)
      (int (length (live_items l db)) - items_with ''completed'' l db - items_with ''failed'' l db)
      (count_pending_searches_for_list l db) = expected_status l db"
proof -
  let ?items = "live_items l db"
  have w: "count_pending_searches_for_list l db = 0 \<longleftrightarrow>
      (\<forall>q\<in>set (db_queue db). q_list_id q = Some l \<longrightarrow> \<not> waiting q \<and> q_status q \<noteq> ''processing'')"
    by (auto simp: count_pending_searches_for_list_def count_where_zero)
  have u: "int (length ?items) - items_with ''completed'' l db - items_with ''failed'' l db = 0
      \<longleftrightarrow> (\<forall>i\<in>set ?items. it_status i = ''completed'' \<or> it_status i = ''failed'')"
    using count_all_done [of ?items] by (auto simp: items_with_def)
  have z: "items_with st l db = 0 \<longleftrightarrow> (\<forall>i\<in>set ?items. it_status i \<noteq> st)" for st
    by (simp add: items_with_def count_where_zero)
  show ?thesis
  proof (cases "list_finished l db")
    case True
    then have fin: "\<forall>i\<in>set ?items. it_status i = ''completed'' \<or> it_status i = ''failed''"
      "count_pending_searches_for_list l db = 0" using w by (auto simp: list_finished_def)
    then have "(\<forall>i\<in>set ?items. it_status i = ''completed'') \<longleftrightarrow> items_with ''failed'' l db = 0"
      "(\<forall>i\<in>set ?items. it_status i = ''failed'') \<longleftrightarrow> items_with ''completed'' l db = 0"
      unfolding z by force+
    moreover have "items_with ''completed'' l db = 0 \<and> items_with ''failed'' l db = 0 \<longleftrightarrow> ?items = []"
      using fin(1) unfolding z by (cases ?items) auto
    ultimately show ?thesis using True fin u by (auto simp: expected_status_def list_status_def)
  next
    case False
    then have "\<not> (count_pending_searches_for_list l db = 0 \<and>
        int (length ?items) - items_with ''completed'' l db - items_with ''failed'' l db = 0)"
      unfolding w u by (auto simp: list_finished_def)
    with False show ?thesis by (auto simp: expected_status_def list_status_def)
  qed
qed

text \<open>One run of the update, in terms of the specification.\<close>

lemma progress_run:
  assumes "get_list l (qs_db s) = Some row" and "length (live_items l (qs_db s)) < 2147483648"
  shows "update_list_progress l s =
    (let db = qs_db s; st = expected_status l db; c = items_with ''completed'' l db; f = items_with ''failed'' l db in
     (Ok (), s\<lparr>qs_db := update_list_status l st c f db,
        events := events s @ [ListProgress l c f (max (ls_total_items row) (int (length (live_items l db)))) st]\<rparr>))"
proof -
  let ?db = "qs_db s"
  have "items_with ''completed'' l ?db + items_with ''failed'' l ?db \<le> int (length (live_items l ?db))"
    "0 \<le> items_with ''completed'' l ?db" "0 \<le> items_with ''failed'' l ?db"
    by (simp_all add: items_with_def count_done)
  then have "count_list_items_by_status l ?db
      = Ok (items_with ''completed'' l ?db, items_with ''failed'' l ?db, int (length (live_items l ?db)))"
    using assms(2) by (simp add: count_list_items_by_status_def Let_def flip: items_with_def)
  then show ?thesis
    using assms(1) list_status_expected
    by (simp add: update_list_progress_def qupd_def broadcast_def Let_def)
qed

text \<open>C5: the progress of a list that exists and has fewer than two to the 31 items that are not deleted: the
  counts stored and broadcast are the numbers of its completed and failed items, and the status is 'downloading'
  exactly while an item is unfinished or a search of the list waits or runs, else 'pending' if it has no item,
  'completed' if every item completed, 'failed' if every item failed and 'partial' if there are both; nothing
  else of the service changes.\<close>

theorem list_progress_correct:
  assumes "get_list l (qs_db s) = Some row" and "length (live_items l (qs_db s)) < 2147483648"
  shows "update_list_progress l s =
    (let db = qs_db s; st = expected_status l db; c = items_with ''completed'' l db; f = items_with ''failed'' l db in
     (Ok (), s\<lparr>qs_db := update_list_status l st c f db,
        events := events s @ [ListProgress l c f (max (ls_total_items row) (int (length (live_items l db)))) st]\<rparr>))"
  using assms by (rule progress_run)

definition list_db :: database where
  "list_db =
     (let db = snd (create_list (str ''mix'') 1 1 (empty_db [(1, str ''u'')] 7));
          db = snd (create_item (str ''a.mp3'') (str ''a'') None None (str ''storage/a.mp3'') 9 None None
                      (str ''mp3'') (str ''peer'') db);
          db = update_item_status 1 ''downloading'' 0 None db
      in snd (add_item_to_list 1 1 0 db))"

definition list_service :: queue_service where
  "list_service = queue_new list_db (sharing_new (str ''storage'') False)"

lemma list_db_reachable: "db_reachable list_db"
  unfolding list_db_def Let_def
  by (intro db_next [OF _ list_add] db_next [OF _ item_status] db_next [OF _ create_item]
      db_next [OF _ db_step.create_list] db_start)

lemma list_db_facts:
  "map it_status (live_items 1 list_db) = [''downloading'']" "map it_id (db_items list_db) = [1]"
  "get_list 1 list_db = Some \<lparr>ls_id = 1, ls_name = str ''mix'', ls_user_id = 1, ls_status = ''pending'',
     ls_total_items = 1, ls_completed_items = 0, ls_failed_items = 0, ls_created_at = 7, ls_completed_at = None\<rparr>"
  "db_queue list_db = []"
  by (simp_all add: list_db_def live_items_def joined_def create_list_def create_item_def has_list_def has_user_def
      has_item_def add_item_to_list_def update_item_status_def set_item_def empty_db_def update_row_def Let_def
      get_list_def find_row_def)

theorem list_progress_correct_witness:
  "\<exists>s'. update_list_progress 1 list_service = (Ok (), s')
    \<and> last (events s') = ListProgress 1 0 0 1 ''downloading''"
proof -
  have one: "length (live_items 1 list_db) = 1" using list_db_facts(1) by (cases "live_items 1 list_db") auto
  then obtain i where i: "live_items 1 list_db = [i]" by (auto simp: length_Suc_conv)
  with list_db_facts(1) have st: "it_status i = ''downloading''" by simp
  from i st have "expected_status 1 list_db = ''downloading''" "items_with ''completed'' 1 list_db = 0"
    "items_with ''failed'' 1 list_db = 0"
    by (simp_all add: expected_status_def list_finished_def items_with_def)
  then show ?thesis
    using list_progress_correct [of 1 list_service] i one list_db_facts(3)
    by (simp add: list_service_def queue_new_def Let_def)
qed

section \<open>A transfer that ends\<close>

text \<open>The part of the state that the progress of a list does not touch.\<close>

definition core :: "queue_service \<Rightarrow> item list \<times> queued_search list \<times> history_row list \<times> (int \<Rightarrow> scored_file list option)" where
  "core s = (db_items (qs_db s), db_queue (qs_db s), db_history (qs_db s), pending_candidates s)"

lemma core_progress: "core (snd (update_list_progress l s)) = core s" "core (snd (list_progress l' s)) = core s"
proof -
  show "core (snd (update_list_progress l s)) = core s" for l
    by (auto simp: core_def update_list_progress_def qupd_def broadcast_def update_list_status_def Let_def
        split: option.splits outcome.splits)
  then show "core (snd (list_progress l' s)) = core s"
    by (simp add: list_progress_def qret_def split: option.splits)
qed

lemma progress_appends: "\<exists>es. events (snd (list_progress l s)) = events s @ es"
proof -
  have "\<exists>es. events (snd (update_list_progress k s)) = events s @ es" for k
    by (auto simp: update_list_progress_def qupd_def broadcast_def Let_def split: option.splits outcome.splits)
  then show ?thesis by (cases l) (simp_all add: list_progress_def qret_def)
qed

lemma progress_returns: "fst (list_progress l s) = Ok ()"
  by (auto simp: list_progress_def qret_def update_list_progress_def count_list_items_by_status_def qupd_def
      broadcast_def Let_def split: option.splits)

lemma set_item_id: "set_item i (\<lambda>r. r) db = db"
  by (simp add: set_item_def update_row_def)

definition same_item :: "(item \<Rightarrow> item) \<Rightarrow> bool" where
  "same_item f \<longleftrightarrow> (\<exists>rate depth. f = (\<lambda>r. r\<lparr>it_sample_rate := rate, it_bit_depth := depth\<rparr>)) \<or> f = (\<lambda>r. r)"

lemma record_audio_result:
  "\<exists>f. same_item f \<and> record_audio env i s = (Ok (), s\<lparr>qs_db := set_item i f (qs_db s)\<rparr>)"
proof -
  have "record_audio env i s = (Ok (), s\<lparr>qs_db := set_item i (\<lambda>r. r) (qs_db s)\<rparr>)
      \<or> (\<exists>rate depth. record_audio env i s
          = (Ok (), s\<lparr>qs_db := set_item i (\<lambda>r. r\<lparr>it_sample_rate := rate, it_bit_depth := depth\<rparr>) (qs_db s)\<rparr>))"
    by (auto simp: record_audio_def qop_simps set_item_id update_item_audio_properties_def split: option.splits)
  then show ?thesis unfolding same_item_def by blast
qed

lemma share_download_result: "\<exists>sh. share_download env i s = (Ok (), s\<lparr>shares := sh\<rparr>)"
proof -
  have "fst (add_file u z f p svc) \<noteq> Panic" for u z f p svc
    by (auto simp: add_file_def scan_single_file_def Let_def split: outcome.splits option.splits prod.splits if_splits)
  then have "add_file u z f p svc \<noteq> (Panic, svc')" for u z f p svc svc' by (metis fst_conv)
  moreover have "\<exists>sh. s = s\<lparr>shares := sh\<rparr>" by (rule exI [of _ "shares s"]) simp
  ultimately show ?thesis
    by (auto simp: share_download_def split: option.splits prod.splits outcome.splits)
qed

lemma add_history_result:
  assumes "has_user (qs_db s) (q_user_id q)" and "opt_ref (has_item (qs_db s)) i"
  shows "\<exists>h. add_history q st i e s = (Ok (), s\<lparr>qs_db := (qs_db s)\<lparr>db_history := db_history (qs_db s) @ [h],
       seq_history := seq_history (qs_db s) + 1\<rparr>\<rparr>)
     \<and> h_status h = st \<and> h_item_id h = i \<and> h_error_message h = e \<and> h_query h = q_query q \<and> h_user_id h = q_user_id q"
  using assms by (auto simp: add_history_def qlog_def qtry_def insert_search_history_def Let_def)

lemma add_history_ok: "\<exists>s'. add_history q st i e s = (Ok (), s')"
proof -
  let ?h = "insert_search_history (q_user_id q) (q_query q) (q_original_artist q) (q_original_track q) (q_format q) st i e (qs_db s)"
  have "fst ?h \<noteq> Panic" unfolding insert_search_history_def Let_def by auto
  then show ?thesis
    by (cases ?h) (auto simp: add_history_def qlog_def qtry_def split: outcome.splits)
qed

lemma get_item_set:
  "\<forall>r. it_id (f r) = it_id r \<Longrightarrow>
   get_item i (set_item j f db) = (if i = j then map_option f (get_item i db) else get_item i db)"
  by (simp add: get_item_def items.get_put)

lemma get_item_has: "get_item i db = Some it \<Longrightarrow> has_item db i \<and> it_id it = i"
  by (auto simp: get_item_def has_item_def dest: find_row_Some)

text \<open>The state from which the progress of the list is computed: the item is done, whatever was read from its file
  and shared, the entry and the candidates are gone, and the history has one row more.\<close>

lemma transfer_success_state:
  assumes "db_reachable (qs_db s)" and "tc_result c = Ok n" and "get_item (tc_item_id c) (qs_db s) = Some it"
    and "get_queued_search (tc_queue_id c) (qs_db s) = Some q"
    and "db2 = set_item (tc_item_id c) (\<lambda>r. r\<lparr>it_status := ''completed'', it_progress := 1, it_error_message := None,
        it_completed_at := Some (clock (qs_db s))\<rparr>) (qs_db s)"
  shows "\<exists>f h s1. same_item f \<and> h_status h = ''completed'' \<and> h_item_id h = Some (tc_item_id c)
    \<and> h_query h = q_query q \<and> h_user_id h = q_user_id q
    \<and> handle_transfer_completion env c s = list_progress (tc_list_id c) s1
    \<and> db_items (qs_db s1) = db_items (set_item (tc_item_id c) f db2)
    \<and> db_queue (qs_db s1) = db_queue (delete_search (tc_queue_id c) (qs_db s))
    \<and> db_history (qs_db s1) = db_history (qs_db s) @ [h] \<and> pending_candidates s1 (tc_queue_id c) = None
    \<and> events s1 = events s @ [DownloadCompleted (tc_item_id c) (it_filename it) n (tc_client_id c),
        ItemUpdated (tc_item_id c) (it_filename it) ''completed'' 1]"
proof -
  let ?i = "tc_item_id c" and ?k = "tc_queue_id c"
  obtain f where f: "same_item f"
      "record_audio env ?i (s\<lparr>qs_db := db2\<rparr>) = (Ok (), s\<lparr>qs_db := set_item ?i f db2\<rparr>)"
    using record_audio_result [of env ?i "s\<lparr>qs_db := db2\<rparr>"] by auto
  let ?db2 = "set_item ?i f db2"
  obtain sh where sh: "share_download env ?i (s\<lparr>qs_db := ?db2\<rparr>) = (Ok (), s\<lparr>qs_db := ?db2, shares := sh\<rparr>)"
    using share_download_result [of env ?i "s\<lparr>qs_db := ?db2\<rparr>"] by auto
  have item: "\<exists>it'. get_item ?i ?db2 = Some it' \<and> it_filename it' = it_filename it"
    using assms(3,5) f(1) by (auto simp: get_item_set same_item_def)
  let ?es = "events s @ [DownloadCompleted ?i (it_filename it) n (tc_client_id c),
    ItemUpdated ?i (it_filename it) ''completed'' 1]"
  from item obtain js where an: "announce_download ?i n (tc_client_id c) (s\<lparr>qs_db := ?db2, shares := sh\<rparr>)
      = (Ok (), s\<lparr>qs_db := ?db2, shares := sh, events := ?es, metadata_jobs := js\<rparr>)"
    by (auto simp: announce_download_def)
  let ?db3 = "delete_search ?k ?db2"
  let ?s3 = "s\<lparr>shares := sh, events := ?es, metadata_jobs := js, qs_db := ?db3,
      pending_candidates := (pending_candidates s)(?k := None)\<rparr>"
  have "has_user (qs_db s) (q_user_id q)"
    using db_reachable_ok [OF assms(1)] assms(4)
    by (auto simp: refs_ok_def get_queued_search_def dest!: find_row_Some)
  then have "has_user ?db3 (q_user_id q)" by (simp add: delete_search_def has_user_def assms(5))
  moreover have "has_item ?db3 ?i"
    using item get_item_has by (fastforce simp: delete_search_def has_item_def)
  ultimately obtain h where h: "add_history q ''completed'' (Some ?i) None ?s3
      = (Ok (), ?s3\<lparr>qs_db := ?db3\<lparr>db_history := db_history (qs_db s) @ [h], seq_history := seq_history ?db3 + 1\<rparr>\<rparr>)"
      "h_status h = ''completed''" "h_item_id h = Some ?i" "h_query h = q_query q" "h_user_id h = q_user_id q"
    using add_history_result [of ?s3 q "Some ?i" "''completed''" None] by (auto simp: delete_search_def assms(5))
  let ?s4 = "?s3\<lparr>qs_db := ?db3\<lparr>db_history := db_history (qs_db s) @ [h], seq_history := seq_history ?db3 + 1\<rparr>\<rparr>"
  have "handle_transfer_completion env c s = list_progress (tc_list_id c) ?s4"
    using assms(2,4,5) f(2) sh an h(1)
    by (simp add: handle_transfer_completion_def transfer_succeeded_def qupd_def update_item_status_def
        set_candidates_def)
  with f(1) h(2-5) show ?thesis
    by (intro exI [of _ f] exI [of _ h] exI [of _ ?s4]) (simp add: delete_search_def assms(5))
qed

text \<open>C4: a transfer that succeeded: its item is 'completed' with full progress and no error, its queue
  entry and its cached candidates are gone, the history has one more entry, 'completed', with the
  query, the user and the item, and the download was announced: with the name of the item, the bytes that
  came and the client that asked, followed by the update of the item.\<close>

theorem transfer_success_outcome:
  assumes "db_reachable (qs_db s)" and "tc_result c = Ok n"
    and "get_item (tc_item_id c) (qs_db s) = Some it"
    and "get_queued_search (tc_queue_id c) (qs_db s) = Some q"
    and "handle_transfer_completion env c s = (res, s')"
  shows "(\<exists>it'. get_item (tc_item_id c) (qs_db s') = Some it' \<and> it_status it' = ''completed''
        \<and> it_progress it' = 1 \<and> it_error_message it' = None \<and> it_file_path it' = it_file_path it)
    \<and> get_queued_search (tc_queue_id c) (qs_db s') = None \<and> pending_candidates s' (tc_queue_id c) = None
    \<and> (\<exists>h. db_history (qs_db s') = db_history (qs_db s) @ [h] \<and> h_status h = ''completed''
        \<and> h_query h = q_query q \<and> h_user_id h = q_user_id q \<and> h_item_id h = Some (tc_item_id c))
    \<and> prefix (events s @ [DownloadCompleted (tc_item_id c) (it_filename it) n (tc_client_id c),
        ItemUpdated (tc_item_id c) (it_filename it) ''completed'' 1]) (events s')"
proof -
  let ?i = "tc_item_id c" and ?k = "tc_queue_id c"
  let ?done = "\<lambda>r. r\<lparr>it_status := ''completed'', it_progress := 1, it_error_message := None,
      it_completed_at := Some (clock (qs_db s))\<rparr>"
  obtain f h s1 where f: "same_item f" and h: "h_status h = ''completed''" "h_item_id h = Some ?i"
      "h_query h = q_query q" "h_user_id h = q_user_id q"
    and run: "handle_transfer_completion env c s = list_progress (tc_list_id c) s1"
    and s1: "db_items (qs_db s1) = db_items (set_item ?i f (set_item ?i ?done (qs_db s)))"
      "db_queue (qs_db s1) = db_queue (delete_search ?k (qs_db s))"
      "db_history (qs_db s1) = db_history (qs_db s) @ [h]" "pending_candidates s1 ?k = None"
    and ev: "events s1 = events s @ [DownloadCompleted ?i (it_filename it) n (tc_client_id c),
        ItemUpdated ?i (it_filename it) ''completed'' 1]"
    using transfer_success_state [OF assms(1-4) refl] by blast
  have "core s' = core s1" using core_progress(2) assms(5) run by (metis snd_conv)
  with s1 have c: "db_items (qs_db s') = db_items (set_item ?i f (set_item ?i ?done (qs_db s)))"
    "db_queue (qs_db s') = db_queue (delete_search ?k (qs_db s))"
    "db_history (qs_db s') = db_history (qs_db s) @ [h]" "pending_candidates s' ?k = None"
    by (simp_all add: core_def)
  have "get_item ?i (set_item ?i f (set_item ?i ?done (qs_db s))) = Some (f (?done it))"
    using assms(3) f by (auto simp: get_item_set same_item_def)
  then have "get_item ?i (qs_db s') = Some (f (?done it))" using c(1) by (simp add: get_item_def)
  moreover have "get_queued_search ?k (qs_db s') = None"
    using c(2) get_queued_delete [of ?k "qs_db s"] by (simp add: get_queued_search_def)
  moreover have "it_status (f (?done it)) = ''completed''" "it_progress (f (?done it)) = 1"
    "it_error_message (f (?done it)) = None" "it_file_path (f (?done it)) = it_file_path it"
    using f by (auto simp: same_item_def)
  moreover have "prefix (events s1) (events s')"
    using progress_appends [of "tc_list_id c" s1] assms(5) run by auto
  ultimately show ?thesis using c(3,4) h ev by auto
qed

definition running_db :: database where
  "running_db = snd (mark_search_completed 1 1 (update_item_status 1 ''downloading'' 0 None
     (snd (create_item (str ''a.mp3'') (str ''abba'') None None (str ''storage/a.mp3'') 9 None None
        (str ''mp3'') (str ''peer'') claimed_db))))"

definition running_service :: queue_service where
  "running_service = queue_new running_db (sharing_new (str ''storage'') False)"

definition sample_completion :: "(u64, rstring) outcome \<Rightarrow> transfer_completion" where
  "sample_completion r = \<lparr>tc_item_id = 1, tc_queue_id = 1, tc_list_id = None, tc_list_position = None,
     tc_result = r, tc_client_id = None\<rparr>"

lemma running_db_reachable: "db_reachable running_db"
  unfolding running_db_def
  by (intro db_next [OF _ mark_completed] db_next [OF _ item_status] db_next [OF _ create_item] claimed_db_reachable)

lemma running_db_facts:
  "\<exists>it. get_item 1 running_db = Some it \<and> it_file_path it = str ''storage/a.mp3''"
  "\<exists>q. get_queued_search 1 running_db = Some q \<and> q_retry_count q = 0 \<and> q_query q = str ''abba'' \<and> q_user_id q = 1"
  "db_history running_db = []"
  by (simp_all add: running_db_def claimed_db_def sample_db_def db_enqueue_search_def empty_db_def has_user_def
      claim_next_pending_search_def get_next_pending_search_def waiting_def Let_def mark_search_completed_def
      create_item_def update_item_status_def set_item_def has_item_def get_queued_search_def find_row_def
      update_where_def update_row_def get_item_def set_search_def)

theorem transfer_success_outcome_witness:
  "pending_candidates (snd (handle_transfer_completion sample_env (sample_completion (Ok 9)) running_service)) 1 = None
   \<and> length (db_history (qs_db (snd (handle_transfer_completion sample_env (sample_completion (Ok 9)) running_service)))) = 1"
proof -
  obtain it q where "get_item 1 running_db = Some it" "get_queued_search 1 running_db = Some q"
    using running_db_facts by blast
  then show ?thesis
    using transfer_success_outcome [of running_service "sample_completion (Ok 9)" 9 it q sample_env,
        OF _ _ _ _ prod.collapse [symmetric]] running_db_reachable running_db_facts(3)
    by (auto simp: running_service_def queue_new_def sample_completion_def)
qed

lemma announce_failure_result: "\<exists>es. announce_failure i s = (Ok (), s\<lparr>events := es\<rparr>)"
proof -
  have "\<exists>es. s = s\<lparr>events := es\<rparr>" by (rule exI [of _ "events s"]) simp
  then show ?thesis by (auto simp: announce_failure_def broadcast_def split: option.splits)
qed

lemma transfer_failure_result:
  assumes "db_reachable (qs_db s)" and "tc_result c = Err e"
    and "get_item (tc_item_id c) (qs_db s) = Some it"
    and "get_queued_search (tc_queue_id c) (qs_db s) = Some q"
    and "handle_transfer_completion env c s = (res, s')"
  shows "get_item (tc_item_id c) (qs_db s') = Some (it\<lparr>it_status := ''failed'', it_progress := 0, it_error_message := Some e\<rparr>)
    \<and> (if q_retry_count q = 0 \<or> has_more_candidates (tc_queue_id c) s
       then get_queued_search (tc_queue_id c) (qs_db s')
              = Some (q\<lparr>q_status := ''retry'', q_error_message := Some e, q_retry_count := q_retry_count q + 1,
                  q_created_at := clock (qs_db s'), q_started_at := None, q_completed_at := None\<rparr>)
         \<and> pending_candidates s' = pending_candidates s \<and> db_history (qs_db s') = db_history (qs_db s)
         \<and> last (events s') = DownloadFailed (tc_item_id c)
              (e @ (if q_retry_count q = 0 then str '' (will retry)'' else str '' (trying next candidate)'')) (tc_client_id c)
       else get_queued_search (tc_queue_id c) (qs_db s') = None \<and> pending_candidates s' (tc_queue_id c) = None
         \<and> (\<exists>h. db_history (qs_db s') = db_history (qs_db s) @ [h] \<and> h_status h = ''failed'' \<and> h_query h = q_query q
             \<and> h_item_id h = Some (tc_item_id c) \<and> h_error_message h = Some e)
         \<and> last (events s') = DownloadFailed (tc_item_id c) e (tc_client_id c))"
proof -
  let ?i = "tc_item_id c" and ?k = "tc_queue_id c"
  let ?s1 = "s\<lparr>qs_db := update_item_status ?i ''failed'' 0 (Some e) (qs_db s)\<rparr>"
  have h: "handle_transfer_completion env c s = transfer_failed c (Some q) e s"
    using assms(2,4) by (simp add: handle_transfer_completion_def)
  obtain s2 where s2: "list_progress (tc_list_id c) ?s1 = (Ok (), s2)"
    using progress_returns [of "tc_list_id c" ?s1] by (metis prod.collapse)
  obtain es where es: "announce_failure ?i s2 = (Ok (), s2\<lparr>events := es\<rparr>)"
    using announce_failure_result by blast
  let ?s3 = "s2\<lparr>events := es\<rparr>"
  have r: "retry_or_give_up c (Some q) e ?s3 = (res, s')"
    using assms(5) s2 es unfolding h by (simp add: transfer_failed_def qupd_def)
  have "core s2 = core ?s1" using core_progress(2) s2 by (metis snd_conv)
  then have c2: "db_items (qs_db s2) = db_items (qs_db ?s1)" "db_queue (qs_db s2) = db_queue (qs_db s)"
    "db_history (qs_db s2) = db_history (qs_db s)" "pending_candidates s2 = pending_candidates s"
    by (simp_all add: core_def update_item_status_def)
  have item: "get_item ?i (qs_db s2) = Some (it\<lparr>it_status := ''failed'', it_progress := 0, it_error_message := Some e\<rparr>)"
    using assms(3) c2(1) get_item_set [of "\<lambda>r. r\<lparr>it_status := ''failed'', it_progress := 0, it_error_message := Some e,
       it_completed_at := it_completed_at r\<rparr>" ?i ?i "qs_db s"]
    by (simp add: get_item_def update_item_status_def)
  have more: "has_more_candidates ?k ?s3 = has_more_candidates ?k s"
    by (simp add: has_more_candidates_def c2(4))
  have q2: "get_queued_search ?k (qs_db s2) = Some q" using assms(4) c2(2) by (simp add: get_queued_search_def)
  show ?thesis
  proof (cases "q_retry_count q = 0 \<or> has_more_candidates ?k s")
    case True
    define note' where "note' = (if q_retry_count q = 0 then str '' (will retry)'' else str '' (trying next candidate)'')"
    have "s' = ?s3\<lparr>qs_db := mark_search_for_retry ?k e (qs_db s2),
        events := es @ [DownloadFailed ?i (e @ note') (tc_client_id c)]\<rparr>"
      using r True more by (auto simp: retry_or_give_up_def qupd_def broadcast_def note'_def split: if_splits)
    then show ?thesis
      using True item q2 c2
      by (simp add: note'_def mark_search_for_retry_def get_queued_search_def searches.get_put get_item_def)
  next
    case False
    let ?db4 = "delete_search ?k (qs_db s2)"
    let ?s4 = "?s3\<lparr>pending_candidates := (pending_candidates s2)(?k := None), qs_db := ?db4\<rparr>"
    have "has_item ?db4 ?i" using get_item_has [OF item] by (simp add: delete_search_def has_item_def)
    moreover have "db_reachable (qs_db s2)"
      using keepsD [OF reach.keeps_progress(2), of ?s1 "tc_list_id c"] s2 db_next [OF assms(1) item_status]
      by simp
    then have "has_user ?db4 (q_user_id q)"
      using db_reachable_ok [of "qs_db s2"] q2
      by (auto simp: refs_ok_def get_queued_search_def delete_search_def has_user_def dest!: find_row_Some)
    ultimately obtain hr where hr: "add_history q ''failed'' (Some ?i) (Some e) ?s4
        = (Ok (), ?s4\<lparr>qs_db := ?db4\<lparr>db_history := db_history ?db4 @ [hr], seq_history := seq_history ?db4 + 1\<rparr>\<rparr>)"
      "h_status hr = ''failed''" "h_item_id hr = Some ?i" "h_error_message hr = Some e" "h_query hr = q_query q"
      using add_history_result [of ?s4 q "Some ?i" "''failed''" "Some e"] by auto
    have "s' = ?s4\<lparr>qs_db := ?db4\<lparr>db_history := db_history ?db4 @ [hr], seq_history := seq_history ?db4 + 1\<rparr>,
        events := es @ [DownloadFailed ?i e (tc_client_id c)]\<rparr>"
      using r False more hr(1)
      by (simp add: retry_or_give_up_def qupd_def broadcast_def set_candidates_def)
    then show ?thesis
      using False item hr c2 get_queued_delete [of ?k "qs_db s2"]
      by (simp add: get_queued_search_def get_item_def delete_search_def)
  qed
qed

text \<open>C3: a transfer that failed: its item is 'failed' with the error. If this was the first failure of the search, or cached candidates remain, the search waits for
  its retry at the back of the queue with its count increased, and nothing else is forgotten;
  otherwise its entry and its candidates are gone and the history has one more entry, 'failed', with
  the error. The announcement says which of the three it was.\<close>

theorem transfer_failure_outcome:
  assumes "db_reachable (qs_db s)" and "tc_result c = Err e"
    and "get_item (tc_item_id c) (qs_db s) = Some it"
    and "get_queued_search (tc_queue_id c) (qs_db s) = Some q"
    and "handle_transfer_completion env c s = (res, s')"
  shows "get_item (tc_item_id c) (qs_db s') = Some (it\<lparr>it_status := ''failed'', it_progress := 0, it_error_message := Some e\<rparr>)
    \<and> (if q_retry_count q = 0 \<or> has_more_candidates (tc_queue_id c) s
       then get_queued_search (tc_queue_id c) (qs_db s')
              = Some (q\<lparr>q_status := ''retry'', q_error_message := Some e, q_retry_count := q_retry_count q + 1,
                  q_created_at := clock (qs_db s'), q_started_at := None, q_completed_at := None\<rparr>)
         \<and> pending_candidates s' = pending_candidates s \<and> db_history (qs_db s') = db_history (qs_db s)
         \<and> last (events s') = DownloadFailed (tc_item_id c)
              (e @ (if q_retry_count q = 0 then str '' (will retry)'' else str '' (trying next candidate)'')) (tc_client_id c)
       else get_queued_search (tc_queue_id c) (qs_db s') = None \<and> pending_candidates s' (tc_queue_id c) = None
         \<and> (\<exists>h. db_history (qs_db s') = db_history (qs_db s) @ [h] \<and> h_status h = ''failed'' \<and> h_query h = q_query q
             \<and> h_item_id h = Some (tc_item_id c) \<and> h_error_message h = Some e)
         \<and> last (events s') = DownloadFailed (tc_item_id c) e (tc_client_id c))"
  using transfer_failure_result [OF assms] .

theorem transfer_failure_outcome_witness:
  "\<exists>q'. get_queued_search 1 (qs_db (snd (handle_transfer_completion sample_env (sample_completion (Err (str ''gone''))) running_service)))
      = Some q' \<and> q_status q' = ''retry'' \<and> q_retry_count q' = 1"
proof -
  obtain it q where "get_item 1 running_db = Some it" "get_queued_search 1 running_db = Some q" "q_retry_count q = 0"
    using running_db_facts by blast
  then show ?thesis
    using transfer_failure_outcome [of running_service "sample_completion (Err (str ''gone''))" "str ''gone''" it q sample_env
        "fst (handle_transfer_completion sample_env (sample_completion (Err (str ''gone''))) running_service)"
        "snd (handle_transfer_completion sample_env (sample_completion (Err (str ''gone''))) running_service)"]
      running_db_reachable
    by (auto simp: running_service_def queue_new_def sample_completion_def prod_eq_iff)
qed

section \<open>Where the service goes wrong\<close>

text \<open>A state in which a search's download has started: the row is still 'processing', its item exists.\<close>

definition attempt_ready :: "queued_search \<Rightarrow> item \<Rightarrow> queue_service \<Rightarrow> bool" where
  "attempt_ready q i s \<longleftrightarrow> db_reachable (qs_db s) \<and> get_queued_search (q_id q) (qs_db s) = Some q
     \<and> get_item (it_id i) (qs_db s) = Some i \<and> q_retry_count q = 0 \<and> q_list_id q = None"

definition completion_of :: "queued_search \<Rightarrow> item \<Rightarrow> rstring \<Rightarrow> transfer_completion" where
  "completion_of q i e = \<lparr>tc_item_id = it_id i, tc_queue_id = q_id q, tc_list_id = None, tc_list_position = None,
     tc_result = Err e, tc_client_id = q_client_id q\<rparr>"

lemma completion_returns:
  assumes "tc_list_id c = None" and "tc_result c = Err e"
  shows "fst (handle_transfer_completion env c s) = Ok ()"
proof -
  have "fst (retry_or_give_up c q e s) = Ok ()" for q s
  proof -
    have "\<exists>s'. (case q of None \<Rightarrow> qret () | Some q \<Rightarrow> add_history q st i er) s = (Ok (), s')" for st i er s
      using add_history_ok by (cases q) (auto simp: qret_def)
    then obtain f where "(case q of None \<Rightarrow> qret () | Some q \<Rightarrow> add_history q st i er) s = (Ok (), f st i er s)" for st i er s
      by metis
    then show ?thesis
      by (simp add: retry_or_give_up_def Let_def qupd_def broadcast_def set_candidates_def)
  qed
  then show ?thesis
    using announce_failure_result assms
    by (auto simp: handle_transfer_completion_def Let_def transfer_failed_def qupd_def list_progress_def qret_def
        announce_failure_def broadcast_def split: option.splits)
qed

text \<open>A refused download is reported twice, by the client's answer to the worker and by a completion
  to the monitor. On the first failure of a search with no other candidate the worker stores the retry
  and announces it; the completion then finds the count at one and deletes the search: it is never
  tried again.\<close>

lemma refused_download_loses_retry:
  assumes "attempt_ready q i s" and "pending_candidates s (q_id q) = None"
    and "\<not> is_no_results (str ''Download failed: '' @ reason)"
    and "s1 = snd (answer_part q i (Download_Failed reason) s)"
    and "s2 = snd (handle_transfer_completion env (completion_of q i reason) s1)"
  shows "(\<exists>r. get_queued_search (q_id q) (qs_db s1) = Some r \<and> waiting r \<and> q_retry_count r = 1)
    \<and> last (events s1) = SearchFailed (q_id q) (q_query q) (str ''Download failed: '' @ reason @ str '' (will retry)'') (q_client_id q)
    \<and> get_queued_search (q_id q) (qs_db s2) = None
    \<and> last (events s2) = DownloadFailed (it_id i) reason (q_client_id q)"
proof -
  let ?e = "str ''Download failed: '' @ reason"
  let ?db1 = "mark_search_for_retry (q_id q) ?e (update_item_status (it_id i) ''failed'' 0 (Some reason) (qs_db s))"
  have a: "db_reachable (qs_db s)" "get_queued_search (q_id q) (qs_db s) = Some q"
    "get_item (it_id i) (qs_db s) = Some i" "q_retry_count q = 0" "q_list_id q = None"
    using assms(1) by (auto simp: attempt_ready_def)
  have s1: "s1 = s\<lparr>qs_db := ?db1, events := events s @ [DownloadFailed (it_id i) reason (q_client_id q),
      SearchFailed (q_id q) (q_query q) (?e @ str '' (will retry)'') (q_client_id q)]\<rparr>"
    using a(4,5) assms(3)
    by (simp add: assms(4) answer_part_def apply_init_def qupd_def broadcast_def qfail_def end_task_def finish_search_def
        search_error_def qret_def)
  define r where "r = q\<lparr>q_status := ''retry'', q_error_message := Some ?e, q_retry_count := 1,
      q_created_at := clock (qs_db s), q_started_at := None, q_completed_at := None\<rparr>"
  have row: "get_queued_search (q_id q) (qs_db s1) = Some r"
    using a(2,4) by (simp add: s1 mark_search_for_retry_def get_queued_search_def searches.get_put update_item_status_def
        set_item_def r_def)
  have "db_reachable (qs_db s1)"
    unfolding s1 using db_next [OF db_next [OF a(1) item_status] mark_retry] by simp
  moreover have "\<exists>it. get_item (it_id i) (qs_db s1) = Some it"
    using a(3) by (simp add: s1 mark_search_for_retry_def get_item_def update_item_status_def items.get_put)
  moreover have "\<not> has_more_candidates (q_id q) s1" using assms(2) by (simp add: has_more_candidates_def s1)
  moreover have "handle_transfer_completion env (completion_of q i reason) s1 = (Ok (), s2)"
    using completion_returns [of "completion_of q i reason" reason env s1]
    by (simp add: completion_of_def assms(5) prod_eq_iff)
  ultimately have "get_queued_search (q_id q) (qs_db s2) = None \<and> last (events s2) = DownloadFailed (it_id i) reason (q_client_id q)"
    using transfer_failure_result [of s1 "completion_of q i reason" reason _ r env "Ok ()" s2] row
    by (auto simp: completion_of_def r_def)
  moreover have "waiting r \<and> q_retry_count r = 1" by (simp add: r_def waiting_def)
  ultimately show ?thesis using row by (auto simp: s1)
qed

text \<open>When a transfer fails before its worker has marked the search, the order of the two updates is
  the wrong one: the monitor's retry is overwritten by the worker's 'completed'. The row then belongs
  to no transfer and no worker claims it.\<close>

lemma late_mark_loses_retry:
  assumes "attempt_ready q i s"
    and "s1 = snd (handle_transfer_completion env (completion_of q i e) s)"
    and "s2 = snd (answer_part q i (Transfer_Spawned (it_id i) tok) s1)"
  shows "(\<exists>r. get_queued_search (q_id q) (qs_db s1) = Some r \<and> waiting r)
    \<and> (\<exists>r. get_queued_search (q_id q) (qs_db s2) = Some r \<and> q_status r = ''completed'')
    \<and> (\<forall>c db. claim_next_pending_search (qs_db s2) = (Some c, db) \<longrightarrow> q_id c \<noteq> q_id q)"
proof -
  have a: "db_reachable (qs_db s)" "get_queued_search (q_id q) (qs_db s) = Some q"
    "get_item (it_id i) (qs_db s) = Some i" "q_retry_count q = 0"
    using assms(1) by (auto simp: attempt_ready_def)
  have h: "handle_transfer_completion env (completion_of q i e) s = (Ok (), s1)"
    using completion_returns [of "completion_of q i e" e env s] by (simp add: completion_of_def assms(2) prod_eq_iff)
  have one: "get_item (it_id i) (qs_db s1) \<noteq> None"
    "\<exists>r. get_queued_search (q_id q) (qs_db s1) = Some r \<and> waiting r"
    using transfer_failure_result [of s "completion_of q i e" e i q env "Ok ()" s1] a h
    by (auto simp: completion_of_def waiting_def)
  then obtain r where r: "get_queued_search (q_id q) (qs_db s1) = Some r" "waiting r" by blast
  have reach1: "db_reachable (qs_db s1)"
    using keepsD [OF reach.keeps_completion, of s env "completion_of q i e"] a(1) h by simp
  have "has_item (qs_db s1) (it_id i)" using one(1) get_item_has by fastforce
  then have s2: "s2 = s1\<lparr>qs_db := snd (mark_search_completed (q_id q) (it_id i) (qs_db s1))\<rparr>"
    "fst (mark_search_completed (q_id q) (it_id i) (qs_db s1)) = Ok ()"
    by (auto simp: assms(3) answer_part_def apply_init_def qret_def end_task_def finish_search_def search_done_def
        qlog_def qtry_def mark_search_completed_def)
  have row: "\<exists>r. get_queued_search (q_id q) (qs_db s2) = Some r \<and> q_status r = ''completed''"
    using r(1) \<open>has_item (qs_db s1) (it_id i)\<close>
    by (simp add: s2 mark_search_completed_def get_queued_search_def searches.get_put)
  have "db_reachable (qs_db s2)" unfolding s2 using db_next [OF reach1 mark_completed] by simp
  then have dist: "distinct (map q_id (db_queue (qs_db s2)))"
    using db_reachable_ok by (simp add: tables_ok_def table_ok_def)
  have "q_id c \<noteq> q_id q" if "claim_next_pending_search (qs_db s2) = (Some c, db)" for c db
  proof -
    from that obtain w where w: "w \<in> set (db_queue (qs_db s2))" "waiting w" "c = w\<lparr>q_status := ''processing''\<rparr>"
      by (rule claim_Some)
    have "get_queued_search (q_id w) (qs_db s2) = Some w"
      unfolding get_queued_search_def by (rule find_row_distinct [OF dist w(1)])
    with row w(2,3) show ?thesis by (auto simp: waiting_def)
  qed
  with r row show ?thesis by blast
qed

definition starting_service :: queue_service where
  "starting_service = queue_new (update_item_status 1 ''downloading'' 0 None
     (snd (create_item (str ''a.mp3'') (str ''abba'') None None (str ''storage/a.mp3'') 9 None None
        (str ''mp3'') (str ''peer'') claimed_db))) (sharing_new (str ''storage'') False)"

lemma starting_ready: "\<exists>q i. attempt_ready q i starting_service \<and> q_id q = 1 \<and> it_id i = 1"
proof -
  have "db_reachable (qs_db starting_service)"
    unfolding starting_service_def queue_new_def
    by (simp, intro db_next [OF _ item_status] db_next [OF _ create_item] claimed_db_reachable)
  moreover have "\<exists>q. get_queued_search 1 (qs_db starting_service) = Some q \<and> q_id q = 1 \<and> q_retry_count q = 0 \<and> q_list_id q = None"
    "\<exists>i. get_item 1 (qs_db starting_service) = Some i \<and> it_id i = 1"
    by (simp_all add: starting_service_def queue_new_def claimed_db_def sample_db_def db_enqueue_search_def empty_db_def
        has_user_def claim_next_pending_search_def get_next_pending_search_def waiting_def Let_def create_item_def
        update_item_status_def set_item_def get_queued_search_def find_row_def update_where_def update_row_def get_item_def)
  ultimately show ?thesis unfolding attempt_ready_def by metis
qed

lemma refused_download_loses_retry_witness:
  "\<exists>q i. get_queued_search (q_id q) (qs_db (snd (handle_transfer_completion sample_env (completion_of q i (str ''denied''))
       (snd (answer_part q i (Download_Failed (str ''denied'')) starting_service))))) = None"
proof -
  obtain q i where "attempt_ready q i starting_service" using starting_ready by blast
  moreover have "\<not> is_no_results (str ''Download failed: '' @ str ''denied'')"
    by (simp add: is_no_results_def contains_def str_def sublist_code)
  moreover have "pending_candidates starting_service k = None" for k by (simp add: starting_service_def queue_new_def)
  ultimately show ?thesis using refused_download_loses_retry [OF _ _ _ refl refl] by blast
qed

lemma late_mark_loses_retry_witness:
  "\<exists>q i r. get_queued_search (q_id q) (qs_db (snd (answer_part q i (Transfer_Spawned (it_id i) 5)
       (snd (handle_transfer_completion sample_env (completion_of q i (str ''closed'')) starting_service))))) = Some r
     \<and> q_status r = ''completed''"
  using starting_ready late_mark_loses_retry [OF _ refl refl] by blast

definition item_ids :: "queue_service \<Rightarrow> int set" where
  "item_ids s = it_id ` set (db_items (qs_db s))"

lemma link_item:
  "\<exists>s'. (case (q_list_id q, q_list_position q) of
          (Some l, Some pos) \<Rightarrow> qlog (qtry (add_item_to_list l j pos)) | _ \<Rightarrow> qret ()) s = (Ok (), s')
     \<and> item_ids s' = item_ids s"
  by (auto simp: qlog_def qtry_def qret_def add_item_to_list_def Let_def item_ids_def split: option.splits)

lemma create_download_ok:
  assumes "target_path env c \<notin> it_file_path ` set (db_items (qs_db s))"
  shows "\<exists>i s'. create_download env q c s = (Ok i, s') \<and> it_id i = seq_items (qs_db s) + 1
    \<and> it_file_path i = target_path env c \<and> it_original_query i = q_query q
    \<and> item_ids s' = insert (it_id i) (item_ids s)"
proof -
  obtain i db where i: "create_item (extract_basename (sc_filename c)) (q_query q) (q_original_artist q)
      (q_original_track q) (target_path env c) (sint (sc_size c)) (map_option sint (sc_bitrate c)) None
      (case path_extension (extract_basename (sc_filename c)) of Some e \<Rightarrow> e | None \<Rightarrow> []) (sc_username c) (qs_db s)
      = (Ok i, db)"
    "it_id i = seq_items (qs_db s) + 1" "it_file_path i = target_path env c" "it_original_query i = q_query q"
    "db_items db = db_items (qs_db s) @ [i]"
    using assms by (auto simp: create_item_def Let_def)
  obtain s4 where s4: "(case (q_list_id q, q_list_position q) of
      (Some l, Some pos) \<Rightarrow> qlog (qtry (add_item_to_list l (it_id i) pos)) | _ \<Rightarrow> qret ())
      (s\<lparr>qs_db := update_item_status (it_id i) ''downloading'' 0 None db\<rparr>) = (Ok (), s4)"
    "item_ids s4 = item_ids (s\<lparr>qs_db := update_item_status (it_id i) ''downloading'' 0 None db\<rparr>)"
    using link_item by blast
  have "item_ids s4 = insert (it_id i) (item_ids s)"
    using i(5) unfolding s4(2)
    by (simp add: item_ids_def update_item_status_def set_item_def flip: set_map)
  moreover have "\<exists>es. create_download env q c s = (Ok i, s4\<lparr>events := es\<rparr>)"
    using i(1) s4(1) by (simp add: create_download_def Let_def qtry_def qupd_def broadcast_def qret_def, blast)
  ultimately show ?thesis using i(2-4) by (auto simp: item_ids_def)
qed

text \<open>Two files with the same name share one path, and the path decides: when a search picks a file whose
  path already belongs to an item, a completed item is returned as the result whatever query it came
  from, and an item that is not completed is deleted and replaced by a new one with the same path,
  even while the transfer of another search is writing to it.\<close>

lemma same_name_shares_path:
  assumes "db_reachable (qs_db s)" and "find_item_by_path (target_path env c) (qs_db s) = Some ex"
  shows "if it_status ex = ''completed'' then prepare_part env q c s = end_task q (Ok ex) s
    else \<exists>i s'. prepare_part env q c s = (Some (Initiating q i), s') \<and> get_item (it_id ex) (qs_db s') = None
      \<and> it_id i \<noteq> it_id ex \<and> it_file_path i = it_file_path ex \<and> it_original_query i = q_query q"
proof (cases "it_status ex = ''completed''")
  case True
  then show ?thesis
    using assms(2) by (simp add: prepare_part_def prepare_item_def replace_existing_def qget_def qret_def)
next
  case False
  define db2 where "db2 = delete_item (it_id ex)
    (case q_list_id q of Some l \<Rightarrow> remove_item_from_list l (it_id ex) (qs_db s) | None \<Rightarrow> qs_db s)"
  have repl: "replace_existing env q c s = (Ok None, s\<lparr>qs_db := db2\<rparr>)"
    using assms(2) False by (simp add: replace_existing_def qget_def qret_def qupd_def db2_def split: option.splits)
  have ex: "ex \<in> set (db_items (qs_db s))" "it_file_path ex = target_path env c"
    using assms(2) by (auto simp: find_item_by_path_def dest: find_SomeD)
  have ok: "distinct (map it_id (db_items (qs_db s)))" "distinct (map it_file_path (db_items (qs_db s)))"
    "it_id ex \<le> seq_items (qs_db s)"
    using db_reachable_ok [OF assms(1)] ex(1) by (auto simp: tables_ok_def table_ok_def)
  have items2: "db_items db2 = delete_where (\<lambda>r. it_id r = it_id ex) (db_items (qs_db s))"
    "seq_items db2 = seq_items (qs_db s)"
    by (simp_all add: db2_def delete_item_def drop_items_def remove_item_from_list_def set_list_def Let_def
        split: option.splits)
  have free: "target_path env c \<notin> it_file_path ` set (db_items (qs_db (s\<lparr>qs_db := db2\<rparr>)))"
    using ex ok(1,2) by (auto simp: items2 distinct_map dest: inj_onD)
  obtain i s' where i: "create_download env q c (s\<lparr>qs_db := db2\<rparr>) = (Ok i, s')" "it_id i = seq_items (qs_db s) + 1"
    "it_file_path i = target_path env c" "it_original_query i = q_query q"
    "item_ids s' = insert (it_id i) (item_ids (s\<lparr>qs_db := db2\<rparr>))"
    using create_download_ok [OF free, of q] items2(2) by auto
  have "it_id ex \<notin> item_ids s'" using i(2,5) ok(3) by (auto simp: item_ids_def items2)
  then have "prepare_part env q c s = (Some (Initiating q i), s')" "get_item (it_id ex) (qs_db s') = None"
    using repl i(1) by (simp_all add: prepare_part_def prepare_item_def qret_def get_item_def find_row_None item_ids_def)
  with False i(2-4) ex(2) ok(3) show ?thesis by auto
qed

lemma same_name_shares_path_witness:
  "\<exists>i s'. prepare_part sample_env sample_search sample_candidate starting_service
      = (Some (Initiating sample_search i), s') \<and> get_item 1 (qs_db s') = None"
proof -
  have t: "target_path sample_env sample_candidate = str ''storage/a.mp3''"
    by (simp add: target_path_def sample_env_def sample_candidate_def extract_basename_def after_last_def path_join_def
        str_def suffix_def)
  have "\<exists>ex. find_item_by_path (str ''storage/a.mp3'') (qs_db starting_service) = Some ex \<and> it_id ex = 1
      \<and> it_status ex = ''downloading''"
    by (simp add: starting_service_def queue_new_def claimed_db_def sample_db_def db_enqueue_search_def empty_db_def
        has_user_def claim_next_pending_search_def get_next_pending_search_def waiting_def Let_def create_item_def
        update_item_status_def set_item_def update_where_def update_row_def find_item_by_path_def)
  then obtain ex where ex: "find_item_by_path (target_path sample_env sample_candidate) (qs_db starting_service) = Some ex"
    "it_id ex = 1" "it_status ex = ''downloading''" unfolding t by blast
  from starting_ready have "db_reachable (qs_db starting_service)" by (auto simp: attempt_ready_def)
  from same_name_shares_path [OF this ex(1), of sample_search] ex(2,3) show ?thesis by auto
qed

section \<open>The system as a whole\<close>

lemma put_task_length: "length (put_task before t after) \<le> Suc (length before + length after)"
  by (simp add: put_task_def split: option.splits)

lemma tasks_bounded: "queue_reachable env y \<Longrightarrow> length (tasks y) \<le> max_concurrent_searches env"
proof (induction rule: queue_reachable.induct)
  case (queue_next y y')
  from queue_next.hyps(2) queue_next.IH show ?case
    by (cases rule: queue_step.cases) (auto intro: order_trans [OF put_task_length])
qed (simp add: system_start_def)

text \<open>C1: in every state the queue service can reach, with any interleaving of its tasks, any answers of the
  network and any requests of users: at most \<open>max_concurrent_searches\<close> search tasks run, at most five
  candidates are cached per search, the constraints of the schema hold, and the share index is consistent.\<close>

theorem queue_invariant:
  assumes "queue_reachable env y"
  shows "length (tasks y) \<le> max_concurrent_searches env
    \<and> (\<forall>k cs. pending_candidates (svc y) k = Some cs \<longrightarrow> length cs \<le> 5)
    \<and> tables_ok (qs_db (svc y)) \<and> refs_ok (qs_db (svc y))
    \<and> share_ok (chars env) (zlib env) (sh_index (shares (svc y)))"
  using tasks_bounded [OF assms] sys_few.reachable_keeps [OF assms] sys_shared.reachable_keeps [OF assms]
    db_reachable_ok [OF sys_reach.reachable_keeps [OF assms]]
  by (simp add: few_candidates_def)

theorem queue_invariant_witness:
  "\<exists>y. queue_reachable sample_env y \<and> length (tasks y) = 1 \<and> length (tasks y) \<le> 8 \<and> refs_ok (qs_db (svc y))"
proof -
  let ?s = "queue_new sample_db (share_run (chars sample_env) (zlib sample_env) [] (sharing_new (str ''storage'') True))"
  have start: "queue_reachable sample_env (system_start ?s)" by (rule queue_start [OF sample_db_reachable])
  have "\<exists>q db. claim_next_pending_search sample_db = (Some q, db)"
    by (simp add: sample_db_def db_enqueue_search_def empty_db_def has_user_def
        claim_next_pending_search_def get_next_pending_search_def waiting_def Let_def)
  then obtain q db where c: "claim_next_pending_search sample_db = (Some q, db)" by blast
  let ?y = "(system_start ?s)\<lparr>svc := (svc (system_start ?s))\<lparr>qs_db := db\<rparr>, tasks := tasks (system_start ?s) @ [Claimed q]\<rparr>"
  have "queue_step sample_env (system_start ?s) ?y"
    by (rule claim_task) (simp_all add: system_start_def sample_env_def queue_new_def c)
  then have y: "queue_reachable sample_env ?y" by (rule queue_next [OF start])
  moreover have "length (tasks ?y) = 1" by (simp add: system_start_def)
  ultimately show ?thesis using queue_invariant [OF y] by (intro exI [of _ ?y]) (auto simp: sample_env_def)
qed

section \<open>Duplicates\<close>

lemma max_by_score_spec:
  "max_by_score ps = Some p \<Longrightarrow> \<exists>before after. ps = before @ p # after
     \<and> (\<forall>x\<in>set before. snd x \<le> snd p) \<and> (\<forall>x\<in>set after. snd x < snd p)"
proof (induction ps arbitrary: p)
  case (Cons x xs)
  show ?case
  proof (cases "max_by_score xs")
    case None
    then have "xs = []" by (cases xs) (auto split: option.splits if_splits)
    with Cons.prems show ?thesis by (intro exI [of _ "[]"]) auto
  next
    case (Some m)
    from Cons.IH [OF Some] obtain before after where m: "xs = before @ m # after"
      "\<forall>x\<in>set before. snd x \<le> snd m" "\<forall>x\<in>set after. snd x < snd m" by blast
    show ?thesis
    proof (cases "snd m < snd x")
      case True
      with Cons.prems Some have "p = x" by simp
      with True m show ?thesis by (intro exI [of _ "[]"] exI [of _ xs]) auto
    next
      case False
      with Cons.prems Some have "p = m" by simp
      with False m show ?thesis by (intro exI [of _ "x # before"] exI [of _ after]) auto
    qed
  qed
qed simp

lemma max_by_score_None: "max_by_score ps = None \<longleftrightarrow> ps = []"
  by (cases ps) (auto split: option.splits)

text \<open>The duplicate search returns an item of the list whose file name reaches the threshold and that
  no other item exceeds - the last one of the best, as \<open>max_by_key\<close> does - and nothing only if no item
  reaches the threshold.\<close>

lemma find_duplicate_best:
  "case find_duplicate score threshold query items of
     None \<Rightarrow> (\<forall>i\<in>set items. \<forall>n. score (it_filename i) query = Some n \<longrightarrow> n < threshold)
   | Some i \<Rightarrow> i \<in> set items \<and> (\<exists>n. score (it_filename i) query = Some n \<and> threshold \<le> n
       \<and> (\<forall>j\<in>set items. \<forall>m. score (it_filename j) query = Some m \<longrightarrow> m \<le> n))"
proof -
  let ?ps = "filter (\<lambda>p. threshold \<le> snd p) (List.map_filter (\<lambda>i. map_option (Pair i) (score (it_filename i) query)) items)"
  have mem: "p \<in> set ?ps \<longleftrightarrow> fst p \<in> set items \<and> score (it_filename (fst p)) query = Some (snd p) \<and> threshold \<le> snd p" for p
    by (cases p) (auto simp: map_filter_def image_iff)
  show ?thesis
  proof (cases "max_by_score ?ps")
    case None
    then have "?ps = []" by (simp only: max_by_score_None)
    then have "\<forall>p. p \<notin> set ?ps" by (simp only: list.set empty_iff) simp
    then have "n < threshold" if "i \<in> set items" "score (it_filename i) query = Some n" for i n
      using that mem [of "(i, n)"] by force
    with None show ?thesis by (auto simp: find_duplicate_def)
  next
    case (Some p)
    from max_by_score_spec [OF Some] obtain before after where ps: "?ps = before @ p # after"
      "\<forall>x\<in>set before. snd x \<le> snd p" "\<forall>x\<in>set after. snd x < snd p" by blast
    then have best: "\<forall>x\<in>set ?ps. snd x \<le> snd p" unfolding ps(1) by auto
    have p: "fst p \<in> set items" "score (it_filename (fst p)) query = Some (snd p)" "threshold \<le> snd p"
      using mem [of p] unfolding ps(1) by auto
    have "m \<le> snd p" if "j \<in> set items" "score (it_filename j) query = Some m" for j m
    proof (cases "threshold \<le> m")
      case True
      with that mem [of "(j, m)"] have "(j, m) \<in> set ?ps" by simp
      with best show ?thesis by fastforce
    qed (use p(3) in simp)
    with p Some show ?thesis by (auto simp: find_duplicate_def)
  qed
qed

lemma find_duplicate_best_witness:
  "\<exists>i. find_duplicate (\<lambda>name query. Some (if name = query then 90 else 10)) 70 (str ''a.mp3'')
       (db_items (qs_db starting_service)) = Some i \<and> it_filename i = str ''a.mp3''"
proof -
  let ?score = "\<lambda>name query. Some (if name = query then 90 else 10 :: int)"
  have "\<exists>i\<in>set (db_items (qs_db starting_service)). it_filename i = str ''a.mp3''"
    by (simp add: starting_service_def queue_new_def claimed_db_def sample_db_def db_enqueue_search_def empty_db_def
        has_user_def claim_next_pending_search_def get_next_pending_search_def waiting_def Let_def create_item_def
        update_item_status_def set_item_def update_where_def update_row_def)
  with find_duplicate_best [where score = ?score and threshold = 70 and query = "str ''a.mp3''"
      and items = "db_items (qs_db starting_service)"]
  show ?thesis by (auto split: option.splits if_splits)
qed

end
