(* ===== verification/Accounts.thy ===== *)
theory Accounts
  imports Rust_Strings
begin

text \<open>
  The accounts: the \<open>users\<close> table of \<open>src/src/db/mod.rs\<close> with its statements, the handlers of
  \<open>src/src/api/auth.rs\<close> (registration, verification, login, the token of a request), the role change of
  \<open>src/src/api/admin.rs\<close> and the profile of \<open>src/src/api/profile.rs\<close>. Times are seconds. The password
  hash, the random tokens, the mail service and the signature of the tokens are parameters; a database
  error carries the text of its outermost context, which is what \<open>to_string\<close> shows of it.
\<close>

section \<open>The users table\<close>

record user =
  us_id :: int
  us_username :: rstring
  us_email :: "rstring option"
  us_password_hash :: rstring
  us_email_verified :: bool
  us_verification_token :: "rstring option"
  us_token_expires_at :: "nat option"
  us_display_name :: "rstring option"
  us_bio :: "rstring option"
  us_avatar_path :: "rstring option"
  us_role :: rstring
  us_created_at :: nat
  us_updated_at :: nat

record accounts =
  ac_users :: "user list"
  ac_seq :: int
  ac_clock :: nat

definition accounts_empty :: accounts where
  "accounts_empty = \<lparr>ac_users = [], ac_seq = 0, ac_clock = 0\<rparr>"

definition find_user :: "(user \<Rightarrow> bool) \<Rightarrow> accounts \<Rightarrow> user option" where
  "find_user P a = find P (ac_users a)"

definition update_user :: "int \<Rightarrow> (user \<Rightarrow> user) \<Rightarrow> accounts \<Rightarrow> accounts" where
  "update_user i f a =
     a\<lparr>ac_users := map (\<lambda>u. if us_id u = i then f u else u) (ac_users a)\<rparr>"

text \<open>The unique username and the unique index on the email, where no email is no conflict.\<close>

definition user_conflict :: "rstring \<Rightarrow> rstring option \<Rightarrow> accounts \<Rightarrow> bool" where
  "user_conflict username email a \<longleftrightarrow>
     list_ex (\<lambda>u. us_username u = username \<or> email \<noteq> None \<and> us_email u = email) (ac_users a)"

definition insert_user :: "user \<Rightarrow> accounts \<Rightarrow> (user, rstring) outcome \<times> accounts" where
  "insert_user u a =
     (if user_conflict (us_username u) (us_email u) a then (Err (str ''Failed to create user''), a)
      else
        (let u = u\<lparr>us_id := ac_seq a + 1\<rparr>
         in (Ok u, a\<lparr>ac_users := ac_users a @ [u], ac_seq := ac_seq a + 1\<rparr>)))"

definition create_user ::
  "rstring \<Rightarrow> rstring \<Rightarrow> rstring \<Rightarrow> rstring \<Rightarrow> nat \<Rightarrow> accounts \<Rightarrow> (user, rstring) outcome \<times> accounts" where
  "create_user username email password_hash verification_token token_expires_at a =
     insert_user \<lparr>us_id = 0, us_username = username, us_email = Some email, us_password_hash = password_hash,
       us_email_verified = False, us_verification_token = Some verification_token,
       us_token_expires_at = Some token_expires_at, us_display_name = None, us_bio = None,
       us_avatar_path = None, us_role = str ''user'', us_created_at = ac_clock a,
       us_updated_at = ac_clock a\<rparr> a"

definition create_user_verified ::
  "rstring \<Rightarrow> rstring \<Rightarrow> rstring \<Rightarrow> accounts \<Rightarrow> (user, rstring) outcome \<times> accounts" where
  "create_user_verified username password_hash role a =
     insert_user \<lparr>us_id = 0, us_username = username, us_email = None, us_password_hash = password_hash,
       us_email_verified = True, us_verification_token = None, us_token_expires_at = None,
       us_display_name = None, us_bio = None, us_avatar_path = None, us_role = role,
       us_created_at = ac_clock a, us_updated_at = ac_clock a\<rparr> a"

definition get_user_by_username :: "rstring \<Rightarrow> accounts \<Rightarrow> user option" where
  "get_user_by_username username = find_user (\<lambda>u. us_username u = username)"

definition get_user_by_id :: "int \<Rightarrow> accounts \<Rightarrow> user option" where
  "get_user_by_id i = find_user (\<lambda>u. us_id u = i)"

definition get_user_by_email :: "rstring \<Rightarrow> accounts \<Rightarrow> user option" where
  "get_user_by_email email = find_user (\<lambda>u. us_email u = Some email)"

text \<open>The statement has no order; the first row in the order of the table stands for the one returned.\<close>

definition get_user_by_identifier :: "rstring \<Rightarrow> accounts \<Rightarrow> user option" where
  "get_user_by_identifier identifier =
     find_user (\<lambda>u. us_email u = Some identifier \<or> us_username u = identifier)"

definition get_user_by_verification_token :: "rstring \<Rightarrow> accounts \<Rightarrow> user option" where
  "get_user_by_verification_token tok = find_user (\<lambda>u. us_verification_token u = Some tok)"

definition verify_user_email :: "int \<Rightarrow> accounts \<Rightarrow> accounts" where
  "verify_user_email i a =
     update_user i (\<lambda>u. u\<lparr>us_email_verified := True, us_verification_token := None,
       us_token_expires_at := None, us_updated_at := ac_clock a\<rparr>) a"

definition update_verification_token :: "int \<Rightarrow> rstring \<Rightarrow> nat \<Rightarrow> accounts \<Rightarrow> accounts" where
  "update_verification_token i tok expires_at a =
     update_user i (\<lambda>u. u\<lparr>us_verification_token := Some tok, us_token_expires_at := Some expires_at,
       us_updated_at := ac_clock a\<rparr>) a"

definition delete_user :: "int \<Rightarrow> accounts \<Rightarrow> accounts" where
  "delete_user i a = a\<lparr>ac_users := filter (\<lambda>u. us_id u \<noteq> i) (ac_users a)\<rparr>"

definition update_user_profile ::
  "int \<Rightarrow> rstring option \<Rightarrow> rstring option \<Rightarrow> accounts \<Rightarrow> (user, rstring) outcome \<times> accounts" where
  "update_user_profile i display_name bio a =
     (let a' = update_user i (\<lambda>u. u\<lparr>us_display_name := display_name, us_bio := bio,
                 us_updated_at := ac_clock a\<rparr>) a
      in (case get_user_by_id i a' of
            Some u \<Rightarrow> Ok u | None \<Rightarrow> Err (str ''Failed to update user profile''), a'))"

definition update_user_avatar :: "int \<Rightarrow> rstring option \<Rightarrow> accounts \<Rightarrow> accounts" where
  "update_user_avatar i path a =
     update_user i (\<lambda>u. u\<lparr>us_avatar_path := path, us_updated_at := ac_clock a\<rparr>) a"

definition get_all_users :: "accounts \<Rightarrow> user list" where
  "get_all_users a = sort_key us_created_at (ac_users a)"

definition set_user_role :: "int \<Rightarrow> rstring \<Rightarrow> accounts \<Rightarrow> accounts" where
  "set_user_role i role a = update_user i (\<lambda>u. u\<lparr>us_role := role, us_updated_at := ac_clock a\<rparr>) a"

definition count_admins :: "accounts \<Rightarrow> nat" where
  "count_admins a = length (filter (\<lambda>u. us_role u = str ''admin'') (ac_users a))"

section \<open>Registration and verification\<close>

text \<open>An answer is a status code with a text, as an error or not.\<close>

type_synonym 'a http = "('a, nat \<times> rstring) outcome"

definition day :: nat where "day = 86400"

text \<open>\<open>hashed\<close> is what hashing the password gives; \<open>mail\<close> is whether the message was accepted, if a
  service is configured. A length is a number of bytes.\<close>

definition register_conflict :: "rstring \<Rightarrow> nat \<times> rstring" where
  "register_conflict error =
     (if contains error (str ''UNIQUE'') then
        (if contains error (str ''email'') then (409, str ''An account with this email already exists'')
         else (409, str ''Username is already taken''))
      else (500, str ''Failed to create user''))"

definition register ::
  "rstring option \<Rightarrow> rstring \<Rightarrow> bool option \<Rightarrow> rstring \<Rightarrow> rstring \<Rightarrow> rstring \<Rightarrow> accounts \<Rightarrow> rstring http \<times> accounts" where
  "register hashed tok mail username email password a =
     (if 64 \<notin> set email \<or> length (as_bytes email) < 5 then (Err (400, str ''Invalid email format''), a)
      else if length (as_bytes username) < 3 \<or> 30 < length (as_bytes username) then
        (Err (400, str ''Username must be between 3 and 30 characters''), a)
      else if length (as_bytes password) < 8 then
        (Err (400, str ''Password must be at least 8 characters''), a)
      else
        (case hashed of
           None \<Rightarrow> (Err (500, str ''Failed to create user''), a)
         | Some h \<Rightarrow>
             (case create_user username email h tok (ac_clock a + day) a of
                (Err e, a) \<Rightarrow> (Err (register_conflict e), a)
              | (Panic, a) \<Rightarrow> (Panic, a)
              | (Ok u, a) \<Rightarrow>
                  (case mail of
                     Some True \<Rightarrow>
                       (Ok (str ''Registration successful! Please check your email to verify your account.''), a)
                   | Some False \<Rightarrow>
                       (Err (500, str ''Failed to send verification email. Please try again later.''),
                        delete_user (us_id u) a)
                   | None \<Rightarrow>
                       (Err (503, str ''Email service is not configured. Registration is currently unavailable.''),
                        delete_user (us_id u) a)))))"

definition verify_email :: "rstring \<Rightarrow> accounts \<Rightarrow> rstring http \<times> accounts" where
  "verify_email tok a =
     (case get_user_by_verification_token tok a of
        None \<Rightarrow> (Err (400, str ''Invalid or expired verification token''), a)
      | Some u \<Rightarrow>
          if us_email_verified u then (Ok (str ''Email is already verified. You can log in.''), a)
          else if (case us_token_expires_at u of Some t \<Rightarrow> t < ac_clock a | None \<Rightarrow> False) then
            (Err (400, str ''Verification token has expired. Please request a new one.''), a)
          else (Ok (str ''Email verified successfully! You can now log in.''), verify_user_email (us_id u) a))"

definition resend_verification :: "rstring \<Rightarrow> bool option \<Rightarrow> rstring \<Rightarrow> accounts \<Rightarrow> rstring http \<times> accounts" where
  "resend_verification tok mail email a =
     (let success = str ''If an account exists with this email, a new verification link has been sent.'' in
      case get_user_by_email email a of
        None \<Rightarrow> (Ok success, a)
      | Some u \<Rightarrow>
          if us_email_verified u then (Ok (str ''Email is already verified. You can log in.''), a)
          else
            (let a = update_verification_token (us_id u) tok (ac_clock a + day) a in
             (if mail = Some False then Err (500, str ''Failed to send verification email'')
              else Ok success, a)))"

section \<open>Login and tokens\<close>

record claims =
  cm_sub :: int
  cm_name :: rstring
  cm_role :: rstring
  cm_exp :: nat

text \<open>\<open>check\<close> compares a password with a stored hash; it is \<open>None\<close> when the hash cannot be parsed.\<close>

definition login_user ::
  "(rstring \<Rightarrow> rstring \<Rightarrow> bool option) \<Rightarrow> (claims \<Rightarrow> 't) \<Rightarrow> rstring \<Rightarrow> rstring \<Rightarrow> accounts \<Rightarrow> ('t \<times> user) http" where
  "login_user check sign identifier password a =
     (case get_user_by_identifier identifier a of
        None \<Rightarrow> Err (401, str ''Invalid credentials'')
      | Some u \<Rightarrow>
          if \<not> us_email_verified u then
            Err (403, str ''Please verify your email before logging in. Check your inbox for the verification link.'')
          else
            (case check (us_password_hash u) password of
               None \<Rightarrow> Err (500, str ''Internal server error'')
             | Some False \<Rightarrow> Err (401, str ''Invalid credentials'')
             | Some True \<Rightarrow>
                 Ok (sign \<lparr>cm_sub = us_id u, cm_name = us_username u, cm_role = us_role u,
                           cm_exp = ac_clock a + 7 * day\<rparr>, u)))"

text \<open>The caller of a request, from its token; nothing is looked up in the database.\<close>

record auth_user =
  au_id :: int
  au_username :: rstring
  au_role :: rstring

definition auth_from_token :: "('t \<Rightarrow> claims option) \<Rightarrow> 't option \<Rightarrow> auth_user http" where
  "auth_from_token decode bearer =
     (case bearer of
        None \<Rightarrow> Err (401, str ''Missing or invalid authorization header'')
      | Some t \<Rightarrow>
          (case decode t of
             None \<Rightarrow> Err (401, str ''Invalid or expired token'')
           | Some c \<Rightarrow> Ok \<lparr>au_id = cm_sub c, au_username = cm_name c, au_role = cm_role c\<rparr>))"

definition require_admin :: "auth_user \<Rightarrow> unit http" where
  "require_admin auth =
     (if au_role auth \<noteq> str ''admin'' then Err (403, str ''Admin access required'') else Ok ())"

definition me :: "auth_user \<Rightarrow> accounts \<Rightarrow> user http" where
  "me auth a = (case get_user_by_id (au_id auth) a of None \<Rightarrow> Err (404, str ''User not found'') | Some u \<Rightarrow> Ok u)"

section \<open>Roles and profiles\<close>

definition roles :: "rstring list" where "roles = [str ''admin'', str ''user'', str ''viewer'']"

text \<open>The guard and the update are separate statements of the handler: other requests run in between.\<close>

definition may_set_role :: "auth_user \<Rightarrow> int \<Rightarrow> rstring \<Rightarrow> accounts \<Rightarrow> unit http" where
  "may_set_role auth i role a =
     (if au_role auth \<noteq> str ''admin'' then Err (403, str ''Admin access required'')
      else if role \<notin> set roles then
        Err (400, str ''Invalid role '' @ [39] @ role @ [39] @ str ''. Must be '' @ [39] @ str ''admin'' @ [39]
          @ str '', '' @ [39] @ str ''user'' @ [39] @ str '', or '' @ [39] @ str ''viewer'' @ [39])
      else if role \<noteq> str ''admin'' then
        (case get_user_by_id i a of
           None \<Rightarrow> Err (404, str ''User not found'')
         | Some u \<Rightarrow>
             if us_role u = str ''admin'' \<and> count_admins a \<le> 1 then
               Err (400, str ''Cannot remove the last admin. Promote another user to admin first.'')
             else Ok ())
      else Ok ())"

definition update_user_role :: "auth_user \<Rightarrow> int \<Rightarrow> rstring \<Rightarrow> accounts \<Rightarrow> unit http \<times> accounts" where
  "update_user_role auth i role a =
     (case may_set_role auth i role a of
        Ok _ \<Rightarrow> (Ok (), set_user_role i role a)
      | Err e \<Rightarrow> (Err e, a)
      | Panic \<Rightarrow> (Panic, a))"

definition trimmed :: "unicode \<Rightarrow> rstring option \<Rightarrow> rstring option" where
  "trimmed u s = (case map_option (trim u) s of Some t \<Rightarrow> if t = [] then None else Some t | None \<Rightarrow> None)"

definition longer_than :: "nat \<Rightarrow> rstring option \<Rightarrow> bool" where
  "longer_than n s = (case s of Some t \<Rightarrow> n < length (as_bytes t) | None \<Rightarrow> False)"

definition update_profile ::
  "unicode \<Rightarrow> auth_user \<Rightarrow> rstring option \<Rightarrow> rstring option \<Rightarrow> accounts \<Rightarrow> user http \<times> accounts" where
  "update_profile u auth display_name bio a =
     (let display_name = trimmed u display_name; bio = trimmed u bio in
      if longer_than 50 display_name then (Err (400, str ''Display name must be 50 characters or fewer''), a)
      else if longer_than 500 bio then (Err (400, str ''Bio must be 500 characters or fewer''), a)
      else
        (case update_user_profile (au_id auth) display_name bio a of
           (Ok user, a) \<Rightarrow> (Ok user, a)
         | (Err _, a) \<Rightarrow> (Err (500, str ''Failed to update profile''), a)
         | (Panic, a) \<Rightarrow> (Panic, a)))"

text \<open>The upload after the image was decoded and written (\<open>saved\<close>), and the removal.\<close>

definition avatar_name :: "int \<Rightarrow> rstring" where
  "avatar_name i = str ''avatars/'' @ show_int i @ str ''.webp''"

definition finish_avatar_upload :: "auth_user \<Rightarrow> bool \<Rightarrow> accounts \<Rightarrow> user http \<times> accounts" where
  "finish_avatar_upload auth saved a =
     (if \<not> saved then (Err (500, str ''Failed to save avatar''), a)
      else
        (let a = update_user_avatar (au_id auth) (Some (avatar_name (au_id auth))) a in
         (me auth a, a)))"

definition delete_avatar :: "auth_user \<Rightarrow> accounts \<Rightarrow> user http \<times> accounts" where
  "delete_avatar auth a =
     (case get_user_by_id (au_id auth) a of
        None \<Rightarrow> (Err (404, str ''User not found''), a)
      | Some u \<Rightarrow> (Ok (u\<lparr>us_avatar_path := None\<rparr>), update_user_avatar (au_id auth) None a))"

text \<open>Start-up: the default administrator.\<close>

definition seed_admin :: "rstring \<Rightarrow> accounts \<Rightarrow> accounts" where
  "seed_admin password_hash a =
     (if get_user_by_username (str ''admin'') a = None
      then snd (create_user_verified (str ''admin'') password_hash (str ''admin'') a) else a)"

end
