(* ===== verification/Account_Properties.thy ===== *)
theory Account_Properties
  imports Accounts
begin

text \<open>
  The properties of the accounts: the table's constraints under every handler, what a registration leaves,
  the life of a verification token, the last administrator, and how long a token keeps its role.
\<close>

section \<open>What the table keeps\<close>

definition account_ok :: "user \<Rightarrow> bool" where
  "account_ok u \<longleftrightarrow>
     (if us_email_verified u then us_verification_token u = None
      else us_email u \<noteq> None \<and> us_verification_token u \<noteq> None \<and> us_token_expires_at u \<noteq> None)"

definition accounts_ok :: "accounts \<Rightarrow> bool" where
  "accounts_ok a \<longleftrightarrow>
     0 \<le> ac_seq a \<and> distinct (map us_id (ac_users a)) \<and> distinct (map us_username (ac_users a))
     \<and> distinct (List.map_filter us_email (ac_users a))
     \<and> list_all (\<lambda>u. 0 < us_id u \<and> us_id u \<le> ac_seq a) (ac_users a)
     \<and> list_all account_ok (ac_users a)"

text \<open>An update that keeps the key columns of the rows and makes good rows from good rows.\<close>

definition keeps_keys :: "(user \<Rightarrow> user) \<Rightarrow> bool" where
  "keeps_keys f \<longleftrightarrow>
     (\<forall>u. us_id (f u) = us_id u \<and> us_username (f u) = us_username u \<and> us_email (f u) = us_email u)"

lemma map_filter_map: "List.map_filter g (map f xs) = List.map_filter (g \<circ> f) xs"
  by (induction xs) (auto simp: List.map_filter_simps split: option.splits)

lemma map_filter_append: "List.map_filter g (xs @ ys) = List.map_filter g xs @ List.map_filter g ys"
  by (induction xs) (auto simp: List.map_filter_simps split: option.splits)

lemma set_map_filter: "set (List.map_filter g xs) = {y. \<exists>x\<in>set xs. g x = Some y}"
  by (induction xs) (auto simp: List.map_filter_simps split: option.splits)

lemma map_filter_filter_distinct:
  "distinct (List.map_filter g xs) \<Longrightarrow> distinct (List.map_filter g (filter P xs))"
proof (induction xs)
  case (Cons x xs)
  then show ?case
    by (cases "g x") (auto simp: List.map_filter_simps set_map_filter)
qed simp

lemma accounts_ok_update:
  assumes "accounts_ok a" and "keeps_keys f" and "\<And>u. u \<in> set (ac_users a) \<Longrightarrow> us_id u = i \<Longrightarrow> account_ok u \<Longrightarrow> account_ok (f u)"
  shows "accounts_ok (update_user i f a)"
proof -
  let ?g = "\<lambda>u. if us_id u = i then f u else u"
  have k: "us_id \<circ> ?g = us_id" "us_username \<circ> ?g = us_username" "us_email \<circ> ?g = us_email"
    using assms(2) by (auto simp: keeps_keys_def fun_eq_iff)
  have "list_all (\<lambda>u. 0 < us_id u \<and> us_id u \<le> ac_seq a) (map ?g (ac_users a))"
    using assms(1,2) by (auto simp: accounts_ok_def list_all_iff keeps_keys_def)
  moreover have "list_all account_ok (map ?g (ac_users a))"
    using assms(1,3) by (auto simp: accounts_ok_def list_all_iff)
  ultimately show ?thesis
    using assms(1) k by (simp add: accounts_ok_def update_user_def map_filter_map)
qed

lemma accounts_ok_insert:
  assumes "accounts_ok a" and "insert_user u a = (r, a')" and "account_ok u"
  shows "accounts_ok a'"
proof (cases "user_conflict (us_username u) (us_email u) a")
  case False
  with assms(2) have a': "a' = a\<lparr>ac_users := ac_users a @ [u\<lparr>us_id := ac_seq a + 1\<rparr>], ac_seq := ac_seq a + 1\<rparr>"
    by (auto simp: insert_user_def Let_def)
  have ids: "us_id x \<le> ac_seq a" if "x \<in> set (ac_users a)" for x
    using assms(1) that by (auto simp: accounts_ok_def list_all_iff)
  have "ac_seq a + 1 \<notin> us_id ` set (ac_users a)" using ids by force
  moreover have "us_username u \<notin> us_username ` set (ac_users a)"
    using False by (auto simp: user_conflict_def list_ex_iff)
  moreover have "distinct (List.map_filter us_email (ac_users a @ [u]))"
    using assms(1) False
    by (cases "us_email u") (auto simp: accounts_ok_def map_filter_append List.map_filter_simps set_map_filter
        user_conflict_def list_ex_iff)
  moreover have "List.map_filter us_email [u\<lparr>us_id := ac_seq a + 1\<rparr>] = List.map_filter us_email [u]"
    by (simp add: List.map_filter_simps)
  moreover have "us_id x \<le> ac_seq a + 1" if "x \<in> set (ac_users a)" for x
    using ids [OF that] by simp
  ultimately show ?thesis
    using assms(1,3)
    by (simp add: a' accounts_ok_def map_filter_append list_all_iff) (auto simp: account_ok_def)
qed (use assms in \<open>auto simp: insert_user_def\<close>)

lemma accounts_ok_delete: "accounts_ok a \<Longrightarrow> accounts_ok (delete_user i a)"
  by (auto simp: accounts_ok_def delete_user_def list_all_iff distinct_map_filterI map_filter_filter_distinct)

section \<open>Every request\<close>

text \<open>Everything that changes the table, as one step each; the clock only goes forward. In the program the statements of
  two requests can mix: between the insertion of a registration and its removal when the mail fails the account can be
  seen and changed, and a new link asked for while the old one is used can leave a token with a verified account.\<close>

inductive account_step :: "accounts \<Rightarrow> accounts \<Rightarrow> bool" where
  Registers: "account_step a (snd (register hashed tok mail username email password a))"
| Verifies: "account_step a (snd (verify_email tok a))"
| Resends: "account_step a (snd (resend_verification tok mail email a))"
| Sets_Role: "account_step a (snd (update_user_role auth i role a))"
| Edits_Profile: "account_step a (snd (update_profile u auth display_name bio a))"
| Uploads_Avatar: "account_step a (snd (finish_avatar_upload auth saved a))"
| Deletes_Avatar: "account_step a (snd (delete_avatar auth a))"
| Restarts: "account_step a (seed_admin password_hash a)"
| Time_Passes: "ac_clock a \<le> t \<Longrightarrow> account_step a (a\<lparr>ac_clock := t\<rparr>)"

inductive account_reachable :: "accounts \<Rightarrow> bool" where
  First_Start: "account_reachable (seed_admin password_hash accounts_empty)"
| Later_On: "account_reachable a \<Longrightarrow> account_step a a' \<Longrightarrow> account_reachable a'"

text \<open>An invariant of the table is kept by what the handlers do to it.\<close>

locale kept_by_handlers =
  fixes I :: "accounts \<Rightarrow> bool"
  assumes registered: "I a \<Longrightarrow> create_user n e h k t a = (Ok u, a') \<Longrightarrow> I a'"
    and rolled_back: "I a \<Longrightarrow> create_user n e h k t a = (Ok u, a') \<Longrightarrow> I (delete_user (us_id u) a')"
    and verified: "I a \<Longrightarrow> I (verify_user_email i a)"
    and resent: "I a \<Longrightarrow> get_user_by_email e a = Some u \<Longrightarrow> \<not> us_email_verified u
      \<Longrightarrow> I (update_verification_token (us_id u) k t a)"
    and promoted: "I a \<Longrightarrow> may_set_role auth i role a = Ok () \<Longrightarrow> I (set_user_role i role a)"
    and profiled: "I a \<Longrightarrow> I (update_user i (\<lambda>u. u\<lparr>us_display_name := d, us_bio := b, us_updated_at := t\<rparr>) a)"
    and pictured: "I a \<Longrightarrow> path \<in> {None, Some (avatar_name i)} \<Longrightarrow> I (update_user_avatar i path a)"
    and reseeded: "I a \<Longrightarrow> I (seed_admin h a)"
    and ticked: "I a \<Longrightarrow> I (a\<lparr>ac_clock := t\<rparr>)"
begin

lemma registers: "I a \<Longrightarrow> I (snd (register hashed tok mail username email password a))"
proof -
  assume i: "I a"
  have c: "fst (create_user n e h k t a) = Err x \<Longrightarrow> snd (create_user n e h k t a) = a" for n e h k t x
    by (auto simp: create_user_def insert_user_def Let_def split: if_splits)
  have p: "fst (create_user n e h k t a) \<noteq> Panic" for n e h k t
    by (auto simp: create_user_def insert_user_def Let_def)
  show ?thesis
  proof (cases hashed)
    case (Some h)
    obtain r a' where r: "create_user username email h tok (ac_clock a + day) a = (r, a')" by fastforce
    with c [of username email h tok "ac_clock a + day"] p [of username email h tok "ac_clock a + day"]
      registered [OF i] rolled_back [OF i] i
    show ?thesis
      by (cases r) (auto simp: register_def Some split: option.splits bool.splits)
  qed (simp add: register_def i)
qed

lemma steps: "account_step a a' \<Longrightarrow> I a \<Longrightarrow> I a'"
proof (induction rule: account_step.induct)
  case (Verifies a tok)
  then show ?case by (auto simp: verify_email_def verified split: option.splits)
next
  case (Resends a tok mail email)
  then show ?case by (auto simp: resend_verification_def Let_def resent split: option.splits)
next
  case (Sets_Role a auth i role)
  then show ?case
    by (cases "may_set_role auth i role a") (auto simp: update_user_role_def promoted)
next
  case (Edits_Profile a u auth display_name bio)
  then show ?case
    by (auto simp: update_profile_def update_user_profile_def Let_def profiled
        split: option.splits prod.splits outcome.splits)
next
  case (Deletes_Avatar a auth)
  then show ?case by (auto simp: delete_avatar_def pictured split: option.splits)
qed (simp_all add: registers reseeded ticked finish_avatar_upload_def Let_def pictured)

end

locale table_invariant = kept_by_handlers +
  assumes first_start: "I (seed_admin h accounts_empty)"
begin

lemma reachable: "account_reachable a \<Longrightarrow> I a"
  by (induction rule: account_reachable.induct) (simp_all add: first_start steps)

end

lemma get_user_SomeD: "find_user P a = Some u \<Longrightarrow> u \<in> set (ac_users a) \<and> P u"
  unfolding find_user_def by (rule find_SomeD)

lemma accounts_ok_seed: "accounts_ok a \<Longrightarrow> accounts_ok (seed_admin h a)"
  unfolding seed_admin_def create_user_verified_def
  using accounts_ok_insert [of a _ "fst (insert_user x a)" "snd (insert_user x a)" for x]
  by (auto simp: account_ok_def)

lemma accounts_ok_create:
  "accounts_ok a \<Longrightarrow> create_user n e h k t a = (r, a') \<Longrightarrow> accounts_ok a'"
  by (auto simp: create_user_def account_ok_def elim!: accounts_ok_insert)

interpretation constraints: table_invariant accounts_ok
proof unfold_locales
  show "accounts_ok (seed_admin h accounts_empty)" for h
    by (rule accounts_ok_seed) (simp add: accounts_ok_def accounts_empty_def List.map_filter_simps)
next
  fix a :: accounts and e u k t
  assume "accounts_ok a" "get_user_by_email e a = Some u" "\<not> us_email_verified u"
  have "\<not> us_email_verified x" if "x \<in> set (ac_users a)" "us_id x = us_id u" for x
  proof -
    have "u \<in> set (ac_users a)"
      using \<open>get_user_by_email e a = Some u\<close> get_user_SomeD by (auto simp: get_user_by_email_def)
    with that \<open>accounts_ok a\<close> have "x = u" by (auto simp: accounts_ok_def distinct_map inj_on_def)
    with \<open>\<not> us_email_verified u\<close> show ?thesis by simp
  qed
  with \<open>accounts_ok a\<close> show "accounts_ok (update_verification_token (us_id u) k t a)"
    unfolding update_verification_token_def
    by (intro accounts_ok_update) (auto simp: keeps_keys_def account_ok_def)
next
  show "accounts_ok a \<Longrightarrow> accounts_ok (a\<lparr>ac_clock := t\<rparr>)" for a :: accounts and t
    by (simp add: accounts_ok_def)
qed (auto simp: verify_user_email_def set_user_role_def update_user_avatar_def accounts_ok_create accounts_ok_delete
    accounts_ok_seed keeps_keys_def account_ok_def intro!: accounts_ok_update split: if_splits)

section \<open>Administrators\<close>

lemma count_admins_update:
  "distinct (map us_id us) \<Longrightarrow>
   length (filter P us) \<le> Suc (length (filter P (map (\<lambda>u. if us_id u = i then f u else u) us)))"
proof (induction us)
  case (Cons u us)
  show ?case
  proof (cases "us_id u = i")
    case True
    then have "us_id x \<noteq> i" if "x \<in> set us" for x
      using Cons.prems that by (auto simp: image_iff)
    then have "map (\<lambda>u. if us_id u = i then f u else u) us = us"
      by (intro map_idI) simp
    with True show ?thesis by simp
  qed (use Cons in auto)
qed simp

lemma count_admins_keep:
  "\<forall>u\<in>set us. us_id u = i \<longrightarrow> P u \<longrightarrow> P (f u) \<Longrightarrow>
   length (filter P us) \<le> length (filter P (map (\<lambda>u. if us_id u = i then f u else u) us))"
  by (induction us) auto

lemma get_user_by_id_unique:
  "distinct (map us_id (ac_users a)) \<Longrightarrow> u \<in> set (ac_users a) \<Longrightarrow> get_user_by_id (us_id u) a = Some u"
  unfolding get_user_by_id_def find_user_def
  by (auto simp: find_Some_iff in_set_conv_nth distinct_conv_nth)

lemma count_admins_role:
  assumes "distinct (map us_id (ac_users a))" and "may_set_role auth i role a = Ok ()"
    and "1 \<le> count_admins a"
  shows "1 \<le> count_admins (set_user_role i role a)"
proof (cases "role \<noteq> str ''admin'' \<and> (\<exists>u\<in>set (ac_users a). us_id u = i \<and> us_role u = str ''admin'')")
  case True
  then obtain u where u: "u \<in> set (ac_users a)" "us_id u = i" "us_role u = str ''admin''" by blast
  with get_user_by_id_unique [OF assms(1) u(1)] True assms(2) have "2 \<le> count_admins a"
    by (auto simp: may_set_role_def split: if_splits)
  moreover have "count_admins a \<le> Suc (count_admins (set_user_role i role a))"
    using count_admins_update [OF assms(1)]
    by (simp add: count_admins_def set_user_role_def update_user_def)
  ultimately show ?thesis by simp
next
  case False
  then have "count_admins a \<le> count_admins (set_user_role i role a)"
    by (auto simp: count_admins_def set_user_role_def update_user_def simp del: length_filter_map
        intro!: count_admins_keep)
  with assms(3) show ?thesis by simp
qed

lemma count_admins_same:
  "(\<And>u. us_role (f u) = us_role u) \<Longrightarrow> count_admins a \<le> count_admins (update_user i f a)"
  by (auto simp: count_admins_def update_user_def simp del: length_filter_map intro!: count_admins_keep)

lemma create_user_rollback:
  assumes "accounts_ok a" and "create_user n e h k t a = (Ok u, a')"
  shows "ac_users (delete_user (us_id u) a') = ac_users a"
    and "ac_users a' = ac_users a @ [u]" and "us_id u = ac_seq a + 1" and "us_role u = str ''user''"
proof -
  from assms(2) show "ac_users a' = ac_users a @ [u]" "us_id u = ac_seq a + 1" "us_role u = str ''user''"
    by (auto simp: create_user_def insert_user_def Let_def split: if_splits)
  moreover have "filter (\<lambda>x. us_id x \<noteq> ac_seq a + 1) (ac_users a) = ac_users a"
    using assms(1) by (intro filter_True) (auto simp: accounts_ok_def list_all_iff)
  ultimately show "ac_users (delete_user (us_id u) a') = ac_users a"
    by (simp add: delete_user_def)
qed

interpretation admins: table_invariant "\<lambda>a. accounts_ok a \<and> 1 \<le> count_admins a"
proof unfold_locales
  fix h
  show "accounts_ok (seed_admin h accounts_empty) \<and> 1 \<le> count_admins (seed_admin h accounts_empty)"
    using constraints.first_start [of h]
    by (simp add: seed_admin_def create_user_verified_def insert_user_def user_conflict_def accounts_empty_def
        get_user_by_username_def find_user_def count_admins_def Let_def)
next
  fix a a' :: accounts and n e h k t u
  assume a: "accounts_ok a \<and> 1 \<le> count_admins a" and c: "create_user n e h k t a = (Ok u, a')"
  show "accounts_ok a' \<and> 1 \<le> count_admins a'"
    using a create_user_rollback(2) [OF conjunct1 [OF a] c] accounts_ok_create [OF conjunct1 [OF a] c]
    by (simp add: count_admins_def)
  show "accounts_ok (delete_user (us_id u) a') \<and> 1 \<le> count_admins (delete_user (us_id u) a')"
    using a create_user_rollback(1) [OF conjunct1 [OF a] c] accounts_ok_create [OF conjunct1 [OF a] c]
    by (simp add: count_admins_def accounts_ok_delete)
next
  fix a :: accounts and auth i role
  assume "accounts_ok a \<and> 1 \<le> count_admins a" "may_set_role auth i role a = Ok ()"
  then show "accounts_ok (set_user_role i role a) \<and> 1 \<le> count_admins (set_user_role i role a)"
    using constraints.promoted count_admins_role by (auto simp: accounts_ok_def)
next
  fix a :: accounts and h
  assume a: "accounts_ok a \<and> 1 \<le> count_admins a"
  have "count_admins a \<le> count_admins (seed_admin h a)"
    by (simp add: seed_admin_def create_user_verified_def insert_user_def Let_def count_admins_def)
  with a constraints.reseeded [of a h] show "accounts_ok (seed_admin h a) \<and> 1 \<le> count_admins (seed_admin h a)"
    by simp
qed (use constraints.verified constraints.resent constraints.profiled constraints.pictured constraints.ticked in
    \<open>auto simp: verify_user_email_def update_verification_token_def update_user_avatar_def count_admins_def
      intro: order_trans [OF _ count_admins_same, unfolded count_admins_def]\<close>)

text \<open>C33: the constraints of the users table hold in every state that any sequence of requests can
  produce: ids are unique and none exceeds the counter they are taken from, no two accounts share a name or an email, a verified
  account has no verification token left and an unverified one has an email, a token and an expiry. And
  at least one account is an administrator, as long as the requests that change a role run one at a time;
  two requests that demote the only two administrators at the same time both pass the guard and leave
  none. (A sequence: each request has ended before the next begins.)\<close>

theorem accounts_invariant:
  assumes "account_reachable a" and "us_id x \<noteq> us_id y"
    and "ac_users b = [x, y]" and "us_role x = str ''admin''" and "us_role y = str ''admin''"
    and "au_role auth = str ''admin''"
  shows "accounts_ok a \<and> 1 \<le> count_admins a
    \<and> may_set_role auth (us_id x) (str ''user'') b = Ok ()
    \<and> may_set_role auth (us_id y) (str ''user'') b = Ok ()
    \<and> count_admins (set_user_role (us_id y) (str ''user'') (set_user_role (us_id x) (str ''user'') b)) = 0"
proof -
  have "str ''user'' \<noteq> str ''admin''" by (simp add: str_def)
  then show ?thesis
    using admins.reachable [OF assms(1)] assms(2-6)
    by (auto simp: may_set_role_def roles_def get_user_by_id_def find_user_def count_admins_def
        set_user_role_def update_user_def)
qed

definition sample_user :: user where
  "sample_user = \<lparr>us_id = 1, us_username = str ''admin'', us_email = None, us_password_hash = [],
     us_email_verified = True, us_verification_token = None, us_token_expires_at = None,
     us_display_name = None, us_bio = None, us_avatar_path = None, us_role = str ''admin'',
     us_created_at = 0, us_updated_at = 0\<rparr>"

theorem accounts_invariant_witness:
  "1 \<le> count_admins (snd (register (Some []) (str ''t'') None (str ''bob'') (str ''b@x.y'') (str ''password'')
     (seed_admin [] accounts_empty)))"
  using accounts_invariant [OF account_reachable.Later_On, OF account_reachable.First_Start account_step.Registers,
      of sample_user "sample_user\<lparr>us_id := 2\<rparr>" "\<lparr>ac_users = [sample_user, sample_user\<lparr>us_id := 2\<rparr>], ac_seq = 2, ac_clock = 0\<rparr>"
        "\<lparr>au_id = 1, au_username = [], au_role = str ''admin''\<rparr>"]
  by (simp add: sample_user_def)

section \<open>Registration\<close>

lemma no_conflict_text: "register_conflict (str ''Failed to create user'') = (500, str ''Failed to create user'')"
proof -
  have "\<not> contains (str ''Failed to create user'') (str ''UNIQUE'')"
    by (simp add: contains_def str_def sublist_Cons_right)
  then show ?thesis by (simp add: register_conflict_def)
qed

lemma register_cases:
  assumes "accounts_ok a" and "register hashed tok mail username email password a = (r, a')"
  shows "(\<exists>m u. r = Ok m \<and> mail = Some True \<and> ac_users a' = ac_users a @ [u]
        \<and> us_username u = username \<and> us_email u = Some email \<and> \<not> us_email_verified u
        \<and> us_verification_token u = Some tok \<and> us_token_expires_at u = Some (ac_clock a + day)
        \<and> us_role u = str ''user'' \<and> us_id u = ac_seq a + 1 \<and> ac_clock a' = ac_clock a
        \<and> hashed = Some (us_password_hash u) \<and> ac_seq a' = ac_seq a + 1)
     \<or> (\<exists>c m. r = Err (c, m) \<and> c \<noteq> 409 \<and> ac_users a' = ac_users a)"
proof (cases hashed)
  case (Some h)
  obtain d a1 where d: "create_user username email h tok (ac_clock a + day) a = (d, a1)" by fastforce
  show ?thesis
  proof (cases d)
    case (Ok u)
    note b = create_user_rollback [OF assms(1) d [unfolded Ok]]
    have u: "us_username u = username" "us_email u = Some email" "\<not> us_email_verified u"
      "us_verification_token u = Some tok" "us_token_expires_at u = Some (ac_clock a + day)"
      "us_password_hash u = h" "ac_clock a1 = ac_clock a" "ac_seq a1 = ac_seq a + 1"
      using d by (auto simp: Ok create_user_def insert_user_def Let_def split: if_splits)
    show ?thesis
      using assms(2) d b u
      by (cases mail; cases "mail = Some True") (auto simp: register_def Some Ok split: if_splits bool.splits)
  next
    case (Err e)
    then have "e = str ''Failed to create user''" "a1 = a"
      using d by (auto simp: create_user_def insert_user_def Let_def split: if_splits)
    with assms(2) d Err show ?thesis
      by (auto simp: register_def Some no_conflict_text split: if_splits)
  qed (use d in \<open>auto simp: create_user_def insert_user_def Let_def split: if_splits\<close>)
qed (use assms(2) in \<open>auto simp: register_def split: if_splits\<close>)

text \<open>A registration that succeeds adds exactly one account: unverified, an ordinary user, with the
  token that was mailed, valid for a day. One that fails for any reason - invalid input, a name or email
  already taken, no mail service or a mail that cannot be sent - leaves the accounts as they were. But a
  taken name or email is never reported as such: the error the handler looks for UNIQUE in shows only the
  text of its context, so the answer is an internal error and never the conflict it was written for.\<close>

lemma registration_outcome:
  assumes "account_reachable a" and "register hashed tok mail username email password a = (r, a')"
  shows "(\<exists>m u. r = Ok m \<and> mail = Some True \<and> ac_users a' = ac_users a @ [u]
        \<and> us_username u = username \<and> us_email u = Some email \<and> \<not> us_email_verified u
        \<and> us_verification_token u = Some tok \<and> us_token_expires_at u = Some (ac_clock a + day)
        \<and> us_role u = str ''user'')
     \<or> (\<exists>c m. r = Err (c, m) \<and> c \<noteq> 409 \<and> ac_users a' = ac_users a)"
  using register_cases [OF constraints.reachable [OF assms(1)] assms(2)] by blast

lemma registration_outcome_witness:
  "\<exists>c m. fst (register (Some []) (str ''t'') None (str ''bob'') (str ''b@x.y'') (str ''password'')
     (seed_admin [] accounts_empty)) = Err (c, m) \<and> c \<noteq> 409"
  using registration_outcome [OF account_reachable.First_Start, of "Some []" "str ''t''" None "str ''bob''" "str ''b@x.y''"
      "str ''password''" "[]"]
  by (cases "register (Some []) (str ''t'') None (str ''bob'') (str ''b@x.y'') (str ''password'')
     (seed_admin [] accounts_empty)") auto

lemma find_none_last: "list_all (\<lambda>x. \<not> P x) xs \<Longrightarrow> \<not> P u \<Longrightarrow> find P (xs @ [u]) = None"
  by (induction xs) auto

lemma update_last:
  "list_all (\<lambda>x. us_id x \<noteq> us_id u) xs \<Longrightarrow>
   map (\<lambda>x. if us_id x = us_id u then f x else x) (xs @ [u]) = xs @ [f u]"
  by (induction xs) auto

text \<open>The life of an account: until its address is confirmed the password does not log in; within a day
  the mailed token confirms the address, once, after which the password logs in and the token of the
  session names the account, its role and an expiry in seven days; after the day the token is refused and
  changes nothing. (The account is found by its email, as long as nobody took that email as a name.)\<close>

lemma verification_life:
  assumes "account_reachable a" and "register (Some h) tok (Some True) username email password a = (Ok m, a1)"
    and "list_all (\<lambda>u. us_verification_token u \<noteq> Some tok \<and> us_username u \<noteq> email) (ac_users a)"
    and "check h password = Some True" and "a2 = a1\<lparr>ac_clock := t\<rparr>" and "a3 = snd (verify_email tok a2)"
  shows "login_user check sign email password a2 =
        Err (403, str ''Please verify your email before logging in. Check your inbox for the verification link.'')
    \<and> (if t \<le> ac_clock a + day
       then is_ok (fst (verify_email tok a2))
         \<and> (\<exists>u. login_user check sign email password a3 =
              Ok (sign \<lparr>cm_sub = ac_seq a + 1, cm_name = username, cm_role = str ''user'', cm_exp = t + 7 * day\<rparr>, u))
         \<and> verify_email tok a3 = (Err (400, str ''Invalid or expired verification token''), a3)
       else verify_email tok a2 =
          (Err (400, str ''Verification token has expired. Please request a new one.''), a2))"
proof -
  have ok: "accounts_ok a" by (rule constraints.reachable [OF assms(1)])
  obtain u where u: "ac_users a1 = ac_users a @ [u]" "us_username u = username" "us_email u = Some email"
      "\<not> us_email_verified u" "us_verification_token u = Some tok"
      "us_token_expires_at u = Some (ac_clock a + day)" "us_role u = str ''user''" "us_id u = ac_seq a + 1"
      "us_password_hash u = h"
    using register_cases [OF ok assms(2)] by auto
  have ok1: "accounts_ok a1" using constraints.registers [OF ok, of "Some h" tok "Some True" username email password]
    by (simp add: assms(2))
  have e: "list_all (\<lambda>x. us_email x \<noteq> Some email) (ac_users a)"
    using ok1 u(1,3)
    by (auto simp: accounts_ok_def map_filter_append List.map_filter_simps set_map_filter list_all_iff)
  have i: "list_all (\<lambda>x. us_id x \<noteq> us_id u) (ac_users a)"
    using ok u(8) by (auto simp: accounts_ok_def list_all_iff)
  have by_mail: "find (\<lambda>x. us_email x = Some email \<or> us_username x = email) (ac_users a @ [v]) = Some v"
    if "us_email v = Some email" for v
    using e assms(3) that by (intro find_append_last) (auto simp: list_all_iff)
  have by_token: "find (\<lambda>x. us_verification_token x = Some tok) (ac_users a @ [u]) = Some u"
    using assms(3) u(5) by (intro find_append_last) (auto simp: list_all_iff)
  have gone: "find (\<lambda>x. us_verification_token x = Some tok) (ac_users a @ [v]) = None"
    if "us_verification_token v = None" for v
    using assms(3) that by (intro find_none_last) (auto simp: list_all_iff)
  have login2: "login_user check sign email password a2 =
        Err (403, str ''Please verify your email before logging in. Check your inbox for the verification link.'')"
    using by_mail [of u] u by (simp add: login_user_def get_user_by_identifier_def find_user_def assms(5))
  show ?thesis
  proof (cases "t \<le> ac_clock a + day")
    case True
    let ?v = "u\<lparr>us_email_verified := True, us_verification_token := None, us_token_expires_at := None,
        us_updated_at := t\<rparr>"
    have "verify_email tok a2 =
        (Ok (str ''Email verified successfully! You can now log in.''), a2\<lparr>ac_users := ac_users a @ [?v]\<rparr>)"
      using by_token u update_last [OF i, of "\<lambda>_. ?v"] update_last [OF i] True
      by (simp add: verify_email_def get_user_by_verification_token_def find_user_def assms(5)
          verify_user_email_def update_user_def)
    moreover from this have "a3 = a2\<lparr>ac_users := ac_users a @ [?v]\<rparr>" by (simp add: assms(6))
    moreover from this have "login_user check sign email password a3 =
        Ok (sign \<lparr>cm_sub = ac_seq a + 1, cm_name = username, cm_role = str ''user'', cm_exp = t + 7 * day\<rparr>, ?v)"
      using by_mail [of ?v] u assms(4)
      by (simp add: login_user_def get_user_by_identifier_def find_user_def assms(5))
    moreover have "verify_email tok a3 = (Err (400, str ''Invalid or expired verification token''), a3)"
      using calculation(2) gone [of ?v]
      by (simp add: verify_email_def get_user_by_verification_token_def find_user_def)
    ultimately show ?thesis using True login2 by simp
  next
    case False
    then have "verify_email tok a2 =
        (Err (400, str ''Verification token has expired. Please request a new one.''), a2)"
      using by_token u
      by (simp add: verify_email_def get_user_by_verification_token_def find_user_def assms(5))
    with False login2 show ?thesis by simp
  qed
qed

lemma verification_life_witness:
  "is_ok (fst (verify_email (str ''t'') (snd (register (Some []) (str ''t'') (Some True) (str ''bob'')
     (str ''b@x.y'') (str ''password'') (seed_admin [] accounts_empty)))))"
proof -
  let ?a = "seed_admin [] accounts_empty"
  obtain r a1 where r: "register (Some []) (str ''t'') (Some True) (str ''bob'') (str ''b@x.y'')
      (str ''password'') ?a = (r, a1)" by fastforce
  have a: "ac_users ?a = [sample_user]"
    by (simp add: seed_admin_def create_user_verified_def insert_user_def user_conflict_def accounts_empty_def
        get_user_by_username_def find_user_def sample_user_def Let_def)
  have "\<exists>m. r = Ok m"
    using r by (auto simp: register_def str_def utf8_char_def create_user_def insert_user_def user_conflict_def a
        sample_user_def Let_def)
  then obtain m where m: "r = Ok m" by blast
  have c: "ac_clock a1 = ac_clock ?a"
    using register_cases [OF constraints.reachable [OF account_reachable.First_Start] r] m by auto
  have "list_all (\<lambda>u. us_verification_token u \<noteq> Some (str ''t'') \<and> us_username u \<noteq> str ''b@x.y'') (ac_users ?a)"
    by (simp add: a sample_user_def str_def)
  from verification_life [OF account_reachable.First_Start r [unfolded m] this, of "\<lambda>_ _. Some True" a1 "ac_clock a1" _ id,
      OF refl _ refl] c r
  show ?thesis by simp
qed

section \<open>Tokens\<close>

text \<open>A token keeps the role it was issued with: an administrator who is demoted to an ordinary user still
  passes the administrator's check with the old token until it expires - and can promote himself again.
  (The signature library is trusted to give back the claims of an unexpired token.)\<close>

lemma demoted_admin_keeps_role:
  assumes "login_user check sign identifier password a = Ok (t, u)" and "us_role u = str ''admin''"
    and "\<And>c. ac_clock later \<le> cm_exp c \<Longrightarrow> decode (sign c) = Some c"
    and "ac_clock later \<le> ac_clock a + 7 * day"
    and "later = (set_user_role (us_id u) (str ''user'') a)\<lparr>ac_clock := time\<rparr>"
    and "auth_from_token decode (Some t) = r"
  shows "\<exists>auth. r = Ok auth \<and> au_id auth = us_id u \<and> require_admin auth = Ok ()
    \<and> update_user_role auth (us_id u) (str ''admin'') later =
        (Ok (), set_user_role (us_id u) (str ''admin'') later)"
proof -
  have t: "t = sign \<lparr>cm_sub = us_id u, cm_name = us_username u, cm_role = us_role u,
      cm_exp = ac_clock a + 7 * day\<rparr>"
    using assms(1) by (auto simp: login_user_def split: option.splits if_splits bool.splits)
  have "r = Ok \<lparr>au_id = us_id u, au_username = us_username u, au_role = str ''admin''\<rparr>"
    using assms(2,4,6) assms(3) [of "\<lparr>cm_sub = us_id u, cm_name = us_username u, cm_role = us_role u,
      cm_exp = ac_clock a + 7 * day\<rparr>"]
    by (auto simp: t auth_from_token_def)
  then show ?thesis
    by (simp add: require_admin_def update_user_role_def may_set_role_def roles_def)
qed

lemma demoted_admin_keeps_role_witness:
  "\<exists>auth. auth_from_token Some (Some \<lparr>cm_sub = 1, cm_name = str ''admin'', cm_role = str ''admin'',
      cm_exp = 7 * day\<rparr>) = Ok auth \<and> require_admin auth = Ok ()"
proof -
  let ?a = "\<lparr>ac_users = [sample_user], ac_seq = 1, ac_clock = 0\<rparr>"
  have "login_user (\<lambda>_ _. Some True) id (str ''admin'') [] ?a =
      Ok (\<lparr>cm_sub = 1, cm_name = str ''admin'', cm_role = str ''admin'', cm_exp = 7 * day\<rparr>, sample_user)"
    by (simp add: login_user_def get_user_by_identifier_def find_user_def sample_user_def)
  from demoted_admin_keeps_role [where decode = Some and time = 5, OF this _ _ _ refl refl] show ?thesis
    by (auto simp: sample_user_def day_def)
qed

end
