(* ===== verification/Music_Search.thy ===== *)
theory Music_Search
  imports Rust_Strings Float64
begin

text \<open>
  The metadata of a track (\<open>TrackMetadata\<close> of \<open>src/src/models/mod.rs\<close>) and what the clients of the four
  external services make of an answer: \<open>musicbrainz.rs\<close>, \<open>discogs.rs\<close>, \<open>coverart.rs\<close> and \<open>getsongbpm.rs\<close>
  of \<open>src/src/services/metadata\<close>. The answer itself, after HTTP and JSON, is an argument; fields of an
  answer that the code never reads are left out. Scores are integers, far inside 32 bits.
\<close>

section \<open>Track metadata\<close>

record track_metadata =
  tm_artist :: "rstring option"
  tm_album :: "rstring option"
  tm_title :: "rstring option"
  tm_bpm :: "int option"
  tm_key :: "rstring option"
  tm_duration_ms :: "int option"
  tm_album_art_url :: "rstring option"
  tm_genre :: "rstring option"
  tm_year :: "int option"
  tm_track_number :: "int option"
  tm_label :: "rstring option"
  tm_musicbrainz_id :: "rstring option"
  tm_sources :: "rstring list"
  tm_fetched_at :: "nat option"

definition no_metadata :: track_metadata where
  "no_metadata = \<lparr>tm_artist = None, tm_album = None, tm_title = None, tm_bpm = None, tm_key = None,
     tm_duration_ms = None, tm_album_art_url = None, tm_genre = None, tm_year = None, tm_track_number = None,
     tm_label = None, tm_musicbrainz_id = None, tm_sources = [], tm_fetched_at = None\<rparr>"

text \<open>\<open>if b.is_some() { a = b }\<close>\<close>

definition overriding :: "'a option \<Rightarrow> 'a option \<Rightarrow> 'a option" where
  "overriding b a = (if b = None then a else b)"

definition add_source :: "rstring \<Rightarrow> rstring list \<Rightarrow> rstring list" where
  "add_source s ss = (if s \<in> set ss then ss else ss @ [s])"

text \<open>\<open>merge other self\<close>; the time of the fetch is not merged.\<close>

definition merge :: "track_metadata \<Rightarrow> track_metadata \<Rightarrow> track_metadata" where
  "merge b a = a\<lparr>tm_artist := overriding (tm_artist b) (tm_artist a), tm_album := overriding (tm_album b) (tm_album a),
     tm_title := overriding (tm_title b) (tm_title a), tm_bpm := overriding (tm_bpm b) (tm_bpm a),
     tm_key := overriding (tm_key b) (tm_key a), tm_duration_ms := overriding (tm_duration_ms b) (tm_duration_ms a),
     tm_album_art_url := overriding (tm_album_art_url b) (tm_album_art_url a),
     tm_genre := overriding (tm_genre b) (tm_genre a), tm_year := overriding (tm_year b) (tm_year a),
     tm_track_number := overriding (tm_track_number b) (tm_track_number a),
     tm_label := overriding (tm_label b) (tm_label a),
     tm_musicbrainz_id := overriding (tm_musicbrainz_id b) (tm_musicbrainz_id a),
     tm_sources := fold add_source (tm_sources b) (tm_sources a)\<rparr>"

definition has_core_fields :: "track_metadata \<Rightarrow> bool" where
  "has_core_fields m \<longleftrightarrow> tm_artist m \<noteq> None \<and> tm_title m \<noteq> None"

section \<open>Answers and numbers\<close>

text \<open>A request fails to be sent, is refused with a status and a body, is not the expected JSON, or gives a
  value.\<close>

datatype 'a answer = Unsent | Refused rstring rstring | Not_Json | Json 'a

definition digit :: "rchar \<Rightarrow> bool" where
  "digit c \<longleftrightarrow> 48 \<le> c \<and> c \<le> 57"

fun digits_value :: "nat \<Rightarrow> rstring \<Rightarrow> nat" where
  "digits_value n [] = n"
| "digits_value n (c # s) = digits_value (10 * n + (c - 48)) s"

definition parse_nat :: "rstring \<Rightarrow> nat option" where
  "parse_nat s = (if s \<noteq> [] \<and> list_all digit s then Some (digits_value 0 s) else None)"

text \<open>\<open>s.parse::<iN>()\<close> with the bounds of the type: a sign and decimal digits; 43 is plus, 45 minus.\<close>

definition parse_int :: "int \<Rightarrow> int \<Rightarrow> rstring \<Rightarrow> int option" where
  "parse_int lo hi s =
     (case (case s of
              [] \<Rightarrow> None
            | c # t \<Rightarrow> if c = 43 then map_option int (parse_nat t)
                     else if c = 45 then map_option (\<lambda>n. - int n) (parse_nat t)
                     else map_option int (parse_nat s)) of
        None \<Rightarrow> None
      | Some n \<Rightarrow> if lo \<le> n \<and> n \<le> hi then Some n else None)"

definition parse_i32 :: "rstring \<Rightarrow> int option" where
  "parse_i32 = parse_int (- (2 ^ 31)) (2 ^ 31 - 1)"

definition parse_i64 :: "rstring \<Rightarrow> int option" where
  "parse_i64 = parse_int (- (2 ^ 63)) (2 ^ 63 - 1)"

definition as_i64 :: "int \<Rightarrow> int" where
  "as_i64 n = (n + 2 ^ 63) mod 2 ^ 64 - 2 ^ 63"

text \<open>\<open>&s[..n]\<close>: the characters that make up the first \<open>n\<close> bytes; a panic inside a character.\<close>

fun byte_prefix :: "nat \<Rightarrow> rstring \<Rightarrow> rstring option" where
  "byte_prefix 0 s = Some []"
| "byte_prefix (Suc n) [] = None"
| "byte_prefix (Suc n) (c # s) =
     (if length (utf8_char c) \<le> Suc n then map_option ((#) c) (byte_prefix (Suc n - length (utf8_char c)) s)
      else None)"

text \<open>The words of a name: 45 is the hyphen, 95 the underscore, 39 the apostrophe.\<close>

definition separator :: "unicode \<Rightarrow> rchar \<Rightarrow> bool" where
  "separator u c \<longleftrightarrow> whitespace u c \<or> c = 45 \<or> c = 95 \<or> c = 39"

definition words_of :: "unicode \<Rightarrow> rstring \<Rightarrow> rstring list" where
  "words_of u s = split_words (separator u) [] s"

definition long_words :: "unicode \<Rightarrow> nat \<Rightarrow> rstring list \<Rightarrow> rstring \<Rightarrow> rstring list" where
  "long_words u n stop s = filter (\<lambda>w. n < length (as_bytes w) \<and> w \<notin> set stop) (words_of u s)"

text \<open>A word of the query in a text: 10, and 5 more if it is one of its words.\<close>

definition word_points :: "unicode \<Rightarrow> rstring \<Rightarrow> rstring \<Rightarrow> int" where
  "word_points u t w = (if contains t w then 10 + (if w \<in> set (words_of u t) then 5 else 0) else 0)"

text \<open>The loop that keeps the first result with the highest score.\<close>

fun best_from :: "('a \<Rightarrow> int) \<Rightarrow> nat \<Rightarrow> int \<times> nat \<Rightarrow> 'a list \<Rightarrow> int \<times> nat" where
  "best_from f i (best_score, best_idx) [] = (best_score, best_idx)"
| "best_from f i (best_score, best_idx) (x # xs) =
     best_from f (i + 1) (if best_score < f x then (f x, i) else (best_score, best_idx)) xs"

definition select_best :: "int \<Rightarrow> ('a \<Rightarrow> int) \<Rightarrow> 'a list \<Rightarrow> 'a option" where
  "select_best threshold f xs =
     (case best_from f 0 (- (2 ^ 31), 0) xs of
        (best_score, best_idx) \<Rightarrow> if best_score < threshold then None else Some (xs ! best_idx))"

section \<open>MusicBrainz\<close>

record mb_release =
  rl_id :: rstring
  rl_title :: "rstring option"
  rl_date :: "rstring option"
  rl_label_info :: "rstring option list option"

record recording =
  rc_id :: rstring
  rc_title :: "rstring option"
  rc_artist_credit :: "rstring list option"
  rc_first_release_date :: "rstring option"
  rc_releases :: "mb_release list option"
  rc_tags :: "(rstring \<times> int) list option"

definition mb_stop_words :: "rstring list" where
  "mb_stop_words = map str [''the'', ''a'', ''an'', ''and'', ''or'', ''of'', ''in'', ''on'', ''at'', ''to'',
     ''for'', ''it'', ''is'']"

definition mb_score :: "unicode \<Rightarrow> rstring \<Rightarrow> rstring \<Rightarrow> rstring \<Rightarrow> int" where
  "mb_score u query artist title =
     (let query = lowercase u query; artist = lowercase u artist; title = lowercase u title;
          query_words = long_words u 1 mb_stop_words query;
          artist_matched = list_ex (contains artist) query_words;
          title_matched = list_ex (contains title) query_words;
          combined = long_words u 2 mb_stop_words (artist @ [32] @ title);
          unknown = filter (\<lambda>w. \<not> list_ex (\<lambda>q. contains w q \<or> contains q w) query_words) combined
      in sum_list (map (\<lambda>w. word_points u artist w + word_points u title w) query_words)
         + (if artist = query \<or> title = query then 50 else 0)
         - (if artist_matched then 0 else 50)
         + (if artist_matched \<and> title_matched then 20 else 0)
         - 2 * int (length unknown))"

definition first_artist :: "recording \<Rightarrow> rstring" where
  "first_artist r = (case rc_artist_credit r of Some (a # _) \<Rightarrow> a | _ \<Rightarrow> [])"

definition select_recording :: "unicode \<Rightarrow> rstring \<Rightarrow> recording list \<Rightarrow> recording option" where
  "select_recording u query =
     select_best 20 (\<lambda>r. mb_score u query (first_artist r)
       (case rc_title r of Some t \<Rightarrow> t | None \<Rightarrow> []))"

text \<open>The year of a date: its first four bytes; a date whose fourth byte is inside a character panics.\<close>

definition year_of :: "rstring \<Rightarrow> (int option, rstring) outcome" where
  "year_of date =
     (if 4 \<le> length (as_bytes date) then
        (case byte_prefix 4 date of None \<Rightarrow> Panic | Some y \<Rightarrow> Ok (parse_i32 y))
      else Ok None)"

definition year_of_option :: "rstring option \<Rightarrow> (int option, rstring) outcome" where
  "year_of_option date = (case date of Some d \<Rightarrow> year_of d | None \<Rightarrow> Ok None)"

text \<open>The first of the most popular tags; the sort is stable.\<close>

definition top_tag :: "(rstring \<times> int) list \<Rightarrow> rstring option" where
  "top_tag tags = (case sort_key (\<lambda>t. - snd t) tags of [] \<Rightarrow> None | t # _ \<Rightarrow> Some (fst t))"

definition first_release :: "recording \<Rightarrow> mb_release option" where
  "first_release r = (case rc_releases r of Some (x # _) \<Rightarrow> Some x | _ \<Rightarrow> None)"

definition recording_to_metadata :: "recording \<Rightarrow> (track_metadata, rstring) outcome" where
  "recording_to_metadata r =
     obind (case first_release r of Some x \<Rightarrow> year_of_option (rl_date x) | None \<Rightarrow> Ok None) (\<lambda>release_year.
     obind (if release_year = None then year_of_option (rc_first_release_date r) else Ok release_year) (\<lambda>year.
     Ok (no_metadata\<lparr>
       tm_musicbrainz_id := Some (rc_id r),
       tm_title := rc_title r,
       tm_artist := (case rc_artist_credit r of
            Some (a # as) \<Rightarrow> Some (join_str (str '' & '') (a # as)) | _ \<Rightarrow> None),
       tm_album := (case first_release r of Some x \<Rightarrow> rl_title x | None \<Rightarrow> None),
       tm_label := (case first_release r of
            Some x \<Rightarrow> (case rl_label_info x of Some (l # _) \<Rightarrow> l | _ \<Rightarrow> None) | None \<Rightarrow> None),
       tm_year := year,
       tm_genre := (case rc_tags r of Some tags \<Rightarrow> top_tag tags | None \<Rightarrow> None),
       tm_sources := [str ''musicbrainz'']\<rparr>)))"

text \<open>34 is the quotation mark, which is removed from both names.\<close>

definition precise_query :: "rstring \<Rightarrow> rstring \<Rightarrow> rstring" where
  "precise_query artist title =
     str ''recording:'' @ [34] @ filter (\<lambda>c. c \<noteq> 34) title @ [34] @ str '' AND artist:''
     @ [34] @ filter (\<lambda>c. c \<noteq> 34) artist @ [34]"

definition recordings_url :: "(rstring \<Rightarrow> rstring) \<Rightarrow> rstring \<Rightarrow> nat \<Rightarrow> rstring" where
  "recordings_url encode query limit =
     str ''https://musicbrainz.org/ws/2/recording?query='' @ encode query @ str ''&fmt=json&limit='' @ show_nat limit"

definition mb_error :: "'a answer \<Rightarrow> ('b, rstring) outcome" where
  "mb_error a =
     (case a of
        Refused status body \<Rightarrow> Err (str ''MusicBrainz API error: '' @ status @ str '' - '' @ body)
      | Not_Json \<Rightarrow> Err (str ''Failed to parse MusicBrainz response'')
      | _ \<Rightarrow> Err (str ''Failed to send MusicBrainz request''))"

definition search_recording ::
  "unicode \<Rightarrow> rstring \<Rightarrow> recording list option answer \<Rightarrow> (track_metadata, rstring) outcome" where
  "search_recording u query a =
     (case a of
        Json recordings \<Rightarrow>
          (if recordings = None \<or> recordings = Some [] then Err (str ''No recordings found for query: '' @ query)
           else
             (case select_recording u query (the recordings) of
                None \<Rightarrow> Err (str ''No suitable match found for query '' @ [39] @ query @ [39]
                  @ str '' - all results scored below threshold'')
              | Some r \<Rightarrow> recording_to_metadata r))
      | _ \<Rightarrow> mb_error a)"

definition search_recording_precise ::
  "rstring \<Rightarrow> rstring \<Rightarrow> recording list option answer \<Rightarrow> (track_metadata, rstring) outcome" where
  "search_recording_precise artist title a =
     (case a of
        Json (Some (r # _)) \<Rightarrow> recording_to_metadata r
      | Json _ \<Rightarrow> Err (str ''No recordings found for artist='' @ [39] @ artist @ [39] @ str '', title=''
          @ [39] @ title @ [39])
      | _ \<Rightarrow> mb_error a)"

definition get_release_mbid ::
  "unicode \<Rightarrow> rstring \<Rightarrow> recording list option answer \<Rightarrow> (rstring option, rstring) outcome" where
  "get_release_mbid u query a =
     (case a of
        Refused _ _ \<Rightarrow> Ok None
      | Json (Some (r # rs)) \<Rightarrow>
          (case select_recording u query (r # rs) of
             None \<Rightarrow> Ok None
           | Some best \<Rightarrow> Ok (map_option rl_id (first_release best)))
      | Json _ \<Rightarrow> Ok None
      | _ \<Rightarrow> mb_error a)"

section \<open>Discogs\<close>

record discogs_result =
  dg_id :: int
  dg_title :: "rstring option"
  dg_year :: "rstring option"

record discogs_track =
  dt_title :: "rstring option"
  dt_duration :: "rstring option"

record discogs_release =
  re_title :: "rstring option"
  re_year :: "int option"
  re_artists :: "rstring list option"
  re_labels :: "rstring list option"
  re_genres :: "rstring list option"
  re_styles :: "rstring list option"
  re_tracklist :: "discogs_track list option"
  re_images :: "(rstring \<times> rstring option) list option"

text \<open>\<open>rfind\<close> and the slices before and after the match.\<close>

fun rsplit_once_str :: "rstring \<Rightarrow> rstring \<Rightarrow> (rstring \<times> rstring) option" where
  "rsplit_once_str needle [] = (if needle = [] then Some ([], []) else None)"
| "rsplit_once_str needle (c # s) =
     (case rsplit_once_str needle s of
        Some (a, b) \<Rightarrow> Some (c # a, b)
      | None \<Rightarrow> if prefix needle (c # s) then Some ([], drop (length needle) (c # s)) else None)"

text \<open>A number in parentheses after a name tells artists of one name apart; 40 and 41 are the parentheses.\<close>

definition clean_artist_name :: "unicode \<Rightarrow> rstring \<Rightarrow> rstring" where
  "clean_artist_name u name =
     (let trimmed = trim u name in
      case rsplit_once_str [32, 40] trimmed of
        Some (before, rest) \<Rightarrow>
          if trimmed \<noteq> [] \<and> last trimmed = 41 \<and> list_all digit (butlast rest) then before else trimmed
      | None \<Rightarrow> trimmed)"

fun split_on :: "rchar \<Rightarrow> rstring \<Rightarrow> rstring list" where
  "split_on d [] = [[]]"
| "split_on d (c # s) =
     (if c = d then [] # split_on d s
      else (case split_on d s of p # ps \<Rightarrow> (c # p) # ps | [] \<Rightarrow> [[c]]))"

text \<open>Minutes and seconds, or hours, minutes and seconds, in milliseconds; 58 is the colon. The products
  wrap around in a release build.\<close>

definition parse_duration_to_ms :: "rstring \<Rightarrow> int option" where
  "parse_duration_to_ms duration =
     (case split_on 58 duration of
        [m, s] \<Rightarrow>
          (case (parse_i64 m, parse_i64 s) of
             (Some m, Some s) \<Rightarrow> Some (as_i64 ((m * 60 + s) * 1000)) | _ \<Rightarrow> None)
      | [h, m, s] \<Rightarrow>
          (case (parse_i64 h, parse_i64 m, parse_i64 s) of
             (Some h, Some m, Some s) \<Rightarrow> Some (as_i64 ((h * 3600 + m * 60 + s) * 1000)) | _ \<Rightarrow> None)
      | _ \<Rightarrow> None)"

definition discogs_stop_words :: "rstring list" where
  "discogs_stop_words = map str [''the'', ''a'', ''an'', ''and'', ''or'', ''of'', ''in'', ''on'', ''at'', ''to'', ''for'']"

definition discogs_score :: "unicode \<Rightarrow> rstring \<Rightarrow> discogs_result \<Rightarrow> int" where
  "discogs_score u query r =
     (let title = lowercase u (case dg_title r of Some t \<Rightarrow> t | None \<Rightarrow> []);
          query_words = long_words u 1 discogs_stop_words (lowercase u query);
          matched = length (filter (contains title) query_words)
      in sum_list (map (word_points u title) query_words)
         + (if query_words \<noteq> [] \<and> length query_words div 2 < matched then 15 else 0)
         - (if 100 < length (as_bytes title) then 10 else 0)
         + (if dg_year r \<noteq> None then 5 else 0))"

definition select_result :: "unicode \<Rightarrow> rstring \<Rightarrow> discogs_result list \<Rightarrow> discogs_result option" where
  "select_result u query = select_best 15 (discogs_score u query)"

text \<open>The first track whose title has more than half of the longer words of the query, or all of the query.\<close>

definition track_matches :: "unicode \<Rightarrow> rstring \<Rightarrow> discogs_track \<Rightarrow> bool" where
  "track_matches u query t =
     (case dt_title t of
        None \<Rightarrow> False
      | Some title \<Rightarrow>
          (let query = lowercase u query; title = lowercase u title;
               query_words = filter (\<lambda>w. 2 < length (as_bytes w)) (split_whitespace u query)
           in length query_words div 2 < length (filter (contains title) query_words) \<or> contains title query))"

fun find_track :: "unicode \<Rightarrow> rstring \<Rightarrow> nat \<Rightarrow> discogs_track list \<Rightarrow> (nat \<times> discogs_track) option" where
  "find_track u query i [] = None"
| "find_track u query i (t # ts) =
     (if track_matches u query t then Some (i, t) else find_track u query (i + 1) ts)"

definition track_duration :: "discogs_track \<Rightarrow> int option" where
  "track_duration t = (case dt_duration t of Some d \<Rightarrow> parse_duration_to_ms d | None \<Rightarrow> None)"

definition with_track ::
  "unicode \<Rightarrow> rstring \<Rightarrow> rstring option \<Rightarrow> discogs_track list option \<Rightarrow> track_metadata \<Rightarrow> track_metadata" where
  "with_track u query album tracklist m =
     (case tracklist of
        None \<Rightarrow> m\<lparr>tm_title := album\<rparr>
      | Some ts \<Rightarrow>
          (case find_track u query 0 ts of
             Some (i, t) \<Rightarrow>
               m\<lparr>tm_title := dt_title t, tm_track_number := Some (int (i + 1)), tm_duration_ms := track_duration t\<rparr>
           | None \<Rightarrow>
               m\<lparr>tm_title := album,
                 tm_duration_ms := (case ts of t # _ \<Rightarrow> track_duration t | [] \<Rightarrow> None)\<rparr>))"

definition first_of :: "'a list option \<Rightarrow> 'a option" where
  "first_of xs = (case xs of Some (x # _) \<Rightarrow> Some x | _ \<Rightarrow> None)"

definition artist_names :: "unicode \<Rightarrow> rstring list option \<Rightarrow> rstring list" where
  "artist_names u artists =
     (case artists of
        Some names \<Rightarrow> filter (\<lambda>n. n \<noteq> str ''Various'' \<and> n \<noteq> []) (map (clean_artist_name u) names) | None \<Rightarrow> [])"

definition art_of :: "(rstring \<times> rstring option) list option \<Rightarrow> rstring option" where
  "art_of images =
     (case images of
        None \<Rightarrow> None
      | Some is \<Rightarrow>
          (case find (\<lambda>i. fst i = str ''primary'') is of
             Some i \<Rightarrow> snd i | None \<Rightarrow> (case is of i # _ \<Rightarrow> snd i | [] \<Rightarrow> None)))"

definition release_to_metadata :: "unicode \<Rightarrow> discogs_release \<Rightarrow> rstring \<Rightarrow> track_metadata" where
  "release_to_metadata u r query =
     (with_track u query (re_title r) (re_tracklist r)
       (no_metadata\<lparr>
         tm_album := re_title r,
         tm_year := re_year r,
         tm_artist := (case artist_names u (re_artists r) of
            [] \<Rightarrow> None | n # ns \<Rightarrow> Some (join_str (str '' & '') (n # ns))),
         tm_label := map_option (clean_artist_name u) (first_of (re_labels r)),
         tm_genre := (case re_styles r of Some _ \<Rightarrow> first_of (re_styles r) | None \<Rightarrow> first_of (re_genres r))\<rparr>))
       \<lparr>tm_album_art_url := art_of (re_images r), tm_sources := [str ''discogs'']\<rparr>"

definition get_release_details ::
  "unicode \<Rightarrow> rstring \<Rightarrow> discogs_release answer \<Rightarrow> (track_metadata, rstring) outcome" where
  "get_release_details u query a =
     (case a of
        Unsent \<Rightarrow> Err (str ''Failed to fetch Discogs release details'')
      | Refused status _ \<Rightarrow> Err (str ''Discogs release lookup failed: '' @ status)
      | Not_Json \<Rightarrow> Err (str ''Failed to parse Discogs release'')
      | Json r \<Rightarrow> Ok (release_to_metadata u r query))"

definition discogs_error :: "'a answer \<Rightarrow> ('b, rstring) outcome" where
  "discogs_error a =
     (case a of
        Refused status body \<Rightarrow> Err (str ''Discogs API error: '' @ status @ str '' - '' @ body)
      | Not_Json \<Rightarrow> Err (str ''Failed to parse Discogs response'')
      | _ \<Rightarrow> Err (str ''Failed to send Discogs request''))"

text \<open>\<open>details\<close> is the answer to the second request, for the release with the given id.\<close>

definition search_release ::
  "unicode \<Rightarrow> rstring \<Rightarrow> discogs_result list option answer \<Rightarrow> (int \<Rightarrow> discogs_release answer) \<Rightarrow>
    (track_metadata, rstring) outcome" where
  "search_release u query a details =
     (case a of
        Json (Some (r # rs)) \<Rightarrow>
          (case select_result u query (r # rs) of
             None \<Rightarrow> Err (str ''No suitable match found for query '' @ [39] @ query @ [39]
               @ str '' - all results scored below threshold'')
           | Some best \<Rightarrow> get_release_details u query (details (dg_id best)))
      | Json _ \<Rightarrow> Err (str ''No results found for query: '' @ query)
      | _ \<Rightarrow> discogs_error a)"

definition search_release_precise ::
  "unicode \<Rightarrow> rstring \<Rightarrow> rstring \<Rightarrow> discogs_result list option answer \<Rightarrow> (int \<Rightarrow> discogs_release answer) \<Rightarrow>
    (track_metadata, rstring) outcome" where
  "search_release_precise u artist title a details =
     (let query = artist @ [32] @ title;
          names = str ''artist='' @ [39] @ artist @ [39] @ str '', title='' @ [39] @ title @ [39]
      in case a of
        Json (Some (r # rs)) \<Rightarrow>
          (case select_result u query (r # rs) of
             None \<Rightarrow> Err (str ''No suitable match found for '' @ names)
           | Some best \<Rightarrow> get_release_details u query (details (dg_id best)))
      | Json _ \<Rightarrow> Err (str ''No results found for '' @ names)
      | _ \<Rightarrow> discogs_error a)"

section \<open>Cover Art Archive\<close>

record cover_image =
  ci_image :: rstring
  ci_small :: "rstring option"
  ci_large :: "rstring option"
  ci_xlarge :: "rstring option"
  ci_front :: bool
  ci_types :: "rstring list"

definition thumbnail_of :: "cover_image \<Rightarrow> rstring" where
  "thumbnail_of i =
     (case ci_large i of Some l \<Rightarrow> l | None \<Rightarrow>
       (case ci_xlarge i of Some x \<Rightarrow> x | None \<Rightarrow>
         (case ci_small i of Some s \<Rightarrow> s | None \<Rightarrow> ci_image i)))"

text \<open>A refused request comes with its status as a number.\<close>

definition get_front_cover_url :: "rstring \<Rightarrow> nat \<Rightarrow> cover_image list answer \<Rightarrow> (rstring, rstring) outcome" where
  "get_front_cover_url release_mbid status a =
     (case a of
        Unsent \<Rightarrow> Err (str ''Failed to send Cover Art Archive request'')
      | Not_Json \<Rightarrow> Err (str ''Failed to parse Cover Art Archive response'')
      | Refused _ body \<Rightarrow>
          if status = 404 then Err (str ''No cover art available for release: '' @ release_mbid)
          else Err (str ''Cover Art Archive error: '' @ show_nat status @ str '' - '' @ body)
      | Json images \<Rightarrow>
          (case find (\<lambda>i. ci_front i \<or> str ''Front'' \<in> set (ci_types i)) images of
             None \<Rightarrow> Err (str ''No front cover found'')
           | Some i \<Rightarrow> Ok (thumbnail_of i)))"

section \<open>GetSongBPM\<close>

record song_detail =
  sd_id :: rstring
  sd_uri :: "rstring option"
  sd_tempo :: "f64 option"
  sd_key_of :: "rstring option"

record bpm_key =
  bk_bpm :: "int option"
  bk_key :: "rstring option"
  bk_attribution_url :: rstring

text \<open>\<open>t.round() as i32\<close>: halves away from zero, then the nearest value of the type.\<close>

definition round_i32 :: "f64 \<Rightarrow> int" where
  "round_i32 t =
     (let n = (if t < 0 then - \<lfloor>- t + 1 / 2\<rfloor> else \<lfloor>t + 1 / 2\<rfloor>)
      in max (- (2 ^ 31)) (min (2 ^ 31 - 1) n))"

definition bpm_error :: "rstring \<Rightarrow> 'a answer \<Rightarrow> ('b, rstring) outcome" where
  "bpm_error which a =
     (case a of
        Refused status body \<Rightarrow> Err (str ''GetSongBPM '' @ which @ str '' error: '' @ status @ str '' - '' @ body)
      | Not_Json \<Rightarrow> Err (str ''Failed to parse GetSongBPM '' @ which @ str '' response'')
      | _ \<Rightarrow> Err (str ''Failed to send GetSongBPM '' @ which @ str '' request''))"

text \<open>The first song of the search, by its id, and the details of that song.\<close>

definition search_bpm ::
  "rstring option \<Rightarrow> rstring \<Rightarrow> rstring list option answer \<Rightarrow> (rstring \<Rightarrow> song_detail option answer) \<Rightarrow>
    (bpm_key, rstring) outcome" where
  "search_bpm api_key query a details =
     (if api_key = None then Err (str ''GetSongBPM API key not configured'')
      else
        (case a of
           Json (Some (song # _)) \<Rightarrow>
             (case details song of
                Json (Some d) \<Rightarrow>
                  Ok \<lparr>bk_bpm = map_option round_i32 (sd_tempo d), bk_key = sd_key_of d,
                      bk_attribution_url = (case sd_uri d of Some uri \<Rightarrow> uri
                        | None \<Rightarrow> str ''https://getsongbpm.com/song/'' @ sd_id d)\<rparr>
              | Json None \<Rightarrow> Err (str ''Song details not found'')
              | b \<Rightarrow> bpm_error (str ''song'') b)
         | Json _ \<Rightarrow> Err (str ''No songs found for query: '' @ query)
         | _ \<Rightarrow> bpm_error (str ''search'') a))"

section \<open>Numbers read back\<close>

lemma digit_show: "list_all digit (show_nat n)"
proof (induction n rule: show_nat.induct)
  case (1 n)
  then show ?case by (subst show_nat.simps) (auto simp: digit_def [of "48 + k" for k])
qed

lemma not_shown: "\<not> digit c \<Longrightarrow> c \<notin> set (show_nat n)"
  using digit_show [of n] by (auto simp: list_all_iff)

lemma dash_not_shown: "45 \<notin> set (show_nat n)"
  by (rule not_shown) (simp add: digit_def)

lemma colon_not_shown: "58 \<notin> set (show_nat n)"
  by (rule not_shown) (simp add: digit_def)

lemma show_nat_not_Nil: "show_nat n \<noteq> []"
  by (subst show_nat.simps) simp

lemma digits_value_append: "digits_value k (s @ [c]) = 10 * digits_value k s + (c - 48)"
  by (induction s arbitrary: k) auto

lemma digits_value_show: "digits_value 0 (show_nat n) = n"
proof (induction n rule: show_nat.induct)
  case (1 n)
  show ?case
  proof (cases "n < 10")
    case True
    then show ?thesis by (subst show_nat.simps) simp
  next
    case False
    with 1 show ?thesis by (subst show_nat.simps) (simp add: digits_value_append)
  qed
qed

lemma parse_show: "parse_nat (show_nat n) = Some n"
  using digit_show digits_value_show show_nat_not_Nil by (simp add: parse_nat_def)

lemma parse_int_show: "lo \<le> int n \<Longrightarrow> int n \<le> hi \<Longrightarrow> parse_int lo hi (show_nat n) = Some (int n)"
proof -
  assume b: "lo \<le> int n" "int n \<le> hi"
  obtain c t where c: "show_nat n = c # t" using show_nat_not_Nil by (cases "show_nat n") auto
  then have "digit c" using digit_show [of n] by simp
  then have "c \<noteq> 43" "c \<noteq> 45" by (auto simp: digit_def)
  then show ?thesis using b parse_show [of n] c by (simp add: parse_int_def)
qed

lemma split_on_none: "d \<notin> set s \<Longrightarrow> split_on d s = [s]"
  by (induction s) auto

lemma split_on_append: "d \<notin> set s \<Longrightarrow> split_on d (s @ d # t) = s # split_on d t"
  by (induction s) auto

end
