(* ===== verification/Avatars.thy ===== *)
theory Avatars
  imports Account_Properties Music_Search
begin

text \<open>
  The profile pictures (\<open>upload_avatar\<close>, \<open>delete_avatar\<close> and \<open>get_avatar\<close> of \<open>src/src/api/profile.rs\<close>): the
  columns of the accounts and the files under \<open>avatars\<close>. Decoding, scaling and encoding a picture is an argument,
  and so is what the form holds and how writing or reading a file ends.
\<close>

section \<open>The handlers\<close>

record pictures =
  pc_accounts :: accounts
  pc_files :: "rstring \<Rightarrow> bytes option"
  pc_storage :: rstring

definition picture_path :: "rstring \<Rightarrow> rstring \<Rightarrow> rstring" where
  "picture_path storage name = storage @ [47] @ name"

text \<open>The first field of the form: its content type, and its bytes unless they cannot be read.\<close>

datatype form_field = Bad_Form | No_Field | Field "rstring option" "bytes option"

text \<open>Writing a file may fail with the file untouched or cut short.\<close>

datatype write_end = Written | Not_Written "bytes option"

definition accepted_types :: "rstring list" where
  "accepted_types = [str ''image/jpeg'', str ''image/png'', str ''image/webp'']"

definition form_picture :: "(bytes \<Rightarrow> (bytes, rstring) outcome) \<Rightarrow> form_field \<Rightarrow> bytes http" where
  "form_picture images form =
     (case form of
        Bad_Form \<Rightarrow> Err (400, str ''Failed to read upload'')
      | No_Field \<Rightarrow> Err (400, str ''No file provided'')
      | Field content_type body \<Rightarrow>
          (let content_type = (case content_type of Some t \<Rightarrow> t | None \<Rightarrow> str ''application/octet-stream'') in
           if content_type \<notin> set accepted_types then
             Err (400, str ''Invalid file type. Accepted: JPEG, PNG, WebP'')
           else
             (case body of
                None \<Rightarrow> Err (400, str ''Failed to read file'')
              | Some data \<Rightarrow>
                  if 2 * 1024 * 1024 < length data then
                    Err (400, str ''File too large. Maximum size is 2MB'')
                  else
                    (case images data of
                       Ok img \<Rightarrow> Ok img
                     | Err e \<Rightarrow> Err (400, e)
                     | Panic \<Rightarrow> Err (500, str ''Failed to process image'')))))"

definition upload_avatar ::
  "(bytes \<Rightarrow> (bytes, rstring) outcome) \<Rightarrow> write_end \<Rightarrow> auth_user \<Rightarrow> form_field \<Rightarrow> pictures
   \<Rightarrow> user http \<times> pictures" where
  "upload_avatar images written auth form p =
     (case form_picture images form of
        Err e \<Rightarrow> (Err e, p)
      | Panic \<Rightarrow> (Panic, p)
      | Ok img \<Rightarrow>
          (let path = picture_path (pc_storage p) (avatar_name (au_id auth));
               p = (case written of
                      Written \<Rightarrow> p\<lparr>pc_files := (pc_files p)(path \<mapsto> img)\<rparr>
                    | Not_Written None \<Rightarrow> p
                    | Not_Written (Some part) \<Rightarrow> p\<lparr>pc_files := (pc_files p)(path \<mapsto> part)\<rparr>)
           in case finish_avatar_upload auth (written = Written) (pc_accounts p) of
                (r, a) \<Rightarrow> (r, p\<lparr>pc_accounts := a\<rparr>)))"

text \<open>A file that cannot be removed stays; the column is cleared all the same.\<close>

definition remove_avatar :: "(rstring \<Rightarrow> bool) \<Rightarrow> auth_user \<Rightarrow> pictures \<Rightarrow> user http \<times> pictures" where
  "remove_avatar locked auth p =
     (let p = (case get_user_by_id (au_id auth) (pc_accounts p) of
                 None \<Rightarrow> p
               | Some u \<Rightarrow>
                   (case us_avatar_path u of
                      None \<Rightarrow> p
                    | Some name \<Rightarrow>
                        (let path = picture_path (pc_storage p) name in
                         if locked path then p else p\<lparr>pc_files := (pc_files p)(path := None)\<rparr>)))
      in case delete_avatar auth (pc_accounts p) of (r, a) \<Rightarrow> (r, p\<lparr>pc_accounts := a\<rparr>))"

definition get_avatar ::
  "('t \<Rightarrow> claims option) \<Rightarrow> (rstring \<Rightarrow> bool) \<Rightarrow> 't \<Rightarrow> pictures \<Rightarrow> bytes http" where
  "get_avatar decode unreadable tok p =
     (case decode tok of
        None \<Rightarrow> Err (401, str ''Invalid or expired token'')
      | Some c \<Rightarrow>
          (case get_user_by_id (cm_sub c) (pc_accounts p) of
             None \<Rightarrow> Err (404, str ''User not found'')
           | Some u \<Rightarrow>
               (case us_avatar_path u of
                  None \<Rightarrow> Err (404, str ''No avatar set'')
                | Some name \<Rightarrow>
                    (let path = picture_path (pc_storage p) name in
                     case pc_files p path of
                       Some img \<Rightarrow> if unreadable path then Err (404, str ''Avatar file not found'') else Ok img
                     | None \<Rightarrow> Err (404, str ''Avatar file not found'')))))"

section \<open>The paths\<close>

text \<open>The path of a picture names its user.\<close>

definition paths_ok :: "accounts \<Rightarrow> bool" where
  "paths_ok a \<longleftrightarrow> (\<forall>u\<in>set (ac_users a). us_avatar_path u \<in> {None, Some (avatar_name (us_id u))})"

interpretation portraits: table_invariant paths_ok
proof unfold_locales
  show "paths_ok (seed_admin h accounts_empty)" for h
    by (simp add: paths_ok_def seed_admin_def create_user_verified_def insert_user_def accounts_empty_def Let_def)
qed (auto simp: verify_user_email_def update_verification_token_def set_user_role_def update_user_avatar_def paths_ok_def
    create_user_def create_user_verified_def seed_admin_def insert_user_def delete_user_def update_user_def Let_def
    split: if_splits)

lemma show_nat_inj: "show_nat m = show_nat n \<Longrightarrow> m = n"
  by (metis parse_show option.inject)

lemma show_int_inj: "show_int i = show_int j \<Longrightarrow> i = j"
  using dash_not_shown show_nat_inj [of "nat i" "nat j"] show_nat_inj [of "nat (- i)" "nat (- j)"]
  by (auto simp: show_int_def split: if_splits) (metis list.set_intros(1))+

lemma avatar_path_inj [simp]:
  "picture_path st (avatar_name i) = picture_path st (avatar_name j) \<longleftrightarrow> i = j"
  using show_int_inj [of i j] by (auto simp: picture_path_def avatar_name_def)

lemma user_after_update:
  assumes "\<And>u. us_id (f u) = us_id u"
  shows "get_user_by_id j (update_user i f a) =
    (if i = j then map_option f (get_user_by_id j a) else get_user_by_id j a)"
proof -
  have "find (\<lambda>u. us_id u = j) (map (\<lambda>u. if us_id u = i then f u else u) us) =
      (if i = j then map_option f (find (\<lambda>u. us_id u = j) us) else find (\<lambda>u. us_id u = j) us)" for us
    by (induction us) (auto simp: assms)
  then show ?thesis by (simp add: get_user_by_id_def find_user_def update_user_def)
qed

lemma user_after_avatar:
  "get_user_by_id j (update_user_avatar i path a) =
    (if i = j then map_option (\<lambda>u. u\<lparr>us_avatar_path := path, us_updated_at := ac_clock a\<rparr>) (get_user_by_id j a)
     else get_user_by_id j a)"
  unfolding update_user_avatar_def by (rule user_after_update) simp

lemma path_of_user:
  "paths_ok a \<Longrightarrow> get_user_by_id i a = Some u \<Longrightarrow> us_avatar_path u = Some name \<Longrightarrow> name = avatar_name i"
  using get_user_SomeD [of _ a u] by (fastforce simp: paths_ok_def get_user_by_id_def)

text \<open>With these paths the picture shown depends on the user's own file only.\<close>

lemma get_avatar_own:
  assumes "paths_ok (pc_accounts p)"
  shows "get_avatar decode unreadable tok p =
    (case decode tok of
       None \<Rightarrow> Err (401, str ''Invalid or expired token'')
     | Some c \<Rightarrow>
         (case get_user_by_id (cm_sub c) (pc_accounts p) of
            None \<Rightarrow> Err (404, str ''User not found'')
          | Some u \<Rightarrow>
              if us_avatar_path u = None then Err (404, str ''No avatar set'')
              else
                (let path = picture_path (pc_storage p) (avatar_name (cm_sub c)) in
                 case pc_files p path of
                   Some img \<Rightarrow> if unreadable path then Err (404, str ''Avatar file not found'') else Ok img
                 | None \<Rightarrow> Err (404, str ''Avatar file not found''))))"
  using path_of_user [OF assms] by (auto simp: get_avatar_def split: option.splits)

section \<open>What is shown\<close>

text \<open>C26: The picture shown to a user is the last one they uploaded, as it was processed; an upload that succeeds had an
  accepted type and at most two megabytes and was decoded, and what every other user is shown stays the same.\<close>

theorem uploaded_picture_shown:
  assumes "paths_ok (pc_accounts p)" and "upload_avatar images written auth form p = (Ok u, p')"
  shows "\<exists>t data img. form = Field (Some t) (Some data) \<and> t \<in> set accepted_types \<and> length data \<le> 2097152
    \<and> images data = Ok img \<and> us_avatar_path u = Some (avatar_name (au_id auth))
    \<and> (\<forall>tok. get_avatar decode (\<lambda>_. False) tok p' =
         (if map_option cm_sub (decode tok) = Some (au_id auth) then Ok img
          else get_avatar decode (\<lambda>_. False) tok p))"
proof -
  obtain img where img: "form_picture images form = Ok img"
    using assms(2) by (cases "form_picture images form") (auto simp: upload_avatar_def)
  then obtain t data where form: "form = Field (Some t) (Some data)" "t \<in> set accepted_types"
      "length data \<le> 2097152" "images data = Ok img"
    by (auto simp: form_picture_def Let_def accepted_types_def str_def split: form_field.splits option.splits if_splits outcome.splits)
  let ?a = "update_user_avatar (au_id auth) (Some (avatar_name (au_id auth))) (pc_accounts p)"
  have w: "written = Written" and r: "me auth ?a = Ok u"
    and p': "p' = p\<lparr>pc_files := (pc_files p)(picture_path (pc_storage p) (avatar_name (au_id auth)) \<mapsto> img),
      pc_accounts := ?a\<rparr>"
    using assms(2) by (auto simp: upload_avatar_def img finish_avatar_upload_def Let_def split: write_end.splits option.splits
        if_splits)
  from r obtain v where v: "get_user_by_id (au_id auth) (pc_accounts p) = Some v" "us_avatar_path u = Some (avatar_name (au_id auth))"
    by (auto simp: me_def user_after_avatar split: option.splits)
  have ok: "paths_ok (pc_accounts p')" by (simp add: p' portraits.pictured assms(1))
  have "get_avatar decode (\<lambda>_. False) tok p' =
         (if map_option cm_sub (decode tok) = Some (au_id auth) then Ok img else get_avatar decode (\<lambda>_. False) tok p)" for tok
    unfolding get_avatar_own [OF assms(1)] get_avatar_own [OF ok]
    using v by (auto simp: p' user_after_avatar split: option.splits)
  with form v show ?thesis by blast
qed

text \<open>After a removal the user is shown nothing, even if the file could not be removed, and the others are shown
  what they were.\<close>

lemma removed_picture_gone:
  assumes "paths_ok (pc_accounts p)" and "remove_avatar locked auth p = (Ok u, p')"
  shows "us_avatar_path u = None
    \<and> (\<forall>tok. get_avatar decode (\<lambda>_. False) tok p' =
         (if map_option cm_sub (decode tok) = Some (au_id auth) then Err (404, str ''No avatar set'')
          else get_avatar decode (\<lambda>_. False) tok p))"
proof -
  from assms(2) obtain v where v: "get_user_by_id (au_id auth) (pc_accounts p) = Some v" "us_avatar_path u = None"
    and a: "pc_accounts p' = update_user_avatar (au_id auth) None (pc_accounts p)" "pc_storage p' = pc_storage p"
    and f: "\<And>path. path \<noteq> picture_path (pc_storage p) (avatar_name (au_id auth)) \<Longrightarrow> pc_files p' path = pc_files p path"
    using path_of_user [OF assms(1)]
    by (auto simp: remove_avatar_def delete_avatar_def Let_def split: option.splits if_splits)
  have ok: "paths_ok (pc_accounts p')" by (simp add: a portraits.pictured assms(1))
  have "get_avatar decode (\<lambda>_. False) tok p' =
         (if map_option cm_sub (decode tok) = Some (au_id auth) then Err (404, str ''No avatar set'')
          else get_avatar decode (\<lambda>_. False) tok p)" for tok
    unfolding get_avatar_own [OF assms(1)] get_avatar_own [OF ok]
    using v by (auto simp: a user_after_avatar f split: option.splits)
  with v show ?thesis by blast
qed

definition sample_pictures :: pictures where
  "sample_pictures = \<lparr>pc_accounts = seed_admin (str ''h'') accounts_empty, pc_files = (\<lambda>_. None), pc_storage = str ''s''\<rparr>"

definition sample_owner :: auth_user where
  "sample_owner = \<lparr>au_id = 1, au_username = str ''admin'', au_role = str ''admin''\<rparr>"

lemma sample_upload:
  "\<exists>u p'. upload_avatar (\<lambda>_. Ok [9]) Written sample_owner (Field (Some (str ''image/png'')) (Some [1])) sample_pictures
     = (Ok u, p')"
proof -
  have "get_user_by_id 1 (seed_admin (str ''h'') accounts_empty) \<noteq> None" by code_simp
  then show ?thesis
    by (auto simp: upload_avatar_def form_picture_def accepted_types_def finish_avatar_upload_def me_def user_after_avatar
        sample_pictures_def sample_owner_def Let_def)
qed

theorem uploaded_picture_shown_witness:
  "get_avatar (\<lambda>i. Some \<lparr>cm_sub = i, cm_name = [], cm_role = [], cm_exp = 0\<rparr>) (\<lambda>_. False) 1
     (snd (upload_avatar (\<lambda>_. Ok [9]) Written sample_owner (Field (Some (str ''image/png'')) (Some [1])) sample_pictures))
   = Ok [9]"
proof -
  have ok: "paths_ok (pc_accounts sample_pictures)"
    by (simp add: sample_pictures_def portraits.first_start)
  obtain u p' where up: "upload_avatar (\<lambda>_. Ok [9]) Written sample_owner (Field (Some (str ''image/png'')) (Some [1]))
      sample_pictures = (Ok u, p')"
    using sample_upload by blast
  from uploaded_picture_shown [OF ok up, of "\<lambda>i. Some \<lparr>cm_sub = i, cm_name = [], cm_role = [], cm_exp = 0\<rparr>"]
  have "get_avatar (\<lambda>i. Some \<lparr>cm_sub = i, cm_name = [], cm_role = [], cm_exp = 0\<rparr>) (\<lambda>_. False) 1 p' = Ok [9]"
    by (auto simp: sample_owner_def)
  then show ?thesis by (simp only: up snd_conv)
qed

end
