(* ===== verification/Metadata_Service.thy ===== *)
theory Metadata_Service
  imports Database Music_Search Accounts
begin

text \<open>
  \<open>src/src/services/metadata/mod.rs\<close>: the lookup that asks one service after another and stores what it
  found, the refresh of one item with its limit of one in 24 hours, the scan of the library, and the rate
  limit towards MusicBrainz; with the metadata columns of \<open>src/src/db/mod.rs\<close>, the cover cache and the
  handlers of \<open>src/src/api/metadata.rs\<close>. The answers of the services, the audio file and the disk are
  arguments. The list of sources is stored as JSON; the model stores the list itself.
\<close>

section \<open>The metadata columns\<close>

record metadata_columns =
  mc_metadata :: track_metadata
  mc_sources :: "rstring list option"
  mc_cover_cached :: bool

definition null_columns :: metadata_columns where
  "null_columns = \<lparr>mc_metadata = no_metadata, mc_sources = None, mc_cover_cached = False\<rparr>"

datatype metadata_event =
    Metadata_Job_Progress nat nat nat

text \<open>The columns of the items by their id; the table of the rate limits; the flags of the two jobs. What goes out
  of the program is kept in the order in which it happened: the events, the items looked up and what was to be
  written to the tags of which file. Times of the database are seconds.\<close>

record metadata_state =
  md_db :: database
  md_columns :: "int \<Rightarrow> metadata_columns"
  md_limits :: "int \<Rightarrow> nat option"
  md_events :: "metadata_event list"
  md_lookups :: "int list"
  md_tag_writes :: "(rstring \<times> track_metadata) list"
  md_job_running :: bool
  md_job_total :: nat
  md_backfill_running :: bool
  md_backfill_total :: nat
  md_backfill_processed :: nat
  md_backfill_failed :: nat

definition present :: "int \<Rightarrow> metadata_state \<Rightarrow> bool" where
  "present i s \<longleftrightarrow> get_item i (md_db s) \<noteq> None"

definition set_columns :: "int \<Rightarrow> (metadata_columns \<Rightarrow> metadata_columns) \<Rightarrow> metadata_state \<Rightarrow> metadata_state" where
  "set_columns i f s =
     (if present i s then s\<lparr>md_columns := (md_columns s)(i := f (md_columns s i))\<rparr> else s)"

definition update_item_metadata :: "int \<Rightarrow> track_metadata \<Rightarrow> metadata_state \<Rightarrow> metadata_state" where
  "update_item_metadata i m = set_columns i (\<lambda>c. c\<lparr>mc_metadata := m, mc_sources := Some (tm_sources m)\<rparr>)"

definition get_item_metadata :: "int \<Rightarrow> metadata_state \<Rightarrow> track_metadata option" where
  "get_item_metadata i s =
     (if \<not> present i s then None
      else
        (let m = (mc_metadata (md_columns s i))\<lparr>tm_sources :=
               (case mc_sources (md_columns s i) of Some ss \<Rightarrow> ss | None \<Rightarrow> [])\<rparr>
         in if tm_artist m \<noteq> None \<or> tm_title m \<noteq> None \<or> tm_bpm m \<noteq> None then Some m else None))"

definition completed_items :: "(item \<Rightarrow> bool) \<Rightarrow> metadata_state \<Rightarrow> item list" where
  "completed_items P s =
     newest_first (\<lambda>i. case it_completed_at i of Some t \<Rightarrow> t + 1 | None \<Rightarrow> 0)
       (filter (\<lambda>i. it_status i = ''completed'' \<and> P i) (db_items (md_db s)))"

definition get_items_without_metadata :: "metadata_state \<Rightarrow> item list" where
  "get_items_without_metadata s =
     completed_items (\<lambda>i. tm_fetched_at (mc_metadata (md_columns s (it_id i))) = None) s"

definition set_cover_cached :: "int \<Rightarrow> bool \<Rightarrow> metadata_state \<Rightarrow> metadata_state" where
  "set_cover_cached i b = set_columns i (\<lambda>c. c\<lparr>mc_cover_cached := b\<rparr>)"

definition get_items_with_uncached_covers :: "metadata_state \<Rightarrow> item list" where
  "get_items_with_uncached_covers s =
     completed_items (\<lambda>i. tm_album_art_url (mc_metadata (md_columns s (it_id i))) \<noteq> None
       \<and> \<not> mc_cover_cached (md_columns s (it_id i))) s"

text \<open>Clearing does not touch the flag of the cached cover.\<close>

definition clear_item_metadata :: "int \<Rightarrow> metadata_state \<Rightarrow> metadata_state" where
  "clear_item_metadata i s =
     (set_columns i (\<lambda>c. c\<lparr>mc_metadata := no_metadata, mc_sources := None\<rparr>) s)
       \<lparr>md_limits := (md_limits s)(i := None)\<rparr>"

text \<open>Full hours since the last lookup, at least 24.\<close>

definition check_metadata_rate_limit :: "int \<Rightarrow> metadata_state \<Rightarrow> bool" where
  "check_metadata_rate_limit i s =
     (case md_limits s i of Some t \<Rightarrow> 24 \<le> (int (clock (md_db s)) - int t) div 3600 | None \<Rightarrow> True)"

text \<open>The limit refers to an item that exists.\<close>

definition update_metadata_rate_limit :: "int \<Rightarrow> metadata_state \<Rightarrow> (unit, rstring) outcome \<times> metadata_state" where
  "update_metadata_rate_limit i s =
     (if present i s then (Ok (), s\<lparr>md_limits := (md_limits s)(i := Some (clock (md_db s)))\<rparr>)
      else (Err (str ''Failed to update metadata rate limit''), s))"

section \<open>The rate limit towards MusicBrainz\<close>

text \<open>Callers take the lock in turn and hold it while they wait; \<open>last_call\<close> is when the previous one was let
  through. Times are milliseconds. A sleep takes exactly its time here; the runtime promises at least that. \<open>calls\<close> is
  a queue of callers, each in \<open>wait_for_rate_limit\<close>.\<close>

definition wait_for_rate_limit :: "nat \<Rightarrow> nat \<Rightarrow> nat" where
  "wait_for_rate_limit last_call locked_at =
     (if locked_at - last_call < 1000 then locked_at + (1000 - (locked_at - last_call)) else locked_at)"

fun calls :: "nat \<Rightarrow> nat list \<Rightarrow> nat list" where
  "calls last_call [] = []"
| "calls last_call (arrival # arrivals) =
     (let t = wait_for_rate_limit last_call (max arrival last_call) in t # calls t arrivals)"

section \<open>The lookup\<close>

text \<open>What the world answers to one lookup, in the order of the requests.\<close>

record lookup_answers =
  la_duration :: "(int, rstring) outcome"
  la_recordings :: "recording list option answer"
  la_release :: "recording list option answer"
  la_cover :: "rstring \<Rightarrow> nat \<times> cover_image list answer"
  la_discogs :: "discogs_result list option answer"
  la_discogs_release :: "int \<Rightarrow> discogs_release answer"
  la_cached :: "rstring \<Rightarrow> (bool, rstring) outcome"
  la_songs :: "rstring list option answer"
  la_song :: "rstring \<Rightarrow> song_detail option answer"
  la_stored :: bool

definition precise :: "rstring option \<Rightarrow> rstring option \<Rightarrow> (rstring \<times> rstring) option" where
  "precise artist track =
     (case (artist, track) of
        (Some a, Some t) \<Rightarrow> if a \<noteq> [] \<and> t \<noteq> [] then Some (a, t) else None
      | _ \<Rightarrow> None)"

definition local_duration :: "lookup_answers \<Rightarrow> track_metadata \<Rightarrow> track_metadata" where
  "local_duration w m =
     (case la_duration w of
        Ok d \<Rightarrow> m\<lparr>tm_duration_ms := Some d, tm_sources := tm_sources m @ [str ''local'']\<rparr> | _ \<Rightarrow> m)"

definition cover_step :: "unicode \<Rightarrow> lookup_answers \<Rightarrow> rstring \<Rightarrow> track_metadata \<Rightarrow> (track_metadata, rstring) outcome" where
  "cover_step u w query m =
     (case get_release_mbid u query (la_release w) of
        Ok (Some release_id) \<Rightarrow>
          (case get_front_cover_url release_id (fst (la_cover w release_id)) (snd (la_cover w release_id)) of
             Ok url \<Rightarrow> Ok (m\<lparr>tm_album_art_url := Some url, tm_sources := add_source (str ''coverart'') (tm_sources m)\<rparr>)
           | _ \<Rightarrow> Ok m)
      | Panic \<Rightarrow> Panic
      | _ \<Rightarrow> Ok m)"

text \<open>MusicBrainz; the flag says whether it answered with a track.\<close>

definition primary_step ::
  "unicode \<Rightarrow> lookup_answers \<Rightarrow> rstring \<Rightarrow> (rstring \<times> rstring) option \<Rightarrow> track_metadata \<Rightarrow>
    (bool \<times> track_metadata, rstring) outcome" where
  "primary_step u w query names m =
     (case (case names of
              Some (a, t) \<Rightarrow> search_recording_precise a t (la_recordings w)
            | None \<Rightarrow> search_recording u query (la_recordings w)) of
        Ok found \<Rightarrow>
          (if tm_musicbrainz_id found \<noteq> None
           then obind (cover_step u w query (merge found m)) (\<lambda>m. Ok (True, m))
           else Ok (True, merge found m))
      | Err _ \<Rightarrow> Ok (False, m)
      | Panic \<Rightarrow> Panic)"

definition fill :: "'a option \<Rightarrow> 'a option \<Rightarrow> 'a option" where
  "fill a b = (if a = None then b else a)"

definition fill_from_discogs :: "track_metadata \<Rightarrow> track_metadata \<Rightarrow> track_metadata" where
  "fill_from_discogs d m = m\<lparr>tm_artist := fill (tm_artist m) (tm_artist d), tm_album := fill (tm_album m) (tm_album d),
     tm_title := fill (tm_title m) (tm_title d), tm_year := fill (tm_year m) (tm_year d),
     tm_genre := fill (tm_genre m) (tm_genre d), tm_label := fill (tm_label m) (tm_label d),
     tm_album_art_url := fill (tm_album_art_url m) (tm_album_art_url d),
     tm_sources := add_source (str ''discogs'') (tm_sources m)\<rparr>"

definition discogs_step ::
  "unicode \<Rightarrow> lookup_answers \<Rightarrow> rstring \<Rightarrow> (rstring \<times> rstring) option \<Rightarrow> bool \<Rightarrow> track_metadata \<Rightarrow> track_metadata" where
  "discogs_step u w query names got m =
     (if \<not> got \<or> tm_artist m = None then
        (case (case names of
                 Some (a, t) \<Rightarrow> search_release_precise u a t (la_discogs w) (la_discogs_release w)
               | None \<Rightarrow> search_release u query (la_discogs w) (la_discogs_release w)) of
           Ok d \<Rightarrow> fill_from_discogs d m | _ \<Rightarrow> m)
      else m)"

definition cache_step :: "lookup_answers \<Rightarrow> int \<Rightarrow> track_metadata \<Rightarrow> metadata_state \<Rightarrow> metadata_state" where
  "cache_step w i m s =
     (case tm_album_art_url m of
        Some url \<Rightarrow> if la_cached w url = Ok True then set_cover_cached i True s else s
      | None \<Rightarrow> s)"

definition bpm_step :: "rstring option \<Rightarrow> lookup_answers \<Rightarrow> rstring \<Rightarrow> track_metadata \<Rightarrow> track_metadata" where
  "bpm_step api_key w query m =
     (if api_key \<noteq> None \<and> (tm_bpm m = None \<or> tm_key m = None) then
        (case search_bpm api_key query (la_songs w) (la_song w) of
           Ok b \<Rightarrow> m\<lparr>tm_bpm := fill (tm_bpm m) (bk_bpm b), tm_key := fill (tm_key m) (bk_key b),
                     tm_sources := add_source (str ''getsongbpm'') (tm_sources m)\<rparr>
         | _ \<Rightarrow> m)
      else m)"

text \<open>The tags of the file are written when \<open>has_core_fields\<close> holds; whether that works (\<open>Audio_Tags\<close>) changes nothing
  here.\<close>

definition tags_step :: "rstring \<Rightarrow> track_metadata \<Rightarrow> metadata_state \<Rightarrow> metadata_state" where
  "tags_step path m s =
     (if has_core_fields m then s\<lparr>md_tag_writes := md_tag_writes s @ [(path, m)]\<rparr> else s)"

text \<open>All steps; the answer is never an error. \<open>la_stored\<close> is whether the statement that stores succeeded.\<close>

definition lookup_and_store ::
  "unicode \<Rightarrow> rstring option \<Rightarrow> lookup_answers \<Rightarrow> int \<Rightarrow> rstring \<Rightarrow> rstring \<Rightarrow> rstring option \<Rightarrow> rstring option \<Rightarrow>
    metadata_state \<Rightarrow> (track_metadata, rstring) outcome \<times> metadata_state" where
  "lookup_and_store u api_key w i path query artist track s =
     (let names = precise artist track;
          s = s\<lparr>md_lookups := md_lookups s @ [i]\<rparr> in
      case primary_step u w query names (local_duration w no_metadata) of
        Panic \<Rightarrow> (Panic, s)
      | Err e \<Rightarrow> (Err e, s)
      | Ok (got, m) \<Rightarrow>
          (let m = discogs_step u w query names got m;
               s = cache_step w i m s;
               m = (bpm_step api_key w query m)\<lparr>tm_fetched_at := Some (clock (md_db s))\<rparr>;
               s = (if la_stored w then update_item_metadata i m s else s)
           in (Ok m, tags_step path m s)))"

text \<open>\<open>audio\<close> is what reading the file's properties gives.\<close>

definition refresh_metadata ::
  "unicode \<Rightarrow> rstring option \<Rightarrow> lookup_answers \<Rightarrow> (int option \<times> int option) option \<Rightarrow> int \<Rightarrow> bool \<Rightarrow>
    metadata_state \<Rightarrow> (track_metadata, rstring) outcome \<times> metadata_state" where
  "refresh_metadata u api_key w audio i skip_existing s =
     (if \<not> check_metadata_rate_limit i s then
        (Err (str ''Rate limit: metadata can only be refreshed once per 24 hours''), s)
      else
        (case get_item i (md_db s) of
           None \<Rightarrow> (Err (str ''Item not found: '' @ show_int i), s)
         | Some item \<Rightarrow>
             (let s = (case audio of
                         Some (rate, depth) \<Rightarrow> s\<lparr>md_db := update_item_audio_properties i rate depth (md_db s)\<rparr>
                       | None \<Rightarrow> s);
                  old = mc_metadata (md_columns s i)
              in if skip_existing \<and> tm_artist old \<noteq> None \<and> tm_title old \<noteq> None \<and> tm_album_art_url old \<noteq> None
                 then (Ok (case get_item_metadata i s of Some m \<Rightarrow> m | None \<Rightarrow> no_metadata), s)
                 else
                   (case lookup_and_store u api_key w i (it_file_path item) (it_original_query item)
                           (it_original_artist item) (it_original_track item) s of
                      (Ok m, s) \<Rightarrow>
                        (case update_metadata_rate_limit i s of
                           (Ok _, s) \<Rightarrow> (Ok m, s) | (Err e, s) \<Rightarrow> (Err e, s) | (Panic, s) \<Rightarrow> (Panic, s))
                    | (Err e, s) \<Rightarrow> (Err e, s)
                    | (Panic, s) \<Rightarrow> (Panic, s)))))"

section \<open>The scan of the library\<close>

definition progress :: "nat \<Rightarrow> nat \<Rightarrow> nat \<Rightarrow> metadata_state \<Rightarrow> metadata_state" where
  "progress n completed failed s =
     s\<lparr>md_events := md_events s @ [Metadata_Job_Progress n completed failed]\<rparr>"

fun scan_items ::
  "unicode \<Rightarrow> rstring option \<Rightarrow> (int \<Rightarrow> lookup_answers) \<Rightarrow> nat \<Rightarrow> item list \<Rightarrow> nat \<Rightarrow> nat \<Rightarrow> metadata_state \<Rightarrow>
    (nat \<times> nat, rstring) outcome \<times> metadata_state" where
  "scan_items u api_key w n [] completed failed s = (Ok (completed, failed), s)"
| "scan_items u api_key w n (item # items) completed failed s =
     (case lookup_and_store u api_key (w (it_id item)) (it_id item) (it_file_path item) (it_original_query item)
             (it_original_artist item) (it_original_track item) (progress n completed failed s) of
        (Ok _, s) \<Rightarrow> scan_items u api_key w n items (completed + 1) failed s
      | (Err _, s) \<Rightarrow> scan_items u api_key w n items completed (failed + 1) s
      | (Panic, s) \<Rightarrow> (Panic, s))"

definition run_library_scan ::
  "unicode \<Rightarrow> rstring option \<Rightarrow> (int \<Rightarrow> lookup_answers) \<Rightarrow> metadata_state \<Rightarrow>
    (nat \<times> nat \<times> nat, rstring) outcome \<times> metadata_state" where
  "run_library_scan u api_key w s =
     (let items = get_items_without_metadata s; n = length items in
      case scan_items u api_key w n items 0 0 s of
        (Ok (completed, failed), s) \<Rightarrow> (Ok (n, completed, failed), progress n completed failed s)
      | (Err e, s) \<Rightarrow> (Err e, s)
      | (Panic, s) \<Rightarrow> (Panic, s))"

section \<open>The handlers\<close>

definition metadata_status :: "string \<Rightarrow> nat" where
  "metadata_status code =
     (if code = ''not_found'' then 404 else if code = ''rate_limited'' then 429
      else if code = ''job_running'' then 409 else if code = ''forbidden'' then 403 else 500)"

definition metadata_error :: "string \<Rightarrow> rstring \<Rightarrow> 'a http" where
  "metadata_error code text = Err (metadata_status code, text)"

definition item_not_found :: "int \<Rightarrow> 'a http" where
  "item_not_found i = metadata_error ''not_found'' (str ''Item not found: '' @ show_int i)"

definition show_item_metadata :: "int \<Rightarrow> metadata_state \<Rightarrow> track_metadata http" where
  "show_item_metadata i s =
     (case get_item i (md_db s) of
        None \<Rightarrow> item_not_found i
      | Some item \<Rightarrow>
          (case get_item_metadata i s of
             Some m \<Rightarrow> Ok m | None \<Rightarrow> Ok (no_metadata\<lparr>tm_title := Some (it_filename item)\<rparr>)))"

definition refresh_item_metadata ::
  "unicode \<Rightarrow> rstring option \<Rightarrow> lookup_answers \<Rightarrow> (int option \<times> int option) option \<Rightarrow> int \<Rightarrow> bool option \<Rightarrow>
    metadata_state \<Rightarrow> track_metadata http \<times> metadata_state" where
  "refresh_item_metadata u api_key w audio i skip_existing s =
     (if get_item i (md_db s) = None then (item_not_found i, s)
      else if \<not> check_metadata_rate_limit i s then
        (metadata_error ''rate_limited'' (str ''Metadata can only be refreshed once per 24 hours''), s)
      else
        (case refresh_metadata u api_key w audio i (skip_existing = Some True) s of
           (Ok m, s) \<Rightarrow> (Ok m, s)
         | (Err e, s) \<Rightarrow> (metadata_error ''internal_error'' (str ''Failed to refresh metadata: '' @ e), s)
         | (Panic, s) \<Rightarrow> (Panic, s)))"

definition remove_item_metadata :: "int \<Rightarrow> metadata_state \<Rightarrow> rstring http \<times> metadata_state" where
  "remove_item_metadata i s =
     (if get_item i (md_db s) = None then (item_not_found i, s)
      else (Ok (str ''Metadata cleared successfully''), clear_item_metadata i s))"

text \<open>Starting the job: the answer, and whether the task was spawned; the task runs the scan and then resets
  the flags, unless it panics.\<close>

definition start_metadata_job :: "auth_user \<Rightarrow> metadata_state \<Rightarrow> (bool \<times> nat) http \<times> metadata_state" where
  "start_metadata_job auth s =
     (if \<not> is_ok (require_admin auth) then (metadata_error ''forbidden'' (str ''Admin access required''), s)
      else if md_job_running s then (metadata_error ''job_running'' (str ''A metadata job is already running''), s)
      else
        (let n = length (get_items_without_metadata s) in
         if n = 0 then (Ok (False, 0), s)
         else (Ok (True, n), s\<lparr>md_job_running := True, md_job_total := n\<rparr>)))"

definition metadata_job ::
  "unicode \<Rightarrow> rstring option \<Rightarrow> (int \<Rightarrow> lookup_answers) \<Rightarrow> metadata_state \<Rightarrow> metadata_state" where
  "metadata_job u api_key w s =
     (case run_library_scan u api_key w s of
        (Panic, s) \<Rightarrow> s
      | (_, s) \<Rightarrow> s\<lparr>md_job_running := False, md_job_total := 0\<rparr>)"

definition get_job_status :: "metadata_state \<Rightarrow> bool \<times> nat \<times> nat \<times> nat" where
  "get_job_status s =
     (let left = length (get_items_without_metadata s) in
      (md_job_running s, md_job_total s,
       if md_job_running s \<and> 0 < md_job_total s then md_job_total s - left else 0, left))"

text \<open>The cover backfill; the list of items was read when it started.\<close>

definition start_cover_backfill :: "auth_user \<Rightarrow> metadata_state \<Rightarrow> item list http \<times> metadata_state" where
  "start_cover_backfill auth s =
     (if \<not> is_ok (require_admin auth) then (metadata_error ''forbidden'' (str ''Admin access required''), s)
      else if md_backfill_running s then
        (metadata_error ''job_running'' (str ''A cover backfill job is already running''), s)
      else
        (let items = get_items_with_uncached_covers s in
         if items = [] then (Ok [], s)
         else (Ok items, s\<lparr>md_backfill_running := True, md_backfill_total := length items,
                 md_backfill_processed := 0, md_backfill_failed := 0\<rparr>)))"

definition backfill_item ::
  "(int \<Rightarrow> rstring \<Rightarrow> (bool, rstring) outcome) \<Rightarrow> int \<times> rstring option \<Rightarrow> metadata_state \<Rightarrow> metadata_state" where
  "backfill_item cache = (\<lambda>(i, art_url) s.
     (let s = (case art_url of
                 None \<Rightarrow> s
               | Some url \<Rightarrow> if cache i url = Ok True then set_cover_cached i True s
                             else s\<lparr>md_backfill_failed := md_backfill_failed s + 1\<rparr>)
      in s\<lparr>md_backfill_processed := md_backfill_processed s + 1\<rparr>))"

definition cover_backfill ::
  "(int \<Rightarrow> rstring \<Rightarrow> (bool, rstring) outcome) \<Rightarrow> (int \<times> rstring option) list \<Rightarrow> metadata_state \<Rightarrow> metadata_state" where
  "cover_backfill cache rows s = (fold (backfill_item cache) rows s)\<lparr>md_backfill_running := False\<rparr>"

end
