(* ===== verification/Messaging.thy ===== *)
theory Messaging
  imports Accounts Router Database "HOL-Library.List_Lexorder" "HOL-Library.Product_Lexorder"
begin

text \<open>
  Messages between the users of one instance: the tables \<open>local_chat_messages\<close> and \<open>direct_messages\<close> of
  \<open>src/src/db/mod.rs\<close>, the handlers of \<open>src/src/api/direct_messages.rs\<close> and \<open>src/src/api/local_chat.rs\<close>,
  and \<open>src/src/api/chat.rs\<close>, the administrator's view of the private messages the router keeps. Rows are
  joined with the users when they are read. A query sorts its rows as its statement says; where the
  statement leaves ties open, the model keeps the order of the rows before the sort.
\<close>

section \<open>SQL: LIKE and LIMIT\<close>

text \<open>The operator of SQLite: 37 is the percent sign, any run of characters; 95 the underscore, any one
  character; letters of ASCII match in either case.\<close>

fun like :: "rstring \<Rightarrow> rstring \<Rightarrow> bool" where
  "like [] [] = True"
| "like [] (c # s) = False"
| "like (p # ps) [] = (p = 37 \<and> like ps [])"
| "like (p # ps) (c # s) =
     (if p = 37 then like ps (c # s) \<or> like (p # ps) s
      else (p = 95 \<or> ascii_lower p = ascii_lower c) \<and> like ps s)"

text \<open>An absent column does not match.\<close>

definition like_column :: "rstring \<Rightarrow> rstring option \<Rightarrow> bool" where
  "like_column pattern col = (case col of Some s \<Rightarrow> like pattern s | None \<Rightarrow> False)"

definition containing :: "rstring \<Rightarrow> rstring" where
  "containing query = [37] @ query @ [37]"

text \<open>A negative limit is no limit.\<close>

definition sql_limit :: "int \<Rightarrow> 'a list \<Rightarrow> 'a list" where
  "sql_limit n xs = (if n < 0 then xs else take (nat n) xs)"

section \<open>The tables\<close>

record local_message =
  lm_id :: int
  lm_user_id :: int
  lm_message :: rstring
  lm_created_at :: nat

record direct_message =
  dm_id :: int
  dm_sender :: int
  dm_recipient :: int
  dm_message :: rstring
  dm_read_at :: "nat option"
  dm_created_at :: nat

record local_chat_row =
  lr_id :: int
  lr_user_id :: int
  lr_username :: rstring
  lr_display_name :: "rstring option"
  lr_has_avatar :: bool
  lr_message :: rstring
  lr_created_at :: nat

record direct_message_row =
  dr_id :: int
  dr_sender_id :: int
  dr_sender_username :: rstring
  dr_sender_display_name :: "rstring option"
  dr_sender_has_avatar :: bool
  dr_recipient_id :: int
  dr_recipient_username :: rstring
  dr_message :: rstring
  dr_read_at :: "nat option"
  dr_created_at :: nat

record conversation =
  cv_user_id :: int
  cv_username :: rstring
  cv_display_name :: "rstring option"
  cv_has_avatar :: bool
  cv_last_message :: rstring
  cv_last_message_at :: nat
  cv_unread_count :: nat

record user_summary =
  um_id :: int
  um_username :: rstring
  um_display_name :: "rstring option"
  um_has_avatar :: bool

text \<open>The events of these handlers: id, author, and what the rows show of them.\<close>

datatype message_event =
    Local_Chat_Message int int rstring "rstring option" bool rstring nat
  | Direct_Message int int rstring "rstring option" bool int rstring nat

record messaging =
  ms_accounts :: accounts
  ms_local :: "local_message list"
  ms_local_seq :: int
  ms_direct :: "direct_message list"
  ms_direct_seq :: int
  ms_events :: "message_event list"

definition newest_first :: "('a \<Rightarrow> int) \<Rightarrow> 'a list \<Rightarrow> 'a list" where
  "newest_first key xs = sort_key (\<lambda>x. - key x) xs"

definition before_cursor :: "int option \<Rightarrow> int \<Rightarrow> bool" where
  "before_cursor before i = (case before of Some b \<Rightarrow> i < b | None \<Rightarrow> True)"

definition has_avatar :: "user \<Rightarrow> bool" where
  "has_avatar u \<longleftrightarrow> us_avatar_path u \<noteq> None"

section \<open>The chat of the instance\<close>

definition local_row :: "accounts \<Rightarrow> local_message \<Rightarrow> local_chat_row option" where
  "local_row a m =
     map_option (\<lambda>u. \<lparr>lr_id = lm_id m, lr_user_id = lm_user_id m, lr_username = us_username u,
         lr_display_name = us_display_name u, lr_has_avatar = has_avatar u, lr_message = lm_message m,
         lr_created_at = lm_created_at m\<rparr>)
       (get_user_by_id (lm_user_id m) a)"

definition insert_local_chat_message :: "int \<Rightarrow> rstring \<Rightarrow> messaging \<Rightarrow> (int, rstring) outcome \<times> messaging" where
  "insert_local_chat_message user message s =
     (if get_user_by_id user (ms_accounts s) = None then (Err (str ''Failed to insert local chat message''), s)
      else
        (let i = ms_local_seq s + 1 in
         (Ok i, s\<lparr>ms_local := ms_local s @ [\<lparr>lm_id = i, lm_user_id = user, lm_message = message,
                                  lm_created_at = ac_clock (ms_accounts s)\<rparr>],
                  ms_local_seq := i\<rparr>)))"

definition get_local_chat_messages :: "int \<Rightarrow> int option \<Rightarrow> messaging \<Rightarrow> local_chat_row list" where
  "get_local_chat_messages limit before s =
     sql_limit limit
       (List.map_filter (local_row (ms_accounts s))
         (newest_first lm_id (filter (\<lambda>m. before_cursor before (lm_id m)) (ms_local s))))"

definition get_local_chat_message :: "int \<Rightarrow> messaging \<Rightarrow> local_chat_row option" where
  "get_local_chat_message i s =
     (case find (\<lambda>m. lm_id m = i) (ms_local s) of Some m \<Rightarrow> local_row (ms_accounts s) m | None \<Rightarrow> None)"

section \<open>Direct messages\<close>

definition direct_row :: "accounts \<Rightarrow> direct_message \<Rightarrow> direct_message_row option" where
  "direct_row a m =
     (case (get_user_by_id (dm_sender m) a, get_user_by_id (dm_recipient m) a) of
        (Some s, Some r) \<Rightarrow>
          Some \<lparr>dr_id = dm_id m, dr_sender_id = dm_sender m, dr_sender_username = us_username s,
            dr_sender_display_name = us_display_name s, dr_sender_has_avatar = has_avatar s,
            dr_recipient_id = dm_recipient m, dr_recipient_username = us_username r,
            dr_message = dm_message m, dr_read_at = dm_read_at m, dr_created_at = dm_created_at m\<rparr>
      | _ \<Rightarrow> None)"

definition insert_direct_message :: "int \<Rightarrow> int \<Rightarrow> rstring \<Rightarrow> messaging \<Rightarrow> (int, rstring) outcome \<times> messaging" where
  "insert_direct_message sender recipient message s =
     (if get_user_by_id sender (ms_accounts s) = None \<or> get_user_by_id recipient (ms_accounts s) = None
      then (Err (str ''Failed to insert direct message''), s)
      else
        (let i = ms_direct_seq s + 1 in
         (Ok i, s\<lparr>ms_direct := ms_direct s @ [\<lparr>dm_id = i, dm_sender = sender, dm_recipient = recipient,
                                   dm_message = message, dm_read_at = None,
                                   dm_created_at = ac_clock (ms_accounts s)\<rparr>],
                  ms_direct_seq := i\<rparr>)))"

definition get_direct_message :: "int \<Rightarrow> messaging \<Rightarrow> direct_message_row option" where
  "get_direct_message i s =
     (case find (\<lambda>m. dm_id m = i) (ms_direct s) of Some m \<Rightarrow> direct_row (ms_accounts s) m | None \<Rightarrow> None)"

definition between :: "int \<Rightarrow> int \<Rightarrow> direct_message \<Rightarrow> bool" where
  "between a b m \<longleftrightarrow> dm_sender m = a \<and> dm_recipient m = b \<or> dm_sender m = b \<and> dm_recipient m = a"

definition get_dm_thread :: "int \<Rightarrow> int \<Rightarrow> int \<Rightarrow> int option \<Rightarrow> messaging \<Rightarrow> direct_message_row list" where
  "get_dm_thread a b limit before s =
     sql_limit limit
       (List.map_filter (direct_row (ms_accounts s))
         (newest_first dm_id (filter (\<lambda>m. between a b m \<and> before_cursor before (dm_id m)) (ms_direct s))))"

definition other_party :: "int \<Rightarrow> direct_message \<Rightarrow> int" where
  "other_party user m = (if dm_sender m = user then dm_recipient m else dm_sender m)"

text \<open>One group per partner, with the highest id in it.\<close>

definition conversation_partners :: "int \<Rightarrow> direct_message list \<Rightarrow> (int \<times> int) list" where
  "conversation_partners user ms =
     (let mine = filter (\<lambda>m. dm_sender m = user \<or> dm_recipient m = user) ms in
      map (\<lambda>p. (p, Max (set (map dm_id (filter (\<lambda>m. other_party user m = p) mine)))))
        (sort (remdups (map (other_party user) mine))))"

definition unread_count :: "int \<Rightarrow> int \<Rightarrow> messaging \<Rightarrow> nat" where
  "unread_count reader sender s =
     length (filter (\<lambda>m. dm_sender m = sender \<and> dm_recipient m = reader \<and> dm_read_at m = None) (ms_direct s))"

definition conversation_row :: "int \<Rightarrow> messaging \<Rightarrow> int \<times> int \<Rightarrow> conversation option" where
  "conversation_row user s = (\<lambda>(p, i).
     (case (get_user_by_id p (ms_accounts s), find (\<lambda>m. dm_id m = i) (ms_direct s)) of
        (Some u, Some m) \<Rightarrow>
          Some \<lparr>cv_user_id = p, cv_username = us_username u, cv_display_name = us_display_name u,
            cv_has_avatar = has_avatar u, cv_last_message = dm_message m,
            cv_last_message_at = dm_created_at m, cv_unread_count = unread_count user p s\<rparr>
      | _ \<Rightarrow> None))"

definition get_dm_conversations :: "int \<Rightarrow> messaging \<Rightarrow> conversation list" where
  "get_dm_conversations user s =
     newest_first (\<lambda>c. int (cv_last_message_at c))
       (List.map_filter (conversation_row user s) (conversation_partners user (ms_direct s)))"

definition mark_dms_read :: "int \<Rightarrow> int \<Rightarrow> messaging \<Rightarrow> messaging" where
  "mark_dms_read reader sender s =
     s\<lparr>ms_direct := map (\<lambda>m. if dm_recipient m = reader \<and> dm_sender m = sender \<and> dm_read_at m = None
                            then m\<lparr>dm_read_at := Some (ac_clock (ms_accounts s))\<rparr> else m) (ms_direct s)\<rparr>"

section \<open>Finding users and lists\<close>

definition summary :: "user \<Rightarrow> user_summary" where
  "summary u = \<lparr>um_id = us_id u, um_username = us_username u, um_display_name = us_display_name u,
     um_has_avatar = has_avatar u\<rparr>"

definition search_users :: "rstring \<Rightarrow> int \<Rightarrow> int \<Rightarrow> accounts \<Rightarrow> user_summary list" where
  "search_users query exclude_id limit a =
     (let pattern = containing query in
      sql_limit limit
        (map summary
          (sort_key (\<lambda>u. (if like pattern (us_username u) then 0 else 1 :: nat, us_username u))
            (filter (\<lambda>u. us_id u \<noteq> exclude_id
                \<and> (like pattern (us_username u) \<or> like_column pattern (us_display_name u))) (ac_users a)))))"

definition search_user_lists :: "int \<Rightarrow> rstring \<Rightarrow> int \<Rightarrow> database \<Rightarrow> list_row list" where
  "search_user_lists user query limit d =
     sql_limit limit
       (newest_first (\<lambda>l. int (ls_created_at l))
         (filter (\<lambda>l. ls_user_id l = user \<and> like (containing query) (ls_name l)) (db_lists d)))"

section \<open>The handlers\<close>

definition page_limit :: "int option \<Rightarrow> int" where
  "page_limit limit = min (case limit of Some n \<Rightarrow> n | None \<Rightarrow> 50) 100"

definition no_message :: "rstring \<Rightarrow> bool" where
  "no_message message \<longleftrightarrow> message = [] \<or> 2000 < length (as_bytes message)"

definition get_thread :: "auth_user \<Rightarrow> int \<Rightarrow> int option \<Rightarrow> int option \<Rightarrow> messaging \<Rightarrow> direct_message_row list" where
  "get_thread auth user limit before s = get_dm_thread (au_id auth) user (page_limit limit) before s"

definition get_conversations :: "auth_user \<Rightarrow> messaging \<Rightarrow> conversation list" where
  "get_conversations auth s = get_dm_conversations (au_id auth) s"

definition send_direct_message ::
  "unicode \<Rightarrow> auth_user \<Rightarrow> int \<Rightarrow> rstring \<Rightarrow> messaging \<Rightarrow> direct_message_row http \<times> messaging" where
  "send_direct_message u auth recipient text s =
     (let message = trim u text in
      if no_message message then (Err (400, str ''Message must be between 1 and 2000 characters''), s)
      else if au_id auth = recipient then (Err (400, str ''Cannot send a message to yourself''), s)
      else if get_user_by_id recipient (ms_accounts s) = None then (Err (404, str ''Recipient not found''), s)
      else
        (case insert_direct_message (au_id auth) recipient message s of
           (Ok i, s) \<Rightarrow>
             (case get_direct_message i s of
                None \<Rightarrow> (Err (500, str ''Message not found after insert''), s)
              | Some dm \<Rightarrow>
                  (Ok dm, s\<lparr>ms_events := ms_events s @ [Direct_Message (dr_id dm) (dr_sender_id dm)
                     (dr_sender_username dm) (dr_sender_display_name dm) (dr_sender_has_avatar dm)
                     (dr_recipient_id dm) (dr_message dm) (dr_created_at dm)]\<rparr>))
         | (Err e, s) \<Rightarrow> (Err (500, str ''Failed to send message: '' @ e), s)
         | (Panic, s) \<Rightarrow> (Panic, s)))"

definition mark_read :: "auth_user \<Rightarrow> int \<Rightarrow> messaging \<Rightarrow> rstring http \<times> messaging" where
  "mark_read auth sender s = (Ok (str ''Marked as read''), mark_dms_read (au_id auth) sender s)"

definition find_users :: "unicode \<Rightarrow> auth_user \<Rightarrow> rstring \<Rightarrow> messaging \<Rightarrow> user_summary list" where
  "find_users u auth q s =
     (if trim u q = [] then [] else search_users (trim u q) (au_id auth) 10 (ms_accounts s))"

definition find_lists :: "unicode \<Rightarrow> auth_user \<Rightarrow> rstring \<Rightarrow> database \<Rightarrow> list_row list" where
  "find_lists u auth q d =
     (if trim u q = [] then [] else search_user_lists (au_id auth) (trim u q) 10 d)"

definition get_local_messages :: "int option \<Rightarrow> int option \<Rightarrow> messaging \<Rightarrow> local_chat_row list" where
  "get_local_messages limit before s = get_local_chat_messages (page_limit limit) before s"

definition send_local_message ::
  "unicode \<Rightarrow> auth_user \<Rightarrow> rstring \<Rightarrow> messaging \<Rightarrow> local_chat_row http \<times> messaging" where
  "send_local_message u auth text s =
     (let message = trim u text in
      if no_message message then (Err (400, str ''Message must be between 1 and 2000 characters''), s)
      else
        (case insert_local_chat_message (au_id auth) message s of
           (Ok i, s) \<Rightarrow>
             (case get_local_chat_message i s of
                None \<Rightarrow> (Err (500, str ''Message not found after insert''), s)
              | Some m \<Rightarrow>
                  (Ok m, s\<lparr>ms_events := ms_events s @ [Local_Chat_Message (lr_id m) (lr_user_id m)
                     (lr_username m) (lr_display_name m) (lr_has_avatar m) (lr_message m) (lr_created_at m)]\<rparr>))
         | (Err e, s) \<Rightarrow> (Err (500, str ''Failed to send message: '' @ e), s)
         | (Panic, s) \<Rightarrow> (Panic, s)))"

section \<open>Private messages of the network\<close>

definition eq_ignore_ascii_case :: "rstring \<Rightarrow> rstring \<Rightarrow> bool" where
  "eq_ignore_ascii_case a b \<longleftrightarrow> map ascii_lower a = map ascii_lower b"

definition get_private_messages :: "auth_user \<Rightarrow> rstring option \<Rightarrow> router \<Rightarrow> chat_message list http" where
  "get_private_messages auth username r =
     obind (require_admin auth) (\<lambda>_. Ok
       (filter (\<lambda>m. case username of Some n \<Rightarrow> eq_ignore_ascii_case (ch_username m) n | None \<Rightarrow> True)
         (chat_history r)))"

text \<open>\<open>io_error\<close> is the text of the failed write.\<close>

definition post_private_message ::
  "auth_user \<Rightarrow> rstring \<Rightarrow> u32 \<Rightarrow> rstring \<Rightarrow> rstring \<Rightarrow> router \<Rightarrow> rstring http \<times> router" where
  "post_private_message auth io_error time_now username message r =
     (case require_admin auth of
        Err e \<Rightarrow> (Err e, r)
      | Panic \<Rightarrow> (Panic, r)
      | Ok _ \<Rightarrow>
          if username = [] \<or> message = [] then (Err (400, str ''Username and message are required''), r)
          else
            (case send_private_message time_now username message r of
               (True, r) \<Rightarrow> (Ok username, r)
             | (False, r) \<Rightarrow> (Err (500, str ''Failed to send message: '' @ io_error), r)))"

end
