(* ===== verification/Library_Api.thy ===== *)
theory Library_Api
  imports Metadata_Service Messaging
begin

text \<open>
  The library as the clients of the server see it: \<open>src/src/services/download.rs\<close>, the handlers of
  \<open>src/src/api/items.rs\<close>, \<open>lists.rs\<close>, \<open>cover.rs\<close> and \<open>admin.rs\<close>, the paths of
  \<open>src/src/services/metadata/cover_cache.rs\<close>, the share search of \<open>local_chat.rs\<close>, and which of these requests
  the router of \<open>src/src/api/mod.rs\<close> lets through without a token. The disk is a map from paths to contents;
  some files cannot be removed or opened. Errors inside SQLite are not modelled.
\<close>

section \<open>The disk\<close>

record library =
  lb_meta :: metadata_state
  lb_files :: "rstring \<Rightarrow> bytes option"
  lb_locked :: "rstring \<Rightarrow> bool"
  lb_unreadable :: "rstring \<Rightarrow> bool"
  lb_storage :: rstring

definition lb_db :: "library \<Rightarrow> database" where
  "lb_db l = md_db (lb_meta l)"

definition with_db :: "(database \<Rightarrow> database) \<Rightarrow> library \<Rightarrow> library" where
  "with_db f l = l\<lparr>lb_meta := (lb_meta l)\<lparr>md_db := f (lb_db l)\<rparr>\<rparr>"

definition remove_file :: "rstring \<Rightarrow> library \<Rightarrow> library" where
  "remove_file p l = (if lb_locked l p then l else l\<lparr>lb_files := (lb_files l)(p := None)\<rparr>)"

datatype cover_size = Full | Thumb

fun cover_size_str :: "cover_size \<Rightarrow> rstring" where
  "cover_size_str Full = str ''full''"
| "cover_size_str Thumb = str ''thumb''"

definition parse_cover_size :: "rstring \<Rightarrow> cover_size" where
  "parse_cover_size s = (if s = str ''full'' then Full else Thumb)"

definition cover_path :: "rstring \<Rightarrow> int \<Rightarrow> cover_size \<Rightarrow> rstring" where
  "cover_path storage i sz =
     storage @ str ''/covers/'' @ show_int i @ [95] @ cover_size_str sz @ str ''.webp''"

text \<open>\<open>images\<close> are the encoded variants, if the answer could be decoded; the directory can be full.\<close>

definition cache_cover ::
  "bytes answer \<Rightarrow> (bytes \<Rightarrow> (bytes \<times> bytes, rstring) outcome) \<Rightarrow> (rstring \<Rightarrow> bool) \<Rightarrow> int \<Rightarrow> library \<Rightarrow>
   (bool, rstring) outcome \<times> library" where
  "cache_cover answer images writable i l =
     (let full = cover_path (lb_storage l) i Full; thumb = cover_path (lb_storage l) i Thumb in
      case answer of
        Unsent \<Rightarrow> (Err (str ''Failed to download cover art''), l)
      | Refused status body \<Rightarrow> (Err (str ''Cover art download returned status '' @ status), l)
      | Not_Json \<Rightarrow> (Err (str ''Failed to read cover art bytes''), l)
      | Json data \<Rightarrow>
          if data = [] then (Ok False, l)
          else
            (case images data of
               Err e \<Rightarrow> (Err e, l)
             | Panic \<Rightarrow> (Err (str ''Image processing task panicked''), l)
             | Ok (big, small) \<Rightarrow>
                 if \<not> writable full then (Err (str ''Failed to write full-size cover''), l)
                 else
                   (let l = l\<lparr>lb_files := (lb_files l)(full \<mapsto> big)\<rparr> in
                    if \<not> writable thumb then (Err (str ''Failed to write thumbnail cover''), l)
                    else (Ok True, l\<lparr>lb_files := (lb_files l)(thumb \<mapsto> small)\<rparr>))))"

definition delete_cached :: "int \<Rightarrow> library \<Rightarrow> library" where
  "delete_cached i l =
     remove_file (cover_path (lb_storage l) i Thumb) (remove_file (cover_path (lb_storage l) i Full) l)"

definition get_item_cover :: "int \<Rightarrow> rstring \<Rightarrow> library \<Rightarrow> bytes http" where
  "get_item_cover i sz l =
     (let p = cover_path (lb_storage l) i (parse_cover_size sz) in
      case lb_files l p of
        None \<Rightarrow> Err (404, str ''Cover art not cached'')
      | Some data \<Rightarrow> if lb_unreadable l p then Err (404, str ''Cover art not cached'') else Ok data)"

section \<open>Items\<close>

definition remove_item_file :: "int \<Rightarrow> library \<Rightarrow> library" where
  "remove_item_file i l =
     (case get_item i (lb_db l) of Some it \<Rightarrow> remove_file (it_file_path it) l | None \<Rightarrow> l)"

text \<open>\<open>DownloadService::delete_item\<close> and \<open>delete_items\<close>: the file, the covers, then the row.\<close>

definition service_delete_item :: "int \<Rightarrow> library \<Rightarrow> library" where
  "service_delete_item i l = with_db (delete_item i) (delete_cached i (remove_item_file i l))"

definition service_delete_items :: "int list \<Rightarrow> library \<Rightarrow> library" where
  "service_delete_items ids l =
     with_db (delete_items ids) (fold (\<lambda>i l. delete_cached i (remove_item_file i l)) ids l)"

definition list_items :: "library \<Rightarrow> item list" where
  "list_items l = get_all_items (lb_db l)"

definition show_item :: "int \<Rightarrow> library \<Rightarrow> item http" where
  "show_item i l = (case get_item i (lb_db l) of None \<Rightarrow> Err (404, str ''Item not found'') | Some it \<Rightarrow> Ok it)"

section \<open>Byte ranges\<close>

text \<open>\<open>parse::<u64>\<close> takes decimal digits after an optional plus sign.\<close>

definition parse_u64 :: "rstring \<Rightarrow> nat option" where
  "parse_u64 s =
     (case (case s of c # t \<Rightarrow> if c = 43 then parse_nat t else parse_nat s | [] \<Rightarrow> None) of
        None \<Rightarrow> None
      | Some n \<Rightarrow> if n < 2 ^ 64 then Some n else None)"

text \<open>The last position of a file, \<open>file_size - 1\<close>, wraps for an empty file.\<close>

definition last_position :: "nat \<Rightarrow> nat" where
  "last_position file_size = (if file_size = 0 then 2 ^ 64 - 1 else file_size - 1)"

definition parse_range_header :: "rstring \<Rightarrow> nat \<Rightarrow> (nat \<times> nat) option" where
  "parse_range_header header file_size =
     (if \<not> prefix (str ''bytes='') header then None
      else
        (case split_on 45 (drop 6 header) of
           [first, second] \<Rightarrow>
             (case ((if first = [] then map_option (\<lambda>n. file_size - n) (parse_u64 second) else parse_u64 first),
                    (if second = [] then Some (last_position file_size) else parse_u64 second)) of
                (Some start, Some stop) \<Rightarrow>
                  if stop < start \<or> file_size \<le> start then None
                  else Some (start, min stop (last_position file_size))
              | _ \<Rightarrow> None)
         | _ \<Rightarrow> None))"

record file_response =
  fr_status :: nat
  fr_content_type :: rstring
  fr_content_length :: nat
  fr_content_range :: "rstring option"
  fr_disposition :: rstring
  fr_body :: bytes

text \<open>
  \<open>mime\<close> guesses the type of a path; a response with a header value that \<open>header_ok\<close> refuses makes the
  builder's \<open>unwrap\<close> panic. The text of a 416 is its content range.
\<close>

definition download_item ::
  "(rstring \<Rightarrow> rstring) \<Rightarrow> (rstring \<Rightarrow> bool) \<Rightarrow> int \<Rightarrow> rstring option \<Rightarrow> library \<Rightarrow> file_response http" where
  "download_item mime header_ok i wanted l =
     obind (show_item i l) (\<lambda>it.
       if it_status it \<noteq> ''completed'' then
         Err (409, str ''Item not ready for download. Status: '' @ str (it_status it))
       else
         (case lb_files l (it_file_path it) of
            None \<Rightarrow> Err (404, str ''File not found on disk'')
          | Some data \<Rightarrow>
              let file_size = length data;
                  disposition = str ''inline; filename='' @ [34] @ it_filename it @ [34];
                  unreadable = lb_unreadable l (it_file_path it) in
              case wanted of
                Some header \<Rightarrow>
                  (case parse_range_header header file_size of
                     None \<Rightarrow> Err (416, str ''bytes */'' @ show_nat file_size)
                   | Some (start, stop) \<Rightarrow>
                       if unreadable then Err (500, str ''Failed to open file'')
                       else if \<not> header_ok disposition then Panic
                       else Ok \<lparr>fr_status = 206, fr_content_type = mime (it_file_path it),
                              fr_content_length = stop - start + 1,
                              fr_content_range = Some (str ''bytes '' @ show_nat start @ [45] @ show_nat stop @ [47]
                                                         @ show_nat file_size),
                              fr_disposition = disposition,
                              fr_body = take (stop - start + 1) (drop start data)\<rparr>)
              | None \<Rightarrow>
                  if unreadable then Err (500, str ''Failed to open file'')
                  else if \<not> header_ok disposition then Panic
                  else Ok \<lparr>fr_status = 200, fr_content_type = mime (it_file_path it), fr_content_length = file_size,
                         fr_content_range = None, fr_disposition = disposition, fr_body = data\<rparr>))"

section \<open>Lists\<close>

definition list_lists :: "auth_user \<Rightarrow> library \<Rightarrow> list_row list" where
  "list_lists auth l = get_user_lists (au_id auth) (lb_db l)"

definition get_list_with_items :: "int \<Rightarrow> library \<Rightarrow> (list_row \<times> item list) option" where
  "get_list_with_items i l = map_option (\<lambda>r. (r, get_list_items i (lb_db l))) (get_list i (lb_db l))"

definition show_list :: "int \<Rightarrow> library \<Rightarrow> (list_row \<times> item list) http" where
  "show_list i l =
     (case get_list_with_items i l of None \<Rightarrow> Err (404, str ''List not found'') | Some r \<Rightarrow> Ok r)"

text \<open>Deleting a list with its items: the row of the list goes first, then file and row of every item it had;
  an item with an empty path has no file.\<close>

definition hard_delete_item :: "int \<Rightarrow> library \<Rightarrow> library" where
  "hard_delete_item i l =
     with_db (delete_item i)
       (case get_item i (lb_db l) of
          Some it \<Rightarrow> if it_file_path it = [] then l else remove_file (it_file_path it) l
        | None \<Rightarrow> l)"

definition delete_with_items :: "int \<Rightarrow> library \<Rightarrow> library" where
  "delete_with_items i l =
     (let (ids, db) = delete_list_with_items i (lb_db l)
      in fold hard_delete_item ids (with_db (\<lambda>_. db) l))"

text \<open>\<open>create\<close> says whether the temporary file can be made; \<open>accepts\<close> whether the archive takes another entry
  of the given name. The archive is the list of its entries; a header that is refused becomes the response.\<close>

fun zip_items ::
  "((rstring \<times> bytes) list \<Rightarrow> rstring \<Rightarrow> bool) \<Rightarrow> library \<Rightarrow> item list \<Rightarrow> (rstring \<times> bytes) list \<Rightarrow>
   (rstring \<times> bytes) list http" where
  "zip_items accepts l [] acc = Ok acc"
| "zip_items accepts l (it # its) acc =
     (if \<not> accepts acc (it_filename it) then Err (500, str ''Failed to create zip file'')
      else
        (case lb_files l (it_file_path it) of
           None \<Rightarrow> Err (500, str ''Failed to read file'')
         | Some data \<Rightarrow>
             if lb_unreadable l (it_file_path it) then Err (500, str ''Failed to read file'')
             else zip_items accepts l its (acc @ [(it_filename it, data)])))"

definition download_list ::
  "bool \<Rightarrow> ((rstring \<times> bytes) list \<Rightarrow> rstring \<Rightarrow> bool) \<Rightarrow> (rstring \<Rightarrow> bool) \<Rightarrow> rstring \<Rightarrow> int \<Rightarrow> library \<Rightarrow>
   (rstring \<times> (rstring \<times> bytes) list) http" where
  "download_list create accepts header_ok header_error i l =
     obind (show_list i l) (\<lambda>(r, its).
       let n = length (filter (\<lambda>it. it_status it \<noteq> ''completed'') its);
           disposition = str ''attachment; filename='' @ [34] @ ls_name r @ str ''.zip'' @ [34] in
       if 0 < n then Err (409, show_nat n @ str '' items not yet downloaded'')
       else if \<not> create then Err (500, str ''Failed to create zip file'')
       else obind (zip_items accepts l its []) (\<lambda>entries.
         if header_ok disposition then Ok (disposition, entries) else Err (500, header_error)))"

section \<open>Searching to share, and the administrator's view\<close>

text \<open>The order of the rows: those whose title matches first, then those whose artist does, then the newest.\<close>

definition search_items_for_share :: "rstring \<Rightarrow> int \<Rightarrow> metadata_state \<Rightarrow> item list" where
  "search_items_for_share query limit s =
     (let pattern = containing query;
          title = (\<lambda>it. like_column pattern (tm_title (mc_metadata (md_columns s (it_id it)))));
          artist = (\<lambda>it. like_column pattern (tm_artist (mc_metadata (md_columns s (it_id it)))))
      in sql_limit limit
           (sort_key (\<lambda>it. if title it then 0 else 1 :: nat)
             (sort_key (\<lambda>it. if artist it then 0 else 1 :: nat)
               (sort_key (\<lambda>it. - it_id it)
                 (filter (\<lambda>it. it_status it = ''completed'' \<and> (title it \<or> artist it \<or> like pattern (it_filename it)))
                   (db_items (md_db s)))))))"

definition share_items :: "unicode \<Rightarrow> rstring \<Rightarrow> library \<Rightarrow> item list" where
  "share_items u q l = (if trim u q = [] then [] else search_items_for_share (trim u q) 10 (lb_meta l))"

record system_stats =
  ss_total_items :: nat
  ss_completed_items :: nat
  ss_failed_items :: nat
  ss_pending_items :: nat
  ss_storage_bytes :: int
  ss_total_lists :: nat
  ss_total_users :: nat
  ss_with_metadata :: nat
  ss_without_metadata :: nat
  ss_with_covers :: nat
  ss_without_covers :: nat

definition how_many :: "('a \<Rightarrow> bool) \<Rightarrow> 'a list \<Rightarrow> nat" where
  "how_many P xs = length (filter P xs)"

definition get_system_stats :: "metadata_state \<Rightarrow> accounts \<Rightarrow> system_stats" where
  "get_system_stats s a =
     (let its = db_items (md_db s); col = (\<lambda>it. md_columns s (it_id it));
          fetched = (\<lambda>it. tm_fetched_at (mc_metadata (col it)) \<noteq> None);
          live = (\<lambda>it. it_status it \<noteq> ''deleted''); completed = (\<lambda>it. it_status it = ''completed'')
      in \<lparr>ss_total_items = how_many live its, ss_completed_items = how_many completed its,
          ss_failed_items = how_many (\<lambda>it. it_status it = ''failed'') its,
          ss_pending_items = how_many (\<lambda>it. it_status it \<in> set [''pending'', ''downloading'']) its,
          ss_storage_bytes = sum_list (map it_file_size (filter completed its)),
          ss_total_lists = length (db_lists (md_db s)), ss_total_users = length (ac_users a),
          ss_with_metadata = how_many (\<lambda>it. fetched it \<and> live it) its,
          ss_without_metadata = how_many (\<lambda>it. \<not> fetched it \<and> completed it) its,
          ss_with_covers = how_many (\<lambda>it. mc_cover_cached (col it) \<and> live it) its,
          ss_without_covers = how_many (\<lambda>it. \<not> mc_cover_cached (col it)
             \<and> tm_album_art_url (mc_metadata (col it)) \<noteq> None \<and> completed it) its\<rparr>)"

definition get_stats :: "auth_user \<Rightarrow> metadata_state \<Rightarrow> accounts \<Rightarrow> system_stats http" where
  "get_stats auth s a = obind (require_admin auth) (\<lambda>_. Ok (get_system_stats s a))"

text \<open>A user as the administrator sees one: id, name, email, role, when created, whether there is an avatar.\<close>

definition get_users :: "auth_user \<Rightarrow> accounts \<Rightarrow> (int \<times> rstring \<times> rstring option \<times> rstring \<times> nat \<times> bool) list http" where
  "get_users auth a =
     obind (require_admin auth) (\<lambda>_.
       Ok (map (\<lambda>u. (us_id u, us_username u, us_email u, us_role u, us_created_at u, has_avatar u)) (get_all_users a)))"

section \<open>The routes\<close>

text \<open>The requests of the library that the router serves, and what they answer.\<close>

datatype request =
    List_Items | Get_Item int | Delete_Item int | Delete_Items "int list" | Download_Item int "rstring option"
  | Get_Cover int rstring | List_Lists | Get_List int | Delete_List int | Rename_List int rstring
  | Delete_List_With_Items int | Delete_Lists "int list" | Download_List int | Remove_From_List int int
  | Remove_All_From_List int "int list" | Share_Search rstring

datatype response =
    Items "item list" | One_Item item | File file_response | Cover bytes | Lists "list_row list"
  | One_List list_row "item list" | Archive rstring "(rstring \<times> bytes) list" | No_Content

record api_env =
  ae_unicode :: unicode
  ae_mime :: "rstring \<Rightarrow> rstring"
  ae_header_ok :: "rstring \<Rightarrow> bool"
  ae_header_error :: rstring
  ae_temp_ok :: bool
  ae_accepts :: "(rstring \<times> bytes) list \<Rightarrow> rstring \<Rightarrow> bool"

text \<open>Only these two of the handlers take an \<open>AuthUser\<close>, whose extractor answers first.\<close>

fun extracts_user :: "request \<Rightarrow> bool" where
  "extracts_user List_Lists = True"
| "extracts_user (Share_Search _) = True"
| "extracts_user _ = False"

fun respond :: "api_env \<Rightarrow> auth_user option \<Rightarrow> request \<Rightarrow> library \<Rightarrow> response http \<times> library" where
  "respond e user List_Items l = (Ok (Items (list_items l)), l)"
| "respond e user (Get_Item i) l = (obind (show_item i l) (\<lambda>it. Ok (One_Item it)), l)"
| "respond e user (Delete_Item i) l = (Ok No_Content, service_delete_item i l)"
| "respond e user (Delete_Items ids) l = (Ok No_Content, service_delete_items ids l)"
| "respond e user (Download_Item i wanted) l =
     (obind (download_item (ae_mime e) (ae_header_ok e) i wanted l) (\<lambda>f. Ok (File f)), l)"
| "respond e user (Get_Cover i sz) l = (obind (get_item_cover i sz l) (\<lambda>c. Ok (Cover c)), l)"
| "respond e user List_Lists l = (Ok (Lists (case user of Some auth \<Rightarrow> list_lists auth l | None \<Rightarrow> [])), l)"
| "respond e user (Get_List i) l = (obind (show_list i l) (\<lambda>(r, its). Ok (One_List r its)), l)"
| "respond e user (Delete_List i) l = (Ok No_Content, with_db (delete_list i) l)"
| "respond e user (Rename_List i name) l = (Ok No_Content, with_db (rename_list i name) l)"
| "respond e user (Delete_List_With_Items i) l = (Ok No_Content, delete_with_items i l)"
| "respond e user (Delete_Lists ids) l = (Ok No_Content, with_db (delete_lists ids) l)"
| "respond e user (Download_List i) l =
     (obind (download_list (ae_temp_ok e) (ae_accepts e) (ae_header_ok e) (ae_header_error e) i l)
        (\<lambda>(name, entries). Ok (Archive name entries)), l)"
| "respond e user (Remove_From_List k i) l = (Ok No_Content, with_db (remove_item_from_list k i) l)"
| "respond e user (Remove_All_From_List k ids) l = (Ok No_Content, with_db (remove_items_from_list k ids) l)"
| "respond e user (Share_Search q) l = (Ok (Items (share_items (ae_unicode e) q l)), l)"

definition serve ::
  "api_env \<Rightarrow> ('t \<Rightarrow> claims option) \<Rightarrow> 't option \<Rightarrow> request \<Rightarrow> library \<Rightarrow> response http \<times> library" where
  "serve e decode bearer r l =
     (if \<not> extracts_user r then respond e None r l
      else
        (case auth_from_token decode bearer of
           Ok auth \<Rightarrow> respond e (Some auth) r l
         | Err x \<Rightarrow> (Err x, l)
         | Panic \<Rightarrow> (Panic, l)))"

end
