(* ===== verification/OAuth.thy ===== *)
theory OAuth
  imports Accounts Music_Search "HOL-Library.List_Lexorder"
begin

text \<open>
  The connections to streaming services: the stored tokens of \<open>src/src/services/oauth/encryption.rs\<close>, the
  tables \<open>oauth_connections\<close> and \<open>oauth_pending_states\<close> of \<open>src/src/db/mod.rs\<close>, and the service
  \<open>src/src/services/oauth/mod.rs\<close> over any provider. The cipher, the encoding and the key derivation are
  third-party code and arguments; so are the random bytes. Times are seconds.
\<close>

section \<open>The services\<close>

datatype music_service = Spotify | Tidal | Soundcloud | Beatport

fun service_str :: "music_service \<Rightarrow> rstring" where
  "service_str Spotify = str ''spotify''"
| "service_str Tidal = str ''tidal''"
| "service_str Soundcloud = str ''soundcloud''"
| "service_str Beatport = str ''beatport''"

definition parse_service :: "unicode \<Rightarrow> rstring \<Rightarrow> music_service option" where
  "parse_service u s =
     (let s = lowercase u s in
      if s = str ''spotify'' then Some Spotify
      else if s = str ''tidal'' then Some Tidal
      else if s = str ''soundcloud'' then Some Soundcloud
      else if s = str ''beatport'' then Some Beatport
      else None)"

record oauth_tokens =
  ot_access :: rstring
  ot_refresh :: "rstring option"
  ot_expires_at :: "int option"
  ot_scopes :: "rstring list"

record external_profile =
  ep_id :: rstring
  ep_username :: rstring
  ep_display_name :: "rstring option"
  ep_profile_url :: "rstring option"
  ep_image_url :: "rstring option"

record external_playlist =
  xp_id :: rstring
  xp_name :: rstring
  xp_description :: "rstring option"
  xp_owner_name :: rstring
  xp_track_count :: int
  xp_image_url :: "rstring option"
  xp_external_url :: rstring
  xp_is_public :: bool

record external_track =
  xt_id :: rstring
  xt_name :: rstring
  xt_artists :: "rstring list"
  xt_album :: "rstring option"
  xt_duration_ms :: "int option"
  xt_external_url :: rstring

section \<open>Tokens at rest\<close>

text \<open>
  \<open>seal\<close> and \<open>unseal\<close> take the key, the nonce and the text; \<open>hkdf\<close> the salt, the secret, the purpose and
  the length. What is relied on is stated in \<open>cipher_laws\<close>.
\<close>

record crypto =
  seal :: "bytes \<Rightarrow> bytes \<Rightarrow> bytes \<Rightarrow> bytes option"
  unseal :: "bytes \<Rightarrow> bytes \<Rightarrow> bytes \<Rightarrow> bytes option"
  aead_error :: rstring
  base64 :: "bytes \<Rightarrow> rstring"
  unbase64 :: "rstring \<Rightarrow> bytes option"
  hkdf :: "bytes \<Rightarrow> bytes \<Rightarrow> bytes \<Rightarrow> nat \<Rightarrow> bytes"

definition nonce_size :: nat where "nonce_size = 12"

definition key_size :: nat where "key_size = 32"

definition derive_encryption_key :: "crypto \<Rightarrow> rstring \<Rightarrow> bytes" where
  "derive_encryption_key c jwt_secret =
     hkdf c (as_bytes (str ''rinse-oauth-tokens'')) (as_bytes jwt_secret)
       (as_bytes (str ''oauth-token-encryption'')) key_size"

definition bad_key :: "bytes \<Rightarrow> rstring" where
  "bad_key key = str ''Invalid key size: expected '' @ show_nat key_size @ str '', got '' @ show_nat (length key)"

definition encrypt_token :: "crypto \<Rightarrow> bytes \<Rightarrow> rstring \<Rightarrow> bytes \<Rightarrow> (rstring, rstring) outcome" where
  "encrypt_token c nonce tok key =
     (if length key \<noteq> key_size then Err (bad_key key)
      else
        (case seal c key nonce (as_bytes tok) of
           None \<Rightarrow> Err (str ''Encryption failed: '' @ aead_error c)
         | Some ciphertext \<Rightarrow> Ok (base64 c (nonce @ ciphertext))))"

definition decrypt_token :: "crypto \<Rightarrow> rstring \<Rightarrow> bytes \<Rightarrow> (rstring, rstring) outcome" where
  "decrypt_token c encrypted key =
     (if length key \<noteq> key_size then Err (bad_key key)
      else
        (case unbase64 c encrypted of
           None \<Rightarrow> Err (str ''Failed to decode base64'')
         | Some combined \<Rightarrow>
             if length combined < nonce_size then Err (str ''Encrypted data too short'')
             else
               (case unseal c key (take nonce_size combined) (drop nonce_size combined) of
                  None \<Rightarrow> Err (str ''Decryption failed: '' @ aead_error c)
                | Some plaintext \<Rightarrow>
                    (case from_utf8 plaintext of
                       None \<Rightarrow> Err (str ''Decrypted data is not valid UTF-8'')
                     | Some tok \<Rightarrow> Ok tok))))"

section \<open>The tables\<close>

record oauth_connection =
  oc_id :: int
  oc_user_id :: int
  oc_service :: rstring
  oc_external_user_id :: "rstring option"
  oc_external_username :: "rstring option"
  oc_access :: rstring
  oc_refresh :: "rstring option"
  oc_expires_at :: "int option"
  oc_scopes :: "rstring list option"
  oc_status :: string
  oc_created_at :: nat
  oc_updated_at :: nat
  oc_last_used_at :: "nat option"

record oauth_pending =
  op_id :: int
  op_user_id :: int
  op_service :: rstring
  op_state :: rstring
  op_verifier :: rstring
  op_created_at :: nat
  op_expires_at :: nat

record oauth_db =
  od_accounts :: accounts
  od_connections :: "oauth_connection list"
  od_connection_seq :: int
  od_pending :: "oauth_pending list"
  od_pending_seq :: int

definition od_now :: "oauth_db \<Rightarrow> nat" where
  "od_now s = ac_clock (od_accounts s)"

definition known_user :: "int \<Rightarrow> oauth_db \<Rightarrow> bool" where
  "known_user user s \<longleftrightarrow> get_user_by_id user (od_accounts s) \<noteq> None"

definition connection_of :: "int \<Rightarrow> rstring \<Rightarrow> oauth_connection \<Rightarrow> bool" where
  "connection_of user service c \<longleftrightarrow> oc_user_id c = user \<and> oc_service c = service"

definition get_oauth_connection :: "int \<Rightarrow> rstring \<Rightarrow> oauth_db \<Rightarrow> oauth_connection option" where
  "get_oauth_connection user service s = find (connection_of user service) (od_connections s)"

text \<open>The rows come in the order of the names of their services.\<close>

definition get_user_oauth_connections :: "int \<Rightarrow> oauth_db \<Rightarrow> oauth_connection list" where
  "get_user_oauth_connections user s =
     sort_key oc_service (filter (\<lambda>c. oc_user_id c = user) (od_connections s))"

definition update_connections ::
  "int \<Rightarrow> rstring \<Rightarrow> (oauth_connection \<Rightarrow> oauth_connection) \<Rightarrow> oauth_db \<Rightarrow> oauth_db" where
  "update_connections user service f s =
     s\<lparr>od_connections := map (\<lambda>c. if connection_of user service c then f c else c) (od_connections s)\<rparr>"

definition upsert_oauth_connection ::
  "int \<Rightarrow> rstring \<Rightarrow> rstring \<Rightarrow> rstring \<Rightarrow> rstring \<Rightarrow> rstring option \<Rightarrow> int option \<Rightarrow> rstring list \<Rightarrow> oauth_db \<Rightarrow>
   (unit, rstring) outcome \<times> oauth_db" where
  "upsert_oauth_connection user service external name access refresh expires scopes s =
     (if \<not> known_user user s then (Err (str ''Failed to upsert OAuth connection''), s)
      else if get_oauth_connection user service s = None then
        (Ok (), s\<lparr>od_connections := od_connections s @
           [\<lparr>oc_id = od_connection_seq s + 1, oc_user_id = user, oc_service = service,
             oc_external_user_id = Some external, oc_external_username = Some name, oc_access = access,
             oc_refresh = refresh, oc_expires_at = expires, oc_scopes = Some scopes, oc_status = ''active'',
             oc_created_at = od_now s, oc_updated_at = od_now s, oc_last_used_at = None\<rparr>],
           od_connection_seq := od_connection_seq s + 1\<rparr>)
      else
        (Ok (), update_connections user service
           (\<lambda>c. c\<lparr>oc_external_user_id := Some external, oc_external_username := Some name, oc_access := access,
             oc_refresh := refresh, oc_expires_at := expires, oc_scopes := Some scopes, oc_status := ''active'',
             oc_updated_at := od_now s\<rparr>) s))"

text \<open>\<open>COALESCE\<close> keeps the refresh token and the name when none is given.\<close>

definition update_oauth_tokens ::
  "int \<Rightarrow> rstring \<Rightarrow> rstring \<Rightarrow> rstring option \<Rightarrow> int option \<Rightarrow> rstring option \<Rightarrow> oauth_db \<Rightarrow> oauth_db" where
  "update_oauth_tokens user service access refresh expires name s =
     update_connections user service
       (\<lambda>c. c\<lparr>oc_external_username := (if name = None then oc_external_username c else name), oc_access := access,
         oc_refresh := (if refresh = None then oc_refresh c else refresh), oc_expires_at := expires,
         oc_updated_at := od_now s, oc_last_used_at := Some (od_now s)\<rparr>) s"

definition touch_oauth_connection :: "int \<Rightarrow> rstring \<Rightarrow> oauth_db \<Rightarrow> oauth_db" where
  "touch_oauth_connection user service s =
     update_connections user service (\<lambda>c. c\<lparr>oc_last_used_at := Some (od_now s)\<rparr>) s"

definition mark_oauth_expired :: "int \<Rightarrow> rstring \<Rightarrow> oauth_db \<Rightarrow> oauth_db" where
  "mark_oauth_expired user service s =
     update_connections user service (\<lambda>c. c\<lparr>oc_status := ''expired'', oc_updated_at := od_now s\<rparr>) s"

definition delete_oauth_connection :: "int \<Rightarrow> rstring \<Rightarrow> oauth_db \<Rightarrow> oauth_db" where
  "delete_oauth_connection user service s =
     s\<lparr>od_connections := filter (\<lambda>c. \<not> connection_of user service c) (od_connections s)\<rparr>"

text \<open>
  The four statements on the pending states. A new row needs its user and a state no other row has; nothing asks
  that the user and the service be new, too. The two functions that use them run two statements each, between
  which those of other requests may come; the definitions say what they do when none does.
\<close>

definition delete_pending_of :: "int \<Rightarrow> rstring \<Rightarrow> oauth_db \<Rightarrow> oauth_db" where
  "delete_pending_of user service s =
     s\<lparr>od_pending := filter (\<lambda>p. \<not> (op_user_id p = user \<and> op_service p = service)) (od_pending s)\<rparr>"

definition insert_pending ::
  "int \<Rightarrow> rstring \<Rightarrow> rstring \<Rightarrow> rstring \<Rightarrow> nat \<Rightarrow> oauth_db \<Rightarrow> (unit, rstring) outcome \<times> oauth_db" where
  "insert_pending user service state verifier expires s =
     (if \<not> known_user user s \<or> state \<in> op_state ` set (od_pending s) then
        (Err (str ''Failed to create OAuth pending state''), s)
      else
        (Ok (), s\<lparr>od_pending := od_pending s @
           [\<lparr>op_id = od_pending_seq s + 1, op_user_id = user, op_service = service, op_state = state,
             op_verifier = verifier, op_created_at = od_now s, op_expires_at = expires\<rparr>],
           od_pending_seq := od_pending_seq s + 1\<rparr>))"

definition select_pending :: "rstring \<Rightarrow> oauth_db \<Rightarrow> oauth_pending option" where
  "select_pending state s = find (\<lambda>p. op_state p = state) (od_pending s)"

definition delete_pending_state :: "rstring \<Rightarrow> oauth_db \<Rightarrow> oauth_db" where
  "delete_pending_state state s = s\<lparr>od_pending := filter (\<lambda>p. op_state p \<noteq> state) (od_pending s)\<rparr>"

definition create_oauth_pending_state ::
  "int \<Rightarrow> rstring \<Rightarrow> rstring \<Rightarrow> rstring \<Rightarrow> nat \<Rightarrow> oauth_db \<Rightarrow> (unit, rstring) outcome \<times> oauth_db" where
  "create_oauth_pending_state user service state verifier expires s =
     insert_pending user service state verifier expires (delete_pending_of user service s)"

definition get_and_delete_oauth_pending_state :: "rstring \<Rightarrow> oauth_db \<Rightarrow> oauth_pending option \<times> oauth_db" where
  "get_and_delete_oauth_pending_state state s =
     (case select_pending state s of
        None \<Rightarrow> (None, s)
      | Some p \<Rightarrow> (Some p, delete_pending_state state s))"

text \<open>\<open>earlier\<close> is how SQLite compares the stored text of a time with the text of the current one.\<close>

definition cleanup_expired_oauth_states :: "(nat \<Rightarrow> nat \<Rightarrow> bool) \<Rightarrow> oauth_db \<Rightarrow> nat \<times> oauth_db" where
  "cleanup_expired_oauth_states earlier s =
     (let gone = (\<lambda>p. earlier (op_expires_at p) (od_now s)) in
      (length (filter gone (od_pending s)), s\<lparr>od_pending := filter (\<lambda>p. \<not> gone p) (od_pending s)\<rparr>))"

end
