(* ===== verification/OAuth_Service.thy ===== *)
theory OAuth_Service
  imports OAuth
begin

text \<open>
  \<open>OAuthService\<close> of \<open>src/src/services/oauth/mod.rs\<close> over a provider, which is the record of the methods of
  the trait \<open>MusicServiceProvider\<close>, and the handlers of \<open>src/src/api/oauth.rs\<close>. The fields of a provider
  give its answers during the call that is modelled; \<open>n1\<close> and \<open>n2\<close> are the random nonces of the call. The
  error text of a call is that of its outermost context.
\<close>

section \<open>Providers\<close>

record authorization_url =
  au_url :: rstring
  au_state :: rstring
  au_verifier :: rstring

type_synonym 'a result = "('a, rstring) outcome"

record music_provider =
  get_authorization_url :: "rstring \<Rightarrow> authorization_url"
  exchange_code :: "rstring \<Rightarrow> rstring \<Rightarrow> rstring \<Rightarrow> oauth_tokens result"
  refresh_token :: "rstring \<Rightarrow> oauth_tokens result"
  get_user_profile :: "rstring \<Rightarrow> external_profile result"
  get_user_playlists :: "rstring \<Rightarrow> rstring option \<Rightarrow> int \<Rightarrow> int \<Rightarrow> (external_playlist list \<times> int) result"
  get_playlist :: "rstring \<Rightarrow> rstring \<Rightarrow> external_playlist result"
  get_playlist_page :: "rstring \<Rightarrow> rstring \<Rightarrow> int \<Rightarrow> int \<Rightarrow> (external_track list \<times> int) result"

text \<open>The default method of the trait: a token with less than five minutes left counts as expired.\<close>

definition is_token_expired :: "nat \<Rightarrow> int option \<Rightarrow> bool" where
  "is_token_expired now expires = (case expires of Some e \<Rightarrow> e \<le> int now + 5 * 60 | None \<Rightarrow> False)"

record oauth_service =
  sv_crypto :: crypto
  sv_key :: bytes
  sv_providers :: "music_service \<Rightarrow> music_provider option"
  sv_redirect_base :: rstring

definition new_oauth_service :: "crypto \<Rightarrow> rstring \<Rightarrow> rstring \<Rightarrow> oauth_service" where
  "new_oauth_service c jwt_secret redirect_base =
     \<lparr>sv_crypto = c, sv_key = derive_encryption_key c jwt_secret, sv_providers = (\<lambda>_. None),
      sv_redirect_base = redirect_base\<rparr>"

definition register_provider :: "music_service \<Rightarrow> music_provider \<Rightarrow> oauth_service \<Rightarrow> oauth_service" where
  "register_provider m p v = v\<lparr>sv_providers := (sv_providers v)(m := Some p)\<rparr>"

definition get_redirect_uri :: "oauth_service \<Rightarrow> music_service \<Rightarrow> rstring" where
  "get_redirect_uri v m = sv_redirect_base v @ str ''/oauth/'' @ service_str m @ str ''/callback''"

definition is_service_configured :: "oauth_service \<Rightarrow> music_service \<Rightarrow> bool" where
  "is_service_configured v m \<longleftrightarrow> sv_providers v m \<noteq> None"

definition get_provider :: "oauth_service \<Rightarrow> music_service \<Rightarrow> music_provider result" where
  "get_provider v m =
     (case sv_providers v m of
        Some p \<Rightarrow> Ok p
      | None \<Rightarrow> Err (str ''Service '' @ service_str m @ str '' is not configured''))"

text \<open>\<open>context\<close> replaces the text of an error; \<open>with_ok\<close> goes on with a value in an unchanged state.\<close>

fun in_context :: "string \<Rightarrow> 'a result \<Rightarrow> 'a result" where
  "in_context t (Err _) = Err (str t)"
| "in_context t r = r"

fun with_ok :: "'a result \<Rightarrow> 's \<Rightarrow> ('a \<Rightarrow> 'b result \<times> 's) \<Rightarrow> 'b result \<times> 's" where
  "with_ok (Ok x) s f = f x"
| "with_ok (Err e) s f = (Err e, s)"
| "with_ok Panic s f = (Panic, s)"

section \<open>The authorization flow\<close>

definition start_authorization ::
  "oauth_service \<Rightarrow> int \<Rightarrow> music_service \<Rightarrow> oauth_db \<Rightarrow> rstring result \<times> oauth_db" where
  "start_authorization v user m s =
     with_ok (get_provider v m) s (\<lambda>p.
       let a = get_authorization_url p (get_redirect_uri v m);
           (r, s) = create_oauth_pending_state user (service_str m) (au_state a) (au_verifier a)
                      (od_now s + 5 * 60) s
       in with_ok r s (\<lambda>_. (Ok (au_url a), s)))"

definition encrypt_optional :: "crypto \<Rightarrow> bytes \<Rightarrow> rstring option \<Rightarrow> bytes \<Rightarrow> rstring option result" where
  "encrypt_optional c nonce tok key =
     (case tok of
        None \<Rightarrow> Ok None
      | Some t \<Rightarrow> obind (encrypt_token c nonce t key) (\<lambda>e. Ok (Some e)))"

definition store_tokens ::
  "oauth_service \<Rightarrow> bytes \<Rightarrow> bytes \<Rightarrow> int \<Rightarrow> music_service \<Rightarrow> oauth_tokens \<Rightarrow> external_profile \<Rightarrow> oauth_db \<Rightarrow>
   external_profile result \<times> oauth_db" where
  "store_tokens v n1 n2 user m t profile s =
     with_ok (encrypt_token (sv_crypto v) n1 (ot_access t) (sv_key v)) s (\<lambda>access.
     with_ok (encrypt_optional (sv_crypto v) n2 (ot_refresh t) (sv_key v)) s (\<lambda>refresh.
       let (r, s) = upsert_oauth_connection user (service_str m) (ep_id profile) (ep_username profile)
                      access refresh (ot_expires_at t) (ot_scopes t) s
       in with_ok r s (\<lambda>_. (Ok profile, s))))"

definition complete_authorization ::
  "oauth_service \<Rightarrow> bytes \<Rightarrow> bytes \<Rightarrow> int \<Rightarrow> music_service \<Rightarrow> rstring \<Rightarrow> rstring \<Rightarrow> oauth_db \<Rightarrow>
   external_profile result \<times> oauth_db" where
  "complete_authorization v n1 n2 user m code state s =
     with_ok (get_provider v m) s (\<lambda>p.
       let (pending, s) = get_and_delete_oauth_pending_state state s in
       case pending of
         None \<Rightarrow> (Err (str ''Invalid or expired OAuth state''), s)
       | Some w \<Rightarrow>
           if op_user_id w \<noteq> user then (Err (str ''OAuth state does not belong to this user''), s)
           else if op_expires_at w < od_now s then (Err (str ''OAuth state has expired''), s)
           else
             with_ok (in_context ''Failed to exchange authorization code''
                        (exchange_code p code (get_redirect_uri v m) (op_verifier w))) s (\<lambda>t.
             with_ok (in_context ''Failed to get user profile'' (get_user_profile p (ot_access t))) s (\<lambda>profile.
               store_tokens v n1 n2 user m t profile s)))"

definition disconnect :: "int \<Rightarrow> music_service \<Rightarrow> oauth_db \<Rightarrow> oauth_db" where
  "disconnect user m s = delete_oauth_connection user (service_str m) s"

section \<open>Access tokens\<close>

text \<open>Without a new refresh token the old one is encrypted again; a failed profile leaves the name.\<close>

definition refresh_access_token ::
  "oauth_service \<Rightarrow> bytes \<Rightarrow> bytes \<Rightarrow> int \<Rightarrow> music_service \<Rightarrow> oauth_connection \<Rightarrow> oauth_db \<Rightarrow>
   rstring result \<times> oauth_db" where
  "refresh_access_token v n1 n2 user m c s =
     with_ok (get_provider v m) s (\<lambda>p.
     case oc_refresh c of
       None \<Rightarrow> (Err (str ''No refresh token available''), s)
     | Some encrypted \<Rightarrow>
         with_ok (decrypt_token (sv_crypto v) encrypted (sv_key v)) s (\<lambda>old.
         with_ok (refresh_token p old) s (\<lambda>t.
         with_ok (encrypt_token (sv_crypto v) n1 (ot_access t) (sv_key v)) s (\<lambda>access.
         with_ok (encrypt_token (sv_crypto v) n2 (case ot_refresh t of Some r \<Rightarrow> r | None \<Rightarrow> old) (sv_key v)) s
           (\<lambda>refresh.
             case get_user_profile p (ot_access t) of
               Panic \<Rightarrow> (Panic, s)
             | Ok profile \<Rightarrow>
                 (Ok (ot_access t), update_oauth_tokens user (service_str m) access (Some refresh)
                    (ot_expires_at t) (Some (ep_username profile)) s)
             | Err _ \<Rightarrow>
                 (Ok (ot_access t), update_oauth_tokens user (service_str m) access (Some refresh)
                    (ot_expires_at t) None s))))))"

definition get_valid_access_token ::
  "oauth_service \<Rightarrow> bytes \<Rightarrow> bytes \<Rightarrow> int \<Rightarrow> music_service \<Rightarrow> oauth_db \<Rightarrow> rstring result \<times> oauth_db" where
  "get_valid_access_token v n1 n2 user m s =
     (case get_oauth_connection user (service_str m) s of
        None \<Rightarrow> (Err (str ''No connection found''), s)
      | Some c \<Rightarrow>
          if oc_status c \<noteq> ''active'' then
            (Err (str ''Connection is not active (status: '' @ str (oc_status c) @ str '')''), s)
          else
            with_ok (get_provider v m) s (\<lambda>p.
              if is_token_expired (od_now s) (oc_expires_at c) then refresh_access_token v n1 n2 user m c s
              else (decrypt_token (sv_crypto v) (oc_access c) (sv_key v), s)))"

section \<open>Playlists\<close>

definition fetch_playlists ::
  "oauth_service \<Rightarrow> bytes \<Rightarrow> bytes \<Rightarrow> int \<Rightarrow> music_service \<Rightarrow> int \<Rightarrow> int \<Rightarrow> oauth_db \<Rightarrow>
   (external_playlist list \<times> int) result \<times> oauth_db" where
  "fetch_playlists v n1 n2 user m limit offset s =
     (case get_oauth_connection user (service_str m) s of
        None \<Rightarrow> (Err (str ''No connection found''), s)
      | Some c \<Rightarrow>
          let (r, s) = get_valid_access_token v n1 n2 user m s in
          with_ok r s (\<lambda>access. with_ok (get_provider v m) s (\<lambda>p.
            (get_user_playlists p access (oc_external_user_id c) limit offset, s))))"

definition fetch_playlist ::
  "oauth_service \<Rightarrow> bytes \<Rightarrow> bytes \<Rightarrow> int \<Rightarrow> music_service \<Rightarrow> rstring \<Rightarrow> oauth_db \<Rightarrow>
   external_playlist result \<times> oauth_db" where
  "fetch_playlist v n1 n2 user m playlist s =
     (let (r, s) = get_valid_access_token v n1 n2 user m s in
      with_ok r s (\<lambda>access. with_ok (get_provider v m) s (\<lambda>p. (get_playlist p access playlist, s))))"

definition fetch_tracks ::
  "oauth_service \<Rightarrow> bytes \<Rightarrow> bytes \<Rightarrow> int \<Rightarrow> music_service \<Rightarrow> rstring \<Rightarrow> int \<Rightarrow> int \<Rightarrow> oauth_db \<Rightarrow>
   (external_track list \<times> int) result \<times> oauth_db" where
  "fetch_tracks v n1 n2 user m playlist limit offset s =
     (let (r, s) = get_valid_access_token v n1 n2 user m s in
      with_ok r s (\<lambda>access. with_ok (get_provider v m) s (\<lambda>p.
        (get_playlist_page p access playlist limit offset, s))))"

text \<open>
  All pages of a hundred, each with the nonces of its number; the offset is a signed 32-bit integer that
  wraps. A service whose answers never say it is the last page is never left: no result.
\<close>

partial_function (option) all_pages ::
  "(nat \<Rightarrow> int \<Rightarrow> oauth_db \<Rightarrow> (external_track list \<times> int) result \<times> oauth_db) \<Rightarrow> nat \<Rightarrow> int \<Rightarrow> external_track list \<Rightarrow>
   oauth_db \<Rightarrow> (external_track list result \<times> oauth_db) option" where
  "all_pages page k offset acc s =
     (case page k offset s of
        (Err e, s) \<Rightarrow> Some (Err e, s)
      | (Panic, s) \<Rightarrow> Some (Panic, s)
      | (Ok (tracks, n), s) \<Rightarrow>
          let acc = acc @ tracks; offset = as_i32 (offset + 100) in
          if n \<le> offset then Some (Ok acc, s) else all_pages page (Suc k) offset acc s)"

definition get_all_playlist_tracks ::
  "oauth_service \<Rightarrow> (nat \<Rightarrow> bytes) \<Rightarrow> (nat \<Rightarrow> bytes) \<Rightarrow> int \<Rightarrow> music_service \<Rightarrow> rstring \<Rightarrow> oauth_db \<Rightarrow>
   (external_track list result \<times> oauth_db) option" where
  "get_all_playlist_tracks v n1 n2 user m playlist =
     all_pages (\<lambda>k offset. fetch_tracks v (n1 k) (n2 k) user m playlist 100 offset) 0 0 []"

section \<open>The handlers\<close>

record connection_status =
  cs_service :: rstring
  cs_connected :: bool
  cs_username :: "rstring option"
  cs_connected_at :: "nat option"
  cs_last_used_at :: "nat option"

definition status_of_connection :: "oauth_connection \<Rightarrow> connection_status" where
  "status_of_connection c =
     \<lparr>cs_service = oc_service c, cs_connected = (oc_status c = ''active''), cs_username = oc_external_username c,
      cs_connected_at = Some (oc_created_at c), cs_last_used_at = oc_last_used_at c\<rparr>"

definition not_connected :: "music_service \<Rightarrow> connection_status" where
  "not_connected m =
     \<lparr>cs_service = service_str m, cs_connected = False, cs_username = None, cs_connected_at = None,
      cs_last_used_at = None\<rparr>"

text \<open>What every handler does first: the name of the service, then the service object.\<close>

definition available :: "oauth_service option \<Rightarrow> oauth_service http" where
  "available v = (case v of None \<Rightarrow> Err (503, str ''OAuth service not available'') | Some v \<Rightarrow> Ok v)"

definition service_of_path ::
  "unicode \<Rightarrow> rstring \<Rightarrow> oauth_service option \<Rightarrow> (music_service \<times> oauth_service) http" where
  "service_of_path u path v =
     (case parse_service u path of
        None \<Rightarrow> Err (400, str ''Unknown service: '' @ path)
      | Some m \<Rightarrow> obind (available v) (\<lambda>v. Ok (m, v)))"

fun with_code :: "nat \<Rightarrow> 'a result \<Rightarrow> 'a http" where
  "with_code n (Ok x) = Ok x"
| "with_code n (Err e) = Err (n, e)"
| "with_code n Panic = Panic"

definition show_connection_status ::
  "unicode \<Rightarrow> oauth_service option \<Rightarrow> auth_user \<Rightarrow> rstring \<Rightarrow> oauth_db \<Rightarrow> connection_status http" where
  "show_connection_status u v auth path s =
     obind (service_of_path u path v) (\<lambda>(m, v).
       if \<not> is_service_configured v m then Ok (not_connected m)
       else
         (case get_oauth_connection (au_id auth) (service_str m) s of
            Some c \<Rightarrow> Ok (status_of_connection c)
          | None \<Rightarrow> Ok (not_connected m)))"

definition show_all_connections ::
  "oauth_service option \<Rightarrow> auth_user \<Rightarrow> oauth_db \<Rightarrow> connection_status list http" where
  "show_all_connections v auth s =
     obind (available v) (\<lambda>_. Ok (map status_of_connection (get_user_oauth_connections (au_id auth) s)))"

definition start_oauth ::
  "unicode \<Rightarrow> oauth_service option \<Rightarrow> auth_user \<Rightarrow> rstring \<Rightarrow> oauth_db \<Rightarrow> rstring http \<times> oauth_db" where
  "start_oauth u v auth path s =
     (case service_of_path u path v of
        Err e \<Rightarrow> (Err e, s)
      | Panic \<Rightarrow> (Panic, s)
      | Ok (m, v) \<Rightarrow>
          if \<not> is_service_configured v m then
            (Err (501, service_str m @ str '' integration is not configured''), s)
          else apfst (with_code 500) (start_authorization v (au_id auth) m s))"

definition oauth_callback ::
  "unicode \<Rightarrow> oauth_service option \<Rightarrow> bytes \<Rightarrow> bytes \<Rightarrow> auth_user \<Rightarrow> rstring \<Rightarrow> rstring \<Rightarrow> rstring \<Rightarrow> oauth_db \<Rightarrow>
   (rstring \<times> rstring) http \<times> oauth_db" where
  "oauth_callback u v n1 n2 auth path code state s =
     (case service_of_path u path v of
        Err e \<Rightarrow> (Err e, s)
      | Panic \<Rightarrow> (Panic, s)
      | Ok (m, v) \<Rightarrow>
          apfst (\<lambda>r. obind (with_code 400 r) (\<lambda>profile. Ok (service_str m, ep_username profile)))
            (complete_authorization v n1 n2 (au_id auth) m code state s))"

definition disconnect_oauth ::
  "unicode \<Rightarrow> oauth_service option \<Rightarrow> auth_user \<Rightarrow> rstring \<Rightarrow> oauth_db \<Rightarrow> unit http \<times> oauth_db" where
  "disconnect_oauth u v auth path s =
     (case service_of_path u path v of
        Err e \<Rightarrow> (Err e, s)
      | Panic \<Rightarrow> (Panic, s)
      | Ok (m, v) \<Rightarrow> (Ok (), disconnect (au_id auth) m s))"

text \<open>The answer repeats the limit and the offset of the request.\<close>

definition show_playlists ::
  "unicode \<Rightarrow> oauth_service option \<Rightarrow> bytes \<Rightarrow> bytes \<Rightarrow> auth_user \<Rightarrow> rstring \<Rightarrow> int option \<Rightarrow> int option \<Rightarrow> oauth_db \<Rightarrow>
   (external_playlist list \<times> int \<times> int \<times> int) http \<times> oauth_db" where
  "show_playlists u v n1 n2 auth path limit offset s =
     (case service_of_path u path v of
        Err e \<Rightarrow> (Err e, s)
      | Panic \<Rightarrow> (Panic, s)
      | Ok (m, v) \<Rightarrow>
          let limit = min (case limit of Some l \<Rightarrow> l | None \<Rightarrow> 50) 50;
              offset = (case offset of Some x \<Rightarrow> x | None \<Rightarrow> 0) in
          apfst (\<lambda>r. obind (with_code 500 r) (\<lambda>(ps, n). Ok (ps, n, limit, offset)))
            (fetch_playlists v n1 n2 (au_id auth) m limit offset s))"

definition show_playlist_tracks ::
  "unicode \<Rightarrow> oauth_service option \<Rightarrow> bytes \<Rightarrow> bytes \<Rightarrow> auth_user \<Rightarrow> rstring \<Rightarrow> rstring \<Rightarrow> int option \<Rightarrow> int option \<Rightarrow>
   oauth_db \<Rightarrow> (external_track list \<times> int \<times> int \<times> int) http \<times> oauth_db" where
  "show_playlist_tracks u v n1 n2 auth path playlist limit offset s =
     (case service_of_path u path v of
        Err e \<Rightarrow> (Err e, s)
      | Panic \<Rightarrow> (Panic, s)
      | Ok (m, v) \<Rightarrow>
          let limit = min (case limit of Some l \<Rightarrow> l | None \<Rightarrow> 100) 100;
              offset = (case offset of Some x \<Rightarrow> x | None \<Rightarrow> 0) in
          apfst (\<lambda>r. obind (with_code 500 r) (\<lambda>(ts, n). Ok (ts, n, limit, offset)))
            (fetch_tracks v n1 n2 (au_id auth) m playlist limit offset s))"

end
