(* ===== verification/Spotify_Provider.thy ===== *)
theory Spotify_Provider
  imports OAuth_Service
begin

text \<open>
  \<open>src/src/services/oauth/spotify.rs\<close>: the provider for Spotify. The answers of its API are arguments, as
  values of the JSON types of the file; fields the code never reads are left out. The random bytes, the
  hash, the URL encodings and the addition of chrono, which panics out of its range, are arguments too.
\<close>

record spotify_token_response =
  st_access :: rstring
  st_expires_in :: int
  st_refresh :: "rstring option"
  st_scope :: rstring

record spotify_user =
  su_id :: rstring
  su_display_name :: "rstring option"
  su_url :: rstring
  su_images :: "rstring list"

record spotify_playlist =
  sp_id :: rstring
  sp_name :: rstring
  sp_description :: "rstring option"
  sp_owner_id :: rstring
  sp_owner_name :: "rstring option"
  sp_collaborative :: bool
  sp_items :: "int option"
  sp_tracks :: "int option"
  sp_images :: "rstring list option"
  sp_url :: rstring
  sp_public :: "bool option"

record spotify_track =
  sk_id :: "rstring option"
  sk_name :: rstring
  sk_artists :: "rstring list"
  sk_album :: rstring
  sk_duration_ms :: int
  sk_url :: rstring

text \<open>An entry of a playlist: the field \<open>item\<close> and the older field \<open>track\<close>.\<close>

type_synonym spotify_entry = "spotify_track option \<times> spotify_track option"

text \<open>The requests: the form sent for a token, and the path with its access token and query; the last two
  fields are the texts of the bodies that the code repeats when they are not the expected JSON.\<close>

record spotify_api =
  sa_token :: "(rstring \<times> rstring) list \<Rightarrow> spotify_token_response answer"
  sa_me :: "rstring \<Rightarrow> spotify_user answer"
  sa_playlists :: "rstring \<Rightarrow> int \<Rightarrow> int \<Rightarrow> (spotify_playlist list \<times> int) answer"
  sa_playlist :: "rstring \<Rightarrow> rstring \<Rightarrow> spotify_playlist answer"
  sa_items :: "rstring \<Rightarrow> rstring \<Rightarrow> int \<Rightarrow> int \<Rightarrow> (spotify_entry list \<times> int) answer"
  sa_playlists_text :: "rstring \<Rightarrow> int \<Rightarrow> int \<Rightarrow> rstring"
  sa_items_text :: "rstring \<Rightarrow> rstring \<Rightarrow> int \<Rightarrow> int \<Rightarrow> rstring"

record spotify_env =
  se_client_id :: rstring
  se_urlencode :: "rstring \<Rightarrow> rstring"
  se_base64url :: "bytes \<Rightarrow> rstring"
  se_sha256 :: "bytes \<Rightarrow> bytes"
  se_add_seconds :: "nat \<Rightarrow> int \<Rightarrow> int option"
  se_unicode :: unicode

section \<open>The authorization URL\<close>

definition generate_code_verifier :: "spotify_env \<Rightarrow> bytes \<Rightarrow> rstring" where
  "generate_code_verifier e random32 = se_base64url e random32"

definition generate_code_challenge :: "spotify_env \<Rightarrow> rstring \<Rightarrow> rstring" where
  "generate_code_challenge e verifier = se_base64url e (se_sha256 e (as_bytes verifier))"

definition generate_state :: "spotify_env \<Rightarrow> bytes \<Rightarrow> rstring" where
  "generate_state e random16 = se_base64url e random16"

definition scopes :: rstring where
  "scopes = str ''playlist-read-private playlist-read-collaborative user-read-private''"

definition spotify_authorization_url :: "spotify_env \<Rightarrow> bytes \<Rightarrow> bytes \<Rightarrow> rstring \<Rightarrow> authorization_url" where
  "spotify_authorization_url e random32 random16 redirect_uri =
     (let verifier = generate_code_verifier e random32; state = generate_state e random16 in
      \<lparr>au_url = str ''https://accounts.spotify.com/authorize?client_id='' @ se_urlencode e (se_client_id e)
         @ str ''&response_type=code&redirect_uri='' @ se_urlencode e redirect_uri
         @ str ''&scope='' @ se_urlencode e scopes
         @ str ''&code_challenge_method=S256&code_challenge=''
         @ se_urlencode e (generate_code_challenge e verifier)
         @ str ''&state='' @ se_urlencode e state,
       au_state = state, au_verifier = verifier\<rparr>)"

section \<open>Tokens and the profile\<close>

text \<open>The errors of a request: not sent, refused with a status, not the expected JSON.\<close>

definition spotify_answer :: "string \<Rightarrow> string \<Rightarrow> rstring \<Rightarrow> 'a answer \<Rightarrow> 'a result" where
  "spotify_answer unsent refused unparsed a =
     (case a of
        Unsent \<Rightarrow> Err (str unsent)
      | Refused status body \<Rightarrow> Err (str refused @ status)
      | Not_Json \<Rightarrow> Err unparsed
      | Json x \<Rightarrow> Ok x)"

definition tokens_of_response :: "spotify_env \<Rightarrow> nat \<Rightarrow> spotify_token_response \<Rightarrow> oauth_tokens result" where
  "tokens_of_response e now r =
     (case se_add_seconds e now (st_expires_in r) of
        None \<Rightarrow> Panic
      | Some expires \<Rightarrow>
          Ok \<lparr>ot_access = st_access r, ot_refresh = st_refresh r, ot_expires_at = Some expires,
              ot_scopes = split_whitespace (se_unicode e) (st_scope r)\<rparr>)"

definition spotify_exchange_code ::
  "spotify_env \<Rightarrow> spotify_api \<Rightarrow> nat \<Rightarrow> rstring \<Rightarrow> rstring \<Rightarrow> rstring \<Rightarrow> oauth_tokens result" where
  "spotify_exchange_code e net now code redirect_uri verifier =
     obind (spotify_answer ''Failed to send token request to Spotify'' ''Spotify token exchange failed: ''
              (str ''Failed to parse Spotify token response'')
              (sa_token net
                [(str ''grant_type'', str ''authorization_code''), (str ''code'', code),
                 (str ''redirect_uri'', redirect_uri), (str ''client_id'', se_client_id e),
                 (str ''code_verifier'', verifier)]))
       (tokens_of_response e now)"

definition spotify_refresh_token :: "spotify_env \<Rightarrow> spotify_api \<Rightarrow> nat \<Rightarrow> rstring \<Rightarrow> oauth_tokens result" where
  "spotify_refresh_token e net now tok =
     obind (spotify_answer ''Failed to send refresh token request to Spotify'' ''Spotify token refresh failed: ''
              (str ''Failed to parse Spotify refresh token response'')
              (sa_token net
                [(str ''grant_type'', str ''refresh_token''), (str ''refresh_token'', tok),
                 (str ''client_id'', se_client_id e)]))
       (tokens_of_response e now)"

definition first_image :: "rstring list \<Rightarrow> rstring option" where
  "first_image imgs = (case imgs of [] \<Rightarrow> None | i # _ \<Rightarrow> Some i)"

definition spotify_user_profile :: "spotify_api \<Rightarrow> rstring \<Rightarrow> external_profile result" where
  "spotify_user_profile net access =
     obind (spotify_answer ''Failed to fetch Spotify user profile'' ''Failed to fetch Spotify profile: ''
              (str ''Failed to parse Spotify profile response'') (sa_me net access))
       (\<lambda>p. Ok \<lparr>ep_id = su_id p,
                 ep_username = (case su_display_name p of Some n \<Rightarrow> n | None \<Rightarrow> su_id p),
                 ep_display_name = su_display_name p, ep_profile_url = Some (su_url p),
                 ep_image_url = first_image (su_images p)\<rparr>)"

section \<open>Playlists and tracks\<close>

definition track_count :: "spotify_playlist \<Rightarrow> int" where
  "track_count p =
     (case sp_items p of Some n \<Rightarrow> n | None \<Rightarrow> (case sp_tracks p of Some n \<Rightarrow> n | None \<Rightarrow> 0))"

definition to_external_playlist :: "spotify_playlist \<Rightarrow> external_playlist" where
  "to_external_playlist p =
     \<lparr>xp_id = sp_id p, xp_name = sp_name p, xp_description = sp_description p,
      xp_owner_name = (case sp_owner_name p of Some n \<Rightarrow> n | None \<Rightarrow> sp_owner_id p),
      xp_track_count = track_count p,
      xp_image_url = (case sp_images p of Some imgs \<Rightarrow> first_image imgs | None \<Rightarrow> None),
      xp_external_url = sp_url p, xp_is_public = (sp_public p = Some True)\<rparr>"

definition editable :: "rstring option \<Rightarrow> spotify_playlist \<Rightarrow> bool" where
  "editable current_user p \<longleftrightarrow>
     (case current_user of None \<Rightarrow> True | Some i \<Rightarrow> sp_owner_id p = i \<or> sp_collaborative p)"

text \<open>The second component is the number of playlists kept, not the total of the answer.\<close>

definition spotify_user_playlists ::
  "spotify_api \<Rightarrow> rstring \<Rightarrow> rstring option \<Rightarrow> int \<Rightarrow> int \<Rightarrow> (external_playlist list \<times> int) result" where
  "spotify_user_playlists net access current_user limit offset =
     obind (spotify_answer ''Failed to fetch Spotify playlists'' ''Failed to fetch Spotify playlists: ''
              (str ''Failed to parse Spotify playlists response. First 500 chars: ''
                 @ sa_playlists_text net access (min limit 50) offset)
              (sa_playlists net access (min limit 50) offset))
       (\<lambda>(ps, n). let kept = map to_external_playlist (filter (editable current_user) ps)
                  in Ok (kept, int (length kept)))"

definition spotify_get_playlist :: "spotify_api \<Rightarrow> rstring \<Rightarrow> rstring \<Rightarrow> external_playlist result" where
  "spotify_get_playlist net access playlist =
     obind (spotify_answer ''Failed to fetch Spotify playlist'' ''Failed to fetch Spotify playlist: ''
              (str ''Failed to parse Spotify playlist response'') (sa_playlist net access playlist))
       (\<lambda>p. Ok (to_external_playlist p))"

text \<open>Entries without a track, and local tracks, which have no id, are left out.\<close>

definition to_external_track :: "spotify_entry \<Rightarrow> external_track option" where
  "to_external_track entry =
     (case (case fst entry of Some t \<Rightarrow> Some t | None \<Rightarrow> snd entry) of
        None \<Rightarrow> None
      | Some t \<Rightarrow>
          map_option (\<lambda>i. \<lparr>xt_id = i, xt_name = sk_name t, xt_artists = sk_artists t, xt_album = Some (sk_album t),
              xt_duration_ms = Some (sk_duration_ms t), xt_external_url = sk_url t\<rparr>)
            (sk_id t))"

definition spotify_playlist_tracks ::
  "spotify_api \<Rightarrow> rstring \<Rightarrow> rstring \<Rightarrow> int \<Rightarrow> int \<Rightarrow> (external_track list \<times> int) result" where
  "spotify_playlist_tracks net access playlist limit offset =
     obind (spotify_answer ''Failed to fetch Spotify playlist items'' ''Failed to fetch Spotify playlist tracks: ''
              (str ''Failed to parse Spotify playlist tracks response: ''
                 @ sa_items_text net access playlist (min limit 100) offset)
              (sa_items net access playlist (min limit 100) offset))
       (\<lambda>(entries, n). Ok (List.map_filter to_external_track entries, n))"

definition spotify_provider ::
  "spotify_env \<Rightarrow> spotify_api \<Rightarrow> nat \<Rightarrow> bytes \<Rightarrow> bytes \<Rightarrow> music_provider" where
  "spotify_provider e net now random32 random16 =
     \<lparr>get_authorization_url = spotify_authorization_url e random32 random16,
      exchange_code = spotify_exchange_code e net now,
      refresh_token = spotify_refresh_token e net now,
      get_user_profile = spotify_user_profile net,
      get_user_playlists = spotify_user_playlists net,
      get_playlist = spotify_get_playlist net,
      get_playlist_page = spotify_playlist_tracks net\<rparr>"

text \<open>The service of \<open>main.rs\<close>: Spotify is its only provider.\<close>

definition spotify_service ::
  "crypto \<Rightarrow> rstring \<Rightarrow> rstring \<Rightarrow> spotify_env \<Rightarrow> spotify_api \<Rightarrow> nat \<Rightarrow> bytes \<Rightarrow> bytes \<Rightarrow> oauth_service" where
  "spotify_service c jwt_secret redirect_base e net now random32 random16 =
     register_provider Spotify (spotify_provider e net now random32 random16)
       (new_oauth_service c jwt_secret redirect_base)"

end
