(* ===== verification/Messaging_Properties.thy ===== *)
theory Messaging_Properties
  imports Messaging Account_Properties "HOL-Library.Multiset"
begin

text \<open>
  The properties of the messages: reading a conversation page by page, the list of conversations with their
  unread counts, what sending and marking as read change, and the search for users.
\<close>

section \<open>Reading page by page\<close>

text \<open>A client that asks for one page after another, each time with the id of the last row it has; the
  requests are answered in the states \<open>s\<close>, \<open>ss\<close>.\<close>

fun read_pages :: "(int option \<Rightarrow> 's \<Rightarrow> 'r list) \<Rightarrow> ('r \<Rightarrow> int) \<Rightarrow> 's list \<Rightarrow> int option \<Rightarrow> 'r list" where
  "read_pages page rid [] before = []"
| "read_pages page rid (s # ss) before =
     (let rows = page before s in
      if rows = [] then [] else rows @ read_pages page rid ss (Some (rid (last rows))))"

lemma before_cursor_Some: "before_cursor (Some x) = (\<lambda>i. i < x)"
  by (simp add: before_cursor_def fun_eq_iff)

lemma before_cursor_None: "before_cursor None = (\<lambda>i. True)"
  by (simp add: before_cursor_def fun_eq_iff)

lemma last_least: "sorted_wrt (>) (ys :: int list) \<Longrightarrow> i \<in> set ys \<Longrightarrow> last ys \<le> i"
  by (cases ys rule: rev_cases) (fastforce simp: sorted_wrt_append)+

lemma filter_below_drop:
  assumes "sorted_wrt (>) (xs :: int list)" and "0 < k" and "xs \<noteq> []"
  shows "filter (\<lambda>i. i < last (take k xs)) xs = drop k xs"
proof -
  let ?x = "last (take k xs)"
  have ne: "take k xs \<noteq> []" using assms(2,3) by simp
  have s: "sorted_wrt (>) (take k xs @ drop k xs)" using assms(1) by simp
  have "\<not> i < ?x" if "i \<in> set (take k xs)" for i
    using last_least [OF _ that] s [unfolded sorted_wrt_append] by simp
  moreover have "i < ?x" if "i \<in> set (drop k xs)" for i
    using s [unfolded sorted_wrt_append] that last_in_set [OF ne] by simp
  ultimately have "filter (\<lambda>i. i < ?x) (take k xs) = []" "filter (\<lambda>i. i < ?x) (drop k xs) = drop k xs"
    by (simp_all add: filter_empty_conv filter_id_conv)
  then show ?thesis
    by (metis append_Nil append_take_drop_id filter_append)
qed

text \<open>What paging rests on: a page is the first rows below the cursor, the rows have decreasing ids, and
  rows are only ever added in front.\<close>

locale cursor_paging =
  fixes ids :: "'s \<Rightarrow> int list"
    and page :: "int \<Rightarrow> int option \<Rightarrow> 's \<Rightarrow> 'r list"
    and rid :: "'r \<Rightarrow> int"
    and ok :: "'s \<Rightarrow> bool"
    and later :: "'s \<Rightarrow> 's \<Rightarrow> bool"
  assumes page_ids: "ok s \<Longrightarrow> map rid (page k before s) = sql_limit k (filter (before_cursor before) (ids s))"
    and ids_fall: "ok s \<Longrightarrow> sorted_wrt (>) (ids s)"
    and later_ok: "ok s \<Longrightarrow> later s s' \<Longrightarrow> ok s'"
    and later_ids: "ok s \<Longrightarrow> later s s' \<Longrightarrow> \<exists>new. ids s' = new @ ids s"
begin

lemma below_later:
  assumes "ok s" and "later s s'" and "x \<in> set (ids s)"
  shows "filter (\<lambda>i. i < x) (ids s') = filter (\<lambda>i. i < x) (ids s)"
proof -
  obtain new where new: "ids s' = new @ ids s" using later_ids assms by blast
  have "sorted_wrt (>) (new @ ids s)" using ids_fall [OF later_ok [OF assms(1,2)]] by (simp add: new)
  then have "filter (\<lambda>i. i < x) new = []" using assms(3) by (fastforce simp: filter_empty_conv sorted_wrt_append)
  then show ?thesis by (simp add: new)
qed

lemma all_pages:
  assumes "0 < k" and "ok s" and "successively later (s # ss)"
    and "length (filter (before_cursor before) (ids s)) \<le> length ss"
  shows "map rid (read_pages (page k) rid (s # ss) before) = filter (before_cursor before) (ids s)"
  using assms(2-4)
proof (induction ss arbitrary: s before)
  case Nil
  then have "map rid (page k before s) = []" using page_ids [of s k before] by (simp add: sql_limit_def)
  then have "page k before s = []" by simp
  then show ?case using Nil.prems(3) by simp
next
  case (Cons s' ss)
  let ?L = "filter (before_cursor before) (ids s)"
  have p: "map rid (page k before s) = take (nat k) ?L"
    using page_ids [OF Cons.prems(1)] assms(1) by (simp add: sql_limit_def)
  show ?case
  proof (cases "?L = []")
    case True
    with p have "page k before s = []" by simp
    with True show ?thesis by simp
  next
    case False
    with p assms(1) have ne: "page k before s \<noteq> []" by (metis list.map_disc_iff take_eq_Nil zero_less_nat_eq less_numeral_extra(3))
    let ?x = "rid (last (page k before s))"
    have x: "?x = last (take (nat k) ?L)" using p ne by (metis last_map)
    have "take (nat k) ?L \<noteq> []" using p ne by (metis list.map_disc_iff)
    then have "?x \<in> set (take (nat k) ?L)" unfolding x by (rule last_in_set)
    then have "?x \<in> set ?L" by (rule in_set_takeD)
    then have xs: "?x \<in> set (ids s)" and cur: "before_cursor before ?x" by simp_all
    have fall: "sorted_wrt (>) ?L" using ids_fall [OF Cons.prems(1)] by (rule sorted_wrt_filter)
    have le: "i < ?x \<Longrightarrow> before_cursor before i" for i
      using cur by (auto simp: before_cursor_def split: option.splits)
    have ok': "ok s'" and l: "later s s'" using Cons.prems later_ok by auto
    have rest: "filter (before_cursor (Some ?x)) (ids s') = drop (nat k) ?L"
    proof -
      have "filter (before_cursor (Some ?x)) (ids s') = filter (\<lambda>i. i < ?x) (ids s)"
        using below_later [OF Cons.prems(1) l xs] by (simp add: before_cursor_Some)
      also have "\<dots> = filter (\<lambda>i. i < ?x) ?L" by (auto simp: le intro: filter_cong)
      also have "\<dots> = drop (nat k) ?L"
        using filter_below_drop [OF fall, of "nat k"] assms(1) False by (simp add: x)
      finally show ?thesis .
    qed
    have "length (drop (nat k) ?L) \<le> length ss" using Cons.prems(3) assms(1) by simp
    from Cons.IH [OF ok' _ this [folded rest]] Cons.prems(2)
    have "map rid (read_pages (page k) rid (s' # ss) (Some ?x)) = drop (nat k) ?L"
      by (simp only: rest successively.simps)
    then show ?thesis using ne p by (simp add: Let_def)
  qed
qed

end

section \<open>What the tables keep\<close>

definition known :: "accounts \<Rightarrow> int \<Rightarrow> bool" where
  "known a i \<longleftrightarrow> i \<in> us_id ` set (ac_users a)"

lemma known_get: "get_user_by_id i a \<noteq> None \<longleftrightarrow> known a i"
  by (auto simp: get_user_by_id_def find_user_def find_None_iff known_def)

definition messaging_ok :: "messaging \<Rightarrow> bool" where
  "messaging_ok s \<longleftrightarrow>
     accounts_ok (ms_accounts s)
     \<and> sorted_wrt (<) (map dm_id (ms_direct s)) \<and> sorted_wrt (<) (map lm_id (ms_local s))
     \<and> list_all (\<lambda>m. dm_id m \<le> ms_direct_seq s \<and> dm_sender m \<noteq> dm_recipient m
          \<and> known (ms_accounts s) (dm_sender m) \<and> known (ms_accounts s) (dm_recipient m)) (ms_direct s)
     \<and> list_all (\<lambda>m. lm_id m \<le> ms_local_seq s \<and> known (ms_accounts s) (lm_user_id m)) (ms_local s)"

inductive messaging_step :: "messaging \<Rightarrow> messaging \<Rightarrow> bool" where
  Sends_Direct: "messaging_step s (snd (send_direct_message u auth recipient text s))"
| Sends_Local: "messaging_step s (snd (send_local_message u auth text s))"
| Marks_Read: "messaging_step s (snd (mark_read auth sender s))"
| Accounts_Change: "account_step (ms_accounts s) a \<Longrightarrow> messaging_step s (s\<lparr>ms_accounts := a\<rparr>)"

definition messaging_empty :: "accounts \<Rightarrow> messaging" where
  "messaging_empty a = \<lparr>ms_accounts = a, ms_local = [], ms_local_seq = 0, ms_direct = [], ms_direct_seq = 0,
     ms_events = []\<rparr>"

inductive messaging_reachable :: "messaging \<Rightarrow> bool" where
  Before_Messages: "account_reachable a \<Longrightarrow> messaging_reachable (messaging_empty a)"
| After_Step: "messaging_reachable s \<Longrightarrow> messaging_step s s' \<Longrightarrow> messaging_reachable s'"

lemma known_update: "(\<And>u. us_id (f u) = us_id u) \<Longrightarrow> known (update_user i f a) j = known a j"
proof -
  assume "\<And>u. us_id (f u) = us_id u"
  then have "map us_id (ac_users (update_user i f a)) = map us_id (ac_users a)"
    by (simp add: update_user_def)
  then have "us_id ` set (ac_users (update_user i f a)) = us_id ` set (ac_users a)"
    by (metis list.set_map)
  then show ?thesis by (simp add: known_def)
qed

text \<open>An account that exists is kept by every request.\<close>

interpretation present: kept_by_handlers "\<lambda>a. accounts_ok a \<and> known a i" for i
proof unfold_locales
  fix a a' n e h k t u
  assume i: "accounts_ok a \<and> known a i" and c: "create_user n e h k t a = (Ok u, a')"
  have a': "ac_users a' = ac_users a @ [u]" and u: "us_id u = ac_seq a + 1"
    using c by (auto simp: create_user_def insert_user_def Let_def split: if_splits)
  have ok': "accounts_ok a'" using constraints.registered [OF conjunct1 [OF i] c] .
  show "accounts_ok a' \<and> known a' i" using i ok' by (auto simp: known_def a')
  have "i \<noteq> us_id u" using i u by (auto simp: known_def accounts_ok_def list_all_iff)
  then show "accounts_ok (delete_user (us_id u) a') \<and> known (delete_user (us_id u) a') i"
    using i accounts_ok_delete [OF ok', of "us_id u"] by (auto simp: known_def delete_user_def a')
next
  fix a h
  assume "accounts_ok a \<and> known a i"
  then show "accounts_ok (seed_admin h a) \<and> known (seed_admin h a) i"
    using accounts_ok_seed [of a h]
    by (auto simp: known_def seed_admin_def create_user_verified_def insert_user_def Let_def)
next
  fix a :: accounts and t
  assume "accounts_ok a \<and> known a i"
  then show "accounts_ok (a\<lparr>ac_clock := t\<rparr>) \<and> known (a\<lparr>ac_clock := t\<rparr>) i"
    using constraints.ticked by (simp add: known_def)
qed (use constraints.verified constraints.resent constraints.promoted constraints.profiled constraints.pictured
    in \<open>auto simp: known_update verify_user_email_def update_verification_token_def set_user_role_def
      update_user_avatar_def\<close>)

lemma account_step_known: "account_step a a' \<Longrightarrow> accounts_ok a \<Longrightarrow> known a i \<Longrightarrow> known a' i"
  using present.steps [of a a' i] by simp

section \<open>Sending, reading, and the invariant\<close>

definition new_direct :: "int \<Rightarrow> int \<Rightarrow> rstring \<Rightarrow> messaging \<Rightarrow> direct_message" where
  "new_direct sender recipient message s =
     \<lparr>dm_id = ms_direct_seq s + 1, dm_sender = sender, dm_recipient = recipient, dm_message = message,
      dm_read_at = None, dm_created_at = ac_clock (ms_accounts s)\<rparr>"

definition direct_event :: "direct_message_row \<Rightarrow> message_event" where
  "direct_event dm = Direct_Message (dr_id dm) (dr_sender_id dm) (dr_sender_username dm)
     (dr_sender_display_name dm) (dr_sender_has_avatar dm) (dr_recipient_id dm) (dr_message dm) (dr_created_at dm)"

lemma send_direct_cases:
  assumes "messaging_ok s" and "send_direct_message u auth recipient text s = (r, s')"
  shows "(\<exists>c m. r = Err (c, m) \<and> s' = s \<and> c \<in> {400, 404, 500}
       \<and> (c = 400 \<longleftrightarrow> no_message (trim u text) \<or> au_id auth = recipient)
       \<and> (c = 404 \<longleftrightarrow> \<not> no_message (trim u text) \<and> au_id auth \<noteq> recipient \<and> \<not> known (ms_accounts s) recipient)
       \<and> (c = 500 \<longleftrightarrow> \<not> no_message (trim u text) \<and> au_id auth \<noteq> recipient \<and> known (ms_accounts s) recipient
            \<and> \<not> known (ms_accounts s) (au_id auth)))
    \<or> (\<exists>dm. r = Ok dm \<and> \<not> no_message (trim u text) \<and> au_id auth \<noteq> recipient
       \<and> known (ms_accounts s) (au_id auth) \<and> known (ms_accounts s) recipient
       \<and> direct_row (ms_accounts s) (new_direct (au_id auth) recipient (trim u text) s) = Some dm
       \<and> s' = s\<lparr>ms_direct := ms_direct s @ [new_direct (au_id auth) recipient (trim u text) s],
                 ms_direct_seq := ms_direct_seq s + 1, ms_events := ms_events s @ [direct_event dm]\<rparr>)"
proof -
  let ?m = "new_direct (au_id auth) recipient (trim u text) s"
  have "list_all (\<lambda>x. dm_id x \<noteq> ms_direct_seq s + 1) (ms_direct s)"
    using assms(1) by (auto simp: messaging_ok_def list_all_iff)
  from find_append_last [OF this, of ?m]
  have f: "find (\<lambda>x. dm_id x = ms_direct_seq s + 1) (ms_direct s @ [?m]) = Some ?m"
    by (simp add: new_direct_def)
  have row: "direct_row (ms_accounts s) ?m \<noteq> None \<longleftrightarrow>
      known (ms_accounts s) (au_id auth) \<and> known (ms_accounts s) recipient"
    by (auto simp: direct_row_def new_direct_def known_get [symmetric] split: option.splits)
  show ?thesis
    using assms(2) f row
    by (auto simp: send_direct_message_def Let_def insert_direct_message_def known_get [symmetric]
        get_direct_message_def new_direct_def direct_event_def split: if_splits option.splits)
qed

lemma send_local_cases:
  assumes "messaging_ok s" and "send_local_message u auth text s = (r, s')"
  shows "(\<exists>c m. r = Err (c, m) \<and> s' = s) \<or>
    (\<exists>row msg ev. r = Ok row \<and> \<not> no_message (trim u text) \<and> known (ms_accounts s) (au_id auth)
       \<and> lm_id msg = ms_local_seq s + 1 \<and> lm_user_id msg = au_id auth \<and> lm_message msg = trim u text
       \<and> s' = s\<lparr>ms_local := ms_local s @ [msg], ms_local_seq := ms_local_seq s + 1,
                 ms_events := ms_events s @ [ev]\<rparr>)"
proof -
  let ?m = "\<lparr>lm_id = ms_local_seq s + 1, lm_user_id = au_id auth, lm_message = trim u text,
      lm_created_at = ac_clock (ms_accounts s)\<rparr>"
  have "list_all (\<lambda>x. lm_id x \<noteq> ms_local_seq s + 1) (ms_local s)"
    using assms(1) by (auto simp: messaging_ok_def list_all_iff)
  from find_append_last [OF this, of ?m]
  have f: "find (\<lambda>x. lm_id x = ms_local_seq s + 1) (ms_local s @ [?m]) = Some ?m" by simp
  have row: "local_row (ms_accounts s) ?m \<noteq> None \<longleftrightarrow> known (ms_accounts s) (au_id auth)"
    by (auto simp: local_row_def known_get [symmetric])
  show ?thesis
    using assms(2) f row
    by (force simp: send_local_message_def Let_def insert_local_chat_message_def known_get [symmetric]
        get_local_chat_message_def split: if_splits option.splits)
qed

lemma sorted_append_new:
  "sorted_wrt (<) (map f xs) \<Longrightarrow> list_all (\<lambda>x. f x \<le> n) xs \<Longrightarrow> f y = n + 1 \<Longrightarrow>
    sorted_wrt (<) (map f (xs @ [y]) :: int list)"
  by (fastforce simp: sorted_wrt_append list_all_iff)

lemma marked_simps [simp]:
  "map dm_id (ms_direct (mark_dms_read r i s)) = map dm_id (ms_direct s)"
  "ms_accounts (mark_dms_read r i s) = ms_accounts s" "ms_local (mark_dms_read r i s) = ms_local s"
  "ms_local_seq (mark_dms_read r i s) = ms_local_seq s" "ms_direct_seq (mark_dms_read r i s) = ms_direct_seq s"
  by (simp_all add: mark_dms_read_def)

lemma marked_rows: "x \<in> set (ms_direct (mark_dms_read r i s)) \<Longrightarrow>
    \<exists>y\<in>set (ms_direct s). dm_id x = dm_id y \<and> dm_sender x = dm_sender y \<and> dm_recipient x = dm_recipient y"
  by (auto simp: mark_dms_read_def)

text \<open>One step keeps the invariant, and what a page shows of the two tables only grows.\<close>

lemma messaging_step_ok: "messaging_step s s' \<Longrightarrow> messaging_ok s \<Longrightarrow> messaging_ok s'"
proof (induction rule: messaging_step.induct)
  case (Sends_Direct s u auth recipient w)
  obtain r s' where r: "send_direct_message u auth recipient w s = (r, s')" by fastforce
  let ?m = "new_direct (au_id auth) recipient (trim u w) s"
  have "sorted_wrt (<) (map dm_id (ms_direct s @ [?m]))"
    using Sends_Direct by (intro sorted_append_new [where n = "ms_direct_seq s"])
      (auto simp: messaging_ok_def list_all_iff new_direct_def)
  with send_direct_cases [OF Sends_Direct(1) r] Sends_Direct show ?case
    by (auto simp: r messaging_ok_def list_all_iff) (auto simp: new_direct_def)
next
  case (Sends_Local s u auth w)
  obtain r s' where r: "send_local_message u auth w s = (r, s')" by fastforce
  from send_local_cases [OF Sends_Local(1) r] show ?case
  proof (elim disjE exE conjE)
    fix row msg ev
    assume m: "lm_id msg = ms_local_seq s + 1" "lm_user_id msg = au_id auth" "known (ms_accounts s) (au_id auth)"
      and s': "s' = s\<lparr>ms_local := ms_local s @ [msg], ms_local_seq := ms_local_seq s + 1,
                 ms_events := ms_events s @ [ev]\<rparr>"
    have "sorted_wrt (<) (map lm_id (ms_local s @ [msg]))"
      using Sends_Local m(1) by (intro sorted_append_new [where n = "ms_local_seq s"])
        (auto simp: messaging_ok_def list_all_iff)
    with Sends_Local m show ?thesis by (auto simp: r s' messaging_ok_def list_all_iff)
  qed (simp add: r Sends_Local)
next
  case (Marks_Read s auth sender)
  then show ?case by (force simp: mark_read_def messaging_ok_def list_all_iff dest: marked_rows)
next
  case (Accounts_Change s a)
  then show ?case
    using constraints.steps [of "ms_accounts s" a] account_step_known [of "ms_accounts s" a]
    by (auto simp: messaging_ok_def list_all_iff)
qed

lemma messaging_reachable_ok: "messaging_reachable s \<Longrightarrow> messaging_ok s"
proof (induction rule: messaging_reachable.induct)
  case (Before_Messages a)
  then show ?case using constraints.reachable by (simp add: messaging_ok_def messaging_empty_def)
qed (rule messaging_step_ok)

lemma messaging_steps_ok: "messaging_step\<^sup>*\<^sup>* s s' \<Longrightarrow> messaging_ok s \<Longrightarrow> messaging_ok s'"
  by (induction rule: rtranclp_induct) (auto dest: messaging_step_ok)

section \<open>Pages of a conversation and of the chat\<close>

definition thread_ids :: "int \<Rightarrow> int \<Rightarrow> messaging \<Rightarrow> int list" where
  "thread_ids a b s = rev (map dm_id (filter (between a b) (ms_direct s)))"

definition chat_ids :: "messaging \<Rightarrow> int list" where
  "chat_ids s = rev (map lm_id (ms_local s))"

lemma sort_key_eq:
  assumes "sorted (map f ys)" and "mset ys = mset xs" and "distinct (map f xs)"
  shows "sort_key f xs = ys"
proof -
  have m: "mset (sort_key f xs) = mset ys" using assms(2) by simp
  then have "mset (map f (sort_key f xs)) = mset (map f ys)" by (simp only: mset_map)
  then have e: "map f (sort_key f xs) = map f ys"
    using assms(1) by (metis properties_for_sort sorted_sort_key sorted_sort_id)
  have "inj_on f (set (sort_key f xs) \<union> set ys)"
    using assms(2,3) by (metis distinct_map inj_on_Un m mset_eq_setD set_sort sup.idem)
  with e show ?thesis by (rule map_inj_on)
qed

lemma newest_first_rev: "sorted_wrt (<) (map key xs) \<Longrightarrow> newest_first key xs = rev xs"
proof -
  assume s: "sorted_wrt (<) (map key xs)"
  have "sorted (map (\<lambda>x. - key x) (rev xs))"
    using s by (auto simp: sorted_wrt_rev sorted_wrt_map elim: sorted_wrt_mono_rel [rotated])
  moreover have "distinct (map (\<lambda>x. - key x) xs)"
    using s by (auto simp: strict_sorted_iff distinct_map inj_on_def)
  ultimately show ?thesis unfolding newest_first_def
    by (intro sort_key_eq) auto
qed

lemma map_filter_total:
  "list_all (\<lambda>x. g x \<noteq> None) xs \<Longrightarrow> (\<And>x y. g x = Some y \<Longrightarrow> f y = h x) \<Longrightarrow>
    map f (List.map_filter g xs) = map h xs"
  by (induction xs) (auto simp: List.map_filter_simps)

lemma step_thread_ids: "messaging_step s s' \<Longrightarrow> messaging_ok s \<Longrightarrow> \<exists>new. thread_ids a b s' = new @ thread_ids a b s"
proof (induction rule: messaging_step.induct)
  case (Sends_Direct s u auth recipient w)
  obtain r s' where r: "send_direct_message u auth recipient w s = (r, s')" by fastforce
  from send_direct_cases [OF Sends_Direct(1) r] show ?case by (auto simp: r thread_ids_def)
next
  case (Sends_Local s u auth w)
  obtain r s' where r: "send_local_message u auth w s = (r, s')" by fastforce
  from send_local_cases [OF Sends_Local(1) r] show ?case by (auto simp: r thread_ids_def)
next
  case (Marks_Read s auth sender)
  have "map dm_id (filter (between a b) (map (\<lambda>m. if P m then m\<lparr>dm_read_at := t\<rparr> else m) xs)) =
      map dm_id (filter (between a b) xs)" for P t xs
    by (induction xs) (auto simp: between_def)
  then show ?case by (simp add: thread_ids_def mark_read_def mark_dms_read_def)
qed (simp add: thread_ids_def)

lemma step_chat_ids: "messaging_step s s' \<Longrightarrow> messaging_ok s \<Longrightarrow> \<exists>new. chat_ids s' = new @ chat_ids s"
proof (induction rule: messaging_step.induct)
  case (Sends_Direct s u auth recipient w)
  obtain r s' where r: "send_direct_message u auth recipient w s = (r, s')" by fastforce
  from send_direct_cases [OF Sends_Direct(1) r] show ?case by (auto simp: r chat_ids_def)
next
  case (Sends_Local s u auth w)
  obtain r s' where r: "send_local_message u auth w s = (r, s')" by fastforce
  from send_local_cases [OF Sends_Local(1) r] show ?case by (auto simp: r chat_ids_def)
qed (simp_all add: chat_ids_def mark_read_def mark_dms_read_def)

lemma steps_ids:
  assumes "messaging_step\<^sup>*\<^sup>* s s'" and "messaging_ok s"
    and "\<And>s s'. messaging_step s s' \<Longrightarrow> messaging_ok s \<Longrightarrow> \<exists>new. ids s' = new @ ids s"
  shows "\<exists>new. ids s' = new @ ids s"
  using assms(1)
proof (induction rule: rtranclp_induct)
  case (step s' s'')
  then have "\<exists>new. ids s'' = new @ ids s'" using assms(2,3) messaging_steps_ok by blast
  with step.IH show ?case by (metis append.assoc)
qed simp

text \<open>Both tables are paged under the same contract.\<close>

lemma map_filter_limit: "map f (sql_limit k xs) = sql_limit k (map f xs)"
  by (simp add: sql_limit_def take_map)

lemma sorted_filter_key: "sorted_wrt (<) (map key xs) \<Longrightarrow> sorted_wrt (<) (map key (filter P xs))"
  by (simp add: sorted_wrt_map sorted_wrt_filter)

lemma fall_rev: "sorted_wrt (<) xs \<Longrightarrow> sorted_wrt (>) (rev xs)"
  by (simp add: sorted_wrt_rev)

interpretation thread: cursor_paging "thread_ids a b" "get_dm_thread a b" dr_id messaging_ok "messaging_step\<^sup>*\<^sup>*"
  for a b
proof unfold_locales
  fix s k before
  assume ok: "messaging_ok s"
  let ?xs = "filter (\<lambda>m. between a b m \<and> before_cursor before (dm_id m)) (ms_direct s)"
  have n: "newest_first dm_id ?xs = rev ?xs"
    using ok by (intro newest_first_rev sorted_filter_key) (simp add: messaging_ok_def)
  have "list_all (\<lambda>m. direct_row (ms_accounts s) m \<noteq> None) (rev ?xs)"
    using ok by (auto simp: messaging_ok_def list_all_iff direct_row_def known_get [symmetric] split: option.splits)
  then have "map dr_id (List.map_filter (direct_row (ms_accounts s)) (rev ?xs)) = map dm_id (rev ?xs)"
    by (rule map_filter_total) (auto simp: direct_row_def split: option.splits)
  then show "map dr_id (get_dm_thread a b k before s) =
      sql_limit k (filter (before_cursor before) (thread_ids a b s))"
    by (simp add: get_dm_thread_def map_filter_limit n thread_ids_def rev_map filter_map rev_filter comp_def)
next
  fix s
  assume "messaging_ok s"
  then show "sorted_wrt (>) (thread_ids a b s)"
    by (auto simp: thread_ids_def messaging_ok_def intro!: fall_rev sorted_filter_key)
qed (auto dest: messaging_steps_ok steps_ids [OF _ _ step_thread_ids])

interpretation chat: cursor_paging chat_ids get_local_chat_messages lr_id messaging_ok "messaging_step\<^sup>*\<^sup>*"
proof unfold_locales
  fix s k before
  assume ok: "messaging_ok s"
  let ?xs = "filter (\<lambda>m. before_cursor before (lm_id m)) (ms_local s)"
  have n: "newest_first lm_id ?xs = rev ?xs"
    using ok by (intro newest_first_rev sorted_filter_key) (simp add: messaging_ok_def)
  have "list_all (\<lambda>m. local_row (ms_accounts s) m \<noteq> None) (rev ?xs)"
    using ok by (auto simp: messaging_ok_def list_all_iff local_row_def known_get [symmetric])
  then have "map lr_id (List.map_filter (local_row (ms_accounts s)) (rev ?xs)) = map lm_id (rev ?xs)"
    by (rule map_filter_total) (auto simp: local_row_def)
  then show "map lr_id (get_local_chat_messages k before s) = sql_limit k (filter (before_cursor before) (chat_ids s))"
    by (simp add: get_local_chat_messages_def map_filter_limit n chat_ids_def rev_map filter_map rev_filter comp_def)
next
  fix s
  assume "messaging_ok s"
  then show "sorted_wrt (>) (chat_ids s)"
    by (auto simp: chat_ids_def messaging_ok_def intro!: fall_rev)
qed (auto dest: messaging_steps_ok steps_ids [OF _ _ step_chat_ids])

text \<open>C34: a client that reads a conversation page by page, each time asking for at most \<open>k\<close> messages before
  the last one it has, gets every message the conversation had at the first request, each once and newest
  first, and nothing else - even if messages are sent, marked as read or accounts change between the pages.
  The same holds for the chat. (For \<open>k\<close> from 1 to 100, the largest page; a negative limit is not refused: it
  returns the whole conversation at once, which is shown for -1.)\<close>

theorem pages_complete:
  assumes "messaging_reachable s" and "successively (messaging_step\<^sup>*\<^sup>*) (s # later)" and "0 < k" and "k \<le> 100"
    and "length (ms_direct s) \<le> length later" and "length (ms_local s) \<le> length later"
  shows "map dr_id (read_pages (get_thread auth other (Some k)) dr_id (s # later) None) =
      rev (map dm_id (filter (between (au_id auth) other) (ms_direct s)))
    \<and> map lr_id (read_pages (get_local_messages (Some k)) lr_id (s # later) None) = rev (map lm_id (ms_local s))
    \<and> map dr_id (get_thread auth other (Some (- 1)) None s) =
      rev (map dm_id (filter (between (au_id auth) other) (ms_direct s)))"
proof -
  have ok: "messaging_ok s" by (rule messaging_reachable_ok [OF assms(1)])
  have k: "page_limit (Some k) = k" using assms(4) by (simp add: page_limit_def)
  have t: "get_thread auth other (Some k) = get_dm_thread (au_id auth) other k"
    "get_local_messages (Some k) = get_local_chat_messages k"
    by (simp_all add: fun_eq_iff get_thread_def get_local_messages_def k)
  have l: "length (thread_ids (au_id auth) other s) \<le> length later" "length (chat_ids s) \<le> length later"
    using assms(5,6) order_trans [OF length_filter_le] by (auto simp: thread_ids_def chat_ids_def)
  show ?thesis
    using thread.all_pages [OF assms(3) ok assms(2), of None "au_id auth" other]
      chat.all_pages [OF assms(3) ok assms(2), of None] l
      thread.page_ids [OF ok, of "au_id auth" other "- 1" None]
    by (simp add: t before_cursor_None) (simp add: thread_ids_def chat_ids_def get_thread_def page_limit_def sql_limit_def)
qed

text \<open>The administrator and one user, and a message between them.\<close>

definition sample_accounts :: accounts where
  "sample_accounts = snd (register (Some []) [116] (Some True) [98, 111, 98] [98, 64, 120, 46, 121]
     [49, 50, 51, 52, 53, 54, 55, 56] (seed_admin [] accounts_empty))"

definition sample_auth :: "int \<Rightarrow> auth_user" where
  "sample_auth i = \<lparr>au_id = i, au_username = [], au_role = [117]\<rparr>"

definition sample_messaging :: messaging where
  "sample_messaging = snd (send_direct_message ascii_tables (sample_auth 1) 2 [32, 104, 105, 32]
     (messaging_empty sample_accounts))"

lemma sample_messaging_reachable: "messaging_reachable sample_messaging"
  unfolding sample_messaging_def sample_accounts_def
  by (rule After_Step [OF Before_Messages Sends_Direct]) (rule Later_On [OF First_Start Registers])

lemma sample_accounts_users:
  "map us_id (ac_users sample_accounts) = [1, 2]" "ac_clock sample_accounts = 0"
  by (simp_all add: sample_accounts_def register_def seed_admin_def accounts_empty_def get_user_by_username_def
      find_user_def create_user_verified_def create_user_def insert_user_def user_conflict_def Let_def str_def
      as_bytes_def utf8_char_def)

lemma sample_messaging_rows:
  "ms_direct sample_messaging = [\<lparr>dm_id = 1, dm_sender = 1, dm_recipient = 2, dm_message = [104, 105],
     dm_read_at = None, dm_created_at = 0\<rparr>]"
  "ms_local sample_messaging = []" "ms_accounts sample_messaging = sample_accounts"
proof -
  let ?s = "messaging_empty sample_accounts"
  obtain r s' where r: "send_direct_message ascii_tables (sample_auth 1) 2 [32, 104, 105, 32] ?s = (r, s')"
    by fastforce
  have "set (map us_id (ac_users sample_accounts)) = {1, 2}" by (simp only: sample_accounts_users) auto
  then have k: "known sample_accounts 1" "known sample_accounts 2" by (auto simp: known_def)
  have ok: "messaging_ok ?s" unfolding sample_accounts_def
    by (rule messaging_reachable_ok) (rule Before_Messages, rule Later_On [OF First_Start Registers])
  have w: "trim ascii_tables [32, 104, 105, 32] = [104, 105]"
    by (simp add: trim_def ascii_tables_def)
  have "\<not> no_message [104, 105]" by (simp add: no_message_def as_bytes_def utf8_char_def)
  then have "ms_direct s' = [\<lparr>dm_id = 1, dm_sender = 1, dm_recipient = 2, dm_message = [104, 105],
     dm_read_at = None, dm_created_at = 0\<rparr>] \<and> ms_local s' = [] \<and> ms_accounts s' = sample_accounts"
    using send_direct_cases [OF ok r] k w sample_accounts_users(2)
    by (auto simp: messaging_empty_def sample_auth_def new_direct_def)
  then show "ms_direct sample_messaging = [\<lparr>dm_id = 1, dm_sender = 1, dm_recipient = 2, dm_message = [104, 105],
     dm_read_at = None, dm_created_at = 0\<rparr>]" "ms_local sample_messaging = []"
     "ms_accounts sample_messaging = sample_accounts"
    by (simp_all add: sample_messaging_def r)
qed

theorem pages_complete_witness:
  "map dr_id (read_pages (get_thread (sample_auth 1) 2 (Some 1)) dr_id [sample_messaging, sample_messaging] None) = [1]"
  using pages_complete [OF sample_messaging_reachable, of "[sample_messaging]" 1 "sample_auth 1" 2]
  by (simp add: sample_messaging_rows sample_auth_def between_def)

section \<open>Conversations and unread counts\<close>

lemma conversation_row_simps:
  "conversation_row user s (p, i) = Some c \<Longrightarrow> cv_user_id c = p \<and> cv_unread_count c = unread_count user p s"
  by (auto simp: conversation_row_def split: option.splits)

lemma unread_after_send:
  assumes "messaging_ok s" and "send_direct_message u auth recipient w s = (Ok dm, s')"
  shows "unread_count r p s' =
    (if p = au_id auth \<and> r = recipient then unread_count r p s + 1 else unread_count r p s)"
  using send_direct_cases [OF assms] by (auto simp: unread_count_def new_direct_def)

lemma unread_after_read:
  "unread_count r p (mark_dms_read reader sender s) =
    (if p = sender \<and> r = reader then 0 else unread_count r p s)"
proof -
  have key: "length (filter (\<lambda>m. dm_sender m = p \<and> dm_recipient m = r \<and> dm_read_at m = None)
      (map (\<lambda>m. if dm_recipient m = reader \<and> dm_sender m = sender \<and> dm_read_at m = None
            then m\<lparr>dm_read_at := Some t\<rparr> else m) xs)) =
    (if p = sender \<and> r = reader then 0
     else length (filter (\<lambda>m. dm_sender m = p \<and> dm_recipient m = r \<and> dm_read_at m = None) xs))" for t xs
    by (induction xs) (auto simp del: length_filter_map)
  have "ms_direct (mark_dms_read reader sender s) = map (\<lambda>m. if dm_recipient m = reader \<and> dm_sender m = sender
      \<and> dm_read_at m = None then m\<lparr>dm_read_at := Some (ac_clock (ms_accounts s))\<rparr> else m) (ms_direct s)"
    by (simp add: mark_dms_read_def)
  then show ?thesis by (simp only: unread_count_def key)
qed

lemma partner_row:
  assumes "messaging_ok s" and "mine = filter (\<lambda>m. dm_sender m = self \<or> dm_recipient m = self) (ms_direct s)"
    and "p \<in> other_party self ` set mine"
    and "i = Max (set (map dm_id (filter (\<lambda>m. other_party self m = p) mine)))"
  shows "\<exists>m\<in>set mine. other_party self m = p \<and> find (\<lambda>m. dm_id m = i) (ms_direct s) = Some m
    \<and> (\<forall>m'\<in>set mine. other_party self m' = p \<longrightarrow> dm_id m' \<le> dm_id m) \<and> known (ms_accounts s) p"
proof -
  let ?I = "set (map dm_id (filter (\<lambda>m. other_party self m = p) mine))"
  have "?I \<noteq> {}" using assms(3) by auto
  then have "i \<in> ?I" unfolding assms(4) by (intro Max_in) simp_all
  then obtain m where m: "m \<in> set mine" "other_party self m = p" "dm_id m = i" by auto
  have inj: "inj_on dm_id (set (ms_direct s))"
    using assms(1) by (auto simp: messaging_ok_def strict_sorted_iff distinct_map)
  have in_s: "m \<in> set (ms_direct s)" using m(1) assms(2) by simp
  then obtain m' where f: "find (\<lambda>m. dm_id m = i) (ms_direct s) = Some m'"
    using m(3) by (cases "find (\<lambda>m. dm_id m = i) (ms_direct s)") (auto simp: find_None_iff)
  then have "m' = m" using find_SomeD [OF f] inj in_s m(3) by (auto dest: inj_onD)
  moreover have "known (ms_accounts s) p"
    using assms(1) in_s m(2) by (auto simp: messaging_ok_def list_all_iff other_party_def split: if_splits)
  moreover have "dm_id m' \<le> i" if "m' \<in> set mine" "other_party self m' = p" for m'
    unfolding assms(4) using that by (intro Max_ge) auto
  ultimately show ?thesis using m f by blast
qed

lemma conversation_entry:
  assumes "messaging_ok s" and "mine = filter (\<lambda>m. dm_sender m = self \<or> dm_recipient m = self) (ms_direct s)"
    and "x \<in> set (conversation_partners self (ms_direct s))"
  shows "\<exists>m\<in>set mine. other_party self m = fst x
    \<and> (\<forall>m'\<in>set mine. other_party self m' = fst x \<longrightarrow> dm_id m' \<le> dm_id m)
    \<and> (\<exists>c. conversation_row self s x = Some c \<and> cv_user_id c = fst x \<and> cv_unread_count c = unread_count self (fst x) s
        \<and> cv_last_message c = dm_message m \<and> cv_last_message_at c = dm_created_at m)"
proof -
  have "fst x \<in> other_party self ` set mine
      \<and> snd x = Max (set (map dm_id (filter (\<lambda>m. other_party self m = fst x) mine)))"
    using assms(3) by (auto simp: conversation_partners_def Let_def assms(2))
  then have "\<exists>m\<in>set mine. other_party self m = fst x
      \<and> (\<forall>m'\<in>set mine. other_party self m' = fst x \<longrightarrow> dm_id m' \<le> dm_id m)
      \<and> (\<exists>c. conversation_row self s x = Some c \<and> cv_last_message c = dm_message m
          \<and> cv_last_message_at c = dm_created_at m)"
    using partner_row [OF assms(1,2), of "fst x" "snd x"]
    by (cases x) (fastforce simp: conversation_row_def known_get [symmetric])
  then show ?thesis using conversation_row_simps [of self s "fst x" "snd x"] by fastforce
qed

text \<open>C35: the list of conversations has one entry for every user the caller has exchanged a message with, and
  no other; each shows the message with the highest id between the two, whoever sent it, and the number of
  messages from that user the caller has not read; the entry with the most recent message comes first.
  Marking a conversation as read clears exactly the caller's count for that user.\<close>

theorem conversations_correct:
  assumes "messaging_reachable s" and "self = au_id auth"
    and "mine = filter (\<lambda>m. dm_sender m = self \<or> dm_recipient m = self) (ms_direct s)"
  shows "distinct (map cv_user_id (get_conversations auth s))
    \<and> set (map cv_user_id (get_conversations auth s)) = other_party self ` set mine
    \<and> sorted_wrt (\<ge>) (map cv_last_message_at (get_conversations auth s))
    \<and> (\<forall>c\<in>set (get_conversations auth s). cv_unread_count c = unread_count self (cv_user_id c) s
        \<and> (\<exists>m\<in>set mine. other_party self m = cv_user_id c
            \<and> (\<forall>m'\<in>set mine. other_party self m' = cv_user_id c \<longrightarrow> dm_id m' \<le> dm_id m)
            \<and> cv_last_message c = dm_message m \<and> cv_last_message_at c = dm_created_at m))
    \<and> unread_count r q (snd (mark_read auth p s)) = (if q = p \<and> r = self then 0 else unread_count r q s)"
proof -
  let ?parts = "conversation_partners self (ms_direct s)"
  let ?rows = "List.map_filter (conversation_row self s) ?parts"
  note row = conversation_entry [OF messaging_reachable_ok [OF assms(1)] assms(3)]
  have "map cv_user_id ?rows = map fst ?parts"
    using row by (intro map_filter_total) (fastforce simp: list_all_iff dest: conversation_row_simps)+
  then have ids: "map cv_user_id ?rows = sort (remdups (map (other_party self) mine))"
    by (simp add: conversation_partners_def Let_def assms(3) comp_def)
  then have d: "distinct (map cv_user_id ?rows)" by simp
  have st: "set (map cv_user_id ?rows) = other_party self ` set mine" by (simp only: ids) simp
  have c: "get_conversations auth s = sort_key (\<lambda>c. - int (cv_last_message_at c)) ?rows"
    by (simp add: get_conversations_def get_dm_conversations_def newest_first_def assms(2))
  have "sorted (map (\<lambda>c. - int (cv_last_message_at c)) (get_conversations auth s))" unfolding c by simp
  then have "sorted_wrt (\<ge>) (map cv_last_message_at (get_conversations auth s))"
    by (simp add: sorted_wrt_map)
  moreover have "\<forall>v\<in>set (get_conversations auth s). cv_unread_count v = unread_count self (cv_user_id v) s
      \<and> (\<exists>m\<in>set mine. other_party self m = cv_user_id v
          \<and> (\<forall>m'\<in>set mine. other_party self m' = cv_user_id v \<longrightarrow> dm_id m' \<le> dm_id m)
          \<and> cv_last_message v = dm_message m \<and> cv_last_message_at v = dm_created_at m)"
  proof
    fix v
    assume "v \<in> set (get_conversations auth s)"
    then obtain x where "x \<in> set ?parts" "conversation_row self s x = Some v" by (auto simp: c set_map_filter)
    with row [of x] show "cv_unread_count v = unread_count self (cv_user_id v) s
        \<and> (\<exists>m\<in>set mine. other_party self m = cv_user_id v
            \<and> (\<forall>m'\<in>set mine. other_party self m' = cv_user_id v \<longrightarrow> dm_id m' \<le> dm_id m)
            \<and> cv_last_message v = dm_message m \<and> cv_last_message_at v = dm_created_at m)" by auto
  qed
  ultimately show ?thesis
    using d st by (simp add: c distinct_map mark_read_def unread_after_read assms(2))
qed

theorem conversations_correct_witness:
  "map cv_user_id (get_conversations (sample_auth 2) sample_messaging) = [1]
    \<and> unread_count 2 1 sample_messaging = 1 \<and> unread_count 2 1 (snd (mark_read (sample_auth 2) 1 sample_messaging)) = 0"
proof -
  let ?mine = "filter (\<lambda>m. dm_sender m = 2 \<or> dm_recipient m = 2) (ms_direct sample_messaging)"
  have partners: "other_party 2 ` set ?mine = {1}" by (simp add: sample_messaging_rows other_party_def)
  have a: "2 = au_id (sample_auth 2)" by (simp add: sample_auth_def)
  have "distinct (map cv_user_id (get_conversations (sample_auth 2) sample_messaging))
      \<and> set (map cv_user_id (get_conversations (sample_auth 2) sample_messaging)) = {1}
      \<and> unread_count 2 1 (snd (mark_read (sample_auth 2) 1 sample_messaging)) = 0"
    using conversations_correct [OF sample_messaging_reachable a refl, of 2 1 1] unfolding partners by simp
  moreover have "distinct xs \<Longrightarrow> set xs = {x} \<Longrightarrow> xs = [x]" for xs and x :: int
    by (cases xs) (auto simp: subset_singleton_iff)
  ultimately show ?thesis by (simp add: unread_count_def sample_messaging_rows)
qed

text \<open>Sending a direct message: it is accepted exactly if the trimmed text has 1 to 2000 bytes, the
  recipient is another existing user and the sender's account still exists. Then exactly one message is
  added, the recipient's count of unread messages from the sender goes up by one and no other count
  changes, and one event goes out. Otherwise nothing changes, and the answer says why: 400 for the text or
  the caller as recipient, 404 for an unknown recipient, 500 for a sender who was deleted.\<close>

lemma direct_message_outcome:
  assumes "messaging_reachable s" and "send_direct_message u auth recipient w s = (r, s')"
  shows "(if \<not> no_message (trim u w) \<and> au_id auth \<noteq> recipient \<and> known (ms_accounts s) recipient
          \<and> known (ms_accounts s) (au_id auth)
        then is_ok r \<and> (\<exists>m. ms_direct s' = ms_direct s @ [m] \<and> dm_sender m = au_id auth \<and> dm_recipient m = recipient
               \<and> dm_message m = trim u w \<and> dm_read_at m = None)
          \<and> unread_count i j s' = (if j = au_id auth \<and> i = recipient then unread_count i j s + 1 else unread_count i j s)
          \<and> (\<exists>e. ms_events s' = ms_events s @ [e]) \<and> ms_local s' = ms_local s \<and> ms_accounts s' = ms_accounts s
        else s' = s \<and> (\<exists>m. r = Err (if no_message (trim u w) \<or> au_id auth = recipient then 400
               else if \<not> known (ms_accounts s) recipient then 404 else 500, m)))"
proof -
  have ok: "messaging_ok s" by (rule messaging_reachable_ok [OF assms(1)])
  from send_direct_cases [OF ok assms(2)] show ?thesis
  proof
    assume "\<exists>c m. r = Err (c, m) \<and> s' = s \<and> c \<in> {400, 404, 500}
       \<and> (c = 400 \<longleftrightarrow> no_message (trim u w) \<or> au_id auth = recipient)
       \<and> (c = 404 \<longleftrightarrow> \<not> no_message (trim u w) \<and> au_id auth \<noteq> recipient \<and> \<not> known (ms_accounts s) recipient)
       \<and> (c = 500 \<longleftrightarrow> \<not> no_message (trim u w) \<and> au_id auth \<noteq> recipient \<and> known (ms_accounts s) recipient
            \<and> \<not> known (ms_accounts s) (au_id auth))"
    then show ?thesis by auto
  next
    assume a: "\<exists>dm. r = Ok dm \<and> \<not> no_message (trim u w) \<and> au_id auth \<noteq> recipient
       \<and> known (ms_accounts s) (au_id auth) \<and> known (ms_accounts s) recipient
       \<and> direct_row (ms_accounts s) (new_direct (au_id auth) recipient (trim u w) s) = Some dm
       \<and> s' = s\<lparr>ms_direct := ms_direct s @ [new_direct (au_id auth) recipient (trim u w) s],
                 ms_direct_seq := ms_direct_seq s + 1, ms_events := ms_events s @ [direct_event dm]\<rparr>"
    then obtain dm where "r = Ok dm" by blast
    with unread_after_send [OF ok, of u auth recipient w dm s' i j] assms(2) a show ?thesis
      by (auto simp: new_direct_def)
  qed
qed

lemma direct_message_outcome_witness:
  "\<exists>m. fst (send_direct_message ascii_tables (sample_auth 1) 1 [104] sample_messaging) = Err (400, m)"
proof -
  obtain r s' where r: "send_direct_message ascii_tables (sample_auth 1) 1 [104] sample_messaging = (r, s')" by fastforce
  from direct_message_outcome [OF sample_messaging_reachable r] moreover have "au_id (sample_auth 1) = 1" by (simp add: sample_auth_def)
  ultimately show ?thesis by (simp add: r)
qed

section \<open>Searching for users\<close>

definition plain :: "rstring \<Rightarrow> bool" where
  "plain q \<longleftrightarrow> 37 \<notin> set q \<and> 95 \<notin> set q"

lemma like_percent: "like (37 # ps) s \<longleftrightarrow> (\<exists>t. suffix t s \<and> like ps t)"
  by (induction s) (auto simp: suffix_Cons)

lemma like_any: "like [37] s"
  by (induction s) auto

lemma like_prefix: "plain q \<Longrightarrow> like (q @ [37]) s \<longleftrightarrow> prefix (map ascii_lower q) (map ascii_lower s)"
proof (induction q arbitrary: s)
  case Nil
  then show ?case using like_any by simp
next
  case (Cons c q)
  then show ?case by (cases s) (auto simp: plain_def)
qed

lemma like_containing:
  assumes "plain q"
  shows "like (containing q) s \<longleftrightarrow> sublist (map ascii_lower q) (map ascii_lower s)"
proof -
  have "like (containing q) s \<longleftrightarrow> (\<exists>t. suffix t s \<and> prefix (map ascii_lower q) (map ascii_lower t))"
    by (simp add: containing_def like_percent like_prefix [OF assms])
  also have "\<dots> \<longleftrightarrow> (\<exists>t. suffix t (map ascii_lower s) \<and> prefix (map ascii_lower q) t)"
    by (metis map_mono_suffix suffix_def map_eq_append_conv)
  also have "\<dots> \<longleftrightarrow> sublist (map ascii_lower q) (map ascii_lower s)"
    by (auto simp: sublist_altdef')
  finally show ?thesis .
qed

text \<open>A query made of one underscore finds everyone.\<close>

lemma underscore_finds_all: "like (containing [95]) (c # w)"
  using like_any by (simp add: containing_def)

text \<open>The search for a user: a query without the wildcards of LIKE finds exactly the other accounts whose
  name or display name contains it, in upper or lower case; those whose name contains it come first, each
  group in the order of the names, and the first ten are shown.\<close>

lemma user_search_correct:
  assumes "messaging_reachable s" and "trim u w = q" and "q \<noteq> []" and "plain q"
    and "\<And>x. hit x \<longleftrightarrow> sublist (map ascii_lower q) (map ascii_lower x)"
  shows "\<exists>us. find_users u auth w s = map summary (take 10 us)
    \<and> distinct us
    \<and> set us = {x \<in> set (ac_users (ms_accounts s)). us_id x \<noteq> au_id auth
          \<and> (hit (us_username x) \<or> (\<exists>d. us_display_name x = Some d \<and> hit d))}
    \<and> sorted_wrt (\<lambda>x y. hit (us_username x) \<and> \<not> hit (us_username y)
          \<or> hit (us_username x) = hit (us_username y) \<and> us_username x < us_username y) us"
proof -
  have ok: "accounts_ok (ms_accounts s)"
    using messaging_reachable_ok [OF assms(1)] by (simp add: messaging_ok_def)
  let ?users = "filter (\<lambda>x. us_id x \<noteq> au_id auth \<and> (hit (us_username x)
      \<or> (case us_display_name x of Some d \<Rightarrow> hit d | None \<Rightarrow> False))) (ac_users (ms_accounts s))"
  let ?key = "\<lambda>x. (if hit (us_username x) then 0 else 1 :: nat, us_username x)"
  let ?us = "sort_key ?key ?users"
  have like: "like (containing q) x \<longleftrightarrow> hit x" for x using like_containing [OF assms(4)] assms(5) by simp
  have "find_users u auth w s = map summary (take 10 ?us)"
    using assms(2,3)
    by (simp add: find_users_def search_users_def Let_def like like_column_def sql_limit_def take_map
        cong: option.case_cong)
  moreover have d: "distinct (map us_username ?users)"
    using ok by (simp add: accounts_ok_def distinct_map_filterI)
  then have "distinct ?us" by (simp add: distinct_map)
  moreover have "set ?us = {x \<in> set (ac_users (ms_accounts s)). us_id x \<noteq> au_id auth
          \<and> (hit (us_username x) \<or> (\<exists>d. us_display_name x = Some d \<and> hit d))}"
    by (auto split: option.splits)
  moreover have "sorted_wrt (\<lambda>x y. hit (us_username x) \<and> \<not> hit (us_username y)
          \<or> hit (us_username x) = hit (us_username y) \<and> us_username x < us_username y) ?us"
  proof -
    have "distinct (map ?key ?us)" using d by (auto simp: distinct_map inj_on_def)
    then have "sorted_wrt (<) (map ?key ?us)" by (simp add: strict_sorted_iff)
    then have "sorted_wrt (\<lambda>x y. ?key x < ?key y) ?us" by (simp only: sorted_wrt_map)
    then show ?thesis by (rule sorted_wrt_mono_rel [rotated]) (auto split: if_splits)
  qed
  ultimately show ?thesis by blast
qed

lemma user_search_correct_witness:
  "\<exists>us. find_users ascii_tables (sample_auth 1) [66, 79] sample_messaging = map summary (take 10 us)
    \<and> distinct us"
proof -
  have "trim ascii_tables [66, 79] = [66, 79]" by (simp add: trim_def ascii_tables_def)
  from user_search_correct [OF sample_messaging_reachable this _ _ refl, of "sample_auth 1"]
  show ?thesis by (auto simp: plain_def)
qed

end
