(* ===== verification/Web_Socket.thy ===== *)
theory Web_Socket
  imports Queue Upload Messaging_Properties Metadata_Service
begin

text \<open>
  \<open>src/src/api/ws.rs\<close>: the stream of events a client of the web interface gets. The events of the queue, the
  uploads, the messages and the metadata are those of their theories; here they are one type. The loop of a
  socket takes the outcomes of its \<open>select!\<close> one after another; \<open>ok n\<close> says whether the send number \<open>n\<close>
  succeeds, and an item is always serialisable. Which events the broadcast channel delivers, and when a slow
  receiver has lagged, is tokio's and part of the inputs.
\<close>

datatype server_event =
    Queue_Event ws_event
  | Metadata_Job_Event metadata_event
  | Metadata_Updated int "track_metadata option" "rstring option"
  | Upload_Event upload_event
  | Chat_Event chat_message
  | Message_Event message_event

datatype client_message = Client_Text rstring | Client_Ping bytes | Client_Close | Client_Other

text \<open>What one turn of the loop finds: an event, a lag, the end of the channel, or a message of the client, where
  \<open>None\<close> is the end of its stream.\<close>

datatype socket_input = Received server_event | Lagged nat | Channel_Closed | From_Client "client_message option"

datatype socket_output = Event_Text server_event | Pong bytes

fun socket_loop :: "(nat \<Rightarrow> bool) \<Rightarrow> socket_input list \<Rightarrow> socket_output list \<Rightarrow> socket_output list \<times> bool" where
  "socket_loop ok [] sent = (sent, True)"
| "socket_loop ok (Received e # ins) sent =
     (if ok (length sent) then socket_loop ok ins (sent @ [Event_Text e]) else (sent, False))"
| "socket_loop ok (Lagged n # ins) sent = socket_loop ok ins sent"
| "socket_loop ok (Channel_Closed # ins) sent = (sent, False)"
| "socket_loop ok (From_Client (Some (Client_Ping data)) # ins) sent =
     (if ok (length sent) then socket_loop ok ins (sent @ [Pong data]) else (sent, False))"
| "socket_loop ok (From_Client (Some Client_Close) # ins) sent = (sent, False)"
| "socket_loop ok (From_Client None # ins) sent = (sent, False)"
| "socket_loop ok (From_Client (Some (Client_Text t)) # ins) sent = socket_loop ok ins sent"
| "socket_loop ok (From_Client (Some Client_Other) # ins) sent = socket_loop ok ins sent"

definition in_progress :: "item \<Rightarrow> bool" where
  "in_progress it \<longleftrightarrow> it_status it \<in> set [''pending'', ''downloading'', ''queued'']"

definition status_event :: "item \<Rightarrow> server_event" where
  "status_event it = Queue_Event (ItemUpdated (it_id it) (it_filename it) (it_status it) (it_progress it))"

fun send_all :: "(nat \<Rightarrow> bool) \<Rightarrow> server_event list \<Rightarrow> socket_output list \<Rightarrow> socket_output list \<times> bool" where
  "send_all ok [] sent = (sent, True)"
| "send_all ok (e # es) sent = (if ok (length sent) then send_all ok es (sent @ [Event_Text e]) else (sent, False))"

definition handle_socket :: "(nat \<Rightarrow> bool) \<Rightarrow> database \<Rightarrow> socket_input list \<Rightarrow> socket_output list \<times> bool" where
  "handle_socket ok d ins =
     (case send_all ok (map status_event (filter in_progress (get_all_items d))) [] of
        (sent, True) \<Rightarrow> socket_loop ok ins sent
      | (sent, False) \<Rightarrow> (sent, False))"

text \<open>The token is checked, a bad one is logged, and the socket is opened in every case.\<close>

definition progress_handler ::
  "('t \<Rightarrow> claims option) \<Rightarrow> 't option \<Rightarrow> (nat \<Rightarrow> bool) \<Rightarrow> database \<Rightarrow> socket_input list \<Rightarrow> socket_output list \<times> bool" where
  "progress_handler decode tok ok d ins =
     (let rejected = (case tok of Some t \<Rightarrow> decode t = None | None \<Rightarrow> False) in
      if rejected then handle_socket ok d ins else handle_socket ok d ins)"

section \<open>What a socket is sent\<close>

text \<open>The specification: the inputs until the stream ends, and what each of them makes the client get.\<close>

fun ends_stream :: "socket_input \<Rightarrow> bool" where
  "ends_stream Channel_Closed = True"
| "ends_stream (From_Client None) = True"
| "ends_stream (From_Client (Some Client_Close)) = True"
| "ends_stream _ = False"

fun reply_to :: "socket_input \<Rightarrow> socket_output list" where
  "reply_to (Received e) = [Event_Text e]"
| "reply_to (From_Client (Some (Client_Ping data))) = [Pong data]"
| "reply_to _ = []"

definition stream :: "database \<Rightarrow> socket_input list \<Rightarrow> socket_output list" where
  "stream d ins =
     map (\<lambda>it. Event_Text (status_event it)) (filter in_progress (get_all_items d))
     @ concat (map reply_to (takeWhile (\<lambda>i. \<not> ends_stream i) ins))"

lemma send_all_ok: "(\<And>n. ok n) \<Longrightarrow> send_all ok es sent = (sent @ map Event_Text es, True)"
  by (induction es arbitrary: sent) auto

lemma socket_loop_ok:
  "(\<And>n. ok n) \<Longrightarrow> socket_loop ok ins sent
    = (sent @ concat (map reply_to (takeWhile (\<lambda>i. \<not> ends_stream i) ins)), list_all (\<lambda>i. \<not> ends_stream i) ins)"
  by (induction ok ins sent rule: socket_loop.induct) auto

lemma send_all_prefix:
  "send_all ok es sent = (out, b) \<Longrightarrow> prefix out (sent @ map Event_Text es) \<and> (b \<longrightarrow> out = sent @ map Event_Text es)"
  by (induction es arbitrary: sent) (fastforce split: if_splits)+

lemma socket_loop_prefix:
  "socket_loop ok ins sent = (out, b) \<Longrightarrow>
   prefix out (sent @ concat (map reply_to (takeWhile (\<lambda>i. \<not> ends_stream i) ins))) \<and> prefix sent out"
  by (induction ok ins sent rule: socket_loop.induct) (auto split: if_splits dest: append_prefixD)

text \<open>C22: A client is sent, in this order, the state of every item that is not finished and then every event it
  receives and a pong for every ping, until it closes the stream or the channel ends; a send that fails only
  cuts this stream short. Lagging drops events, never the connection.\<close>

theorem socket_sends_stream:
  "prefix (fst (handle_socket ok d ins)) (stream d ins)
   \<and> ((\<forall>n. ok n) \<longrightarrow> handle_socket ok d ins = (stream d ins, list_all (\<lambda>i. \<not> ends_stream i) ins))"
proof -
  let ?es = "map status_event (filter in_progress (get_all_items d))"
  let ?rest = "concat (map reply_to (takeWhile (\<lambda>i. \<not> ends_stream i) ins))"
  obtain sent b where s: "send_all ok ?es [] = (sent, b)" by (cases "send_all ok ?es []")
  from send_all_prefix [OF s] have p: "prefix sent (map Event_Text ?es)" "b \<Longrightarrow> sent = map Event_Text ?es" by auto
  have e: "map Event_Text ?es = map (\<lambda>it. Event_Text (status_event it)) (filter in_progress (get_all_items d))" by simp
  have "prefix (fst (handle_socket ok d ins)) (map Event_Text ?es @ ?rest)"
  proof (cases b)
    case True
    obtain out c where o: "socket_loop ok ins sent = (out, c)" by (cases "socket_loop ok ins sent")
    from socket_loop_prefix [OF o] True p s o show ?thesis by (simp add: handle_socket_def)
  next
    case False
    with p s show ?thesis by (simp add: handle_socket_def prefix_prefix)
  qed
  moreover have "handle_socket ok d ins = (map Event_Text ?es @ ?rest, list_all (\<lambda>i. \<not> ends_stream i) ins)"
    if "\<forall>n. ok n"
    using that by (simp add: handle_socket_def send_all_ok socket_loop_ok)
  ultimately show ?thesis unfolding stream_def e by simp
qed

theorem socket_sends_stream_witness:
  "handle_socket (\<lambda>_. True) (empty_db [] 0)
     [Received (Upload_Event (UploadStarted [97] [98] 5)), Lagged 3, From_Client (Some (Client_Ping [1])),
      From_Client None, Received (Upload_Event (UploadStarted [97] [99] 5))]
   = ([Event_Text (Upload_Event (UploadStarted [97] [98] 5)), Pong [1]], False)"
  using socket_sends_stream [of "\<lambda>_. True" "empty_db [] 0"
     "[Received (Upload_Event (UploadStarted [97] [98] 5)), Lagged 3, From_Client (Some (Client_Ping [1])),
      From_Client None, Received (Upload_Event (UploadStarted [97] [99] 5))]"]
  by (simp add: stream_def get_all_items_def empty_db_def Database.newest_first_def)

text \<open>The events a handler call has added to those of the instance.\<close>

definition new_events :: "messaging \<Rightarrow> messaging \<Rightarrow> server_event list" where
  "new_events s s' = map Message_Event (drop (length (ms_events s)) (ms_events s'))"

lemma send_direct_event:
  assumes "send_direct_message u auth recipient w s = (Ok dm, s')"
  shows "ms_events s' = ms_events s @ [Direct_Message (dr_id dm) (dr_sender_id dm) (dr_sender_username dm)
    (dr_sender_display_name dm) (dr_sender_has_avatar dm) (dr_recipient_id dm) (dr_message dm) (dr_created_at dm)]"
proof -
  obtain r1 s1 where i: "insert_direct_message (au_id auth) recipient (trim u w) s = (r1, s1)" by fastforce
  then have s1: "ms_events s1 = ms_events s"
    by (auto simp: insert_direct_message_def Let_def split: if_splits)
  from assms have g: "\<not> no_message (trim u w)" "au_id auth \<noteq> recipient"
      "get_user_by_id recipient (ms_accounts s) \<noteq> None"
    by (auto simp only: send_direct_message_def Let_def if_True prod.inject outcome.distinct split: if_splits)
  show ?thesis
  proof (cases r1)
    case (Ok k)
    then show ?thesis
      using assms g i s1 by (cases "get_direct_message k s1") (auto simp: send_direct_message_def)
  qed (use assms g i in \<open>simp_all add: send_direct_message_def\<close>)
qed

text \<open>C23: Direct messages are not private: when one user has sent a message to another, its text with sender and
  recipient is sent to every open socket that is still there when the event comes - whoever opened it, with a
  valid token, a forged one or none.\<close>

theorem direct_message_reaches_everyone:
  assumes "send_direct_message u auth recipient w s = (Ok dm, s')" and "\<forall>n. ok n"
    and "ins = before @ map Received (new_events s s') @ after" and "list_all (\<lambda>i. \<not> ends_stream i) before"
  shows "Event_Text (Message_Event (Direct_Message (dr_id dm) (dr_sender_id dm) (dr_sender_username dm)
      (dr_sender_display_name dm) (dr_sender_has_avatar dm) (dr_recipient_id dm) (dr_message dm) (dr_created_at dm)))
    \<in> set (fst (progress_handler decode tok ok d ins))"
proof -
  have e: "new_events s s' = [Message_Event (Direct_Message (dr_id dm) (dr_sender_id dm)
      (dr_sender_username dm) (dr_sender_display_name dm) (dr_sender_has_avatar dm) (dr_recipient_id dm)
      (dr_message dm) (dr_created_at dm))]"
    by (simp add: new_events_def send_direct_event [OF assms(1)])
  have "fst (progress_handler decode tok ok d ins) = stream d ins"
    using assms(2) by (simp add: progress_handler_def handle_socket_def send_all_ok socket_loop_ok stream_def comp_def)
  moreover have "takeWhile (\<lambda>i. \<not> ends_stream i) ins
      = before @ map Received (new_events s s') @ takeWhile (\<lambda>i. \<not> ends_stream i) after"
    using assms(3,4) by (simp add: e list_all_iff)
  ultimately show ?thesis by (simp add: stream_def e)
qed

theorem direct_message_reaches_everyone_witness:
  "let s = messaging_empty sample_accounts;
       p = send_direct_message ascii_tables (sample_auth 1) 2 [32, 104, 105, 32] s; dm = the_ok (fst p)
   in Event_Text (Message_Event (Direct_Message (dr_id dm) (dr_sender_id dm) (dr_sender_username dm)
        (dr_sender_display_name dm) (dr_sender_has_avatar dm) (dr_recipient_id dm) (dr_message dm) (dr_created_at dm)))
      \<in> set (fst (progress_handler (\<lambda>_. None) (Some ()) (\<lambda>_. True) (empty_db [] 0)
              ([] @ map Received (new_events s (snd p)) @ [])))"
proof -
  let ?s = "messaging_empty sample_accounts"
  let ?p = "send_direct_message ascii_tables (sample_auth 1) 2 [32, 104, 105, 32] ?s"
  have "set (map us_id (ac_users sample_accounts)) = {1, 2}" by (simp only: sample_accounts_users) auto
  then have k: "known (ms_accounts ?s) 1" "known (ms_accounts ?s) 2" by (auto simp: known_def messaging_empty_def)
  have ok: "messaging_ok ?s" unfolding sample_accounts_def
    by (rule messaging_reachable_ok) (rule Before_Messages, rule Later_On [OF First_Start Registers])
  have w: "\<not> no_message (trim ascii_tables [32, 104, 105, 32])"
    by (simp add: trim_def ascii_tables_def no_message_def as_bytes_def utf8_char_def)
  have a: "au_id (sample_auth 1) = 1" by (simp add: sample_auth_def)
  have "is_ok (fst ?p)"
    using send_direct_cases [OF ok prod.collapse [symmetric], of ascii_tables "sample_auth 1" 2 "[32, 104, 105, 32]"] k w a
    by auto
  then have p: "?p = (Ok (the_ok (fst ?p)), snd ?p)" by (metis is_ok.elims(2) outcome.sel(1) prod.collapse)
  show ?thesis
    unfolding Let_def by (rule direct_message_reaches_everyone [OF p _ refl]) simp_all
qed

end
