(* ===== verification/Start_Up.thy ===== *)
theory Start_Up
  imports Queue_System Client Library_Api Spotify_Provider Web_Socket
begin

text \<open>
  \<open>src/src/main.rs\<close> (and the settings of \<open>services/metadata/mod.rs\<close>): the settings read from the environment, the services put together in the order of
  \<open>main\<close>, the recovery of what the last run left, and the two background tasks that report the speed of the
  uploads and forward the chat. What lies outside is an argument: the directories, the hash of the first
  password, the connection to the server, the disk and the answers of the streaming service. Port forwarding,
  which the start only logs, is in \<open>Port_Forwarding\<close>. A result comes with the tables as they are then, which the next start finds.
\<close>

section \<open>The settings\<close>

type_synonym variables = "rstring \<Rightarrow> rstring option"

definition var_or :: "variables \<Rightarrow> string \<Rightarrow> string \<Rightarrow> rstring" where
  "var_or var name fallback = (case var (str name) of Some v \<Rightarrow> v | None \<Rightarrow> str fallback)"

text \<open>\<open>parse\<close> of an unsigned number of \<open>w\<close> bits, at most 64, and of a \<open>bool\<close>; what cannot be read is the default.\<close>

definition parse_unsigned :: "nat \<Rightarrow> rstring \<Rightarrow> nat option" where
  "parse_unsigned w s =
     (case parse_u64 s of Some n \<Rightarrow> if n < 2 ^ w then Some n else None | None \<Rightarrow> None)"

definition number_var :: "variables \<Rightarrow> nat \<Rightarrow> string \<Rightarrow> string \<Rightarrow> nat \<Rightarrow> nat" where
  "number_var var w name written fallback =
     (case parse_unsigned w (var_or var name written) of Some n \<Rightarrow> n | None \<Rightarrow> fallback)"

definition bool_var :: "variables \<Rightarrow> string \<Rightarrow> bool" where
  "bool_var var name = (var_or var name ''true'' \<noteq> str ''false'')"

record smtp_settings =
  sm_host :: rstring
  sm_port :: u16
  sm_username :: rstring
  sm_password :: rstring
  sm_from_email :: rstring
  sm_from_name :: rstring
  sm_app_url :: rstring

record settings =
  se_database_url :: rstring
  se_storage :: rstring
  se_jwt_secret :: rstring
  se_bind_addr :: rstring
  se_username :: rstring
  se_password :: rstring
  se_max_searches :: nat
  se_smtp :: "smtp_settings option"
  se_upload :: upload_config
  se_redirect_base :: rstring
  se_spotify :: bool

definition read_smtp :: "variables \<Rightarrow> smtp_settings option" where
  "read_smtp var =
     (case (var (str ''SMTP_HOST''), var (str ''SMTP_USERNAME''), var (str ''SMTP_PASSWORD'')) of
        (Some host, Some user, Some pass) \<Rightarrow>
          Some \<lparr>sm_host = host, sm_port = word_of_nat (number_var var 16 ''SMTP_PORT'' ''587'' 587),
            sm_username = user, sm_password = pass,
            sm_from_email = var_or var ''SMTP_FROM_EMAIL'' ''noreply@rinse.local'',
            sm_from_name = var_or var ''SMTP_FROM_NAME'' ''Rinse'',
            sm_app_url = var_or var ''APP_URL'' ''http://localhost:5173''\<rparr>
      | _ \<Rightarrow> None)"

definition read_upload_config :: "variables \<Rightarrow> upload_config" where
  "read_upload_config var =
     \<lparr>max_upload_slots = number_var var 64 ''MAX_UPLOAD_SLOTS'' ''3'' 3,
      max_upload_speed_kbps = word_of_nat (number_var var 64 ''MAX_UPLOAD_SPEED_KBPS'' ''0'' 0),
      sharing_enabled = bool_var var ''SHARING_ENABLED''\<rparr>"

definition read_settings :: "variables \<Rightarrow> settings" where
  "read_settings var =
     \<lparr>se_database_url = var_or var ''DATABASE_URL'' ''sqlite:data/rinse.db'',
      se_storage = var_or var ''STORAGE_PATH'' ''storage'',
      se_jwt_secret = var_or var ''JWT_SECRET'' ''change-me-in-production'',
      se_bind_addr = var_or var ''BIND_ADDR'' ''0.0.0.0:3000'',
      se_username = var_or var ''SLSK_USERNAME'' ''RinseService'',
      se_password = var_or var ''SLSK_PASSWORD'' ''rinse2024'',
      se_max_searches = number_var var 64 ''MAX_CONCURRENT_SEARCHES'' ''8'' 8,
      se_smtp = read_smtp var,
      se_upload = read_upload_config var,
      se_redirect_base = var_or var ''OAUTH_REDIRECT_BASE'' ''http://localhost:5173'',
      se_spotify = (var (str ''SPOTIFY_CLIENT_ID'') \<noteq> None)\<rparr>"

text \<open>The settings of the metadata service: the address it gives and the key for the tempo service, which is another
  one outside production.\<close>

definition contact_email :: "variables \<Rightarrow> rstring" where
  "contact_email var = var_or var ''MUSICBRAINZ_CONTACT_EMAIL'' ''rinse-app@example.com''"

definition is_production :: "unicode \<Rightarrow> variables \<Rightarrow> bool" where
  "is_production u var =
     (case var (str ''APP_ENV'') of Some env \<Rightarrow> lowercase u env = str ''production'' | None \<Rightarrow> False)"

definition getsongbpm_api_key :: "unicode \<Rightarrow> variables \<Rightarrow> rstring option" where
  "getsongbpm_api_key u var =
     (if is_production u var then var (str ''GETSONGBPM_API_KEY'')
      else
        (case var (str ''GETSONGBPM_API_KEY_DEV'') of
           Some k \<Rightarrow> Some k
         | None \<Rightarrow> var (str ''GETSONGBPM_API_KEY'')))"

section \<open>The services\<close>

text \<open>The surroundings: whether the directories can be made and the address bound, the hash of the first
  password, the connection to the server, the digest of its login and the texts of its errors, and the parameters
  of the services.\<close>

record surroundings =
  so_directories :: "(unit, rstring) outcome"
  so_hash :: "rstring \<Rightarrow> (rstring, rstring) outcome"
  so_server :: "(conn, rstring) outcome"
  so_md5_hex :: "bytes \<Rightarrow> rstring"
  so_error :: "peer_error \<Rightarrow> rstring"
  so_now :: nat
  so_queue :: queue_env
  so_oauth :: "rstring \<Rightarrow> rstring \<Rightarrow> oauth_service option"
  so_listener :: "(unit, rstring) outcome"

record running =
  ru_client :: client
  ru_router :: router
  ru_uploads :: upload_service
  ru_system :: system
  ru_oauth :: "oauth_service option"

definition ensure_admin :: "surroundings \<Rightarrow> accounts \<Rightarrow> (unit, rstring) outcome \<times> accounts" where
  "ensure_admin e a =
     (if get_user_by_username (str ''admin'') a \<noteq> None then (Ok (), a)
      else
        (case so_hash e (str ''admin123'') of
           Err t \<Rightarrow> (Err (str ''Failed to hash password: '' @ t), a)
         | Panic \<Rightarrow> (Panic, a)
         | Ok h \<Rightarrow>
             (case create_user_verified (str ''admin'') h (str ''admin'') a of
                (Ok u, a) \<Rightarrow> (Ok (), a)
              | (Err t, a) \<Rightarrow> (Err t, a)
              | (Panic, a) \<Rightarrow> (Panic, a))))"

definition connect_client :: "settings \<Rightarrow> surroundings \<Rightarrow> (client, rstring) outcome" where
  "connect_client st e =
     (case so_server e of
        Err t \<Rightarrow> Err t
      | Panic \<Rightarrow> Panic
      | Ok c \<Rightarrow>
          (case fst (greet_server (so_md5_hex e) (se_username st) (se_password st) c) of
             Ok ip \<Rightarrow> Ok (client_new (se_username st) ip)
           | Err x \<Rightarrow> Err (so_error e x)
           | Panic \<Rightarrow> Panic))"

text \<open>A failed scan leaves the index empty; the counts go to the server when there is a file.\<close>

definition start_sharing :: "settings \<Rightarrow> surroundings \<Rightarrow> sharing_service option" where
  "start_sharing st e =
     (case scan (chars (so_queue e)) (zlib (so_queue e)) (fs (so_queue e))
             (sharing_new (se_storage st) (sharing_enabled (se_upload st))) of
        (Panic, sh) \<Rightarrow> None
      | (_, sh) \<Rightarrow> Some sh)"

definition start_uploads :: "settings \<Rightarrow> surroundings \<Rightarrow> upload_service" where
  "start_uploads st e = set_slsk_client (upload_new (so_now e) (se_upload st))"

definition report_counts :: "sharing_service \<Rightarrow> router \<Rightarrow> router" where
  "report_counts sh r =
     (case counts (sh_index sh) of (folders, files) \<Rightarrow>
        if 0 < files then snd (send_to_server 35 (put_u32_le folders @ put_u32_le files) r) else r)"

definition start_oauth_service :: "settings \<Rightarrow> surroundings \<Rightarrow> oauth_service option" where
  "start_oauth_service st e =
     (if se_spotify st then so_oauth e (se_jwt_secret st) (se_redirect_base st) else None)"

text \<open>The recovery: its errors are logged, a panic ends the program.\<close>

definition recover :: "queue_service \<Rightarrow> (unit, rstring) outcome \<times> queue_service" where
  "recover = qseq (qlog recover_on_startup) recalculate_downloading_lists"

definition with_known_users :: "accounts \<Rightarrow> database \<Rightarrow> database" where
  "with_known_users a d = d\<lparr>db_users := map (\<lambda>u. (us_id u, us_username u)) (ac_users a)\<rparr>"

definition start_services ::
  "settings \<Rightarrow> surroundings \<Rightarrow> client \<Rightarrow> sharing_service \<Rightarrow> database \<Rightarrow> (running, rstring) outcome \<times> database" where
  "start_services st e cl sh d =
     (let up = start_uploads st e in
      case recover (queue_new d sh) of
        (Ok _, s) \<Rightarrow>
          (Ok \<lparr>ru_client = set_upload_service up (set_sharing_service sh cl),
               ru_router = report_counts sh router_new, ru_uploads = up, ru_system = system_start s,
               ru_oauth = start_oauth_service st e\<rparr>, qs_db s)
      | (Err t, s) \<Rightarrow> (Err t, qs_db s)
      | (Panic, s) \<Rightarrow> (Panic, qs_db s))"

definition start_up ::
  "settings \<Rightarrow> surroundings \<Rightarrow> accounts \<Rightarrow> database \<Rightarrow> (running, rstring) outcome \<times> accounts \<times> database" where
  "start_up st e a d =
     (case so_directories e of
        Err t \<Rightarrow> (Err t, a, d)
      | Panic \<Rightarrow> (Panic, a, d)
      | Ok _ \<Rightarrow>
          (case ensure_admin e a of
             (Err t, a) \<Rightarrow> (Err t, a, with_known_users a d)
           | (Panic, a) \<Rightarrow> (Panic, a, with_known_users a d)
           | (Ok _, a) \<Rightarrow>
               (let d = with_known_users a d in
                case connect_client st e of
                  Err t \<Rightarrow> (Err t, a, d)
                | Panic \<Rightarrow> (Panic, a, d)
                | Ok cl \<Rightarrow>
                    (case start_sharing st e of
                       None \<Rightarrow> (Panic, a, d)
                     | Some sh \<Rightarrow>
                         (case start_services st e cl sh d of
                            (Ok r, d) \<Rightarrow> (obind (so_listener e) (\<lambda>_. Ok r), a, d)
                          | (Err t, d) \<Rightarrow> (Err t, a, d)
                          | (Panic, d) \<Rightarrow> (Panic, a, d))))))"

section \<open>The background tasks\<close>

text \<open>Every thirty seconds: the average speed, cut to 32 bits; nothing when it is zero.\<close>

definition report_speed :: "nat \<Rightarrow> upload_service \<Rightarrow> router \<Rightarrow> router" where
  "report_speed now up r =
     (let speed = avg_speed now (samples up) in
      if 0 < speed then snd (send_to_server 121 (put_u32_le (ucast speed)) r) else r)"

datatype chat_input = Chat chat_message | Chat_Lagged nat | Chat_Closed

fun forward_chat :: "chat_input list \<Rightarrow> server_event list" where
  "forward_chat [] = []"
| "forward_chat (Chat m # ins) = Chat_Event m # forward_chat ins"
| "forward_chat (Chat_Lagged n # ins) = forward_chat ins"
| "forward_chat (Chat_Closed # ins) = []"

end
