(* ===== verification/Verification_Mail.thy ===== *)
theory Verification_Mail
  imports Start_Up Account_Properties
begin

text \<open>
  The message that carries the token of a new account (\<open>src/src/services/email.rs\<close>): its text, its addresses and
  the transport it is handed to. Parsing an address, building the message, setting up the transport and the
  delivery are arguments, which come from the mail library.
\<close>

section \<open>The texts\<close>

definition verification_link :: "smtp_settings \<Rightarrow> rstring \<Rightarrow> rstring" where
  "verification_link s tok = sm_app_url s @ str ''/verify-email?token='' @ tok"

definition text_lines :: "rstring list \<Rightarrow> rstring" where
  "text_lines = join_str [10]"

definition html_head :: "rstring list" where
  "html_head =
     [str ''<!DOCTYPE html>'',
      str ''<html>'',
      str ''<head>'',
      str ''    <meta charset='' @ [34] @ str ''utf-8'' @ [34] @ str ''>'',
      str ''    <meta name='' @ [34] @ str ''viewport'' @ [34] @ str '' content='' @ [34] @ str ''width=device-width, initial-scale=1.0'' @ [34] @ str ''>'',
      str ''    <style>'',
      str ''        body {'',
      str ''            font-family: 'Courier New', Consolas, monospace;'',
      str ''            background-color: #0a0a0a;'',
      str ''            color: #e0e0e0;'',
      str ''            margin: 0;'',
      str ''            padding: 20px;'',
      str ''        }'',
      str ''        .container {'',
      str ''            max-width: 600px;'',
      str ''            margin: 0 auto;'',
      str ''            background-color: #111111;'',
      str ''            border: 1px solid #00ff00;'',
      str ''            padding: 40px;'',
      str ''        }'',
      str ''        .logo {'',
      str ''            font-size: 64px;'',
      str ''            text-align: center;'',
      str ''            color: #00ff00;'',
      str ''            font-weight: bold;'',
      str ''            margin-bottom: 20px;'',
      str ''            text-shadow: 0 0 10px rgba(0, 255, 0, 0.5);'',
      str ''        }'',
      str ''        h1 {'',
      str ''            color: #00ff00;'',
      str ''            font-size: 24px;'',
      str ''            margin-bottom: 20px;'',
      str ''            text-align: center;'',
      str ''        }'',
      str ''        p {'',
      str ''            line-height: 1.6;'',
      str ''            margin-bottom: 16px;'',
      str ''            color: #b0b0b0;'',
      str ''        }'',
      str ''        .button-container {'',
      str ''            text-align: center;'',
      str ''            margin: 32px 0;'',
      str ''        }'',
      str ''        .button {'',
      str ''            display: inline-block;'',
      str ''            padding: 14px 32px;'',
      str ''            background-color: #00ff00;'',
      str ''            color: #0a0a0a;'',
      str ''            text-decoration: none;'',
      str ''            font-weight: bold;'',
      str ''            font-family: 'Courier New', monospace;'',
      str ''            font-size: 14px;'',
      str ''            letter-spacing: 1px;'',
      str ''        }'',
      str ''        .button:hover {'',
      str ''            background-color: #00cc00;'',
      str ''        }'',
      str ''        .link-fallback {'',
      str ''            background-color: #1a1a1a;'',
      str ''            padding: 12px;'',
      str ''            margin: 20px 0;'',
      str ''            word-break: break-all;'',
      str ''            font-size: 12px;'',
      str ''            color: #00ff00;'',
      str ''            border: 1px solid #333;'',
      str ''        }'',
      str ''        .footer {'',
      str ''            margin-top: 40px;'',
      str ''            padding-top: 20px;'',
      str ''            border-top: 1px solid #333;'',
      str ''            font-size: 12px;'',
      str ''            color: #666;'',
      str ''            text-align: center;'',
      str ''        }'',
      str ''        .expire-notice {'',
      str ''            color: #ffaa00;'',
      str ''            font-size: 13px;'',
      str ''        }'',
      str ''    </style>'',
      str ''</head>'']"

definition html_content :: "rstring \<Rightarrow> rstring \<Rightarrow> rstring list" where
  "html_content username link =
     [str ''<body>'',
      str ''    <div class='' @ [34] @ str ''container'' @ [34] @ str ''>'',
      str ''        <div class='' @ [34] @ str ''logo'' @ [34] @ str ''>R</div>'',
      str ''        <h1>Verify Your Email</h1>'',
      str ''        <p>Hello <strong style='' @ [34] @ str ''color: #00ff00;'' @ [34] @ str ''>'' @ username @ str ''</strong>,</p>'',
      str ''        <p>Welcome to Rinse! To complete your registration and start using the application, please verify your email address by clicking the button below:</p>'',
      str ''        <div class='' @ [34] @ str ''button-container'' @ [34] @ str ''>'',
      str ''            <a href='' @ [34] @ link @ [34] @ str '' class='' @ [34] @ str ''button'' @ [34] @ str ''>VERIFY EMAIL</a>'',
      str ''        </div>'',
      str ''        <p>Or copy and paste this link into your browser:</p>'',
      str ''        <div class='' @ [34] @ str ''link-fallback'' @ [34] @ str ''>'' @ link @ str ''</div>'',
      str ''        <p class='' @ [34] @ str ''expire-notice'' @ [34] @ str ''>This verification link will expire in 24 hours.</p>'',
      str ''        <div class='' @ [34] @ str ''footer'' @ [34] @ str ''>'',
      str ''            <p>If you didn't create an account on Rinse, you can safely ignore this email.</p>'',
      str ''            <p style='' @ [34] @ str ''margin-top: 10px; color: #444;'' @ [34] @ str ''>Rinse - Soulseek Download Manager</p>'',
      str ''        </div>'',
      str ''    </div>'',
      str ''</body>'',
      str ''</html>'']"

definition html_body :: "rstring \<Rightarrow> rstring \<Rightarrow> rstring" where
  "html_body username link = text_lines (html_head @ html_content username link)"

definition plain_body :: "rstring \<Rightarrow> rstring \<Rightarrow> rstring" where
  "plain_body username link =
     text_lines [str ''Hello '' @ username @ str '','',
      [],
      str ''Welcome to Rinse! To complete your registration, please verify your email address by visiting this link:'',
      [],
      link,
      [],
      str ''This link will expire in 24 hours.'',
      [],
      str ''If you didn't create an account on Rinse, you can safely ignore this email.'',
      [],
      str ''--'',
      str ''Rinse - Soulseek Download Manager'']"

section \<open>Sending\<close>

record mail =
  ml_from :: rstring
  ml_to :: rstring
  ml_subject :: rstring
  ml_plain :: rstring
  ml_html :: rstring

datatype transport = Implicit_TLS | Start_TLS

record mail_library =
  mb_mailbox :: "rstring \<Rightarrow> rstring option"
  mb_builds :: "mail \<Rightarrow> bool"
  mb_tls :: "rstring \<Rightarrow> bool"
  mb_relay :: "rstring \<Rightarrow> bool"
  mb_deliver :: "transport \<Rightarrow> rstring \<Rightarrow> u16 \<Rightarrow> rstring \<times> rstring \<Rightarrow> mail \<Rightarrow> (unit, rstring) outcome"

text \<open>The message, or the error of the first address that cannot be parsed. An address is kept as its parsed form.\<close>

definition verification_mail ::
  "mail_library \<Rightarrow> smtp_settings \<Rightarrow> rstring \<Rightarrow> rstring \<Rightarrow> rstring \<Rightarrow> (mail, rstring) outcome" where
  "verification_mail B s to_email username tok =
     (let link = verification_link s tok in
      case mb_mailbox B (sm_from_name s @ str '' <'' @ sm_from_email s @ str ''>'') of
        None \<Rightarrow> Err (str ''Invalid from email address'')
      | Some sender \<Rightarrow>
          (case mb_mailbox B to_email of
             None \<Rightarrow> Err (str ''Invalid recipient email address'')
           | Some recipient \<Rightarrow>
               (let m = \<lparr>ml_from = sender, ml_to = recipient, ml_subject = str ''Verify your Rinse account'',
                      ml_plain = plain_body username link, ml_html = html_body username link\<rparr>
                in if mb_builds B m then Ok m else Err (str ''Failed to build email message''))))"

definition mail_transport :: "mail_library \<Rightarrow> smtp_settings \<Rightarrow> (transport, rstring) outcome" where
  "mail_transport B s =
     (if sm_port s = 465 then
        if \<not> mb_tls B (sm_host s) then Err (str ''Failed to create TLS parameters'')
        else if \<not> mb_relay B (sm_host s) then Err (str ''Failed to create SMTP transport'')
        else Ok Implicit_TLS
      else if \<not> mb_relay B (sm_host s) then Err (str ''Failed to create SMTP transport'')
      else Ok Start_TLS)"

definition send_verification_email ::
  "mail_library \<Rightarrow> smtp_settings \<Rightarrow> rstring \<Rightarrow> rstring \<Rightarrow> rstring \<Rightarrow> (unit, rstring) outcome" where
  "send_verification_email B s to_email username tok =
     obind (verification_mail B s to_email username tok) (\<lambda>m.
     obind (mail_transport B s) (\<lambda>transport.
       case mb_deliver B transport (sm_host s) (sm_port s) (sm_username s, sm_password s) m of
         Ok _ \<Rightarrow> Ok ()
       | Err e \<Rightarrow> Err (str ''Failed to send email: '' @ e)
       | Panic \<Rightarrow> Panic))"

text \<open>What \<open>register\<close> and \<open>resend_verification\<close> are told of it.\<close>

definition mail_answer ::
  "mail_library \<Rightarrow> smtp_settings option \<Rightarrow> rstring \<Rightarrow> rstring \<Rightarrow> rstring \<Rightarrow> bool option" where
  "mail_answer B service to_email username tok =
     map_option (\<lambda>s. is_ok (send_verification_email B s to_email username tok)) service"

section \<open>Properties\<close>

lemma sublist_joined: "x \<in> set xs \<Longrightarrow> sublist x (join_str sep xs)"
proof (induction sep xs rule: join_str.induct)
  case (3 sep y z zs)
  show ?case
  proof (cases "x = y")
    case False
    with 3 have "sublist x (join_str sep (z # zs))" by auto
    then obtain ps ss where "join_str sep (z # zs) = ps @ x @ ss" by (auto simp: sublist_def)
    then have "join_str sep (y # z # zs) = (y @ sep @ ps) @ x @ ss" by simp
    then show ?thesis by (simp only: sublist_appendI)
  qed (auto simp: sublist_def)
qed simp_all

text \<open>A line of the message is in the message, whatever it contains.\<close>

lemma in_html:
  assumes "x \<in> set (html_content username link)"
  shows "sublist x (html_body username link)"
  unfolding html_body_def text_lines_def by (rule sublist_joined) (use assms in simp)

lemma link_in_html: "sublist link (html_body username link)"
proof -
  have "str ''        <div class='' @ [34] @ str ''link-fallback'' @ [34] @ str ''>'' @ link @ str ''</div>''
      \<in> set (html_content username link)" by (simp add: html_content_def)
  from in_html [OF this] show ?thesis
    by (rule sublist_order.order.trans [rotated]) (metis append.assoc sublist_appendI)
qed

lemma link_in_plain: "sublist link (plain_body username link)"
  unfolding plain_body_def text_lines_def by (rule sublist_joined) simp

text \<open>The name of the user is put into the page as it is: a name such as \<open><b>x</b>\<close> becomes part of it.\<close>

lemma name_unescaped: "sublist username (html_body username link)"
proof -
  have "str ''        <p>Hello <strong style='' @ [34] @ str ''color: #00ff00;'' @ [34] @ str ''>'' @ username
      @ str ''</strong>,</p>'' \<in> set (html_content username link)" by (simp add: html_content_def)
  from in_html [OF this] show ?thesis
    by (rule sublist_order.order.trans [rotated]) (metis append.assoc sublist_appendI)
qed

text \<open>C25: A registration that succeeds has delivered one message to the address given, and the link in its text and in
  its page is the way in: within a day its token confirms the address, after which the password logs in; after that
  it is refused. (For a token nobody has and an address nobody took as a name.)\<close>

theorem mailed_link_verifies:
  assumes "account_reachable a"
    and "register (Some h) tok (mail_answer B (Some s) email username tok) username email password a = (Ok m, a1)"
    and "list_all (\<lambda>u. us_verification_token u \<noteq> Some tok \<and> us_username u \<noteq> email) (ac_users a)"
    and "check h password = Some True" and "a2 = a1\<lparr>ac_clock := t\<rparr>" and "a3 = snd (verify_email tok a2)"
  shows "\<exists>msg transport. verification_mail B s email username tok = Ok msg \<and> mail_transport B s = Ok transport
    \<and> mb_deliver B transport (sm_host s) (sm_port s) (sm_username s, sm_password s) msg = Ok ()
    \<and> mb_mailbox B email = Some (ml_to msg)
    \<and> sublist (verification_link s tok) (ml_plain msg) \<and> sublist (verification_link s tok) (ml_html msg)
    \<and> (if t \<le> ac_clock a + day
       then is_ok (fst (verify_email tok a2)) \<and> is_ok (login_user check sign email password a3)
       else \<not> is_ok (fst (verify_email tok a2)))"
proof -
  have sent: "mail_answer B (Some s) email username tok = Some True"
  proof (rule ccontr)
    assume "mail_answer B (Some s) email username tok \<noteq> Some True"
    then have "mail_answer B (Some s) email username tok = Some False" by (simp add: mail_answer_def)
    with assms(2) show False
      by (auto simp: register_def Let_def split: if_splits outcome.splits prod.splits)
  qed
  then obtain msg transport where d: "verification_mail B s email username tok = Ok msg" "mail_transport B s = Ok transport"
      "mb_deliver B transport (sm_host s) (sm_port s) (sm_username s, sm_password s) msg = Ok ()"
    by (cases "verification_mail B s email username tok"; cases "mail_transport B s")
      (auto simp: mail_answer_def send_verification_email_def split: outcome.splits)
  from d(1) have "mb_mailbox B email = Some (ml_to msg)" "ml_plain msg = plain_body username (verification_link s tok)"
      "ml_html msg = html_body username (verification_link s tok)"
    by (auto simp: verification_mail_def Let_def split: option.splits if_splits)
  moreover have "if t \<le> ac_clock a + day
       then is_ok (fst (verify_email tok a2)) \<and> is_ok (login_user check sign email password a3)
       else \<not> is_ok (fst (verify_email tok a2))"
    using verification_life [where check = check and h = h and password = password and sign = sign,
        OF assms(1) assms(2) [unfolded sent] assms(3-6)] by auto
  ultimately show ?thesis using d by (auto simp: link_in_plain link_in_html)
qed

definition sample_mail_library :: mail_library where
  "sample_mail_library =
     \<lparr>mb_mailbox = Some, mb_builds = (\<lambda>_. True), mb_tls = (\<lambda>_. True), mb_relay = (\<lambda>_. True),
      mb_deliver = (\<lambda>_ _ _ _ _. Ok ())\<rparr>"

definition sample_smtp :: smtp_settings where
  "sample_smtp =
     \<lparr>sm_host = [], sm_port = 587, sm_username = [], sm_password = [], sm_from_email = [], sm_from_name = [],
      sm_app_url = str ''http://x''\<rparr>"

lemma sample_sent: "mail_answer sample_mail_library (Some sample_smtp) email username tok = Some True"
  by (simp add: mail_answer_def send_verification_email_def verification_mail_def mail_transport_def
      sample_mail_library_def sample_smtp_def Let_def)

theorem mailed_link_verifies_witness:
  "\<exists>msg. verification_mail sample_mail_library sample_smtp (str ''b@x.y'') (str ''bob'') (str ''t'') = Ok msg
     \<and> sublist (str ''http://x/verify-email?token=t'') (ml_plain msg)"
proof -
  let ?a = "seed_admin [] accounts_empty"
  obtain r a1 where r: "register (Some []) (str ''t'') (mail_answer sample_mail_library (Some sample_smtp) (str ''b@x.y'')
      (str ''bob'') (str ''t'')) (str ''bob'') (str ''b@x.y'') (str ''password'') ?a = (r, a1)" by fastforce
  have a: "ac_users ?a = [sample_user]"
    by (simp add: seed_admin_def create_user_verified_def insert_user_def user_conflict_def accounts_empty_def
        get_user_by_username_def find_user_def sample_user_def Let_def)
  have "\<exists>m. r = Ok m"
    using r by (auto simp: sample_sent register_def str_def utf8_char_def create_user_def insert_user_def user_conflict_def a
        sample_user_def Let_def)
  then obtain m where m: "r = Ok m" by blast
  have "list_all (\<lambda>u. us_verification_token u \<noteq> Some (str ''t'') \<and> us_username u \<noteq> str ''b@x.y'') (ac_users ?a)"
    by (simp add: a sample_user_def str_def)
  from mailed_link_verifies [OF account_reachable.First_Start r [unfolded m] this, of "\<lambda>_ _. Some True" a1 "ac_clock a1" _ id,
      OF refl _ refl]
  show ?thesis by (auto simp: verification_link_def sample_smtp_def str_def)
qed

end
