(* ===== verification/Metadata_Properties.thy ===== *)
theory Metadata_Properties
  imports Metadata_Service "HOL-Library.Multiset"
begin

text \<open>
  The properties of the metadata: which result of a search is taken, what a lookup keeps from which service,
  how often an item can be refreshed and what that costs, the spacing of the calls to MusicBrainz, and the
  scan of the library.
\<close>

section \<open>The best match\<close>

lemma best_from_correct:
  assumes "best_from f i (b, k) xs = (b', k')"
  shows "(b' = b \<and> k' = k \<and> (\<forall>j<length xs. f (xs ! j) \<le> b))
    \<or> (\<exists>j<length xs. k' = i + j \<and> b' = f (xs ! j) \<and> b < b' \<and> (\<forall>l<length xs. f (xs ! l) \<le> b')
        \<and> (\<forall>l<j. f (xs ! l) < b'))"
  using assms
proof (induction xs arbitrary: i b k)
  case (Cons x xs)
  let ?c = "if b < f x then (f x, i) else (b, k)"
  have r: "best_from f (i + 1) (fst ?c, snd ?c) xs = (b', k')" using Cons.prems by simp
  consider (old) "b' = fst ?c" "k' = snd ?c" "\<forall>j<length xs. f (xs ! j) \<le> fst ?c"
    | (new) j where "j < length xs" "k' = i + 1 + j" "b' = f (xs ! j)" "fst ?c < b'"
        "\<forall>l<length xs. f (xs ! l) \<le> b'" "\<forall>l<j. f (xs ! l) < b'"
    using Cons.IH [OF r] by blast
  then show ?case
  proof cases
    case old
    show ?thesis
    proof (cases "b < f x")
      case True
      with old have "k' = i + 0 \<and> b' = f ((x # xs) ! 0) \<and> b < b' \<and> (\<forall>l<length (x # xs). f ((x # xs) ! l) \<le> b')"
        by (auto simp: less_Suc_eq_0_disj)
      then show ?thesis by (intro disjI2 exI [of _ 0]) auto
    next
      case False
      with old show ?thesis by (auto simp: less_Suc_eq_0_disj)
    qed
  next
    case new
    then have "k' = i + Suc j \<and> b' = f ((x # xs) ! Suc j) \<and> b < b' \<and> f x \<le> fst ?c" by (auto split: if_splits)
    with new show ?thesis
      by (intro disjI2 exI [of _ "Suc j"]) (auto simp: less_Suc_eq_0_disj)
  qed
qed simp

text \<open>What a client takes from a list of results, whatever its score and threshold.\<close>

locale best_choice =
  fixes score :: "'a \<Rightarrow> int" and threshold :: int
  assumes representable: "- (2 ^ 31) < threshold"
begin

lemma chosen:
  "case select_best threshold score xs of
     None \<Rightarrow> \<forall>x\<in>set xs. score x < threshold
   | Some x \<Rightarrow> threshold \<le> score x \<and> (\<exists>i<length xs. xs ! i = x \<and> (\<forall>j<length xs. score (xs ! j) \<le> score x)
       \<and> (\<forall>j<i. score (xs ! j) < score x))"
proof -
  obtain b k where b: "best_from score 0 (- (2 ^ 31), 0) xs = (b, k)" by fastforce
  from best_from_correct [OF b] show ?thesis
  proof
    assume a: "b = - (2 ^ 31) \<and> k = 0 \<and> (\<forall>j<length xs. score (xs ! j) \<le> - (2 ^ 31))"
    then have "\<forall>x\<in>set xs. score x < threshold"
      using representable by (metis in_set_conv_nth le_less_trans)
    then show ?thesis using a b representable by (simp add: select_best_def)
  next
    assume "\<exists>j<length xs. k = 0 + j \<and> b = score (xs ! j) \<and> - (2 ^ 31) < b \<and> (\<forall>l<length xs. score (xs ! l) \<le> b)
        \<and> (\<forall>l<j. score (xs ! l) < b)"
    then show ?thesis using b
      by (cases "b < threshold") (fastforce simp: select_best_def in_set_conv_nth)+
  qed
qed

end

definition recording_score :: "unicode \<Rightarrow> rstring \<Rightarrow> recording \<Rightarrow> int" where
  "recording_score u query r = mb_score u query (first_artist r) (case rc_title r of Some t \<Rightarrow> t | None \<Rightarrow> [])"

interpretation musicbrainz: best_choice "recording_score u query" 20 for u query
  by unfold_locales simp

interpretation discogs: best_choice "discogs_score u query" 15 for u query
  by unfold_locales simp

text \<open>The result a client takes from a search: none exactly if every result scores below the client's
  threshold, 20 for MusicBrainz and 15 for Discogs; otherwise the one with the highest score, and the first
  such.\<close>

lemma best_match_selected:
  "(case select_recording u query rs of
      None \<Rightarrow> list_all (\<lambda>r. recording_score u query r < 20) rs
    | Some r \<Rightarrow> 20 \<le> recording_score u query r
        \<and> (\<exists>i. i < length rs \<and> rs ! i = r \<and> list_all (\<lambda>x. recording_score u query x \<le> recording_score u query r) rs
            \<and> list_all (\<lambda>x. recording_score u query x < recording_score u query r) (take i rs)))
   \<and> (case select_result u query ds of
        None \<Rightarrow> list_all (\<lambda>d. discogs_score u query d < 15) ds
      | Some d \<Rightarrow> 15 \<le> discogs_score u query d
          \<and> (\<exists>i. i < length ds \<and> ds ! i = d \<and> list_all (\<lambda>x. discogs_score u query x \<le> discogs_score u query d) ds
              \<and> list_all (\<lambda>x. discogs_score u query x < discogs_score u query d) (take i ds)))"
proof -
  have r: "select_recording u query = select_best 20 (recording_score u query)"
    by (simp add: fun_eq_iff select_recording_def recording_score_def [abs_def])
  have nth: "list_all P xs \<longleftrightarrow> (\<forall>j<length xs. P (xs ! j))" for P and xs :: "'b list"
    by (simp add: list_all_length)
  show ?thesis
    using musicbrainz.chosen [where u = u and query = query and xs = rs]
      discogs.chosen [where u = u and query = query and xs = ds]
    by (auto simp: r select_result_def nth list_all_iff [symmetric] split: option.splits)
qed

lemma split_words_append:
  "P c \<Longrightarrow> split_words P acc (s @ c # t) = split_words P acc s @ split_words P [] t"
  by (induction s arbitrary: acc) auto

lemma words_of_append: "whitespace u 32 \<Longrightarrow> words_of u (a @ [32] @ t) = words_of u a @ words_of u t"
  using split_words_append [of "separator u" 32 "[]" a t] by (simp add: words_of_def separator_def)

lemma split_words_sublist: "w \<in> set (split_words P acc s) \<Longrightarrow> sublist w (acc @ s)"
proof (induction P acc s rule: split_words.induct)
  case (2 P acc c s)
  have "sublist w s \<Longrightarrow> sublist w (acc @ c # s)" 
    by (auto simp: sublist_def) (metis append.assoc append_Cons)
  with 2 show ?case by (auto split: if_splits)
qed (auto split: if_splits)

lemma word_in_text: "w \<in> set (words_of u t) \<Longrightarrow> contains t w"
  using split_words_sublist [of w "separator u" "[]" t] by (simp add: words_of_def contains_def)

lemma score_of_exact_title:
  assumes "whitespace u 32" and "lowercase u title = lowercase u query"
    and "\<not> list_ex (contains (lowercase u artist)) (long_words u 1 mb_stop_words (lowercase u query))"
  shows "15 * int (length (long_words u 1 mb_stop_words (lowercase u query)))
      - 2 * int (length (long_words u 2 mb_stop_words (lowercase u artist)))
    \<le> mb_score u query artist title"
proof -
  let ?q = "lowercase u query" and ?a = "lowercase u artist"
  let ?qs = "long_words u 1 mb_stop_words ?q"
  let ?unknown = "\<lambda>w. \<not> list_ex (\<lambda>q. contains w q \<or> contains q w) ?qs"
  have points: "word_points u ?a w + word_points u ?q w = 15" if "w \<in> set ?qs" for w
    using that assms(3) word_in_text [of w u ?q]
    by (auto simp: word_points_def list_ex_iff long_words_def)
  then have m: "map (\<lambda>w. word_points u ?a w + word_points u ?q w) ?qs = map (\<lambda>_. 15) ?qs" by simp
  have sum: "sum_list (map (\<lambda>w. word_points u ?a w + word_points u ?q w) ?qs) = 15 * int (length ?qs)"
    unfolding m by (simp add: sum_list_triv)
  have "\<not> ?unknown w" if "w \<in> set (long_words u 2 mb_stop_words ?q)" for w
    using that by (force simp: list_ex_iff long_words_def contains_def)
  then have "filter ?unknown (long_words u 2 mb_stop_words ?q) = []" by (simp add: filter_empty_conv)
  moreover have "long_words u 2 mb_stop_words (?a @ [32] @ ?q) =
      long_words u 2 mb_stop_words ?a @ long_words u 2 mb_stop_words ?q"
    by (simp only: long_words_def words_of_append [OF assms(1)] filter_append)
  ultimately have "length (filter ?unknown (long_words u 2 mb_stop_words (?a @ [32] @ ?q)))
      \<le> length (long_words u 2 mb_stop_words ?a)"
    by (simp del: append.simps)
  then show ?thesis using assms(3)
    by (simp only: mb_score_def Let_def assms(2) sum) simp
qed

text \<open>The check of the artist can be outweighed. It is documented that at least one word of the query must
  match the name of the artist; but a result whose title is the whole query is accepted with no word of the
  query in the artist's name, as soon as the query has two counted words more than one for every seven
  counted words of that name.\<close>

lemma exact_title_beats_artist:
  assumes "whitespace u 32" and "lowercase u title = lowercase u query"
    and "\<not> list_ex (contains (lowercase u artist)) (long_words u 1 mb_stop_words (lowercase u query))"
    and "20 + 2 * length (long_words u 2 mb_stop_words (lowercase u artist))
      \<le> 15 * length (long_words u 1 mb_stop_words (lowercase u query))"
    and "rc_artist_credit r = Some [artist]" and "rc_title r = Some title"
  shows "search_recording u query (Json (Some [r])) = recording_to_metadata r"
proof -
  have "20 \<le> mb_score u query artist title"
    using score_of_exact_title [OF assms(1-3)] assms(4) by linarith
  then have "select_recording u query [r] = Some r"
    by (simp add: select_recording_def select_best_def first_artist_def assms(5,6))
  then show ?thesis by (simp add: search_recording_def)
qed

definition sample_recording :: recording where
  "sample_recording = \<lparr>rc_id = [49], rc_title = Some [98, 108, 117, 101, 32, 115, 107, 121],
     rc_artist_credit = Some [[102, 111]], rc_first_release_date = None, rc_releases = None, rc_tags = None\<rparr>"

lemma exact_title_beats_artist_witness:
  "search_recording ascii_tables [66, 108, 117, 101, 32, 83, 107, 121] (Json (Some [sample_recording]))
    = recording_to_metadata sample_recording"
proof (rule exact_title_beats_artist)
  show "\<not> list_ex (contains (lowercase ascii_tables [102, 111]))
      (long_words ascii_tables 1 mb_stop_words (lowercase ascii_tables [66, 108, 117, 101, 32, 83, 107, 121]))"
    by (auto simp: long_words_def words_of_def separator_def ascii_tables_def ascii_lower_def contains_def
        list_ex_iff as_bytes_def utf8_char_def mb_stop_words_def str_def dest!: sublist_length_le)
qed (simp_all add: sample_recording_def ascii_tables_def ascii_lower_def long_words_def words_of_def separator_def
    mb_stop_words_def as_bytes_def utf8_char_def str_def)

section \<open>Names and times of Discogs\<close>

lemma as_i64_id: "0 \<le> n \<Longrightarrow> n < 2 ^ 63 \<Longrightarrow> as_i64 n = n"
  by (simp add: as_i64_def)

lemma rsplit_not_in: "\<not> sublist needle s \<Longrightarrow> needle \<noteq> [] \<Longrightarrow> rsplit_once_str needle s = None"
  by (induction s) (auto simp: sublist_Cons_right split: option.splits)

lemma rsplit_last:
  "\<not> sublist needle (tl (needle @ s)) \<Longrightarrow> needle \<noteq> [] \<Longrightarrow> rsplit_once_str needle (a @ needle @ s) = Some (a, s)"
proof (induction a)
  case Nil
  then have "rsplit_once_str needle (tl (needle @ s)) = None" by (intro rsplit_not_in)
  with Nil show ?case by (cases needle) auto
qed simp

lemma trim_head: "trim u s = s \<Longrightarrow> s \<noteq> [] \<Longrightarrow> \<not> whitespace u (hd s)"
proof
  assume t: "trim u s = s" "s \<noteq> []" "whitespace u (hd s)"
  then obtain c r where s: "s = c # r" by (cases s) auto
  have "length (trim u s) \<le> length (dropWhile (whitespace u) s)"
    using length_dropWhile_le [of "whitespace u" "rev (dropWhile (whitespace u) s)"] by (simp add: trim_def)
  also have "\<dots> \<le> length r" using t s by (simp add: length_dropWhile_le)
  finally show False using t(1) s by simp
qed

lemma sublist_set: "sublist xs ys \<Longrightarrow> set xs \<subseteq> set ys"
  by (auto simp: sublist_def)

text \<open>What is printed is read back. A time printed as minutes and seconds, or as hours, minutes and
  seconds, is parsed to its milliseconds, as long as they fit in 64 bits; a name that Discogs made unique with
  a number in parentheses is cleaned to the name, and a name that ends otherwise is kept.\<close>

lemma discogs_reads_back:
  assumes "(h * 3600 + m * 60 + s) * 1000 < 2 ^ 63" and "trim u name = name" and "name \<noteq> []"
    and "\<not> whitespace u 41" and "last name \<noteq> 41"
  shows "parse_duration_to_ms (show_nat m @ [58] @ show_nat s) = Some ((int m * 60 + int s) * 1000)
    \<and> parse_duration_to_ms (show_nat h @ [58] @ show_nat m @ [58] @ show_nat s)
        = Some ((int h * 3600 + int m * 60 + int s) * 1000)
    \<and> clean_artist_name u (name @ [32, 40] @ show_nat n @ [41]) = name
    \<and> clean_artist_name u name = name"
proof -
  have b: "int h < 2 ^ 63" "int m < 2 ^ 63" "int s < 2 ^ 63" "(int m * 60 + int s) * 1000 < 2 ^ 63"
    "(int h * 3600 + int m * 60 + int s) * 1000 < 2 ^ 63"
    using assms(1) by simp_all
  have p: "parse_i64 (show_nat h) = Some (int h)" "parse_i64 (show_nat m) = Some (int m)"
    "parse_i64 (show_nat s) = Some (int s)"
    unfolding parse_i64_def using b by (auto intro!: parse_int_show)
  have "parse_duration_to_ms (show_nat m @ [58] @ show_nat s) = Some ((int m * 60 + int s) * 1000)"
    using b p by (simp add: parse_duration_to_ms_def split_on_append split_on_none colon_not_shown as_i64_id)
  moreover have "parse_duration_to_ms (show_nat h @ [58] @ show_nat m @ [58] @ show_nat s)
        = Some ((int h * 3600 + int m * 60 + int s) * 1000)"
    using b p by (simp add: parse_duration_to_ms_def split_on_append split_on_none colon_not_shown as_i64_id)
  moreover have "clean_artist_name u (name @ [32, 40] @ show_nat n @ [41]) = name"
  proof -
    have "dropWhile (whitespace u) (name @ x) = name @ x" for x
      using trim_head [OF assms(2,3)] assms(3) by (cases name) auto
    then have "trim u (name @ [32, 40] @ show_nat n @ [41]) = name @ [32, 40] @ show_nat n @ [41]"
      using assms(4) by (simp add: trim_def)
    moreover have "\<not> sublist [32, 40] (tl ([32, 40] @ show_nat n @ [41]))"
      using digit_show [of n] by (fastforce simp: list_all_iff digit_def dest!: sublist_set)
    ultimately show ?thesis
      using rsplit_last [of "[32, 40]" "show_nat n @ [41]" name] digit_show [of n]
      by (simp add: clean_artist_name_def Let_def)
  qed
  moreover have "clean_artist_name u name = name"
    using assms(2,3,5) by (auto simp: clean_artist_name_def Let_def split: option.splits)
  ultimately show ?thesis by blast
qed

lemma discogs_reads_back_witness:
  "parse_duration_to_ms (show_nat 5 @ [58] @ show_nat 23) = Some 323000
    \<and> clean_artist_name ascii_tables ([65, 66] @ [32, 40] @ show_nat 2 @ [41]) = [65, 66]"
  using discogs_reads_back [of 1 5 23 ascii_tables "[65, 66]" 2]
  by (simp add: ascii_tables_def trim_def)

section \<open>What a lookup takes from where\<close>

text \<open>The answers of the two catalogues, by names or by the query.\<close>

definition primary_answer ::
  "unicode \<Rightarrow> lookup_answers \<Rightarrow> rstring \<Rightarrow> (rstring \<times> rstring) option \<Rightarrow> (track_metadata, rstring) outcome" where
  "primary_answer u w query names =
     (case names of Some (a, t) \<Rightarrow> search_recording_precise a t (la_recordings w)
      | None \<Rightarrow> search_recording u query (la_recordings w))"

definition fallback_answer ::
  "unicode \<Rightarrow> lookup_answers \<Rightarrow> rstring \<Rightarrow> (rstring \<times> rstring) option \<Rightarrow> (track_metadata, rstring) outcome" where
  "fallback_answer u w query names =
     (case names of Some (a, t) \<Rightarrow> search_release_precise u a t (la_discogs w) (la_discogs_release w)
      | None \<Rightarrow> search_release u query (la_discogs w) (la_discogs_release w))"

definition found_by :: "(track_metadata, rstring) outcome \<Rightarrow> track_metadata" where
  "found_by r = (case r of Ok m \<Rightarrow> m | _ \<Rightarrow> no_metadata)"

definition of_musicbrainz :: "track_metadata \<Rightarrow> bool" where
  "of_musicbrainz m \<longleftrightarrow> tm_duration_ms m = None \<and> tm_bpm m = None \<and> tm_key m = None
    \<and> tm_track_number m = None \<and> tm_album_art_url m = None \<and> tm_musicbrainz_id m \<noteq> None
    \<and> tm_sources m = [str ''musicbrainz'']"

lemma recording_fields: "recording_to_metadata r = Ok m \<Longrightarrow> of_musicbrainz m"
  by (auto simp: recording_to_metadata_def obind_eq_Ok no_metadata_def of_musicbrainz_def)

lemma mb_error_not_Ok: "mb_error a \<noteq> Ok m"
  by (simp add: mb_error_def split: answer.splits)

lemma primary_fields: "primary_answer u w query names = Ok m \<Longrightarrow> of_musicbrainz m"
  by (auto simp: primary_answer_def search_recording_def search_recording_precise_def mb_error_not_Ok
      dest: recording_fields split: option.splits answer.splits if_splits list.splits)

text \<open>The cover of the archive for the release MusicBrainz names, asked for when MusicBrainz gave a track; it cannot
  fail the lookup.\<close>

lemma mbid_not_Panic: "get_release_mbid u query a \<noteq> Panic"
  by (simp add: get_release_mbid_def mb_error_def split: answer.splits option.splits list.splits)

definition archive_cover :: "unicode \<Rightarrow> lookup_answers \<Rightarrow> rstring \<Rightarrow> (track_metadata, rstring) outcome \<Rightarrow> rstring option" where
  "archive_cover u w query found =
     (case (found, get_release_mbid u query (la_release w)) of
        (Ok _, Ok (Some release_id)) \<Rightarrow>
          (case get_front_cover_url release_id (fst (la_cover w release_id)) (snd (la_cover w release_id)) of
             Ok url \<Rightarrow> Some url | _ \<Rightarrow> None)
      | _ \<Rightarrow> None)"

lemma cover_outcome:
  assumes "tm_album_art_url m = None" and "found = Ok x"
  shows "\<exists>src. cover_step u w query m = Ok (m\<lparr>tm_album_art_url := archive_cover u w query found, tm_sources := src\<rparr>)
    \<and> (src = tm_sources m \<or> src = add_source (str ''coverart'') (tm_sources m))"
proof -
  have m: "m = m\<lparr>tm_album_art_url := None, tm_sources := tm_sources m\<rparr>" using assms(1) by simp
  have "cover_step u w query m = Ok m \<and> archive_cover u w query found = None
      \<or> (\<exists>url. archive_cover u w query found = Some url \<and> cover_step u w query m =
        Ok (m\<lparr>tm_album_art_url := Some url, tm_sources := add_source (str ''coverart'') (tm_sources m)\<rparr>))"
    using mbid_not_Panic [of u query "la_release w"]
    by (auto simp: assms(2) cover_step_def archive_cover_def split: outcome.splits option.splits)
  then show ?thesis using m by metis
qed

lemma primary_outcome:
  "(primary_answer u w query names = Panic \<longrightarrow> primary_step u w query names m = Panic)
   \<and> (\<forall>e. primary_answer u w query names = Err e \<longrightarrow> primary_step u w query names m = Ok (False, m))
   \<and> (\<forall>found. primary_answer u w query names = Ok found \<longrightarrow> tm_album_art_url m = None \<longrightarrow>
       (\<exists>src. primary_step u w query names m = Ok (True, (merge found m)\<lparr>tm_album_art_url :=
            archive_cover u w query (primary_answer u w query names), tm_sources := src\<rparr>)
         \<and> (src = tm_sources (merge found m) \<or> src = add_source (str ''coverart'') (tm_sources (merge found m)))))"
proof (cases "primary_answer u w query names")
  case (Ok found)
  have f: "of_musicbrainz found" by (rule primary_fields [OF Ok])
  have "\<exists>src. primary_step u w query names m = Ok (True, (merge found m)\<lparr>tm_album_art_url :=
            archive_cover u w query (primary_answer u w query names), tm_sources := src\<rparr>)
         \<and> (src = tm_sources (merge found m) \<or> src = add_source (str ''coverart'') (tm_sources (merge found m)))"
    if "tm_album_art_url m = None"
  proof -
    have "tm_album_art_url (merge found m) = None"
      using f that by (simp add: merge_def of_musicbrainz_def overriding_def)
    from cover_outcome [OF this Ok] obtain src where c: "cover_step u w query (merge found m) =
        Ok ((merge found m)\<lparr>tm_album_art_url := archive_cover u w query (primary_answer u w query names), tm_sources := src\<rparr>)"
      "src = tm_sources (merge found m) \<or> src = add_source (str ''coverart'') (tm_sources (merge found m))" by blast
    have "tm_musicbrainz_id found \<noteq> None" using f by (simp add: of_musicbrainz_def)
    then have "primary_step u w query names m = Ok (True, (merge found m)\<lparr>tm_album_art_url :=
        archive_cover u w query (primary_answer u w query names), tm_sources := src\<rparr>)"
      using Ok c(1) by (simp add: primary_step_def primary_answer_def)
    with c(2) show ?thesis by blast
  qed
  with Ok show ?thesis by auto
qed (auto simp: primary_step_def primary_answer_def)

text \<open>The tempo service, asked when a key is configured.\<close>

definition tempo_answer :: "rstring option \<Rightarrow> lookup_answers \<Rightarrow> rstring \<Rightarrow> (bpm_key, rstring) outcome" where
  "tempo_answer api_key w query = search_bpm api_key query (la_songs w) (la_song w)"

lemma bpm_outcome:
  assumes "tm_bpm m = None" and "tm_key m = None"
  shows "\<exists>src. bpm_step api_key w query m = m\<lparr>tm_bpm := (case tempo_answer api_key w query of Ok b \<Rightarrow> bk_bpm b | _ \<Rightarrow> None),
      tm_key := (case tempo_answer api_key w query of Ok b \<Rightarrow> bk_key b | _ \<Rightarrow> None), tm_sources := src\<rparr>
    \<and> (src = tm_sources m \<or> src = add_source (str ''getsongbpm'') (tm_sources m))"
proof -
  have m: "m\<lparr>tm_bpm := None, tm_key := None, tm_sources := tm_sources m\<rparr> = m" using assms by simp
  show ?thesis
  proof (cases "tempo_answer api_key w query")
    case (Ok b)
    then have "api_key \<noteq> None" by (cases api_key) (simp_all add: tempo_answer_def search_bpm_def)
    with Ok assms show ?thesis by (auto simp: bpm_step_def tempo_answer_def fill_def)
  next
    case (Err e)
    then have "bpm_step api_key w query m = m" by (simp add: bpm_step_def tempo_answer_def)
    with Err m show ?thesis by (intro exI [of _ "tm_sources m"]) simp
  next
    case Panic
    then have "bpm_step api_key w query m = m" by (simp add: bpm_step_def tempo_answer_def)
    with Panic m show ?thesis by (intro exI [of _ "tm_sources m"]) simp
  qed
qed

lemma discogs_outcome:
  "discogs_step u w query names got m =
    (if \<not> got \<or> tm_artist m = None then
       (case fallback_answer u w query names of Ok d \<Rightarrow> fill_from_discogs d m | _ \<Rightarrow> m) else m)"
  by (simp add: discogs_step_def fallback_answer_def)

definition known_sources :: "rstring list" where
  "known_sources = map str [''local'', ''musicbrainz'', ''coverart'', ''discogs'', ''getsongbpm'']"

definition sources_ok :: "rstring list \<Rightarrow> bool" where
  "sources_ok ss \<longleftrightarrow> distinct ss \<and> set ss \<subseteq> set known_sources"

lemma sources_ok_add: "sources_ok ss \<Longrightarrow> s \<in> set known_sources \<Longrightarrow> sources_ok (add_source s ss)"
  by (auto simp: sources_ok_def add_source_def)

lemma set_columns_other [simp]:
  "md_db (set_columns i f s) = md_db s" "md_limits (set_columns i f s) = md_limits s"
  "md_events (set_columns i f s) = md_events s" "md_job_running (set_columns i f s) = md_job_running s"
  "md_job_total (set_columns i f s) = md_job_total s" "md_lookups (set_columns i f s) = md_lookups s"
  "md_tag_writes (set_columns i f s) = md_tag_writes s" "present j (set_columns i f s) = present j s"
  "md_columns (set_columns i f s) = (if present i s then (md_columns s)(i := f (md_columns s i)) else md_columns s)"
  by (simp_all add: set_columns_def present_def)

lemma cache_step_columns:
  "\<exists>b. cache_step w i m s = set_columns i (\<lambda>c. c\<lparr>mc_cover_cached := b c\<rparr>) s"
proof (cases "\<exists>url. tm_album_art_url m = Some url \<and> la_cached w url = Ok True")
  case True
  then have "cache_step w i m s = set_columns i (\<lambda>c. c\<lparr>mc_cover_cached := True\<rparr>) s"
    by (auto simp: cache_step_def set_cover_cached_def)
  then show ?thesis by (intro exI [of _ "\<lambda>_. True"])
next
  case False
  then have "cache_step w i m s = s" by (auto simp: cache_step_def split: option.splits)
  also have "\<dots> = set_columns i (\<lambda>c. c\<lparr>mc_cover_cached := mc_cover_cached c\<rparr>) s"
    by (simp add: set_columns_def)
  finally show ?thesis by (intro exI [of _ mc_cover_cached])
qed

definition taken_from :: "track_metadata \<Rightarrow> track_metadata \<Rightarrow> track_metadata \<Rightarrow> bool" where
  "taken_from x y m \<longleftrightarrow>
     tm_artist m = fill (tm_artist x) (tm_artist y) \<and> tm_album m = fill (tm_album x) (tm_album y)
     \<and> tm_title m = fill (tm_title x) (tm_title y) \<and> tm_year m = fill (tm_year x) (tm_year y)
     \<and> tm_genre m = fill (tm_genre x) (tm_genre y) \<and> tm_label m = fill (tm_label x) (tm_label y)
     \<and> tm_album_art_url m = fill (tm_album_art_url x) (tm_album_art_url y)
     \<and> tm_musicbrainz_id m = tm_musicbrainz_id x"

lemma local_sources: "sources_ok (tm_sources (local_duration w no_metadata))"
  by (auto simp: local_duration_def no_metadata_def sources_ok_def known_sources_def split: outcome.splits)

lemma merged_sources:
  assumes "of_musicbrainz found"
  shows "sources_ok (tm_sources (merge found (local_duration w no_metadata)))"
  using assms local_sources [of w]
  by (simp add: merge_def of_musicbrainz_def) (rule sources_ok_add, simp_all add: known_sources_def)

lemma merged_fields:
  assumes "of_musicbrainz found"
  shows "taken_from found no_metadata (merge found (local_duration w no_metadata))
    \<and> tm_duration_ms (merge found (local_duration w no_metadata)) = (case la_duration w of Ok d \<Rightarrow> Some d | _ \<Rightarrow> None)
    \<and> tm_bpm (merge found (local_duration w no_metadata)) = None \<and> tm_key (merge found (local_duration w no_metadata)) = None"
  using assms
  by (auto simp: of_musicbrainz_def merge_def local_duration_def no_metadata_def taken_from_def overriding_def fill_def
      split: outcome.splits)

text \<open>What MusicBrainz gave, with the cover of the archive; what Discogs is asked for when no artist is among it; and
  the state after the two catalogues.\<close>

definition first_found :: "unicode \<Rightarrow> lookup_answers \<Rightarrow> rstring \<Rightarrow> (rstring \<times> rstring) option \<Rightarrow> track_metadata" where
  "first_found u w query names =
     (let p = primary_answer u w query names in (found_by p)\<lparr>tm_album_art_url := archive_cover u w query p\<rparr>)"

definition then_found :: "unicode \<Rightarrow> lookup_answers \<Rightarrow> rstring \<Rightarrow> (rstring \<times> rstring) option \<Rightarrow> track_metadata" where
  "then_found u w query names =
     (if tm_artist (first_found u w query names) = None then found_by (fallback_answer u w query names) else no_metadata)"

definition after_catalogues :: "unicode \<Rightarrow> lookup_answers \<Rightarrow> rstring \<Rightarrow> (rstring \<times> rstring) option \<Rightarrow> track_metadata \<Rightarrow> bool" where
  "after_catalogues u w query names m \<longleftrightarrow>
     taken_from (first_found u w query names) (then_found u w query names) m
     \<and> tm_duration_ms m = (case la_duration w of Ok d \<Rightarrow> Some d | _ \<Rightarrow> None) \<and> sources_ok (tm_sources m)"

lemma taken_from_fallback:
  "taken_from x no_metadata m \<Longrightarrow> taken_from x y (fill_from_discogs y m)"
  by (auto simp: taken_from_def fill_from_discogs_def fill_def no_metadata_def)

lemma catalogues_discogs:
  assumes "x = first_found u w query names"
    and "taken_from x no_metadata m" and "tm_duration_ms m = (case la_duration w of Ok d \<Rightarrow> Some d | _ \<Rightarrow> None)"
    and "sources_ok (tm_sources m)" and "got \<longleftrightarrow> is_ok (primary_answer u w query names)"
    and "tm_bpm m = None" and "tm_key m = None" and "m2 = discogs_step u w query names got m"
  shows "after_catalogues u w query names m2 \<and> tm_bpm m2 = None \<and> tm_key m2 = None"
proof -
  have a: "tm_artist m = tm_artist x" using assms(2) by (simp add: taken_from_def fill_def no_metadata_def)
  have n: "\<not> got \<Longrightarrow> tm_artist x = None"
    using assms(1,5) by (cases "primary_answer u w query names") (auto simp: first_found_def found_by_def no_metadata_def Let_def)
  have s: "sources_ok (tm_sources (fill_from_discogs d m))" "tm_duration_ms (fill_from_discogs d m) = tm_duration_ms m"
    "tm_bpm (fill_from_discogs d m) = tm_bpm m" "tm_key (fill_from_discogs d m) = tm_key m" for d
    using sources_ok_add [OF assms(4), of "str ''discogs''"] by (auto simp: fill_from_discogs_def known_sources_def)
  show ?thesis
  proof (cases "tm_artist x = None")
    case True
    with a n assms s taken_from_fallback [OF assms(2)] show ?thesis
      by (cases "fallback_answer u w query names")
        (auto simp: discogs_outcome after_catalogues_def then_found_def found_by_def)
  next
    case False
    with a n assms show ?thesis by (auto simp: discogs_outcome after_catalogues_def then_found_def)
  qed
qed

text \<open>What a lookup does to the columns of its item: \<open>b\<close> is the flag of the cached cover.\<close>

definition stored :: "lookup_answers \<Rightarrow> track_metadata \<Rightarrow> (metadata_columns \<Rightarrow> bool) \<Rightarrow> metadata_columns \<Rightarrow> metadata_columns" where
  "stored w m b c =
     (if la_stored w then c\<lparr>mc_cover_cached := b c, mc_metadata := m, mc_sources := Some (tm_sources m)\<rparr>
      else c\<lparr>mc_cover_cached := b c\<rparr>)"

lemma tags_step_simps [simp]:
  "md_db (tags_step path m s) = md_db s" "md_columns (tags_step path m s) = md_columns s"
  "md_limits (tags_step path m s) = md_limits s" "md_events (tags_step path m s) = md_events s"
  "md_lookups (tags_step path m s) = md_lookups s" "md_job_running (tags_step path m s) = md_job_running s"
  "present j (tags_step path m s) = present j s"
  by (simp_all add: tags_step_def present_def)

text \<open>The whole lookup, as the properties use it.\<close>

lemma primary_fields_taken:
  assumes "primary_answer u w query names \<noteq> Panic"
  obtains got m where "primary_step u w query names (local_duration w no_metadata) = Ok (got, m)"
    "taken_from (first_found u w query names) no_metadata m"
    "tm_duration_ms m = (case la_duration w of Ok d \<Rightarrow> Some d | _ \<Rightarrow> None)" "sources_ok (tm_sources m)"
    "got \<longleftrightarrow> is_ok (primary_answer u w query names)" "tm_bpm m = None" "tm_key m = None"
proof (cases "primary_answer u w query names")
  case (Ok found)
  let ?m0 = "local_duration w no_metadata" and ?c = "archive_cover u w query (primary_answer u w query names)"
  have "tm_album_art_url ?m0 = None" by (simp add: local_duration_def no_metadata_def split: outcome.split)
  then obtain src where q: "primary_step u w query names ?m0 =
        Ok (True, (merge found ?m0)\<lparr>tm_album_art_url := ?c, tm_sources := src\<rparr>)"
      "src = tm_sources (merge found ?m0) \<or> src = add_source (str ''coverart'') (tm_sources (merge found ?m0))"
    using primary_outcome [of u w query names ?m0] Ok by blast
  have f: "of_musicbrainz found" by (rule primary_fields [OF Ok])
  have "sources_ok src"
    using q(2) merged_sources [OF f, of w] sources_ok_add [OF merged_sources [OF f, of w], of "str ''coverart''"]
    by (auto simp: known_sources_def)
  moreover have "taken_from (first_found u w query names) no_metadata
      ((merge found ?m0)\<lparr>tm_album_art_url := ?c, tm_sources := src\<rparr>)"
    using merged_fields [OF f, of w] Ok by (auto simp: taken_from_def first_found_def found_by_def fill_def no_metadata_def)
  ultimately show ?thesis
    using q(1) Ok merged_fields [OF f, of w]
    by (intro that [of True "(merge found ?m0)\<lparr>tm_album_art_url := ?c, tm_sources := src\<rparr>"]) auto
next
  case (Err e)
  then have "primary_step u w query names (local_duration w no_metadata) = Ok (False, local_duration w no_metadata)"
    using primary_outcome by blast
  with Err local_sources [of w] show ?thesis
    by (intro that [of False "local_duration w no_metadata"])
      (auto simp: first_found_def archive_cover_def found_by_def taken_from_def fill_def local_duration_def
        no_metadata_def split: outcome.splits)
qed (use assms in simp)

lemma lookup_outcome:
  assumes "lookup_and_store u api_key w i path query artist track s = (r, s')"
    and "names = precise artist track" and "s1 = s\<lparr>md_lookups := md_lookups s @ [i]\<rparr>"
  shows "if primary_answer u w query names = Panic then r = Panic \<and> s' = s1
    else \<exists>m b. r = Ok m \<and> after_catalogues u w query names m \<and> tm_fetched_at m = Some (clock (md_db s))
      \<and> tm_bpm m = (case tempo_answer api_key w query of Ok b \<Rightarrow> bk_bpm b | _ \<Rightarrow> None)
      \<and> tm_key m = (case tempo_answer api_key w query of Ok b \<Rightarrow> bk_key b | _ \<Rightarrow> None)
      \<and> s' = tags_step path m (set_columns i (stored w m b) s1)"
proof (cases "primary_answer u w query names = Panic")
  case True
  then have "primary_step u w query names (local_duration w no_metadata) = Panic"
    using primary_outcome by blast
  then show ?thesis using assms True by (simp add: lookup_and_store_def Let_def)
next
  case False
  obtain got m1 where p: "primary_step u w query names (local_duration w no_metadata) = Ok (got, m1)"
    and t: "taken_from (first_found u w query names) no_metadata m1"
      "tm_duration_ms m1 = (case la_duration w of Ok d \<Rightarrow> Some d | _ \<Rightarrow> None)" "sources_ok (tm_sources m1)"
    and g: "got \<longleftrightarrow> is_ok (primary_answer u w query names)" and n: "tm_bpm m1 = None" "tm_key m1 = None"
    using primary_fields_taken [OF False] .
  define m2 where "m2 = discogs_step u w query names got m1"
  have c: "after_catalogues u w query names m2" "tm_bpm m2 = None" "tm_key m2 = None"
    using catalogues_discogs [OF refl t g n m2_def] by blast+
  obtain src where m3: "bpm_step api_key w query m2
      = m2\<lparr>tm_bpm := (case tempo_answer api_key w query of Ok b \<Rightarrow> bk_bpm b | _ \<Rightarrow> None),
          tm_key := (case tempo_answer api_key w query of Ok b \<Rightarrow> bk_key b | _ \<Rightarrow> None), tm_sources := src\<rparr>"
    "src = tm_sources m2 \<or> src = add_source (str ''getsongbpm'') (tm_sources m2)"
    using bpm_outcome [OF c(2,3)] by blast
  have "sources_ok src"
    using m3(2) c(1) sources_ok_add [of "tm_sources m2" "str ''getsongbpm''"]
    by (auto simp: after_catalogues_def known_sources_def)
  then have c3: "after_catalogues u w query names ((bpm_step api_key w query m2)\<lparr>tm_fetched_at := t\<rparr>)" for t
    using c(1) by (simp add: m3(1) after_catalogues_def taken_from_def)
  obtain h where h: "cache_step w i m2 s1 = set_columns i (\<lambda>c. c\<lparr>mc_cover_cached := h c\<rparr>) s1"
    using cache_step_columns by blast
  have two: "set_columns i g (set_columns i f s) = set_columns i (\<lambda>c. g (f c)) s" for f g s
    by (simp add: set_columns_def present_def)
  define m where "m = (bpm_step api_key w query m2)\<lparr>tm_fetched_at := Some (clock (md_db s))\<rparr>"
  have "r = Ok m \<and> s' = tags_step path m (set_columns i (stored w m h) s1)"
    using assms(1) p
    by (auto simp: lookup_and_store_def Let_def assms(2,3) [symmetric] m2_def [symmetric] h update_item_metadata_def two
        stored_def [abs_def] m_def) (simp_all add: assms(3))
  moreover have "tm_fetched_at m = Some (clock (md_db s))"
    "tm_bpm m = (case tempo_answer api_key w query of Ok b \<Rightarrow> bk_bpm b | _ \<Rightarrow> None)"
    "tm_key m = (case tempo_answer api_key w query of Ok b \<Rightarrow> bk_key b | _ \<Rightarrow> None)"
    by (simp_all add: m_def m3(1))
  ultimately have "\<exists>m b. r = Ok m \<and> after_catalogues u w query names m \<and> tm_fetched_at m = Some (clock (md_db s))
      \<and> tm_bpm m = (case tempo_answer api_key w query of Ok b \<Rightarrow> bk_bpm b | _ \<Rightarrow> None)
      \<and> tm_key m = (case tempo_answer api_key w query of Ok b \<Rightarrow> bk_key b | _ \<Rightarrow> None)
      \<and> s' = tags_step path m (set_columns i (stored w m b) s1)"
    using c3 unfolding m_def by blast
  with False show ?thesis by simp
qed

text \<open>C30: what a lookup takes from where. Title, artist, album, year, genre, label and the cover are those of
  MusicBrainz (the cover: of the archive, for the release MusicBrainz names); if no artist is among them, Discogs
  fills in the ones that are missing and overwrites none, else it gives nothing. The duration is the one of the
  file, the beats per minute and the key those of the tempo service. Every source is listed once and the time is
  noted. If the item still exists and the statement that stores succeeds, the item's columns and its list of sources
  hold exactly the result; no other item changes. If there is a title and an artist, the result goes to the tags of
  the file. Nothing a service answers makes the lookup fail - except a date in the answer of MusicBrainz that cuts
  a character, which panics.\<close>

theorem lookup_precedence:
  assumes "lookup_and_store u api_key w i path query artist track s = (r, s')"
    and "names = precise artist track" and "p = primary_answer u w query names"
    and "x = (found_by p)\<lparr>tm_album_art_url := archive_cover u w query p\<rparr>"
    and "y = (if tm_artist x = None then found_by (fallback_answer u w query names) else no_metadata)"
  shows "if p = Panic then r = Panic \<and> s' = s\<lparr>md_lookups := md_lookups s @ [i]\<rparr>
    else \<exists>m. r = Ok m \<and> taken_from x y m
      \<and> tm_duration_ms m = (case la_duration w of Ok d \<Rightarrow> Some d | _ \<Rightarrow> None)
      \<and> tm_bpm m = (case tempo_answer api_key w query of Ok b \<Rightarrow> bk_bpm b | _ \<Rightarrow> None)
      \<and> tm_key m = (case tempo_answer api_key w query of Ok b \<Rightarrow> bk_key b | _ \<Rightarrow> None)
      \<and> distinct (tm_sources m) \<and> set (tm_sources m) \<subseteq> set known_sources
      \<and> tm_fetched_at m = Some (clock (md_db s))
      \<and> md_db s' = md_db s \<and> (\<forall>j. j \<noteq> i \<longrightarrow> md_columns s' j = md_columns s j)
      \<and> (present i s \<and> la_stored w \<longrightarrow> mc_metadata (md_columns s' i) = m
          \<and> mc_sources (md_columns s' i) = Some (tm_sources m))
      \<and> md_tag_writes s' = md_tag_writes s @ (if has_core_fields m then [(path, m)] else [])"
proof (cases "p = Panic")
  case True
  with lookup_outcome [OF assms(1,2) refl] assms(3) show ?thesis by simp
next
  case False
  then obtain m b where m: "r = Ok m" "after_catalogues u w query names m" "tm_fetched_at m = Some (clock (md_db s))"
    "tm_bpm m = (case tempo_answer api_key w query of Ok b \<Rightarrow> bk_bpm b | _ \<Rightarrow> None)"
    "tm_key m = (case tempo_answer api_key w query of Ok b \<Rightarrow> bk_key b | _ \<Rightarrow> None)"
    "s' = tags_step path m (set_columns i (stored w m b) (s\<lparr>md_lookups := md_lookups s @ [i]\<rparr>))"
    using lookup_outcome [OF assms(1,2) refl] assms(3) by auto
  have "x = first_found u w query names" "y = then_found u w query names"
    by (simp_all add: assms(3-5) first_found_def then_found_def Let_def)
  with m(2) have "taken_from x y m" "tm_duration_ms m = (case la_duration w of Ok d \<Rightarrow> Some d | _ \<Rightarrow> None)"
    "sources_ok (tm_sources m)" by (simp_all add: after_catalogues_def)
  moreover have "md_tag_writes s' = md_tag_writes s @ (if has_core_fields m then [(path, m)] else [])"
    by (simp add: m(6) tags_step_def)
  moreover have "present i (s\<lparr>md_lookups := md_lookups s @ [i]\<rparr>) = present i s" by (simp add: present_def)
  ultimately show ?thesis
    using False m(1,3-6) by (auto simp: sources_ok_def stored_def)
qed

section \<open>The spacing of the calls\<close>

lemma calls_spaced_aux: "successively (\<lambda>x y. x + 1000 \<le> y) (last_call # calls last_call arrivals)"
proof (induction arrivals arbitrary: last_call)
  case (Cons a as)
  have "last_call + 1000 \<le> wait_for_rate_limit last_call (max a last_call)"
    by (auto simp: wait_for_rate_limit_def)
  then show ?case using Cons [of "wait_for_rate_limit last_call (max a last_call)"] by (simp add: Let_def)
qed simp

lemma calls_bounded:
  "sorted arrivals \<Longrightarrow> k < length arrivals \<Longrightarrow>
    arrivals ! k \<le> calls last_call arrivals ! k
    \<and> calls last_call arrivals ! k \<le> max last_call (arrivals ! k) + 1000 * (k + 1)"
proof (induction arrivals arbitrary: k last_call)
  case (Cons a as)
  let ?t = "wait_for_rate_limit last_call (max a last_call)"
  have t: "?t \<le> max a last_call + 1000" "a \<le> ?t" by (auto simp: wait_for_rate_limit_def)
  show ?case
  proof (cases k)
    case (Suc j)
    with Cons have "as ! j \<le> calls ?t as ! j \<and> calls ?t as ! j \<le> max ?t (as ! j) + 1000 * (j + 1)" by simp
    moreover have "a \<le> as ! j" using Cons.prems Suc by simp
    ultimately show ?thesis using t Suc by (simp add: Let_def max_def split: if_splits)
  qed (use t in \<open>simp add: Let_def max.commute\<close>)
qed simp

lemma length_calls [simp]: "length (calls t as) = length as"
  by (induction as arbitrary: t) (simp_all add: Let_def)

text \<open>C32: however many lookups run at once, two calls to MusicBrainz are at least a second apart, none starts
  before it was asked for, and the call at place \<open>k\<close> of the queue waits at most \<open>k + 1\<close> seconds beyond the
  later of its arrival and the last call before. (With sleeps of exactly the time asked for: longer ones keep the
  calls as far apart, but not the bound on the wait.)\<close>

theorem calls_spaced:
  assumes "sorted arrivals" and "k < length arrivals"
  shows "successively (\<lambda>x y. x + 1000 \<le> y) (last_call # calls last_call arrivals)
    \<and> arrivals ! k \<le> calls last_call arrivals ! k
    \<and> calls last_call arrivals ! k \<le> max last_call (arrivals ! k) + 1000 * (k + 1)"
  using calls_spaced_aux calls_bounded [OF assms] by blast

theorem calls_spaced_witness:
  "calls 0 [10000, 10001, 10002] ! 2 \<le> 13002 \<and> calls 0 [10000, 10001, 10002] = [10000, 11000, 12000]"
  using calls_spaced [of "[10000, 10001, 10002]" 2 0] by (simp add: wait_for_rate_limit_def Let_def)

section \<open>The scan of the library\<close>

definition fetched :: "metadata_state \<Rightarrow> int \<Rightarrow> bool" where
  "fetched s j \<longleftrightarrow> tm_fetched_at (mc_metadata (md_columns s j)) \<noteq> None"

lemma fetched_kept:
  assumes "lookup_and_store u api_key w i path query artist track s = (r, s')"
  shows "md_db s' = md_db s \<and> md_events s' = md_events s \<and> md_job_running s' = md_job_running s
    \<and> md_lookups s' = md_lookups s @ [i] \<and> (fetched s j \<longrightarrow> fetched s' j)
    \<and> (r \<noteq> Panic \<longrightarrow> present i s \<longrightarrow> la_stored w \<longrightarrow> fetched s' i)
    \<and> (r \<noteq> Panic \<longrightarrow> is_ok r) \<and> (r = Panic \<longleftrightarrow> primary_answer u w query (precise artist track) = Panic)"
proof -
  have "present i (s\<lparr>md_lookups := md_lookups s @ [i]\<rparr>) = present i s" by (simp add: present_def)
  then show ?thesis
    using lookup_outcome [OF assms refl refl] by (auto simp: fetched_def stored_def split: if_splits)
qed

definition answers_well :: "unicode \<Rightarrow> (int \<Rightarrow> lookup_answers) \<Rightarrow> item \<Rightarrow> bool" where
  "answers_well u w item \<longleftrightarrow>
     primary_answer u (w (it_id item)) (it_original_query item) (precise (it_original_artist item) (it_original_track item)) \<noteq> Panic"

lemma scan_items_outcome:
  assumes "\<And>i. la_stored (w i)"
  shows "scan_items u api_key w n items c f s = (r, s') \<Longrightarrow> list_all (\<lambda>x. present (it_id x) s) items \<Longrightarrow>
    md_db s' = md_db s \<and> md_job_running s' = md_job_running s \<and> (\<forall>j. fetched s j \<longrightarrow> fetched s' j)
    \<and> (if list_all (answers_well u w) items
       then r = Ok (c + length items, f)
         \<and> md_events s' = md_events s @ map (\<lambda>k. Metadata_Job_Progress n k f) [c..<c + length items]
         \<and> md_lookups s' = md_lookups s @ map it_id items
         \<and> list_all (\<lambda>x. fetched s' (it_id x)) items
       else r = Panic)"
proof (induction items arbitrary: c s)
  case (Cons x xs)
  let ?p = "progress n c f s"
  have p: "md_db ?p = md_db s" "md_job_running ?p = md_job_running s"
    "md_events ?p = md_events s @ [Metadata_Job_Progress n c f]" "md_lookups ?p = md_lookups s" "present i ?p = present i s"
    "fetched ?p i = fetched s i" for i
    by (simp_all add: progress_def present_def fetched_def)
  obtain r1 s1 where l: "lookup_and_store u api_key (w (it_id x)) (it_id x) (it_file_path x) (it_original_query x)
      (it_original_artist x) (it_original_track x) ?p = (r1, s1)" by fastforce
  note f = fetched_kept [OF l]
  show ?case
  proof (cases "answers_well u w x")
    case False
    then have "r1 = Panic" using f by (simp add: answers_well_def)
    then show ?thesis using Cons.prems False l f by (auto simp: p)
  next
    case True
    then have "is_ok r1" using f by (simp add: answers_well_def)
    then obtain m where r1: "r1 = Ok m" by (cases r1) auto
    have rec: "scan_items u api_key w n xs (c + 1) f s1 = (r, s')" using Cons.prems(1) l r1 by simp
    have pres: "list_all (\<lambda>x. present (it_id x) s1) xs"
      using Cons.prems(2) f by (auto simp: list_all_iff present_def p)
    note IH = Cons.IH [OF rec pres]
    have "fetched s1 (it_id x)" using f r1 assms Cons.prems(2) by (simp add: p)
    then have "fetched s' (it_id x)" using IH by blast
    moreover have "md_events s1 = md_events s @ [Metadata_Job_Progress n c f]"
      "md_lookups s1 = md_lookups s @ [it_id x]" using f by (simp_all add: p)
    moreover have "[c..<c + length (x # xs)] = c # [c + 1..<c + 1 + length xs]"
      by (simp add: upt_conv_Cons del: upt_Suc)
    moreover have "\<forall>j. fetched s j \<longrightarrow> fetched s1 j" using fetched_kept [OF l] by (simp add: p)
    ultimately show ?thesis
      using IH f True by (simp add: p del: upt_Suc split: if_splits)
  qed
qed simp

lemma unfetched_items:
  "set (get_items_without_metadata s) =
    {x \<in> set (db_items (md_db s)). it_status x = ''completed'' \<and> \<not> fetched s (it_id x)}"
  by (auto simp: get_items_without_metadata_def completed_items_def newest_first_def fetched_def)

lemma items_present: "x \<in> set (get_items_without_metadata s) \<Longrightarrow> present (it_id x) s"
  by (auto simp: unfetched_items present_def get_item_def find_row_None)

lemma scan_outcome:
  assumes "run_library_scan u api_key w s = (r, s')" and "\<And>i. la_stored (w i)"
    and "n = length (get_items_without_metadata s)"
  shows "if list_all (answers_well u w) (get_items_without_metadata s)
    then r = Ok (n, n, 0) \<and> get_items_without_metadata s' = []
      \<and> md_events s' = md_events s @ map (\<lambda>k. Metadata_Job_Progress n k 0) [0..<n + 1]
      \<and> md_lookups s' = md_lookups s @ map it_id (get_items_without_metadata s)
      \<and> md_job_running s' = md_job_running s
    else r = Panic \<and> md_job_running s' = md_job_running s"
proof -
  let ?items = "get_items_without_metadata s"
  obtain r1 s1 where sc: "scan_items u api_key w n ?items 0 0 s = (r1, s1)" by fastforce
  have p: "list_all (\<lambda>x. present (it_id x) s) ?items" using items_present by (auto simp: list_all_iff)
  note o = scan_items_outcome [where w = w, OF assms(2) sc p]
  show ?thesis
  proof (cases "list_all (answers_well u w) ?items")
    case True
    then have r1: "r1 = Ok (n, 0)" using o assms(3) by simp
    then have s': "s' = progress n n 0 s1" "r = Ok (n, n, 0)"
      using assms(1,3) sc by (simp_all add: run_library_scan_def Let_def)
    have "\<not> (it_status x = ''completed'' \<and> \<not> fetched s1 (it_id x))" if "x \<in> set (db_items (md_db s))" for x
      using that o True unfolding list_all_iff unfetched_items by auto
    then have "set (get_items_without_metadata s') = {}"
      using o by (auto simp: unfetched_items s' progress_def fetched_def)
    then show ?thesis using o True assms(3) by (simp add: s' progress_def)
  next
    case False
    then show ?thesis using o assms(1,3) sc by (auto simp: run_library_scan_def Let_def)
  qed
qed

text \<open>When an item was completed; one without a time comes before all others.\<close>

definition finished_at :: "item \<Rightarrow> nat" where
  "finished_at x = (case it_completed_at x of Some t \<Rightarrow> t + 1 | None \<Rightarrow> 0)"

lemma unfetched_order:
  "mset (get_items_without_metadata s)
    = mset (filter (\<lambda>x. it_status x = ''completed'' \<and> \<not> fetched s (it_id x)) (db_items (md_db s)))"
  "sorted_wrt (\<lambda>a b. finished_at b \<le> finished_at a) (get_items_without_metadata s)"
proof -
  let ?k = "\<lambda>x. - int (finished_at x)"
  let ?rows = "filter (\<lambda>x. it_status x = ''completed'' \<and> \<not> fetched s (it_id x)) (db_items (md_db s))"
  have eq: "get_items_without_metadata s = sort_key ?k ?rows"
    by (simp add: get_items_without_metadata_def completed_items_def newest_first_def fetched_def finished_at_def)
  show "mset (get_items_without_metadata s) = mset ?rows" unfolding eq by simp
  have "sorted_wrt (\<lambda>a b. ?k a \<le> ?k b) (sort_key ?k ?rows)"
    using sorted_sort_key [of ?k ?rows] by (simp add: sorted_map)
  then show "sorted_wrt (\<lambda>a b. finished_at b \<le> finished_at a) (get_items_without_metadata s)"
    unfolding eq by (simp add: sorted_wrt_iff_nth_less)
qed

text \<open>C31: the scan of the library leaves no completed item without metadata: the items looked up are the completed
  ones without metadata, each row once, the newest completed first, with one progress event before each and one at
  the end, and the job's flag is reset - if no date in an answer cuts a character. What it reports as failed is
  always zero, and an item no service knows is marked as fetched all the same and so not looked up by a later scan.
  (The statements are assumed to succeed.)\<close>

theorem library_scan_complete:
  assumes "\<And>i. la_stored (w i)" and "list_all (answers_well u w) (get_items_without_metadata s)"
    and "n = length (get_items_without_metadata s)" and "s' = metadata_job u api_key w s"
  shows "fst (run_library_scan u api_key w s) = Ok (n, n, 0) \<and> get_items_without_metadata s' = []
    \<and> (\<exists>items. mset items = mset (filter (\<lambda>x. it_status x = ''completed'' \<and> \<not> fetched s (it_id x)) (db_items (md_db s)))
        \<and> sorted_wrt (\<lambda>a b. finished_at b \<le> finished_at a) items
        \<and> md_lookups s' = md_lookups s @ map it_id items)
    \<and> md_events s' = md_events s @ map (\<lambda>k. Metadata_Job_Progress n k 0) [0..<n + 1]
    \<and> \<not> md_job_running s' \<and> get_job_status s' = (False, 0, 0, 0)"
proof -
  obtain r s1 where r: "run_library_scan u api_key w s = (r, s1)" by fastforce
  have o: "r = Ok (n, n, 0)" "get_items_without_metadata s1 = []"
    "md_events s1 = md_events s @ map (\<lambda>k. Metadata_Job_Progress n k 0) [0..<n + 1]"
    "md_lookups s1 = md_lookups s @ map it_id (get_items_without_metadata s)"
    using scan_outcome [OF r assms(1,3)] assms(2) by simp_all
  have s': "s' = s1\<lparr>md_job_running := False, md_job_total := 0\<rparr>"
    using assms(4) r o(1) by (simp add: metadata_job_def)
  have "get_items_without_metadata s' = get_items_without_metadata s1"
    by (simp add: s' get_items_without_metadata_def completed_items_def)
  moreover have "md_lookups s' = md_lookups s @ map it_id (get_items_without_metadata s)" by (simp add: s' o(4))
  ultimately show ?thesis
    using o(1-3) unfetched_order [of s] by (simp add: r get_job_status_def Let_def) (simp add: s', blast)
qed

text \<open>One date that cuts a character in an answer of MusicBrainz - four bytes into it is the middle of a
  character - stops the job for good: the task dies with its flag set, the status shows it as running, and
  every later start is refused until the program is restarted.\<close>

lemma malformed_date_stops_job:
  assumes "\<And>i. la_stored (w i)" and "x \<in> set (get_items_without_metadata s)"
    and "la_recordings (w (it_id x)) = Json (Some [r])"
    and "precise (it_original_artist x) (it_original_track x) \<noteq> None"
    and "rc_releases r = Some [rl]" and "rl_date rl = Some date"
    and "4 \<le> length (as_bytes date)" and "byte_prefix 4 date = None"
    and "start_metadata_job auth s = (Ok (True, n), s1)" and "s2 = metadata_job u api_key w s1"
  shows "fst (get_job_status s2) \<and> start_metadata_job auth s2 =
    (metadata_error ''job_running'' (str ''A metadata job is already running''), s2)"
proof -
  have s1: "s1 = s\<lparr>md_job_running := True, md_job_total := n\<rparr>" and admin: "is_ok (require_admin auth)"
    using assms(9) by (auto simp: start_metadata_job_def metadata_error_def Let_def split: if_splits)
  have items: "get_items_without_metadata s1 = get_items_without_metadata s"
    by (simp add: s1 get_items_without_metadata_def completed_items_def)
  have "year_of_option (rl_date rl) = Panic" using assms(6-8) by (simp add: year_of_option_def year_of_def)
  then have "recording_to_metadata r = Panic"
    using assms(5) by (simp add: recording_to_metadata_def first_release_def)
  then have "primary_answer u (w (it_id x)) (it_original_query x) (precise (it_original_artist x) (it_original_track x)) = Panic"
    using assms(3,4) by (auto simp: primary_answer_def search_recording_precise_def)
  then have "\<not> list_all (answers_well u w) (get_items_without_metadata s1)"
    using assms(2) by (auto simp: items list_all_iff answers_well_def)
  moreover obtain r' s' where r': "run_library_scan u api_key w s1 = (r', s')" by fastforce
  ultimately have "r' = Panic" "md_job_running s' = md_job_running s1"
    using scan_outcome [OF r' assms(1) refl] by simp_all
  moreover from this(1) have "s2 = s'" using assms(10) r' by (simp add: metadata_job_def)
  ultimately have "md_job_running s2" by (simp add: s1)
  with admin show ?thesis by (simp add: get_job_status_def Let_def start_metadata_job_def)
qed

text \<open>One completed item, services that do not answer, and an answer with a malformed date.\<close>

definition sample_item :: item where
  "sample_item = \<lparr>it_id = 1, it_filename = [97], it_original_query = [98], it_file_path = [99], it_file_size = 1,
     it_bitrate = None, it_duration = None, it_extension = [], it_source_username = [], it_status = ''completed'',
     it_progress = 1, it_error_message = None, it_created_at = 0, it_completed_at = Some 1,
     it_original_artist = Some [100], it_original_track = Some [101], it_sample_rate = None, it_bit_depth = None\<rparr>"

definition metadata_start :: "item list \<Rightarrow> metadata_state" where
  "metadata_start items = \<lparr>md_db = (empty_db [] 0)\<lparr>db_items := items\<rparr>, md_columns = (\<lambda>_. null_columns),
     md_limits = (\<lambda>_. None), md_events = [], md_lookups = [], md_tag_writes = [], md_job_running = False, md_job_total = 0,
     md_backfill_running = False, md_backfill_total = 0, md_backfill_processed = 0, md_backfill_failed = 0\<rparr>"

definition silent :: lookup_answers where
  "silent = \<lparr>la_duration = Err [], la_recordings = Unsent, la_release = Unsent, la_cover = (\<lambda>_. (0, Unsent)),
     la_discogs = Unsent, la_discogs_release = (\<lambda>_. Unsent), la_cached = (\<lambda>_. Err []), la_songs = Unsent,
     la_song = (\<lambda>_. Unsent), la_stored = True\<rparr>"

definition malformed :: recording where
  "malformed = sample_recording\<lparr>rc_releases := Some [\<lparr>rl_id = [], rl_title = None, rl_date = Some [49, 57, 55, 233],
     rl_label_info = None\<rparr>]\<rparr>"

lemma sample_unfetched: "get_items_without_metadata (metadata_start [sample_item]) = [sample_item]"
  by (simp add: get_items_without_metadata_def completed_items_def newest_first_def metadata_start_def empty_db_def
      sample_item_def null_columns_def no_metadata_def)

lemma sample_precise: "precise (it_original_artist sample_item) (it_original_track sample_item) = Some ([100], [101])"
  by (simp add: precise_def sample_item_def)

lemma silent_primary: "\<exists>e. primary_answer u silent query names = Err e"
  by (cases names)
    (auto simp: primary_answer_def search_recording_def search_recording_precise_def silent_def mb_error_def)

theorem lookup_precedence_witness:
  "\<exists>m. fst (lookup_and_store ascii_tables None silent 1 [99] [98] None None (metadata_start [sample_item])) = Ok m
    \<and> tm_artist m = None"
proof -
  obtain r s' where r: "lookup_and_store ascii_tables None silent 1 [99] [98] None None (metadata_start [sample_item]) = (r, s')"
    by fastforce
  obtain e where p: "primary_answer ascii_tables silent [98] (precise None None) = Err e" using silent_primary by blast
  have "fallback_answer ascii_tables silent [98] (precise None None) = Err (str ''Failed to send Discogs request'')"
    by (simp add: fallback_answer_def precise_def search_release_def silent_def discogs_error_def)
  with p lookup_precedence [OF r refl refl refl refl] show ?thesis
    by (auto simp: r found_by_def taken_from_def fill_def no_metadata_def)
qed

theorem library_scan_complete_witness:
  "fst (run_library_scan ascii_tables None (\<lambda>_. silent) (metadata_start [sample_item])) = Ok (1, 1, 0)"
proof -
  have "primary_answer u silent q n \<noteq> Panic" for u q n using silent_primary [of u q n] by auto
  then have "list_all (answers_well ascii_tables (\<lambda>_. silent)) (get_items_without_metadata (metadata_start [sample_item]))"
    by (simp add: list_all_iff answers_well_def)
  from library_scan_complete [where w = "\<lambda>_. silent", OF _ this refl refl, of None]
  show ?thesis by (simp add: silent_def sample_unfetched)
qed

lemma malformed_date_stops_job_witness:
  "\<exists>auth s1. start_metadata_job auth (metadata_start [sample_item]) = (Ok (True, 1), s1)
    \<and> fst (get_job_status (metadata_job ascii_tables None (\<lambda>_. silent\<lparr>la_recordings := Json (Some [malformed])\<rparr>) s1))"
proof -
  let ?auth = "\<lparr>au_id = 1, au_username = [], au_role = str ''admin''\<rparr>"
  let ?s = "metadata_start [sample_item]"
  have st: "start_metadata_job ?auth ?s = (Ok (True, 1), ?s\<lparr>md_job_running := True, md_job_total := 1\<rparr>)"
    by (simp add: start_metadata_job_def require_admin_def sample_unfetched) (simp add: metadata_start_def)
  have "byte_prefix (Suc (Suc (Suc (Suc 0)))) [49, 57, 55, 233] = None" by (simp add: utf8_char_def)
  moreover have "Suc (Suc (Suc (Suc 0))) = 4" by simp
  ultimately have "byte_prefix 4 [49, 57, 55, 233] = None" by metis
  then have "fst (get_job_status (metadata_job ascii_tables None (\<lambda>_. silent\<lparr>la_recordings := Json (Some [malformed])\<rparr>)
      (?s\<lparr>md_job_running := True, md_job_total := 1\<rparr>))) \<and> start_metadata_job ?auth
      (metadata_job ascii_tables None (\<lambda>_. silent\<lparr>la_recordings := Json (Some [malformed])\<rparr>)
      (?s\<lparr>md_job_running := True, md_job_total := 1\<rparr>)) = (metadata_error ''job_running''
        (str ''A metadata job is already running''), metadata_job ascii_tables None
        (\<lambda>_. silent\<lparr>la_recordings := Json (Some [malformed])\<rparr>) (?s\<lparr>md_job_running := True, md_job_total := 1\<rparr>))"
    by (intro malformed_date_stops_job [where x = sample_item and r = malformed and date = "[49, 57, 55, 233]"
          and rl = "\<lparr>rl_id = [], rl_title = None, rl_date = Some [49, 57, 55, 233], rl_label_info = None\<rparr>", OF _ _ _ _ _ _ _ _ st refl])
      (simp_all add: sample_unfetched sample_precise silent_def malformed_def as_bytes_def utf8_char_def)
  with st show ?thesis by blast
qed

section \<open>Refreshing an item\<close>

lemma audio_update [simp]:
  "clock (update_item_audio_properties i a b d) = clock d"
  "get_item j (update_item_audio_properties i a b d) = None \<longleftrightarrow> get_item j d = None"
proof -
  have "map it_id (update_row it_id i (\<lambda>r. r\<lparr>it_sample_rate := a, it_bit_depth := b\<rparr>) xs) = map it_id xs" for xs :: "item list"
    by (simp add: update_row_def)
  then have "it_id ` set (update_row it_id i (\<lambda>r. r\<lparr>it_sample_rate := a, it_bit_depth := b\<rparr>) xs) = it_id ` set xs" for xs :: "item list"
    by (metis list.set_map)
  then show "get_item j (update_item_audio_properties i a b d) = None \<longleftrightarrow> get_item j d = None"
    by (simp add: update_item_audio_properties_def set_item_def get_item_def find_row_None)
qed (simp add: update_item_audio_properties_def set_item_def)

lemma day_passed: "24 \<le> (int b - int a) div 3600 \<longleftrightarrow> a + 86400 \<le> b"
proof -
  let ?x = "int b - int a"
  have "?x = 3600 * (?x div 3600) + ?x mod 3600" by simp
  moreover have "0 \<le> ?x mod 3600" "?x mod 3600 < 3600" by simp_all
  ultimately show ?thesis by linarith
qed

definition with_audio :: "int \<Rightarrow> (int option \<times> int option) option \<Rightarrow> metadata_state \<Rightarrow> metadata_state" where
  "with_audio i audio s = (case audio of
     Some (rate, depth) \<Rightarrow> s\<lparr>md_db := update_item_audio_properties i rate depth (md_db s)\<rparr> | None \<Rightarrow> s)"

lemma with_audio_simps [simp]:
  "clock (md_db (with_audio i audio s)) = clock (md_db s)" "present j (with_audio i audio s) = present j s"
  "md_columns (with_audio i audio s) = md_columns s" "md_limits (with_audio i audio s) = md_limits s"
  by (simp_all add: with_audio_def present_def split: option.splits del: not_None_eq)

text \<open>A refresh that is allowed and asks the services: the lookup, and the limit set to now.\<close>

lemma refresh_looks_up:
  assumes "get_item i (md_db s) = Some item" and "check_metadata_rate_limit i s" and "skip \<noteq> Some True"
    and "lookup_and_store u api_key w i (it_file_path item) (it_original_query item) (it_original_artist item) (it_original_track item)
      (with_audio i audio s) = (r, s1)"
  shows "refresh_item_metadata u api_key w audio i skip s =
    (case r of Ok m \<Rightarrow> (Ok m, s1\<lparr>md_limits := (md_limits s1)(i := Some (clock (md_db s)))\<rparr>)
     | Err e \<Rightarrow> (metadata_error ''internal_error'' (str ''Failed to refresh metadata: '' @ e), s1)
     | Panic \<Rightarrow> (Panic, s1))"
proof -
  have d: "md_db s1 = md_db (with_audio i audio s)" using fetched_kept [OF assms(4)] by blast
  then have "present i s1" "clock (md_db s1) = clock (md_db s)"
    using assms(1) with_audio_simps(2) [of i i audio s] by (auto simp: present_def)
  with assms show ?thesis
    by (cases r)
      (auto simp: refresh_item_metadata_def refresh_metadata_def with_audio_def Let_def update_metadata_rate_limit_def
        split: option.splits prod.splits)
qed

text \<open>A metadata refresh that asks the services sets the item's limit: until 24 hours later every refresh of
  the item is answered with 429 and changes nothing, after that one is allowed again; clearing the metadata
  lifts the limit at once.\<close>

lemma refresh_once_a_day:
  assumes "refresh_item_metadata u api_key w audio i skip s = (Ok m, s1)" and "skip \<noteq> Some True"
    and "md_limits s2 i = md_limits s1 i" and "get_item i (md_db s2) \<noteq> None"
  shows "(check_metadata_rate_limit i s2 \<longleftrightarrow> clock (md_db s) + 86400 \<le> clock (md_db s2))
    \<and> (clock (md_db s2) < clock (md_db s) + 86400 \<longrightarrow> refresh_item_metadata u' api_key' w' audio' i skip' s2 =
        (Err (429, str ''Metadata can only be refreshed once per 24 hours''), s2))
    \<and> check_metadata_rate_limit i (snd (remove_item_metadata i s2))"
proof -
  obtain item where i: "get_item i (md_db s) = Some item" and c: "check_metadata_rate_limit i s"
    using assms(1) by (auto simp: refresh_item_metadata_def item_not_found_def metadata_error_def split: if_splits)
  obtain r s' where l: "lookup_and_store u api_key w i (it_file_path item) (it_original_query item) (it_original_artist item)
      (it_original_track item) (with_audio i audio s) = (r, s')" by fastforce
  have "md_limits s1 i = Some (clock (md_db s))"
    using refresh_looks_up [OF i c assms(2) l] assms(1)
    by (auto simp: metadata_error_def split: outcome.splits)
  then have check: "check_metadata_rate_limit i s2 \<longleftrightarrow> clock (md_db s) + 86400 \<le> clock (md_db s2)"
    using assms(3) by (simp add: check_metadata_rate_limit_def day_passed)
  moreover have "clock (md_db s2) < clock (md_db s) + 86400 \<longrightarrow> refresh_item_metadata u' api_key' w' audio' i skip' s2 =
      (Err (429, str ''Metadata can only be refreshed once per 24 hours''), s2)"
    using check assms(4) by (auto simp: refresh_item_metadata_def metadata_error_def metadata_status_def)
  moreover have "check_metadata_rate_limit i (snd (remove_item_metadata i s2))"
    using assms(4) by (auto simp: remove_item_metadata_def clear_item_metadata_def check_metadata_rate_limit_def)
  ultimately show ?thesis by blast
qed

lemma sample_get: "get_item 1 (md_db (metadata_start [sample_item])) = Some sample_item"
  by (simp add: get_item_def find_row_def metadata_start_def empty_db_def sample_item_def)

lemma sample_limit: "check_metadata_rate_limit 1 (metadata_start [sample_item])"
  by (simp add: check_metadata_rate_limit_def metadata_start_def)

lemma silent_fallback: "\<exists>e. fallback_answer u silent query names = Err e"
  by (cases names)
    (auto simp: fallback_answer_def search_release_def search_release_precise_def silent_def discogs_error_def Let_def)

lemma refresh_once_a_day_witness:
  "\<exists>m s1. refresh_item_metadata ascii_tables None silent None 1 None (metadata_start [sample_item]) = (Ok m, s1)
    \<and> \<not> check_metadata_rate_limit 1 s1"
proof -
  let ?s = "metadata_start [sample_item]"
  obtain r s1 where l: "lookup_and_store ascii_tables None silent 1 (it_file_path sample_item) (it_original_query sample_item)
      (it_original_artist sample_item) (it_original_track sample_item) (with_audio 1 None ?s) = (r, s1)" by fastforce
  obtain e where "primary_answer ascii_tables silent (it_original_query sample_item)
      (precise (it_original_artist sample_item) (it_original_track sample_item)) = Err e" using silent_primary by blast
  then have "is_ok r" and d: "md_db s1 = md_db ?s" using fetched_kept [OF l] by (auto simp: with_audio_def)
  then obtain m where m: "r = Ok m" by (cases r) auto
  let ?s2 = "s1\<lparr>md_limits := (md_limits s1)(1 := Some (clock (md_db ?s)))\<rparr>"
  have r: "refresh_item_metadata ascii_tables None silent None 1 None ?s = (Ok m, ?s2)"
    using refresh_looks_up [OF sample_get sample_limit _ l, of None] m by simp
  from refresh_once_a_day [OF r _ refl] sample_get have "\<not> check_metadata_rate_limit 1 ?s2" by (simp add: d)
  with r show ?thesis by blast
qed

text \<open>A refresh while no service answers is reported as a success and erases what was known: the columns are
  overwritten with the result of the failed lookup, so the item has no metadata afterwards, whatever it had
  before, and the limit keeps the caller from trying again for a day.\<close>

lemma failed_refresh_erases:
  assumes "get_item i (md_db s) = Some item" and "check_metadata_rate_limit i s" and "skip \<noteq> Some True"
    and "names = precise (it_original_artist item) (it_original_track item)"
    and "primary_answer u w (it_original_query item) names = Err e1"
    and "fallback_answer u w (it_original_query item) names = Err e2"
    and "search_bpm api_key (it_original_query item) (la_songs w) (la_song w) = Err e3" and "la_stored w"
    and "refresh_item_metadata u api_key w audio i skip s = (r, s')"
  shows "is_ok r \<and> get_item_metadata i s' = None \<and> \<not> check_metadata_rate_limit i s'"
proof -
  let ?s = "with_audio i audio s" and ?loc = "local_duration w no_metadata"
  let ?m = "?loc\<lparr>tm_fetched_at := Some (clock (md_db s))\<rparr>"
  have p: "primary_step u w (it_original_query item) names ?loc = Ok (False, ?loc)"
    using primary_outcome assms(5) by blast
  have d: "discogs_step u w (it_original_query item) names False ?loc = ?loc" by (simp add: discogs_outcome assms(6))
  have a: "tm_album_art_url ?loc = None" "tm_artist ?loc = None" "tm_title ?loc = None" "tm_bpm ?loc = None"
    by (auto simp: local_duration_def no_metadata_def split: outcome.splits)
  have b: "bpm_step api_key w (it_original_query item) ?loc = ?loc" by (simp add: bpm_step_def assms(7))
  have l: "lookup_and_store u api_key w i (it_file_path item) (it_original_query item) (it_original_artist item) (it_original_track item) ?s =
      (Ok ?m, update_item_metadata i ?m (?s\<lparr>md_lookups := md_lookups ?s @ [i]\<rparr>))"
    using p assms(8) by (simp add: lookup_and_store_def Let_def assms(4) [symmetric] d b cache_step_def a tags_step_def
        has_core_fields_def)
  have "present i ?s" using assms(1) by (simp add: present_def [of i s])
  with refresh_looks_up [OF assms(1-3) l] assms(9) a
  show ?thesis
    by (auto simp: get_item_metadata_def update_item_metadata_def present_def check_metadata_rate_limit_def Let_def)
qed

lemma failed_refresh_erases_witness:
  "get_item_metadata 1 (snd (refresh_item_metadata ascii_tables None silent None 1 None
      ((metadata_start [sample_item])\<lparr>md_columns := (\<lambda>_. null_columns\<lparr>mc_metadata := no_metadata\<lparr>tm_title := Some [97]\<rparr>\<rparr>)\<rparr>))) = None"
proof -
  let ?s = "(metadata_start [sample_item])\<lparr>md_columns := (\<lambda>_. null_columns\<lparr>mc_metadata := no_metadata\<lparr>tm_title := Some [97]\<rparr>\<rparr>)\<rparr>"
  obtain r s' where r: "refresh_item_metadata ascii_tables None silent None 1 None ?s = (r, s')" by fastforce
  have g: "get_item 1 (md_db ?s) = Some sample_item" "check_metadata_rate_limit 1 ?s"
    using sample_get by (simp_all add: check_metadata_rate_limit_def metadata_start_def)
  obtain e1 e2 where e: "primary_answer ascii_tables silent (it_original_query sample_item)
      (precise (it_original_artist sample_item) (it_original_track sample_item)) = Err e1"
    "fallback_answer ascii_tables silent (it_original_query sample_item)
      (precise (it_original_artist sample_item) (it_original_track sample_item)) = Err e2"
    using silent_primary silent_fallback by blast
  have "search_bpm None (it_original_query sample_item) (la_songs silent) (la_song silent) =
      Err (str ''GetSongBPM API key not configured'')" by (simp add: search_bpm_def)
  moreover have "la_stored silent" by (simp add: silent_def)
  ultimately show ?thesis using failed_refresh_erases [OF g _ refl e _ _ r] by (simp add: r)
qed

end
