(* ===== verification/Audio_Tags.thy ===== *)
theory Audio_Tags
  imports Music_Search
begin

text \<open>
  The tags of audio files (\<open>src/src/services/metadata/tags.rs\<close>). The \<open>lofty\<close> library is an argument: what it
  finds in a file, the tags and how they are changed, and what a file holds after it was saved. The beats per minute
  are text there, read as an \<open>f32\<close>.
\<close>

section \<open>Reading a number\<close>

text \<open>\<open>s.parse::<f32>()\<close>: an optional sign, then digits with an optional point and exponent, or a word. The value is
  the decimal one rounded to 24 significant bits. Too large or too small values are not cut off: the caller rounds
  to an integer of 32 bits, where they fall to its bounds and to zero.\<close>

definition rnd_f32 :: "rat \<Rightarrow> rat" where
  "rnd_f32 x =
     (if x = 0 then 0
      else (let u = 2 powi (exponent \<bar>x\<bar> - 23); r = of_int (round_half_even (\<bar>x\<bar> / u)) * u in if x < 0 then - r else r))"

datatype f32_value = Finite rat | Infinite bool | Not_A_Number

definition sign_of :: "rstring \<Rightarrow> bool \<times> rstring" where
  "sign_of s = (case s of c # t \<Rightarrow> if c = 45 then (True, t) else if c = 43 then (False, t) else (False, s)
     | [] \<Rightarrow> (False, s))"

definition exponent_part :: "rstring \<Rightarrow> int option" where
  "exponent_part s =
     (case s of
        [] \<Rightarrow> Some 0
      | c # t \<Rightarrow>
          if c = 101 \<or> c = 69 then
            (case sign_of t of (neg, ds) \<Rightarrow>
               map_option (\<lambda>n. if neg then - int n else int n) (parse_nat ds))
          else None)"

definition decimal :: "rstring \<Rightarrow> rat option" where
  "decimal s =
     (let whole = takeWhile digit s; rest = dropWhile digit s;
          (fraction, rest) = (case rest of
             c # t \<Rightarrow> if c = 46 then (takeWhile digit t, dropWhile digit t) else ([], rest)
           | [] \<Rightarrow> ([], rest))
      in if whole = [] \<and> fraction = [] then None
         else map_option (\<lambda>e. of_nat (digits_value 0 (whole @ fraction)) * 10 powi (e - int (length fraction)))
                (exponent_part rest))"

definition parse_f32 :: "rstring \<Rightarrow> f32_value option" where
  "parse_f32 s =
     (case sign_of s of (neg, t) \<Rightarrow>
        (let word = map ascii_lower t in
         if word = str ''inf'' \<or> word = str ''infinity'' then Some (Infinite neg)
         else if word = str ''nan'' then Some Not_A_Number
         else map_option (\<lambda>v. Finite (rnd_f32 (if neg then - v else v))) (decimal t)))"

text \<open>\<open>v.round() as i32\<close>\<close>

definition f32_to_i32 :: "f32_value \<Rightarrow> int" where
  "f32_to_i32 v =
     (case v of
        Finite x \<Rightarrow> round_i32 x
      | Infinite neg \<Rightarrow> if neg then - (2 ^ 31) else 2 ^ 31 - 1
      | Not_A_Number \<Rightarrow> 0)"

section \<open>The library\<close>

datatype text_field = Title | Artist | Album | Genre
datatype number_field = Year | Track
datatype item_key = Bpm | Initial_Key | Label | Music_Brainz_Recording_Id

text \<open>Reading a file gives an \<open>'f\<close>, with its properties and tags; \<open>lf_saved\<close> is what reading it again gives after it
  was saved. The numbers of a tag are of 32 bits.\<close>

record ('f, 't) lofty =
  lf_duration_ms :: "'f \<Rightarrow> int"
  lf_sample_rate :: "'f \<Rightarrow> int option"
  lf_bit_depth :: "'f \<Rightarrow> int option"
  lf_primary :: "'f \<Rightarrow> 't option"
  lf_set_primary :: "'t \<Rightarrow> 'f \<Rightarrow> 'f"
  lf_first :: "'f \<Rightarrow> 't option"
  lf_set_first :: "'t \<Rightarrow> 'f \<Rightarrow> 'f"
  lf_new_tag :: "'f \<Rightarrow> 't"
  lf_insert_tag :: "'t \<Rightarrow> 'f \<Rightarrow> 'f"
  lf_text :: "text_field \<Rightarrow> 't \<Rightarrow> rstring option"
  lf_set_text :: "text_field \<Rightarrow> rstring \<Rightarrow> 't \<Rightarrow> 't"
  lf_number :: "number_field \<Rightarrow> 't \<Rightarrow> int option"
  lf_set_number :: "number_field \<Rightarrow> int \<Rightarrow> 't \<Rightarrow> 't"
  lf_item :: "item_key \<Rightarrow> 't \<Rightarrow> rstring option"
  lf_set_item :: "item_key \<Rightarrow> rstring \<Rightarrow> 't \<Rightarrow> 't"
  lf_saved :: "'f \<Rightarrow> 'f"

section \<open>Reading\<close>

text \<open>\<open>opened\<close>: the file as the library reads it, or its error.\<close>

definition read_duration :: "('f, 't) lofty \<Rightarrow> ('f, rstring) outcome \<Rightarrow> (int, rstring) outcome" where
  "read_duration L opened = obind opened (\<lambda>f. Ok (as_i64 (lf_duration_ms L f)))"

definition tag_to_read :: "('f, 't) lofty \<Rightarrow> 'f \<Rightarrow> 't option" where
  "tag_to_read L f = (case lf_primary L f of Some t \<Rightarrow> Some t | None \<Rightarrow> lf_first L f)"

definition tag_metadata :: "('f, 't) lofty \<Rightarrow> 't \<Rightarrow> track_metadata \<Rightarrow> track_metadata" where
  "tag_metadata L t m =
     m\<lparr>tm_title := lf_text L Title t, tm_artist := lf_text L Artist t, tm_album := lf_text L Album t,
       tm_genre := lf_text L Genre t, tm_year := map_option as_i32 (lf_number L Year t),
       tm_track_number := map_option as_i32 (lf_number L Track t),
       tm_bpm := (case lf_item L Bpm t of
           None \<Rightarrow> tm_bpm m
         | Some s \<Rightarrow> (case parse_f32 s of Some v \<Rightarrow> Some (f32_to_i32 v) | None \<Rightarrow> tm_bpm m)),
       tm_key := (case lf_item L Initial_Key t of None \<Rightarrow> tm_key m | Some k \<Rightarrow> Some k),
       tm_label := (case lf_item L Label t of None \<Rightarrow> tm_label m | Some l \<Rightarrow> Some l),
       tm_musicbrainz_id := (case lf_item L Music_Brainz_Recording_Id t of None \<Rightarrow> tm_musicbrainz_id m | Some i \<Rightarrow> Some i)\<rparr>"

definition read_tags :: "('f, 't) lofty \<Rightarrow> ('f, rstring) outcome \<Rightarrow> (track_metadata, rstring) outcome" where
  "read_tags L opened =
     obind opened (\<lambda>f.
       let m = no_metadata\<lparr>tm_duration_ms := Some (as_i64 (lf_duration_ms L f))\<rparr>;
           m = (case tag_to_read L f of Some t \<Rightarrow> tag_metadata L t m | None \<Rightarrow> m)
       in Ok (if tm_artist m \<noteq> None \<or> tm_title m \<noteq> None then m\<lparr>tm_sources := tm_sources m @ [str ''file_tags'']\<rparr>
              else m))"

definition read_audio_properties ::
  "('f, 't) lofty \<Rightarrow> ('f, rstring) outcome \<Rightarrow> (int option \<times> int option, rstring) outcome" where
  "read_audio_properties L opened =
     obind opened (\<lambda>f. Ok (map_option as_i32 (lf_sample_rate L f), lf_bit_depth L f))"

section \<open>Writing\<close>

definition as_u32 :: "int \<Rightarrow> int" where "as_u32 n = n mod 2 ^ 32"

definition if_present :: "'a option \<Rightarrow> ('a \<Rightarrow> 't \<Rightarrow> 't) \<Rightarrow> 't \<Rightarrow> 't" where
  "if_present v write t = (case v of Some x \<Rightarrow> write x t | None \<Rightarrow> t)"

definition write_fields :: "('f, 't) lofty \<Rightarrow> track_metadata \<Rightarrow> 't \<Rightarrow> 't" where
  "write_fields L m t =
     (let t = if_present (tm_title m) (lf_set_text L Title) t;
          t = if_present (tm_artist m) (lf_set_text L Artist) t;
          t = if_present (tm_album m) (lf_set_text L Album) t;
          t = if_present (tm_genre m) (lf_set_text L Genre) t;
          t = if_present (tm_year m) (\<lambda>y. lf_set_number L Year (as_u32 y)) t;
          t = if_present (tm_track_number m) (\<lambda>n. lf_set_number L Track (as_u32 n)) t;
          t = if_present (tm_bpm m) (\<lambda>b. lf_set_item L Bpm (show_int b)) t;
          t = if_present (tm_key m) (lf_set_item L Initial_Key) t;
          t = if_present (tm_label m) (lf_set_item L Label) t
      in if_present (tm_musicbrainz_id m) (lf_set_item L Music_Brainz_Recording_Id) t)"

text \<open>The primary tag is changed, or the first one, or a new one; then the file is saved (\<open>saved\<close>: whether that
  works). Unwrapping the tag just inserted panics if the library has not made it the primary one.\<close>

definition write_tags ::
  "('f, 't) lofty \<Rightarrow> bool \<Rightarrow> track_metadata \<Rightarrow> ('f, rstring) outcome \<Rightarrow> ('f, rstring) outcome" where
  "write_tags L saved m opened =
     obind opened (\<lambda>f.
       obind (case lf_primary L f of
                Some t \<Rightarrow> Ok (lf_set_primary L (write_fields L m t) f)
              | None \<Rightarrow>
                  (case lf_first L f of
                     Some t \<Rightarrow> Ok (lf_set_first L (write_fields L m t) f)
                   | None \<Rightarrow>
                       (let f = lf_insert_tag L (lf_new_tag L f) f in
                        case lf_primary L f of
                          Some t \<Rightarrow> Ok (lf_set_primary L (write_fields L m t) f)
                        | None \<Rightarrow> Panic)))
         (\<lambda>f. if saved then Ok (lf_saved L f) else Err (str ''Failed to save tags to file'')))"

section \<open>Properties\<close>

text \<open>Integers of less than 24 bits are exact, so that the text of one is read back as it was.\<close>

lemma rnd_f32_int:
  assumes "0 < n" and "n < 2 ^ 24"
  shows "rnd_f32 (of_int n) = of_int n"
proof -
  define u :: rat where "u = 2 powi (exponent (of_int n) - 23)"
  have u: "u \<noteq> 0" by (simp add: u_def)
  have "(2 :: rat) powi exponent (of_int n) \<le> of_int n" using assms by (simp add: exponent_bounds)
  also have "(of_int n :: rat) < of_int (2 ^ 24)" using assms by (simp only: of_int_less_iff)
  also have "of_int (2 ^ 24) = (2 :: rat) powi 24" by simp
  finally have "exponent (of_int n) < 24" by (rule powi2_less)
  then have k: "of_int n / u = of_int (n * 2 ^ nat (23 - exponent (of_int n)))"
    by (simp add: u_def power_int_def field_simps power_int_diff)
  have "rnd_f32 (of_int n) = of_int (round_half_even (of_int n / u)) * u"
    using assms by (simp add: rnd_f32_def Let_def u_def)
  also have "\<dots> = of_int n / u * u" unfolding k by (simp only: round_half_even_int)
  finally show ?thesis using u by simp
qed

lemma rnd_f32_exact: "\<bar>n\<bar> < 2 ^ 24 \<Longrightarrow> rnd_f32 (of_int n) = of_int n"
proof -
  assume b: "\<bar>n\<bar> < 2 ^ 24"
  have m: "rnd_f32 (- x) = - rnd_f32 x" for x by (simp add: rnd_f32_def Let_def)
  consider "n = 0" | "0 < n" | "0 < - n" by linarith
  then show ?thesis
  proof cases
    case 3
    then have "rnd_f32 (of_int (- n)) = of_int (- n)" using b by (intro rnd_f32_int) auto
    then show ?thesis by (simp add: m)
  qed (use b rnd_f32_int [of n] in \<open>auto simp: rnd_f32_def\<close>)
qed

lemma shown_cons: obtains c t where "show_nat n = c # t" and "digit c"
  using show_nat_not_Nil [of n] digit_show [of n] by (cases "show_nat n") auto

lemma decimal_show: "decimal (show_nat n) = Some (of_nat n)"
proof -
  have digits: "takeWhile digit (show_nat n) = show_nat n" "dropWhile digit (show_nat n) = []"
    using digit_show [of n] by (auto simp: list_all_iff takeWhile_eq_all_conv dropWhile_eq_Nil_conv)
  show ?thesis by (simp add: digits decimal_def exponent_part_def digits_value_show show_nat_not_Nil Let_def)
qed

lemma word_show: "map ascii_lower (show_nat n) \<noteq> c # t" if "\<not> digit c"
proof -
  obtain d s where d: "show_nat n = d # s" "digit d" by (rule shown_cons)
  then have "ascii_lower d = d" by (simp add: ascii_lower_def digit_def)
  with d that show ?thesis by auto
qed

lemma parse_f32_show:
  shows "parse_f32 (show_int n) = Some (Finite (rnd_f32 (of_int n)))"
proof -
  obtain c t where c: "show_nat (nat n) = c # t" "digit c" by (rule shown_cons)
  then have "sign_of (show_nat (nat n)) = (False, show_nat (nat n))" by (auto simp: sign_of_def digit_def)
  moreover have "map ascii_lower (show_nat k) \<notin> {str ''inf'', str ''infinity'', str ''nan''}" for k
    using word_show [of "105"] word_show [of "110"] by (auto simp: str_def digit_def)
  ultimately show ?thesis
    by (auto simp: parse_f32_def show_int_def decimal_show sign_of_def [of "45 # s" for s])
qed

lemma f32_to_i32_int: "\<bar>n\<bar> < 2 ^ 24 \<Longrightarrow> f32_to_i32 (Finite (of_int n)) = n"
proof -
  assume "\<bar>n\<bar> < 2 ^ 24"
  moreover have "\<lfloor>of_int k + 1 / 2 :: rat\<rfloor> = k" for k by linarith
  moreover have "\<lfloor>- of_int k + 1 / 2 :: rat\<rfloor> = - k" for k by linarith
  ultimately show ?thesis by (auto simp: f32_to_i32_def round_i32_def)
qed

text \<open>What is asked of the library for a tag, as a list: the fields that are present, in their order, with the text or
  the number handed over for each.\<close>

datatype tag_call = Set_Text text_field rstring | Set_Number number_field int | Set_Item item_key rstring

definition calls_for :: "('a \<Rightarrow> tag_call) \<Rightarrow> 'a option \<Rightarrow> tag_call list" where
  "calls_for call v = (case v of Some x \<Rightarrow> [call x] | None \<Rightarrow> [])"

definition tag_calls :: "track_metadata \<Rightarrow> tag_call list" where
  "tag_calls m =
     calls_for (Set_Text Title) (tm_title m) @ calls_for (Set_Text Artist) (tm_artist m)
     @ calls_for (Set_Text Album) (tm_album m) @ calls_for (Set_Text Genre) (tm_genre m)
     @ calls_for (Set_Number Year \<circ> as_u32) (tm_year m) @ calls_for (Set_Number Track \<circ> as_u32) (tm_track_number m)
     @ calls_for (Set_Item Bpm \<circ> show_int) (tm_bpm m) @ calls_for (Set_Item Initial_Key) (tm_key m)
     @ calls_for (Set_Item Label) (tm_label m) @ calls_for (Set_Item Music_Brainz_Recording_Id) (tm_musicbrainz_id m)"

fun perform :: "('f, 't) lofty \<Rightarrow> tag_call \<Rightarrow> 't \<Rightarrow> 't" where
  "perform L (Set_Text x s) t = lf_set_text L x s t"
| "perform L (Set_Number x n) t = lf_set_number L x n t"
| "perform L (Set_Item x s) t = lf_set_item L x s t"

text \<open>Whether the library finds in a tag what was handed over, and whether two metadata have the same in that
  field.\<close>

fun found_in :: "('f, 't) lofty \<Rightarrow> 't \<Rightarrow> tag_call \<Rightarrow> bool" where
  "found_in L t (Set_Text x s) \<longleftrightarrow> lf_text L x t = Some s"
| "found_in L t (Set_Number x n) \<longleftrightarrow> lf_number L x t = Some n"
| "found_in L t (Set_Item x s) \<longleftrightarrow> lf_item L x t = Some s"

fun same_field :: "tag_call \<Rightarrow> track_metadata \<Rightarrow> track_metadata \<Rightarrow> bool" where
  "same_field (Set_Text Title _) m m' \<longleftrightarrow> tm_title m = tm_title m'"
| "same_field (Set_Text Artist _) m m' \<longleftrightarrow> tm_artist m = tm_artist m'"
| "same_field (Set_Text Album _) m m' \<longleftrightarrow> tm_album m = tm_album m'"
| "same_field (Set_Text Genre _) m m' \<longleftrightarrow> tm_genre m = tm_genre m'"
| "same_field (Set_Number Year _) m m' \<longleftrightarrow> tm_year m = tm_year m'"
| "same_field (Set_Number Track _) m m' \<longleftrightarrow> tm_track_number m = tm_track_number m'"
| "same_field (Set_Item Bpm _) m m' \<longleftrightarrow> tm_bpm m = tm_bpm m'"
| "same_field (Set_Item Initial_Key _) m m' \<longleftrightarrow> tm_key m = tm_key m'"
| "same_field (Set_Item Label _) m m' \<longleftrightarrow> tm_label m = tm_label m'"
| "same_field (Set_Item Music_Brainz_Recording_Id _) m m' \<longleftrightarrow> tm_musicbrainz_id m = tm_musicbrainz_id m'"

definition in_range :: "track_metadata \<Rightarrow> bool" where
  "in_range m \<longleftrightarrow> (\<forall>b. tm_bpm m = Some b \<longrightarrow> \<bar>b\<bar> < 2 ^ 24)
     \<and> (\<forall>y. tm_year m = Some y \<longrightarrow> - (2 ^ 31) \<le> y \<and> y < 2 ^ 31)
     \<and> (\<forall>n. tm_track_number m = Some n \<longrightarrow> - (2 ^ 31) \<le> n \<and> n < 2 ^ 31)"

lemma number_back: "- (2 ^ 31) \<le> n \<Longrightarrow> n < 2 ^ 31 \<Longrightarrow> as_i32 (as_u32 n) = n"
  by (simp add: as_i32_def as_u32_def mod_add_left_eq)

lemma set_calls [simp]: "c \<in> set (calls_for call v) \<longleftrightarrow> (\<exists>x. v = Some x \<and> c = call x)"
  by (auto simp: calls_for_def split: option.split)

lemma perform_calls: "fold (perform L) (calls_for call v) t = if_present v (perform L \<circ> call) t"
  by (simp add: calls_for_def if_present_def split: option.split)

lemma performed_funs:
  "perform L \<circ> Set_Text x = lf_set_text L x" "perform L \<circ> Set_Item y = lf_set_item L y"
  "perform L \<circ> (Set_Number z \<circ> f) = (\<lambda>n. lf_set_number L z (f n))" "perform L \<circ> (Set_Item y \<circ> g) = (\<lambda>n. lf_set_item L y (g n))"
  by (simp_all add: fun_eq_iff)

lemma fields_performed: "write_fields L m t = fold (perform L) (tag_calls m) t"
  by (simp add: write_fields_def tag_calls_def perform_calls performed_funs Let_def)

lemma found_field_read:
  assumes "in_range m" and "c \<in> set (tag_calls m)" and "found_in L t c"
  shows "same_field c (tag_metadata L t old) m"
  using assms
  by (auto simp: tag_calls_def tag_metadata_def in_range_def parse_f32_show rnd_f32_exact f32_to_i32_int number_back)

text \<open>C27: What the program hands over for the tags it can read. Writing metadata into a tag asks the library for exactly
  one change for each of the ten fields that is present, in their order. And whatever the library does with them
  and when saving the file - it may drop some, or be given others later -, each of these texts and numbers that is
  found in a tag when it is read gives the field the value that was to be written: also the beats per minute, which
  go out as the text of an integer and come back through a 32-bit floating point number, and negative years and
  track numbers, which go out as unsigned ones. (For beats per minute of less than 24 bits and years and track
  numbers of 32.)\<close>

theorem handed_over_read_back:
  assumes "in_range m"
  shows "write_fields L m t = fold (perform L) (tag_calls m) t
    \<and> list_all (\<lambda>c. found_in L t' c \<longrightarrow> same_field c (tag_metadata L t' old) m) (tag_calls m)"
  using fields_performed found_field_read [OF assms] by (auto simp: list_all_iff)

text \<open>The bound on the beats per minute is needed: a larger integer is read as another one.\<close>

lemma large_tempo_changes: "map_option f32_to_i32 (parse_f32 (show_int 16777217)) = Some 16777216"
proof -
  have "exponent (16777217 :: rat) = 24" by (rule exponent_unique) simp_all
  then have "rnd_f32 (of_int 16777217) = of_int 16777216"
    by (simp add: rnd_f32_def Let_def) (simp add: round_half_even_def Let_def floor_divide_of_int_eq [of 16777217 2, simplified])
  then show ?thesis by (simp add: parse_f32_show f32_to_i32_int) (simp add: f32_to_i32_def round_i32_def floor_eq_iff)
qed

text \<open>A file with at most one tag, as three maps.\<close>

record sample_tag =
  st_texts :: "text_field \<Rightarrow> rstring option"
  st_numbers :: "number_field \<Rightarrow> int option"
  st_items :: "item_key \<Rightarrow> rstring option"

definition sample_lofty :: "(sample_tag option, sample_tag) lofty" where
  "sample_lofty =
     \<lparr>lf_duration_ms = (\<lambda>_. 180000), lf_sample_rate = (\<lambda>_. None), lf_bit_depth = (\<lambda>_. None),
      lf_primary = (\<lambda>f. f), lf_set_primary = (\<lambda>t f. Some t), lf_first = (\<lambda>f. f), lf_set_first = (\<lambda>t f. Some t),
      lf_new_tag = (\<lambda>f. \<lparr>st_texts = (\<lambda>_. None), st_numbers = (\<lambda>_. None), st_items = (\<lambda>_. None)\<rparr>),
      lf_insert_tag = (\<lambda>t f. Some t), lf_text = (\<lambda>x t. st_texts t x),
      lf_set_text = (\<lambda>x s t. t\<lparr>st_texts := (st_texts t)(x \<mapsto> s)\<rparr>),
      lf_number = (\<lambda>x t. st_numbers t x), lf_set_number = (\<lambda>x n t. t\<lparr>st_numbers := (st_numbers t)(x \<mapsto> n)\<rparr>),
      lf_item = (\<lambda>x t. st_items t x), lf_set_item = (\<lambda>x s t. t\<lparr>st_items := (st_items t)(x \<mapsto> s)\<rparr>),
      lf_saved = (\<lambda>f. f)\<rparr>"

definition sample_tagged :: track_metadata where
  "sample_tagged = no_metadata\<lparr>tm_title := Some (str ''a''), tm_year := Some (-3), tm_bpm := Some 120\<rparr>"

definition sample_written :: sample_tag where
  "sample_written = write_fields sample_lofty sample_tagged \<lparr>st_texts = (\<lambda>_. None), st_numbers = (\<lambda>_. None), st_items = (\<lambda>_. None)\<rparr>"

theorem handed_over_read_back_witness:
  "tm_bpm (tag_metadata sample_lofty sample_written no_metadata) = Some 120
   \<and> tm_year (tag_metadata sample_lofty sample_written no_metadata) = Some (-3)"
proof -
  have "in_range sample_tagged" by (simp add: in_range_def sample_tagged_def no_metadata_def)
  from handed_over_read_back [OF this, of sample_lofty _ sample_written no_metadata]
  show ?thesis
    by (simp add: tag_calls_def calls_for_def sample_tagged_def no_metadata_def sample_written_def write_fields_def
        if_present_def sample_lofty_def Let_def)
qed

end
