(* ===== verification/Playlist_Imports.thy ===== *)
theory Playlist_Imports
  imports Database
begin

text \<open>
  The imports of playlists: the tables \<open>playlist_imports\<close> and \<open>failed_import_tracks\<close> with their statements in
  \<open>src/src/db/mod.rs\<close>. The rows refer to the users, the lists and the items of the other tables,
  which is checked when foreign keys are on. Times are
  seconds, counters signed 32-bit integers of the columns.
\<close>

record playlist_import =
  pi_id :: int
  pi_user_id :: int
  pi_service :: rstring
  pi_external_id :: rstring
  pi_external_name :: "rstring option"
  pi_external_url :: "rstring option"
  pi_owner_name :: "rstring option"
  pi_list_id :: "int option"
  pi_total :: int
  pi_imported :: int
  pi_failed :: int
  pi_skipped :: int
  pi_status :: string
  pi_error :: "rstring option"
  pi_created_at :: nat
  pi_started_at :: "nat option"
  pi_completed_at :: "nat option"

record failed_track =
  ft_id :: int
  ft_import_id :: int
  ft_external_id :: "rstring option"
  ft_artist :: rstring
  ft_track :: rstring
  ft_album :: "rstring option"
  ft_duration_ms :: "int option"
  ft_reason :: "rstring option"
  ft_retry_count :: int
  ft_last_retry_at :: "nat option"
  ft_status :: string
  ft_item_id :: "int option"
  ft_created_at :: nat

record import_db =
  im_db :: database
  im_imports :: "playlist_import list"
  im_import_seq :: int
  im_tracks :: "failed_track list"
  im_track_seq :: int

definition im_now :: "import_db \<Rightarrow> nat" where
  "im_now s = clock (im_db s)"

section \<open>Imports\<close>

text \<open>A user imports a playlist of a service once; the user and the list have to exist.\<close>

definition import_conflict :: "int \<Rightarrow> rstring \<Rightarrow> rstring \<Rightarrow> import_db \<Rightarrow> bool" where
  "import_conflict user service playlist s \<longleftrightarrow>
     list_ex (\<lambda>p. pi_user_id p = user \<and> pi_service p = service \<and> pi_external_id p = playlist) (im_imports s)"

definition create_playlist_import ::
  "int \<Rightarrow> rstring \<Rightarrow> rstring \<Rightarrow> rstring option \<Rightarrow> rstring option \<Rightarrow> rstring option \<Rightarrow> int \<Rightarrow> int \<Rightarrow> import_db \<Rightarrow>
   (playlist_import, rstring) outcome \<times> import_db" where
  "create_playlist_import user service playlist name url owner list_id total_tracks s =
     (if db_fk (im_db s) \<and> \<not> (has_user (im_db s) user \<and> has_list (im_db s) list_id)
         \<or> import_conflict user service playlist s
      then (Err (str ''Failed to create playlist import''), s)
      else
        (let p = \<lparr>pi_id = im_import_seq s + 1, pi_user_id = user, pi_service = service, pi_external_id = playlist,
                  pi_external_name = name, pi_external_url = url, pi_owner_name = owner, pi_list_id = Some list_id,
                  pi_total = total_tracks, pi_imported = 0, pi_failed = 0, pi_skipped = 0, pi_status = ''pending'',
                  pi_error = None, pi_created_at = im_now s, pi_started_at = None, pi_completed_at = None\<rparr>
         in (Ok p, s\<lparr>im_imports := im_imports s @ [p], im_import_seq := im_import_seq s + 1\<rparr>)))"

definition get_playlist_import :: "int \<Rightarrow> import_db \<Rightarrow> playlist_import option" where
  "get_playlist_import i s = find (\<lambda>p. pi_id p = i) (im_imports s)"

definition get_user_playlist_imports :: "int \<Rightarrow> import_db \<Rightarrow> playlist_import list" where
  "get_user_playlist_imports user s =
     newest_first pi_created_at (filter (\<lambda>p. pi_user_id p = user) (im_imports s))"

definition update_import :: "int \<Rightarrow> (playlist_import \<Rightarrow> playlist_import) \<Rightarrow> import_db \<Rightarrow> import_db" where
  "update_import i f s = s\<lparr>im_imports := map (\<lambda>p. if pi_id p = i then f p else p) (im_imports s)\<rparr>"

definition finished_status :: "string \<Rightarrow> bool" where
  "finished_status st \<longleftrightarrow> st \<in> set [''completed'', ''partial'', ''failed'']"

definition update_playlist_import_progress ::
  "int \<Rightarrow> string \<Rightarrow> int \<Rightarrow> int \<Rightarrow> int \<Rightarrow> import_db \<Rightarrow> import_db" where
  "update_playlist_import_progress i status imported failed skipped s =
     update_import i
       (\<lambda>p. p\<lparr>pi_imported := imported, pi_failed := failed, pi_skipped := skipped, pi_status := status,
         pi_started_at := (if pi_started_at p = None \<and> status = ''importing'' then Some (im_now s)
                           else pi_started_at p),
         pi_completed_at := (if finished_status status then Some (im_now s) else None)\<rparr>) s"

definition mark_playlist_import_failed :: "int \<Rightarrow> rstring \<Rightarrow> import_db \<Rightarrow> import_db" where
  "mark_playlist_import_failed i message s =
     update_import i
       (\<lambda>p. p\<lparr>pi_status := ''failed'', pi_error := Some message, pi_completed_at := Some (im_now s)\<rparr>) s"

section \<open>Tracks that failed\<close>

definition create_failed_import_track ::
  "int \<Rightarrow> rstring option \<Rightarrow> rstring \<Rightarrow> rstring \<Rightarrow> rstring option \<Rightarrow> int option \<Rightarrow> rstring \<Rightarrow> import_db \<Rightarrow>
   (failed_track, rstring) outcome \<times> import_db" where
  "create_failed_import_track import_id external artist track album duration_ms reason s =
     (if db_fk (im_db s) \<and> get_playlist_import import_id s = None then (Err (str ''Failed to create failed import track''), s)
      else
        (let t = \<lparr>ft_id = im_track_seq s + 1, ft_import_id = import_id, ft_external_id = external,
                  ft_artist = artist, ft_track = track, ft_album = album, ft_duration_ms = duration_ms,
                  ft_reason = Some reason, ft_retry_count = 0, ft_last_retry_at = None, ft_status = ''failed'',
                  ft_item_id = None, ft_created_at = im_now s\<rparr>
         in (Ok t, s\<lparr>im_tracks := im_tracks s @ [t], im_track_seq := im_track_seq s + 1\<rparr>)))"

definition get_failed_import_tracks :: "int \<Rightarrow> import_db \<Rightarrow> failed_track list" where
  "get_failed_import_tracks import_id s =
     sort_key ft_id (filter (\<lambda>t. ft_import_id t = import_id) (im_tracks s))"

definition update_track :: "int \<Rightarrow> (failed_track \<Rightarrow> failed_track) \<Rightarrow> import_db \<Rightarrow> import_db" where
  "update_track i f s = s\<lparr>im_tracks := map (\<lambda>t. if ft_id t = i then f t else t) (im_tracks s)\<rparr>"

definition mark_failed_track_for_retry :: "int \<Rightarrow> import_db \<Rightarrow> import_db" where
  "mark_failed_track_for_retry i s =
     update_track i (\<lambda>t. t\<lparr>ft_retry_count := ft_retry_count t + 1, ft_last_retry_at := Some (im_now s),
       ft_status := ''pending_retry''\<rparr>) s"

definition mark_failed_track_success :: "int \<Rightarrow> int \<Rightarrow> import_db \<Rightarrow> (unit, rstring) outcome \<times> import_db" where
  "mark_failed_track_success i item s =
     (if db_fk (im_db s) \<and> \<not> has_item (im_db s) item \<and> list_ex (\<lambda>t. ft_id t = i) (im_tracks s) then
        (Err (str ''Failed to mark failed track as successful''), s)
      else (Ok (), update_track i (\<lambda>t. t\<lparr>ft_status := ''retry_success'', ft_item_id := Some item\<rparr>) s))"

definition get_retryable_failed_tracks :: "int \<Rightarrow> import_db \<Rightarrow> failed_track list" where
  "get_retryable_failed_tracks import_id s =
     sort_key ft_id (filter (\<lambda>t. ft_import_id t = import_id \<and> ft_status t = ''failed'') (im_tracks s))"

end
