(* ===== verification/OAuth_Properties.thy ===== *)
theory OAuth_Properties
  imports Spotify_Provider Playlist_Imports
begin

text \<open>
  The properties of the connections to streaming services: tokens at rest, the life of a pending state, the
  constraints of the tables under every handler, which access token a call uses, the paging through a
  playlist, and the rows of the imports.
\<close>

section \<open>Tokens at rest\<close>

text \<open>
  What is relied on: AES-GCM opens exactly what it sealed, under the same key and nonce (it is
  deterministic), and the base64 decoder accepts exactly what the encoder writes.
\<close>

definition cipher_laws :: "crypto \<Rightarrow> bool" where
  "cipher_laws c \<longleftrightarrow>
     (\<forall>k n p x. seal c k n p = Some x \<longleftrightarrow> unseal c k n x = Some p)
     \<and> (\<forall>b t. base64 c b = t \<longleftrightarrow> unbase64 c t = Some b)"

text \<open>A stored text decrypts to a token under a key exactly when it is an encryption of that token under
  that key, with some nonce of twelve bytes: nothing else is ever accepted as a stored token, and every
  stored token is read back.\<close>

lemma tokens_at_rest:
  assumes "cipher_laws c" and "valid_str tok"
  shows "decrypt_token c e key = Ok tok \<longleftrightarrow> (\<exists>n. length n = nonce_size \<and> encrypt_token c n tok key = Ok e)"
proof
  assume d: "decrypt_token c e key = Ok tok"
  then obtain b p where k: "length key = key_size" "unbase64 c e = Some b" "nonce_size \<le> length b"
      "unseal c key (take nonce_size b) (drop nonce_size b) = Some p" "from_utf8 p = Some tok"
    by (auto simp: decrypt_token_def split: if_splits option.splits)
  have "base64 c b = e" "seal c key (take nonce_size b) p = Some (drop nonce_size b)" "as_bytes tok = p"
    using assms(1) k as_bytes_from_utf8 by (auto simp: cipher_laws_def)
  then have "encrypt_token c (take nonce_size b) tok key = Ok e" "length (take nonce_size b) = nonce_size"
    using k by (auto simp: encrypt_token_def)
  then show "\<exists>n. length n = nonce_size \<and> encrypt_token c n tok key = Ok e" by blast
next
  assume "\<exists>n. length n = nonce_size \<and> encrypt_token c n tok key = Ok e"
  then obtain n x where n: "length n = nonce_size" "length key = key_size" "seal c key n (as_bytes tok) = Some x"
      "base64 c (n @ x) = e"
    by (auto simp: encrypt_token_def split: if_splits option.splits)
  have "unbase64 c e = Some (n @ x)" "unseal c key n x = Some (as_bytes tok)"
    using assms(1) n by (auto simp: cipher_laws_def)
  then show "decrypt_token c e key = Ok tok"
    using n from_utf8_as_bytes [OF assms(2)] by (simp add: decrypt_token_def)
qed

text \<open>A cipher that satisfies the laws: the plain text behind a tag made of the first byte of the key.\<close>

definition sample_crypto :: crypto where
  "sample_crypto =
     \<lparr>seal = (\<lambda>k n p. Some (take 1 k @ p)),
      unseal = (\<lambda>k n x. if prefix (take 1 k) x then Some (drop (length (take 1 k)) x) else None),
      aead_error = [], base64 = map unat,
      unbase64 = (\<lambda>t. if list_all (\<lambda>c. c < 256) t then Some (map byte_of t) else None),
      hkdf = (\<lambda>salt secret info n. replicate n (case secret of [] \<Rightarrow> 0 | b # _ \<Rightarrow> b))\<rparr>"

lemma sample_crypto_laws: "cipher_laws sample_crypto"
proof -
  have "unat b < 256" for b :: u8 using unsigned_less [of b] by simp
  moreover have "map unat (map byte_of t) = t" if "list_all (\<lambda>c. c < 256) t" for t
    using that by (induction t) auto
  moreover have "map byte_of (map unat b) = b" for b by (induction b) auto
  ultimately show ?thesis
    by (auto simp: cipher_laws_def sample_crypto_def prefix_def list_all_iff)
qed

lemma tokens_at_rest_witness:
  "decrypt_token sample_crypto (replicate 12 0 @ [7, 104, 105]) (replicate 32 7) = Ok [104, 105]
   \<longleftrightarrow> (\<exists>n. length n = nonce_size \<and> encrypt_token sample_crypto n [104, 105] (replicate 32 7)
            = Ok (replicate 12 0 @ [7, 104, 105]))"
  by (rule tokens_at_rest [OF sample_crypto_laws]) (simp add: is_scalar_def)

section \<open>What the tables keep\<close>

definition pending_ok :: "oauth_db \<Rightarrow> bool" where
  "pending_ok s \<longleftrightarrow>
     distinct (map op_state (od_pending s))
     \<and> list_all (\<lambda>p. known_user (op_user_id p) s \<and> op_created_at p \<le> od_now s
                    \<and> op_expires_at p \<le> op_created_at p + 300) (od_pending s)"

definition connections_ok :: "oauth_db \<Rightarrow> bool" where
  "connections_ok s \<longleftrightarrow>
     distinct (map (\<lambda>c. (oc_user_id c, oc_service c)) (od_connections s))
     \<and> list_all (\<lambda>c. known_user (oc_user_id c) s \<and> oc_status c = ''active'') (od_connections s)"

definition oauth_ok :: "oauth_db \<Rightarrow> bool" where
  "oauth_ok s \<longleftrightarrow> pending_ok s \<and> connections_ok s"

lemma update_connections_simps [simp]:
  "od_accounts (update_connections user service f s) = od_accounts s"
  "od_pending (update_connections user service f s) = od_pending s"
  "od_now (update_connections user service f s) = od_now s"
  "known_user i (update_connections user service f s) = known_user i s"
  by (simp_all add: update_connections_def od_now_def known_user_def)

lemma with_ok_snd:
  "snd (with_ok r s f) = (case r of Ok x \<Rightarrow> snd (f x) | _ \<Rightarrow> s)"
  by (cases r) auto

text \<open>An update that keeps the key, the status and so the constraints.\<close>

lemma connections_ok_update:
  assumes "connections_ok s"
    and "\<And>c. oc_user_id (f c) = oc_user_id c" "\<And>c. oc_service (f c) = oc_service c"
    and "\<And>c. oc_status c = ''active'' \<Longrightarrow> oc_status (f c) = ''active''"
  shows "connections_ok (update_connections user service f s)"
proof -
  have "map (\<lambda>c. (oc_user_id c, oc_service c)) (map (\<lambda>c. if connection_of user service c then f c else c) xs)
      = map (\<lambda>c. (oc_user_id c, oc_service c)) xs" for xs
    using assms(2,3) by (induction xs) auto
  moreover have "list_all (\<lambda>c. known_user (oc_user_id c) s \<and> oc_status c = ''active'')
      (od_connections (update_connections user service f s))"
    using assms by (auto simp: connections_ok_def update_connections_def list_all_iff)
  ultimately show ?thesis
    using assms(1)
    by (simp add: connections_ok_def update_connections_def od_now_def known_user_def del: map_map)
qed

lemma connections_ok_upsert:
  assumes "connections_ok s"
  shows "connections_ok (snd (upsert_oauth_connection user service ext name access refresh expires scps s))"
proof (cases "known_user user s")
  case False
  then show ?thesis using assms by (simp add: upsert_oauth_connection_def)
next
  case True
  show ?thesis
  proof (cases "get_oauth_connection user service s")
    case None
    then have "(user, service) \<notin> (\<lambda>c. (oc_user_id c, oc_service c)) ` set (od_connections s)"
      by (auto simp: get_oauth_connection_def find_None_iff connection_of_def)
    with True None assms show ?thesis
      by (auto simp: upsert_oauth_connection_def connections_ok_def list_all_iff known_user_def)
  next
    case (Some c)
    with True have "snd (upsert_oauth_connection user service ext name access refresh expires scps s)
        = update_connections user service
           (\<lambda>c. c\<lparr>oc_external_user_id := Some ext, oc_external_username := Some name, oc_access := access,
             oc_refresh := refresh, oc_expires_at := expires, oc_scopes := Some scps, oc_status := ''active'',
             oc_updated_at := od_now s\<rparr>) s"
      by (simp add: upsert_oauth_connection_def)
    then show ?thesis by (simp add: connections_ok_update [OF assms])
  qed
qed

lemma upsert_pending [simp]:
  "od_pending (snd (upsert_oauth_connection user service ext name access refresh expires scps s)) = od_pending s"
  "od_accounts (snd (upsert_oauth_connection user service ext name access refresh expires scps s)) = od_accounts s"
  by (simp_all add: upsert_oauth_connection_def)

lemma pending_ok_cong:
  "od_pending s' = od_pending s \<Longrightarrow> od_accounts s' = od_accounts s \<Longrightarrow> pending_ok s \<Longrightarrow> pending_ok s'"
  by (simp add: pending_ok_def known_user_def od_now_def)

lemma connections_ok_cong:
  "od_connections s' = od_connections s \<Longrightarrow> od_accounts s' = od_accounts s \<Longrightarrow> connections_ok s \<Longrightarrow>
   connections_ok s'"
  by (simp add: connections_ok_def known_user_def)

lemma pending_ok_filter: "pending_ok s \<Longrightarrow> pending_ok (s\<lparr>od_pending := filter P (od_pending s)\<rparr>)"
  by (auto simp: pending_ok_def list_all_iff distinct_map_filterI known_user_def od_now_def)

text \<open>
  The statements that change the tables: those on the pending states, with an end at most five minutes after the
  time at which the row is made; those on the connections; and the changes of the rest, where a user who goes takes
  its rows along.
\<close>

inductive oauth_step :: "oauth_db \<Rightarrow> oauth_db \<Rightarrow> bool" where
  forget: "oauth_step s (delete_pending_of user service s)"
| remember: "expires \<le> od_now s + 300 \<Longrightarrow> oauth_step s (snd (insert_pending user service state verifier expires s))"
| take: "oauth_step s (delete_pending_state state s)"
| clean: "oauth_step s (snd (cleanup_expired_oauth_states earlier s))"
| upsert: "oauth_step s (snd (upsert_oauth_connection user service ext name access refresh expires' scps s))"
| tokens: "oauth_step s (update_oauth_tokens user service access refresh expires' name' s)"
| leave: "oauth_step s (delete_oauth_connection user service s)"
| elsewhere: "\<lbrakk>ac_clock (od_accounts s) \<le> ac_clock a;
      \<forall>i. known_user i s \<longrightarrow> get_user_by_id i a \<noteq> None\<rbrakk> \<Longrightarrow> oauth_step s (s\<lparr>od_accounts := a\<rparr>)"
| user_gone: "oauth_step s (s\<lparr>od_accounts := delete_user i (od_accounts s),
      od_connections := filter (\<lambda>c. oc_user_id c \<noteq> i) (od_connections s),
      od_pending := filter (\<lambda>p. op_user_id p \<noteq> i) (od_pending s)\<rparr>)"

inductive oauth_reached :: "oauth_db \<Rightarrow> bool" where
  init: "\<lbrakk>od_connections s = []; od_pending s = []\<rbrakk> \<Longrightarrow> oauth_reached s"
| step: "\<lbrakk>oauth_reached s; oauth_step s s'\<rbrakk> \<Longrightarrow> oauth_reached s'"

lemma oauth_ok_elsewhere:
  assumes "oauth_ok s" "ac_clock (od_accounts s) \<le> ac_clock a"
    and "\<forall>i. get_user_by_id i (od_accounts s) \<noteq> None \<longrightarrow> get_user_by_id i a \<noteq> None"
  shows "oauth_ok (s\<lparr>od_accounts := a\<rparr>)"
proof -
  have k: "known_user i s \<Longrightarrow> known_user i (s\<lparr>od_accounts := a\<rparr>)" for i
    using assms(3) by (auto simp: known_user_def)
  have n: "od_now s \<le> od_now (s\<lparr>od_accounts := a\<rparr>)" using assms(2) by (simp add: od_now_def)
  show ?thesis
    using assms(1) k n
    by (simp add: oauth_ok_def pending_ok_def connections_ok_def list_all_iff) (meson order_trans)
qed

lemma known_after_deletion: "known_user j (s\<lparr>od_accounts := delete_user i (od_accounts s)\<rparr>) \<longleftrightarrow> j \<noteq> i \<and> known_user j s"
  by (auto simp: known_user_def get_user_by_id_def find_user_def delete_user_def find_None_iff)

lemma oauth_ok_user_gone:
  assumes "oauth_ok s"
  shows "oauth_ok (s\<lparr>od_accounts := delete_user i (od_accounts s),
      od_connections := filter (\<lambda>c. oc_user_id c \<noteq> i) (od_connections s),
      od_pending := filter (\<lambda>p. op_user_id p \<noteq> i) (od_pending s)\<rparr>)"
proof -
  let ?s = "s\<lparr>od_accounts := delete_user i (od_accounts s)\<rparr>"
  have k: "known_user j (?s\<lparr>od_connections := cs, od_pending := ps\<rparr>) \<longleftrightarrow> j \<noteq> i \<and> known_user j s" for j cs ps
    using known_after_deletion [where j = j and s = s and i = i] by (simp add: known_user_def)
  have n: "od_now (?s\<lparr>od_connections := cs, od_pending := ps\<rparr>) = od_now s" for cs ps
    by (simp add: od_now_def delete_user_def)
  show ?thesis
    using assms by (auto simp: oauth_ok_def pending_ok_def connections_ok_def k n list_all_iff distinct_map_filterI)
qed

lemma oauth_ok_step: "oauth_step s s' \<Longrightarrow> oauth_ok s \<Longrightarrow> oauth_ok s'"
proof (induction rule: oauth_step.induct)
  case (remember expires s user service state verifier)
  then show ?case
    by (auto simp: insert_pending_def oauth_ok_def pending_ok_def connections_ok_def list_all_iff known_user_def od_now_def)
next
  case (elsewhere s a)
  then show ?case by (intro oauth_ok_elsewhere) (auto simp: known_user_def)
next
  case (user_gone s i)
  then show ?case by (rule oauth_ok_user_gone)
next
  case (tokens s user service access refresh expires name)
  then show ?case
    by (auto simp: oauth_ok_def update_oauth_tokens_def connections_ok_update intro: pending_ok_cong)
next
  case (leave s user service)
  then show ?case
    by (auto simp: delete_oauth_connection_def oauth_ok_def pending_ok_def connections_ok_def list_all_iff
        known_user_def od_now_def distinct_map_filterI)
qed (auto simp: delete_pending_of_def delete_pending_state_def cleanup_expired_oauth_states_def Let_def oauth_ok_def
    pending_ok_filter connections_ok_upsert intro: connections_ok_cong pending_ok_cong)

lemma oauth_reached_ok: "oauth_reached s \<Longrightarrow> oauth_ok s"
proof (induction rule: oauth_reached.induct)
  case (init s)
  then show ?case by (simp add: oauth_ok_def pending_ok_def connections_ok_def)
qed (rule oauth_ok_step)

lemmas taking_defs = get_and_delete_oauth_pending_state_def select_pending_def delete_pending_state_def

text \<open>The handlers are sequences of these statements.\<close>

lemma reached_create:
  "oauth_reached s \<Longrightarrow> oauth_reached (snd (create_oauth_pending_state user service state verifier (od_now s + 300) s))"
  unfolding create_oauth_pending_state_def
  by (rule step [OF step [OF _ forget] remember]) (simp_all add: delete_pending_of_def od_now_def)

lemma reached_take: "oauth_reached s \<Longrightarrow> oauth_reached (snd (get_and_delete_oauth_pending_state state s))"
  by (auto simp: get_and_delete_oauth_pending_state_def split: option.split intro: step take)

lemma reached_store: "oauth_reached s \<Longrightarrow> oauth_reached (snd (store_tokens v n1 n2 user m t profile s))"
  by (auto simp: store_tokens_def with_ok_snd case_prod_unfold Let_def split: outcome.split intro: step upsert)

lemma reached_access: "oauth_reached s \<Longrightarrow> oauth_reached (snd (get_valid_access_token v n1 n2 user m s))"
  by (auto simp: get_valid_access_token_def refresh_access_token_def with_ok_snd split: outcome.split option.split
      intro: step tokens)

lemma reached_start: "oauth_reached s \<Longrightarrow> oauth_reached (snd (start_oauth u v auth path s))"
  by (auto simp: start_oauth_def start_authorization_def with_ok_snd case_prod_unfold Let_def reached_create
      split: outcome.split prod.split)

lemma reached_callback: "oauth_reached s \<Longrightarrow> oauth_reached (snd (oauth_callback u v n1 n2 auth path code state s))"
  using reached_take [of s state]
  by (auto simp: oauth_callback_def complete_authorization_def with_ok_snd case_prod_unfold Let_def reached_store
      split: outcome.split option.split prod.split)

lemma reached_leave: "oauth_reached s \<Longrightarrow> oauth_reached (snd (disconnect_oauth u v auth path s))"
  by (auto simp: disconnect_oauth_def disconnect_def split: outcome.split prod.split intro: step leave)

lemma reached_playlists:
  "oauth_reached s \<Longrightarrow> oauth_reached (snd (show_playlists u v n1 n2 auth path limit offset s))"
  "oauth_reached s \<Longrightarrow> oauth_reached (snd (show_playlist_tracks u v n1 n2 auth path playlist limit offset s))"
  by (auto simp: show_playlists_def show_playlist_tracks_def fetch_playlists_def fetch_tracks_def with_ok_snd
      case_prod_unfold Let_def reached_access split: outcome.split option.split prod.split)

text \<open>C17: Whatever the services answer and however the single statements of concurrent requests and the deletion of
  users interleave - every handler is a sequence of such statements -, a user has at most one connection per
  service, no two pending states are equal, every row belongs to a user, a pending state ends at most five minutes
  after it was made, and every stored connection is active: no handler ever marks one as expired. A start whose
  two statements no other comes between leaves the user exactly one pending state for the service, its own, however
  many there were.\<close>

theorem oauth_tables_kept:
  assumes "oauth_reached s"
  shows "oauth_ok s
    \<and> oauth_reached (snd (start_oauth u v auth path s))
    \<and> oauth_reached (snd (oauth_callback u v n1 n2 auth path code state s))
    \<and> oauth_reached (snd (disconnect_oauth u v auth path s))
    \<and> oauth_reached (snd (show_playlists u v n1 n2 auth path limit offset s))
    \<and> oauth_reached (snd (show_playlist_tracks u v n1 n2 auth path playlist limit offset s))
    \<and> (fst (start_authorization w user m s) = Ok url \<longrightarrow>
        map op_state (filter (\<lambda>p. op_user_id p = user \<and> op_service p = service_str m)
           (od_pending (snd (start_authorization w user m s))))
        = [au_state (get_authorization_url (the (sv_providers w m)) (get_redirect_uri w m))])"
proof -
  have "map op_state (filter (\<lambda>p. op_user_id p = user \<and> op_service p = service_str m)
           (od_pending (snd (start_authorization w user m s))))
        = [au_state (get_authorization_url (the (sv_providers w m)) (get_redirect_uri w m))]"
    if "fst (start_authorization w user m s) = Ok url"
    using that
    by (cases "sv_providers w m") (auto simp: start_authorization_def get_provider_def create_oauth_pending_state_def
        insert_pending_def delete_pending_of_def Let_def filter_empty_conv split: if_splits)
  then show ?thesis
    using assms
    by (intro conjI impI oauth_reached_ok reached_start reached_callback reached_leave reached_playlists)
qed

text \<open>Two starts of one user for one service whose statements are mixed - both delete, then both insert - leave
  two pending states: the table has no constraint on the user and the service.\<close>

lemma overlapping_starts:
  assumes "oauth_reached s" and "known_user user s" and "st1 \<noteq> st2"
    and "st1 \<notin> op_state ` set (od_pending s)" and "st2 \<notin> op_state ` set (od_pending s)"
    and "e1 \<le> od_now s + 300" and "e2 \<le> od_now s + 300"
    and "s1 = delete_pending_of user service (delete_pending_of user service s)"
    and "s2 = snd (insert_pending user service st2 v2 e2 (snd (insert_pending user service st1 v1 e1 s1)))"
  shows "oauth_reached s2
    \<and> map op_state (filter (\<lambda>p. op_user_id p = user \<and> op_service p = service) (od_pending s2)) = [st1, st2]"
proof
  have e: "od_now s1 = od_now s" "od_now (snd (insert_pending user service st1 v1 e1 s1)) = od_now s"
    by (simp_all add: assms(8) delete_pending_of_def od_now_def insert_pending_def)
  show "oauth_reached s2"
    unfolding assms(9) by (intro step [OF step [OF _ remember] remember])
      (use assms(1,6,7) e in \<open>simp_all add: assms(8) step [OF step forget] forget\<close>)
  show "map op_state (filter (\<lambda>p. op_user_id p = user \<and> op_service p = service) (od_pending s2)) = [st1, st2]"
    using assms(2-5) by (auto simp: assms(8,9) insert_pending_def delete_pending_of_def known_user_def filter_empty_conv)
qed

definition sample_user :: user where
  "sample_user = \<lparr>us_id = 1, us_username = [97], us_email = None, us_password_hash = [], us_email_verified = True,
     us_verification_token = None, us_token_expires_at = None, us_display_name = None, us_bio = None,
     us_avatar_path = None, us_role = [117], us_created_at = 0, us_updated_at = 0\<rparr>"

definition sample_oauth :: oauth_db where
  "sample_oauth = \<lparr>od_accounts = \<lparr>ac_users = [sample_user, sample_user\<lparr>us_id := 2, us_username := [98]\<rparr>],
     ac_seq = 2, ac_clock = 1000\<rparr>, od_connections = [], od_connection_seq = 0, od_pending = [],
     od_pending_seq = 0\<rparr>"

text \<open>A provider that knows one code, whose tokens last an hour.\<close>

definition sample_provider :: music_provider where
  "sample_provider =
     \<lparr>get_authorization_url = (\<lambda>r. \<lparr>au_url = r, au_state = [49], au_verifier = [50]\<rparr>),
      exchange_code = (\<lambda>code r verifier. if code = [51] \<and> verifier = [50]
         then Ok \<lparr>ot_access = [52], ot_refresh = Some [53], ot_expires_at = Some 4600, ot_scopes = []\<rparr> else Err []),
      refresh_token = (\<lambda>tok. if tok = [53]
         then Ok \<lparr>ot_access = [54], ot_refresh = None, ot_expires_at = Some 9000, ot_scopes = []\<rparr> else Err []),
      get_user_profile = (\<lambda>access. Ok \<lparr>ep_id = [55], ep_username = [56], ep_display_name = None,
         ep_profile_url = None, ep_image_url = None\<rparr>),
      get_user_playlists = (\<lambda>_ _ _ _. Ok ([], 0)), get_playlist = (\<lambda>_ _. Err []),
      get_playlist_page = (\<lambda>_ _ _ _. Ok ([], 0))\<rparr>"

definition sample_service :: oauth_service where
  "sample_service = \<lparr>sv_crypto = sample_crypto, sv_key = replicate 32 7,
     sv_providers = (\<lambda>m. if m = Spotify then Some sample_provider else None), sv_redirect_base = []\<rparr>"

definition sample_started :: oauth_db where
  "sample_started = snd (start_authorization sample_service 1 Spotify sample_oauth)"

definition sample_auth :: auth_user where
  "sample_auth = \<lparr>au_id = 1, au_username = [97], au_role = [117]\<rparr>"

lemma sample_reached: "oauth_reached sample_oauth"
  by (rule init) (simp_all add: sample_oauth_def)

theorem oauth_tables_kept_witness:
  "oauth_ok (snd (start_oauth ascii_tables (Some sample_service) sample_auth (str ''Spotify'') sample_oauth))
   \<and> map op_state (filter (\<lambda>p. op_user_id p = 1 \<and> op_service p = service_str Spotify) (od_pending sample_started)) = [[49]]"
proof
  have s: "oauth_reached (snd (start_oauth ascii_tables (Some sample_service) sample_auth (str ''Spotify'') sample_oauth))"
    using reached_start [OF sample_reached] .
  from oauth_tables_kept [OF this]
  show "oauth_ok (snd (start_oauth ascii_tables (Some sample_service) sample_auth (str ''Spotify'') sample_oauth))"
    by blast
  have "fst (start_authorization sample_service 1 Spotify sample_oauth) = Ok (str ''/oauth/spotify/callback'')"
    by code_simp
  with oauth_tables_kept [OF sample_reached, where w = sample_service and user = 1 and m = Spotify]
  show "map op_state (filter (\<lambda>p. op_user_id p = 1 \<and> op_service p = service_str Spotify) (od_pending sample_started)) = [[49]]"
    by (simp add: sample_started_def) (simp add: sample_service_def sample_provider_def)
qed

lemma overlapping_starts_witness:
  "\<exists>s. oauth_reached s
     \<and> map op_state (filter (\<lambda>p. op_user_id p = 1 \<and> op_service p = str ''spotify'') (od_pending s)) = [[1], [2]]"
  using overlapping_starts [OF sample_reached _ _ _ _ _ _ refl refl, of 1 "[1]" "[2]" 1300 1300 "str ''spotify''" "[]" "[]"]
  by (force simp: sample_oauth_def known_user_def get_user_by_id_def find_user_def sample_user_def od_now_def)

section \<open>The life of a pending state\<close>

lemma with_ok_Ok: "with_ok r s f = (Ok y, s') \<longleftrightarrow> (\<exists>x. r = Ok x \<and> f x = (Ok y, s'))"
  by (cases r) auto

lemma in_context_Ok: "in_context t r = Ok x \<longleftrightarrow> r = Ok x"
  by (cases r) auto

lemma get_provider_Ok: "get_provider v m = Ok p \<longleftrightarrow> sv_providers v m = Some p"
  by (simp add: get_provider_def split: option.split)

lemma update_tokens_simps [simp]:
  "od_accounts (update_oauth_tokens user service access refresh expires name s) = od_accounts s"
  "od_pending (update_oauth_tokens user service access refresh expires name s) = od_pending s"
  by (simp_all add: update_oauth_tokens_def)

lemma store_tokens_pending [simp]:
  "od_pending (snd (store_tokens v n1 n2 user m t profile s)) = od_pending s"
  by (auto simp: store_tokens_def with_ok_snd case_prod_unfold Let_def split: outcome.split)

lemma taken_pending:
  "od_pending (snd (get_and_delete_oauth_pending_state state s)) = filter (\<lambda>p. op_state p \<noteq> state) (od_pending s)"
proof (cases "find (\<lambda>p. op_state p = state) (od_pending s)")
  case None
  then have "filter (\<lambda>p. op_state p \<noteq> state) (od_pending s) = od_pending s"
    by (simp add: find_None_iff filter_id_conv)
  with None show ?thesis by (simp add: taking_defs)
qed (simp add: taking_defs)

lemma complete_pending:
  "sv_providers v m \<noteq> None \<Longrightarrow>
   od_pending (snd (complete_authorization v n1 n2 user m code state s))
   = filter (\<lambda>p. op_state p \<noteq> state) (od_pending s)"
  using taken_pending [of state s]
  by (auto simp: complete_authorization_def with_ok_snd get_provider_def case_prod_unfold Let_def
      split: option.split outcome.split)

lemma complete_unknown_state:
  assumes "sv_providers v m \<noteq> None" and "state \<notin> op_state ` set (od_pending s)"
  shows "complete_authorization v n1 n2 user m code state s = (Err (str ''Invalid or expired OAuth state''), s)"
proof -
  have "find (\<lambda>p. op_state p = state) (od_pending s) = None" using assms(2) by (auto simp: find_None_iff)
  then show ?thesis
    using assms(1)
    by (auto simp: complete_authorization_def get_provider_def taking_defs)
qed

text \<open>A state is good for one attempt, when no other statement comes between the reading of its row and its deletion:
  whoever calls back with it, and whatever comes of it - success, a
  refused code, another user's state, a late one - every later attempt with the same state, by anyone and for
  any configured service, is refused and changes nothing. In particular a user who presents the state of
  another one uses it up.\<close>

lemma state_single_use:
  assumes "sv_providers v m \<noteq> None" and "sv_providers v' m' \<noteq> None"
    and "complete_authorization v n1 n2 user m code state s = (r, s')"
  shows "complete_authorization v' n3 n4 user' m' code' state s'
    = (Err (str ''Invalid or expired OAuth state''), s')"
proof (rule complete_unknown_state [OF assms(2)])
  have "od_pending s' = filter (\<lambda>p. op_state p \<noteq> state) (od_pending s)"
    using complete_pending [OF assms(1), of n1 n2 user code state s] assms(3) by simp
  then show "state \<notin> op_state ` set (od_pending s')" by auto
qed

lemma state_single_use_witness:
  "complete_authorization sample_service [] [] 1 Spotify [51] [49]
     (snd (complete_authorization sample_service (replicate 12 1) (replicate 12 2) 2 Spotify [51] [49] sample_started))
   = (Err (str ''Invalid or expired OAuth state''),
      snd (complete_authorization sample_service (replicate 12 1) (replicate 12 2) 2 Spotify [51] [49] sample_started))"
  by (rule state_single_use [OF _ _ prod.collapse [symmetric]]) (simp_all add: sample_service_def)

text \<open>C18: A connection is only ever made for a user who started the flow: a successful callback used a state
  that was stored for this very user at most five minutes before, the code was exchanged with the verifier
  stored beside it, and the profile is the one the new token gives. (The service for which the flow was started
  is not compared.)\<close>

theorem callback_needs_own_state:
  assumes "oauth_ok s" and "complete_authorization v n1 n2 user m code state s = (Ok profile, s')"
  shows "\<exists>w p t. w \<in> set (od_pending s) \<and> op_state w = state \<and> op_user_id w = user
      \<and> od_now s \<le> op_created_at w + 300 \<and> sv_providers v m = Some p
      \<and> exchange_code p code (get_redirect_uri v m) (op_verifier w) = Ok t
      \<and> get_user_profile p (ot_access t) = Ok profile"
proof -
  from assms(2) obtain p where p: "sv_providers v m = Some p"
    by (auto simp: complete_authorization_def with_ok_Ok get_provider_Ok)
  have g: "get_provider v m = Ok p" using p by (simp add: get_provider_Ok)
  show ?thesis
  proof (cases "find (\<lambda>q. op_state q = state) (od_pending s)")
    case None
    with assms(2) g show ?thesis by (simp add: complete_authorization_def taking_defs)
  next
    case (Some w)
    then have w: "w \<in> set (od_pending s)" "op_state w = state" by (auto dest: find_SomeD)
    let ?s = "s\<lparr>od_pending := filter (\<lambda>q. op_state q \<noteq> state) (od_pending s)\<rparr>"
    have now: "od_now ?s = od_now s" by (simp add: od_now_def)
    from assms(2) g Some obtain t where t: "op_user_id w = user" "od_now s \<le> op_expires_at w"
        "exchange_code p code (get_redirect_uri v m) (op_verifier w) = Ok t"
        "get_user_profile p (ot_access t) = Ok profile"
      by (auto simp: complete_authorization_def taking_defs with_ok_Ok in_context_Ok now
          store_tokens_def case_prod_unfold Let_def split: if_splits)
    have "op_expires_at w \<le> op_created_at w + 300"
      using assms(1) w(1) by (auto simp: oauth_ok_def pending_ok_def list_all_iff)
    with w t p show ?thesis by auto
  qed
qed

theorem callback_needs_own_state_witness:
  "\<exists>w p t. w \<in> set (od_pending sample_started) \<and> op_state w = [49] \<and> op_user_id w = 1
      \<and> od_now sample_started \<le> op_created_at w + 300 \<and> sv_providers sample_service Spotify = Some p
      \<and> exchange_code p [51] (get_redirect_uri sample_service Spotify) (op_verifier w) = Ok t
      \<and> get_user_profile p (ot_access t) = Ok \<lparr>ep_id = [55], ep_username = [56], ep_display_name = None,
           ep_profile_url = None, ep_image_url = None\<rparr>"
proof (rule callback_needs_own_state [OF _ surjective_pairing [THEN trans]])
  have "sample_started = snd (create_oauth_pending_state 1 (service_str Spotify) [49] [50] (od_now sample_oauth + 300)
      sample_oauth)"
    by (simp add: sample_started_def start_authorization_def with_ok_snd get_provider_def sample_service_def
        sample_provider_def case_prod_unfold Let_def split: outcome.split)
  with reached_create [OF sample_reached, of 1 "service_str Spotify" "[49]" "[50]"]
  have "oauth_reached sample_started" by (simp del: service_str.simps)
  then show "oauth_ok sample_started" by (rule oauth_reached_ok)
  let ?r = "complete_authorization sample_service (replicate 12 1) (replicate 12 2) 1 Spotify [51] [49] sample_started"
  have "fst ?r = Ok \<lparr>ep_id = [55], ep_username = [56], ep_display_name = None, ep_profile_url = None,
      ep_image_url = None\<rparr>" by code_simp
  then show "(fst ?r, snd ?r) = (Ok \<lparr>ep_id = [55], ep_username = [56], ep_display_name = None,
      ep_profile_url = None, ep_image_url = None\<rparr>, snd ?r)" by simp
qed

section \<open>Access tokens\<close>

lemma find_map: "find P (map g xs) = map_option g (find (\<lambda>x. P (g x)) xs)"
  by (induction xs) auto

lemma get_oauth_connection_update:
  assumes "get_oauth_connection user service s = Some c"
    and "\<And>c. oc_user_id (f c) = oc_user_id c" "\<And>c. oc_service (f c) = oc_service c"
  shows "get_oauth_connection user service (update_connections user service f s) = Some (f c)"
proof -
  let ?g = "\<lambda>c. if connection_of user service c then f c else c"
  have c: "connection_of user service c" using assms(1) by (auto simp: get_oauth_connection_def dest: find_SomeD)
  have "(\<lambda>x. connection_of user service (?g x)) = connection_of user service"
    using assms(2,3) by (auto simp: fun_eq_iff connection_of_def)
  then have "find (connection_of user service) (map ?g (od_connections s)) = map_option ?g (Some c)"
    using assms(1) unfolding find_map by (simp only: get_oauth_connection_def)
  with c show ?thesis by (simp add: get_oauth_connection_def update_connections_def)
qed

lemma read_back:
  "cipher_laws c \<Longrightarrow> length n = nonce_size \<Longrightarrow> valid_str tok \<Longrightarrow> encrypt_token c n tok key = Ok e \<Longrightarrow>
   decrypt_token c e key = Ok tok"
  by (force simp: encrypt_token_def decrypt_token_def cipher_laws_def from_utf8_as_bytes split: if_splits option.splits)

text \<open>What a refresh that succeeds leaves in the row.\<close>

lemma refresh_stores:
  assumes "get_oauth_connection user (service_str m) s = Some c"
    and "refresh_access_token v n1 n2 user m c s = (Ok tok, s')"
  obtains p t old r e1 e2 c' where
    "sv_providers v m = Some p" "oc_refresh c = Some r" "decrypt_token (sv_crypto v) r (sv_key v) = Ok old"
    "refresh_token p old = Ok t" "ot_access t = tok"
    "encrypt_token (sv_crypto v) n1 tok (sv_key v) = Ok e1"
    "encrypt_token (sv_crypto v) n2 (case ot_refresh t of Some r \<Rightarrow> r | None \<Rightarrow> old) (sv_key v) = Ok e2"
    "get_oauth_connection user (service_str m) s' = Some c'" "oc_access c' = e1" "oc_refresh c' = Some e2"
    "oc_expires_at c' = ot_expires_at t" "oc_status c' = oc_status c" "od_now s' = od_now s"
proof -
  from assms(2) obtain p where p: "sv_providers v m = Some p"
    by (auto simp: refresh_access_token_def with_ok_Ok get_provider_Ok)
  from assms(2) p obtain r where r: "oc_refresh c = Some r"
    by (cases "oc_refresh c") (auto simp: refresh_access_token_def get_provider_def)
  from assms(2) p r obtain old t e1 e2 where h:
      "decrypt_token (sv_crypto v) r (sv_key v) = Ok old" "refresh_token p old = Ok t"
      "encrypt_token (sv_crypto v) n1 (ot_access t) (sv_key v) = Ok e1"
      "encrypt_token (sv_crypto v) n2 (case ot_refresh t of Some r \<Rightarrow> r | None \<Rightarrow> old) (sv_key v) = Ok e2"
    by (auto simp: refresh_access_token_def with_ok_Ok get_provider_def)
  from assms(2) p r h have "\<exists>name. ot_access t = tok
      \<and> s' = update_oauth_tokens user (service_str m) e1 (Some e2) (ot_expires_at t) name s"
    by (cases "get_user_profile p (ot_access t)") (auto simp: refresh_access_token_def get_provider_def)
  then obtain name where n: "ot_access t = tok"
      "s' = update_oauth_tokens user (service_str m) e1 (Some e2) (ot_expires_at t) name s" by blast
  have q: "get_oauth_connection user (service_str m) s' = Some (c\<lparr>oc_external_username :=
      (if name = None then oc_external_username c else name), oc_access := e1,
      oc_refresh := (if Some e2 = None then oc_refresh c else Some e2), oc_expires_at := ot_expires_at t,
      oc_updated_at := od_now s, oc_last_used_at := Some (od_now s)\<rparr>)"
    unfolding n(2) update_oauth_tokens_def by (rule get_oauth_connection_update [OF assms(1)]) simp_all
  show ?thesis
    by (rule that [OF p r h(1,2) n(1) h(3) [unfolded n(1)] h(4) q]) (simp_all add: n(2) update_oauth_tokens_def)
qed

text \<open>The token a call gets is one that is stored: when it comes with a connection that is not about to expire
  afterwards, the next call gets the same token without asking the provider for another, whether the first call
  read it or had just refreshed it.\<close>

lemma access_token_stable:
  assumes "cipher_laws (sv_crypto v)" and "length n1 = nonce_size" and "valid_str tok"
    and "get_valid_access_token v n1 n2 user m s = (Ok tok, s')"
    and "get_oauth_connection user (service_str m) s' = Some c'"
    and "\<not> is_token_expired (od_now s') (oc_expires_at c')"
  shows "get_valid_access_token v n3 n4 user m s' = (Ok tok, s')"
proof -
  from assms(4) obtain c where c: "get_oauth_connection user (service_str m) s = Some c"
    by (auto simp: get_valid_access_token_def split: option.splits)
  with assms(4) have active: "oc_status c = ''active''" by (auto simp: get_valid_access_token_def split: if_splits)
  with assms(4) c obtain p where p: "sv_providers v m = Some p"
    by (auto simp: get_valid_access_token_def with_ok_Ok get_provider_Ok)
  show ?thesis
  proof (cases "is_token_expired (od_now s) (oc_expires_at c)")
    case False
    then have r: "get_valid_access_token v k1 k2 user m s = (decrypt_token (sv_crypto v) (oc_access c) (sv_key v), s)"
      for k1 k2 using active c p by (simp add: get_valid_access_token_def get_provider_def)
    with assms(4) show ?thesis by simp
  next
    case True
    then have "get_valid_access_token v n1 n2 user m s = refresh_access_token v n1 n2 user m c s"
      using active c p by (simp add: get_valid_access_token_def get_provider_def)
    with assms(4) have r: "refresh_access_token v n1 n2 user m c s = (Ok tok, s')" by simp
    from refresh_stores [OF c r] assms(5) obtain e1 where
        "encrypt_token (sv_crypto v) n1 tok (sv_key v) = Ok e1" "oc_access c' = e1" "oc_status c' = oc_status c"
      by (metis option.inject)
    with read_back [OF assms(1,2,3)] active p assms(5,6) show ?thesis
      by (simp add: get_valid_access_token_def get_provider_def)
  qed
qed

definition sample_connected :: oauth_db where
  "sample_connected =
     snd (complete_authorization sample_service (replicate 12 1) (replicate 12 2) 1 Spotify [51] [49] sample_started)"

definition sample_late :: oauth_db where
  "sample_late = sample_connected\<lparr>od_accounts := (od_accounts sample_connected)\<lparr>ac_clock := 5000\<rparr>\<rparr>"

text \<open>The call at 5000 seconds refreshes the token, which ended at 4600, and gets one that ends at 9000.\<close>

definition sample_access :: "rstring result \<times> oauth_db" where
  "sample_access = get_valid_access_token sample_service (replicate 12 3) (replicate 12 4) 1 Spotify sample_late"

lemma sample_access_Ok:
  "get_valid_access_token sample_service (replicate 12 3) (replicate 12 4) 1 Spotify sample_late
   = (Ok [54], snd sample_access)"
proof -
  have "fst sample_access = Ok [54]" by code_simp
  then show ?thesis by (metis prod.collapse sample_access_def)
qed

lemma access_token_stable_witness:
  "get_valid_access_token sample_service [] [] 1 Spotify (snd sample_access) = (Ok [54], snd sample_access)"
proof -
  let ?c = "the (get_oauth_connection 1 (service_str Spotify) (snd sample_access))"
  have c: "get_oauth_connection 1 (service_str Spotify) (snd sample_access) = Some ?c" by code_simp
  have e: "\<not> is_token_expired (od_now (snd sample_access)) (oc_expires_at ?c)" by code_simp
  show ?thesis
    by (rule access_token_stable [OF _ _ _ sample_access_Ok c e])
      (simp_all add: sample_service_def sample_crypto_laws nonce_size_def is_scalar_def)
qed

text \<open>A refresh keeps the connection alive: what is stored afterwards decrypts to the new access token and to
  the refresh token for the next time, which is the new one or, when none was sent, the one just used.\<close>

lemma refresh_keeps_connection:
  assumes "cipher_laws (sv_crypto v)" and "length n1 = nonce_size" and "length n2 = nonce_size"
    and "get_oauth_connection user (service_str m) s = Some c"
    and "is_token_expired (od_now s) (oc_expires_at c)"
    and "get_valid_access_token v n1 n2 user m s = (Ok tok, s')"
    and "\<forall>p r t. sv_providers v m = Some p \<longrightarrow> refresh_token p r = Ok t \<longrightarrow>
           valid_str (ot_access t) \<and> valid_str (case ot_refresh t of Some r' \<Rightarrow> r' | None \<Rightarrow> r)"
  shows "\<exists>p t old c' e. sv_providers v m = Some p \<and> refresh_token p old = Ok t \<and> tok = ot_access t
      \<and> decrypt_token (sv_crypto v) (the (oc_refresh c)) (sv_key v) = Ok old
      \<and> get_oauth_connection user (service_str m) s' = Some c' \<and> oc_expires_at c' = ot_expires_at t
      \<and> decrypt_token (sv_crypto v) (oc_access c') (sv_key v) = Ok tok \<and> oc_refresh c' = Some e
      \<and> decrypt_token (sv_crypto v) e (sv_key v) = Ok (case ot_refresh t of Some r \<Rightarrow> r | None \<Rightarrow> old)"
proof -
  from assms(4,6) have active: "oc_status c = ''active''"
    by (auto simp: get_valid_access_token_def split: if_splits)
  from assms(4-6) active have r: "refresh_access_token v n1 n2 user m c s = (Ok tok, s')"
    by (auto simp: get_valid_access_token_def with_ok_Ok)
  show ?thesis
  proof (rule refresh_stores [OF assms(4) r], goal_cases)
    case (1 p t old r e1 e2 c')
    with assms(7) have v: "valid_str (ot_access t)" "valid_str (case ot_refresh t of Some r' \<Rightarrow> r' | None \<Rightarrow> old)"
      by blast+
    from read_back [OF assms(1,2) v(1)] read_back [OF assms(1,3) v(2)] 1
    show ?case
      by (intro exI [of _ p] exI [of _ t] exI [of _ old] exI [of _ c'] exI [of _ e2]) simp
  qed
qed

lemma refresh_keeps_connection_witness:
  "\<exists>p t old c' e. sv_providers sample_service Spotify = Some p \<and> refresh_token p old = Ok t \<and> [54] = ot_access t
      \<and> decrypt_token (sv_crypto sample_service)
          (the (oc_refresh (the (get_oauth_connection 1 (service_str Spotify) sample_late)))) (sv_key sample_service) = Ok old
      \<and> get_oauth_connection 1 (service_str Spotify) (snd sample_access) = Some c'
      \<and> oc_expires_at c' = ot_expires_at t
      \<and> decrypt_token (sv_crypto sample_service) (oc_access c') (sv_key sample_service) = Ok [54]
      \<and> oc_refresh c' = Some e
      \<and> decrypt_token (sv_crypto sample_service) e (sv_key sample_service)
          = Ok (case ot_refresh t of Some r \<Rightarrow> r | None \<Rightarrow> old)"
proof (rule refresh_keeps_connection [OF _ _ _ _ _ sample_access_Ok])
  show "get_oauth_connection 1 (service_str Spotify) sample_late
      = Some (the (get_oauth_connection 1 (service_str Spotify) sample_late))" by code_simp
  show "is_token_expired (od_now sample_late)
      (oc_expires_at (the (get_oauth_connection 1 (service_str Spotify) sample_late)))" by code_simp
qed (auto simp: sample_service_def sample_crypto_laws nonce_size_def is_scalar_def sample_provider_def split: if_splits)

text \<open>When the provider refuses the refresh - the user has withdrawn the permission - nothing is recorded: every
  request for playlists fails with the provider's text and leaves the tables as they are, and the status of the
  connection goes on being shown as connected.\<close>

lemma refused_refresh_unrecorded:
  assumes "get_oauth_connection (au_id auth) (service_str m) s = Some c" and "oc_status c = ''active''"
    and "is_token_expired (od_now s) (oc_expires_at c)" and "sv_providers v m = Some p"
    and "parse_service u path = Some m" and "oc_refresh c = Some r"
    and "decrypt_token (sv_crypto v) r (sv_key v) = Ok old" and "refresh_token p old = Err e"
  shows "show_playlists u (Some v) n1 n2 auth path limit offset s = (Err (500, e), s)
    \<and> show_connection_status u (Some v) auth path s = Ok (status_of_connection c)
    \<and> cs_connected (status_of_connection c)"
  using assms
  by (simp add: show_playlists_def show_connection_status_def service_of_path_def available_def fetch_playlists_def
      get_valid_access_token_def refresh_access_token_def get_provider_def is_service_configured_def
      status_of_connection_def)

definition withdrawn_service :: oauth_service where
  "withdrawn_service = sample_service\<lparr>sv_providers :=
     (\<lambda>m. Some (sample_provider\<lparr>refresh_token := (\<lambda>_. Err [57])\<rparr>))\<rparr>"

lemma refused_refresh_unrecorded_witness:
  "show_playlists ascii_tables (Some withdrawn_service) [] [] sample_auth (str ''spotify'') None None sample_late
     = (Err (500, [57]), sample_late)
   \<and> show_connection_status ascii_tables (Some withdrawn_service) sample_auth (str ''spotify'') sample_late
     = Ok (status_of_connection (the (get_oauth_connection 1 (service_str Spotify) sample_late)))
   \<and> cs_connected (status_of_connection (the (get_oauth_connection 1 (service_str Spotify) sample_late)))"
proof -
  let ?c = "the (get_oauth_connection 1 (service_str Spotify) sample_late)"
  have c: "get_oauth_connection (au_id sample_auth) (service_str Spotify) sample_late = Some ?c" by code_simp
  have a: "oc_status ?c = ''active''" and x: "is_token_expired (od_now sample_late) (oc_expires_at ?c)"
    and r: "oc_refresh ?c = Some (the (oc_refresh ?c))" by code_simp+
  have d: "decrypt_token (sv_crypto withdrawn_service) (the (oc_refresh ?c)) (sv_key withdrawn_service) = Ok [53]"
    by code_simp
  have u: "parse_service ascii_tables (str ''spotify'') = Some Spotify" by code_simp
  show ?thesis
    by (rule refused_refresh_unrecorded [OF c a x _ u r d]) (simp add: withdrawn_service_def, simp)
qed

section \<open>Paging\<close>

lemma as_i32_next: "off < 2 ^ 31 - 100 \<Longrightarrow> as_i32 (int off + 100) = int (off + 100)"
  by (subst as_i32_id) auto

lemma all_pages_all:
  assumes page: "\<And>k off. page k (int off) s = (Ok (List.map_filter conv (take 100 (drop off entries)), int (length entries)), s)"
    and len: "length entries < 2 ^ 31 - 100"
  shows "off < 2 ^ 31 - 100 \<Longrightarrow>
    all_pages page k (int off) acc s = Some (Ok (acc @ List.map_filter conv (drop off entries)), s)"
proof (induction "length entries - off" arbitrary: k off acc rule: less_induct)
  case less
  let ?acc = "acc @ List.map_filter conv (take 100 (drop off entries))"
  have split: "drop off entries = take 100 (drop off entries) @ drop (off + 100) entries"
    by (metis add.commute append_take_drop_id drop_drop)
  have mf: "List.map_filter conv (xs @ ys) = List.map_filter conv xs @ List.map_filter conv ys" for xs ys
    by (simp add: List.map_filter_def)
  have whole: "?acc @ List.map_filter conv (drop (off + 100) entries) = acc @ List.map_filter conv (drop off entries)"
    by (subst (2) split) (simp add: mf)
  have step: "all_pages page k (int off) acc s =
      (if length entries \<le> off + 100 then Some (Ok ?acc, s) else all_pages page (Suc k) (int (off + 100)) ?acc s)"
    by (subst all_pages.simps) (simp add: page as_i32_next [OF less.prems] Let_def)
  show ?case
  proof (cases "length entries \<le> off + 100")
    case True
    then have "List.map_filter conv (drop (off + 100) entries) = []" by (simp add: List.map_filter_simps)
    with whole have "?acc = acc @ List.map_filter conv (drop off entries)" by simp
    with True step show ?thesis by simp
  next
    case False
    then have "off + 100 < 2 ^ 31 - 100" using len by simp
    moreover have "length entries - (off + 100) < length entries - off" using False by simp
    ultimately have "all_pages page (Suc k) (int (off + 100)) ?acc s
        = Some (Ok (?acc @ List.map_filter conv (drop (off + 100) entries)), s)"
      using less.hyps [of "off + 100" "Suc k" ?acc] by blast
    with False step whole show ?thesis by simp
  qed
qed

text \<open>C19: Fetching all tracks ends and gives every track of the playlist once, in its order, without the entries
  that have no track and without local files: for a Spotify that serves one list of entries by pages of a
  hundred, while the stored token is good and the list has fewer than two to the 31 entries less a hundred.\<close>

theorem whole_playlist_fetched:
  assumes "get_oauth_connection user (service_str m) s = Some c" and "oc_status c = ''active''"
    and "\<not> is_token_expired (od_now s) (oc_expires_at c)"
    and "decrypt_token (sv_crypto v) (oc_access c) (sv_key v) = Ok access"
    and "sv_providers v m = Some (spotify_provider e net now r32 r16)"
    and "\<And>off. sa_items net access playlist 100 (int off) = Json (take 100 (drop off entries), int (length entries))"
    and "length entries < 2 ^ 31 - 100"
  shows "get_all_playlist_tracks v n1 n2 user m playlist s
    = Some (Ok (List.map_filter to_external_track entries), s)"
proof -
  have page: "fetch_tracks v (n1 k) (n2 k) user m playlist 100 (int off) s
      = (Ok (List.map_filter to_external_track (take 100 (drop off entries)), int (length entries)), s)" for k off
    using assms(1-6)
    by (simp add: fetch_tracks_def get_valid_access_token_def get_provider_def spotify_provider_def
        spotify_playlist_tracks_def spotify_answer_def)
  have "(0 :: nat) < 2 ^ 31 - 100" by simp
  from all_pages_all [of "\<lambda>k offset. fetch_tracks v (n1 k) (n2 k) user m playlist 100 offset", OF page assms(7) this,
      of 0 "[]"]
  show ?thesis by (simp add: get_all_playlist_tracks_def)
qed

text \<open>A playlist of a track under the new name of the field, a removed one, a local file, and a track under the
  old name.\<close>

definition sample_track :: "rstring option \<Rightarrow> spotify_track" where
  "sample_track i = \<lparr>sk_id = i, sk_name = [65], sk_artists = [[66]], sk_album = [67], sk_duration_ms = 1000, sk_url = []\<rparr>"

definition sample_entries :: "spotify_entry list" where
  "sample_entries = [(Some (sample_track (Some [49])), None), (None, None), (Some (sample_track None), None),
     (None, Some (sample_track (Some [50])))]"

definition sample_api :: spotify_api where
  "sample_api = \<lparr>sa_token = (\<lambda>_. Unsent), sa_me = (\<lambda>_. Unsent), sa_playlists = (\<lambda>_ _ _. Unsent),
     sa_playlist = (\<lambda>_ _. Unsent),
     sa_items = (\<lambda>_ _ limit off. Json (take (nat limit) (drop (nat off) sample_entries), int (length sample_entries))),
     sa_playlists_text = (\<lambda>_ _ _. []), sa_items_text = (\<lambda>_ _ _ _. [])\<rparr>"

definition sample_env :: spotify_env where
  "sample_env = \<lparr>se_client_id = [], se_urlencode = id, se_base64url = map unat, se_sha256 = id,
     se_add_seconds = (\<lambda>now n. Some (int now + n)), se_unicode = ascii_tables\<rparr>"

definition sample_spotify :: oauth_service where
  "sample_spotify = sample_service\<lparr>sv_providers := (\<lambda>m. Some (spotify_provider sample_env sample_api 1000 [] []))\<rparr>"

theorem whole_playlist_fetched_witness:
  "get_all_playlist_tracks sample_spotify (\<lambda>_. []) (\<lambda>_. []) 1 Spotify [80] sample_connected
     = Some (Ok (List.map_filter to_external_track sample_entries), sample_connected)
   \<and> map xt_id (List.map_filter to_external_track sample_entries) = [[49], [50]]"
proof
  let ?c = "the (get_oauth_connection 1 (service_str Spotify) sample_connected)"
  have c: "get_oauth_connection 1 (service_str Spotify) sample_connected = Some ?c" by code_simp
  have a: "oc_status ?c = ''active''" and x: "\<not> is_token_expired (od_now sample_connected) (oc_expires_at ?c)"
    by code_simp+
  have d: "decrypt_token (sv_crypto sample_spotify) (oc_access ?c) (sv_key sample_spotify) = Ok [52]" by code_simp
  show "get_all_playlist_tracks sample_spotify (\<lambda>_. []) (\<lambda>_. []) 1 Spotify [80] sample_connected
     = Some (Ok (List.map_filter to_external_track sample_entries), sample_connected)"
    by (rule whole_playlist_fetched [OF c a x d])
      (simp add: sample_spotify_def, simp_all add: sample_api_def sample_entries_def)
qed code_simp

text \<open>The total that comes with a page of playlists is the number of playlists on that page, not the number the
  user has: going on while the offset is below it ends after the first page.\<close>

lemma playlists_total_is_page:
  assumes "get_user_playlists (spotify_provider e net now r32 r16) access current_user limit offset = Ok (ps, n)"
  shows "n = int (length ps)"
  using assms by (auto simp: spotify_provider_def spotify_user_playlists_def obind_eq_Ok Let_def)

section \<open>Imports\<close>

definition imports_ok :: "import_db \<Rightarrow> bool" where
  "imports_ok s \<longleftrightarrow>
     distinct (map pi_id (im_imports s))
     \<and> distinct (map (\<lambda>p. (pi_user_id p, pi_service p, pi_external_id p)) (im_imports s))
     \<and> list_all (\<lambda>p. pi_id p \<le> im_import_seq s
          \<and> (pi_completed_at p \<noteq> None \<longleftrightarrow> finished_status (pi_status p))
          \<and> (pi_status p = ''importing'' \<longrightarrow> pi_started_at p \<noteq> None)) (im_imports s)
     \<and> distinct (map ft_id (im_tracks s)) \<and> list_all (\<lambda>t. ft_id t \<le> im_track_seq s \<and> 0 \<le> ft_retry_count t
          \<and> (ft_status t = ''failed'' \<longrightarrow> ft_retry_count t = 0)) (im_tracks s)"

inductive import_step :: "import_db \<Rightarrow> import_db \<Rightarrow> bool" where
  create: "import_step s (snd (create_playlist_import user service playlist name url owner l n s))"
| progress: "import_step s (update_playlist_import_progress i status a b c s)"
| fail: "import_step s (mark_playlist_import_failed i message s)"
| track: "import_step s (snd (create_failed_import_track i ext artist title album ms reason s))"
| retry: "import_step s (mark_failed_track_for_retry i s)"
| success: "import_step s (snd (mark_failed_track_success i item s))"
| elsewhere: "import_step s (s\<lparr>im_db := db\<rparr>)"

lemma imports_ok_update:
  assumes "imports_ok s"
    and "\<And>p. pi_id (f p) = pi_id p" "\<And>p. pi_user_id (f p) = pi_user_id p" "\<And>p. pi_service (f p) = pi_service p"
      "\<And>p. pi_external_id (f p) = pi_external_id p"
    and "\<And>p. (pi_completed_at (f p) \<noteq> None \<longleftrightarrow> finished_status (pi_status (f p)))
           \<and> (pi_status (f p) = ''importing'' \<longrightarrow> pi_started_at (f p) \<noteq> None)"
  shows "imports_ok (update_import i f s)"
proof -
  let ?g = "\<lambda>p. if pi_id p = i then f p else p"
  have "map pi_id (map ?g xs) = map pi_id xs"
    and "map (\<lambda>p. (pi_user_id p, pi_service p, pi_external_id p)) (map ?g xs)
       = map (\<lambda>p. (pi_user_id p, pi_service p, pi_external_id p)) xs" for xs
    using assms(2-5) by (induction xs) auto
  with assms(1,2,6) show ?thesis
    by (auto simp: imports_ok_def update_import_def list_all_iff simp del: map_map)
qed

lemma imports_ok_update_track:
  assumes "imports_ok s" and "\<And>t. ft_id (f t) = ft_id t" and "\<And>t. ft_status (f t) \<noteq> ''failed''"
    and "\<And>t. 0 \<le> ft_retry_count t \<Longrightarrow> 0 \<le> ft_retry_count (f t)"
  shows "imports_ok (update_track i f s)"
proof -
  let ?g = "\<lambda>t. if ft_id t = i then f t else t"
  have "map ft_id (map ?g xs) = map ft_id xs" for xs using assms(2) by (induction xs) auto
  with assms show ?thesis by (auto simp: imports_ok_def update_track_def list_all_iff simp del: map_map)
qed

lemma imports_ok_step: "import_step s s' \<Longrightarrow> imports_ok s \<Longrightarrow> imports_ok s'"
proof (induction rule: import_step.induct)
  case (create s user service playlist name url owner l n)
  then have "pi_id p \<noteq> im_import_seq s + 1" if "p \<in> set (im_imports s)" for p
    using that by (fastforce simp: imports_ok_def list_all_iff)
  with create show ?case
    by (fastforce simp: create_playlist_import_def Let_def imports_ok_def import_conflict_def list_all_iff
        list_ex_iff finished_status_def)
next
  case (progress s i status a b c)
  then show ?case
    unfolding update_playlist_import_progress_def by (rule imports_ok_update) (auto simp: finished_status_def)
next
  case (fail s i message)
  then show ?case
    unfolding mark_playlist_import_failed_def by (rule imports_ok_update) (auto simp: finished_status_def)
next
  case (track s i ext artist title album ms reason)
  then have "ft_id t \<noteq> im_track_seq s + 1" if "t \<in> set (im_tracks s)" for t
    using that by (fastforce simp: imports_ok_def list_all_iff)
  with track show ?case
    by (fastforce simp: create_failed_import_track_def Let_def imports_ok_def list_all_iff)
next
  case (retry s i)
  then show ?case unfolding mark_failed_track_for_retry_def by (rule imports_ok_update_track) auto
next
  case (success s i item)
  have "imports_ok (update_track i (\<lambda>t. t\<lparr>ft_status := ''retry_success'', ft_item_id := Some item\<rparr>) s)"
    by (rule imports_ok_update_track [OF success]) auto
  with success show ?case by (simp add: mark_failed_track_success_def)
next
  case (elsewhere s db)
  then show ?case by (simp add: imports_ok_def)
qed

text \<open>Under any sequence of the statements on imports, a user has one row per playlist of a service, an import
  has a time of completion exactly while its status is a final one and a time of start once it was importing,
  and a failed track that was never retried is the only kind that still has the status \<open>failed\<close>.\<close>

lemma imports_kept:
  assumes "import_step\<^sup>*\<^sup>* s s'" and "im_imports s = []" and "im_tracks s = []"
  shows "imports_ok s'"
  using assms(1)
proof (induction rule: rtranclp_induct)
  case base
  then show ?case using assms(2,3) by (simp add: imports_ok_def)
qed (blast intro: imports_ok_step)

text \<open>A track keeps its id and never gets its first status back.\<close>

definition retried :: "int \<Rightarrow> import_db \<Rightarrow> bool" where
  "retried i s \<longleftrightarrow> i \<le> im_track_seq s \<and> list_all (\<lambda>t. ft_id t = i \<longrightarrow> ft_status t \<noteq> ''failed'') (im_tracks s)"

lemma retried_step: "import_step s s' \<Longrightarrow> retried i s \<Longrightarrow> retried i s'"
  by (induction rule: import_step.induct)
    (auto simp: retried_def create_playlist_import_def update_playlist_import_progress_def update_import_def
      mark_playlist_import_failed_def create_failed_import_track_def mark_failed_track_for_retry_def update_track_def
      mark_failed_track_success_def list_all_iff Let_def)

text \<open>A track that was marked for a retry is never again among the tracks that can be retried, whatever becomes
  of the retry: no statement gives it back the status that the list asks for.\<close>

lemma retried_track_not_retryable:
  assumes "imports_ok s" and "t \<in> set (im_tracks s)"
    and "import_step\<^sup>*\<^sup>* (mark_failed_track_for_retry (ft_id t) s) s'"
  shows "ft_id t \<notin> ft_id ` set (get_retryable_failed_tracks i s')"
proof -
  have "retried (ft_id t) (mark_failed_track_for_retry (ft_id t) s)"
    using assms(1,2) by (auto simp: retried_def mark_failed_track_for_retry_def update_track_def imports_ok_def list_all_iff)
  with assms(3) have "retried (ft_id t) s'" by (induction rule: rtranclp_induct) (auto intro: retried_step)
  then show ?thesis by (auto simp: retried_def get_retryable_failed_tracks_def list_all_iff)
qed

definition sample_imports :: import_db where
  "sample_imports = \<lparr>im_db = (empty_db [(1, [97])] 50)\<lparr>db_lists := [\<lparr>ls_id = 1, ls_name = [98], ls_user_id = 1,
       ls_status = ''pending'', ls_total_items = 2, ls_completed_items = 0, ls_failed_items = 0,
       ls_created_at = 0, ls_completed_at = None\<rparr>]\<rparr>,
     im_imports = [], im_import_seq = 0, im_tracks = [], im_track_seq = 0\<rparr>"

definition sample_import_1 :: import_db where
  "sample_import_1 = snd (create_playlist_import 1 [115] [112] None None None 1 2 sample_imports)"

definition sample_import_2 :: import_db where
  "sample_import_2 = snd (create_failed_import_track 1 None [65] [66] None None [67] sample_import_1)"

lemma sample_import_ok: "imports_ok sample_import_2"
  unfolding sample_import_2_def sample_import_1_def
  by (intro imports_ok_step [OF import_step.track] imports_ok_step [OF import_step.create])
    (simp add: sample_imports_def imports_ok_def)

lemma imports_kept_witness: "imports_ok sample_import_1"
  unfolding sample_import_1_def
  by (rule imports_kept [OF r_into_rtranclp [where r = import_step, OF import_step.create]]) (simp_all add: sample_imports_def)

lemma retried_track_not_retryable_witness:
  "map ft_id (get_retryable_failed_tracks 1 sample_import_2) = [1]
   \<and> 1 \<notin> ft_id ` set (get_retryable_failed_tracks 1 (mark_failed_track_for_retry 1 sample_import_2))"
proof -
  let ?t = "hd (im_tracks sample_import_2)"
  have t: "?t \<in> set (im_tracks sample_import_2)" and i: "ft_id ?t = 1" by code_simp+
  have "map ft_id (get_retryable_failed_tracks 1 sample_import_2) = [1]" by code_simp
  with retried_track_not_retryable [OF sample_import_ok t rtranclp.rtrancl_refl, of 1] i show ?thesis by simp
qed

end
