(* ===== verification/Library_Properties.thy ===== *)
theory Library_Properties
  imports Library_Api
begin

text \<open>
  The properties of the library: what deleting removes, one by one or in a batch, byte ranges and how a file
  is put together from them, the archive of a list, and which requests need a token.
\<close>

section \<open>Deleting\<close>

lemma delete_delete: "delete_where P (delete_where Q xs) = delete_where (\<lambda>r. Q r \<or> P r) xs"
  by (simp add: delete_where_def conj_commute)

lemma drop_items_drop_items:
  "drop_items P (drop_items Q db) = drop_items (\<lambda>i. Q i \<or> P i) db"
proof -
  have q: "update_where (\<lambda>q. case q_item_id q of None \<Rightarrow> False | Some i \<Rightarrow> P i) (\<lambda>q. q\<lparr>q_item_id := None\<rparr>)
      (update_where (\<lambda>q. case q_item_id q of None \<Rightarrow> False | Some i \<Rightarrow> Q i) (\<lambda>q. q\<lparr>q_item_id := None\<rparr>) xs)
    = update_where (\<lambda>q. case q_item_id q of None \<Rightarrow> False | Some i \<Rightarrow> Q i \<or> P i) (\<lambda>q. q\<lparr>q_item_id := None\<rparr>) xs" for xs
    by (auto simp: update_where_def split: option.splits)
  have h: "update_where (\<lambda>h. case h_item_id h of None \<Rightarrow> False | Some i \<Rightarrow> P i) (\<lambda>h. h\<lparr>h_item_id := None\<rparr>)
      (update_where (\<lambda>h. case h_item_id h of None \<Rightarrow> False | Some i \<Rightarrow> Q i) (\<lambda>h. h\<lparr>h_item_id := None\<rparr>) xs)
    = update_where (\<lambda>h. case h_item_id h of None \<Rightarrow> False | Some i \<Rightarrow> Q i \<or> P i) (\<lambda>h. h\<lparr>h_item_id := None\<rparr>) xs" for xs
    by (auto simp: update_where_def split: option.splits)
  show ?thesis by (simp add: drop_items_def Let_def delete_delete q h)
qed

lemma drop_items_list_items:
  "(drop_items P db)\<lparr>db_list_items := delete_where R (db_list_items (drop_items P db))\<rparr>
   = drop_items P (db\<lparr>db_list_items := delete_where R (db_list_items db)\<rparr>)"
  by (simp add: drop_items_def Let_def delete_delete disj_commute)

lemma delete_items_Cons: "delete_items (i # ids) db = delete_items ids (delete_item i db)"
proof (cases "ids = []")
  case True
  then show ?thesis by (simp add: delete_items_def delete_item_def)
next
  case False
  have "delete_items ids (delete_item i db)
      = drop_items (\<lambda>j. j \<in> set ids) (drop_items (\<lambda>j. j = i)
          (db\<lparr>db_list_items := delete_where (\<lambda>r. li_item_id r = i \<or> li_item_id r \<in> set ids) (db_list_items db)\<rparr>))"
    using False by (simp add: delete_items_def delete_item_def drop_items_list_items delete_delete)
  also have "\<dots> = delete_items (i # ids) db"
    by (simp add: drop_items_drop_items delete_items_def)
  finally show ?thesis by simp
qed

lemma delete_items_Nil [simp]: "delete_items [] db = db"
  by (simp add: delete_items_def)

lemma delete_items_fold: "delete_items ids db = fold delete_item ids db"
  by (induction ids arbitrary: db) (simp_all add: delete_items_Cons)

lemma get_item_drop: "get_item j (drop_items P db) = (if P j then None else get_item j db)"
proof -
  have "find (\<lambda>r. it_id r = j) (filter (\<lambda>r. \<not> P (it_id r)) xs)
      = (if P j then None else find (\<lambda>r. it_id r = j) xs)" for xs
    by (induction xs) auto
  then show ?thesis by (auto simp: get_item_def find_row_def drop_items_def Let_def delete_where_def)
qed

lemma get_item_delete: "get_item j (delete_item i db) = (if j = i then None else get_item j db)"
  by (simp add: delete_item_def get_item_drop) (simp add: get_item_def)

lemma get_item_delete_items: "get_item j (delete_items ids db) = (if j \<in> set ids then None else get_item j db)"
  by (induction ids arbitrary: db) (auto simp: delete_items_Cons get_item_delete)

lemma drop_items_lists [simp]: "db_lists (drop_items P db) = db_lists db"
  by (simp add: drop_items_def Let_def)

lemma delete_item_lists [simp]: "db_lists (delete_item i db) = db_lists db"
  by (simp add: delete_item_def)

lemma delete_items_lists [simp]: "db_lists (delete_items ids db) = db_lists db"
  by (induction ids arbitrary: db) (simp_all add: delete_items_Cons)

lemma drop_items_rows: "set (db_list_items (drop_items P db)) \<subseteq> set (db_list_items db)"
  by (auto simp: drop_items_def Let_def delete_where_def)

lemma delete_item_rows: "r \<in> set (db_list_items (delete_item i db)) \<Longrightarrow> r \<in> set (db_list_items db) \<and> li_item_id r \<noteq> i"
  using drop_items_rows [of "\<lambda>j. j = i" "db\<lparr>db_list_items := delete_where (\<lambda>r. li_item_id r = i) (db_list_items db)\<rparr>"]
  by (auto simp: delete_item_def delete_where_def)

lemma delete_items_rows:
  "r \<in> set (db_list_items (delete_items ids db)) \<Longrightarrow> r \<in> set (db_list_items db) \<and> li_item_id r \<notin> set ids"
  by (induction ids arbitrary: db) (auto simp: delete_items_Cons dest: delete_item_rows)

lemma lb_simps [simp]:
  "lb_db (with_db f l) = f (lb_db l)" "lb_files (with_db f l) = lb_files l" "lb_locked (with_db f l) = lb_locked l"
  "lb_storage (with_db f l) = lb_storage l" "lb_db (remove_file p l) = lb_db l"
  "lb_locked (remove_file p l) = lb_locked l" "lb_storage (remove_file p l) = lb_storage l"
  "lb_unreadable (with_db f l) = lb_unreadable l"
  by (simp_all add: with_db_def lb_db_def remove_file_def)

lemma lb_remove_simps [simp]:
  "lb_db (remove_item_file i l) = lb_db l" "lb_locked (remove_item_file i l) = lb_locked l"
  "lb_storage (remove_item_file i l) = lb_storage l" "lb_db (delete_cached i l) = lb_db l"
  "lb_locked (delete_cached i l) = lb_locked l" "lb_storage (delete_cached i l) = lb_storage l"
  by (simp_all add: remove_item_file_def delete_cached_def split: option.split)

lemma files_remove: "lb_files (remove_file p l) q = (if q = p \<and> \<not> lb_locked l p then None else lb_files l q)"
  by (simp add: remove_file_def)

lemma with_db_remove: "remove_file p (with_db f l) = with_db f (remove_file p l)"
  by (simp add: remove_file_def with_db_def lb_db_def)

lemma with_db_cached: "delete_cached i (with_db f l) = with_db f (delete_cached i l)"
  by (simp add: delete_cached_def with_db_remove)

lemma with_db_with_db: "with_db f (with_db g l) = with_db (\<lambda>db. f (g db)) l"
  by (simp add: with_db_def lb_db_def)

text \<open>The file of an item is gone as far as it can be.\<close>

definition file_gone :: "int \<Rightarrow> library \<Rightarrow> bool" where
  "file_gone i l \<longleftrightarrow> remove_item_file i l = l"

lemma remove_file_id: "remove_file p l = l \<longleftrightarrow> lb_locked l p \<or> lb_files l p = None"
proof -
  have "l\<lparr>lb_files := (lb_files l)(p := None)\<rparr> = l \<longleftrightarrow> (lb_files l)(p := None) = lb_files l"
    by (cases l) simp
  also have "\<dots> \<longleftrightarrow> lb_files l p = None" by (metis fun_upd_apply fun_upd_triv)
  finally show ?thesis by (simp add: remove_file_def)
qed

lemma file_gone_iff:
  "file_gone i l \<longleftrightarrow> (\<forall>it. get_item i (lb_db l) = Some it \<longrightarrow> lb_locked l (it_file_path it) \<or> lb_files l (it_file_path it) = None)"
  by (simp add: file_gone_def remove_item_file_def remove_file_id split: option.split)

lemma file_gone_remove: "file_gone i l \<Longrightarrow> file_gone i (remove_file p l)"
  by (auto simp: file_gone_iff files_remove)

lemma file_gone_step: "file_gone i l \<Longrightarrow> file_gone i (delete_cached j (remove_item_file j l))"
  by (auto simp: delete_cached_def remove_item_file_def file_gone_remove split: option.split)

lemma file_gone_own: "file_gone i (delete_cached i (remove_item_file i l))"
proof -
  have "file_gone i (remove_item_file i l)"
    by (auto simp: file_gone_iff) (auto simp: remove_item_file_def files_remove split: if_splits)
  then show ?thesis by (simp add: delete_cached_def file_gone_remove)
qed

lemma step_deleted:
  "file_gone i l \<Longrightarrow> delete_cached j (remove_item_file j (with_db (delete_item i) l))
    = with_db (delete_item i) (delete_cached j (remove_item_file j l))"
  by (cases "j = i")
    (auto simp: remove_item_file_def get_item_delete with_db_cached with_db_remove file_gone_def split: option.split)

lemma fold_deleted:
  "file_gone i l \<Longrightarrow> fold (\<lambda>i l. delete_cached i (remove_item_file i l)) ids (with_db (delete_item i) l)
    = with_db (delete_item i) (fold (\<lambda>i l. delete_cached i (remove_item_file i l)) ids l)"
  by (induction ids arbitrary: l) (simp_all add: step_deleted file_gone_step)

text \<open>Deleting items in a batch leaves the same database and the same disk as deleting them one after the other,
  whatever ids are given: repeated ones, unknown ones, items whose files cannot be removed.\<close>

lemma batch_delete_one_by_one: "service_delete_items ids l = fold service_delete_item ids l"
proof (induction ids arbitrary: l)
  case Nil
  then show ?case by (simp add: service_delete_items_def with_db_def lb_db_def)
next
  case (Cons i ids)
  let ?s = "\<lambda>i l. delete_cached i (remove_item_file i l)"
  have "service_delete_items (i # ids) l = with_db (\<lambda>db. delete_items ids (delete_item i db)) (fold ?s ids (?s i l))"
    unfolding service_delete_items_def delete_items_Cons fold_Cons comp_def ..
  also have "\<dots> = with_db (delete_items ids) (fold ?s ids (with_db (delete_item i) (?s i l)))"
    by (simp add: fold_deleted [OF file_gone_own] with_db_with_db)
  also have "\<dots> = service_delete_items ids (service_delete_item i l)"
    by (simp add: service_delete_items_def service_delete_item_def)
  finally show ?case by (simp add: Cons.IH)
qed

text \<open>Deleting an item removes its row, its place in every list, its file and both its covers, as far as the
  disk lets them go, and nothing else: the other items and every other file stay.\<close>

lemma delete_item_complete:
  "get_item i (lb_db (service_delete_item i l)) = None
   \<and> i \<notin> li_item_id ` set (db_list_items (lb_db (service_delete_item i l)))
   \<and> (\<forall>j. j \<noteq> i \<longrightarrow> get_item j (lb_db (service_delete_item i l)) = get_item j (lb_db l))
   \<and> (\<forall>p. lb_files (service_delete_item i l) p
        = (if \<not> lb_locked l p \<and> (p \<in> {cover_path (lb_storage l) i Full, cover_path (lb_storage l) i Thumb}
                \<or> map_option it_file_path (get_item i (lb_db l)) = Some p)
           then None else lb_files l p))"
proof (intro conjI)
  show "i \<notin> li_item_id ` set (db_list_items (lb_db (service_delete_item i l)))"
    by (auto simp: service_delete_item_def dest: delete_item_rows)
  show "\<forall>p. lb_files (service_delete_item i l) p
        = (if \<not> lb_locked l p \<and> (p \<in> {cover_path (lb_storage l) i Full, cover_path (lb_storage l) i Thumb}
                \<or> map_option it_file_path (get_item i (lb_db l)) = Some p)
           then None else lb_files l p)"
    by (auto simp: service_delete_item_def delete_cached_def files_remove remove_item_file_def split: option.split)
qed (simp_all add: service_delete_item_def get_item_delete)

lemma hard_delete_db: "lb_db (hard_delete_item i l) = delete_item i (lb_db l)"
  by (simp add: hard_delete_item_def split: option.split)

lemma fold_hard_delete_db: "lb_db (fold hard_delete_item ids l) = delete_items ids (lb_db l)"
  by (induction ids arbitrary: l) (simp_all add: hard_delete_db delete_items_Cons)

lemma drop_lists_simps [simp]:
  "db_lists (drop_lists P db) = delete_where (\<lambda>r. P (ls_id r)) (db_lists db)"
  "db_items (drop_lists P db) = db_items db"
  by (simp_all add: drop_lists_def Let_def)

lemma get_list_drop: "get_list k (drop_lists P db) = (if P k then None else get_list k db)"
proof -
  have "find (\<lambda>r. ls_id r = k) (filter (\<lambda>r. \<not> P (ls_id r)) xs)
      = (if P k then None else find (\<lambda>r. ls_id r = k) xs)" for xs
    by (induction xs) auto
  then show ?thesis by (auto simp: get_list_def find_row_def delete_where_def)
qed

lemma get_list_same: "db_lists db = db_lists db' \<Longrightarrow> get_list k db = get_list k db'"
  by (simp add: get_list_def)

text \<open>C21: Deleting a list with its items needs no token and no owner: any request for it, with a valid token, a
  forged one or none, succeeds and removes the list and every item that was on it - also from the lists of
  other users, whose rows keep counting those items in their totals.\<close>

theorem anyone_deletes_with_items:
  "\<exists>l'. serve e decode bearer (Delete_List_With_Items i) l = (Ok No_Content, l')
     \<and> get_list i (lb_db l') = None
     \<and> (\<forall>r. r \<in> set (db_list_items (lb_db l)) \<and> li_list_id r = i \<longrightarrow> get_item (li_item_id r) (lb_db l') = None
            \<and> li_item_id r \<notin> li_item_id ` set (db_list_items (lb_db l')))
     \<and> (\<forall>k. k \<noteq> i \<longrightarrow> get_list k (lb_db l') = get_list k (lb_db l))"
proof -
  let ?ids = "map li_item_id (filter (\<lambda>r. li_list_id r = i) (db_list_items (lb_db l)))"
  let ?l = "with_db (\<lambda>_. drop_lists (\<lambda>j. j = i) (lb_db l)) l"
  let ?l' = "fold hard_delete_item ?ids ?l"
  have s: "serve e decode bearer (Delete_List_With_Items i) l = (Ok No_Content, ?l')"
    by (simp add: serve_def delete_with_items_def delete_list_with_items_def)
  have db: "lb_db ?l' = delete_items ?ids (drop_lists (\<lambda>j. j = i) (lb_db l))" by (simp add: fold_hard_delete_db)
  have lists: "get_list k (lb_db ?l') = (if k = i then None else get_list k (lb_db l))" for k
    unfolding db by (subst get_list_same [of _ "drop_lists (\<lambda>j. j = i) (lb_db l)"]) (simp_all add: get_list_drop)
  have "get_item x (lb_db ?l') = None \<and> x \<notin> li_item_id ` set (db_list_items (lb_db ?l'))" if "x \<in> set ?ids" for x
  proof
    show "get_item x (lb_db ?l') = None" using that unfolding db by (simp only: get_item_delete_items if_True)
    show "x \<notin> li_item_id ` set (db_list_items (lb_db ?l'))"
      using that unfolding db by (metis (no_types, lifting) delete_items_rows imageE)
  qed
  then show ?thesis
    by (intro exI [of _ ?l'] conjI s) (auto simp: lists)
qed

section \<open>Byte ranges\<close>

lemma parse_u64_show: "n < 2 ^ 64 \<Longrightarrow> parse_u64 (show_nat n) = Some n"
proof -
  assume n: "n < 2 ^ 64"
  obtain c t where c: "show_nat n = c # t" using show_nat_not_Nil by (cases "show_nat n") auto
  then have "digit c" using digit_show [of n] by simp
  then have "c \<noteq> 43" by (auto simp: digit_def)
  with c n parse_show [of n] show ?thesis by (simp add: parse_u64_def)
qed

definition range_text :: "rstring \<Rightarrow> rstring \<Rightarrow> rstring" where
  "range_text a b = str ''bytes='' @ a @ [45] @ b"

lemma parse_range_text:
  assumes "45 \<notin> set a" and "45 \<notin> set b"
  shows "parse_range_header (range_text a b) n =
    (case ((if a = [] then map_option (\<lambda>k. n - k) (parse_u64 b) else parse_u64 a),
           (if b = [] then Some (last_position n) else parse_u64 b)) of
       (Some start, Some stop) \<Rightarrow>
         if stop < start \<or> n \<le> start then None else Some (start, min stop (last_position n))
     | _ \<Rightarrow> None)"
proof -
  have p: "prefix (str ''bytes='') (range_text a b)" by (simp add: range_text_def)
  have "drop 6 (range_text a b) = a @ 45 # b" by (simp add: range_text_def str_def)
  then have "split_on 45 (drop 6 (range_text a b)) = [a, b]"
    using assms by (simp add: split_on_append split_on_none)
  with p show ?thesis by (simp add: parse_range_header_def)
qed

lemma range_header_values:
  assumes "0 < n"
  shows "a < 2 ^ 64 \<Longrightarrow> b < 2 ^ 64 \<Longrightarrow> parse_range_header (range_text (show_nat a) (show_nat b)) n
      = (if b < a \<or> n \<le> a then None else Some (a, min b (n - 1)))"
    and "a < 2 ^ 64 \<Longrightarrow> parse_range_header (range_text (show_nat a) []) n = (if n \<le> a then None else Some (a, n - 1))"
    and "k < 2 ^ 64 \<Longrightarrow> parse_range_header (range_text [] (show_nat k)) n
      = (if k < n - k \<or> k = 0 then None else Some (n - k, min k (n - 1)))"
  using assms
  by (auto simp: parse_range_text dash_not_shown show_nat_not_Nil parse_u64_show last_position_def)

text \<open>How a range header is read, for numbers of 64 bits: \<open>bytes=a-b\<close> gives the bytes from \<open>a\<close> to \<open>b\<close> or the
  end of the file, \<open>bytes=a-\<close> those from \<open>a\<close> on, both refused when \<open>a\<close> is not in the file or after \<open>b\<close>. The suffix
  form \<open>bytes=-k\<close> is read wrongly: it starts \<open>k\<close> bytes before the end but stops at position \<open>k\<close>, so it is refused
  for every file longer than twice \<open>k\<close>.\<close>

lemma range_header_read:
  assumes "a < 2 ^ 64" and "b < 2 ^ 64" and "k < 2 ^ 64" and "0 < n"
  shows "parse_range_header (range_text (show_nat a) (show_nat b)) n
      = (if b < a \<or> n \<le> a then None else Some (a, min b (n - 1)))
    \<and> parse_range_header (range_text (show_nat a) []) n = (if n \<le> a then None else Some (a, n - 1))
    \<and> parse_range_header (range_text [] (show_nat k)) n
      = (if k < n - k \<or> k = 0 then None else Some (n - k, min k (n - 1)))"
  using range_header_values [OF assms(4)] assms(1-3) by blast

lemma range_header_read_witness:
  "parse_range_header (range_text (show_nat 2) (show_nat 900)) 100 = Some (2, 99)
   \<and> parse_range_header (range_text (show_nat 2) []) 100 = Some (2, 99)
   \<and> parse_range_header (range_text [] (show_nat 10)) 100 = None"
  using range_header_read [of 2 900 10 100] by simp

text \<open>What a completed item's file is served as.\<close>

definition served :: "int \<Rightarrow> library \<Rightarrow> item \<Rightarrow> bytes \<Rightarrow> bool" where
  "served i l it data \<longleftrightarrow>
     get_item i (lb_db l) = Some it \<and> it_status it = ''completed'' \<and> lb_files l (it_file_path it) = Some data
     \<and> \<not> lb_unreadable l (it_file_path it)"

definition disposition_of :: "item \<Rightarrow> rstring" where
  "disposition_of it = str ''inline; filename='' @ [34] @ it_filename it @ [34]"

lemma download_range:
  assumes "served i l it data" and "header_ok (disposition_of it)"
    and "parse_range_header header (length data) = Some (start, stop)"
  shows "\<exists>r. download_item mime header_ok i (Some header) l = Ok r \<and> fr_status r = 206
      \<and> fr_content_length r = stop - start + 1 \<and> fr_body r = take (stop - start + 1) (drop start data)"
  using assms by (auto simp: download_item_def show_item_def served_def disposition_of_def Let_def)

text \<open>The body of the answer to a request for a range.\<close>

definition body_of :: "file_response http \<Rightarrow> bytes" where
  "body_of r = (case r of Ok f \<Rightarrow> fr_body f | _ \<Rightarrow> [])"

definition chunk :: "(rstring \<Rightarrow> rstring) \<Rightarrow> (rstring \<Rightarrow> bool) \<Rightarrow> int \<Rightarrow> library \<Rightarrow> nat \<Rightarrow> nat \<Rightarrow> bytes" where
  "chunk mime header_ok i l c k =
     body_of (download_item mime header_ok i (Some (range_text (show_nat (k * c)) (show_nat (k * c + (c - 1))))) l)"

lemma chunk_eq:
  assumes "served i l it data" and "header_ok (disposition_of it)" and "0 < c" and "k * c < length data"
    and "k * c + c < 2 ^ 64"
  shows "chunk mime header_ok i l c k = take c (drop (k * c) data)"
proof -
  let ?stop = "min (k * c + (c - 1)) (length data - 1)"
  have p: "parse_range_header (range_text (show_nat (k * c)) (show_nat (k * c + (c - 1)))) (length data) = Some (k * c, ?stop)"
  proof -
    have "parse_range_header (range_text (show_nat (k * c)) (show_nat (k * c + (c - 1)))) (length data)
        = (if k * c + (c - 1) < k * c \<or> length data \<le> k * c then None else Some (k * c, ?stop))"
      by (rule range_header_values(1)) (use assms(3-5) in auto)
    with assms(4) show ?thesis by simp
  qed
  have len: "?stop - k * c + 1 = min c (length data - k * c)" using assms(3,4) by auto
  from download_range [where header_ok = header_ok and mime = mime, OF assms(1,2) p]
  have "chunk mime header_ok i l c k = take (?stop - k * c + 1) (drop (k * c) data)"
    by (auto simp: chunk_def body_of_def)
  then show ?thesis unfolding len by (simp add: min_def)
qed

lemma concat_chunks:
  assumes "0 < c"
  shows "concat (map (\<lambda>k. take c (drop (k * c) xs)) [0..<m]) = take (m * c) xs"
proof (induction m)
  case (Suc m)
  have "take (m * c) xs @ take c (drop (m * c) xs) = take (m * c + c) xs" by (simp add: take_add)
  with Suc show ?case by (simp add: add.commute)
qed simp

text \<open>C20: A player that asks for a file in chunks of any size gets the file: the bodies of the answers to
  \<open>bytes=0-(c-1)\<close>, \<open>bytes=c-(2c-1)\<close> and so on, until the end is passed, put together are the file on the disk. (For an item whose file name can
  stand in a header; for another one the handler panics.)\<close>

theorem chunks_make_file:
  assumes "served i l it data" and "header_ok (disposition_of it)" and "0 < c" and "length data + c < 2 ^ 64"
  shows "concat (map (chunk mime header_ok i l c) [0..<(length data + (c - 1)) div c]) = data"
proof -
  let ?m = "(length data + (c - 1)) div c"
  have k: "k * c < length data" if "k < ?m" for k
  proof -
    have "Suc k * c \<le> ?m * c" using that by (simp only: mult_le_mono1 Suc_le_eq)
    also have "\<dots> \<le> length data + (c - 1)" by (rule div_times_less_eq_dividend)
    finally show ?thesis using assms(3) by simp
  qed
  have "map (chunk mime header_ok i l c) [0..<?m] = map (\<lambda>k. take c (drop (k * c) data)) [0..<?m]"
  proof (rule map_cong [OF refl])
    fix k assume "k \<in> set [0..<?m]"
    then have "k * c < length data" using k by simp
    then show "chunk mime header_ok i l c k = take c (drop (k * c) data)"
      by (intro chunk_eq [OF assms(1)] assms(2,3)) (use assms(4) in simp_all)
  qed
  then have "concat (map (chunk mime header_ok i l c) [0..<?m]) = take (?m * c) data"
    by (simp only: concat_chunks [OF assms(3)])
  moreover have "length data \<le> ?m * c"
  proof -
    have "length data + (c - 1) = ?m * c + (length data + (c - 1)) mod c" by simp
    moreover have "(length data + (c - 1)) mod c < c" using assms(3) by simp
    ultimately show ?thesis by linarith
  qed
  ultimately show ?thesis by simp
qed

definition sample_item :: "int \<Rightarrow> rstring \<Rightarrow> item" where
  "sample_item i path = \<lparr>it_id = i, it_filename = [97], it_original_query = [], it_file_path = path, it_file_size = 5,
     it_bitrate = None, it_duration = None, it_extension = [], it_source_username = [], it_status = ''completed'',
     it_progress = 0, it_error_message = None, it_created_at = 0, it_completed_at = None, it_original_artist = None,
     it_original_track = None, it_sample_rate = None, it_bit_depth = None\<rparr>"

definition sample_list :: "int \<Rightarrow> int \<Rightarrow> list_row" where
  "sample_list i user = \<lparr>ls_id = i, ls_name = [98], ls_user_id = user, ls_status = ''completed'', ls_total_items = 1,
     ls_completed_items = 1, ls_failed_items = 0, ls_created_at = 0, ls_completed_at = None\<rparr>"

text \<open>Two users with a list each, both with the one item.\<close>

definition sample_library :: library where
  "sample_library = \<lparr>lb_meta = \<lparr>md_db = (empty_db [(1, [97]), (2, [98])] 50)\<lparr>db_items := [sample_item 1 [47, 97]],
        db_lists := [sample_list 1 1, sample_list 2 2],
        db_list_items := [\<lparr>li_id = 1, li_list_id = 1, li_item_id = 1, li_position = 0, li_created_at = 0\<rparr>,
          \<lparr>li_id = 2, li_list_id = 2, li_item_id = 1, li_position = 0, li_created_at = 0\<rparr>]\<rparr>,
      md_columns = (\<lambda>_. null_columns), md_limits = (\<lambda>_. None), md_events = [], md_lookups = [], md_tag_writes = [], md_job_running = False,
      md_job_total = 0, md_backfill_running = False, md_backfill_total = 0, md_backfill_processed = 0,
      md_backfill_failed = 0\<rparr>,
     lb_files = [[47, 97] \<mapsto> [1, 2, 3, 4, 5]], lb_locked = (\<lambda>_. False), lb_unreadable = (\<lambda>_. False), lb_storage = [115]\<rparr>"

lemma sample_served: "served 1 sample_library (sample_item 1 [47, 97]) [1, 2, 3, 4, 5]"
  by (simp add: served_def sample_library_def lb_db_def get_item_def find_row_def sample_item_def)

theorem chunks_make_file_witness:
  "concat (map (chunk (\<lambda>_. []) (\<lambda>_. True) 1 sample_library 2)
     [0..<(length [1, 2, 3, 4, 5 :: u8] + (2 - 1)) div 2]) = [1, 2, 3, 4, 5]"
  by (rule chunks_make_file [OF sample_served]) simp_all

definition sample_api :: api_env where
  "sample_api = \<lparr>ae_unicode = ascii_tables, ae_mime = (\<lambda>_. []), ae_header_ok = (\<lambda>_. True), ae_header_error = [],
     ae_temp_ok = True, ae_accepts = (\<lambda>_ _. True)\<rparr>"

theorem anyone_deletes_with_items_witness:
  "\<exists>l'. serve sample_api (\<lambda>_. None) (None :: nat option) (Delete_List_With_Items 1) sample_library = (Ok No_Content, l')
     \<and> get_item 1 (lb_db l') = None \<and> get_list 2 (lb_db l') = Some (sample_list 2 2)
     \<and> get_list_items 2 (lb_db l') = [] \<and> ls_total_items (sample_list 2 2) = 1"
proof -
  obtain l' where s: "serve sample_api (\<lambda>_. None) (None :: nat option) (Delete_List_With_Items 1) sample_library = (Ok No_Content, l')"
    and i: "\<forall>r. r \<in> set (db_list_items (lb_db sample_library)) \<and> li_list_id r = 1 \<longrightarrow>
            get_item (li_item_id r) (lb_db l') = None \<and> li_item_id r \<notin> li_item_id ` set (db_list_items (lb_db l'))"
    and k: "\<forall>k. k \<noteq> 1 \<longrightarrow> get_list k (lb_db l') = get_list k (lb_db sample_library)"
    using anyone_deletes_with_items [of sample_api "\<lambda>_. None" "None :: nat option" 1 sample_library] by blast
  let ?r = "\<lparr>li_id = 1, li_list_id = 1, li_item_id = 1, li_position = 0, li_created_at = 0\<rparr>"
  have "?r \<in> set (db_list_items (lb_db sample_library)) \<and> li_list_id ?r = 1"
    by (simp add: sample_library_def lb_db_def)
  with i have gone: "get_item (li_item_id ?r) (lb_db l') = None" by blast
  have "filter (\<lambda>i. it_id i = 1) (db_items (lb_db l')) = []"
    using gone by (auto simp: get_item_def find_row_def find_None_iff filter_empty_conv)
  moreover have l': "l' = delete_with_items 1 sample_library" using s by (simp add: serve_def)
  moreover have "db_list_items (lb_db l') = []" unfolding l' by code_simp
  ultimately have "get_list_items 2 (lb_db l') = []" by (simp add: get_list_items_def joined_def)
  moreover have "get_list 2 (lb_db sample_library) = Some (sample_list 2 2)"
    by (simp add: sample_library_def lb_db_def get_list_def find_row_def sample_list_def)
  moreover have "ls_total_items (sample_list 2 2) = 1" by (simp add: sample_list_def)
  ultimately show ?thesis using s k gone by (intro exI [of _ l']) simp
qed

section \<open>The archive of a list\<close>

definition readable :: "library \<Rightarrow> item \<Rightarrow> bool" where
  "readable l it \<longleftrightarrow> lb_files l (it_file_path it) \<noteq> None \<and> \<not> lb_unreadable l (it_file_path it)"

lemma zip_items_all:
  "zip_items (\<lambda>_ _. True) l its acc =
    (if list_all (readable l) its then Ok (acc @ map (\<lambda>it. (it_filename it, the (lb_files l (it_file_path it)))) its)
     else Err (500, str ''Failed to read file''))"
  by (induction its arbitrary: acc) (auto simp: readable_def split: option.splits)

text \<open>The archive of a list holds the files of its items under their names, in the order of the list, and
  nothing else; it is only made when every item is completed and every file can be read, and each refusal has its
  own status. (For an archive writer that takes every name.)\<close>

lemma archive_of_list:
  assumes "get_list i (lb_db l) = Some r" and "its = get_list_items i (lb_db l)"
  shows "download_list True (\<lambda>_ _. True) (\<lambda>_. True) [] i l =
    (if \<not> list_all (\<lambda>it. it_status it = ''completed'') its
     then Err (409, show_nat (length (filter (\<lambda>it. it_status it \<noteq> ''completed'') its)) @ str '' items not yet downloaded'')
     else if \<not> list_all (readable l) its then Err (500, str ''Failed to read file'')
     else Ok (str ''attachment; filename='' @ [34] @ ls_name r @ str ''.zip'' @ [34],
              map (\<lambda>it. (it_filename it, the (lb_files l (it_file_path it)))) its))"
proof -
  have "0 < length (filter (\<lambda>it. it_status it \<noteq> ''completed'') its) \<longleftrightarrow> \<not> list_all (\<lambda>it. it_status it = ''completed'') its"
    by (auto simp: list_all_iff filter_empty_conv)
  with assms show ?thesis
    by (simp add: download_list_def show_list_def get_list_with_items_def zip_items_all Let_def)
qed

lemma archive_of_list_witness:
  "download_list True (\<lambda>_ _. True) (\<lambda>_. True) [] 1 sample_library
   = Ok (str ''attachment; filename='' @ [34, 98] @ str ''.zip'' @ [34], [([97], [1, 2, 3, 4, 5])])"
proof -
  have l: "get_list 1 (lb_db sample_library) = Some (sample_list 1 1)"
    by (simp add: sample_library_def lb_db_def get_list_def find_row_def sample_list_def)
  have i: "get_list_items 1 (lb_db sample_library) = [sample_item 1 [47, 97]]"
    by (simp add: sample_library_def lb_db_def get_list_items_def joined_def sample_item_def)
  show ?thesis
    by (subst archive_of_list [OF l refl])
      (simp add: i readable_def, simp add: sample_library_def sample_item_def sample_list_def)
qed

end
