(* ===== verification/Service_Api.thy ===== *)
theory Service_Api
  imports Queue Upload Messaging
begin

text \<open>
  The handlers over the two services: \<open>src/src/api/queue.rs\<close> over the search queue, with the requests of
  \<open>src/src/models/mod.rs\<close>, and \<open>src/src/api/uploads.rs\<close> over uploads and shares. All of them take an
  \<open>AuthUser\<close>; an argument \<open>auth\<close> that a handler does not use stands for the extractor alone.
\<close>

section \<open>The search queue\<close>

record enqueue_request =
  er_track :: rstring
  er_artist :: "rstring option"
  er_format :: "rstring option"
  er_client_id :: "rstring option"

record list_track =
  lt_track :: rstring
  lt_artist :: "rstring option"
  lt_client_id :: "rstring option"

record enqueue_response =
  en_queue_id :: int
  en_track :: rstring
  en_artist :: "rstring option"
  en_query :: rstring
  en_position :: int
  en_client_id :: "rstring option"

record list_response =
  el_list_id :: int
  el_list_name :: rstring
  el_queue_ids :: "int list"
  el_total_queued :: int

text \<open>\<open>search_query\<close>; the handler of lists builds the same text for each of its tracks.\<close>

definition search_query :: "unicode \<Rightarrow> rstring option \<Rightarrow> rstring \<Rightarrow> rstring" where
  "search_query u artist track =
     (case artist of
        Some a \<Rightarrow> if trim u a \<noteq> [] then trim u a @ [32] @ trim u track else trim u track
      | None \<Rightarrow> trim u track)"

fun in_http :: "('a, rstring) outcome \<times> 's \<Rightarrow> 'a http \<times> 's" where
  "in_http (Ok x, s) = (Ok x, s)"
| "in_http (Err e, s) = (Err (500, e), s)"
| "in_http (Panic, s) = (Panic, s)"

definition request_search ::
  "unicode \<Rightarrow> auth_user \<Rightarrow> enqueue_request \<Rightarrow> queue_service \<Rightarrow> enqueue_response http \<times> queue_service" where
  "request_search u auth r s =
     (if trim u (er_track r) = [] then (Err (400, str ''Track name cannot be empty''), s)
      else
        (let query = search_query u (er_artist r) (er_track r) in
         case in_http (enqueue_search (au_id auth) query (er_artist r) (Some (er_track r)) (er_format r)
                         (er_client_id r) s) of
           (Ok (q, position), s) \<Rightarrow>
             (Ok \<lparr>en_queue_id = q_id q, en_track = er_track r, en_artist = er_artist r, en_query = query,
                 en_position = position, en_client_id = er_client_id r\<rparr>, s)
         | (Err e, s) \<Rightarrow> (Err e, s)
         | (Panic, s) \<Rightarrow> (Panic, s)))"

definition track_of :: "unicode \<Rightarrow> list_track \<Rightarrow> track" where
  "track_of u t = (search_query u (lt_artist t) (lt_track t), lt_artist t, Some (lt_track t), lt_client_id t)"

definition named_tracks :: "unicode \<Rightarrow> list_track list \<Rightarrow> track list" where
  "named_tracks u ts = map (track_of u) (filter (\<lambda>t. trim u (lt_track t) \<noteq> []) ts)"

definition request_list ::
  "unicode \<Rightarrow> rstring \<Rightarrow> auth_user \<Rightarrow> rstring option \<Rightarrow> list_track list \<Rightarrow> rstring option \<Rightarrow> queue_service \<Rightarrow>
   list_response http \<times> queue_service" where
  "request_list u now_name auth name ts fmt s =
     (if ts = [] then (Err (400, str ''Tracks list cannot be empty''), s)
      else if named_tracks u ts = [] then (Err (400, str ''All tracks are empty''), s)
      else
        (case in_http (enqueue_list now_name (au_id auth) name (named_tracks u ts) fmt s) of
           (Ok (l, qs), s) \<Rightarrow>
             (Ok \<lparr>el_list_id = ls_id l, el_list_name = ls_name l, el_queue_ids = map q_id qs,
                 el_total_queued = as_i32 (int (length qs))\<rparr>, s)
         | (Err e, s) \<Rightarrow> (Err e, s)
         | (Panic, s) \<Rightarrow> (Panic, s)))"

definition show_queue_status :: "auth_user \<Rightarrow> queue_service \<Rightarrow> queue_status" where
  "show_queue_status auth s = get_user_queue_status (au_id auth) s"

definition get_queue_items :: "auth_user \<Rightarrow> queue_service \<Rightarrow> queued_search list \<times> int \<times> int" where
  "get_queue_items auth s = (get_user_pending_queue (au_id auth) s, db_user_queue_status (au_id auth) (qs_db s))"

text \<open>The caller is not compared with the owner of the search.\<close>

definition request_cancel :: "auth_user \<Rightarrow> int \<Rightarrow> queue_service \<Rightarrow> (bool \<times> rstring) http \<times> queue_service" where
  "request_cancel auth i s =
     (case in_http (cancel_search i s) of
        (Ok b, s) \<Rightarrow>
          (Ok (b, if b then str ''Search '' @ show_int i @ str '' cancelled''
                  else str ''Search '' @ show_int i @ str '' not found or already processing''), s)
      | (Err e, s) \<Rightarrow> (Err e, s)
      | (Panic, s) \<Rightarrow> (Panic, s))"

text \<open>A page of the history; a negative limit is no limit and a negative offset none.\<close>

definition history_page :: "int \<Rightarrow> int \<Rightarrow> database \<Rightarrow> (history_row \<times> rstring) list" where
  "history_page limit offset d =
     sql_limit limit (get_search_history (length (db_history d) * length (db_users d)) (nat offset) d)"

definition show_history ::
  "auth_user \<Rightarrow> int option \<Rightarrow> int option \<Rightarrow> queue_service \<Rightarrow> (history_row \<times> rstring) list \<times> int \<times> int \<times> int" where
  "show_history auth limit offset s =
     (let limit = min (case limit of Some n \<Rightarrow> n | None \<Rightarrow> 50) 100;
          offset = (case offset of Some n \<Rightarrow> n | None \<Rightarrow> 0)
      in (history_page limit offset (qs_db s), get_search_history_count (qs_db s), limit, offset))"

section \<open>Uploads and shares\<close>

record config_request =
  cr_slots :: "nat option"
  cr_speed_kbps :: "u64 option"
  cr_sharing :: "bool option"

definition given :: "'a option \<Rightarrow> 'a \<Rightarrow> 'a" where
  "given new old = (case new of Some x \<Rightarrow> x | None \<Rightarrow> old)"

definition changed_config :: "config_request \<Rightarrow> upload_config \<Rightarrow> upload_config" where
  "changed_config r c =
     \<lparr>max_upload_slots = given (cr_slots r) (max_upload_slots c),
      max_upload_speed_kbps = given (cr_speed_kbps r) (max_upload_speed_kbps c),
      sharing_enabled = given (cr_sharing r) (sharing_enabled c)\<rparr>"

definition get_upload_status :: "auth_user \<Rightarrow> nat \<Rightarrow> upload_service \<Rightarrow> upload_stats" where
  "get_upload_status auth now s = upload_statistics now s"

definition get_upload_config :: "auth_user \<Rightarrow> upload_service \<Rightarrow> upload_config" where
  "get_upload_config auth s = up_config s"

definition update_upload_config ::
  "auth_user \<Rightarrow> config_request \<Rightarrow> upload_service \<Rightarrow> upload_config \<times> upload_service" where
  "update_upload_config auth r s =
     (let c = changed_config r (up_config s) in (c, update_config c s))"

text \<open>The entries waiting in the queue; one that is being sent has left it. Times are milliseconds.\<close>

definition get_active_uploads :: "auth_user \<Rightarrow> nat \<Rightarrow> upload_service \<Rightarrow> (u64 \<times> rstring \<times> rstring \<times> u64 \<times> rstring \<times> nat) list" where
  "get_active_uploads auth now s =
     map (\<lambda>e. (ue_id e, ue_username e, ue_virtual_path e, ue_file_size e, str ''queued'',
               (now - ue_queued_at e) div 1000)) (up_queue s)"

definition get_sharing_stats :: "auth_user \<Rightarrow> sharing_service \<Rightarrow> u32 \<times> u32 \<times> bool" where
  "get_sharing_stats auth s = (case counts (sh_index s) of (folders, files) \<Rightarrow> (folders, files, sh_enabled s))"

definition rescan_shares ::
  "unicode \<Rightarrow> (bytes \<Rightarrow> bytes) \<Rightarrow> file_system \<Rightarrow> (share_error \<Rightarrow> rstring) \<Rightarrow> auth_user \<Rightarrow> sharing_service \<Rightarrow>
   (u32 \<times> u32 \<times> bool) http \<times> sharing_service" where
  "rescan_shares u compress disk show_error auth s =
     (case scan u compress disk s of
        (Ok (folders, files), s) \<Rightarrow> (Ok (folders, files, sh_enabled s), s)
      | (Err e, s) \<Rightarrow> (Err (500, str ''Rescan failed: '' @ show_error e), s)
      | (Panic, s) \<Rightarrow> (Panic, s))"

end
