(* ===== verification/Service_Properties.thy ===== *)
theory Service_Properties
  imports Service_Api
begin

text \<open>
  The properties of the handlers over the search queue: what a request for one search and for a list puts into
  the queue, and taking a search back.
\<close>

section \<open>Queries\<close>

text \<open>A text without white space at its ends.\<close>

definition tidy :: "unicode \<Rightarrow> rstring \<Rightarrow> bool" where
  "tidy u s \<longleftrightarrow> s \<noteq> [] \<and> \<not> whitespace u (hd s) \<and> \<not> whitespace u (last s)"

lemma tidy_trim: "trim u s \<noteq> [] \<Longrightarrow> tidy u (trim u s)"
proof -
  assume n: "trim u s \<noteq> []"
  let ?t = "dropWhile (whitespace u) s"
  have t: "trim u s = rev (dropWhile (whitespace u) (rev ?t))" by (simp add: trim_def)
  have "dropWhile (whitespace u) (rev ?t) \<noteq> []" using n t by simp
  then have l: "\<not> whitespace u (last (trim u s))" unfolding t by (simp add: last_rev hd_dropWhile)
  have "prefix (trim u s) ?t"
    unfolding t by (metis rev_rev_ident suffix_dropWhile suffix_to_prefix)
  then obtain zs where "?t = trim u s @ zs" by (auto simp: prefix_def)
  with n have "hd (trim u s) = hd ?t" "?t \<noteq> []" by (auto simp: hd_append)
  then have "\<not> whitespace u (hd (trim u s))" using hd_dropWhile by metis
  with n l show ?thesis by (simp add: tidy_def)
qed

lemma tidy_query: "trim u track \<noteq> [] \<Longrightarrow> tidy u (search_query u artist track)"
  using tidy_trim [of u track] tidy_trim [of u "the artist"]
  by (auto simp: search_query_def tidy_def hd_append split: option.split)

section \<open>One search\<close>

text \<open>The row a request adds.\<close>

definition search_row :: "unicode \<Rightarrow> auth_user \<Rightarrow> enqueue_request \<Rightarrow> database \<Rightarrow> queued_search" where
  "search_row u auth r d =
     \<lparr>q_id = seq_queue d + 1, q_user_id = au_id auth, q_query = search_query u (er_artist r) (er_track r),
      q_format = er_format r, q_list_id = None, q_list_position = None, q_status = ''pending'', q_item_id = None,
      q_error_message = None, q_created_at = clock d, q_started_at = None, q_completed_at = None,
      q_retry_count = 0, q_client_id = er_client_id r, q_original_artist = er_artist r,
      q_original_track = Some (er_track r)\<rparr>"

lemma search_requested:
  assumes "has_user (qs_db s) (au_id auth)" and "trim u (er_track r) \<noteq> []"
  shows "request_search u auth r s =
    (let row = search_row u auth r (qs_db s);
         d = (qs_db s)\<lparr>db_queue := db_queue (qs_db s) @ [row], seq_queue := q_id row\<rparr>;
         position = get_queue_position (q_id row) d
     in (Ok \<lparr>en_queue_id = q_id row, en_track = er_track r, en_artist = er_artist r, en_query = q_query row,
             en_position = position, en_client_id = er_client_id r\<rparr>,
         s\<lparr>qs_db := d, events := events s @ [SearchQueued (q_id row) (q_query row) (as_i32 position) (er_client_id r)]\<rparr>))"
  using assms
  by (simp add: request_search_def enqueue_search_def db_enqueue_search_def qtry_def qget_def broadcast_def qret_def
      qseq_def opt_ref_def Let_def search_row_def)

text \<open>A request for a search with a name that is not blank, by a user of the instance, adds exactly one row to
  the queue: the caller's, pending, with a query that has no white space at its ends; the answer repeats its id,
  query and place in the queue, which one event announces. A blank name is refused and changes nothing.\<close>

lemma search_request_outcome:
  assumes "has_user (qs_db s) (au_id auth)"
  shows "request_search u auth r s =
    (if trim u (er_track r) = [] then (Err (400, str ''Track name cannot be empty''), s)
     else
       (let row = search_row u auth r (qs_db s);
            d = (qs_db s)\<lparr>db_queue := db_queue (qs_db s) @ [row], seq_queue := q_id row\<rparr>;
            position = get_queue_position (q_id row) d
        in (Ok \<lparr>en_queue_id = q_id row, en_track = er_track r, en_artist = er_artist r, en_query = q_query row,
                en_position = position, en_client_id = er_client_id r\<rparr>,
            s\<lparr>qs_db := d, events := events s @ [SearchQueued (q_id row) (q_query row) (as_i32 position) (er_client_id r)]\<rparr>)))
    \<and> (trim u (er_track r) \<noteq> [] \<longrightarrow> tidy u (q_query (search_row u auth r (qs_db s))))"
  using search_requested [OF assms] tidy_query [of u "er_track r" "er_artist r"]
  by (simp add: request_search_def search_row_def)

definition sample_auth_1 :: auth_user where
  "sample_auth_1 = \<lparr>au_id = 1, au_username = [97], au_role = [117]\<rparr>"

definition sample_queue :: queue_service where
  "sample_queue = queue_new (empty_db [(1, [97])] 50) (sharing_new [115] True)"

lemma search_request_outcome_witness:
  "let r = \<lparr>er_track = [32, 116, 32], er_artist = Some [32], er_format = None, er_client_id = None\<rparr>;
       row = search_row ascii_tables sample_auth_1 r (qs_db sample_queue)
   in q_query row = [116] \<and> db_queue (qs_db (snd (request_search ascii_tables sample_auth_1 r sample_queue))) = [row]"
proof -
  let ?r = "\<lparr>er_track = [32, 116, 32], er_artist = Some [32], er_format = None, er_client_id = None\<rparr>"
  have u: "has_user (qs_db sample_queue) (au_id sample_auth_1)"
    by (simp add: sample_queue_def sample_auth_1_def queue_new_def empty_db_def has_user_def)
  have t: "trim ascii_tables (er_track ?r) \<noteq> []" "q_query (search_row ascii_tables sample_auth_1 ?r (qs_db sample_queue)) = [116]"
    by (simp_all add: trim_def ascii_tables_def search_row_def search_query_def)
  from search_request_outcome [OF u, of ascii_tables ?r] t show ?thesis
    by (simp add: Let_def) (simp add: sample_queue_def queue_new_def empty_db_def)
qed

text \<open>The caller of a cancellation does not matter.\<close>

lemma anyone_cancels: "request_cancel auth i s = request_cancel auth' i s"
  by (simp add: request_cancel_def)

text \<open>A search that was just queued can be taken back - by anyone who is logged in - and leaves the rows of the
  queue as they were before.\<close>

lemma cancel_undoes_request:
  assumes "has_user (qs_db s) (au_id auth)" and "trim u (er_track r) \<noteq> []"
    and "\<forall>q. q \<in> set (db_queue (qs_db s)) \<longrightarrow> q_id q \<le> seq_queue (qs_db s)"
    and "request_search u auth r s = (Ok a, s')" and "request_cancel auth' (en_queue_id a) s' = (b, s'')"
  shows "b = Ok (True, str ''Search '' @ show_int (en_queue_id a) @ str '' cancelled'')
    \<and> db_queue (qs_db s'') = db_queue (qs_db s)"
proof -
  let ?row = "search_row u auth r (qs_db s)"
  have a: "en_queue_id a = q_id ?row" and q: "db_queue (qs_db s') = db_queue (qs_db s) @ [?row]"
    using search_requested [OF assms(1,2)] assms(4) by (auto simp: Let_def)
  have row: "q_id ?row = seq_queue (qs_db s) + 1" "q_status ?row = ''pending''" by (simp_all add: search_row_def)
  have fresh: "q_id x \<noteq> q_id ?row" if "x \<in> set (db_queue (qs_db s))" for x
    using assms(3) that row by force
  have "filter (\<lambda>q. q_id q = q_id ?row \<and> q_status q = ''pending'') (db_queue (qs_db s')) = [?row]"
    and "delete_where (\<lambda>q. q_id q = q_id ?row \<and> q_status q = ''pending'') (db_queue (qs_db s')) = db_queue (qs_db s)"
    using fresh row by (auto simp: q delete_where_def filter_empty_conv filter_id_conv)
  with assms(5) a show ?thesis
    by (auto simp: request_cancel_def cancel_search_def cancel_pending_search_def count_where_def Let_def)
qed

lemma cancel_undoes_request_witness:
  "let r = \<lparr>er_track = [116], er_artist = None, er_format = None, er_client_id = None\<rparr>;
       s' = snd (request_search ascii_tables sample_auth_1 r sample_queue);
       auth' = \<lparr>au_id = 2, au_username = [98], au_role = []\<rparr>
   in fst (request_cancel auth' 1 s') = Ok (True, str ''Search '' @ show_int 1 @ str '' cancelled'')
      \<and> db_queue (qs_db (snd (request_cancel auth' 1 s'))) = db_queue (qs_db sample_queue)"
proof -
  let ?r = "\<lparr>er_track = [116], er_artist = None, er_format = None, er_client_id = None\<rparr>"
  let ?p = "request_search ascii_tables sample_auth_1 ?r sample_queue"
  let ?auth' = "\<lparr>au_id = 2, au_username = [98], au_role = []\<rparr>"
  let ?a = "\<lparr>en_queue_id = 1, en_track = [116], en_artist = None, en_query = [116], en_position = 0, en_client_id = None\<rparr>"
  have u: "has_user (qs_db sample_queue) (au_id sample_auth_1)"
    by (simp add: sample_queue_def sample_auth_1_def queue_new_def empty_db_def has_user_def)
  have t: "trim ascii_tables (er_track ?r) \<noteq> []" by (simp add: trim_def ascii_tables_def)
  have q: "\<forall>q. q \<in> set (db_queue (qs_db sample_queue)) \<longrightarrow> q_id q \<le> seq_queue (qs_db sample_queue)"
    by (simp add: sample_queue_def queue_new_def empty_db_def)
  have "fst ?p = Ok ?a" by code_simp
  then have p: "?p = (Ok ?a, snd ?p)" by (metis prod.collapse)
  show ?thesis
    unfolding Let_def
    using cancel_undoes_request [OF u t q p prod.collapse [symmetric], of ?auth']
    by (simp only: enqueue_response.simps)
qed

section \<open>A list of searches\<close>

text \<open>The rows of the tracks of a list, from a position on.\<close>

fun list_rows :: "int \<Rightarrow> nat \<Rightarrow> track list \<Rightarrow> rstring option \<Rightarrow> int \<Rightarrow> int \<Rightarrow> nat \<Rightarrow> queued_search list" where
  "list_rows user pos [] fmt l i now = []"
| "list_rows user pos ((query, artist, trck, client) # ts) fmt l i now =
     \<lparr>q_id = i + 1, q_user_id = user, q_query = query, q_format = fmt, q_list_id = Some l,
      q_list_position = Some (as_i32 (int pos)), q_status = ''pending'', q_item_id = None, q_error_message = None,
      q_created_at = now, q_started_at = None, q_completed_at = None, q_retry_count = 0, q_client_id = client,
      q_original_artist = artist, q_original_track = trck\<rparr>
     # list_rows user (Suc pos) ts fmt l (i + 1) now"

lemma enqueue_tracks_rows:
  assumes "has_user d user" and "has_list d l"
  shows "enqueue_tracks user pos ts fmt l d =
    (Ok (list_rows user pos ts fmt l (seq_queue d) (clock d)),
     d\<lparr>db_queue := db_queue d @ list_rows user pos ts fmt l (seq_queue d) (clock d),
       seq_queue := seq_queue d + int (length ts)\<rparr>)"
  using assms
proof (induction ts arbitrary: pos d)
  case (Cons t ts)
  obtain query artist trck client where t: "t = (query, artist, trck, client)" by (cases t)
  let ?q = "hd (list_rows user pos (t # ts) fmt l (seq_queue d) (clock d))"
  let ?d = "d\<lparr>db_queue := db_queue d @ [?q], seq_queue := seq_queue d + 1\<rparr>"
  have "has_user ?d user" "has_list ?d l" using Cons.prems by (simp_all add: has_user_def has_list_def)
  with Cons.IH have "enqueue_tracks user (Suc pos) ts fmt l ?d =
      (Ok (list_rows user (Suc pos) ts fmt l (seq_queue d + 1) (clock d)),
       d\<lparr>db_queue := db_queue d @ ?q # list_rows user (Suc pos) ts fmt l (seq_queue d + 1) (clock d),
         seq_queue := seq_queue d + int (length (t # ts))\<rparr>)" by (simp add: add.assoc)
  moreover have "db_enqueue_search user query artist trck fmt (Some l) (Some (as_i32 (int pos))) client d = (Ok ?q, ?d)"
    using Cons.prems by (simp add: db_enqueue_search_def opt_ref_def t Let_def)
  ultimately show ?case by (simp add: t)
qed simp

lemma list_rows_maps:
  "map q_query (list_rows user pos ts fmt l i now) = map fst ts"
  "map q_id (list_rows user pos ts fmt l i now) = map (\<lambda>k. i + 1 + int k) [0..<length ts]"
  "map q_list_position (list_rows user pos ts fmt l i now) = map (\<lambda>k. Some (as_i32 (int (pos + k)))) [0..<length ts]"
  "list_all (\<lambda>q. q_user_id q = user \<and> q_list_id q = Some l \<and> q_status q = ''pending'')
     (list_rows user pos ts fmt l i now)"
proof -
  have m: "map f [0..<Suc n] = f 0 # map (\<lambda>k. f (Suc k)) [0..<n]" for f :: "nat \<Rightarrow> 'b" and n
    by (simp add: upt_conv_Cons map_Suc_upt [symmetric] del: upt_Suc)
  show "map q_query (list_rows user pos ts fmt l i now) = map fst ts"
    by (induction user pos ts fmt l i now rule: list_rows.induct) simp_all
  show "map q_id (list_rows user pos ts fmt l i now) = map (\<lambda>k. i + 1 + int k) [0..<length ts]"
  proof (induction user pos ts fmt l i now rule: list_rows.induct)
    case (2 user pos query artist trck client ts fmt l i now)
    then show ?case unfolding length_Cons m by (simp add: algebra_simps)
  qed simp
  show "map q_list_position (list_rows user pos ts fmt l i now) = map (\<lambda>k. Some (as_i32 (int (pos + k)))) [0..<length ts]"
  proof (induction user pos ts fmt l i now rule: list_rows.induct)
    case (2 user pos query artist trck client ts fmt l i now)
    then show ?case unfolding length_Cons m by (simp add: algebra_simps)
  qed simp
  show "list_all (\<lambda>q. q_user_id q = user \<and> q_list_id q = Some l \<and> q_status q = ''pending'')
     (list_rows user pos ts fmt l i now)"
    by (induction user pos ts fmt l i now rule: list_rows.induct) simp_all
qed

text \<open>A request for a list makes one list of the caller and one pending search for every track whose name is not
  blank, in the order of the request and numbered from zero; the query of each is the tidy text of its artist
  and track, and the total of the list and of the answer is the number of searches queued. (For fewer than two
  to the 31 tracks.)\<close>

lemma list_request_outcome:
  assumes "has_user (qs_db s) (au_id auth)" and "named_tracks u ts \<noteq> []" and "length ts < 2 ^ 31"
    and "request_list u now_name auth name ts fmt s = (r, s')"
  shows "\<exists>l rows a. r = Ok a \<and> db_lists (qs_db s') = db_lists (qs_db s) @ [l]
      \<and> db_queue (qs_db s') = db_queue (qs_db s) @ rows
      \<and> ls_user_id l = au_id auth \<and> ls_total_items l = int (length rows) \<and> el_total_queued a = int (length rows)
      \<and> el_queue_ids a = map q_id rows \<and> el_list_id a = ls_id l
      \<and> map q_query rows = map (\<lambda>t. search_query u (lt_artist t) (lt_track t)) (filter (\<lambda>t. trim u (lt_track t) \<noteq> []) ts)
      \<and> map q_list_position rows = map (\<lambda>k. Some (int k)) [0..<length rows]
      \<and> list_all (\<lambda>q. q_user_id q = au_id auth \<and> q_list_id q = Some (ls_id l) \<and> q_status q = ''pending''
                   \<and> tidy u (q_query q)) rows"
proof -
  let ?d = "qs_db s"
  let ?ts = "named_tracks u ts"
  let ?i = "seq_lists ?d + 1"
  let ?name = "case name of Some n \<Rightarrow> n | None \<Rightarrow> now_name"
  let ?l = "\<lparr>ls_id = ?i, ls_name = ?name, ls_user_id = au_id auth, ls_status = ''pending'',
     ls_total_items = as_i32 (int (length ?ts)), ls_completed_items = 0, ls_failed_items = 0,
     ls_created_at = clock ?d, ls_completed_at = None\<rparr>"
  let ?d1 = "?d\<lparr>db_lists := db_lists ?d @ [?l], seq_lists := ?i\<rparr>"
  let ?rows = "list_rows (au_id auth) 0 ?ts fmt ?i (seq_queue ?d) (clock ?d)"
  let ?d2 = "?d1\<lparr>db_queue := db_queue ?d @ ?rows, seq_queue := seq_queue ?d + int (length ?ts)\<rparr>"
  have "length ?ts \<le> length ts" by (simp add: named_tracks_def)
  then have n: "int (length ?ts) < 2147483648" using assms(3) by simp
  have c: "create_list ?name (au_id auth) (as_i32 (int (length ?ts))) ?d = (Ok ?l, ?d1)"
    using assms(1) by (simp add: create_list_def Let_def)
  have "has_user ?d1 (au_id auth)" "has_list ?d1 ?i" using assms(1) by (simp_all add: has_user_def has_list_def)
  from enqueue_tracks_rows [OF this, of 0 ?ts fmt]
  have e: "enqueue_searches_for_list (au_id auth) ?ts fmt (ls_id ?l) ?d1 = (Ok ?rows, ?d2)"
    by (simp add: enqueue_searches_for_list_def)
  have q: "enqueue_list now_name (au_id auth) name ?ts fmt s
      = (Ok (?l, ?rows), s\<lparr>qs_db := ?d2, events := events s @ [ListCreated ?i ?name (as_i32 (int (length ?ts)))]\<rparr>)"
    using c e by (simp add: enqueue_list_def qtry_def broadcast_def qseq_def qret_def Let_def)
  have len: "length ?rows = length ?ts"
    by (metis length_map list_rows_maps(1))
  have "ts \<noteq> []" using assms(2) by (auto simp: named_tracks_def)
  then have r: "r = Ok \<lparr>el_list_id = ?i, el_list_name = ?name, el_queue_ids = map q_id ?rows,
      el_total_queued = as_i32 (int (length ?rows))\<rparr>"
    and s': "qs_db s' = ?d2"
    using assms(2,4) q by (auto simp: request_list_def)
  have queries: "map q_query ?rows = map (\<lambda>t. search_query u (lt_artist t) (lt_track t)) (filter (\<lambda>t. trim u (lt_track t) \<noteq> []) ts)"
    by (simp add: list_rows_maps named_tracks_def track_of_def)
  have "list_all (tidy u) (map q_query ?rows)"
    unfolding queries by (auto simp: list_all_iff tidy_query)
  then have tidy: "list_all (\<lambda>q. tidy u (q_query q)) ?rows" by (simp add: list_all_iff)
  have pos: "map q_list_position ?rows = map (\<lambda>k. Some (int k)) [0..<length ?rows]"
    unfolding list_rows_maps(3) len using n by simp
  have own: "list_all (\<lambda>q. q_user_id q = au_id auth \<and> q_list_id q = Some ?i \<and> q_status q = ''pending'') ?rows"
    by (rule list_rows_maps(4))
  have t: "as_i32 (int (length ?ts)) = int (length ?rows)" using n len by simp
  show ?thesis
    by (rule exI [of _ ?l], rule exI [of _ ?rows], rule exI, intro conjI, rule r)
      (use queries pos own tidy s' t len in \<open>simp_all add: list_all_iff\<close>)
qed

lemma list_request_outcome_witness:
  "\<exists>l rows a. request_list ascii_tables [78] sample_auth_1 None
       [\<lparr>lt_track = [116], lt_artist = None, lt_client_id = None\<rparr>, \<lparr>lt_track = [32], lt_artist = None, lt_client_id = None\<rparr>]
       None sample_queue = (Ok a, l) \<and> map q_query rows = [[116]] \<and> db_queue (qs_db l) = rows"
proof -
  let ?ts = "[\<lparr>lt_track = [116], lt_artist = None, lt_client_id = None\<rparr>, \<lparr>lt_track = [32], lt_artist = None, lt_client_id = None\<rparr>]"
  have u: "has_user (qs_db sample_queue) (au_id sample_auth_1)"
    by (simp add: sample_queue_def sample_auth_1_def queue_new_def empty_db_def has_user_def)
  have t: "named_tracks ascii_tables ?ts \<noteq> []"
    and f: "filter (\<lambda>t. trim ascii_tables (lt_track t) \<noteq> []) ?ts = [\<lparr>lt_track = [116], lt_artist = None, lt_client_id = None\<rparr>]"
    by (simp_all add: named_tracks_def trim_def ascii_tables_def)
  have q: "search_query ascii_tables None [116] = [116]" by (simp add: search_query_def trim_def ascii_tables_def)
  have e: "db_queue (qs_db sample_queue) = []" by (simp add: sample_queue_def queue_new_def empty_db_def)
  have len: "length ?ts < 2 ^ 31" by simp
  let ?p = "request_list ascii_tables [78] sample_auth_1 None ?ts None sample_queue"
  obtain rows a where "fst ?p = Ok a" "db_queue (qs_db (snd ?p)) = db_queue (qs_db sample_queue) @ rows"
      "map q_query rows = map (\<lambda>t. search_query ascii_tables (lt_artist t) (lt_track t))
         (filter (\<lambda>t. trim ascii_tables (lt_track t) \<noteq> []) ?ts)"
    using list_request_outcome [OF u t len prod.collapse [symmetric], of "[78]" None None] by blast
  then have "?p = (Ok a, snd ?p) \<and> map q_query rows = [[116]] \<and> db_queue (qs_db (snd ?p)) = rows"
    unfolding f by (simp add: e q prod_eq_iff)
  then show ?thesis by (intro exI [of _ "snd ?p"] exI [of _ rows] exI [of _ a])
qed

end
