(* ===== verification/Model_Views.thy ===== *)
theory Model_Views
  imports Queue Playlist_Imports
begin

text \<open>
  The conversions of \<open>src/src/models/mod.rs\<close>: the statuses as enumerations beside the strings of the tables, and
  the rows as the clients of the server see them; and the comparison of two items of \<open>src/src/services/fuzzy.rs\<close>.
\<close>

section \<open>Statuses\<close>

datatype download_status = Pending | Downloading | Completed | Failed

primrec download_status_str :: "download_status \<Rightarrow> string" where
  "download_status_str Pending = ''pending''"
| "download_status_str Downloading = ''downloading''"
| "download_status_str Completed = ''completed''"
| "download_status_str Failed = ''failed''"

definition download_status_from :: "string \<Rightarrow> download_status" where
  "download_status_from s =
     (if s = ''pending'' then Pending
      else if s = ''downloading'' then Downloading
      else if s = ''completed'' then Completed
      else if s = ''failed'' then Failed
      else Pending)"

datatype queue_state = Q_Pending | Q_Processing | Q_Completed | Q_Failed | Q_Retry

primrec queue_state_str :: "queue_state \<Rightarrow> string" where
  "queue_state_str Q_Pending = ''pending''"
| "queue_state_str Q_Processing = ''processing''"
| "queue_state_str Q_Completed = ''completed''"
| "queue_state_str Q_Failed = ''failed''"
| "queue_state_str Q_Retry = ''retry''"

definition queue_state_from :: "string \<Rightarrow> queue_state" where
  "queue_state_from s =
     (if s = ''pending'' then Q_Pending
      else if s = ''processing'' then Q_Processing
      else if s = ''completed'' then Q_Completed
      else if s = ''failed'' then Q_Failed
      else if s = ''retry'' then Q_Retry
      else Q_Pending)"

definition queue_status :: "queued_search \<Rightarrow> queue_state" where
  "queue_status q = queue_state_from (q_status q)"

section \<open>Rows as the clients see them\<close>

record import_status_response =
  ir_id :: int
  ir_service :: rstring
  ir_playlist_name :: "rstring option"
  ir_list_id :: "int option"
  ir_status :: string
  ir_total_tracks :: int
  ir_imported_tracks :: int
  ir_failed_tracks :: int
  ir_skipped_tracks :: int
  ir_created_at :: nat
  ir_completed_at :: "nat option"

definition import_view :: "playlist_import \<Rightarrow> import_status_response" where
  "import_view p =
     \<lparr>ir_id = pi_id p, ir_service = pi_service p, ir_playlist_name = pi_external_name p, ir_list_id = pi_list_id p,
      ir_status = pi_status p, ir_total_tracks = pi_total p, ir_imported_tracks = pi_imported p,
      ir_failed_tracks = pi_failed p, ir_skipped_tracks = pi_skipped p, ir_created_at = pi_created_at p,
      ir_completed_at = pi_completed_at p\<rparr>"

record failed_track_response =
  fr_id :: int
  fr_artist_name :: rstring
  fr_track_name :: rstring
  fr_album_name :: "rstring option"
  fr_failure_reason :: "rstring option"
  fr_retry_count :: int
  fr_status :: string

definition failed_track_view :: "failed_track \<Rightarrow> failed_track_response" where
  "failed_track_view t =
     \<lparr>fr_id = ft_id t, fr_artist_name = ft_artist t, fr_track_name = ft_track t, fr_album_name = ft_album t,
      fr_failure_reason = ft_reason t, fr_retry_count = ft_retry_count t, fr_status = ft_status t\<rparr>"

section \<open>Items that are alike\<close>

definition is_duplicate :: "(rstring \<Rightarrow> rstring \<Rightarrow> int option) \<Rightarrow> int \<Rightarrow> rstring \<Rightarrow> rstring \<Rightarrow> bool" where
  "is_duplicate score threshold query existing =
     (case score existing query of Some n \<Rightarrow> threshold \<le> n | None \<Rightarrow> False)"

text \<open>The relative difference is below 5 per cent; dividing by zero gives infinity or no number, which is not.\<close>

definition within_five_percent :: "int \<Rightarrow> int \<Rightarrow> bool" where
  "within_five_percent a b \<longleftrightarrow>
     a \<noteq> 0 \<and> fdiv \<bar>fsub (rnd (of_int a)) (rnd (of_int b))\<bar> (rnd (of_int a)) < rnd (1 / 20)"

definition are_items_similar :: "(rstring \<Rightarrow> rstring \<Rightarrow> int option) \<Rightarrow> int \<Rightarrow> item \<Rightarrow> item \<Rightarrow> bool" where
  "are_items_similar score threshold item1 item2 =
     (if is_duplicate score threshold (it_filename item1) (it_filename item2) then True
      else
        (case (it_duration item1, it_duration item2) of
           (Some dur1, Some dur2) \<Rightarrow>
             within_five_percent (it_file_size item1) (it_file_size item2) \<and> within_five_percent dur1 dur2
         | _ \<Rightarrow> False))"

section \<open>Properties\<close>

lemma status_round_trips: "download_status_from (download_status_str s) = s" "queue_state_from (queue_state_str q) = q"
  by (cases s; simp add: download_status_from_def) (cases q; simp add: queue_state_from_def)

text \<open>The statuses of items that have no place in the enumeration are read as pending.\<close>

lemma other_item_statuses: "download_status_from ''queued'' = Pending" "download_status_from ''deleted'' = Pending"
  by (simp_all add: download_status_from_def)

definition queue_states_ok :: "database \<Rightarrow> bool" where
  "queue_states_ok d \<longleftrightarrow> (\<forall>q\<in>set (db_queue d). q_status q \<in> range queue_state_str)"

lemma range_states: "range queue_state_str = {''pending'', ''processing'', ''completed'', ''failed'', ''retry''}"
proof (rule set_eqI)
  fix s
  have "s \<in> range queue_state_str \<longleftrightarrow> queue_state_str (queue_state_from s) = s"
    by (metis rangeE rangeI status_round_trips(2))
  also have "\<dots> \<longleftrightarrow> s \<in> {''pending'', ''processing'', ''completed'', ''failed'', ''retry''}"
    by (auto simp: queue_state_from_def)
  finally show "s \<in> range queue_state_str \<longleftrightarrow> s \<in> {''pending'', ''processing'', ''completed'', ''failed'', ''retry''}" .
qed

lemma queue_states_step: "db_step d d' \<Longrightarrow> queue_states_ok d \<Longrightarrow> queue_states_ok d'"
  by (cases rule: db_step.cases, assumption)
    (auto simp: queue_states_ok_def range_states set_search_def set_update_row set_update_where set_item_def set_list_def
      create_item_def create_list_def add_item_to_list_def update_item_status_def
      update_item_file_info_def update_item_audio_properties_def delete_item_def delete_items_def
      db_enqueue_search_def insert_search_history_def remove_item_from_list_def remove_items_from_list_def
      update_list_status_def rename_list_def drop_items_def drop_lists_def
      delete_list_with_items_def delete_lists_def claim_next_pending_search_def
      mark_search_processing_def mark_search_completed_def mark_search_failed_def
      mark_search_for_retry_def delete_completed_search_def delete_search_def
      cancel_pending_search_def cancel_list_pending_searches_def recover_processing_searches_def
      mark_interrupted_downloads_def add_user_row_def drop_user_def Let_def split: option.splits if_splits)

text \<open>The status of every search the program can have in its queue is one of the five of the enumeration: reading
  it as one and writing it back gives the text of the row.\<close>

lemma queue_status_faithful:
  assumes "db_reachable d" and "q \<in> set (db_queue d)"
  shows "queue_state_str (queue_status q) = q_status q"
proof -
  have "queue_states_ok (empty_db users now)" for users now by (simp add: queue_states_ok_def empty_db_def)
  with assms(1) have "queue_states_ok d" by (induction rule: db_reachable.induct) (auto intro: queue_states_step)
  with assms(2) obtain s where "q_status q = queue_state_str s" by (auto simp: queue_states_ok_def)
  then show ?thesis by (simp add: queue_status_def status_round_trips)
qed

lemma queue_status_faithful_witness:
  "map (\<lambda>q. queue_state_str (queue_status q)) (db_queue (snd (db_enqueue_search 1 (str ''a'') None None None None None
     None (empty_db [(1, str ''u'')] 7)))) = [''pending'']"
proof -
  let ?d = "snd (db_enqueue_search 1 (str ''a'') None None None None None None (empty_db [(1, str ''u'')] 7))"
  have "db_reachable ?d" by (rule db_next [OF db_start enqueue])
  from queue_status_faithful [OF this]
  have "map (\<lambda>q. queue_state_str (queue_status q)) (db_queue ?d) = map q_status (db_queue ?d)" by simp
  moreover have "map q_status (db_queue ?d) = [''pending'']" by code_simp
  ultimately show ?thesis by (simp only:)
qed

end
