(* ===== verification/Accessors.thy ===== *)
theory Accessors
  imports Upload Library_Api Router
begin

text \<open>
  Operations that only read a component's state, beside the ones in its own theory: of the uploads
  (\<open>src/src/services/upload.rs\<close>), the shares (\<open>sharing.rs\<close>), the router, and the search for an item by its name
  (\<open>find_item_by_filename\<close> of \<open>src/src/db/mod.rs\<close>). Every ten seconds the queue of the uploads is checked.
\<close>

text \<open>The states of an upload, which the interface names and nothing keeps.\<close>

datatype upload_status =
    US_Queued
  | US_Transferring u32 u64 nat
  | US_Completed u64 nat
  | US_Failed rstring

definition get_config :: "upload_service \<Rightarrow> upload_config" where
  "get_config s = up_config s"

definition average_speed_bytes_per_sec :: "nat \<Rightarrow> upload_service \<Rightarrow> u64" where
  "average_speed_bytes_per_sec now s = avg_speed now (samples s)"

definition get_throttle :: "upload_service \<Rightarrow> token_bucket" where
  "get_throttle s = throttle s"

definition release_slot :: "upload_service \<Rightarrow> upload_service" where
  "release_slot s = s\<lparr>active_count := active_count s - 1\<rparr>"

definition get_queue_entries :: "upload_service \<Rightarrow> upload_entry list" where
  "get_queue_entries s = up_queue s"

text \<open>The queue checker: one check for each tick of its clock.\<close>

definition queue_checker :: "nat \<Rightarrow> upload_service \<Rightarrow> upload_service" where
  "queue_checker ticks s = (check_upload_queue ^^ ticks) s"

definition shared_file_count :: "sharing_service \<Rightarrow> u32" where
  "shared_file_count s = file_count (sh_index s)"

definition sharing_has_free_slots :: "sharing_service \<Rightarrow> bool" where
  "sharing_has_free_slots s = True"

definition get_all_files :: "sharing_service \<Rightarrow> shared_file list" where
  "get_all_files s = ix_files (sh_index s)"

text \<open>The wildcards of \<open>LIKE\<close> in the name count as wildcards.\<close>

definition find_item_by_filename :: "rstring \<Rightarrow> database \<Rightarrow> item option" where
  "find_item_by_filename filename d =
     (case filter (\<lambda>it. like (containing filename) (it_filename it)) (db_items d) of it # _ \<Rightarrow> Some it | [] \<Rightarrow> None)"

end
