(* ===== verification/Start_Up_Properties.thy ===== *)
theory Start_Up_Properties
  imports Start_Up Queue_Properties Client_Properties
begin

text \<open>
  The properties of the start: what it makes of the tables the last run left, and the way of a private message from the server to the open sockets.
\<close>

section \<open>The lists that were under way\<close>

text \<open>A row with the counts and the status it should have.\<close>

definition recount :: "database \<Rightarrow> list_row \<Rightarrow> list_row" where
  "recount d r =
     (let st = expected_status (ls_id r) d in
      r\<lparr>ls_status := st, ls_completed_items := items_with ''completed'' (ls_id r) d,
        ls_failed_items := items_with ''failed'' (ls_id r) d,
        ls_completed_at := (if st = ''completed'' then Some (clock d) else ls_completed_at r)\<rparr>)"

lemma recount_id [simp]: "ls_id (recount d r) = ls_id r"
  by (simp add: recount_def Let_def)

text \<open>The counts do not depend on the rows of the lists.\<close>

lemma live_items_lists [simp]: "live_items l (d\<lparr>db_lists := rows\<rparr>) = live_items l d"
  by (simp add: live_items_def joined_def cong: if_cong)

lemma list_finished_lists [simp]: "list_finished l (d\<lparr>db_lists := rows\<rparr>) = list_finished l d"
  unfolding list_finished_def by simp

lemma expected_status_lists [simp]: "expected_status l (d\<lparr>db_lists := rows\<rparr>) = expected_status l d"
  unfolding expected_status_def by simp

lemma items_with_lists [simp]: "items_with st l (d\<lparr>db_lists := rows\<rparr>) = items_with st l d"
  unfolding items_with_def by simp

lemma recount_lists [simp]: "recount (d\<lparr>db_lists := rows\<rparr>) = recount d"
  by (rule ext) (simp add: recount_def cong: if_cong)

lemma status_recounted:
  "update_list_status l (expected_status l d) (items_with ''completed'' l d) (items_with ''failed'' l d) d
    = d\<lparr>db_lists := update_row ls_id l (recount d) (db_lists d)\<rparr>"
  by (auto simp: update_list_status_def set_list_def update_row_def recount_def Let_def intro!: map_cong)

definition countable :: "database \<Rightarrow> int \<Rightarrow> bool" where
  "countable d l \<longleftrightarrow> length (live_items l d) < 2147483648"

lemma countable_lists [simp]: "countable (d\<lparr>db_lists := rows\<rparr>) = countable d"
  by (rule ext) (simp add: countable_def)

lemma get_list_some: "r \<in> set (db_lists d) \<Longrightarrow> get_list (ls_id r) d \<noteq> None"
  by (auto simp: get_list_def find_row_def find_None_iff)

lemma one_update:
  assumes "r \<in> set (db_lists (qs_db s))" and "ls_id r = l" and "countable (qs_db s) l"
  shows "\<exists>es. update_list_progress l s = (Ok (),
    s\<lparr>qs_db := (qs_db s)\<lparr>db_lists := update_row ls_id l (recount (qs_db s)) (db_lists (qs_db s))\<rparr>, events := es\<rparr>)"
proof -
  obtain row where "get_list l (qs_db s) = Some row" using get_list_some [OF assms(1)] assms(2) by auto
  from progress_run [OF this] assms(3) show ?thesis
    by (simp add: countable_def Let_def status_recounted) blast
qed

definition recount_all :: "database \<Rightarrow> int list \<Rightarrow> list_row list \<Rightarrow> list_row list" where
  "recount_all d ls rows = map (\<lambda>r. if ls_id r \<in> set ls then recount d r else r) rows"

lemma recount_all_lists [simp]: "recount_all (d\<lparr>db_lists := rows\<rparr>) = recount_all d"
  by (intro ext) (simp add: recount_all_def)

lemma updates_recount:
  assumes "distinct ls" and "\<forall>l\<in>set ls. countable (qs_db s) l \<and> (\<exists>r\<in>set (db_lists (qs_db s)). ls_id r = l)"
  shows "\<exists>es. update_lists ls s = (Ok (),
    s\<lparr>qs_db := (qs_db s)\<lparr>db_lists := recount_all (qs_db s) ls (db_lists (qs_db s))\<rparr>, events := es\<rparr>)"
  using assms
proof (induction ls arbitrary: s)
  case Nil
  show ?case by (rule exI [of _ "events s"]) (simp add: recount_all_def qret_def)
next
  case (Cons l ls)
  let ?d = "qs_db s"
  from Cons.prems(2) obtain r where r: "r \<in> set (db_lists ?d)" "ls_id r = l" "countable ?d l" by auto
  let ?rows = "update_row ls_id l (recount ?d) (db_lists ?d)"
  from one_update [OF r] obtain es where one: "update_list_progress l s
      = (Ok (), s\<lparr>qs_db := ?d\<lparr>db_lists := ?rows\<rparr>, events := es\<rparr>)" by blast
  let ?s = "s\<lparr>qs_db := ?d\<lparr>db_lists := ?rows\<rparr>, events := es\<rparr>"
  have "\<forall>k\<in>set ls. countable (qs_db ?s) k \<and> (\<exists>r\<in>set (db_lists (qs_db ?s)). ls_id r = k)"
  proof
    fix k assume "k \<in> set ls"
    with Cons.prems(2) obtain q where "countable ?d k" "q \<in> set (db_lists ?d)" "ls_id q = k" by auto
    then show "countable (qs_db ?s) k \<and> (\<exists>r\<in>set (db_lists (qs_db ?s)). ls_id r = k)"
      by (intro conjI bexI [of _ "if ls_id q = l then recount ?d q else q"]) (auto simp: update_row_def)
  qed
  moreover have "distinct ls" using Cons.prems(1) by simp
  ultimately obtain es' where "update_lists ls ?s = (Ok (),
      ?s\<lparr>qs_db := (qs_db ?s)\<lparr>db_lists := recount_all (qs_db ?s) ls (db_lists (qs_db ?s))\<rparr>, events := es'\<rparr>)"
    using Cons.IH [of ?s] by blast
  moreover have "recount_all ?d ls ?rows = recount_all ?d (l # ls) (db_lists ?d)"
    using Cons.prems(1) by (auto simp: recount_all_def update_row_def)
  ultimately show ?case using one by (intro exI [of _ es']) simp
qed

section \<open>The recovery\<close>

definition recovered :: "database \<Rightarrow> database" where
  "recovered d = snd (mark_interrupted_downloads (snd (recover_processing_searches d)))"

definition interrupted :: "item \<Rightarrow> item" where
  "interrupted i =
     (if it_status i = ''downloading'' \<or> it_status i = ''queued''
      then i\<lparr>it_status := ''failed'', it_error_message := Some (str ''Download interrupted by server restart'')\<rparr> else i)"

lemma recovered_rows:
  "db_lists (recovered d) = db_lists d" "db_list_items (recovered d) = db_list_items d"
  "db_items (recovered d) = map interrupted (db_items d)"
  "db_queue (recovered d) = map (\<lambda>q. if q_status q = ''processing'' then q\<lparr>q_status := ''pending'', q_started_at := None\<rparr> else q)
     (db_queue d)"
  by (simp_all add: recovered_def mark_interrupted_downloads_def recover_processing_searches_def Let_def update_where_def
      interrupted_def)

lemma interrupted_simps [simp]: "it_id (interrupted i) = it_id i"
  "it_status (interrupted i) = ''deleted'' \<longleftrightarrow> it_status i = ''deleted''"
  "it_status (interrupted i) \<noteq> ''downloading''" "it_status (interrupted i) \<noteq> ''queued''"
  by (simp_all add: interrupted_def)

lemma live_recovered: "live_items l (recovered d) = map interrupted (live_items l d)"
proof -
  let ?of = "\<lambda>items (r :: list_item). if li_list_id r = l then map (Pair r) (filter (\<lambda>i. it_id i = li_item_id r) items) else []"
  have "?of (map interrupted (db_items d)) r = map (map_prod id interrupted) (?of (db_items d) r)" for r
    by (simp add: filter_map comp_def)
  then have "joined l (recovered d) = map (map_prod id interrupted) (joined l d)"
    unfolding joined_def recovered_rows map_concat map_map comp_def by (simp only:)
  then show ?thesis by (simp add: live_items_def filter_map comp_def)
qed

lemma countable_recovered [simp]: "countable (recovered d) l = countable d l"
  by (simp add: countable_def live_recovered)

lemma recover_run:
  "recover s = update_lists (map ls_id (filter (\<lambda>r. ls_status r = ''downloading'') (db_lists (qs_db s))))
     (s\<lparr>qs_db := recovered (qs_db s)\<rparr>)"
proof -
  have "recover_on_startup s = (Ok (fst (recover_processing_searches (qs_db s)),
      fst (mark_interrupted_downloads (snd (recover_processing_searches (qs_db s))))), s\<lparr>qs_db := recovered (qs_db s)\<rparr>)"
    by (simp add: recover_on_startup_def recovered_def Let_def split_beta)
  then show ?thesis
    by (simp add: recover_def qlog_def recalculate_downloading_lists_def qget_def get_lists_by_status_def recovered_rows)
qed

text \<open>What the start needs from outside.\<close>

definition comes_up :: "settings \<Rightarrow> surroundings \<Rightarrow> accounts \<Rightarrow> bool" where
  "comes_up st e a \<longleftrightarrow>
     so_directories e = Ok () \<and> (get_user_by_username (str ''admin'') a \<noteq> None \<or> is_ok (so_hash e (str ''admin123'')))
     \<and> is_ok (connect_client st e) \<and> start_sharing st e \<noteq> None \<and> so_listener e = Ok ()"

lemma is_okE: "is_ok r \<Longrightarrow> (\<And>x. r = Ok x \<Longrightarrow> P) \<Longrightarrow> P"
  by (cases r) auto

text \<open>The user named admin: left as it is, with all others, or new, at the end of the table, an administrator with a
  verified account and the hash of the first password.\<close>

definition admin_kept :: "surroundings \<Rightarrow> accounts \<Rightarrow> accounts \<Rightarrow> bool" where
  "admin_kept e a a' \<longleftrightarrow>
     (if get_user_by_username (str ''admin'') a \<noteq> None then a' = a
      else (\<exists>u. ac_users a' = ac_users a @ [u] \<and> get_user_by_username (str ''admin'') a' = Some u
        \<and> us_role u = str ''admin'' \<and> us_email_verified u \<and> so_hash e (str ''admin123'') = Ok (us_password_hash u)))"

lemma admin_ensured:
  assumes "comes_up st e a"
  shows "\<exists>a'. ensure_admin e a = (Ok (), a') \<and> admin_kept e a a'"
proof (cases "get_user_by_username (str ''admin'') a")
  case None
  with assms obtain h where h: "so_hash e (str ''admin123'') = Ok h" by (auto simp: comes_up_def elim: is_okE)
  have new: "us_username u \<noteq> str ''admin''" if "u \<in> set (ac_users a)" for u
    using None that by (auto simp: get_user_by_username_def find_user_def find_None_iff)
  then have "\<not> user_conflict (str ''admin'') None a"
    by (auto simp: user_conflict_def list_ex_iff)
  then obtain u a' where a: "create_user_verified (str ''admin'') h (str ''admin'') a = (Ok u, a')"
    "ac_users a' = ac_users a @ [u]" "us_username u = str ''admin''" "us_role u = str ''admin''" "us_email_verified u"
    "us_password_hash u = h"
    by (simp add: create_user_verified_def insert_user_def Let_def)
  then have "get_user_by_username (str ''admin'') a' = Some u"
    using new by (simp add: get_user_by_username_def find_user_def find_append_last list_all_iff)
  with None h a show ?thesis by (auto simp: ensure_admin_def admin_kept_def)
qed (simp add: ensure_admin_def admin_kept_def)

lemma start_up_runs:
  assumes "comes_up st e a"
  obtains a' cl sh where "admin_kept e a a'"
    "start_up st e a d = (case start_services st e cl sh (with_known_users a' d) of (r, d') \<Rightarrow> (r, a', d'))"
proof -
  obtain a' where a: "ensure_admin e a = (Ok (), a')" "admin_kept e a a'"
    using admin_ensured [OF assms] by blast
  obtain cl where cl: "connect_client st e = Ok cl" using assms by (auto simp: comes_up_def elim: is_okE)
  obtain sh where sh: "start_sharing st e = Some sh" using assms by (auto simp: comes_up_def)
  have "start_up st e a d = (case start_services st e cl sh (with_known_users a' d) of (r, d') \<Rightarrow> (r, a', d'))"
    using assms a(1) cl sh
    by (cases "start_services st e cl sh (with_known_users a' d)")
      (auto simp: start_up_def comes_up_def Let_def split: outcome.split)
  with a(2) show ?thesis by (rule that)
qed

lemma known_users_rows [simp]:
  "db_lists (with_known_users a d) = db_lists d" "live_items l (with_known_users a d) = live_items l d"
  by (simp_all add: with_known_users_def live_items_def joined_def cong: if_cong)

lemma countable_known [simp]: "countable (with_known_users a d) = countable d"
  by (rule ext) (simp add: countable_def)

lemma queue_new_db [simp]: "qs_db (queue_new d sh) = d"
  by (simp add: queue_new_def)

text \<open>C15: After a start nothing is left half done by the run before: no search is being processed, no item is
  downloading or queued for one, and a list that is still under way has an unfinished item or a waiting search.
  There is a user named admin: the accounts are untouched if there was one, whatever its role, else one is added
  that is an administrator. The client uses the running upload service and the shares of the queue. (When the
  world outside answers, and every list under way has fewer than two to the 31 items.)\<close>

theorem started_clean:
  assumes "comes_up st e a" and "tables_ok d"
    and "\<forall>r. r \<in> set (db_lists d) \<and> ls_status r = ''downloading'' \<longrightarrow> countable d (ls_id r)"
  shows "\<exists>r a' d'. start_up st e a d = (Ok r, a', d') \<and> qs_db (svc (ru_system r)) = d'
    \<and> (\<forall>q\<in>set (db_queue d'). q_status q \<noteq> ''processing'')
    \<and> (\<forall>i\<in>set (db_items d'). it_status i \<noteq> ''downloading'' \<and> it_status i \<noteq> ''queued'')
    \<and> (\<forall>l\<in>set (db_lists d'). ls_status l = ''downloading'' \<longrightarrow> \<not> list_finished (ls_id l) d')
    \<and> admin_kept e a a'
    \<and> cl_upload (ru_client r) = Some (ru_uploads r)
    \<and> cl_sharing (ru_client r) = Some (shares (svc (ru_system r)))"
proof -
  obtain a' cl sh where admin: "admin_kept e a a'"
    and run: "start_up st e a d = (case start_services st e cl sh (with_known_users a' d) of (r, d') \<Rightarrow> (r, a', d'))"
    by (rule start_up_runs [OF assms(1)])
  let ?d = "with_known_users a' d"
  let ?ls = "map ls_id (filter (\<lambda>r. ls_status r = ''downloading'') (db_lists ?d))"
  let ?s = "(queue_new ?d sh)\<lparr>qs_db := recovered ?d\<rparr>"
  have rows: "db_lists (recovered ?d) = db_lists d" by (simp add: recovered_rows)
  have "distinct (map ls_id (db_lists d))" using assms(2) by (simp add: tables_ok_def table_ok_def)
  then have "distinct ?ls" by (simp add: distinct_map_filterI)
  moreover have "\<forall>l\<in>set ?ls. countable (qs_db ?s) l \<and> (\<exists>r\<in>set (db_lists (qs_db ?s)). ls_id r = l)"
    using assms(3) by (auto simp: recovered_rows)
  ultimately obtain es where u: "update_lists ?ls ?s = (Ok (), ?s\<lparr>qs_db := (qs_db ?s)\<lparr>db_lists := recount_all (qs_db ?s) ?ls
      (db_lists (qs_db ?s))\<rparr>, events := es\<rparr>)"
    using updates_recount by blast
  let ?d' = "(recovered ?d)\<lparr>db_lists := recount_all (recovered ?d) ?ls (db_lists d)\<rparr>"
  let ?up = "start_uploads st e"
  let ?r = "\<lparr>ru_client = set_upload_service ?up (set_sharing_service sh cl), ru_router = report_counts sh router_new,
    ru_uploads = ?up, ru_system = system_start (?s\<lparr>qs_db := ?d', events := es\<rparr>), ru_oauth = start_oauth_service st e\<rparr>"
  have "recover (queue_new ?d sh) = (Ok (), ?s\<lparr>qs_db := ?d', events := es\<rparr>)"
    using u by (simp add: recover_run rows)
  then have "start_up st e a d = (Ok ?r, a', ?d')" by (simp add: run start_services_def Let_def)
  moreover have "\<not> list_finished (ls_id l) ?d'" if "l \<in> set (db_lists ?d')" "ls_status l = ''downloading''" for l
  proof -
    from that obtain k where k: "k \<in> set (db_lists d)"
      "l = (if ls_id k \<in> set ?ls then recount (recovered ?d) k else k)" by (auto simp: recount_all_def)
    then have "ls_id k \<in> set ?ls" using that(2) by (auto split: if_splits)
    with k that(2) show ?thesis
      by (auto simp: recount_def Let_def expected_status_def split: if_splits)
  qed
  ultimately show ?thesis using admin
    by (intro exI [of _ ?r] exI [of _ a'] exI [of _ ?d'])
      (auto simp: system_start_def recovered_rows set_upload_service_def set_sharing_service_def queue_new_def)
qed

section \<open>A start\<close>

definition sample_settings :: settings where
  "sample_settings = read_settings (\<lambda>n. if n = str ''SHARING_ENABLED'' then Some (str ''false'') else None)"

text \<open>A server that answers the login with another message.\<close>

definition sample_surroundings :: surroundings where
  "sample_surroundings =
     \<lparr>so_directories = Ok (), so_hash = (\<lambda>_. Ok [104]),
      so_server = Ok \<lparr>c_in = server_frame 5 [], c_closes = False, c_out = [], c_write_ok = True\<rparr>,
      so_md5_hex = (\<lambda>_. []), so_error = (\<lambda>_. []), so_now = 0, so_queue = sample_env, so_oauth = (\<lambda>_ _. None),
      so_listener = Ok ()\<rparr>"

lemma sample_connects: "is_ok (connect_client sample_settings sample_surroundings)"
  using read_message_frame [of "[]" 5 "[]"]
  by (simp add: connect_client_def sample_surroundings_def greet_server_def login_def set_shared_counts_def
      set_wait_port_def sret_def)

lemma sample_shares: "start_sharing sample_settings sample_surroundings \<noteq> None"
proof -
  have "\<not> sharing_enabled (se_upload sample_settings)"
    by (simp add: sample_settings_def read_settings_def read_upload_config_def bool_var_def var_or_def)
  then show ?thesis by (simp add: start_sharing_def scan_def sharing_new_def)
qed

lemma sample_comes_up: "comes_up sample_settings sample_surroundings a"
  using sample_connects sample_shares by (simp add: comes_up_def) (simp add: sample_surroundings_def)

definition progress_db :: database where
  "progress_db = qs_db (snd (update_list_progress 1 list_service))"

lemma progress_db_ok: "tables_ok progress_db" "map ls_status (db_lists progress_db) = [''downloading'']"
  "map ls_id (db_lists progress_db) = [1]" "length (live_items 1 progress_db) = 1"
  by code_simp+

theorem started_clean_witness:
  "\<exists>r a' d'. start_up sample_settings sample_surroundings accounts_empty progress_db = (Ok r, a', d')
    \<and> \<not> (\<exists>l\<in>set (db_lists d'). ls_status l = ''downloading'' \<and> list_finished (ls_id l) d')
    \<and> \<not> (\<exists>i\<in>set (db_items d'). it_status i = ''downloading'')"
proof -
  have "\<forall>r. r \<in> set (db_lists progress_db) \<and> ls_status r = ''downloading'' \<longrightarrow> countable progress_db (ls_id r)"
    using progress_db_ok(3,4) by (auto simp: countable_def)
  from started_clean [OF sample_comes_up progress_db_ok(1) this, of accounts_empty] show ?thesis by blast
qed

section \<open>A private message on its way\<close>

definition private_message :: "u32 \<times> bytes \<Rightarrow> chat_message option" where
  "private_message m =
     (if fst m = 22 then (case fst (parse_chat_message (snd m)) of Ok c \<Rightarrow> Some c | _ \<Rightarrow> None) else None)"

lemma dispatch_broadcasts:
  assumes "dispatch_server u ext code data r = Some r'"
  shows "rt_broadcasts r' = rt_broadcasts r
    @ (case private_message (code, data) of Some m \<Rightarrow> [m] | None \<Rightarrow> [])"
  using assms
  by (auto simp: dispatch_server_def on_connect_to_peer_def on_peer_address_def on_chat_message_def private_message_def
      store_chat_def send_to_server_def Let_def split: if_splits outcome.splits option.splits)

lemma all_broadcasts:
  "dispatch_all u ext ms r = (True, r') \<Longrightarrow>
   rt_broadcasts r' = rt_broadcasts r @ List.map_filter private_message ms"
proof (induction u ext ms r rule: dispatch_all.induct)
  case (2 u ext code data ms r)
  then obtain q where q: "dispatch_server u ext code data r = Some q" "dispatch_all u ext ms q = (True, r')"
    by (auto split: option.splits)
  with 2 dispatch_broadcasts [OF q(1)] show ?case
    by (auto simp: List.map_filter_simps split: option.splits)
qed (simp add: List.map_filter_simps)

lemma forward_chats: "forward_chat (map Chat ms) = map Chat_Event ms"
  by (induction ms) simp_all

lemma events_sent:
  "concat (map reply_to (takeWhile (\<lambda>i. \<not> ends_stream i) (map (\<lambda>x. Received (f x)) xs))) = map (\<lambda>x. Event_Text (f x)) xs"
  by (induction xs) simp_all

text \<open>C16: From the server to the browser: whatever frames the server sends, as long as none of them makes the reader
  panic, every open socket is sent, after the state of the unfinished items, exactly the private messages among
  them, in their order - also a socket opened without a token. (For frames of less than four gigabytes and a
  forwarder and a socket that keep up.)\<close>

theorem private_messages_reach_sockets:
  assumes "list_all (\<lambda>(code, data). length data < 4294967292) ms"
    and "router_read u ext (sent_frames ms) r = (Some rest, r')" and "\<forall>n. ok n"
    and "new = drop (length (rt_broadcasts r)) (rt_broadcasts r')"
  shows "fst (progress_handler decode tok ok d (map Received (forward_chat (map Chat new))))
    = map (\<lambda>it. Event_Text (status_event it)) (filter Web_Socket.in_progress (get_all_items d))
      @ map (\<lambda>m. Event_Text (Chat_Event m)) (List.map_filter private_message ms)"
proof -
  obtain b q where q: "dispatch_all u ext ms r = (b, q)" by (cases "dispatch_all u ext ms r")
  have "router_read u ext [] x = (Some [], x)" for x by (subst router_read.simps) simp
  with router_read_sent [OF assms(1), of u ext "[]" r] assms(2) q have "b" "r' = q"
    by (auto split: bool.splits)
  with all_broadcasts q have "new = List.map_filter private_message ms"
    by (simp add: assms(4))
  then show ?thesis
    using assms(3) by (simp add: progress_handler_def handle_socket_def send_all_ok socket_loop_ok forward_chats events_sent comp_def)
qed

definition sample_private :: "(u32 \<times> bytes) list" where
  "sample_private =
     [(22, [1,0,0,0, 2,0,0,0, 1,0,0,0,97, 2,0,0,0,104,105]), (32, []), (22, [2,0,0,0, 3,0,0,0, 1,0,0,0,98, 1,0,0,0,33, 0])]"

lemma sample_private_read:
  "map_option (\<lambda>x. ()) (fst (router_read ascii_tables None (sent_frames sample_private) router_new)) = Some ()"
  "map ch_message (List.map_filter private_message sample_private) = [[104, 105], [33]]"
  by code_simp+

theorem private_messages_reach_sockets_witness:
  "fst (progress_handler (\<lambda>_. None) (None :: nat option) (\<lambda>_. True) (empty_db [] 0)
     (map Received (forward_chat (map Chat (drop (length (rt_broadcasts router_new))
        (rt_broadcasts (snd (router_read ascii_tables None (sent_frames sample_private) router_new))))))))
    = map (\<lambda>m. Event_Text (Chat_Event m)) (List.map_filter private_message sample_private)
   \<and> map ch_message (List.map_filter private_message sample_private) = [[104, 105], [33]]"
proof
  obtain rest r' where r: "router_read ascii_tables None (sent_frames sample_private) router_new = (Some rest, r')"
    using sample_private_read(1) by (cases "router_read ascii_tables None (sent_frames sample_private) router_new") auto
  have "list_all (\<lambda>(code, data). length data < 4294967292) sample_private" by (simp add: sample_private_def)
  from private_messages_reach_sockets [OF this r _ refl, of "\<lambda>_. True" "\<lambda>_. None" "None :: nat option" "empty_db [] 0"]
  show "fst (progress_handler (\<lambda>_. None) (None :: nat option) (\<lambda>_. True) (empty_db [] 0)
     (map Received (forward_chat (map Chat (drop (length (rt_broadcasts router_new))
        (rt_broadcasts (snd (router_read ascii_tables None (sent_frames sample_private) router_new))))))))
    = map (\<lambda>m. Event_Text (Chat_Event m)) (List.map_filter private_message sample_private)"
    by (simp add: r get_all_items_def empty_db_def Database.newest_first_def)
qed (rule sample_private_read(2))

end
