(* ===== verification/Port_Forwarding.thy ===== *)
theory Port_Forwarding
  imports Client
begin

text \<open>
  The port mappings asked of the gateway at start-up and removed by \<open>cleanup_upnp\<close>, which the program does not call
  (\<open>src/src/services/upnp.rs\<close>). Whether there is a gateway, what the local address is and which requests succeed are
  arguments; a mapping holds until its lease ends, in seconds.
\<close>

record gateway_answers =
  ga_found :: bool
  ga_local_ip :: "rstring option"
  ga_removes :: "u32 \<Rightarrow> bool"
  ga_adds :: "u32 \<Rightarrow> bool"

type_synonym mappings = "u32 \<Rightarrow> (rstring \<times> nat) option"

definition remove_port :: "gateway_answers \<Rightarrow> u32 \<Rightarrow> mappings \<Rightarrow> mappings" where
  "remove_port e port g = (if ga_removes e port then g(port := None) else g)"

definition add_port :: "gateway_answers \<Rightarrow> nat \<Rightarrow> rstring \<Rightarrow> u32 \<Rightarrow> mappings \<Rightarrow> mappings" where
  "add_port e now ip port g = (if ga_adds e port then g(port \<mapsto> (ip, now + 3600)) else g)"

text \<open>The result says whether there was a gateway, not whether a mapping was made.\<close>

definition init_upnp :: "gateway_answers \<Rightarrow> nat \<Rightarrow> mappings \<Rightarrow> bool \<times> mappings" where
  "init_upnp e now g =
     (if \<not> ga_found e then (False, g)
      else
        (case ga_local_ip e of
           None \<Rightarrow> (False, g)
         | Some ip \<Rightarrow>
             (let g = remove_port e PEER_OBFUSCATED_PORT (remove_port e PEER_LISTEN_PORT g);
                  g = add_port e now ip PEER_LISTEN_PORT g
              in (True, add_port e now ip PEER_OBFUSCATED_PORT g))))"

definition cleanup_upnp :: "gateway_answers \<Rightarrow> mappings \<Rightarrow> mappings" where
  "cleanup_upnp e g =
     (if ga_found e then remove_port e PEER_OBFUSCATED_PORT (remove_port e PEER_LISTEN_PORT g) else g)"

definition port_open :: "nat \<Rightarrow> u32 \<Rightarrow> mappings \<Rightarrow> bool" where
  "port_open t port g \<longleftrightarrow> (case g port of Some (_, until) \<Rightarrow> t < until | None \<Rightarrow> False)"

text \<open>Other ports are left alone. The two ports are open for an hour; nothing renews the lease, so that afterwards
  no peer reaches the server, however long it runs.\<close>

lemma other_ports_kept:
  "p \<noteq> PEER_LISTEN_PORT \<Longrightarrow> p \<noteq> PEER_OBFUSCATED_PORT \<Longrightarrow> snd (init_upnp e now g) p = g p"
  by (simp add: init_upnp_def add_port_def remove_port_def Let_def split: option.splits)

lemma open_for_an_hour:
  assumes "init_upnp e now g = (True, g')" and "ga_adds e PEER_LISTEN_PORT" and "ga_adds e PEER_OBFUSCATED_PORT"
    and "p \<in> {PEER_LISTEN_PORT, PEER_OBFUSCATED_PORT}"
  shows "port_open t p g' \<longleftrightarrow> t < now + 3600"
  using assms
  by (auto simp: init_upnp_def add_port_def port_open_def PEER_LISTEN_PORT_def PEER_OBFUSCATED_PORT_def Let_def
      split: option.splits if_splits)

lemma reported_without_mapping:
  "ga_found e \<Longrightarrow> ga_local_ip e = Some ip \<Longrightarrow> \<forall>p. \<not> ga_adds e p \<Longrightarrow> \<forall>p. g p = None
    \<Longrightarrow> init_upnp e now g = (True, g)"
  by (rule prod_eqI) (auto simp: init_upnp_def add_port_def remove_port_def Let_def fun_eq_iff)

end
