(* ===== verification/Unit_Tests.thy ===== *)
theory Unit_Tests
  imports File_Selection Sharing Obfuscation Wire Music_Search Accounts Database
begin

text \<open>
  The unit tests of the repository, evaluated on the model with the ASCII tables: those of
  \<open>protocol/file_selection.rs\<close>, \<open>obfuscation.rs\<close>, \<open>peer.rs\<close>, \<open>services/sharing.rs\<close>, \<open>metadata/discogs.rs\<close> and
  \<open>db/tests.rs\<close>. Two of the first file fail, as they do for the code. Those of the tables are given the arguments
  the functions take by now.
\<close>

section \<open>File selection\<close>

lemma test_parse_query:
  "parse_query ascii_tables (str ''Skrillex - Bangarang'') = (Some (str ''skrillex''), Some (str ''bangarang''))"
  "parse_query ascii_tables (str ''Bangarang'') = (None, Some (str ''bangarang''))"
  by code_simp+

text \<open>The second line of this test expects \<open>testfilenammp3\<close>.\<close>

lemma test_normalize_for_matching:
  "normalize_for_matching ascii_tables (str ''Hello  World!'') = str ''hello world''"
  "normalize_for_matching ascii_tables (str ''test-file_name.mp3'') = str ''testfilenamemp3''"
  by code_simp+

lemma test_extract_track_name:
  "extract_track_name ascii_tables (str ''01 - Bangarang.mp3'') = str ''bangarang''"
  "extract_track_name ascii_tables (str ''/path/to/02. Song Title.flac'') = str ''song title''"
  "extract_track_name ascii_tables (str ''03_Track Name.wav'') = str ''track name''"
  by code_simp+

lemma test_score_title_match:
  "score_title_match ascii_tables (str ''Bangarang.mp3'') (str ''bangarang'') = 1"
  "9 / 10 \<le> score_title_match ascii_tables (str ''01 - Bangarang (Original Mix).mp3'') (str ''bangarang'')"
  by code_simp+

lemma test_is_audio_file:
  "list_all (\<lambda>f. is_audio_file ascii_tables (str f)) [''song.mp3'', ''track.FLAC'', ''audio.wav'']"
  "list_all (\<lambda>f. \<not> is_audio_file ascii_tables (str f)) [''cover.jpg'', ''readme.txt'']"
  by code_simp+

lemma test_remix_penalty:
  "calculate_remix_penalty ascii_tables (str ''Block Rockin Beats (Micronauts Mix).mp3'') (str ''Block Rockin Beats'')
    = REMIX_PENALTY"
  "calculate_remix_penalty ascii_tables (str ''Block Rockin Beats.mp3'') (str ''Block Rockin Beats'') = 0"
  by code_simp+

text \<open>A query that asks for a mix is penalised like any other: the indicator is \<open>mix)\<close>, with the parenthesis, which
  the name of the file has and a query does not. The test for this expects no penalty.\<close>

lemma requested_mix_penalised:
  assumes "contains (lowercase u filename) (str ''mix)'') \<or> contains (lowercase u filename) (str ''version)'')"
    and "41 \<notin> set (lowercase u query)"
  shows "calculate_remix_penalty u filename query = REMIX_PENALTY"
proof -
  have "\<not> contains (lowercase u query) (str ''mix)'')" "\<not> contains (lowercase u query) (str ''version)'')"
    using assms(2) by (auto simp: contains_def str_def sublist_def)
  with assms(1) show ?thesis by (auto simp: calculate_remix_penalty_def REMIX_INDICATORS_def)
qed

lemma test_remix_penalty_when_query_has_indicator:
  "calculate_remix_penalty ascii_tables (str ''Block Rockin Beats (Micronauts Mix).mp3'')
     (str ''Block Rockin Beats Micronauts Mix'') = REMIX_PENALTY"
  by (rule requested_mix_penalised) code_simp+

lemma test_extended_bonus:
  "calculate_extended_bonus ascii_tables (str ''Track Name (Extended).mp3'') (str ''Track Name'') = EXTENDED_BONUS"
  "calculate_extended_bonus ascii_tables (str ''Track Name (Extended).mp3'') (str ''Track Name Extended'') = 0"
  by code_simp+

lemma test_original_beats_remix:
  "score_file ascii_tables (str ''Block Rockin Beats (Micronauts Mix).mp3'') 5000000 (Some 320)
     (str ''Block Rockin Beats'') (str ''Block Rockin Beats'')
   < score_file ascii_tables (str ''Block Rockin Beats.mp3'') 5000000 (Some 320)
     (str ''Block Rockin Beats'') (str ''Block Rockin Beats'')"
  by code_simp

lemma test_correct_remix_beats_wrong_remix:
  "score_file ascii_tables (str ''Block Rockin Beats (Souberian Edit).mp3'') 5000000 (Some 320)
     (str ''Block Rockin Beats Micronauts Mix'') (str ''Block Rockin Beats Micronauts Mix'')
   < score_file ascii_tables (str ''Block Rockin Beats (Micronauts Mix).mp3'') 5000000 (Some 320)
     (str ''Block Rockin Beats Micronauts Mix'') (str ''Block Rockin Beats Micronauts Mix'')"
  by code_simp

section \<open>Obfuscation and the wire\<close>

text \<open>The round trip is \<open>obfuscate_roundtrip\<close>, for every key.\<close>

lemma test_deobfuscate_short_data: "deobfuscate [1, 2, 3] = None"
  by (simp add: deobfuscate_def)

lemma test_encode_string: "encode_string (str ''test'') = [4, 0, 0, 0, 116, 101, 115, 116]"
  by code_simp

section \<open>Shares\<close>

lemma test_extract_words:
  "extract_words ascii_tables (str ''Artist - Track Name (Original Mix).flac'')
    = map str [''artist'', ''track'', ''name'', ''original'', ''mix'']"
  "extract_words ascii_tables (str ''some_track'') = map str [''some'', ''track'']"
  by code_simp+

section \<open>Discogs\<close>

lemma test_clean_artist_name:
  "map (\<lambda>n. clean_artist_name ascii_tables (str n))
     [''Aphex Twin (2)'', ''The Beatles (123)'', ''Aphex Twin'', ''Boards of Canada'', ''Four Tet (Remix)'',
      ''Air (French Band)'', ''  Aphex Twin (2)  '']
   = map str [''Aphex Twin'', ''The Beatles'', ''Aphex Twin'', ''Boards of Canada'', ''Four Tet (Remix)'',
      ''Air (French Band)'', ''Aphex Twin'']"
  by code_simp

lemma test_parse_duration_to_ms:
  "map (\<lambda>d. parse_duration_to_ms (str d)) [''5:23'', ''0:30'', ''12:00'', ''1:02:15'', ''0:05:30'', ''invalid'', '''', ''5'']
   = [Some 323000, Some 30000, Some 720000, Some 3735000, Some 330000, None, None, None]"
  by code_simp

section \<open>The tables\<close>

definition two_users :: accounts where
  "two_users = snd (create_user_verified (str ''user2'') (str ''hash2'') (str ''user'')
     (snd (create_user_verified (str ''user1'') (str ''hash1'') (str ''user'') accounts_empty)))"

definition test_db :: database where
  "test_db = empty_db (map (\<lambda>u. (us_id u, us_username u)) (ac_users two_users)) 0"

definition test_item :: "string \<Rightarrow> string \<Rightarrow> database \<Rightarrow> database" where
  "test_item name path db =
     snd (create_item (str name) (str ''q'') None None (str path) 1000 None None (str ''mp3'') (str ''u'') db)"

definition three_items :: database where
  "three_items = test_item ''3.mp3'' ''/tmp/3.mp3'' (test_item ''2.mp3'' ''/tmp/2.mp3''
     (test_item ''1.mp3'' ''/tmp/1.mp3'' test_db))"

lemma test_create_and_get_user:
  "map_option us_password_hash (get_user_by_username (str ''user1'') two_users) = Some (str ''hash1'')"
  by code_simp

lemma test_create_duplicate_user_fails:
  "\<not> is_ok (fst (create_user_verified (str ''user1'') (str ''hash2'') (str ''user'') two_users))"
  by code_simp

lemma test_create_and_get_item:
  "map_option (\<lambda>i. (it_filename i, it_file_size i)) (get_item 1 three_items) = Some (str ''1.mp3'', 1000)"
  by code_simp

lemma test_get_all_items: "length (get_all_items three_items) = 3"
  by code_simp

lemma test_update_item_status:
  "map_option (\<lambda>i. (it_status i, it_progress i)) (get_item 2 (update_item_status 2 ''completed'' 1 None three_items))
   = Some (''completed'', 1)"
  by code_simp

lemma test_batch_delete_items: "map it_id (get_all_items (delete_items [1, 2] three_items)) = [3]"
  by code_simp

lemma test_create_and_get_list:
  "map_option (\<lambda>l. (ls_name l, ls_total_items l)) (get_list 1 (snd (create_list (str ''My Playlist'') 1 5 test_db)))
   = Some (str ''My Playlist'', 5)"
  by code_simp

lemma test_add_item_to_list:
  "map it_filename (get_list_items 1 (snd (add_item_to_list 1 2 1 (snd (add_item_to_list 1 1 0
     (snd (create_list (str ''My List'') 1 2 three_items))))))) = [str ''1.mp3'', str ''2.mp3'']"
  by code_simp

lemma test_get_user_lists:
  "map (\<lambda>user. length (get_user_lists user (snd (create_list (str ''List 3'') 2 3 (snd (create_list (str ''List 2'') 1 2
     (snd (create_list (str ''List 1'') 1 1 test_db)))))))) [1, 2] = [2, 1]"
  by code_simp

end
