(* ===== verification/Spec2Isabelle.thy ===== *)
theory Spec2Isabelle
  imports
    Message_Types Obfuscation Messages Legacy_Connection
    File_Selection Sharing Peer_Protocol Upload Router Client Client_Properties Search_Sessions Direct_Download
    Database Queue_System Queue_Properties
    Accounts Account_Properties Avatars Verification_Mail
    Music_Search Metadata_Service Metadata_Properties Audio_Tags
    OAuth OAuth_Service Spotify_Provider Playlist_Imports OAuth_Properties
    Messaging Messaging_Properties
    Library_Api Library_Properties Service_Api Service_Properties Web_Socket Model_Views Accessors
    Start_Up Start_Up_Properties Port_Forwarding Unit_Tests
begin

text \<open>
  A verification development for the backend of Rinse, a server (Rust, \<open>src/src/\<close>) that searches and downloads
  music over the Soulseek network for the users of one instance, shares what it has with the network, and keeps a
  library with metadata, lists, messages between users and imports of playlists.

  \<^bold>\<open>The program.\<close> A browser talks to the HTTP handlers (\<open>api/\<close>) and has a WebSocket (\<open>api/ws.rs\<close>). A
  requested search becomes a row of the search queue (\<open>db/mod.rs\<close>). The worker of \<open>services/queue.rs\<close> claims
  rows and runs up to eight search tasks; a task asks the client (\<open>protocol/client.rs\<close>) for results, ranks them
  (\<open>protocol/file_selection.rs\<close>), records an item and starts a download from the best peer, keeping up to five
  candidates for a retry. The client holds one connection to the Soulseek server, shared by all tasks through
  \<open>protocol/router.rs\<close>, and connections to peers (\<open>protocol/peer.rs\<close>), whose messages are encoded in
  \<open>protocol/messages.rs\<close> and may be obfuscated (\<open>protocol/obfuscation.rs\<close>). A transfer that ends reports to
  the monitor of the queue, which marks the item, retries or gives up, updates the list and announces the event to
  the sockets. Peers search the share index (\<open>services/sharing.rs\<close>) and are served by the queue of uploads
  (\<open>services/upload.rs\<close>). Accounts, metadata, playlists and messages have tables, services and handlers of their
  own. \<open>main.rs\<close> puts the services together and repairs what the last run left.

  \<^bold>\<open>Theories.\<close>
    \<^item> Shared: \<open>Prelude\<close> (machine integers, \<open>outcome\<close> = \<open>Ok\<close>, \<open>Err\<close> or \<open>Panic\<close>, collections of
      facts), \<open>Rust_Strings\<close> (a \<open>String\<close> as its list of Unicode scalar values, UTF-8, the functions of
      \<open>std\<close>), \<open>Float64\<close> (\<open>f64\<close> as rationals rounded to 53 bits, ties to even), \<open>Wire\<close> (buffers,
      little-endian numbers, length-prefixed strings).
    \<^item> The network: \<open>Messages\<close> and \<open>Message_Types\<close> (messages.rs), \<open>Obfuscation\<close>, \<open>File_Selection\<close>,
      \<open>Sharing\<close>, \<open>Peer_Protocol\<close> (peer.rs), \<open>Upload\<close>, \<open>Router\<close>, \<open>Client\<close> with \<open>Client_Properties\<close>
      and \<open>Search_Sessions\<close> (client.rs, the searches that run at the same time), \<open>Direct_Download\<close> (the
      downloads of client.rs and peer.rs that wait for their file), \<open>Legacy_Connection\<close> (connection.rs, codec.rs).
    \<^item> The queue: \<open>Database\<close> (items, lists, search queue, history), \<open>Queue\<close> (every operation of queue.rs),
      \<open>Queue_System\<close> (its tasks, interleaved), \<open>Queue_Properties\<close>.
    \<^item> Users: \<open>Accounts\<close>, \<open>Account_Properties\<close>, \<open>Avatars\<close> (auth.rs, profile.rs, the users table),
      \<open>Verification_Mail\<close> (email.rs), \<open>Messaging\<close>, \<open>Messaging_Properties\<close> (direct_messages.rs,
      local_chat.rs, chat.rs).
    \<^item> Metadata: \<open>Music_Search\<close> (the four catalogues), \<open>Metadata_Service\<close>, \<open>Metadata_Properties\<close>,
      \<open>Audio_Tags\<close> (tags.rs).
    \<^item> Streaming services: \<open>OAuth\<close>, \<open>OAuth_Service\<close>, \<open>Spotify_Provider\<close>, \<open>Playlist_Imports\<close>,
      \<open>OAuth_Properties\<close>.
    \<^item> The interface: \<open>Library_Api\<close>, \<open>Library_Properties\<close> (download.rs, items.rs, lists.rs, cover.rs,
      admin.rs, cover_cache.rs), \<open>Service_Api\<close>, \<open>Service_Properties\<close> (api/queue.rs, api/uploads.rs),
      \<open>Web_Socket\<close>, \<open>Model_Views\<close> (models/mod.rs, fuzzy.rs), \<open>Accessors\<close>.
    \<^item> The start: \<open>Start_Up\<close>, \<open>Start_Up_Properties\<close> (main.rs), \<open>Port_Forwarding\<close> (upnp.rs).
    \<^item> \<open>Unit_Tests\<close>: the tests of the repository, evaluated on the model.

  \<^bold>\<open>How the code is read.\<close> A struct is a record, an enum a datatype, an integer that may wrap a word of its
  width; ids, counters of columns and times are numbers, with the casts written out (\<open>as_i32\<close>). A handler is a
  function from the state of its service to its answer and the new state, in the order of the code, every early
  return included. A \<open>Result\<close> is an \<open>outcome\<close>; an \<open>unwrap\<close> of nothing, a read past a buffer and a cut
  inside a character are \<open>Panic\<close>. A table is the list of its rows with the counter of its ids; a statement is a
  function on it, errors of constraints included; a \<open>SUM\<close> over no rows, which is NULL, is read as 0. A TCP
  connection is what the other side still sends, whether it then closes or falls silent, and what was written. Tasks that share state are step relations
  (\<open>queue_step\<close>, \<open>db_step\<close>, \<open>upload_step\<close>, \<open>router_step\<close>, \<open>client_step\<close>, \<open>search_step\<close>,
  \<open>account_step\<close>, \<open>messaging_step\<close>, \<open>oauth_step\<close>, \<open>import_step\<close>) with their reachable states.

  \<^bold>\<open>Parameters.\<close> Code that is not in the repository is an argument: zlib, the Unicode tables, bcrypt, the
  signature of tokens, AES-GCM, HKDF, SHA-256 and the encodings, random bytes, the fuzzy score, the image and tag
  libraries, the mail library, the gateway, the answers of HTTP services, the file system, the clock, and what peers
  and the server send. Where a property relies on such code, the law is a hypothesis (inflating gives back what was
  deflated), and the witness gives an instance. Nothing is assumed of the tag library: the property of
  \<open>Audio_Tags\<close> is about the calls made and about what the tag that was read holds.

  \<^bold>\<open>Interfaces.\<close> What one component promises another is a locale, interpreted on the model: \<open>keyed_table\<close>
  (the tables with an id: items, lists, searches), \<open>postings\<close> (the word index of the shares), \<open>rounding\<close> (the
  \<open>f64\<close> of the scores), \<open>service_invariant\<close> and its extension \<open>system_invariant\<close> (an invariant of the
  queue that the statements, the events and the shares keep, lifted to all interleavings; interpreted for the schema,
  the candidates and the shares), \<open>router_invariant\<close>, \<open>kept_by_handlers\<close> and its extension
  \<open>table_invariant\<close> (invariants of the users table: its constraints, an administrator, the paths of the
  pictures, the presence of a user), \<open>cursor_paging\<close> (conversations and the chat), \<open>best_choice\<close> (the choice
  among the results of MusicBrainz and of Discogs).

  \<^bold>\<open>What is shown.\<close>
    \<^item> The queue: in every interleaving at most eight tasks, five candidates per search, a sound schema and share
      index; what a finished and a failed transfer leave; the status of a list is what its items and searches say.
    \<^item> The network: requests, search responses and obfuscated messages are read back; decoded messages are well
      typed; the reader of the server is independent of how the stream is cut; a transfer gives the file; a search
      of the shares is the search of all names; the ranking; concurrent searches do not mix; uploads keep to their
      slots; when the throttle lets a piece through; how a download ends; the waiting download agrees with that of
      the queue, the old connection with the client.
    \<^item> Users: the constraints of the table; the mailed link verifies; the picture shown is the one uploaded;
      conversations and their pages.
    \<^item> Metadata: which catalogue a field and the cover come from, and what is stored and written to the file; the
      scan ends, looks up every item once and the newest first (\<open>md_lookups\<close> records the lookups,
      \<open>md_tag_writes\<close> the metadata handed to the tags); the spacing of calls; what is written to a tag is what is
      read of it.
    \<^item> Streaming services: constraints under all interleavings of the statements; a callback needs a state of the
      same user; the paging through a playlist ends with every track.
    \<^item> The interface: byte ranges make up the file; what a socket is sent; who may delete and read what.
    \<^item> The start: nothing is half done after it, and there is an administrator; private messages reach the sockets.
  Some properties state what the code does where that is not what it means to do: an accepted upload request fails
  the downloader, direct messages go to every socket, deleting needs no token. The lemmas \<open>overlapping_starts\<close>
  (two pending states of one user and service, from two starts at the same time), \<open>disabled_never_indexed\<close>,
  \<open>indirect_token_unchecked\<close>, \<open>name_unescaped\<close>, \<open>open_for_an_hour\<close>, \<open>reported_without_mapping\<close>,
  \<open>anyone_cancels\<close>, \<open>other_item_statuses\<close> and \<open>requested_mix_penalised\<close> are of this kind too.

  \<^bold>\<open>Grain of the steps.\<close> A search task of the queue is cut where it waits for the network (\<open>Queue_System\<close>); the
  schema is kept by every single statement in any order (\<open>db_step\<close>), as are the tables of the streaming services
  (\<open>oauth_step\<close>), where a handler is a sequence of statements. Idealised: the parts of a search task between its
  waits are one step; a request of \<open>account_step\<close> and \<open>messaging_step\<close> is one step, so that the statements
  of two such requests do not mix (the race between two administrators is stated apart); a search begins with a token that is not in use, where
  the code draws 32 random bits; a sleep takes exactly its time, where tokio promises at least that.

  \<^bold>\<open>Loops and bounds.\<close> Loops over data are structural recursions. \<open>router_read\<close> recurses on the bytes left
  (each message takes at least four). The wait for a message before a deadline takes the number of messages that
  arrive in time, or the list of events; running out is the timeout, so every number is a behaviour of the code.
  Fetching a playlist (\<open>all_pages\<close>) may not end for an arbitrary service and is a \<open>partial_function\<close> into
  \<open>option\<close>; that it ends is proved. Waiting for the throttle is stated over the times of its rounds. The retry of
  a search, its five candidates and the limits of the handlers are those of the code.

  \<^bold>\<open>Not modelled.\<close> The inside of SQLite (its errors other than constraints, the pool, the migrations as such,
  and what deleting a user or a list does to the rows of playlist imports by cascade); opening
  sockets and the runtime of tokio beyond the interleaving of steps; decoding and scaling of pictures; JSON, the
  parsing of routes and of requests by axum; logging; the page with credits (attribution.rs) and the health check;
  \<open>acoustid.rs\<close> and \<open>essentia.rs\<close>, whose operations are \<open>unimplemented!()\<close>; the test program of
  \<open>bin/test_env.rs\<close>. Scores stay in the range where the rounding of \<open>f64\<close> has neither
  overflow nor subnormal results.
\<close>

end
